(* ===== verification/Prelude.thy ===== *)
theory Prelude
  imports Main "HOL-Library.List_Lexorder" "HOL-Library.Char_ord" "HOL-Library.Product_Lexorder"
begin

text \<open>
  What every component of the model shares.

  \<^item> The monad \<open>act\<close>: a computation over an explicit state that either returns a value or an
    error and hands the state on in both cases. A Go function of type \<open>func(...) (T, error)\<close> that
    works inside a database transaction becomes an \<open>act\<close>; an early \<open>return err\<close> is \<open>raise\<close>.
  \<^item> \<open>run_iffs\<close>: the equations that take a successful run apart
    (\<open>m s = (Inr x, s')\<close>) into the runs of its parts; the proofs about handlers start with them.
  \<^item> \<open>via\<close>: a computation is a sequence of steps of a relation, whether it returns or fails; the
    introduction rules are collected in \<open>via_intros\<close>.
  \<^item> The parts of the Go standard library the code uses on strings (byte strings here) and on
    64-bit integers.
\<close>

named_theorems run_iffs "a successful run in terms of the runs of its parts"
named_theorems via_intros "introduction rules for via"

section \<open>Computations over a state that may fail\<close>

type_synonym ('s, 'e, 'a) act = "'s \<Rightarrow> ('e + 'a) \<times> 's"

definition ret :: "'a \<Rightarrow> ('s, 'e, 'a) act" where
  "ret x = (\<lambda>s. (Inr x, s))"

definition raise :: "'e \<Rightarrow> ('s, 'e, 'a) act" where
  "raise e = (\<lambda>s. (Inl e, s))"

definition andThen :: "('s, 'e, 'a) act \<Rightarrow> ('a \<Rightarrow> ('s, 'e, 'b) act) \<Rightarrow> ('s, 'e, 'b) act" where
  "andThen m f = (\<lambda>s. case m s of (Inl e, t) \<Rightarrow> (Inl e, t) | (Inr x, t) \<Rightarrow> f x t)"

text \<open>A pure computation that may fail, with no access to the state.\<close>

definition pureA :: "'e + 'a \<Rightarrow> ('s, 'e, 'a) act" where
  "pureA r = (\<lambda>s. (r, s))"

definition reads :: "('s \<Rightarrow> 'a) \<Rightarrow> ('s, 'e, 'a) act" where
  "reads f = (\<lambda>s. (Inr (f s), s))"

definition writes :: "('s \<Rightarrow> 's) \<Rightarrow> ('s, 'e, unit) act" where
  "writes f = (\<lambda>s. (Inr (), f s))"

text \<open>
  \<open>attempt m\<close> runs \<open>m\<close> and hands its outcome on as a value: the Go code that looks at the
  error of a call instead of returning it.
\<close>

definition attempt :: "('s, 'e, 'a) act \<Rightarrow> ('s, 'e, 'e + 'a) act" where
  "attempt m = (\<lambda>s. case m s of (r, t) \<Rightarrow> (Inr r, t))"

primrec forEach :: "'x list \<Rightarrow> ('x \<Rightarrow> ('s, 'e, unit) act) \<Rightarrow> ('s, 'e, unit) act" where
  "forEach [] f = ret ()"
| "forEach (x # xs) f = andThen (f x) (\<lambda>_. forEach xs f)"

primrec foldEach :: "'x list \<Rightarrow> 'a \<Rightarrow> ('x \<Rightarrow> 'a \<Rightarrow> ('s, 'e, 'a) act) \<Rightarrow> ('s, 'e, 'a) act" where
  "foldEach [] a f = ret a"
| "foldEach (x # xs) a f = andThen (f x a) (\<lambda>b. foldEach xs b f)"

text \<open>Replaces whatever error a call returns: \<open>if e != nil { return notFound() }\<close>.\<close>

definition orElse :: "('s, 'e, 'a) act \<Rightarrow> 'e \<Rightarrow> ('s, 'e, 'a) act" where
  "orElse m e = (\<lambda>s. case m s of (Inl _, t) \<Rightarrow> (Inl e, t) | (Inr x, t) \<Rightarrow> (Inr x, t))"

subsection \<open>Successful runs\<close>

lemma ret_run [run_iffs, simp]: "ret x s = (Inr y, t) \<longleftrightarrow> x = y \<and> t = s"
  by (auto simp: ret_def)

lemma ret_not_Inl [simp]: "ret x s \<noteq> (Inl e, t)"
  by (simp add: ret_def)

lemma raise_run [run_iffs, simp]: "raise e s = (Inr y, t) \<longleftrightarrow> False"
  by (simp add: raise_def)

lemma raise_fails [simp]: "raise e s = (Inl e', t) \<longleftrightarrow> e = e' \<and> t = s"
  by (auto simp: raise_def)

lemma andThen_run [run_iffs]:
  "andThen m f s = (Inr y, t) \<longleftrightarrow> (\<exists>x u. m s = (Inr x, u) \<and> f x u = (Inr y, t))"
  by (auto simp: andThen_def split: prod.splits sum.splits)

lemma andThen_fails:
  "andThen m f s = (Inl e, t) \<longleftrightarrow> m s = (Inl e, t) \<or> (\<exists>x u. m s = (Inr x, u) \<and> f x u = (Inl e, t))"
  by (auto simp: andThen_def split: prod.splits sum.splits)

lemma pureA_run [run_iffs]: "pureA r s = (Inr y, t) \<longleftrightarrow> r = Inr y \<and> t = s"
  by (auto simp: pureA_def)

lemma reads_run [run_iffs]: "reads f s = (Inr y, t) \<longleftrightarrow> y = f s \<and> t = s"
  by (auto simp: reads_def)

lemma writes_run [run_iffs]: "writes f s = (Inr y, t) \<longleftrightarrow> t = f s"
  by (auto simp: writes_def)

lemma attempt_run [run_iffs]: "attempt m s = (Inr r, t) \<longleftrightarrow> m s = (r, t)"
  by (auto simp: attempt_def split: prod.splits)

lemma orElse_run [run_iffs]: "orElse m e s = (Inr y, t) \<longleftrightarrow> m s = (Inr y, t)"
  by (auto simp: orElse_def split: prod.splits sum.splits)

lemma if_run [run_iffs]:
  "(if c then m else n) s = (Inr y, t) \<longleftrightarrow> (if c then m s = (Inr y, t) else n s = (Inr y, t))"
  by simp

lemma if_raise_run [run_iffs]:
  "(if c then raise e else n) s = (Inr y, t) \<longleftrightarrow> \<not> c \<and> n s = (Inr y, t)"
  by (auto simp: raise_def)

lemma case_option_run [run_iffs]:
  "(case o' of None \<Rightarrow> m | Some x \<Rightarrow> f x) s = (Inr y, t) \<longleftrightarrow>
   (o' = None \<and> m s = (Inr y, t)) \<or> (\<exists>x. o' = Some x \<and> f x s = (Inr y, t))"
  by (auto split: option.splits)

lemma forEach_Nil_run [run_iffs]: "forEach [] f s = (Inr y, t) \<longleftrightarrow> t = s"
  by simp

lemma forEach_Cons_run [run_iffs]:
  "forEach (x # xs) f s = (Inr y, t) \<longleftrightarrow> (\<exists>u. f x s = (Inr (), u) \<and> forEach xs f u = (Inr y, t))"
  by (simp add: andThen_run)

subsection \<open>Computations as sequences of steps\<close>

text \<open>
  \<open>via R m\<close>: running \<open>m\<close>, whether it returns or fails, is a sequence of \<open>R\<close> steps. The rules in
  \<open>via_intros\<close> derive it from the text of a computation; what every step keeps, \<open>m\<close> keeps.
\<close>

definition via :: "('s \<Rightarrow> 's \<Rightarrow> bool) \<Rightarrow> ('s, 'e, 'a) act \<Rightarrow> bool" where
  "via R m \<longleftrightarrow> (\<forall>s. R\<^sup>*\<^sup>* s (snd (m s)))"

lemma viaD: "via R m \<Longrightarrow> m s = (r, t) \<Longrightarrow> R\<^sup>*\<^sup>* s t"
  unfolding via_def by (metis snd_conv)

lemma via_keeps:
  assumes "via R m" and "m s = (r, t)" and "P s" and "\<And>u v. R u v \<Longrightarrow> P u \<Longrightarrow> P v"
  shows "P t"
  using viaD [OF assms(1,2)] assms(3) by (induction rule: rtranclp_induct) (auto intro: assms(4))

lemma via_same [via_intros]: "via R (ret x)" "via R (raise e)" "via R (pureA r)" "via R (reads f)"
  by (simp_all add: via_def ret_def raise_def pureA_def reads_def)

lemma via_andThen [via_intros]:
  assumes "via R m" and "\<And>x. via R (f x)"
  shows "via R (andThen m f)"
proof (unfold via_def, intro allI)
  fix s
  obtain r t where m: "m s = (r, t)" by (cases "m s")
  with assms(1) have a: "R\<^sup>*\<^sup>* s t" by (rule viaD)
  show "R\<^sup>*\<^sup>* s (snd (andThen m f s))"
  proof (cases r)
    case (Inr x)
    have "R\<^sup>*\<^sup>* t (snd (f x t))" using assms(2) by (simp add: via_def)
    with a m Inr show ?thesis by (simp add: andThen_def)
  qed (use a m in \<open>simp add: andThen_def\<close>)
qed

lemma via_attempt [via_intros]: "via R m \<Longrightarrow> via R (attempt m)"
  by (simp add: via_def attempt_def split: prod.splits) (metis snd_conv)

lemma via_orElse [via_intros]: "via R m \<Longrightarrow> via R (orElse m e)"
  by (simp add: via_def orElse_def split: prod.splits sum.splits) (metis snd_conv)

lemma via_if [via_intros]: "via R m \<Longrightarrow> via R n \<Longrightarrow> via R (if c then m else n)"
  by simp

lemma via_cases [via_intros]:
  "via R m \<Longrightarrow> (\<And>x. via R (f x)) \<Longrightarrow> via R (case o' of None \<Rightarrow> m | Some x \<Rightarrow> f x)"
  "(\<And>x y. via R (g x y)) \<Longrightarrow> via R (case p of (x, y) \<Rightarrow> g x y)"
  "(\<And>x. via R (i x)) \<Longrightarrow> (\<And>x. via R (k x)) \<Longrightarrow> via R (case r of Inl x \<Rightarrow> i x | Inr x \<Rightarrow> k x)"
  "via R m \<Longrightarrow> (\<And>x xs. via R (l x xs)) \<Longrightarrow> via R (case q of [] \<Rightarrow> m | x # xs \<Rightarrow> l x xs)"
  "(\<And>x. via R (j x)) \<Longrightarrow> via R (let x = v in j x)"
  by (simp_all split: option.splits prod.splits sum.splits list.splits)

lemma via_forEach [via_intros]: "(\<And>x. via R (f x)) \<Longrightarrow> via R (forEach xs f)"
  by (induction xs) (auto intro: via_intros)

lemma via_foldEach [via_intros]: "(\<And>x a. via R (f x a)) \<Longrightarrow> via R (foldEach xs a f)"
  by (induction xs arbitrary: a) (auto intro: via_intros)

lemma via_one:
  assumes "\<And>s r t. m s = (r, t) \<Longrightarrow> R s t \<or> t = s"
  shows "via R m"
  unfolding via_def using assms by (metis prod.collapse r_into_rtranclp rtranclp.rtrancl_refl)

lemma via_unchanged: "(\<And>s. snd (m s) = s) \<Longrightarrow> via R m"
  by (simp add: via_def)

section \<open>64-bit integers\<close>

text \<open>
  Go's \<open>int\<close>, \<open>int64\<close> and \<open>time.Duration\<close> are 64 bits wide and wrap around. They are modelled as
  \<open>int\<close>; \<open>i64\<close> is the wrap-around, written where the code computes a product or a sum that the
  preceding checks do not bound on their face.
\<close>

definition i64 :: "int \<Rightarrow> int" where
  "i64 n = signed_take_bit 63 n"

lemma i64_small [simp]: "- (2 ^ 63) \<le> n \<Longrightarrow> n < 2 ^ 63 \<Longrightarrow> i64 n = n"
  unfolding i64_def by (rule signed_take_bit_int_eq_self) auto

lemma i64_range: "- (2 ^ 63) \<le> i64 n \<and> i64 n < 2 ^ 63"
  unfolding i64_def
  using signed_take_bit_int_greater_eq_minus_exp [of 63 n] signed_take_bit_int_less_exp [of 63 n]
  by simp

text \<open>Go's integer division truncates towards zero.\<close>

definition go_div :: "int \<Rightarrow> int \<Rightarrow> int" where
  "go_div a b = sgn a * sgn b * (\<bar>a\<bar> div \<bar>b\<bar>)"

lemma go_div_nonneg: "0 \<le> a \<Longrightarrow> 0 < b \<Longrightarrow> go_div a b = a div b"
  by (cases "a = 0") (auto simp: go_div_def sgn_if)

end
