(* ===== verification/Golib.thy ===== *)
theory Golib
  imports Prelude "HOL-Library.Sublist"
begin

text \<open>
  The parts of the Go standard library that the licensing code uses on byte strings, encodings
  and instants. A Go string is a list of bytes (\<open>string\<close>), so \<open>len\<close> is \<open>length\<close>. An instant
  (\<open>time.Time\<close>, always UTC in this program) is the number of nanoseconds since the Unix epoch.
\<close>

section \<open>Strings\<close>

definition is_ascii :: "string \<Rightarrow> bool" where
  "is_ascii s \<longleftrightarrow> list_all (\<lambda>c. (of_char c :: nat) < 128) s"

definition upper_char :: "char \<Rightarrow> char" where
  "upper_char c = (let n = of_char c :: nat in if 97 \<le> n \<and> n \<le> 122 then char_of (n - 32) else c)"

definition lower_char :: "char \<Rightarrow> char" where
  "lower_char c = (let n = of_char c :: nat in if 65 \<le> n \<and> n \<le> 90 then char_of (n + 32) else c)"

definition char_in :: "nat \<Rightarrow> nat \<Rightarrow> char \<Rightarrow> bool" where
  "char_in lo hi c \<longleftrightarrow> lo \<le> (of_char c :: nat) \<and> (of_char c :: nat) \<le> hi"

abbreviation is_digit :: "char \<Rightarrow> bool" where "is_digit \<equiv> char_in 48 57"
abbreviation is_lower :: "char \<Rightarrow> bool" where "is_lower \<equiv> char_in 97 122"
abbreviation is_upper :: "char \<Rightarrow> bool" where "is_upper \<equiv> char_in 65 90"

text \<open>\<open>strings.TrimPrefix\<close>, \<open>strings.TrimSuffix\<close>, \<open>strings.Contains\<close>, \<open>strings.ContainsAny\<close>.\<close>

definition trim_prefix :: "string \<Rightarrow> string \<Rightarrow> string" where
  "trim_prefix s p = (if prefix p s then drop (length p) s else s)"

definition trim_suffix :: "string \<Rightarrow> string \<Rightarrow> string" where
  "trim_suffix s p = (if suffix p s then take (length s - length p) s else s)"

fun contains_sub :: "string \<Rightarrow> string \<Rightarrow> bool" where
  "contains_sub [] p \<longleftrightarrow> p = []"
| "contains_sub (c # s) p \<longleftrightarrow> prefix p (c # s) \<or> contains_sub s p"

definition contains_any :: "string \<Rightarrow> string \<Rightarrow> bool" where
  "contains_any s cs \<longleftrightarrow> list_ex (\<lambda>c. c \<in> set cs) s"

text \<open>\<open>strings.Split(s, sep)\<close> for a one-byte separator, and \<open>strings.Join\<close>.\<close>

fun split_on :: "char \<Rightarrow> string \<Rightarrow> string list" where
  "split_on d [] = [[]]"
| "split_on d (c # s) =
     (if c = d then [] # split_on d s
      else case split_on d s of [] \<Rightarrow> [[c]] | w # ws \<Rightarrow> (c # w) # ws)"

fun join_with :: "string \<Rightarrow> string list \<Rightarrow> string" where
  "join_with d [] = []"
| "join_with d [w] = w"
| "join_with d (w # v # ws) = w @ d @ join_with d (v # ws)"

lemma split_on_nonempty [simp]: "split_on d s \<noteq> []"
  by (induction s) (auto split: list.splits)

lemma join_with_Cons: "ws \<noteq> [] \<Longrightarrow> join_with d (w # ws) = w @ d @ join_with d ws"
  by (cases ws) auto

lemma join_with_hd: "join_with d ((c # w) # ws) = c # join_with d (w # ws)"
  by (cases ws) auto

lemma join_split: "join_with [d] (split_on d s) = s"
  by (induction s) (auto split: list.splits simp: join_with_hd join_with_Cons)

lemma split_on_no_sep: "\<forall>w \<in> set (split_on d s). d \<notin> set w"
  by (induction s) (auto split: list.splits)

lemma split_on_free: "d \<notin> set s \<Longrightarrow> split_on d s = [s]"
  by (induction s) auto

lemma split_on_append: "d \<notin> set w \<Longrightarrow> split_on d (w @ d # s) = w # split_on d s"
  by (induction w) auto

lemma split_join:
  "\<forall>w \<in> set ws. d \<notin> set w \<Longrightarrow> ws \<noteq> [] \<Longrightarrow> split_on d (join_with [d] ws) = ws"
  by (induction "[d]" ws rule: join_with.induct) (auto simp: split_on_free split_on_append)

subsection \<open>White space\<close>

text \<open>
  \<open>strings.TrimSpace\<close> removes the Unicode white space characters at both ends. In UTF-8 they are
  the byte sequences below (U+0009 to U+000D, U+0020, U+0085, U+00A0, U+1680, U+2000 to U+200A,
  U+2028, U+2029, U+202F, U+205F, U+3000); the first byte of each is never a continuation byte,
  so testing for a sequence at either end is the same as decoding the rune there.
\<close>

definition white_space :: "string list" where
  "white_space =
     map (\<lambda>n. [char_of n]) [9, 10, 11, 12, 13, 32 :: nat] @
     [[CHR 0xC2, CHR 0x85], [CHR 0xC2, CHR 0xA0], [CHR 0xE1, CHR 0x9A, CHR 0x80]] @
     map (\<lambda>n. [CHR 0xE2, CHR 0x80, char_of n])
       [128, 129, 130, 131, 132, 133, 134, 135, 136, 137, 138, 168, 169, 175 :: nat] @
     [[CHR 0xE2, CHR 0x81, CHR 0x9F], [CHR 0xE3, CHR 0x80, CHR 0x80]]"

lemma white_space_nonempty: "w \<in> set white_space \<Longrightarrow> w \<noteq> []"
  by (auto simp: white_space_def)

function strip_left :: "string list \<Rightarrow> string \<Rightarrow> string" where
  "strip_left ws s =
     (case List.find (\<lambda>w. w \<noteq> [] \<and> prefix w s) ws of
        None \<Rightarrow> s
      | Some w \<Rightarrow> strip_left ws (drop (length w) s))"
  by pat_completeness auto
termination
  by (relation "measure (\<lambda>(ws, s). length s)") (auto simp: find_Some_iff prefix_def)

declare strip_left.simps [simp del]

definition trim_space :: "string \<Rightarrow> string" where
  "trim_space s = rev (strip_left (map rev white_space) (rev (strip_left white_space s)))"

lemma strip_left_suffix: "suffix (strip_left ws s) s"
proof (induction ws s rule: strip_left.induct)
  case (1 ws s)
  show ?case
  proof (cases "List.find (\<lambda>w. w \<noteq> [] \<and> prefix w s) ws")
    case None
    then show ?thesis by (subst strip_left.simps) simp
  next
    case (Some w)
    then have "suffix (strip_left ws (drop (length w) s)) (drop (length w) s)"
      using "1.IH" by simp
    with Some show ?thesis
      by (subst strip_left.simps) (auto intro: suffix_order.trans suffix_drop)
  qed
qed

lemma strip_left_clean: "w \<in> set ws \<Longrightarrow> w \<noteq> [] \<Longrightarrow> \<not> prefix w (strip_left ws s)"
proof (induction ws s rule: strip_left.induct)
  case (1 ws s)
  then show ?case
    by (subst strip_left.simps) (auto split: option.splits simp: find_None_iff)
qed

lemma strip_left_id: "(\<And>w. w \<in> set ws \<Longrightarrow> w \<noteq> [] \<Longrightarrow> \<not> prefix w s) \<Longrightarrow> strip_left ws s = s"
  by (subst strip_left.simps) (auto split: option.splits simp: find_Some_iff)

lemma trim_space_clean:
  assumes "w \<in> set white_space"
  shows "\<not> prefix w (trim_space s)" and "\<not> suffix w (trim_space s)"
proof -
  have ne: "w \<noteq> []" using assms by (rule white_space_nonempty)
  let ?l = "strip_left white_space s"
  have "suffix (strip_left (map rev white_space) (rev ?l)) (rev ?l)"
    by (rule strip_left_suffix)
  then have "prefix (trim_space s) ?l"
    by (simp add: trim_space_def suffix_to_prefix)
  moreover have "\<not> prefix w ?l"
    using assms ne by (rule strip_left_clean)
  ultimately show "\<not> prefix w (trim_space s)"
    by (auto intro: prefix_order.trans)
  show "\<not> suffix w (trim_space s)"
    using strip_left_clean [of "rev w" "map rev white_space" "rev ?l"] assms ne
    by (simp add: trim_space_def suffix_to_prefix)
qed

lemma trim_space_idem [simp]: "trim_space (trim_space s) = trim_space s"
proof -
  let ?t = "trim_space s"
  have "strip_left white_space ?t = ?t"
    by (rule strip_left_id) (auto dest: trim_space_clean)
  moreover have "strip_left (map rev white_space) (rev ?t) = rev ?t"
    by (rule strip_left_id) (auto simp: suffix_to_prefix [symmetric] dest: trim_space_clean(2))
  ultimately show ?thesis
    unfolding trim_space_def [of ?t] by simp
qed

lemma trim_space_Nil [simp]: "trim_space [] = []"
  by (simp add: trim_space_def strip_left_id prefix_def)

lemma length_trim_space: "length (trim_space s) \<le> length s"
proof -
  have a: "length (strip_left ws t) \<le> length t" for ws t
    by (rule suffix_length_le [OF strip_left_suffix])
  have "length (trim_space s) \<le> length (strip_left white_space s)"
    unfolding trim_space_def using a [of _ "rev (strip_left white_space s)"] by simp
  also have "\<dots> \<le> length s" by (rule a)
  finally show ?thesis .
qed

subsection \<open>Decimal numbers\<close>

fun nat_digits :: "nat \<Rightarrow> string" where
  "nat_digits n = (if n < 10 then [char_of (48 + n)] else nat_digits (n div 10) @ [char_of (48 + n mod 10)])"

declare nat_digits.simps [simp del]

text \<open>\<open>strconv.Itoa\<close> and \<open>strconv.FormatInt(n, 10)\<close>.\<close>

definition itoa :: "int \<Rightarrow> string" where
  "itoa n = (if n < 0 then CHR ''-'' # nat_digits (nat (- n)) else nat_digits (nat n))"

text \<open>The value of a string of decimal digits (\<open>strconv.Atoi\<close> on such a string).\<close>

definition digits_value :: "string \<Rightarrow> int" where
  "digits_value s = foldl (\<lambda>n c. 10 * n + (of_char c - 48)) 0 s"

definition pad_zeros :: "nat \<Rightarrow> string \<Rightarrow> string" where
  "pad_zeros k s = replicate (k - length s) (CHR ''0'') @ s"

section \<open>Bit-group encodings: hex, base32, base64url\<close>

primrec nat_bits :: "nat \<Rightarrow> nat \<Rightarrow> bool list" where
  "nat_bits 0 n = []"
| "nat_bits (Suc k) n = nat_bits k (n div 2) @ [odd n]"

definition byte_bits :: "char \<Rightarrow> bool list" where
  "byte_bits c = nat_bits 8 (of_char c)"

definition bits_nat :: "bool list \<Rightarrow> nat" where
  "bits_nat bs = foldl (\<lambda>n b. 2 * n + of_bool b) 0 bs"

text \<open>Cuts a bit string into groups of \<open>k\<close> bits, the last one filled up with zeros.\<close>

function bit_groups :: "nat \<Rightarrow> bool list \<Rightarrow> bool list list" where
  "bit_groups k bs =
     (if bs = [] \<or> k = 0 then []
      else (take k bs @ replicate (k - length bs) False) # bit_groups k (drop k bs))"
  by pat_completeness auto
termination
  by (relation "measure (\<lambda>(k, bs). length bs)") auto

declare bit_groups.simps [simp del]

definition encode_groups :: "nat \<Rightarrow> string \<Rightarrow> string \<Rightarrow> string" where
  "encode_groups k alphabet bytes =
     map (\<lambda>g. alphabet ! bits_nat g) (bit_groups k (concat (map byte_bits bytes)))"

definition hex_alphabet :: string where "hex_alphabet = ''0123456789abcdef''"
definition base32_alphabet :: string where "base32_alphabet = ''abcdefghijklmnopqrstuvwxyz234567''"
definition base64_alphabet :: string where
  "base64_alphabet = ''ABCDEFGHIJKLMNOPQRSTUVWXYZabcdefghijklmnopqrstuvwxyz0123456789-_''"

text \<open>\<open>hex.EncodeToString\<close>; \<open>base32.StdEncoding\<close> without padding, in lower case;
  \<open>base64.RawURLEncoding\<close>.\<close>

definition hex_encode :: "string \<Rightarrow> string" where
  "hex_encode = encode_groups 4 hex_alphabet"

definition base32_lower :: "string \<Rightarrow> string" where
  "base32_lower = encode_groups 5 base32_alphabet"

definition b64_encode :: "string \<Rightarrow> string" where
  "b64_encode = encode_groups 6 base64_alphabet"

fun index_of :: "'a \<Rightarrow> 'a list \<Rightarrow> nat option" where
  "index_of x [] = None"
| "index_of x (y # ys) = (if x = y then Some 0 else map_option Suc (index_of x ys))"

text \<open>
  \<open>RawURLEncoding.DecodeString\<close>: the decoder skips line breaks, refuses other bytes and a
  single left-over character; \<open>Strict()\<close> also refuses left-over bits that are not zero.
\<close>

definition b64_decode :: "bool \<Rightarrow> string \<Rightarrow> string option" where
  "b64_decode strict s =
     (let t = filter (\<lambda>c. c \<noteq> CHR 0x0A \<and> c \<noteq> CHR 0x0D) s in
      if length t mod 4 = 1 then None
      else case those (map (\<lambda>c. index_of c base64_alphabet) t) of
          None \<Rightarrow> None
        | Some ns \<Rightarrow>
            (let bs = concat (map (nat_bits 6) ns); n = length bs div 8 * 8 in
             if strict \<and> list_ex id (drop n bs) then None
             else Some (map (\<lambda>g. char_of (bits_nat g)) (bit_groups 8 (take n bs)))))"

subsection \<open>Decoding undoes encoding\<close>

lemma bit_groups_Nil [simp]: "bit_groups k [] = []"
  by (simp add: bit_groups.simps)

lemma bit_groups_append:
  "length g = k \<Longrightarrow> 0 < k \<Longrightarrow> bit_groups k (g @ bs) = g # bit_groups k bs"
  by (subst bit_groups.simps) auto

lemma bit_groups_concat:
  "0 < k \<Longrightarrow> list_all (\<lambda>g. length g = k) gs \<Longrightarrow> bit_groups k (concat gs) = gs"
  by (induction gs) (auto simp: bit_groups_append)

lemma bit_groups_length: "0 < k \<Longrightarrow> list_all (\<lambda>g. length g = k) (bit_groups k bs)"
proof (induction k bs rule: bit_groups.induct)
  case (1 k bs)
  then show ?case by (subst bit_groups.simps) auto
qed

lemma concat_bit_groups: "0 < k \<Longrightarrow> \<exists>m < k. concat (bit_groups k bs) = bs @ replicate m False"
proof (induction k bs rule: bit_groups.induct)
  case (1 k bs)
  show ?case
  proof (cases "length bs \<le> k")
    case True
    then have "bs \<noteq> [] \<Longrightarrow> concat (bit_groups k bs) = bs @ replicate (k - length bs) False"
      using "1.prems" by (simp add: bit_groups.simps [of k bs])
    with True "1.prems" show ?thesis
      by (cases "bs = []") (auto intro!: exI [of _ "k - length bs"])
  next
    case False
    then have ne: "\<not> (bs = [] \<or> k = 0)" using "1.prems" by auto
    obtain m where m: "m < k" "concat (bit_groups k (drop k bs)) = drop k bs @ replicate m False"
      using "1.IH" [OF ne "1.prems"] by auto
    have "concat (bit_groups k bs) = bs @ replicate m False"
      using ne False m(2) by (subst bit_groups.simps) (simp add: append_assoc [symmetric])
    with m(1) show ?thesis by blast
  qed
qed

lemma bits_nat_snoc [simp]: "bits_nat (bs @ [b]) = 2 * bits_nat bs + of_bool b"
  by (simp add: bits_nat_def)

lemma bits_nat_Nil [simp]: "bits_nat [] = 0"
  by (simp add: bits_nat_def)

lemma bits_nat_less: "bits_nat bs < 2 ^ length bs"
  by (induction bs rule: rev_induct) auto

lemma nat_bits_bits_nat: "nat_bits (length bs) (bits_nat bs) = bs"
  by (induction bs rule: rev_induct) auto

lemma length_nat_bits [simp]: "length (nat_bits k n) = k"
  by (induction k arbitrary: n) auto

lemma bits_nat_nat_bits: "n < 2 ^ k \<Longrightarrow> bits_nat (nat_bits k n) = n"
proof (induction k arbitrary: n)
  case (Suc k)
  then have "bits_nat (nat_bits k (n div 2)) = n div 2" by simp
  then show ?case by simp
qed simp

lemma byte_of_bits [simp]: "char_of (bits_nat (byte_bits c)) = c"
proof -
  have "(of_char c :: nat) < 2 ^ 8" by simp
  then show ?thesis by (simp only: byte_bits_def bits_nat_nat_bits char_of_char)
qed

lemma length_byte_bits [simp]: "length (byte_bits c) = 8"
  by (simp add: byte_bits_def)

lemma length_concat_bytes [simp]: "length (concat (map byte_bits s)) = 8 * length s"
  by (induction s) auto

lemma index_of_nth: "distinct xs \<Longrightarrow> n < length xs \<Longrightarrow> index_of (xs ! n) xs = Some n"
proof (induction xs arbitrary: n)
  case (Cons x xs)
  then show ?case by (cases n) auto
qed simp

lemma base64_alphabet_ok:
  "distinct base64_alphabet" "length base64_alphabet = 64"
  "CHR 0x0A \<notin> set base64_alphabet" "CHR 0x0D \<notin> set base64_alphabet"
  by (simp_all add: base64_alphabet_def)

lemma those_map_Some: "(\<And>x. x \<in> set xs \<Longrightarrow> f x = Some (g x)) \<Longrightarrow> those (map f xs) = Some (map g xs)"
  by (induction xs) auto

lemma nat_bits_groups:
  "list_all (\<lambda>g. length g = k) gs \<Longrightarrow> concat (map (nat_bits k) (map bits_nat gs)) = concat gs"
  by (induction gs) (use nat_bits_bits_nat in fastforce)+

lemma length_concat_groups: "list_all (\<lambda>g. length g = k) gs \<Longrightarrow> length (concat gs) = k * length gs"
  by (induction gs) auto

text \<open>The encoder of a token and the decoder of its reader agree, strict or not.\<close>

lemma b64_decode_encode: "b64_decode strict (b64_encode s) = Some s"
proof -
  define bits where "bits = concat (map byte_bits s)"
  define gs where "gs = bit_groups 6 bits"
  obtain m where m: "m < 6" "concat gs = bits @ replicate m False"
    using concat_bit_groups [of 6 bits] by (auto simp: gs_def bits_def)
  have len6: "list_all (\<lambda>g. length g = 6) gs"
    unfolding gs_def by (rule bit_groups_length) simp
  have small: "bits_nat g < 64" if "g \<in> set gs" for g
    using bits_nat_less [of g] len6 that by (fastforce simp: list_all_iff)
  have enc: "b64_encode s = map (\<lambda>g. base64_alphabet ! bits_nat g) gs"
    by (simp add: b64_encode_def encode_groups_def gs_def bits_def)
  have kept: "filter (\<lambda>c. c \<noteq> CHR 0x0A \<and> c \<noteq> CHR 0x0D) (b64_encode s) = b64_encode s"
    unfolding enc
    using small base64_alphabet_ok nth_mem [of _ base64_alphabet] by (fastforce intro!: filter_True)
  have idx: "those (map (\<lambda>c. index_of c base64_alphabet) (b64_encode s)) = Some (map bits_nat gs)"
    unfolding enc map_map comp_def
    by (rule those_map_Some) (simp add: index_of_nth base64_alphabet_ok small)
  have len: "6 * length gs = 8 * length s + m"
    using length_concat_groups [OF len6] m(2) by (simp add: bits_def)
  have odd_len: "length (b64_encode s) mod 4 \<noteq> 1"
  proof
    assume "length (b64_encode s) mod 4 = 1"
    then have "length gs mod 4 = 1" by (simp add: enc)
    then obtain q where "length gs = 4 * q + 1" by (metis mult_div_mod_eq)
    with len m(1) show False by presburger
  qed
  have whole: "(8 * length s + m) div 8 * 8 = length bits"
    using m(1) by (simp add: bits_def)
  have out: "map (\<lambda>g. char_of (bits_nat g)) (bit_groups 8 bits) = s"
    by (simp add: bits_def bit_groups_concat list_all_iff comp_def)
  have bits6: "concat (map (nat_bits 6) (map bits_nat gs)) = bits @ replicate m False"
    by (rule trans [OF nat_bits_groups [OF len6] m(2)])
  have whole: "length (bits @ replicate m False) div 8 * 8 = length bits"
    using whole by (simp add: bits_def)
  show ?thesis
    unfolding b64_decode_def kept idx Let_def option.case bits6 whole
    using odd_len out by (simp add: list_ex_iff)
qed

text \<open>Text of that alphabet and points has nothing to trim.\<close>

lemma white_space_foreign:
  "list_all (\<lambda>w. hd w \<notin> set (CHR ''.'' # base64_alphabet)) white_space"
  by code_simp

lemma trim_space_token:
  assumes "set s \<subseteq> set (CHR ''.'' # base64_alphabet)"
  shows "trim_space s = s"
proof -
  have "\<not> prefix w s \<and> \<not> prefix (rev w) (rev s)" if w: "w \<in> set white_space" for w
  proof -
    have "hd w \<notin> set s" "hd w \<in> set w"
      using white_space_foreign w white_space_nonempty [OF w] assms by (auto simp: list_all_iff)
    then show ?thesis using set_mono_prefix [of w s] set_mono_prefix [of "rev w" "rev s"] by auto
  qed
  then have "strip_left white_space s = s" "strip_left (map rev white_space) (rev s) = rev s"
    by (auto intro!: strip_left_id)
  then show ?thesis by (simp add: trim_space_def)
qed

section \<open>Instants and durations\<close>

text \<open>\<open>time.Second\<close> and friends, in nanoseconds.\<close>

definition second :: int where "second = 1000000000"
definition minute :: int where "minute = 60 * second"
definition hour :: int where "hour = 60 * minute"

text \<open>\<open>time.Duration(n) * unit\<close>: a 64-bit product.\<close>

definition duration :: "int \<Rightarrow> int \<Rightarrow> int" where
  "duration n unit = i64 (n * unit)"

text \<open>\<open>t.Unix()\<close> and \<open>time.Unix(s, 0)\<close>; \<open>t.AddDate(0, 0, n)\<close> of a UTC time moves it by \<open>n\<close> days
  of 24 hours.\<close>

definition unix :: "int \<Rightarrow> int" where "unix t = t div second"
definition at_unix :: "int \<Rightarrow> int" where "at_unix s = s * second"
definition add_days :: "int \<Rightarrow> int \<Rightarrow> int" where "add_days t n = t + n * (24 * hour)"

lemma unix_at_unix [simp]: "unix (at_unix s) = s"
  by (simp add: unix_def at_unix_def second_def)

lemma at_unix_unix: "at_unix (unix t) \<le> t"
  by (simp add: unix_def at_unix_def second_def)

lemma unix_mono: "s \<le> t \<Longrightarrow> unix s \<le> unix t"
  by (simp add: unix_def second_def zdiv_mono1)

lemma duration_small:
  "\<bar>n\<bar> \<le> 3153600000 \<Longrightarrow> duration n second = n * second"
  by (simp add: duration_def second_def)

lemma duration_days:
  "\<bar>n\<bar> \<le> 100000 \<Longrightarrow> i64 (duration n hour) = n * hour"
  by (simp add: duration_def second_def minute_def hour_def)

text \<open>
  \<open>t.Format("2006-01")\<close>: year and month of the civil date of \<open>t\<close>, from the day number by the
  usual era arithmetic (400-year eras of 146097 days, years that start in March).
\<close>

definition civil_month :: "int \<Rightarrow> int \<times> int" where
  "civil_month days =
     (let z = days + 719468;
          era = z div 146097;
          doe = z mod 146097;
          yoe = (doe - doe div 1460 + doe div 36524 - doe div 146096) div 365;
          doy = doe - (365 * yoe + yoe div 4 - yoe div 100);
          mp = (5 * doy + 2) div 153;
          m = (if mp < 10 then mp + 3 else mp - 9);
          y = yoe + era * 400 + (if m \<le> 2 then 1 else 0)
      in (y, m))"

definition format_month :: "int \<Rightarrow> string" where
  "format_month t =
     (case civil_month (t div (24 * hour)) of
        (y, m) \<Rightarrow> pad_zeros 4 (itoa y) @ ''-'' @ pad_zeros 2 (itoa m))"

end
