(* ===== verification/Model.thy ===== *)
theory Model
  imports Golib
begin

text \<open>
  The data model of \<open>backend/internal/licensing\<close>: the structs of \<open>model.go\<close> (and the small ones
  of \<open>security.go\<close>, \<open>access.go\<close>), the error values, and the query filter of \<open>repository.go\<close>.

  A Go struct is a record with one field per Go field; the fields carry a short prefix per struct
  because record fields share one name space. The embedded struct \<open>Record\<close> (application, id, two
  timestamps) is the record \<open>ident\<close>, and an entity that embeds it extends it, so that code which is
  generic in the entity type (\<open>ReadTable[T]\<close>, \<open>WriteTable[T]\<close>) is polymorphic in
  \<open>'z ident_scheme\<close>. A \<open>*time.Time\<close> or \<open>*int64\<close> is an \<open>option\<close>; an instant is an \<open>int\<close>
  (nanoseconds since the epoch); a \<open>[]string\<close> is a list, which does not distinguish a nil slice
  from an empty one.
\<close>

section \<open>Errors\<close>

text \<open>
  \<open>Error{Code, Message, Status}\<close> (the message is a Chinese sentence for people and is left out),
  \<open>*TokenError\<close>, the sentinel errors of the package, and \<open>Fault\<close> for the remaining
  \<open>errors.New\<close> values and constraint violations of the database.
\<close>

datatype err =
    LicErr string int
  | TokErr string
  | ErrScopeRequired
  | ErrScopeMismatch
  | ErrReadOnly
  | ErrNotFound
  | ErrAuditRequired
  | ErrConflict
  | Fault string

definition invalid :: err where "invalid = LicErr ''INVALID_REQUEST'' 400"
definition forbidden :: "string \<Rightarrow> err" where "forbidden code = LicErr code 403"
definition not_found :: err where "not_found = LicErr ''NOT_FOUND'' 404"
definition conflict :: "string \<Rightarrow> err" where "conflict code = LicErr code 409"

fun error_code :: "err \<Rightarrow> string" where
  "error_code (LicErr code _) = code"
| "error_code (TokErr code) = code"
| "error_code ErrNotFound = ''NOT_FOUND''"
| "error_code _ = ''INTERNAL_ERROR''"

section \<open>Actors and scopes\<close>

record actor =
  act_kind :: string
  act_id :: string
  act_role :: string
  act_request :: string

record scope =
  sc_app :: string
  sc_actor :: actor
  sc_writable :: bool

record principal =
  pr_actor :: actor
  pr_agent :: string

text \<open>The values the code keeps in a \<open>context.Context\<close>; \<open>cx_done\<close> is \<open>ctx.Err() != nil\<close>.\<close>

record ctx =
  cx_scope :: "scope option"
  cx_principal :: "principal option"
  cx_done :: bool

section \<open>Entities\<close>

record ident =
  r_app :: string
  r_id :: string
  r_created :: int
  r_updated :: int

record verify_policy =
  vp_ip_source :: string
  vp_jwt_ttl :: int
  vp_verify_interval :: int
  vp_network_grace :: int
  vp_subscription_grace :: int
  vp_seat_lease :: int
  vp_max_borrow :: int
  vp_key_overlap :: int
  vp_domain_mode :: string
  vp_ip_mode :: string

record block_policy =
  bp_enabled :: bool
  bp_announcement :: string
  bp_support_url :: string

record application = ident +
  ap_block :: block_policy
  ap_group :: string
  ap_owner_transfer :: bool
  ap_name :: string
  ap_developer :: string
  ap_status :: string
  ap_models :: "string list"
  ap_bindings :: "string list"
  ap_forms :: "string list"
  ap_policy :: verify_policy
  ap_secret_hash :: string
  ap_secret_version :: int
  ap_current_kid :: string
  ap_public_query :: bool
  ap_updates_enabled :: bool

record signing_key = ident +
  k_max_issued :: "int option"
  k_kid :: string
  k_version :: int
  k_algorithm :: string
  k_public_pem :: string
  k_private_cipher :: string
  k_status :: string
  k_accept_until :: "int option"

record terms =
  t_renewal_targets :: "string list"
  t_max_groups :: int
  t_starts_on :: string
  t_model :: string
  t_bindings :: "string list"
  t_forms :: "string list"
  t_perpetual :: bool
  t_days :: int
  t_update_days :: int
  t_max_activations :: int
  t_max_seats :: int
  t_max_aliases :: int
  t_quota :: int
  t_unit :: string
  t_period :: string
  t_rebind_limit :: int
  t_rebind_cooldown :: int
  t_features :: "string list"

record plan = ident +
  p_name :: string
  p_enabled :: bool
  p_terms :: terms
  p_price :: int
  p_agent_cost :: int
  p_currency :: string

record license = ident +
  l_base_days :: int
  l_base_update_days :: int
  l_base_expires :: "int option"
  l_base_updates_until :: "int option"
  l_updates_blocked :: bool
  l_renewal_only :: bool
  l_activated_at :: "int option"
  l_plan :: string
  l_customer :: string
  l_owner :: string
  l_order :: string
  l_status :: string
  l_terms :: terms
  l_binding_type :: string
  l_binding_hash :: string
  l_expires_at :: "int option"
  l_updates_until :: "int option"
  l_used_units :: int
  l_usage_period :: string
  l_rebinds_used :: int
  l_last_rebind :: "int option"
  l_reason :: string

record activation = ident +
  a_deactivation_reason :: string
  a_group :: string
  a_license :: string
  a_installation :: string
  a_public_key :: string
  a_key_hash :: string
  a_session :: string
  a_binding_type :: string
  a_binding_hash :: string
  a_client_hash :: string
  a_label :: string
  a_lease :: "int option"
  a_borrowed :: bool
  a_verified_at :: int
  a_deactivated_at :: "int option"

record card_key = ident +
  c_refunded_at :: "int option"
  c_source :: string
  c_redeemed :: string
  c_plan :: string
  c_batch :: string
  c_key_hash :: string
  c_last_four :: string
  c_purpose :: string
  c_status :: string
  c_bound :: string
  c_used_at :: "int option"
  c_redeem_until :: "int option"

record binding_rule = ident +
  br_kind :: string
  br_pattern :: string
  br_enabled :: bool
  br_apex :: bool
  br_depth :: string
  br_license :: string
  br_label :: string

record binding_anchor = ident +
  an_license :: string
  an_group :: string
  an_kind :: string
  an_hash :: string
  an_client_hash :: string
  an_display :: string
  an_status :: string

record invitation = ident +
  i_license :: string
  i_token_hash :: string
  i_kind :: string
  i_owner :: string
  i_expires :: int
  i_used_at :: "int option"
  i_key_hash :: string

record pending_installation = ident +
  pd_license :: string
  pd_public_key :: string
  pd_key_hash :: string
  pd_binding_type :: string
  pd_binding_hash :: string
  pd_client_hash :: string
  pd_display :: string
  pd_status :: string
  pd_expires :: int
  pd_activation :: string

record request_nonce = ident +
  n_credential :: string
  n_nonce_hash :: string
  n_body_hash :: string
  n_expires :: int

record sales_channel = ident +
  ch_name :: string
  ch_kind :: string
  ch_enabled :: bool
  ch_secret_cipher :: string
  ch_version :: int
  ch_plans :: "string list"

record sales_order = ident +
  o_digests :: "string list"
  o_purpose :: string
  o_redeem_until :: "int option"
  o_external :: string
  o_channel :: string
  o_agent :: string
  o_plan :: string
  o_customer :: string
  o_owner :: string
  o_quantity :: int
  o_amount :: int
  o_cost :: int
  o_currency :: string
  o_status :: string
  o_terms :: terms
  o_distribute :: bool
  o_licenses :: "string list"
  o_reason :: string

record webhook_receipt = ident +
  wh_channel :: string
  wh_external :: string
  wh_body_hash :: string
  wh_order :: string
  wh_result :: string

record usage_receipt = ident +
  u_license :: string
  u_activation :: string
  u_key :: string
  u_request_hash :: string
  u_units :: int
  u_period :: string
  u_remaining :: int

record agent_grant = ident +
  g_agent :: string
  g_plan :: string
  g_enabled :: bool
  g_override :: "int option"
  g_max_batch :: int

record money_event = ident +
  m_request_hash :: string
  m_agent :: string
  m_order :: string
  m_request :: string
  m_amount :: int
  m_balance_after :: int
  m_kind :: string

record release_target =
  tg_os :: string
  tg_arch :: string
  tg_runtime :: string
  tg_channel :: string
  tg_kind :: string
  tg_min :: string
  tg_max :: string
  tg_image_tag :: string
  tg_image_digest :: string

record release = ident +
  rl_target_key :: string
  rl_version :: string
  rl_target :: release_target
  rl_status :: string
  rl_notes :: string
  rl_filename :: string
  rl_storage :: string
  rl_size :: int
  rl_sha :: string

text \<open>The values of an audit payload (\<open>map[string]any\<close>).\<close>

datatype payload_value =
    PStr string
  | PInt int
  | POptInt "int option"
  | PBool bool
  | PTime "int option"
  | PTarget release_target

type_synonym payload = "(string \<times> payload_value) list"

record audit_event = ident +
  e_sequence :: int
  e_type :: string
  e_entity :: string
  e_actor :: actor
  e_result :: string
  e_reason :: string
  e_payload :: payload
  e_previous :: string
  e_hash :: string

record audit_head =
  hd_sequence :: int
  hd_hash :: string

text \<open>Claims and headers of the tokens (\<open>jwt.go\<close>), with the manifest of \<open>updates.go\<close>.\<close>

record release_manifest =
  mf_id :: string
  mf_version :: string
  mf_target :: release_target
  mf_sha :: string
  mf_size :: int
  mf_filename :: string

record jwt_claims =
  jc_release :: "release_manifest option"
  jc_iss :: string
  jc_aud :: string
  jc_sub :: string
  jc_jti :: string
  jc_iat :: int
  jc_nbf :: int
  jc_exp :: int
  jc_use :: string
  jc_activation :: string
  jc_binding_type :: string
  jc_binding_hash :: string
  jc_model :: string
  jc_perpetual :: bool
  jc_features :: "string list"
  jc_refresh :: int
  jc_grace :: int
  jc_updates :: "int option"

record jwt_header =
  jh_alg :: string
  jh_typ :: string
  jh_kid :: string

text \<open>Requests of the sales handlers (\<open>sales.go\<close>, \<open>agents.go\<close>).\<close>

record sale_input =
  si_digests :: "string list"
  si_plan :: string
  si_customer :: string
  si_owner :: string
  si_quantity :: int
  si_amount :: int
  si_distribute :: bool
  si_purpose :: string
  si_redeem_until :: "int option"
  si_terms :: "terms option"
  si_reason :: string

record webhook_input =
  wi_original :: string
  wi_event_id :: string
  wi_event :: string
  wi_sale :: sale_input

record agent_sale_input =
  as_plan :: string
  as_quantity :: int
  as_customer :: string
  as_request :: string
  as_expected :: "int option"
  as_purpose :: string

record agent_account =
  aa_id :: string
  aa_status :: string
  aa_balance :: int
  aa_tier :: string
  aa_rate :: int

record release_capacity =
  rc_total :: int
  rc_developer :: int
  rc_application :: int
  rc_versions :: int

type_synonym storage_limits = release_capacity

section \<open>Query filters\<close>

text \<open>
  The columns of the application tables (\<open>coreSpecs\<close>), by name.
\<close>

datatype column =
    C_activation_id | C_agent_id | C_batch_id | C_binding_hash | C_binding_type | C_borrowed
  | C_bound_license_id | C_channel_id | C_credential_id | C_customer_ref | C_deactivated_at
  | C_enabled | C_entity_id | C_event_type | C_expires_at | C_external_id | C_group_id | C_id
  | C_idempotency_key | C_key_hash | C_key_version | C_kid | C_kind | C_lease_expires_at
  | C_license_id | C_model | C_name | C_nonce_hash | C_order_id | C_owner_user_id | C_period
  | C_plan_id | C_public_key_hash | C_reason_code | C_redeemed_license_id | C_renewal_only
  | C_request_id | C_result | C_sequence | C_session_id | C_size | C_status | C_target_key
  | C_token_hash | C_used_at | C_version

text \<open>
  \<open>Filter\<close>: the string fields that the code compares with a column when they are not empty, and
  the other conditions. \<open>no_filter\<close> is Go's zero value.
\<close>

record filter_spec =
  f_agent_id :: string
  f_batch_id :: string
  f_binding_hash :: string
  f_binding_type :: string
  f_bound_license_id :: string
  f_channel_id :: string
  f_credential_id :: string
  f_customer_ref :: string
  f_event_type :: string
  f_external_id :: string
  f_group_id :: string
  f_id :: string
  f_idempotency_key :: string
  f_key_hash :: string
  f_kind :: string
  f_license_id :: string
  f_nonce_hash :: string
  f_owner_user_id :: string
  f_period :: string
  f_plan_id :: string
  f_public_key_hash :: string
  f_reason_code :: string
  f_redeemed_license_id :: string
  f_request_id :: string
  f_result :: string
  f_session_id :: string
  f_status :: string
  f_exact_session :: "string option"
  f_borrowed :: "bool option"
  f_exclude_renewals :: bool
  f_expires_after :: "int option"
  f_active_at :: "int option"
  f_before :: "int option"
  f_from :: "int option"
  f_lease_only :: bool
  f_only_global :: bool
  f_ascending :: bool
  f_limit :: int
  f_offset :: int

definition no_filter :: filter_spec where
  "no_filter = \<lparr>f_agent_id = [], f_batch_id = [], f_binding_hash = [], f_binding_type = [],
     f_bound_license_id = [], f_channel_id = [], f_credential_id = [], f_customer_ref = [],
     f_event_type = [], f_external_id = [], f_group_id = [], f_id = [], f_idempotency_key = [],
     f_key_hash = [], f_kind = [], f_license_id = [], f_nonce_hash = [], f_owner_user_id = [],
     f_period = [], f_plan_id = [], f_public_key_hash = [], f_reason_code = [],
     f_redeemed_license_id = [], f_request_id = [], f_result = [], f_session_id = [], f_status = [],
     f_exact_session = None, f_borrowed = None, f_exclude_renewals = False, f_expires_after = None,
     f_active_at = None, f_before = None, f_from = None, f_lease_only = False,
     f_only_global = False, f_ascending = False, f_limit = 0, f_offset = 0\<rparr>"

end
