(* ===== verification/Store.thy ===== *)
theory Store
  imports Model
begin

text \<open>
  The database adapter \<open>backend/internal/store/application_store.go\<close>: scopes, tables, queries,
  writes, transactions, the audit chain and the few platform-wide operations on agent accounts.

  A table of the schema \<open>backend/migrations/026_application_scoped_core.sql\<close> is a list of rows,
  over all applications; a row is the record the JSON column holds, since the adapter writes the
  other columns as projections of it in the same statement. A \<open>table\<close> value bundles what the
  adapter's \<open>coreTableSpec\<close> and the schema say of one table: where it lives in the database, its
  columns as projections, its uniqueness constraints and its foreign keys. JSON encoding and its
  inverse, and failures of the database other than constraint violations, are not modelled.
\<close>

section \<open>Scopes\<close>

text \<open>\<open>BindScope\<close>, \<open>ScopeFrom\<close> (\<open>model.go\<close>) and \<open>scopedApplicationRepository.check\<close>.\<close>

definition bind_scope :: "ctx \<Rightarrow> string \<Rightarrow> actor \<Rightarrow> bool \<Rightarrow> err + ctx" where
  "bind_scope cx app actor writable =
     (if app = [] \<or> act_kind actor = [] then Inl ErrScopeRequired
      else if (case cx_scope cx of None \<Rightarrow> False | Some old \<Rightarrow> sc_app old \<noteq> app) then Inl ErrScopeMismatch
      else Inr (cx\<lparr>cx_scope := Some \<lparr>sc_app = app, sc_actor = actor, sc_writable = writable\<rparr>\<rparr>))"

definition scope_from :: "ctx \<Rightarrow> err + scope" where
  "scope_from cx =
     (case cx_scope cx of
        None \<Rightarrow> Inl ErrScopeRequired
      | Some v \<Rightarrow> if sc_app v = [] then Inl ErrScopeRequired else Inr v)"

definition same_actor :: "actor \<Rightarrow> actor \<Rightarrow> bool" where
  "same_actor a b \<longleftrightarrow> act_kind a = act_kind b \<and> act_id a = act_id b \<and> act_role a = act_role b"

definition check_scope :: "ctx \<Rightarrow> scope \<Rightarrow> bool \<Rightarrow> err + unit" where
  "check_scope cx repo write =
     (if cx_done cx then Inl (Fault ''context'')
      else case scope_from cx of
        Inl e \<Rightarrow> Inl e
      | Inr v \<Rightarrow>
          if sc_app v \<noteq> sc_app repo \<or> \<not> same_actor (sc_actor v) (sc_actor repo)
          then Inl ErrScopeMismatch
          else if write \<and> (\<not> sc_writable v \<or> \<not> sc_writable repo) then Inl ErrReadOnly
          else Inr ())"

text \<open>
  A handle is what a method of \<open>applicationTransaction\<close> has in its hands: the context of the call,
  the scope of the repository that opened the transaction, and whether it may write.
\<close>

record handle =
  h_ctx :: ctx
  h_scope :: scope
  h_writable :: bool

abbreviation h_app :: "handle \<Rightarrow> string" where "h_app h \<equiv> sc_app (h_scope h)"

definition check_read :: "handle \<Rightarrow> err + unit" where
  "check_read h = check_scope (h_ctx h) (h_scope h) False"

definition check_write :: "handle \<Rightarrow> err + unit" where
  "check_write h = (if \<not> h_writable h then Inl ErrReadOnly else check_scope (h_ctx h) (h_scope h) True)"

section \<open>The database\<close>

text \<open>
  Agents are platform data: a row of \<open>agents\<close> joined with its row of \<open>agent_accounts\<close>. A tier has
  an optional row of \<open>agent_tier_settings\<close> with its cost rate.
\<close>

record agent_row =
  ag_id :: string
  ag_status :: string
  ag_balance :: int
  ag_tier :: string

record db =
  d_apps :: "application list"
  d_keys :: "signing_key list"
  d_plans :: "plan list"
  d_licenses :: "license list"
  d_activations :: "activation list"
  d_cards :: "card_key list"
  d_rules :: "binding_rule list"
  d_anchors :: "binding_anchor list"
  d_invitations :: "invitation list"
  d_pending :: "pending_installation list"
  d_nonces :: "request_nonce list"
  d_channels :: "sales_channel list"
  d_orders :: "sales_order list"
  d_webhooks :: "webhook_receipt list"
  d_usage :: "usage_receipt list"
  d_grants :: "agent_grant list"
  d_money :: "money_event list"
  d_releases :: "release list"
  d_audit :: "audit_event list"
  d_heads :: "(string \<times> audit_head) list"
  d_agents :: "agent_row list"
  d_tiers :: "(string \<times> int option) list"
  d_legacy_bytes :: int

text \<open>
  The state of a run: the database, the files of the release directory by name, the number of draws made from the system's random source, and
  the two counters of the running transaction (\<open>applicationTransaction.mutations\<close>, \<open>audits\<close>).
\<close>

record world =
  w_db :: db
  w_files :: "string \<rightharpoonup> string"
  w_draws :: nat
  w_mutations :: nat
  w_audits :: nat

type_synonym 'a db_act = "(world, err, 'a) act"

section \<open>Tables\<close>

datatype sql = SNull | SStr string | SInt int | SBool bool | STime int

definition sql_opt_str :: "string \<Rightarrow> sql" where
  "sql_opt_str s = (if s = [] then SNull else SStr s)"

definition sql_opt_time :: "int option \<Rightarrow> sql" where
  "sql_opt_time t = (case t of None \<Rightarrow> SNull | Some v \<Rightarrow> STime v)"

record 'r table =
  tb_rows :: "db \<Rightarrow> 'r list"
  tb_write :: "('r list \<Rightarrow> 'r list) \<Rightarrow> db \<Rightarrow> db"
  tb_cols :: "(column \<times> ('r \<Rightarrow> sql)) list"
  tb_clash :: "'r \<Rightarrow> 'r \<Rightarrow> bool"
  tb_refs :: "db \<Rightarrow> 'r \<Rightarrow> bool"
  tb_by_sequence :: "('r \<Rightarrow> int) option"

text \<open>The rows of one application, and a foreign key \<open>(application_id, id)\<close>.\<close>

definition in_app :: "string \<Rightarrow> 'z ident_scheme list \<Rightarrow> 'z ident_scheme list" where
  "in_app app rows = filter (\<lambda>r. r_app r = app) rows"

definition has_row :: "string \<Rightarrow> string \<Rightarrow> 'z ident_scheme list \<Rightarrow> bool" where
  "has_row app i rows \<longleftrightarrow> list_ex (\<lambda>r. r_app r = app \<and> r_id r = i) rows"

definition app_exists :: "db \<Rightarrow> string \<Rightarrow> bool" where
  "app_exists d app \<longleftrightarrow> list_ex (\<lambda>a. r_app a = app) (d_apps d)"

definition keys_t :: "signing_key table" where
  "keys_t = \<lparr>tb_rows = d_keys, tb_write = d_keys_update,
     tb_cols = [(C_kid, \<lambda>r. SStr (k_kid r)), (C_key_version, \<lambda>r. SInt (k_version r)),
                (C_status, \<lambda>r. SStr (k_status r))],
     tb_clash = (\<lambda>r q. k_kid r = k_kid q \<or> k_version r = k_version q),
     tb_refs = (\<lambda>d r. app_exists d (r_app r)), tb_by_sequence = None\<rparr>"

definition plans_t :: "plan table" where
  "plans_t = \<lparr>tb_rows = d_plans, tb_write = d_plans_update,
     tb_cols = [(C_name, \<lambda>r. SStr (p_name r)), (C_model, \<lambda>r. SStr (t_model (p_terms r))),
                (C_enabled, \<lambda>r. SBool (p_enabled r))],
     tb_clash = (\<lambda>r q. False),
     tb_refs = (\<lambda>d r. app_exists d (r_app r)), tb_by_sequence = None\<rparr>"

definition licenses_t :: "license table" where
  "licenses_t = \<lparr>tb_rows = d_licenses, tb_write = d_licenses_update,
     tb_cols = [(C_plan_id, \<lambda>r. SStr (l_plan r)), (C_customer_ref, \<lambda>r. SStr (l_customer r)),
                (C_owner_user_id, \<lambda>r. sql_opt_str (l_owner r)), (C_order_id, \<lambda>r. sql_opt_str (l_order r)),
                (C_status, \<lambda>r. SStr (l_status r)), (C_binding_type, \<lambda>r. SStr (l_binding_type r)),
                (C_binding_hash, \<lambda>r. SStr (l_binding_hash r)),
                (C_expires_at, \<lambda>r. sql_opt_time (l_expires_at r)),
                (C_renewal_only, \<lambda>r. SBool (l_renewal_only r))],
     tb_clash = (\<lambda>r q. False),
     tb_refs = (\<lambda>d r. app_exists d (r_app r) \<and> has_row (r_app r) (l_plan r) (d_plans d) \<and>
                 (l_order r = [] \<or> has_row (r_app r) (l_order r) (d_orders d))),
     tb_by_sequence = None\<rparr>"

definition activations_t :: "activation table" where
  "activations_t = \<lparr>tb_rows = d_activations, tb_write = d_activations_update,
     tb_cols = [(C_license_id, \<lambda>r. SStr (a_license r)), (C_public_key_hash, \<lambda>r. SStr (a_key_hash r)),
                (C_session_id, \<lambda>r. SStr (a_session r)), (C_binding_type, \<lambda>r. SStr (a_binding_type r)),
                (C_binding_hash, \<lambda>r. SStr (a_binding_hash r)),
                (C_lease_expires_at, \<lambda>r. sql_opt_time (a_lease r)),
                (C_deactivated_at, \<lambda>r. sql_opt_time (a_deactivated_at r)),
                (C_borrowed, \<lambda>r. SBool (a_borrowed r))],
     tb_clash = (\<lambda>r q. a_license r = a_license q \<and> a_key_hash r = a_key_hash q \<and> a_session r = a_session q),
     tb_refs = (\<lambda>d r. app_exists d (r_app r) \<and> has_row (r_app r) (a_license r) (d_licenses d)),
     tb_by_sequence = None\<rparr>"

definition cards_t :: "card_key table" where
  "cards_t = \<lparr>tb_rows = d_cards, tb_write = d_cards_update,
     tb_cols = [(C_plan_id, \<lambda>r. SStr (c_plan r)), (C_batch_id, \<lambda>r. SStr (c_batch r)),
                (C_key_hash, \<lambda>r. SStr (c_key_hash r)), (C_status, \<lambda>r. SStr (c_status r)),
                (C_bound_license_id, \<lambda>r. SStr (c_bound r)),
                (C_redeemed_license_id, \<lambda>r. sql_opt_str (c_redeemed r))],
     tb_clash = (\<lambda>r q. c_key_hash r = c_key_hash q),
     tb_refs = (\<lambda>d r. app_exists d (r_app r) \<and> has_row (r_app r) (c_plan r) (d_plans d) \<and>
                 has_row (r_app r) (c_bound r) (d_licenses d) \<and>
                 (c_redeemed r = [] \<or> has_row (r_app r) (c_redeemed r) (d_licenses d))),
     tb_by_sequence = None\<rparr>"

definition rules_t :: "binding_rule table" where
  "rules_t = \<lparr>tb_rows = d_rules, tb_write = d_rules_update,
     tb_cols = [(C_kind, \<lambda>r. SStr (br_kind r)), (C_enabled, \<lambda>r. SBool (br_enabled r)),
                (C_license_id, \<lambda>r. sql_opt_str (br_license r))],
     tb_clash = (\<lambda>r q. False),
     tb_refs = (\<lambda>d r. app_exists d (r_app r) \<and>
                 (br_license r = [] \<or> has_row (r_app r) (br_license r) (d_licenses d))),
     tb_by_sequence = None\<rparr>"

definition anchors_t :: "binding_anchor table" where
  "anchors_t = \<lparr>tb_rows = d_anchors, tb_write = d_anchors_update,
     tb_cols = [(C_license_id, \<lambda>r. SStr (an_license r)), (C_group_id, \<lambda>r. SStr (an_group r)),
                (C_kind, \<lambda>r. SStr (an_kind r)), (C_binding_hash, \<lambda>r. SStr (an_hash r)),
                (C_status, \<lambda>r. SStr (an_status r))],
     tb_clash = (\<lambda>r q. an_license r = an_license q \<and> an_kind r = an_kind q \<and> an_hash r = an_hash q),
     tb_refs = (\<lambda>d r. app_exists d (r_app r) \<and> has_row (r_app r) (an_license r) (d_licenses d)),
     tb_by_sequence = None\<rparr>"

definition invitations_t :: "invitation table" where
  "invitations_t = \<lparr>tb_rows = d_invitations, tb_write = d_invitations_update,
     tb_cols = [(C_license_id, \<lambda>r. SStr (i_license r)), (C_kind, \<lambda>r. SStr (i_kind r)),
                (C_token_hash, \<lambda>r. SStr (i_token_hash r)), (C_owner_user_id, \<lambda>r. sql_opt_str (i_owner r)),
                (C_expires_at, \<lambda>r. STime (i_expires r)), (C_used_at, \<lambda>r. sql_opt_time (i_used_at r))],
     tb_clash = (\<lambda>r q. i_token_hash r = i_token_hash q),
     tb_refs = (\<lambda>d r. app_exists d (r_app r) \<and> has_row (r_app r) (i_license r) (d_licenses d)),
     tb_by_sequence = None\<rparr>"

definition pending_t :: "pending_installation table" where
  "pending_t = \<lparr>tb_rows = d_pending, tb_write = d_pending_update,
     tb_cols = [(C_license_id, \<lambda>r. sql_opt_str (pd_license r)), (C_public_key_hash, \<lambda>r. SStr (pd_key_hash r)),
                (C_binding_type, \<lambda>r. SStr (pd_binding_type r)), (C_binding_hash, \<lambda>r. SStr (pd_binding_hash r)),
                (C_status, \<lambda>r. SStr (pd_status r)), (C_expires_at, \<lambda>r. STime (pd_expires r))],
     tb_clash = (\<lambda>r q. False),
     tb_refs = (\<lambda>d r. app_exists d (r_app r) \<and>
                 (pd_license r = [] \<or> has_row (r_app r) (pd_license r) (d_licenses d))),
     tb_by_sequence = None\<rparr>"

definition nonces_t :: "request_nonce table" where
  "nonces_t = \<lparr>tb_rows = d_nonces, tb_write = d_nonces_update,
     tb_cols = [(C_credential_id, \<lambda>r. SStr (n_credential r)), (C_nonce_hash, \<lambda>r. SStr (n_nonce_hash r)),
                (C_expires_at, \<lambda>r. STime (n_expires r))],
     tb_clash = (\<lambda>r q. n_credential r = n_credential q \<and> n_nonce_hash r = n_nonce_hash q),
     tb_refs = (\<lambda>d r. app_exists d (r_app r)), tb_by_sequence = None\<rparr>"

definition channels_t :: "sales_channel table" where
  "channels_t = \<lparr>tb_rows = d_channels, tb_write = d_channels_update,
     tb_cols = [(C_kind, \<lambda>r. SStr (ch_kind r)), (C_enabled, \<lambda>r. SBool (ch_enabled r))],
     tb_clash = (\<lambda>r q. False),
     tb_refs = (\<lambda>d r. app_exists d (r_app r)), tb_by_sequence = None\<rparr>"

definition orders_t :: "sales_order table" where
  "orders_t = \<lparr>tb_rows = d_orders, tb_write = d_orders_update,
     tb_cols = [(C_plan_id, \<lambda>r. SStr (o_plan r)), (C_channel_id, \<lambda>r. sql_opt_str (o_channel r)),
                (C_external_id, \<lambda>r. SStr (o_external r)), (C_customer_ref, \<lambda>r. SStr (o_customer r)),
                (C_owner_user_id, \<lambda>r. sql_opt_str (o_owner r)), (C_agent_id, \<lambda>r. sql_opt_str (o_agent r)),
                (C_status, \<lambda>r. SStr (o_status r))],
     tb_clash = (\<lambda>r q. False),
     tb_refs = (\<lambda>d r. app_exists d (r_app r) \<and> has_row (r_app r) (o_plan r) (d_plans d) \<and>
                 (o_channel r = [] \<or> has_row (r_app r) (o_channel r) (d_channels d))),
     tb_by_sequence = None\<rparr>"

definition webhooks_t :: "webhook_receipt table" where
  "webhooks_t = \<lparr>tb_rows = d_webhooks, tb_write = d_webhooks_update,
     tb_cols = [(C_channel_id, \<lambda>r. SStr (wh_channel r)), (C_external_id, \<lambda>r. SStr (wh_external r)),
                (C_order_id, \<lambda>r. SStr (wh_order r))],
     tb_clash = (\<lambda>r q. wh_channel r = wh_channel q \<and> wh_external r = wh_external q),
     tb_refs = (\<lambda>d r. app_exists d (r_app r) \<and> has_row (r_app r) (wh_channel r) (d_channels d) \<and>
                 has_row (r_app r) (wh_order r) (d_orders d)),
     tb_by_sequence = None\<rparr>"

definition usage_t :: "usage_receipt table" where
  "usage_t = \<lparr>tb_rows = d_usage, tb_write = d_usage_update,
     tb_cols = [(C_license_id, \<lambda>r. SStr (u_license r)), (C_activation_id, \<lambda>r. SStr (u_activation r)),
                (C_idempotency_key, \<lambda>r. SStr (u_key r)), (C_period, \<lambda>r. SStr (u_period r))],
     tb_clash = (\<lambda>r q. u_license r = u_license q \<and> u_key r = u_key q),
     tb_refs = (\<lambda>d r. app_exists d (r_app r) \<and> has_row (r_app r) (u_license r) (d_licenses d) \<and>
                 has_row (r_app r) (u_activation r) (d_activations d)),
     tb_by_sequence = None\<rparr>"

definition grants_t :: "agent_grant table" where
  "grants_t = \<lparr>tb_rows = d_grants, tb_write = d_grants_update,
     tb_cols = [(C_agent_id, \<lambda>r. SStr (g_agent r)), (C_plan_id, \<lambda>r. SStr (g_plan r)),
                (C_enabled, \<lambda>r. SBool (g_enabled r))],
     tb_clash = (\<lambda>r q. g_agent r = g_agent q \<and> g_plan r = g_plan q),
     tb_refs = (\<lambda>d r. app_exists d (r_app r) \<and> has_row (r_app r) (g_plan r) (d_plans d)),
     tb_by_sequence = None\<rparr>"

definition money_t :: "money_event table" where
  "money_t = \<lparr>tb_rows = d_money, tb_write = d_money_update,
     tb_cols = [(C_agent_id, \<lambda>r. SStr (m_agent r)), (C_order_id, \<lambda>r. SStr (m_order r)),
                (C_request_id, \<lambda>r. SStr (m_request r)), (C_kind, \<lambda>r. SStr (m_kind r))],
     tb_clash = (\<lambda>r q. m_agent r = m_agent q \<and> m_request r = m_request q),
     tb_refs = (\<lambda>d r. app_exists d (r_app r) \<and> has_row (r_app r) (m_order r) (d_orders d)),
     tb_by_sequence = None\<rparr>"

definition releases_t :: "release table" where
  "releases_t = \<lparr>tb_rows = d_releases, tb_write = d_releases_update,
     tb_cols = [(C_version, \<lambda>r. SStr (rl_version r)), (C_target_key, \<lambda>r. SStr (rl_target_key r)),
                (C_status, \<lambda>r. SStr (rl_status r)), (C_size, \<lambda>r. SInt (rl_size r))],
     tb_clash = (\<lambda>r q. rl_version r = rl_version q \<and> rl_target_key r = rl_target_key q),
     tb_refs = (\<lambda>d r. app_exists d (r_app r)), tb_by_sequence = None\<rparr>"

definition audit_t :: "audit_event table" where
  "audit_t = \<lparr>tb_rows = d_audit, tb_write = d_audit_update,
     tb_cols = [(C_sequence, \<lambda>r. SInt (e_sequence r)), (C_event_type, \<lambda>r. SStr (e_type r)),
                (C_reason_code, \<lambda>r. SStr (e_reason r)), (C_entity_id, \<lambda>r. SStr (e_entity r)),
                (C_result, \<lambda>r. SStr (e_result r))],
     tb_clash = (\<lambda>r q. e_sequence r = e_sequence q),
     tb_refs = (\<lambda>d r. app_exists d (r_app r)), tb_by_sequence = Some e_sequence\<rparr>"

lemmas table_defs =
  keys_t_def plans_t_def licenses_t_def activations_t_def cards_t_def rules_t_def anchors_t_def
  invitations_t_def pending_t_def nonces_t_def channels_t_def orders_t_def webhooks_t_def
  usage_t_def grants_t_def money_t_def releases_t_def audit_t_def

end
