(* ===== verification/Tables.thy ===== *)
theory Tables
  imports Store
begin

text \<open>
  Queries and writes on one table: \<open>coreReader\<close> and \<open>coreWriter\<close> of \<open>application_store.go\<close>.

  \<open>where_clause\<close> is the SQL condition the adapter builds from a filter (an empty string field is no
  condition, a field without a column is an error), \<open>t_find\<close>, \<open>t_get\<close>, \<open>t_count\<close> the reads,
  \<open>t_insert\<close>, \<open>t_save\<close>, \<open>t_delete\<close>, \<open>t_lock\<close> the writes. The interface \<open>WriteTable[T]\<close> of
  \<open>repository.go\<close> is the locale \<open>keyed_table\<close>: seen from one application a table is a map from
  identifiers to entities. Every table of the schema is shown to implement it.
\<close>

section \<open>The condition of a filter\<close>

definition flt_fields :: "filter_spec \<Rightarrow> (column \<times> string) list" where
  "flt_fields f =
    [(C_agent_id, f_agent_id f), (C_batch_id, f_batch_id f), (C_binding_hash, f_binding_hash f),
     (C_binding_type, f_binding_type f), (C_bound_license_id, f_bound_license_id f),
     (C_channel_id, f_channel_id f), (C_credential_id, f_credential_id f),
     (C_customer_ref, f_customer_ref f), (C_event_type, f_event_type f),
     (C_external_id, f_external_id f), (C_group_id, f_group_id f), (C_id, f_id f),
     (C_idempotency_key, f_idempotency_key f), (C_key_hash, f_key_hash f), (C_kind, f_kind f),
     (C_license_id, f_license_id f), (C_nonce_hash, f_nonce_hash f),
     (C_owner_user_id, f_owner_user_id f), (C_period, f_period f), (C_plan_id, f_plan_id f),
     (C_public_key_hash, f_public_key_hash f), (C_reason_code, f_reason_code f),
     (C_redeemed_license_id, f_redeemed_license_id f), (C_request_id, f_request_id f),
     (C_result, f_result f), (C_session_id, f_session_id f), (C_status, f_status f)]"

definition sql_after :: "sql \<Rightarrow> int \<Rightarrow> bool" where
  "sql_after v t = (case v of STime u \<Rightarrow> t < u | _ \<Rightarrow> False)"

definition sql_not_before :: "sql \<Rightarrow> int \<Rightarrow> bool" where
  "sql_not_before v t = (case v of STime u \<Rightarrow> t \<le> u | _ \<Rightarrow> False)"

definition sql_before :: "sql \<Rightarrow> int \<Rightarrow> bool" where
  "sql_before v t = (case v of STime u \<Rightarrow> u < t | _ \<Rightarrow> False)"

definition col_value :: "(column \<times> ('r \<Rightarrow> sql)) list \<Rightarrow> column \<Rightarrow> 'r \<Rightarrow> sql" where
  "col_value cols c r = (case map_of cols c of None \<Rightarrow> SNull | Some p \<Rightarrow> p r)"

definition has_col :: "(column \<times> ('r \<Rightarrow> sql)) list \<Rightarrow> column \<Rightarrow> bool" where
  "has_col cols c \<longleftrightarrow> map_of cols c \<noteq> None"

text \<open>The rows a filter selects, once its columns are known to exist.\<close>

definition flt_selects :: "(column \<times> ('z ident_scheme \<Rightarrow> sql)) list \<Rightarrow> filter_spec \<Rightarrow> 'z ident_scheme \<Rightarrow> bool" where
  "flt_selects cols f r \<longleftrightarrow>
     list_all (\<lambda>(c, v). v = [] \<or> (if c = C_id then r_id r = v else col_value cols c r = SStr v)) (flt_fields f) \<and>
     (f_exclude_renewals f \<longrightarrow> col_value cols C_renewal_only r = SBool False) \<and>
     (case f_exact_session f of None \<Rightarrow> True | Some v \<Rightarrow> col_value cols C_session_id r = SStr v) \<and>
     (case f_borrowed f of None \<Rightarrow> True | Some v \<Rightarrow> col_value cols C_borrowed r = SBool v) \<and>
     (case f_active_at f of None \<Rightarrow> True
      | Some t \<Rightarrow> col_value cols C_deactivated_at r = SNull \<and>
          (if f_lease_only f then sql_after (col_value cols C_lease_expires_at r) t
           else col_value cols C_lease_expires_at r = SNull \<or>
                sql_after (col_value cols C_lease_expires_at r) t)) \<and>
     (f_only_global f \<longrightarrow> col_value cols C_license_id r = SNull) \<and>
     (case f_expires_after f of None \<Rightarrow> True | Some t \<Rightarrow> sql_not_before (col_value cols C_expires_at r) t) \<and>
     (case f_before f of None \<Rightarrow> True | Some t \<Rightarrow> sql_before (col_value cols C_expires_at r) t) \<and>
     (case f_from f of None \<Rightarrow> True | Some t \<Rightarrow> t \<le> r_created r)"

definition where_clause ::
  "(column \<times> ('z ident_scheme \<Rightarrow> sql)) list \<Rightarrow> filter_spec \<Rightarrow> err + ('z ident_scheme \<Rightarrow> bool)" where
  "where_clause cols f =
     (if list_ex (\<lambda>(c, v). v \<noteq> [] \<and> c \<noteq> C_id \<and> \<not> has_col cols c) (flt_fields f)
      then Inl (Fault ''unsupported filter'')
      else if f_exclude_renewals f \<and> \<not> has_col cols C_renewal_only then Inl (Fault ''renewal filter'')
      else if f_exact_session f \<noteq> None \<and> \<not> has_col cols C_session_id then Inl (Fault ''session filter'')
      else if f_borrowed f \<noteq> None \<and> \<not> has_col cols C_borrowed then Inl (Fault ''borrowed filter'')
      else if f_active_at f \<noteq> None \<and> \<not> has_col cols C_deactivated_at then Inl (Fault ''active filter'')
      else if f_only_global f \<and> \<not> has_col cols C_license_id then Inl (Fault ''global filter'')
      else if f_expires_after f \<noteq> None \<and> \<not> has_col cols C_expires_at then Inl (Fault ''expiry filter'')
      else if f_before f \<noteq> None \<and> \<not> has_col cols C_expires_at then Inl (Fault ''expiry filter'')
      else Inr (flt_selects cols f))"

section \<open>Reads\<close>

definition in_order :: "('z ident_scheme) table \<Rightarrow> bool \<Rightarrow> 'z ident_scheme list \<Rightarrow> 'z ident_scheme list" where
  "in_order tb ascending rows =
     (case tb_by_sequence tb of
        Some q \<Rightarrow> sort_key (\<lambda>r. if ascending then q r else - q r) rows
      | None \<Rightarrow> sort_key (\<lambda>r. (if ascending then r_created r else - r_created r, r_id r)) rows)"

definition page :: "int \<Rightarrow> int \<Rightarrow> 'r list \<Rightarrow> 'r list" where
  "page limit offset rows = take (nat limit) (drop (nat offset) rows)"

definition t_find :: "('z ident_scheme) table \<Rightarrow> handle \<Rightarrow> filter_spec \<Rightarrow> 'z ident_scheme list db_act" where
  "t_find tb h f =
     andThen (pureA (check_read h)) (\<lambda>_.
     andThen (pureA (where_clause (tb_cols tb) f)) (\<lambda>cond.
     let limit = (if f_limit f = 0 then 100 else f_limit f) in
     if limit < 1 \<or> 10000 < limit \<or> f_offset f < 0 then raise (Fault ''invalid pagination'')
     else andThen (reads (\<lambda>s. tb_rows tb (w_db s))) (\<lambda>rows.
       let hits = page limit (f_offset f)
                    (in_order tb (f_ascending f) (filter cond (in_app (h_app h) rows))) in
       if list_ex (\<lambda>r. r_app r \<noteq> h_app h) hits then raise ErrScopeMismatch else ret hits)))"

definition t_get :: "('z ident_scheme) table \<Rightarrow> handle \<Rightarrow> string \<Rightarrow> 'z ident_scheme db_act" where
  "t_get tb h i =
     (if i = [] then raise ErrNotFound
      else andThen (t_find tb h (no_filter\<lparr>f_id := i, f_limit := 1\<rparr>)) (\<lambda>items.
        case items of [] \<Rightarrow> raise ErrNotFound | r # _ \<Rightarrow> ret r))"

definition t_count :: "('z ident_scheme) table \<Rightarrow> handle \<Rightarrow> filter_spec \<Rightarrow> int db_act" where
  "t_count tb h f =
     andThen (pureA (check_read h)) (\<lambda>_.
     andThen (pureA (where_clause (tb_cols tb) f)) (\<lambda>cond.
     reads (\<lambda>s. int (length (filter cond (in_app (h_app h) (tb_rows tb (w_db s))))))))"

section \<open>Writes\<close>

definition t_prepare :: "handle \<Rightarrow> 'z ident_scheme \<Rightarrow> err + 'z ident_scheme" where
  "t_prepare h v =
     (case check_write h of
        Inl e \<Rightarrow> Inl e
      | Inr _ \<Rightarrow>
          if r_app v \<noteq> [] \<and> r_app v \<noteq> h_app h then Inl ErrScopeMismatch
          else if r_id v = [] then Inl (Fault ''record ID required'')
          else Inr (v\<lparr>r_app := h_app h\<rparr>))"

definition same_row :: "'z ident_scheme \<Rightarrow> 'z ident_scheme \<Rightarrow> bool" where
  "same_row r q \<longleftrightarrow> r_app r = r_app q \<and> r_id r = r_id q"

text \<open>A uniqueness constraint is always over the application and further columns.\<close>

definition clashes :: "('z ident_scheme) table \<Rightarrow> 'z ident_scheme \<Rightarrow> 'z ident_scheme \<Rightarrow> bool" where
  "clashes tb r q \<longleftrightarrow> r_app r = r_app q \<and> (r_id r = r_id q \<or> tb_clash tb r q)"

definition mutate :: "(db \<Rightarrow> db) \<Rightarrow> unit db_act" where
  "mutate f = writes (\<lambda>s. s\<lparr>w_db := f (w_db s), w_mutations := Suc (w_mutations s)\<rparr>)"

definition t_insert :: "('z ident_scheme) table \<Rightarrow> handle \<Rightarrow> 'z ident_scheme \<Rightarrow> unit db_act" where
  "t_insert tb h value =
     andThen (pureA (t_prepare h value)) (\<lambda>v.
     andThen (reads w_db) (\<lambda>d.
     if list_ex (clashes tb v) (tb_rows tb d) then raise (Fault ''unique constraint'')
     else if \<not> tb_refs tb d v then raise (Fault ''foreign key constraint'')
     else mutate (tb_write tb (\<lambda>rows. rows @ [v]))))"

definition put_row :: "'z ident_scheme \<Rightarrow> 'z ident_scheme list \<Rightarrow> 'z ident_scheme list" where
  "put_row v rows = map (\<lambda>r. if same_row r v then v else r) rows"

definition t_save :: "('z ident_scheme) table \<Rightarrow> handle \<Rightarrow> 'z ident_scheme \<Rightarrow> unit db_act" where
  "t_save tb h value =
     andThen (pureA (t_prepare h value)) (\<lambda>v.
     andThen (t_get tb h (r_id v)) (\<lambda>_.
     andThen (reads w_db) (\<lambda>d.
     if list_ex (\<lambda>r. \<not> same_row r v \<and> clashes tb v r) (tb_rows tb d) then raise (Fault ''unique constraint'')
     else if \<not> tb_refs tb d v then raise (Fault ''foreign key constraint'')
     else mutate (tb_write tb (put_row v)))))"

definition drop_row :: "string \<Rightarrow> string \<Rightarrow> 'z ident_scheme list \<Rightarrow> 'z ident_scheme list" where
  "drop_row app i rows = filter (\<lambda>r. \<not> (r_app r = app \<and> r_id r = i)) rows"

definition t_delete :: "('z ident_scheme) table \<Rightarrow> handle \<Rightarrow> string \<Rightarrow> unit db_act" where
  "t_delete tb h i =
     andThen (pureA (check_write h)) (\<lambda>_.
     andThen (t_get tb h i) (\<lambda>_.
     mutate (tb_write tb (drop_row (h_app h) i))))"

text \<open>The update of \<open>Lock\<close> sets a column to itself: it takes the row lock and changes nothing.\<close>

definition t_lock :: "('z ident_scheme) table \<Rightarrow> handle \<Rightarrow> string \<Rightarrow> unit db_act" where
  "t_lock tb h i =
     andThen (pureA (check_write h)) (\<lambda>_. andThen (t_get tb h i) (\<lambda>_. ret ()))"

section \<open>What the reads return\<close>

abbreviation may_read :: "handle \<Rightarrow> bool" where "may_read h \<equiv> check_read h = Inr ()"
abbreviation may_write :: "handle \<Rightarrow> bool" where "may_write h \<equiv> check_write h = Inr ()"

lemma check_write_read: "may_write h \<Longrightarrow> may_read h"
  by (auto simp: check_write_def check_read_def check_scope_def split: if_splits sum.splits)

lemma set_in_order [simp]: "set (in_order tb asc rows) = set rows"
  by (simp add: in_order_def split: option.splits)

lemma length_in_order [simp]: "length (in_order tb asc rows) = length rows"
  by (simp add: in_order_def split: option.splits)

lemma in_order_Nil [simp]: "in_order tb asc [] = []"
  by (simp add: in_order_def split: option.splits)

lemma in_order_single [simp]: "in_order tb asc [r] = [r]"
  by (simp add: in_order_def split: option.splits)

lemma set_in_app [simp]: "set (in_app app rows) = {r \<in> set rows. r_app r = app}"
  by (auto simp: in_app_def)

lemma set_page: "set (page n k rows) \<subseteq> set rows"
  unfolding page_def by (meson in_set_dropD in_set_takeD subsetI)

lemma page_all: "length rows \<le> nat n \<Longrightarrow> page n 0 rows = rows"
  by (simp add: page_def)

lemma where_clause_Inr: "where_clause cols f = Inr cond \<Longrightarrow> cond = flt_selects cols f"
  by (auto simp: where_clause_def split: if_splits)

text \<open>The hits of a query: the rows of the application that the filter selects, in order, one page.\<close>

definition hits :: "('z ident_scheme) table \<Rightarrow> string \<Rightarrow> filter_spec \<Rightarrow> db \<Rightarrow> 'z ident_scheme list" where
  "hits tb app f d =
     page (if f_limit f = 0 then 100 else f_limit f) (f_offset f)
       (in_order tb (f_ascending f) (filter (flt_selects (tb_cols tb) f) (in_app app (tb_rows tb d))))"

definition flt_ok :: "('z ident_scheme) table \<Rightarrow> filter_spec \<Rightarrow> bool" where
  "flt_ok tb f \<longleftrightarrow>
     (case where_clause (tb_cols tb) f of Inl _ \<Rightarrow> False | Inr _ \<Rightarrow> True) \<and>
     (let limit = (if f_limit f = 0 then 100 else f_limit f) in 1 \<le> limit \<and> limit \<le> 10000 \<and> 0 \<le> f_offset f)"

lemma hits_subset: "set (hits tb app f d) \<subseteq> {r \<in> set (tb_rows tb d). r_app r = app \<and> flt_selects (tb_cols tb) f r}"
  unfolding hits_def by (rule subset_trans [OF set_page]) auto

lemma hits_own_app: "\<not> list_ex (\<lambda>r. r_app r \<noteq> app) (hits tb app f d)"
  using hits_subset [of tb app f d] by (auto simp: list_ex_iff)

lemma t_find_run [run_iffs]:
  "t_find tb h f s = (Inr rs, t) \<longleftrightarrow>
     may_read h \<and> flt_ok tb f \<and> t = s \<and> rs = hits tb (h_app h) f (w_db s)"
proof (cases "where_clause (tb_cols tb) f")
  case (Inl e)
  then show ?thesis by (auto simp: t_find_def run_iffs flt_ok_def)
next
  case (Inr cond)
  then have "cond = flt_selects (tb_cols tb) f" by (rule where_clause_Inr)
  with Inr show ?thesis
    using hits_own_app [of "h_app h" tb f "w_db s"]
    by (auto simp: t_find_def run_iffs flt_ok_def hits_def Let_def)
qed

lemma t_find_state: "snd (t_find tb h f s) = s"
  by (auto simp: t_find_def andThen_def pureA_def reads_def ret_def raise_def Let_def
      split: sum.splits prod.splits)

lemma t_count_run [run_iffs]:
  "t_count tb h f s = (Inr n, t) \<longleftrightarrow>
     may_read h \<and> (\<exists>cond. where_clause (tb_cols tb) f = Inr cond) \<and> t = s \<and>
     n = int (length (filter (flt_selects (tb_cols tb) f) (in_app (h_app h) (tb_rows tb (w_db s)))))"
  by (auto simp: t_count_def run_iffs dest: where_clause_Inr)


subsection \<open>One row by its identifier\<close>

text \<open>What \<open>Get\<close> finds: nothing for the empty identifier, else the first row in query order.\<close>

definition row_at :: "('z ident_scheme) table \<Rightarrow> string \<Rightarrow> db \<Rightarrow> string \<Rightarrow> 'z ident_scheme option" where
  "row_at tb app d i =
     (if i = [] then None
      else case in_order tb False (filter (\<lambda>r. r_id r = i) (in_app app (tb_rows tb d))) of
          [] \<Rightarrow> None
        | r # _ \<Rightarrow> Some r)"

lemma flt_selects_id:
  "i \<noteq> [] \<Longrightarrow> flt_selects cols (no_filter\<lparr>f_id := i, f_limit := n\<rparr>) = (\<lambda>r. r_id r = i)"
  by (rule ext) (simp add: flt_selects_def flt_fields_def no_filter_def)

lemma flt_ok_id: "flt_ok tb (no_filter\<lparr>f_id := i, f_limit := 1\<rparr>)"
  by (simp add: flt_ok_def where_clause_def flt_fields_def no_filter_def)

lemma t_get_run [run_iffs]:
  "t_get tb h i s = (Inr r, t) \<longleftrightarrow> may_read h \<and> t = s \<and> row_at tb (h_app h) (w_db s) i = Some r"
proof (cases "i = []")
  case True
  then show ?thesis by (auto simp: t_get_def row_at_def)
next
  case False
  let ?f = "no_filter\<lparr>f_id := i, f_limit := 1\<rparr>"
  have first: "hits tb (h_app h) ?f (w_db s) =
      take 1 (in_order tb False (filter (\<lambda>r. r_id r = i) (in_app (h_app h) (tb_rows tb (w_db s)))))"
    by (simp add: hits_def flt_selects_id [OF False] page_def) (simp add: no_filter_def)
  show ?thesis
    using False first
    by (auto simp: t_get_def row_at_def run_iffs flt_ok_id split: list.splits)
qed

lemma t_get_state: "snd (t_get tb h i s) = s"
  using t_find_state [of tb h "no_filter\<lparr>f_id := i, f_limit := 1\<rparr>" s]
  by (auto simp: t_get_def andThen_def ret_def raise_def split: sum.splits prod.splits list.splits)

lemma row_at_SomeD:
  assumes "row_at tb app d i = Some r"
  shows "r \<in> set (tb_rows tb d)" and "r_app r = app" and "r_id r = i" and "i \<noteq> []"
proof -
  from assms obtain rs where
    rs: "in_order tb False (filter (\<lambda>r. r_id r = i) (in_app app (tb_rows tb d))) = r # rs"
    and "i \<noteq> []"
    by (auto simp: row_at_def split: if_splits list.splits)
  have "r \<in> set (in_order tb False (filter (\<lambda>r. r_id r = i) (in_app app (tb_rows tb d))))"
    by (simp add: rs)
  with \<open>i \<noteq> []\<close> show "r \<in> set (tb_rows tb d)" "r_app r = app" "r_id r = i" "i \<noteq> []"
    by auto
qed

lemma in_order_eq_Nil [simp]: "in_order tb asc rows = [] \<longleftrightarrow> rows = []"
  by (metis length_0_conv length_in_order)

lemma row_at_empty [simp]: "row_at tb app d [] = None"
  by (simp add: row_at_def)

lemma row_at_None: "row_at tb app d i = None \<longleftrightarrow> i = [] \<or> \<not> has_row app i (tb_rows tb d)"
proof -
  have "row_at tb app d i = None \<longleftrightarrow>
      i = [] \<or> in_order tb False (filter (\<lambda>r. r_id r = i) (in_app app (tb_rows tb d))) = []"
    by (auto simp: row_at_def split: list.splits)
  also have "\<dots> \<longleftrightarrow> i = [] \<or> \<not> has_row app i (tb_rows tb d)"
    by (auto simp: has_row_def list_ex_iff filter_empty_conv)
  finally show ?thesis .
qed

lemma row_at_ex: "(\<exists>x. row_at tb app d i = Some x) \<longleftrightarrow> i \<noteq> [] \<and> has_row app i (tb_rows tb d)"
  using row_at_None [of tb app d i] by (cases "row_at tb app d i") auto

lemma row_at_nonempty: "row_at tb app d i = Some x \<Longrightarrow> i \<noteq> []"
  by (rule row_at_SomeD(4))

text \<open>The identifiers of a table are unique per application.\<close>

definition unique_rows :: "'z ident_scheme list \<Rightarrow> bool" where
  "unique_rows rows \<longleftrightarrow> distinct (map (\<lambda>r. (r_app r, r_id r)) rows)"

lemma unique_rowsD:
  "unique_rows rows \<Longrightarrow> r \<in> set rows \<Longrightarrow> q \<in> set rows \<Longrightarrow> same_row r q \<Longrightarrow> r = q"
  by (auto simp: unique_rows_def same_row_def distinct_map inj_on_def)

lemma unique_rows_snoc:
  "unique_rows (rows @ [v]) \<longleftrightarrow> unique_rows rows \<and> (\<forall>r \<in> set rows. \<not> same_row v r)"
  by (auto simp: unique_rows_def same_row_def)

lemma map_key_put_row: "map (\<lambda>r. (r_app r, r_id r)) (put_row v rows) = map (\<lambda>r. (r_app r, r_id r)) rows"
  by (simp add: put_row_def same_row_def)

lemma unique_rows_put_row [simp]: "unique_rows (put_row v rows) = unique_rows rows"
  by (simp only: unique_rows_def map_key_put_row)

lemma unique_rows_drop_row: "unique_rows rows \<Longrightarrow> unique_rows (drop_row app i rows)"
  by (auto simp: unique_rows_def drop_row_def distinct_map intro: inj_on_subset)

lemma row_at_iff:
  assumes "unique_rows (tb_rows tb d)" and "i \<noteq> []"
  shows "row_at tb app d i = Some r \<longleftrightarrow> r \<in> set (tb_rows tb d) \<and> r_app r = app \<and> r_id r = i"
proof
  assume "row_at tb app d i = Some r"
  then show "r \<in> set (tb_rows tb d) \<and> r_app r = app \<and> r_id r = i"
    by (auto dest: row_at_SomeD)
next
  assume r: "r \<in> set (tb_rows tb d) \<and> r_app r = app \<and> r_id r = i"
  then have "has_row app i (tb_rows tb d)" by (auto simp: has_row_def list_ex_iff)
  with assms(2) have "row_at tb app d i \<noteq> None" by (simp add: row_at_None)
  then obtain q where q: "row_at tb app d i = Some q" by blast
  then have "q = r"
    using r row_at_SomeD [OF q] by (intro unique_rowsD [OF assms(1)]) (auto simp: same_row_def)
  with q show "row_at tb app d i = Some r" by simp
qed

lemma in_app_put_row: "r_app v \<noteq> app \<Longrightarrow> in_app app (put_row v rows) = in_app app rows"
  by (induction rows) (auto simp: in_app_def put_row_def same_row_def)

lemma in_app_drop_row: "app \<noteq> a \<Longrightarrow> in_app app (drop_row a i rows) = in_app app rows"
  by (auto simp: in_app_def drop_row_def intro!: filter_cong)

lemma set_drop_row: "set (drop_row a i rows) \<subseteq> set rows"
  by (auto simp: drop_row_def)

section \<open>What the writes do\<close>

lemma t_prepare_run:
  "t_prepare h v = Inr v' \<longleftrightarrow>
     may_write h \<and> (r_app v = [] \<or> r_app v = h_app h) \<and> r_id v \<noteq> [] \<and> v' = v\<lparr>r_app := h_app h\<rparr>"
  by (auto simp: t_prepare_def split: sum.splits)

lemma mutate_run [run_iffs]:
  "mutate f s = (Inr u, t) \<longleftrightarrow> t = s\<lparr>w_db := f (w_db s), w_mutations := Suc (w_mutations s)\<rparr>"
  by (auto simp: mutate_def run_iffs)

lemma t_insert_run [run_iffs]:
  "t_insert tb h value s = (Inr u, t) \<longleftrightarrow>
     (let v = value\<lparr>r_app := h_app h\<rparr> in
      may_write h \<and> (r_app value = [] \<or> r_app value = h_app h) \<and> r_id value \<noteq> [] \<and>
      (\<forall>r \<in> set (tb_rows tb (w_db s)). \<not> clashes tb v r) \<and> tb_refs tb (w_db s) v \<and>
      t = s\<lparr>w_db := tb_write tb (\<lambda>rows. rows @ [v]) (w_db s), w_mutations := Suc (w_mutations s)\<rparr>)"
  by (auto simp: t_insert_def run_iffs t_prepare_run list_ex_iff Let_def)

lemma t_save_run [run_iffs]:
  "t_save tb h value s = (Inr u, t) \<longleftrightarrow>
     (let v = value\<lparr>r_app := h_app h\<rparr> in
      may_write h \<and> (r_app value = [] \<or> r_app value = h_app h) \<and>
      row_at tb (h_app h) (w_db s) (r_id value) \<noteq> None \<and>
      (\<forall>r \<in> set (tb_rows tb (w_db s)). same_row r v \<or> \<not> clashes tb v r) \<and> tb_refs tb (w_db s) v \<and>
      t = s\<lparr>w_db := tb_write tb (put_row v) (w_db s), w_mutations := Suc (w_mutations s)\<rparr>)"
  by (auto simp: t_save_def run_iffs t_prepare_run list_ex_iff Let_def
      dest: check_write_read row_at_nonempty split: if_splits)

lemma t_delete_run [run_iffs]:
  "t_delete tb h i s = (Inr u, t) \<longleftrightarrow>
     may_write h \<and> row_at tb (h_app h) (w_db s) i \<noteq> None \<and>
     t = s\<lparr>w_db := tb_write tb (drop_row (h_app h) i) (w_db s), w_mutations := Suc (w_mutations s)\<rparr>"
  by (auto simp: t_delete_def run_iffs dest: check_write_read)

lemma t_lock_run [run_iffs]:
  "t_lock tb h i s = (Inr u, t) \<longleftrightarrow>
     may_write h \<and> row_at tb (h_app h) (w_db s) i \<noteq> None \<and> t = s"
  by (auto simp: t_lock_def run_iffs dest: check_write_read)

text \<open>A failing write leaves the state as it was.\<close>

lemma write_fails_unchanged:
  "fst (t_insert tb h v s) = Inl e \<Longrightarrow> snd (t_insert tb h v s) = s"
  "fst (t_save tb h v s) = Inl e \<Longrightarrow> snd (t_save tb h v s) = s"
  "fst (t_delete tb h i s) = Inl e \<Longrightarrow> snd (t_delete tb h i s) = s"
  using t_get_state [of tb h "r_id v" s] t_get_state [of tb h i s]
  by (auto simp: t_insert_def t_save_def t_delete_def andThen_def pureA_def reads_def raise_def
      mutate_def writes_def t_prepare_def split: sum.splits prod.splits if_splits)

section \<open>The table interface\<close>

text \<open>
  \<open>WriteTable[T]\<close> as its clients rely on it: seen from an application, a table is a finite map from
  non-empty identifiers to entities. \<open>look app d i\<close> is that map in the database \<open>d\<close>; \<open>inv\<close> is
  the invariant the operations keep.
\<close>

locale keyed_table =
  fixes inv :: "db \<Rightarrow> bool"
    and look :: "string \<Rightarrow> db \<Rightarrow> string \<Rightarrow> 'r option"
    and key :: "'r \<Rightarrow> string"
    and own :: "string \<Rightarrow> 'r \<Rightarrow> 'r"
    and get :: "handle \<Rightarrow> string \<Rightarrow> 'r db_act"
    and ins :: "handle \<Rightarrow> 'r \<Rightarrow> unit db_act"
    and sav :: "handle \<Rightarrow> 'r \<Rightarrow> unit db_act"
    and del :: "handle \<Rightarrow> string \<Rightarrow> unit db_act"
  assumes key_own [simp]: "key (own app r) = key r"
    and look_key: "look app d i = Some r \<Longrightarrow> key r = i \<and> i \<noteq> []"
    and get_iff: "get h i s = (Inr r, t) \<longleftrightarrow> may_read h \<and> t = s \<and> look (h_app h) (w_db s) i = Some r"
    and get_missing: "may_read h \<Longrightarrow> look (h_app h) (w_db s) i = None \<Longrightarrow> get h i s = (Inl ErrNotFound, s)"
    and ins_inv: "inv (w_db s) \<Longrightarrow> ins h r s = (Inr u, t) \<Longrightarrow> inv (w_db t)"
    and ins_look: "inv (w_db s) \<Longrightarrow> ins h r s = (Inr u, t) \<Longrightarrow>
          look (h_app h) (w_db s) (key r) = None \<and>
          look (h_app h) (w_db t) = (look (h_app h) (w_db s))(key r \<mapsto> own (h_app h) r)"
    and ins_other: "ins h r s = (Inr u, t) \<Longrightarrow> app \<noteq> h_app h \<Longrightarrow> look app (w_db t) = look app (w_db s)"
    and sav_inv: "inv (w_db s) \<Longrightarrow> sav h r s = (Inr u, t) \<Longrightarrow> inv (w_db t)"
    and sav_look: "inv (w_db s) \<Longrightarrow> sav h r s = (Inr u, t) \<Longrightarrow>
          look (h_app h) (w_db s) (key r) \<noteq> None \<and>
          look (h_app h) (w_db t) = (look (h_app h) (w_db s))(key r \<mapsto> own (h_app h) r)"
    and sav_other: "sav h r s = (Inr u, t) \<Longrightarrow> app \<noteq> h_app h \<Longrightarrow> look app (w_db t) = look app (w_db s)"
    and del_inv: "inv (w_db s) \<Longrightarrow> del h i s = (Inr u, t) \<Longrightarrow> inv (w_db t)"
    and del_look: "inv (w_db s) \<Longrightarrow> del h i s = (Inr u, t) \<Longrightarrow>
          look (h_app h) (w_db t) = (look (h_app h) (w_db s))(i := None)"
    and del_other: "del h i s = (Inr u, t) \<Longrightarrow> app \<noteq> h_app h \<Longrightarrow> look app (w_db t) = look app (w_db s)"
begin

lemma get_after_insert:
  "inv (w_db s) \<Longrightarrow> may_read h \<Longrightarrow> ins h r s = (Inr u, t) \<Longrightarrow> get h (key r) t = (Inr (own (h_app h) r), t)"
  by (auto simp: get_iff dest: ins_look)

lemma get_after_save:
  "inv (w_db s) \<Longrightarrow> may_read h \<Longrightarrow> sav h r s = (Inr u, t) \<Longrightarrow> get h (key r) t = (Inr (own (h_app h) r), t)"
  by (auto simp: get_iff dest: sav_look)

lemma get_after_save_other:
  "inv (w_db s) \<Longrightarrow> sav h r s = (Inr u, t) \<Longrightarrow> i \<noteq> key r \<Longrightarrow>
   get h i t = (Inr q, t) \<longleftrightarrow> get h i s = (Inr q, s)"
  by (auto simp: get_iff dest: sav_look)

lemma get_after_delete:
  "inv (w_db s) \<Longrightarrow> may_read h \<Longrightarrow> del h i s = (Inr u, t) \<Longrightarrow> get h i t = (Inl ErrNotFound, t)"
  by (rule get_missing) (auto dest: del_look)

lemma insert_refuses_used: "inv (w_db s) \<Longrightarrow> get h (key r) s = (Inr q, s) \<Longrightarrow> fst (ins h r s) \<noteq> Inr u"
  using ins_look [of s h r u "snd (ins h r s)"] by (metis get_iff option.distinct(1) prod.collapse)

lemma foreign_app_untouched:
  assumes "ins h r s = (Inr u, t) \<or> sav h r s = (Inr u, t) \<or> del h i s = (Inr u, t)" and "app \<noteq> h_app h"
  shows "look app (w_db t) = look app (w_db s)"
  using assms by (metis ins_other sav_other del_other)

end

text \<open>
  A table value whose \<open>tb_write\<close> really writes the rows that \<open>tb_rows\<close> reads implements the
  interface, with the invariant that identifiers are unique per application.
\<close>

locale stored_table =
  fixes tb :: "('z ident_scheme) table"
  assumes rows_write [simp]: "tb_rows tb (tb_write tb f d) = f (tb_rows tb d)"
begin

abbreviation rows_ok :: "db \<Rightarrow> bool" where
  "rows_ok d \<equiv> unique_rows (tb_rows tb d) \<and> (\<forall>r \<in> set (tb_rows tb d). r_id r \<noteq> [])"

lemma row_at_append:
  assumes "rows_ok d" and "\<forall>r \<in> set (tb_rows tb d). \<not> same_row v r" and "r_id v \<noteq> []" and "r_app v = a"
  shows "row_at tb a (tb_write tb (\<lambda>rows. rows @ [v]) d) = (row_at tb a d)(r_id v \<mapsto> v)"
proof
  fix i
  let ?d = "tb_write tb (\<lambda>rows. rows @ [v]) d"
  have u: "unique_rows (tb_rows tb ?d)" using assms by (simp add: unique_rows_snoc)
  show "row_at tb a ?d i = ((row_at tb a d)(r_id v \<mapsto> v)) i"
  proof (cases "i = r_id v")
    case True
    then have "row_at tb a ?d i = Some v" using assms by (subst row_at_iff [OF u]) auto
    with True show ?thesis by simp
  next
    case False
    have "row_at tb a ?d i = Some q \<longleftrightarrow> row_at tb a d i = Some q" for q
      using False assms(1) u by (cases "i = []") (auto simp: row_at_iff)
    with False show ?thesis by (metis fun_upd_other not_Some_eq)
  qed
qed

lemma set_put_row:
  "set (put_row v rows) = (if \<exists>r \<in> set rows. same_row r v then insert v {r \<in> set rows. \<not> same_row r v} else set rows)"
  by (auto simp: put_row_def)

lemma row_at_put_row:
  assumes "rows_ok d" and "row_at tb a d (r_id v) \<noteq> None" and "r_app v = a"
  shows "row_at tb a (tb_write tb (put_row v) d) = (row_at tb a d)(r_id v \<mapsto> v)"
proof
  fix i
  let ?d = "tb_write tb (put_row v) d"
  have u: "unique_rows (tb_rows tb ?d)" using assms by simp
  from assms(2,3) have ex: "\<exists>r \<in> set (tb_rows tb d). same_row r v" and ne: "r_id v \<noteq> []"
    by (auto simp: row_at_None has_row_def list_ex_iff same_row_def)
  show "row_at tb a ?d i = ((row_at tb a d)(r_id v \<mapsto> v)) i"
  proof (cases "i = r_id v")
    case True
    then have "row_at tb a ?d i = Some v"
      using ne assms(3) ex by (subst row_at_iff [OF u]) (auto simp: set_put_row)
    with True show ?thesis by simp
  next
    case False
    have "row_at tb a ?d i = Some q \<longleftrightarrow> row_at tb a d i = Some q" for q
      using False assms(1,3) u ex
      by (cases "i = []") (auto simp: row_at_iff set_put_row same_row_def)
    with False show ?thesis by (metis fun_upd_other not_Some_eq)
  qed
qed

lemma row_at_drop_row:
  assumes "rows_ok d"
  shows "row_at tb a (tb_write tb (drop_row a j) d) = (row_at tb a d)(j := None)"
proof
  fix i
  let ?d = "tb_write tb (drop_row a j) d"
  have u: "unique_rows (tb_rows tb ?d)" using assms by (simp add: unique_rows_drop_row)
  have "row_at tb a ?d i = Some q \<longleftrightarrow> row_at tb a d i = Some q \<and> i \<noteq> j" for q
    using assms u by (cases "i = []") (auto simp: row_at_iff drop_row_def)
  then show "row_at tb a ?d i = ((row_at tb a d)(j := None)) i"
    by (metis fun_upd_apply not_Some_eq)
qed

lemma row_at_other_app:
  assumes "in_app a (f (tb_rows tb d)) = in_app a (tb_rows tb d)"
  shows "row_at tb a (tb_write tb f d) = row_at tb a d"
  by (rule ext) (simp add: row_at_def assms)

sublocale keyed_table rows_ok "row_at tb" r_id "\<lambda>app r. r\<lparr>r_app := app\<rparr>"
  "t_get tb" "t_insert tb" "t_save tb" "t_delete tb"
proof (unfold_locales, goal_cases)
  case 1 show ?case by simp
next
  case (2 app d i r) then show ?case by (auto dest: row_at_SomeD)
next
  case (3 h i s r t) show ?case by (rule t_get_run)
next
  case (4 h s i)
  show ?case
  proof (cases "i = []")
    case True
    then show ?thesis by (simp add: t_get_def)
  next
    case False
    let ?f = "no_filter\<lparr>f_id := i, f_limit := 1\<rparr>"
    have "filter (flt_selects (tb_cols tb) ?f) (in_app (h_app h) (tb_rows tb (w_db s))) = []"
      using 4 False
      by (auto simp: row_at_None flt_selects_id has_row_def list_ex_iff filter_empty_conv)
    then have "hits tb (h_app h) ?f (w_db s) = []" by (simp add: hits_def page_def)
    then have "t_find tb h ?f s = (Inr [], s)" using 4 by (simp add: t_find_run flt_ok_id)
    with False show ?thesis by (simp add: t_get_def andThen_def)
  qed
next
  case (5 s h r u t) then show ?case
    by (auto simp: t_insert_run Let_def unique_rows_snoc clashes_def same_row_def)
next
  case (6 s h r u t)
  then show ?case
    by (auto simp: t_insert_run Let_def row_at_append clashes_def same_row_def row_at_None has_row_def list_ex_iff)
next
  case (7 h r s u t app) then show ?case
    by (auto simp: t_insert_run Let_def in_app_def intro!: row_at_other_app)
next
  case (8 s h r u t) then show ?case
    by (auto simp: t_save_run Let_def set_put_row row_at_None split: if_splits)
next
  case (9 s h r u t)
  then have "row_at tb (h_app h) (w_db s) (r_id r) \<noteq> None" by (simp add: t_save_run Let_def)
  with 9 show ?case
    using row_at_put_row [of "w_db s" "h_app h" "r\<lparr>r_app := h_app h\<rparr>"] by (simp add: t_save_run Let_def)
next
  case (10 h r s u t app)
  then show ?case by (auto simp: t_save_run Let_def in_app_put_row intro!: row_at_other_app)
next
  case (11 s h i u t) then show ?case
    by (auto simp: t_delete_run unique_rows_drop_row dest: set_drop_row [THEN subsetD])
next
  case (12 s h i u t) then show ?case by (auto simp: t_delete_run row_at_drop_row)
next
  case (13 h i s u t app) then show ?case
    by (auto simp: t_delete_run in_app_drop_row intro!: row_at_other_app)
qed

end

text \<open>Every table of the schema implements the interface.\<close>

interpretation keys: stored_table keys_t
  by unfold_locales (simp add: keys_t_def)

interpretation plans: stored_table plans_t
  by unfold_locales (simp add: plans_t_def)

interpretation licenses: stored_table licenses_t
  by unfold_locales (simp add: licenses_t_def)

interpretation activations: stored_table activations_t
  by unfold_locales (simp add: activations_t_def)

interpretation cards: stored_table cards_t
  by unfold_locales (simp add: cards_t_def)

interpretation rules: stored_table rules_t
  by unfold_locales (simp add: rules_t_def)

interpretation anchors: stored_table anchors_t
  by unfold_locales (simp add: anchors_t_def)

interpretation invitations: stored_table invitations_t
  by unfold_locales (simp add: invitations_t_def)

interpretation pending: stored_table pending_t
  by unfold_locales (simp add: pending_t_def)

interpretation nonces: stored_table nonces_t
  by unfold_locales (simp add: nonces_t_def)

interpretation channels: stored_table channels_t
  by unfold_locales (simp add: channels_t_def)

interpretation orders: stored_table orders_t
  by unfold_locales (simp add: orders_t_def)

interpretation webhooks: stored_table webhooks_t
  by unfold_locales (simp add: webhooks_t_def)

interpretation usage: stored_table usage_t
  by unfold_locales (simp add: usage_t_def)

interpretation grants: stored_table grants_t
  by unfold_locales (simp add: grants_t_def)

interpretation money: stored_table money_t
  by unfold_locales (simp add: money_t_def)

interpretation releases: stored_table releases_t
  by unfold_locales (simp add: releases_t_def)

interpretation audit: stored_table audit_t
  by unfold_locales (simp add: audit_t_def)

lemma table_rows [simp]:
  "tb_rows keys_t = d_keys"
  "tb_rows plans_t = d_plans"
  "tb_rows licenses_t = d_licenses"
  "tb_rows activations_t = d_activations"
  "tb_rows cards_t = d_cards"
  "tb_rows rules_t = d_rules"
  "tb_rows anchors_t = d_anchors"
  "tb_rows invitations_t = d_invitations"
  "tb_rows pending_t = d_pending"
  "tb_rows nonces_t = d_nonces"
  "tb_rows channels_t = d_channels"
  "tb_rows orders_t = d_orders"
  "tb_rows webhooks_t = d_webhooks"
  "tb_rows usage_t = d_usage"
  "tb_rows grants_t = d_grants"
  "tb_rows money_t = d_money"
  "tb_rows releases_t = d_releases"
  "tb_rows audit_t = d_audit"
  by (simp_all add: table_defs)

lemma table_write [simp]:
  "tb_write keys_t = d_keys_update"
  "tb_write plans_t = d_plans_update"
  "tb_write licenses_t = d_licenses_update"
  "tb_write activations_t = d_activations_update"
  "tb_write cards_t = d_cards_update"
  "tb_write rules_t = d_rules_update"
  "tb_write anchors_t = d_anchors_update"
  "tb_write invitations_t = d_invitations_update"
  "tb_write pending_t = d_pending_update"
  "tb_write nonces_t = d_nonces_update"
  "tb_write channels_t = d_channels_update"
  "tb_write orders_t = d_orders_update"
  "tb_write webhooks_t = d_webhooks_update"
  "tb_write usage_t = d_usage_update"
  "tb_write grants_t = d_grants_update"
  "tb_write money_t = d_money_update"
  "tb_write releases_t = d_releases_update"
  "tb_write audit_t = d_audit_update"
  by (simp_all add: table_defs)

end
