(* ===== verification/Transaction.thy ===== *)
theory Transaction
  imports Tables
begin

text \<open>
  Transactions of \<open>application_store.go\<close>: the application row, the audit chain, the operations on
  whole sets of rows, the platform-wide operations on agent accounts and release storage, and
  \<open>View\<close> and \<open>Update\<close>, which run a handler and roll the database back when it fails.

  \<open>tx_step\<close> is what a handler can do to the state, one rule per operation of the interface
  \<open>Transaction\<close>; \<open>within\<close> says that a computation does nothing else. What every handler keeps is
  proved once, by induction over the steps.
\<close>

section \<open>The application row\<close>

text \<open>\<open>Registry.GetApplication\<close> and \<open>ListApplications\<close>: the privileged directory.\<close>

definition find_app :: "db \<Rightarrow> string \<Rightarrow> application option" where
  "find_app d app = List.find (\<lambda>a. r_app a = app) (d_apps d)"

definition reg_get :: "string \<Rightarrow> application db_act" where
  "reg_get app =
     andThen (reads w_db) (\<lambda>d. case find_app d app of None \<Rightarrow> raise ErrNotFound | Some a \<Rightarrow> ret a)"

definition reg_list :: "string \<Rightarrow> application list db_act" where
  "reg_list developer =
     reads (\<lambda>s. sort_key (\<lambda>a. (- r_created a, r_app a))
       (filter (\<lambda>a. developer = [] \<or> ap_developer a = developer) (d_apps (w_db s))))"

definition tx_application :: "handle \<Rightarrow> application db_act" where
  "tx_application h =
     andThen (pureA (check_read h)) (\<lambda>_.
     andThen (reads w_db) (\<lambda>d. case find_app d (h_app h) of None \<Rightarrow> raise ErrNotFound | Some a \<Rightarrow> ret a))"

definition lock_application :: "handle \<Rightarrow> unit db_act" where
  "lock_application h = pureA (check_write h)"

definition save_application :: "handle \<Rightarrow> application \<Rightarrow> unit db_act" where
  "save_application h a =
     andThen (pureA (check_write h)) (\<lambda>_.
     if r_app a \<noteq> h_app h \<or> r_id a \<noteq> r_app a then raise ErrScopeMismatch
     else mutate (d_apps_update (map (\<lambda>b. if r_app b = r_app a then a else b))))"

section \<open>The audit chain\<close>

type_synonym audit_signer = "audit_event \<Rightarrow> err + string"

definition find_head :: "db \<Rightarrow> string \<Rightarrow> audit_head option" where
  "find_head d app = map_of (d_heads d) app"

definition put_head :: "string \<Rightarrow> audit_head \<Rightarrow> db \<Rightarrow> db" where
  "put_head app new = d_heads_update (map (\<lambda>(a, old). (a, if a = app then new else old)))"

definition event_id :: "int \<Rightarrow> string" where "event_id n = ''event_'' @ itoa n"

definition append_audit :: "handle \<Rightarrow> audit_event \<Rightarrow> audit_signer option \<Rightarrow> unit db_act" where
  "append_audit h event signer =
     andThen (pureA (check_write h)) (\<lambda>_.
     case signer of None \<Rightarrow> raise ErrAuditRequired | Some sign \<Rightarrow>
     if r_app event \<noteq> [] \<and> r_app event \<noteq> h_app h then raise ErrScopeMismatch
     else
       andThen (reads w_db) (\<lambda>d.
       case find_head d (h_app h) of None \<Rightarrow> raise (Fault ''no audit head'') | Some head \<Rightarrow>
       let seq = i64 (hd_sequence head + 1);
           ev = event\<lparr>r_app := h_app h, e_sequence := seq, e_previous := hd_hash head,
                      e_actor := sc_actor (h_scope h),
                      r_id := (if r_id event = [] then event_id seq else r_id event)\<rparr>
       in andThen (pureA (sign ev)) (\<lambda>hash.
          andThen (t_insert audit_t h (ev\<lparr>e_hash := hash\<rparr>)) (\<lambda>_.
          writes (\<lambda>s. s\<lparr>w_db := put_head (h_app h) \<lparr>hd_sequence = seq, hd_hash = hash\<rparr> (w_db s),
                        w_audits := Suc (w_audits s)\<rparr>)))))"

definition audit_head_of :: "handle \<Rightarrow> audit_head db_act" where
  "audit_head_of h =
     andThen (pureA (check_read h)) (\<lambda>_.
     andThen (reads w_db) (\<lambda>d. case find_head d (h_app h) of
        None \<Rightarrow> raise (Fault ''no audit head'') | Some head \<Rightarrow> ret head))"

section \<open>Operations on sets of rows\<close>

definition active_groups :: "db \<Rightarrow> string \<Rightarrow> string \<Rightarrow> string list" where
  "active_groups d app lic =
     remdups (map an_group
       (filter (\<lambda>r. an_license r = lic \<and> an_status r = ''active'') (in_app app (d_anchors d))))"

definition count_binding_groups :: "handle \<Rightarrow> string \<Rightarrow> int db_act" where
  "count_binding_groups h lic =
     andThen (pureA (check_read h)) (\<lambda>_.
     reads (\<lambda>s. int (length (active_groups (w_db s) (h_app h) lic))))"

text \<open>An \<open>UPDATE\<close> of the rows that satisfy a condition counts as a mutation if it met any row.\<close>

definition bulk :: "('r \<Rightarrow> bool) \<Rightarrow> ('r \<Rightarrow> 'r) \<Rightarrow> 'r table \<Rightarrow> unit db_act" where
  "bulk cond change tb =
     writes (\<lambda>s. if list_ex cond (tb_rows tb (w_db s))
       then s\<lparr>w_db := tb_write tb (map (\<lambda>r. if cond r then change r else r)) (w_db s),
              w_mutations := Suc (w_mutations s)\<rparr>
       else s)"

definition retire_bindings :: "handle \<Rightarrow> string \<Rightarrow> int \<Rightarrow> unit db_act" where
  "retire_bindings h lic now =
     andThen (pureA (check_write h)) (\<lambda>_.
     bulk (\<lambda>r. r_app r = h_app h \<and> an_license r = lic \<and> an_status r = ''active'')
          (\<lambda>r. r\<lparr>an_status := ''replaced'', r_updated := now\<rparr>) anchors_t)"

definition deactivate_all :: "handle \<Rightarrow> string \<Rightarrow> int \<Rightarrow> unit db_act" where
  "deactivate_all h lic now =
     andThen (pureA (check_write h)) (\<lambda>_.
     bulk (\<lambda>r. r_app r = h_app h \<and> a_license r = lic \<and> a_deactivated_at r = None)
          (\<lambda>r. r\<lparr>a_deactivated_at := Some now, r_updated := now,
                 a_deactivation_reason := ''administrative''\<rparr>) activations_t)"

definition invalidate_invitations :: "handle \<Rightarrow> string \<Rightarrow> int \<Rightarrow> unit db_act" where
  "invalidate_invitations h lic now =
     andThen (pureA (check_write h)) (\<lambda>_.
     bulk (\<lambda>r. r_app r = h_app h \<and> i_license r = lic)
          (\<lambda>r. r\<lparr>i_used_at := Some now, r_updated := now, i_key_hash := []\<rparr>) invitations_t)"

section \<open>Agent accounts and release storage\<close>

definition agent_account :: "handle \<Rightarrow> string \<Rightarrow> agent_account db_act" where
  "agent_account h i =
     andThen (pureA (check_read h)) (\<lambda>_.
     andThen (reads w_db) (\<lambda>d.
     case List.find (\<lambda>r. ag_id r = i) (d_agents d) of None \<Rightarrow> raise ErrNotFound | Some r \<Rightarrow>
     let acct = \<lparr>aa_id = i, aa_status = ag_status r, aa_balance = ag_balance r, aa_tier = ag_tier r,
                 aa_rate = 10000\<rparr>
     in if ag_tier r = [] then ret acct
        else case map_of (d_tiers d) (ag_tier r) of
            None \<Rightarrow> raise (Fault ''no tier'')
          | Some rate \<Rightarrow> ret (acct\<lparr>aa_rate := (case rate of None \<Rightarrow> 10000 | Some n \<Rightarrow> n)\<rparr>)))"

text \<open>\<open>UPDATE agent_accounts SET balance=\<dots> WHERE agent_id=? AND \<dots>\<close>.\<close>

definition add_balance :: "string \<Rightarrow> int \<Rightarrow> (int \<Rightarrow> bool) \<Rightarrow> db \<Rightarrow> db" where
  "add_balance i amount ok =
     d_agents_update (map (\<lambda>r. if ag_id r = i \<and> ok (ag_balance r)
       then r\<lparr>ag_balance := ag_balance r + amount\<rparr> else r))"

definition balance_met :: "string \<Rightarrow> (int \<Rightarrow> bool) \<Rightarrow> db \<Rightarrow> bool" where
  "balance_met i ok d \<longleftrightarrow> length (filter (\<lambda>r. ag_id r = i \<and> ok (ag_balance r)) (d_agents d)) = 1"

definition debit_agent :: "handle \<Rightarrow> string \<Rightarrow> int \<Rightarrow> int db_act" where
  "debit_agent h i amount =
     andThen (pureA (check_write h)) (\<lambda>_.
     if amount < 0 then raise (Fault ''negative debit'')
     else andThen (agent_account h i) (\<lambda>a.
       if aa_status a \<noteq> ''active'' then raise (LicErr ''AGENT_DISABLED'' 403)
       else if aa_balance a < amount then raise (LicErr ''INSUFFICIENT_BALANCE'' 409)
       else andThen (reads w_db) (\<lambda>d.
         if 0 < amount \<and> \<not> balance_met i (\<lambda>b. amount \<le> b) d then raise ErrConflict
         else andThen (mutate (add_balance i (- amount) (\<lambda>b. amount \<le> b))) (\<lambda>_.
           ret (aa_balance a - amount)))))"

definition balance_limit :: int where "balance_limit = 1000000000000"

definition credit_agent :: "handle \<Rightarrow> string \<Rightarrow> int \<Rightarrow> int db_act" where
  "credit_agent h i amount =
     andThen (pureA (check_write h)) (\<lambda>_.
     if amount < 0 then raise (Fault ''negative refund credit'')
     else andThen (agent_account h i) (\<lambda>a.
       if balance_limit - aa_balance a < amount then raise (LicErr ''BALANCE_LIMIT'' 409)
       else andThen (reads w_db) (\<lambda>d.
         if 0 < amount \<and> \<not> balance_met i (\<lambda>b. b \<le> balance_limit - amount) d then raise ErrConflict
         else andThen (mutate (add_balance i amount (\<lambda>b. b \<le> balance_limit - amount))) (\<lambda>_.
           ret (aa_balance a + amount)))))"

definition stored_bytes :: "(release \<Rightarrow> bool) \<Rightarrow> db \<Rightarrow> int" where
  "stored_bytes cond d =
     sum_list (map rl_size (filter (\<lambda>r. rl_status r \<noteq> ''deleted'' \<and> cond r) (d_releases d)))"

definition release_capacity_of :: "handle \<Rightarrow> release_capacity db_act" where
  "release_capacity_of h =
     andThen (pureA (check_write h)) (\<lambda>_.
     andThen (reads w_db) (\<lambda>d.
     andThen (tx_application h) (\<lambda>app.
     ret \<lparr>rc_total = stored_bytes (\<lambda>_. True) d + d_legacy_bytes d,
          rc_developer = (if ap_developer app = [] then 0
             else stored_bytes (\<lambda>r. list_ex (\<lambda>a. r_app a = r_app r \<and> ap_developer a = ap_developer app)
                                      (d_apps d)) d),
          rc_application = stored_bytes (\<lambda>r. r_app r = h_app h) d,
          rc_versions = int (length (filter (\<lambda>r. r_app r = h_app h \<and> rl_status r \<noteq> ''deleted'')
                                       (d_releases d)))\<rparr>)))"

section \<open>Diagnostics\<close>

record diagnostics =
  dg_licenses :: int
  dg_active :: int
  dg_expiring :: int
  dg_failures :: "(string \<times> int) list"

definition failure_kinds :: "string list" where
  "failure_kinds = [''verified'', ''activated'', ''request_authentication'', ''update_authorization'']"

definition tx_diagnostics :: "handle \<Rightarrow> int \<Rightarrow> diagnostics db_act" where
  "tx_diagnostics h now =
     andThen (t_count licenses_t h (no_filter\<lparr>f_exclude_renewals := True\<rparr>)) (\<lambda>total.
     andThen (t_count activations_t h (no_filter\<lparr>f_active_at := Some now\<rparr>)) (\<lambda>active.
     andThen (t_count licenses_t h (no_filter\<lparr>f_status := ''active'', f_exclude_renewals := True,
        f_before := Some (add_days now 7), f_expires_after := Some now\<rparr>)) (\<lambda>expiring.
     andThen (pureA (where_clause (tb_cols audit_t) (no_filter\<lparr>f_result := ''failed''\<rparr>))) (\<lambda>cond.
     andThen (reads (\<lambda>s. map e_reason (filter (\<lambda>r. cond r \<and> e_type r \<in> set failure_kinds)
        (in_app (h_app h) (d_audit (w_db s)))))) (\<lambda>reasons.
     ret \<lparr>dg_licenses = total, dg_active = active, dg_expiring = expiring,
          dg_failures = map (\<lambda>r. (r, int (count_list reasons r))) (remdups reasons)\<rparr>)))))"

section \<open>Views and updates\<close>

text \<open>
  \<open>View\<close> and \<open>Update\<close>. A transaction that fails is rolled back: the database is the one before it;
  random draws stay drawn. A transaction that changed something and appended no audit event fails.
\<close>

definition view :: "ctx \<Rightarrow> scope \<Rightarrow> (handle \<Rightarrow> 'a db_act) \<Rightarrow> 'a db_act" where
  "view cx sc body =
     andThen (pureA (check_scope cx sc False)) (\<lambda>_.
     let h = \<lparr>h_ctx = cx, h_scope = sc, h_writable = False\<rparr> in
     andThen (tx_application h) (\<lambda>_. body h))"

definition transaction :: "bool \<Rightarrow> ctx \<Rightarrow> scope \<Rightarrow> (handle \<Rightarrow> 'a db_act) \<Rightarrow> 'a db_act" where
  "transaction creating cx sc body =
     andThen (pureA (check_scope cx sc True)) (\<lambda>_ s.
     let h = \<lparr>h_ctx = cx, h_scope = sc, h_writable = True\<rparr>;
         m = (if creating then body h
              else andThen (lock_application h) (\<lambda>_. andThen (tx_application h) (\<lambda>_. body h)))
     in case m (s\<lparr>w_mutations := 0, w_audits := 0\<rparr>) of
          (Inl e, t) \<Rightarrow> (Inl e, t\<lparr>w_db := w_db s\<rparr>)
        | (Inr x, t) \<Rightarrow>
            if 0 < w_mutations t \<and> w_audits t = 0 then (Inl ErrAuditRequired, t\<lparr>w_db := w_db s\<rparr>)
            else (Inr x, t))"

definition update :: "ctx \<Rightarrow> scope \<Rightarrow> (handle \<Rightarrow> 'a db_act) \<Rightarrow> 'a db_act" where
  "update = transaction False"

text \<open>\<open>Registry.CreateApplication\<close>.\<close>

definition create_rows ::
  "application \<Rightarrow> signing_key \<Rightarrow> audit_event \<Rightarrow> audit_signer \<Rightarrow> handle \<Rightarrow> unit db_act" where
  "create_rows a key event sign h =
     andThen (reads w_db) (\<lambda>d.
     if app_exists d (r_app a) then raise (Fault ''unique constraint'')
     else andThen (mutate (d_apps_update (\<lambda>rows. rows @ [a]))) (\<lambda>_.
       if find_head d (r_app a) \<noteq> None then raise (Fault ''unique constraint'')
       else andThen (writes (w_db_update (d_heads_update (\<lambda>hs. hs @ [(r_app a, \<lparr>hd_sequence = 0, hd_hash = []\<rparr>)])))) (\<lambda>_.
         andThen (t_insert keys_t h key) (\<lambda>_.
         append_audit h event (Some sign)))))"

definition reg_create :: "ctx \<Rightarrow> application \<Rightarrow> signing_key \<Rightarrow> audit_event \<Rightarrow> audit_signer \<Rightarrow> unit db_act" where
  "reg_create cx a key event sign =
     (if r_app a = [] \<or> r_id a \<noteq> r_app a \<or> act_kind (e_actor event) = [] then raise ErrScopeRequired
      else andThen (pureA (bind_scope cx (r_app a) (e_actor event) True)) (\<lambda>scoped.
        andThen (pureA (scope_from scoped)) (\<lambda>sc.
        transaction True scoped sc (create_rows a key event sign))))"

end
