(* ===== verification/Steps.thy ===== *)
theory Steps
  imports Transaction
begin

text \<open>
  What a handler can do to the state. \<open>tx_step sg h\<close> has one rule per writing operation of the
  interface \<open>Transaction\<close> (\<open>repository.go\<close>), \<open>within sg h m\<close> says that \<open>m\<close> is a sequence of such
  steps, and \<open>via_intros\<close> derives \<open>within\<close> for a handler from its text. What holds across the
  steps, by rule induction, therefore holds across every handler: rows of other applications are
  not touched, identifiers stay unique, the audit chain stays whole and only grows, a change counts
  as a mutation, and agent balances stay within their limits.
\<close>

section \<open>Steps of a transaction\<close>

definition table_step :: "('z ident_scheme) table \<Rightarrow> handle \<Rightarrow> world \<Rightarrow> world \<Rightarrow> bool" where
  "table_step tb h s t \<longleftrightarrow>
     (\<exists>v. t_insert tb h v s = (Inr (), t)) \<or> (\<exists>v. t_save tb h v s = (Inr (), t)) \<or>
     (\<exists>i. t_delete tb h i s = (Inr (), t))"

inductive tx_step :: "audit_signer \<Rightarrow> handle \<Rightarrow> world \<Rightarrow> world \<Rightarrow> bool" for sg h where
  draw: "tx_step sg h s (s\<lparr>w_draws := Suc (w_draws s)\<rparr>)"
| files: "tx_step sg h s (s\<lparr>w_files := f\<rparr>)"
| keys: "table_step keys_t h s t \<Longrightarrow> tx_step sg h s t"
| plans: "table_step plans_t h s t \<Longrightarrow> tx_step sg h s t"
| licenses: "table_step licenses_t h s t \<Longrightarrow> tx_step sg h s t"
| activations: "table_step activations_t h s t \<Longrightarrow> tx_step sg h s t"
| cards: "table_step cards_t h s t \<Longrightarrow> tx_step sg h s t"
| rules: "table_step rules_t h s t \<Longrightarrow> tx_step sg h s t"
| anchors: "table_step anchors_t h s t \<Longrightarrow> tx_step sg h s t"
| invitations: "table_step invitations_t h s t \<Longrightarrow> tx_step sg h s t"
| pending: "table_step pending_t h s t \<Longrightarrow> tx_step sg h s t"
| nonces: "table_step nonces_t h s t \<Longrightarrow> tx_step sg h s t"
| channels: "table_step channels_t h s t \<Longrightarrow> tx_step sg h s t"
| orders: "table_step orders_t h s t \<Longrightarrow> tx_step sg h s t"
| webhooks: "table_step webhooks_t h s t \<Longrightarrow> tx_step sg h s t"
| usage: "table_step usage_t h s t \<Longrightarrow> tx_step sg h s t"
| grants: "table_step grants_t h s t \<Longrightarrow> tx_step sg h s t"
| money: "table_step money_t h s t \<Longrightarrow> tx_step sg h s t"
| releases: "table_step releases_t h s t \<Longrightarrow> tx_step sg h s t"
| application: "save_application h a s = (Inr (), t) \<Longrightarrow> tx_step sg h s t"
| retire: "retire_bindings h i n s = (Inr (), t) \<Longrightarrow> tx_step sg h s t"
| deactivate: "deactivate_all h i n s = (Inr (), t) \<Longrightarrow> tx_step sg h s t"
| invalidate: "invalidate_invitations h i n s = (Inr (), t) \<Longrightarrow> tx_step sg h s t"
| debit: "debit_agent h i n s = (Inr b, t) \<Longrightarrow> tx_step sg h s t"
| credit: "credit_agent h i n s = (Inr b, t) \<Longrightarrow> tx_step sg h s t"
| audit: "append_audit h ev (Some sg) s = (Inr (), t) \<Longrightarrow> tx_step sg h s t"

abbreviation within :: "audit_signer \<Rightarrow> handle \<Rightarrow> 'a db_act \<Rightarrow> bool" where
  "within sg h \<equiv> via (tx_step sg h)"

lemma via_reads [via_intros]:
  "via R (t_find tb h f)" "via R (t_get tb h i)" "via R (t_count tb h f)"
  "via R (t_lock tb h i)" "via R (tx_application h)" "via R (lock_application h)"
  "via R (audit_head_of h)" "via R (count_binding_groups h i)"
  "via R (agent_account h i)" "via R (release_capacity_of h)" "via R (tx_diagnostics h now)"
  "via R (reg_get i)" "via R (reg_list i)"
proof -
  show f: "via R (t_find tb h f)" by (intro via_unchanged t_find_state)
  show g: "via R (t_get tb h i)" by (intro via_unchanged t_get_state)
  show "via R (t_lock tb h i)" unfolding t_lock_def by (intro via_intros g)
  show "via R (t_count tb h f)" unfolding t_count_def by (intro via_intros)
  show "via R (tx_diagnostics h now)"
    unfolding tx_diagnostics_def t_count_def by (intro via_intros)
  show a: "via R (tx_application h)" unfolding tx_application_def by (intro via_intros)
  show "via R (lock_application h)" unfolding lock_application_def by (intro via_intros)
  show "via R (audit_head_of h)" unfolding audit_head_of_def by (intro via_intros)
  show "via R (count_binding_groups h i)" unfolding count_binding_groups_def by (intro via_intros)
  show "via R (agent_account h i)" unfolding agent_account_def by (intro via_intros)
  show "via R (release_capacity_of h)" unfolding release_capacity_of_def by (intro via_intros a)
  show "via R (reg_get i)" unfolding reg_get_def by (intro via_intros)
  show "via R (reg_list i)" unfolding reg_list_def by (intro via_intros)
qed

lemma within_table:
  assumes "\<And>s t. table_step tb h s t \<Longrightarrow> tx_step sg h s t"
  shows "within sg h (t_insert tb h v)" and "within sg h (t_save tb h v)" and "within sg h (t_delete tb h i)"
proof -
  have one: "within sg h m"
    if "\<And>s t. m s = (Inr (), t) \<Longrightarrow> table_step tb h s t" and "\<And>s e. fst (m s) = Inl e \<Longrightarrow> snd (m s) = s" for m
  proof (rule via_one)
    fix s r t assume m: "m s = (r, t)"
    then show "tx_step sg h s t \<or> t = s"
      using that(1) [of s t] that(2) [of s] assms by (cases r) auto
  qed
  show "within sg h (t_insert tb h v)"
    by (rule one) (auto simp: table_step_def dest: write_fails_unchanged(1))
  show "within sg h (t_save tb h v)"
    by (rule one) (auto simp: table_step_def dest: write_fails_unchanged(2))
  show "within sg h (t_delete tb h i)"
    by (rule one) (auto simp: table_step_def dest: write_fails_unchanged(3))
qed

lemmas within_tables [via_intros] =
  within_table [OF tx_step.keys] within_table [OF tx_step.plans] within_table [OF tx_step.licenses]
  within_table [OF tx_step.activations] within_table [OF tx_step.cards] within_table [OF tx_step.rules]
  within_table [OF tx_step.anchors] within_table [OF tx_step.invitations] within_table [OF tx_step.pending]
  within_table [OF tx_step.nonces] within_table [OF tx_step.channels] within_table [OF tx_step.orders]
  within_table [OF tx_step.webhooks] within_table [OF tx_step.usage] within_table [OF tx_step.grants]
  within_table [OF tx_step.money] within_table [OF tx_step.releases]

text \<open>A failing operation leaves the state as it was.\<close>

lemma t_insert_fails: "t_insert tb h v s = (Inl e, t) \<Longrightarrow> t = s"
  using write_fails_unchanged(1) [of tb h v s] by simp

lemma append_audit_fails: "append_audit h ev sg s = (Inl e, t) \<Longrightarrow> t = s"
  by (auto simp: append_audit_def andThen_fails run_iffs pureA_def reads_def writes_def Let_def raise_def
      split: option.splits if_splits dest!: t_insert_fails)

lemma agent_account_state: "snd (agent_account h i s) = s"
  by (auto simp: agent_account_def andThen_def pureA_def reads_def ret_def raise_def Let_def
      split: option.splits sum.splits prod.splits if_splits)

lemma agent_op_fails:
  "debit_agent h i n s = (Inl e, t) \<Longrightarrow> t = s" "credit_agent h i n s = (Inl e, t) \<Longrightarrow> t = s"
  using agent_account_state [of h i s]
  by (auto simp: debit_agent_def credit_agent_def andThen_def pureA_def reads_def ret_def raise_def
      mutate_def writes_def split: option.splits sum.splits prod.splits if_splits)

lemma bulk_op_fails:
  "retire_bindings h i n s = (Inl e, t) \<Longrightarrow> t = s" "deactivate_all h i n s = (Inl e, t) \<Longrightarrow> t = s"
  "invalidate_invitations h i n s = (Inl e, t) \<Longrightarrow> t = s" "save_application h a s = (Inl e, t) \<Longrightarrow> t = s"
  by (auto simp: retire_bindings_def deactivate_all_def invalidate_invitations_def save_application_def
      bulk_def andThen_fails run_iffs pureA_def writes_def mutate_def raise_def split: if_splits)

lemma within_ops [via_intros]:
  "within sg h (save_application h a)" "within sg h (retire_bindings h i n)"
  "within sg h (deactivate_all h i n)" "within sg h (invalidate_invitations h i n)"
  "within sg h (debit_agent h i n)" "within sg h (credit_agent h i n)"
  "within sg h (append_audit h ev (Some sg))"
proof -
  have one: "within sg h m"
    if "\<And>s x t. m s = (Inr x, t) \<Longrightarrow> tx_step sg h s t" and "\<And>s e t. m s = (Inl e, t) \<Longrightarrow> t = s" for m :: "'b db_act"
    by (rule via_one) (metis that sum.exhaust)
  show "within sg h (save_application h a)" "within sg h (retire_bindings h i n)"
    "within sg h (deactivate_all h i n)" "within sg h (invalidate_invitations h i n)"
    "within sg h (append_audit h ev (Some sg))"
    by (rule one; auto intro: tx_step.intros dest: bulk_op_fails append_audit_fails)+
  show "within sg h (debit_agent h i n)" "within sg h (credit_agent h i n)"
    by (rule one; auto intro: tx_step.intros dest: agent_op_fails)+
qed

section \<open>What one step changes\<close>

text \<open>The three ways to edit the rows of a table, for the application \<open>app\<close>.\<close>

definition edits :: "string \<Rightarrow> 'z ident_scheme list \<Rightarrow> ('z ident_scheme list \<Rightarrow> 'z ident_scheme list) \<Rightarrow> bool" where
  "edits app rows f \<longleftrightarrow>
     (\<exists>v. r_app v = app \<and> r_id v \<noteq> [] \<and> f = (\<lambda>rs. rs @ [v]) \<and> (\<forall>r \<in> set rows. \<not> same_row v r)) \<or>
     (\<exists>v. r_app v = app \<and> r_id v \<noteq> [] \<and> f = put_row v) \<or>
     (\<exists>i. f = drop_row app i)"

definition ids_ok :: "'z ident_scheme list \<Rightarrow> bool" where
  "ids_ok rows \<longleftrightarrow> unique_rows rows \<and> (\<forall>r \<in> set rows. r_id r \<noteq> [])"

lemma edits_in_app: "edits app rows f \<Longrightarrow> a \<noteq> app \<Longrightarrow> in_app a (f rows) = in_app a rows"
  by (auto simp: edits_def in_app_put_row in_app_drop_row) (auto simp: in_app_def)

lemma set_put_row_subset: "set (put_row v rows) \<subseteq> insert v (set rows)"
  by (auto simp: put_row_def)

lemma edits_ids_ok: "edits app rows f \<Longrightarrow> ids_ok rows \<Longrightarrow> ids_ok (f rows)"
  by (auto simp: edits_def ids_ok_def unique_rows_snoc unique_rows_drop_row
      dest: set_put_row_subset [THEN subsetD] set_drop_row [THEN subsetD])

definition table_edit :: "('z ident_scheme) table \<Rightarrow> handle \<Rightarrow> world \<Rightarrow> world \<Rightarrow> bool" where
  "table_edit tb h s t \<longleftrightarrow> may_write h \<and>
     (\<exists>f. edits (h_app h) (tb_rows tb (w_db s)) f \<and>
        t = s\<lparr>w_db := tb_write tb f (w_db s), w_mutations := Suc (w_mutations s)\<rparr>)"

lemma table_step_edit: "table_step tb h s t \<Longrightarrow> table_edit tb h s t"
  unfolding table_step_def
proof (elim disjE exE)
  fix v assume "t_insert tb h v s = (Inr (), t)"
  then show ?thesis
    unfolding table_edit_def edits_def t_insert_run Let_def
    by (intro conjI exI [of _ "\<lambda>rows. rows @ [v\<lparr>r_app := h_app h\<rparr>]"] disjI1 exI [of _ "v\<lparr>r_app := h_app h\<rparr>"])
       (auto simp: clashes_def same_row_def)
next
  fix v assume "t_save tb h v s = (Inr (), t)"
  then show ?thesis
    unfolding table_edit_def edits_def t_save_run Let_def
    by (intro conjI exI [of _ "put_row (v\<lparr>r_app := h_app h\<rparr>)"] disjI2 disjI1 exI [of _ "v\<lparr>r_app := h_app h\<rparr>"])
       (auto dest: row_at_nonempty)
next
  fix i assume "t_delete tb h i s = (Inr (), t)"
  then show ?thesis
    unfolding table_edit_def edits_def t_delete_run
    by (intro conjI exI [of _ "drop_row (h_app h) i"] disjI2 exI [of _ i]) auto
qed

text \<open>The other steps in the same form.\<close>

lemma bulk_run [run_iffs]:
  "bulk cond change tb s = (Inr u, t) \<longleftrightarrow>
     t = (if list_ex cond (tb_rows tb (w_db s))
       then s\<lparr>w_db := tb_write tb (map (\<lambda>r. if cond r then change r else r)) (w_db s),
              w_mutations := Suc (w_mutations s)\<rparr>
       else s)"
  by (auto simp: bulk_def run_iffs)

lemma save_application_run [run_iffs]:
  "save_application h a s = (Inr u, t) \<longleftrightarrow>
     may_write h \<and> r_app a = h_app h \<and> r_id a = r_app a \<and>
     t = s\<lparr>w_db := d_apps_update (map (\<lambda>b. if r_app b = r_app a then a else b)) (w_db s),
           w_mutations := Suc (w_mutations s)\<rparr>"
  by (auto simp: save_application_def run_iffs)

text \<open>The account an agent has, as a value.\<close>

definition account_of :: "db \<Rightarrow> string \<Rightarrow> agent_account option" where
  "account_of d i =
     (case List.find (\<lambda>r. ag_id r = i) (d_agents d) of None \<Rightarrow> None | Some r \<Rightarrow>
      let acct = \<lparr>aa_id = i, aa_status = ag_status r, aa_balance = ag_balance r, aa_tier = ag_tier r,
                 aa_rate = 10000\<rparr>
      in if ag_tier r = [] then Some acct
         else map_option (\<lambda>rate. acct\<lparr>aa_rate := (case rate of None \<Rightarrow> 10000 | Some n \<Rightarrow> n)\<rparr>)
                (map_of (d_tiers d) (ag_tier r)))"

lemma agent_account_run [run_iffs]:
  "agent_account h i s = (Inr a, t) \<longleftrightarrow> may_read h \<and> t = s \<and> account_of (w_db s) i = Some a"
  by (auto simp: agent_account_def account_of_def run_iffs Let_def split: option.splits)

lemma debit_agent_run [run_iffs]:
  "debit_agent h i n s = (Inr b, t) \<longleftrightarrow>
     may_write h \<and> 0 \<le> n \<and>
     (\<exists>a. account_of (w_db s) i = Some a \<and> aa_status a = ''active'' \<and> n \<le> aa_balance a \<and>
        (0 < n \<longrightarrow> balance_met i (\<lambda>b. n \<le> b) (w_db s)) \<and> b = aa_balance a - n \<and>
        t = s\<lparr>w_db := add_balance i (- n) (\<lambda>b. n \<le> b) (w_db s), w_mutations := Suc (w_mutations s)\<rparr>)"
  unfolding debit_agent_def
  by (simp add: run_iffs not_less cong: conj_cong) (safe; simp_all add: check_write_read)

lemma credit_agent_run [run_iffs]:
  "credit_agent h i n s = (Inr b, t) \<longleftrightarrow>
     may_write h \<and> 0 \<le> n \<and>
     (\<exists>a. account_of (w_db s) i = Some a \<and> n \<le> balance_limit - aa_balance a \<and>
        (0 < n \<longrightarrow> balance_met i (\<lambda>b. b \<le> balance_limit - n) (w_db s)) \<and> b = aa_balance a + n \<and>
        t = s\<lparr>w_db := add_balance i n (\<lambda>b. b \<le> balance_limit - n) (w_db s), w_mutations := Suc (w_mutations s)\<rparr>)"
  unfolding credit_agent_def
  by (simp add: run_iffs not_less cong: conj_cong) (safe; simp_all add: check_write_read)

text \<open>The event that is stored, before its hash is known.\<close>

definition audit_row :: "handle \<Rightarrow> audit_head \<Rightarrow> audit_event \<Rightarrow> audit_event" where
  "audit_row h head event =
     (let seq = i64 (hd_sequence head + 1) in
      event\<lparr>r_app := h_app h, e_sequence := seq, e_previous := hd_hash head,
             e_actor := sc_actor (h_scope h),
             r_id := (if r_id event = [] then event_id seq else r_id event)\<rparr>)"

lemma audit_row_simps [simp]:
  "r_app (audit_row h head ev) = h_app h" "r_id (audit_row h head ev) \<noteq> []"
  "e_sequence (audit_row h head ev) = i64 (hd_sequence head + 1)"
  "e_previous (audit_row h head ev) = hd_hash head"
  by (simp_all add: audit_row_def Let_def event_id_def)

definition audit_effect :: "handle \<Rightarrow> audit_event \<Rightarrow> string \<Rightarrow> world \<Rightarrow> world" where
  "audit_effect h ev hash s =
     s\<lparr>w_db := put_head (h_app h) \<lparr>hd_sequence = e_sequence ev, hd_hash = hash\<rparr>
                (d_audit_update (\<lambda>rows. rows @ [ev\<lparr>e_hash := hash\<rparr>]) (w_db s)),
       w_mutations := Suc (w_mutations s), w_audits := Suc (w_audits s)\<rparr>"

lemma append_audit_run [run_iffs]:
  "append_audit h event (Some sg) s = (Inr u, t) \<longleftrightarrow>
     may_write h \<and> (r_app event = [] \<or> r_app event = h_app h) \<and>
     (\<exists>head hash. find_head (w_db s) (h_app h) = Some head \<and> sg (audit_row h head event) = Inr hash \<and>
        (\<forall>r \<in> set (d_audit (w_db s)). \<not> clashes audit_t ((audit_row h head event)\<lparr>e_hash := hash\<rparr>) r) \<and>
        app_exists (w_db s) (h_app h) \<and> t = audit_effect h (audit_row h head event) hash s)"
proof -
  have own: "r_app_update (\<lambda>_. h_app h) (audit_row h head event\<lparr>e_hash := x\<rparr>) = audit_row h head event\<lparr>e_hash := x\<rparr>"
    for head x by (simp add: audit_row_def Let_def)
  have refs: "tb_refs audit_t d r = app_exists d (r_app r)" for d r by (simp add: audit_t_def)
  have "append_audit h event (Some sg) =
     andThen (pureA (check_write h)) (\<lambda>_.
     if r_app event \<noteq> [] \<and> r_app event \<noteq> h_app h then raise ErrScopeMismatch
     else andThen (reads w_db) (\<lambda>d.
       case find_head d (h_app h) of None \<Rightarrow> raise (Fault ''no audit head'') | Some head \<Rightarrow>
       andThen (pureA (sg (audit_row h head event))) (\<lambda>hash.
       andThen (t_insert audit_t h ((audit_row h head event)\<lparr>e_hash := hash\<rparr>)) (\<lambda>_.
       writes (\<lambda>s. s\<lparr>w_db := put_head (h_app h) \<lparr>hd_sequence = e_sequence (audit_row h head event), hd_hash = hash\<rparr> (w_db s),
                        w_audits := Suc (w_audits s)\<rparr>)))))"
    by (simp add: append_audit_def audit_row_def Let_def cong: if_cong option.case_cong)
  then show ?thesis
    by (auto simp: run_iffs own refs audit_effect_def Let_def)
qed

section \<open>What every step keeps\<close>

text \<open>The part of the database that belongs to one application (agents are platform data).\<close>

definition only_app :: "string \<Rightarrow> db \<Rightarrow> db" where
  "only_app app d = d\<lparr>d_apps := in_app app (d_apps d), d_keys := in_app app (d_keys d),
     d_plans := in_app app (d_plans d), d_licenses := in_app app (d_licenses d),
     d_activations := in_app app (d_activations d), d_cards := in_app app (d_cards d),
     d_rules := in_app app (d_rules d), d_anchors := in_app app (d_anchors d),
     d_invitations := in_app app (d_invitations d), d_pending := in_app app (d_pending d),
     d_nonces := in_app app (d_nonces d), d_channels := in_app app (d_channels d),
     d_orders := in_app app (d_orders d), d_webhooks := in_app app (d_webhooks d),
     d_usage := in_app app (d_usage d), d_grants := in_app app (d_grants d),
     d_money := in_app app (d_money d), d_releases := in_app app (d_releases d),
     d_audit := in_app app (d_audit d), d_heads := filter (\<lambda>p. fst p = app) (d_heads d),
     d_agents := []\<rparr>"

text \<open>Identifiers are unique and not empty in every table.\<close>

definition db_ids_ok :: "db \<Rightarrow> bool" where
  "db_ids_ok d \<longleftrightarrow>
     ids_ok (d_keys d) \<and> ids_ok (d_plans d) \<and> ids_ok (d_licenses d) \<and> ids_ok (d_activations d) \<and>
     ids_ok (d_cards d) \<and> ids_ok (d_rules d) \<and> ids_ok (d_anchors d) \<and> ids_ok (d_invitations d) \<and>
     ids_ok (d_pending d) \<and> ids_ok (d_nonces d) \<and> ids_ok (d_channels d) \<and> ids_ok (d_orders d) \<and>
     ids_ok (d_webhooks d) \<and> ids_ok (d_usage d) \<and> ids_ok (d_grants d) \<and> ids_ok (d_money d) \<and>
     ids_ok (d_releases d) \<and> ids_ok (d_audit d)"

text \<open>Agent balances lie between zero and the limit.\<close>

definition balances_ok :: "db \<Rightarrow> bool" where
  "balances_ok d \<longleftrightarrow> list_all (\<lambda>r. 0 \<le> ag_balance r \<and> ag_balance r \<le> balance_limit) (d_agents d)"

text \<open>
  The audit rows of an application form a chain from sequence 0 and the empty hash: each carries the
  next number, the hash of the one before, and a signature of its own content; the head is the end
  of the chain. This is what \<open>AuditIntegrity\<close> checks.
\<close>

fun chain :: "audit_signer \<Rightarrow> audit_head \<Rightarrow> audit_event list \<Rightarrow> audit_head option" where
  "chain sg head [] = Some head"
| "chain sg head (e # es) =
     (if e_sequence e = i64 (hd_sequence head + 1) \<and> e_previous e = hd_hash head \<and> sg e = Inr (e_hash e)
      then chain sg \<lparr>hd_sequence = e_sequence e, hd_hash = e_hash e\<rparr> es else None)"

definition chain_ok :: "audit_signer \<Rightarrow> string \<Rightarrow> db \<Rightarrow> bool" where
  "chain_ok sg app d \<longleftrightarrow>
     (case find_head d app of
        None \<Rightarrow> in_app app (d_audit d) = []
      | Some head \<Rightarrow> chain sg \<lparr>hd_sequence = 0, hd_hash = []\<rparr> (in_app app (d_audit d)) = Some head)"

text \<open>A signer does not look at the hash field it fills.\<close>

definition hash_blind :: "audit_signer \<Rightarrow> bool" where
  "hash_blind sg \<longleftrightarrow> (\<forall>e x. sg (e\<lparr>e_hash := x\<rparr>) = sg e)"

lemma chain_snoc:
  "chain sg head (es @ [e]) =
     (case chain sg head es of None \<Rightarrow> None
      | Some h \<Rightarrow> if e_sequence e = i64 (hd_sequence h + 1) \<and> e_previous e = hd_hash h \<and> sg e = Inr (e_hash e)
               then Some \<lparr>hd_sequence = e_sequence e, hd_hash = e_hash e\<rparr> else None)"
  by (induction sg head es rule: chain.induct) auto

lemma in_app_append [simp]: "in_app a (rows @ [v]) = in_app a rows @ (if r_app v = a then [v] else [])"
  by (simp add: in_app_def)

lemma in_app_map_other:
  "(\<And>r. r_app (f r) = r_app r) \<Longrightarrow> (\<And>r. r_app r = a \<Longrightarrow> f r = r) \<Longrightarrow> in_app a (map f rows) = in_app a rows"
  by (induction rows) (auto simp: in_app_def)

lemma filter_head_other [simp]:
  "a \<noteq> app \<Longrightarrow> filter (\<lambda>p. fst p = a) (map (\<lambda>(x, old). (x, if x = app then new else old)) hs) =
     filter (\<lambda>p. fst p = a) hs"
  by (induction hs) auto

lemma find_head_put:
  "find_head (put_head app new d) a = (if a = app \<and> find_head d app \<noteq> None then Some new else find_head d a)"
proof -
  have "map_of (map (\<lambda>(x, old). (x, if x = app then new else old)) hs) a =
      (if a = app \<and> map_of hs app \<noteq> None then Some new else map_of hs a)" for hs :: "(string \<times> audit_head) list"
    by (induction hs) auto
  then show ?thesis by (simp add: find_head_def put_head_def)
qed

lemma ids_ok_snoc: "ids_ok rows \<Longrightarrow> r_id v \<noteq> [] \<Longrightarrow> \<forall>r \<in> set rows. \<not> same_row v r \<Longrightarrow> ids_ok (rows @ [v])"
  by (auto simp: ids_ok_def unique_rows_snoc)

lemma ids_ok_map:
  "(\<And>r. r_app (f r) = r_app r) \<Longrightarrow> (\<And>r. r_id (f r) = r_id r) \<Longrightarrow> ids_ok (map f rows) = ids_ok rows"
  by (auto simp: ids_ok_def unique_rows_def comp_def)

lemma in_app_replace_other:
  "r_app v \<noteq> a \<Longrightarrow> in_app a (map (\<lambda>b. if r_app b = r_app v then v else b) rows) = in_app a rows"
  by (induction rows) (auto simp: in_app_def)

lemmas step_run_defs = retire_bindings_def deactivate_all_def invalidate_invitations_def add_balance_def

lemma foreign_kept:
  "tx_step sg h s t \<Longrightarrow> app \<noteq> h_app h \<Longrightarrow> only_app app (w_db t) = only_app app (w_db s)"
proof (induction rule: tx_step.induct)
  case (application a s t)
  then show ?case using in_app_replace_other [of a app "d_apps (w_db s)"] by (auto simp: run_iffs only_app_def)
next
  case (audit ev s t)
  then show ?case by (auto simp: run_iffs only_app_def audit_effect_def put_head_def)
qed (auto simp: only_app_def table_edit_def edits_in_app run_iffs step_run_defs in_app_map_other
    dest!: table_step_edit)

lemma ids_kept: "tx_step sg h s t \<Longrightarrow> db_ids_ok (w_db s) \<Longrightarrow> db_ids_ok (w_db t)"
proof (induction rule: tx_step.induct)
  case (audit ev s t)
  then obtain head hash where
    new: "\<forall>r \<in> set (d_audit (w_db s)). \<not> clashes audit_t ((audit_row h head ev)\<lparr>e_hash := hash\<rparr>) r"
    and t: "t = audit_effect h (audit_row h head ev) hash s"
    by (auto simp: run_iffs)
  let ?v = "(audit_row h head ev)\<lparr>e_hash := hash\<rparr>"
  from new have "\<forall>r \<in> set (d_audit (w_db s)). \<not> same_row ?v r"
    by (auto simp: clashes_def same_row_def)
  with audit.prems have "ids_ok (d_audit (w_db s) @ [?v])"
    by (intro ids_ok_snoc) (auto simp: db_ids_ok_def)
  with audit.prems show ?case
    by (simp add: db_ids_ok_def t audit_effect_def put_head_def)
qed ((drule table_step_edit)?, clarsimp simp: db_ids_ok_def table_edit_def edits_ids_ok run_iffs
    step_run_defs ids_ok_map)+

lemma balances_kept: "tx_step sg h s t \<Longrightarrow> balances_ok (w_db s) \<Longrightarrow> balances_ok (w_db t)"
proof (induction rule: tx_step.induct)
  case (audit ev s t)
  then show ?case by (auto simp: run_iffs balances_ok_def audit_effect_def put_head_def)
next
  case (debit i n s b t)
  then show ?case by (fastforce simp: balances_ok_def run_iffs add_balance_def list_all_iff)
qed (auto simp: balances_ok_def table_edit_def run_iffs step_run_defs list_all_iff dest!: table_step_edit)

lemma put_head_audit [simp]: "d_audit (put_head a new d) = d_audit d"
  by (simp add: put_head_def)

lemma find_head_audit [simp]: "find_head (d_audit_update f d) a = find_head d a"
  by (simp add: find_head_def)

lemma chain_kept:
  assumes "hash_blind sg"
  shows "tx_step sg h s t \<Longrightarrow> chain_ok sg app (w_db s) \<Longrightarrow> chain_ok sg app (w_db t)"
proof (induction rule: tx_step.induct)
  case (audit ev s t)
  then show ?case
    using assms
    by (auto simp: run_iffs chain_ok_def audit_effect_def find_head_put chain_snoc hash_blind_def
        split: option.splits)
qed (auto simp: chain_ok_def find_head_def table_edit_def run_iffs step_run_defs cong: option.case_cong
    dest!: table_step_edit)

text \<open>
  The two counters of a transaction: a change of the database counts as a mutation, every appended
  audit event counts, and audit events are only appended.
\<close>

definition counted :: "world \<Rightarrow> world \<Rightarrow> bool" where
  "counted s t \<longleftrightarrow>
     w_mutations s \<le> w_mutations t \<and> (w_mutations t = w_mutations s \<longrightarrow> w_db t = w_db s) \<and>
     length (d_audit (w_db t)) + w_audits s = length (d_audit (w_db s)) + w_audits t \<and>
     prefix (d_audit (w_db s)) (d_audit (w_db t))"

lemma counted_refl [simp]: "counted s s"
  by (simp add: counted_def)

lemma counted_trans: "counted s t \<Longrightarrow> counted t u \<Longrightarrow> counted s u"
  unfolding counted_def by (auto intro: prefix_order.trans)

lemma step_counted: "tx_step sg h s t \<Longrightarrow> counted s t"
proof (induction rule: tx_step.induct)
  case (audit ev s t)
  then show ?case by (auto simp: run_iffs counted_def audit_effect_def put_head_def)
qed ((drule table_step_edit)?, clarsimp simp: counted_def table_edit_def run_iffs step_run_defs)+

section \<open>What every handler keeps\<close>

lemma steps_foreign:
  "(tx_step sg h)\<^sup>*\<^sup>* s t \<Longrightarrow> app \<noteq> h_app h \<Longrightarrow> only_app app (w_db t) = only_app app (w_db s)"
  by (induction rule: rtranclp_induct) (auto simp: foreign_kept)

lemma steps_ids: "(tx_step sg h)\<^sup>*\<^sup>* s t \<Longrightarrow> db_ids_ok (w_db s) \<Longrightarrow> db_ids_ok (w_db t)"
  by (induction rule: rtranclp_induct) (auto simp: ids_kept)

lemma steps_balances: "(tx_step sg h)\<^sup>*\<^sup>* s t \<Longrightarrow> balances_ok (w_db s) \<Longrightarrow> balances_ok (w_db t)"
  by (induction rule: rtranclp_induct) (auto simp: balances_kept)

lemma steps_chain:
  "(tx_step sg h)\<^sup>*\<^sup>* s t \<Longrightarrow> hash_blind sg \<Longrightarrow> chain_ok sg app (w_db s) \<Longrightarrow> chain_ok sg app (w_db t)"
  by (induction rule: rtranclp_induct) (auto simp: chain_kept)

lemma steps_counted: "(tx_step sg h)\<^sup>*\<^sup>* s t \<Longrightarrow> counted s t"
  by (induction rule: rtranclp_induct) (auto intro: counted_trans step_counted)

end
