(* ===== verification/Platform.thy ===== *)
theory Platform
  imports Steps
begin

text \<open>
  The service object of \<open>access.go\<close> and what every request handler uses: what the service gets
  from outside, identifiers, audit events, roles, and the contexts that tie a request to one
  application. \<open>world_step\<close> is one transaction as seen from outside; \<open>serves\<close> says that a handler
  is a sequence of them on one application.

  \<^item> \<open>svc\<close> collects what the code calls but does not define. Cryptography (HMAC-SHA-256, SHA-256,
    Ed25519, RSA, AES-GCM), JSON encoders, Unicode case mapping, IDNA, the public suffix list and the
    URL parser are functions of it; nothing is assumed about them here.
  \<^item> The clock is read once: \<open>s_now\<close> is the time of the request. The Go code reads it again at
    several places of a handler (\<open>s.now()\<close>); \<open>WithClock\<close> lets a caller fix it in the same way.
  \<^item> \<open>s_range\<close> is the order in which a \<open>range\<close> over a map visits its keys, which Go leaves open.
  \<^item> \<open>s_random n k\<close> is the \<open>n\<close>-th block of \<open>k\<close> random bytes drawn; a failure of the system's
    random source is not modelled.
\<close>

section \<open>The service\<close>

record url_parts =
  url_scheme :: string
  url_host :: string
  url_hostname :: string
  url_has_user :: bool

record svc =
  s_now :: int
  s_hmac :: "string \<Rightarrow> string"
  s_hmac_with :: "string \<Rightarrow> string \<Rightarrow> string"
  s_audit_mac :: "audit_event \<Rightarrow> string"
  s_random :: "nat \<Rightarrow> nat \<Rightarrow> string"
  s_sha256 :: "string \<Rightarrow> string"
  s_rsa_keys :: "nat \<Rightarrow> string \<times> string"
  s_rsa_sign :: "string \<Rightarrow> string \<Rightarrow> string option"
  s_rsa_verify :: "string \<Rightarrow> (string \<Rightarrow> string \<Rightarrow> bool) option"
  s_rsa_parts :: "string \<Rightarrow> (string \<times> string) option"
  s_ed_verify :: "string \<Rightarrow> string \<Rightarrow> string \<Rightarrow> bool"
  s_encrypt :: "string \<Rightarrow> string \<Rightarrow> nat \<Rightarrow> string \<Rightarrow> string"
  s_decrypt :: "string \<Rightarrow> string \<Rightarrow> string \<Rightarrow> string option"
  s_json :: "string list \<Rightarrow> string"
  s_header_json :: "jwt_header \<Rightarrow> string"
  s_header_parse :: "string \<Rightarrow> jwt_header option"
  s_claims_json :: "jwt_claims \<Rightarrow> string"
  s_claims_parse :: "string \<Rightarrow> jwt_claims option"
  s_webhook_json :: "webhook_input \<Rightarrow> string"
  s_webhook_parse :: "string \<Rightarrow> webhook_input option"
  s_agent_json :: "agent_sale_input \<Rightarrow> string"
  s_feature_text :: "string \<Rightarrow> bool"
  s_upper :: "string \<Rightarrow> string"
  s_lower :: "string \<Rightarrow> string"
  s_idna :: "string \<Rightarrow> string option"
  s_public_suffix :: "string \<Rightarrow> string \<times> bool"
  s_parse_url :: "string \<Rightarrow> url_parts option"
  s_range :: "string list \<Rightarrow> string list"
  s_release_dir :: bool
  s_limits :: storage_limits

text \<open>\<open>strings.ToUpper\<close> and \<open>ToLower\<close>: byte by byte on ASCII text, else the Unicode tables.\<close>

definition to_upper :: "svc \<Rightarrow> string \<Rightarrow> string" where
  "to_upper sv s = (if is_ascii s then map upper_char s else s_upper sv s)"

definition to_lower :: "svc \<Rightarrow> string \<Rightarrow> string" where
  "to_lower sv s = (if is_ascii s then map lower_char s else s_lower sv s)"

definition sha_hex :: "svc \<Rightarrow> string \<Rightarrow> string" where
  "sha_hex sv s = hex_encode (s_sha256 sv s)"

definition nul :: string where "nul = [CHR 0x00]"

text \<open>\<open>Service.hash\<close>: keyed hashes, separated by purpose and application.\<close>

definition keyed_hash :: "svc \<Rightarrow> string \<Rightarrow> string \<Rightarrow> string \<Rightarrow> string" where
  "keyed_hash sv kind app value = s_hmac sv (kind @ nul @ app @ nul @ value)"

text \<open>\<open>Service.auditSigner\<close>: the hash field is cleared before the canonical encoding is signed.\<close>

definition audit_sign :: "svc \<Rightarrow> audit_signer" where
  "audit_sign sv event = Inr (s_audit_mac sv (event\<lparr>e_hash := []\<rparr>))"

lemma audit_sign_blind [simp, intro]: "hash_blind (audit_sign sv)"
  by (simp add: hash_blind_def audit_sign_def)

section \<open>Identifiers\<close>

definition draw :: "nat db_act" where
  "draw = (\<lambda>s. (Inr (w_draws s), s\<lparr>w_draws := Suc (w_draws s)\<rparr>))"

text \<open>\<open>crypto.NewID\<close> (the identifier of \<open>Service.record\<close>, whose two instants are \<open>s_now\<close>), \<open>ApplicationID\<close>, \<open>ApplicationSecret\<close>, \<open>GenerateRSAKeyPair\<close>, \<open>EncryptString\<close>.\<close>

definition new_id :: "svc \<Rightarrow> string \<Rightarrow> string db_act" where
  "new_id sv pre = andThen draw (\<lambda>n. ret (pre @ ''_'' @ base32_lower (s_random sv n 16)))"

definition random_hex :: "svc \<Rightarrow> nat \<Rightarrow> string db_act" where
  "random_hex sv k = andThen draw (\<lambda>n. ret (hex_encode (s_random sv n k)))"

definition application_id :: "svc \<Rightarrow> string db_act" where
  "application_id sv = andThen (random_hex sv 8) (\<lambda>v. ret (''yn'' @ v))"

definition application_secret :: "svc \<Rightarrow> string db_act" where
  "application_secret sv = random_hex sv 16"

definition rsa_key_pair :: "svc \<Rightarrow> (string \<times> string) db_act" where
  "rsa_key_pair sv = andThen draw (\<lambda>n. ret (s_rsa_keys sv n))"

definition encrypt_for :: "svc \<Rightarrow> string \<Rightarrow> string \<Rightarrow> string \<Rightarrow> string db_act" where
  "encrypt_for sv app purpose text = andThen draw (\<lambda>n. ret (s_encrypt sv app purpose n text))"

section \<open>Audit events\<close>

text \<open>\<open>Service.event\<close>, \<open>append\<close> and \<open>failure\<close>.\<close>

definition new_event ::
  "svc \<Rightarrow> ctx \<Rightarrow> string \<Rightarrow> string \<Rightarrow> string \<Rightarrow> string \<Rightarrow> payload \<Rightarrow> audit_event db_act" where
  "new_event sv cx kind entity result reason payload =
     (let sc = (case scope_from cx of Inl _ \<Rightarrow> \<lparr>sc_app = [], sc_actor = \<lparr>act_kind = [], act_id = [], act_role = [], act_request = []\<rparr>, sc_writable = False\<rparr>
                | Inr v \<Rightarrow> v) in
      andThen (new_id sv ''event'') (\<lambda>i.
      ret \<lparr>r_app = sc_app sc, r_id = i, r_created = s_now sv, r_updated = s_now sv,
           e_sequence = 0, e_type = kind, e_entity = entity, e_actor = sc_actor sc, e_result = result,
           e_reason = reason, e_payload = payload, e_previous = [], e_hash = []\<rparr>))"

definition append_event :: "svc \<Rightarrow> handle \<Rightarrow> string \<Rightarrow> string \<Rightarrow> payload \<Rightarrow> unit db_act" where
  "append_event sv h kind entity payload =
     andThen (new_event sv (h_ctx h) kind entity ''success'' [] payload) (\<lambda>ev.
     append_audit h ev (Some (audit_sign sv)))"

definition failure :: "svc \<Rightarrow> ctx \<Rightarrow> scope \<Rightarrow> string \<Rightarrow> string \<Rightarrow> err \<Rightarrow> 'a db_act" where
  "failure sv cx sc kind entity cause =
     andThen (update cx sc (\<lambda>h.
       andThen (new_event sv cx kind entity ''failed'' (error_code cause) []) (\<lambda>ev.
       append_audit h ev (Some (audit_sign sv)))))
     (\<lambda>_. raise cause)"

text \<open>Go's \<open>if e != nil { return s.failure(...) }\<close> after a call.\<close>

definition or_failure ::
  "svc \<Rightarrow> ctx \<Rightarrow> scope \<Rightarrow> string \<Rightarrow> string \<Rightarrow> 'a db_act \<Rightarrow> 'a db_act" where
  "or_failure sv cx sc kind entity m =
     andThen (attempt m) (\<lambda>r. case r of Inl e \<Rightarrow> failure sv cx sc kind entity e | Inr x \<Rightarrow> ret x)"

section \<open>Roles and contexts\<close>

definition principal_from :: "ctx \<Rightarrow> err + principal" where
  "principal_from cx =
     (case cx_principal cx of
        None \<Rightarrow> Inl (LicErr ''AUTHENTICATION_REQUIRED'' 401)
      | Some p \<Rightarrow> if act_kind (pr_actor p) = [] \<or> act_id (pr_actor p) = []
                 then Inl (LicErr ''AUTHENTICATION_REQUIRED'' 401) else Inr p)"

definition bind_principal :: "ctx \<Rightarrow> principal \<Rightarrow> ctx" where
  "bind_principal cx p = cx\<lparr>cx_principal := Some p\<rparr>"

abbreviation pr_kind :: "principal \<Rightarrow> string" where "pr_kind p \<equiv> act_kind (pr_actor p)"
abbreviation pr_id :: "principal \<Rightarrow> string" where "pr_id p \<equiv> act_id (pr_actor p)"
abbreviation pr_role :: "principal \<Rightarrow> string" where "pr_role p \<equiv> act_role (pr_actor p)"

definition privileged :: "principal \<Rightarrow> bool \<Rightarrow> bool" where
  "privileged p write \<longleftrightarrow>
     (if pr_kind p = ''system'' then True
      else if pr_kind p \<noteq> ''admin'' then False
      else if pr_role p = ''super_admin'' \<or> pr_role p = ''admin'' then True
      else if pr_role p = ''operator'' then \<not> write
      else if pr_role p = ''auditor'' then \<not> write
      else False)"

definition may_manage :: "principal \<Rightarrow> application \<Rightarrow> bool \<Rightarrow> bool" where
  "may_manage p app write \<longleftrightarrow>
     privileged p write \<or> pr_kind p = ''developer'' \<and> ap_developer app = pr_id p \<or>
     pr_kind p = ''application_server'' \<and> pr_id p = r_app app"

text \<open>
  \<open>applicationContext\<close>, \<open>runtimeContext\<close>, \<open>publicApplicationContext\<close>: the scoped context, the
  application as the directory has it, and the scope of the repository.
\<close>

definition scoped_repo :: "ctx \<Rightarrow> application \<Rightarrow> actor \<Rightarrow> bool \<Rightarrow> (ctx \<times> application \<times> scope) db_act" where
  "scoped_repo cx app actor write =
     andThen (pureA (bind_scope cx (r_app app) actor write)) (\<lambda>scoped.
     andThen (pureA (scope_from scoped)) (\<lambda>sc. ret (scoped, app, sc)))"

definition application_context :: "ctx \<Rightarrow> string \<Rightarrow> bool \<Rightarrow> (ctx \<times> application \<times> scope) db_act" where
  "application_context cx i write =
     andThen (pureA (principal_from cx)) (\<lambda>p.
     andThen (orElse (reg_get i) not_found) (\<lambda>app.
     if \<not> may_manage p app write then raise not_found
     else scoped_repo cx app (pr_actor p) write))"

definition runtime_context :: "ctx \<Rightarrow> string \<Rightarrow> actor \<Rightarrow> (ctx \<times> application \<times> scope) db_act" where
  "runtime_context cx i actor =
     andThen (orElse (reg_get i) (LicErr ''APPLICATION_NOT_FOUND'' 404)) (\<lambda>app.
     scoped_repo cx app actor True)"

definition mk_actor :: "string \<Rightarrow> string \<Rightarrow> actor" where
  "mk_actor kind i = \<lparr>act_kind = kind, act_id = i, act_role = [], act_request = []\<rparr>"

definition public_context :: "ctx \<Rightarrow> string \<Rightarrow> (ctx \<times> application \<times> scope) db_act" where
  "public_context cx i =
     andThen (orElse (reg_get i) not_found) (\<lambda>app.
     if ap_status app \<noteq> ''active'' \<or> \<not> ap_public_query app then raise not_found
     else scoped_repo cx app (mk_actor ''public_query'' ''anonymous'') False)"

text \<open>
  Go's \<open>scoped, app, repo, e := s.applicationContext(ctx, id, write); if e != nil { return e }\<close>
  followed by the rest of the method.
\<close>

definition in_application ::
  "ctx \<Rightarrow> string \<Rightarrow> bool \<Rightarrow> (ctx \<Rightarrow> application \<Rightarrow> scope \<Rightarrow> 'a db_act) \<Rightarrow> 'a db_act" where
  "in_application cx i write body =
     andThen (application_context cx i write) (\<lambda>(scoped, app, sc). body scoped app sc)"

definition in_runtime ::
  "ctx \<Rightarrow> string \<Rightarrow> actor \<Rightarrow> (ctx \<Rightarrow> application \<Rightarrow> scope \<Rightarrow> 'a db_act) \<Rightarrow> 'a db_act" where
  "in_runtime cx i actor body =
     andThen (runtime_context cx i actor) (\<lambda>(scoped, app, sc). body scoped app sc)"

definition in_public ::
  "ctx \<Rightarrow> string \<Rightarrow> (ctx \<Rightarrow> application \<Rightarrow> scope \<Rightarrow> 'a db_act) \<Rightarrow> 'a db_act" where
  "in_public cx i body =
     andThen (public_context cx i) (\<lambda>(scoped, app, sc). body scoped app sc)"

section \<open>Transactions as steps\<close>

lemma within_draw [via_intros]:
  "within sg h draw" "within sg h (new_id sv p)" "within sg h (random_hex sv n)"
  "within sg h (application_id sv)" "within sg h (application_secret sv)" "within sg h (rsa_key_pair sv)"
  "within sg h (encrypt_for sv app p t)"
proof -
  show d: "within sg h draw" by (rule via_one) (auto simp: draw_def intro: tx_step.draw)
  show "within sg h (new_id sv p)" unfolding new_id_def by (intro via_intros d)
  show r: "within sg h (random_hex sv n)" for n unfolding random_hex_def by (intro via_intros d)
  show "within sg h (application_id sv)" unfolding application_id_def by (intro via_intros r)
  show "within sg h (application_secret sv)" unfolding application_secret_def by (rule r)
  show "within sg h (rsa_key_pair sv)" unfolding rsa_key_pair_def by (intro via_intros d)
  show "within sg h (encrypt_for sv app p t)" unfolding encrypt_for_def by (intro via_intros d)
qed

lemma within_event [via_intros]:
  "within sg h (new_event sv cx kind entity result reason payload)"
  "within (audit_sign sv) h (append_event sv h kind entity payload)"
proof -
  have e: "within sg' h (new_event sv cx' kind entity result' reason' payload')" for sg' cx' result' reason' payload'
    unfolding new_event_def by (intro via_intros)
  show "within sg h (new_event sv cx kind entity result reason payload)" by (rule e)
  show "within (audit_sign sv) h (append_event sv h kind entity payload)"
    unfolding append_event_def by (intro via_intros e)
qed

text \<open>The state in which a transaction starts: the database, with its counters at zero.\<close>

definition fresh :: "world \<Rightarrow> world" where
  "fresh s = s\<lparr>w_mutations := 0, w_audits := 0\<rparr>"

text \<open>
  One step of the service on application \<open>app\<close>: a random draw outside a transaction, a transaction
  that commits, one that is rolled back, or the creation of the application.
\<close>

inductive world_step :: "audit_signer \<Rightarrow> string \<Rightarrow> world \<Rightarrow> world \<Rightarrow> bool" for sg app where
  draw: "world_step sg app s (s\<lparr>w_draws := Suc (w_draws s)\<rparr>)"
| files: "world_step sg app s (s\<lparr>w_files := f\<rparr>)"
| commit: "h_app h = app \<Longrightarrow> (tx_step sg h)\<^sup>*\<^sup>* (fresh s) t \<Longrightarrow>
     w_mutations t = 0 \<or> 0 < w_audits t \<Longrightarrow> world_step sg app s t"
| rollback: "h_app h = app \<Longrightarrow> (tx_step sg h)\<^sup>*\<^sup>* (fresh s) t \<Longrightarrow> world_step sg app s (t\<lparr>w_db := w_db s\<rparr>)"
| create: "transaction True cx sc (create_rows a key ev sg) s = (r, t) \<Longrightarrow> sc_app sc = app \<Longrightarrow> r_app a = app \<Longrightarrow>
     world_step sg app s t"

abbreviation serves :: "audit_signer \<Rightarrow> string \<Rightarrow> 'a db_act \<Rightarrow> bool" where
  "serves sg app \<equiv> via (world_step sg app)"

lemma check_scope_app: "check_scope cx sc w = Inr () \<Longrightarrow> \<exists>v. cx_scope cx = Some v \<and> sc_app v = sc_app sc"
  by (auto simp: check_scope_def scope_from_def split: if_splits option.splits)

lemma andThen_pureA [simp]:
  "andThen (pureA (Inr x)) f = f x" "andThen (pureA (Inl e)) f = raise e"
  by (simp_all add: andThen_def pureA_def raise_def fun_eq_iff)

lemma transaction_eq:
  "check_scope cx sc True = Inr () \<Longrightarrow>
   transaction creating cx sc body s =
     (let h = \<lparr>h_ctx = cx, h_scope = sc, h_writable = True\<rparr> in
      case (if creating then body h
            else andThen (lock_application h) (\<lambda>_. andThen (tx_application h) (\<lambda>_. body h))) (fresh s) of
        (Inl e, t) \<Rightarrow> (Inl e, t\<lparr>w_db := w_db s\<rparr>)
      | (Inr x, t) \<Rightarrow>
          if 0 < w_mutations t \<and> w_audits t = 0 then (Inl ErrAuditRequired, t\<lparr>w_db := w_db s\<rparr>)
          else (Inr x, t))"
  by (simp add: transaction_def fresh_def Let_def)

lemma serves_update:
  assumes "\<And>h. h_ctx h = cx \<Longrightarrow> h_scope h = sc \<Longrightarrow> within sg h (body h)"
  shows "serves sg (sc_app sc) (update cx sc body)"
proof (rule via_one)
  fix s r t
  assume run: "update cx sc body s = (r, t)"
  let ?h = "\<lparr>h_ctx = cx, h_scope = sc, h_writable = True\<rparr>"
  let ?m = "andThen (lock_application ?h) (\<lambda>_. andThen (tx_application ?h) (\<lambda>_. body ?h))"
  have w: "within sg ?h ?m" by (intro via_intros assms) simp_all
  obtain q u where m: "?m (fresh s) = (q, u)" by (cases "?m (fresh s)")
  have steps: "(tx_step sg ?h)\<^sup>*\<^sup>* (fresh s) u" by (rule viaD [OF w m])
  show "world_step sg (sc_app sc) s t \<or> t = s"
  proof (cases "check_scope cx sc True")
    case (Inl e)
    with run show ?thesis by (simp add: update_def transaction_def raise_def)
  next
    case (Inr x)
    then have "t = u \<and> (w_mutations u = 0 \<or> 0 < w_audits u) \<or> t = u\<lparr>w_db := w_db s\<rparr>"
      using run m
      by (auto simp: update_def transaction_eq Let_def split: sum.splits if_splits)
    with steps show ?thesis by (auto intro: world_step.commit [where h = ?h] world_step.rollback [where h = ?h])
  qed
qed

text \<open>Views, contexts and audited failures.\<close>

lemma via_view [via_intros]: "(\<And>h. via R (body h)) \<Longrightarrow> via R (view cx sc body)"
  unfolding view_def by (intro via_intros)

lemma reg_get_run [run_iffs]: "reg_get i s = (Inr a, t) \<longleftrightarrow> find_app (w_db s) i = Some a \<and> t = s"
  by (auto simp: reg_get_def run_iffs)

lemma find_app_SomeD: "find_app d i = Some a \<Longrightarrow> r_app a = i \<and> a \<in> set (d_apps d)"
  by (auto simp: find_app_def find_Some_iff)

lemma bind_scope_Inr:
  "bind_scope cx app actor w = Inr cx' \<Longrightarrow>
   cx_scope cx' = Some \<lparr>sc_app = app, sc_actor = actor, sc_writable = w\<rparr> \<and> app \<noteq> [] \<and>
   cx_principal cx' = cx_principal cx \<and> cx_done cx' = cx_done cx"
  by (auto simp: bind_scope_def split: if_splits option.splits)

lemma scoped_repo_run [run_iffs]:
  "scoped_repo cx app actor w s = (Inr (cx', app', sc), t) \<longleftrightarrow>
     bind_scope cx (r_app app) actor w = Inr cx' \<and> app' = app \<and> t = s \<and>
     sc = \<lparr>sc_app = r_app app, sc_actor = actor, sc_writable = w\<rparr>"
proof -
  have "scope_from cx' = Inr \<lparr>sc_app = r_app app, sc_actor = actor, sc_writable = w\<rparr>"
    if "bind_scope cx (r_app app) actor w = Inr cx'"
    using bind_scope_Inr [OF that] by (simp add: scope_from_def)
  then show ?thesis by (auto simp: scoped_repo_def run_iffs)
qed

lemma application_context_run [run_iffs]:
  "application_context cx i w s = (Inr (cx', app, sc), t) \<longleftrightarrow>
     t = s \<and> (\<exists>p. principal_from cx = Inr p \<and> find_app (w_db s) i = Some app \<and> may_manage p app w \<and>
       bind_scope cx i (pr_actor p) w = Inr cx' \<and>
       sc = \<lparr>sc_app = i, sc_actor = pr_actor p, sc_writable = w\<rparr>)"
  by (auto simp: application_context_def run_iffs dest: find_app_SomeD)

lemma runtime_context_run [run_iffs]:
  "runtime_context cx i actor s = (Inr (cx', app, sc), t) \<longleftrightarrow>
     t = s \<and> find_app (w_db s) i = Some app \<and> bind_scope cx i actor True = Inr cx' \<and>
     sc = \<lparr>sc_app = i, sc_actor = actor, sc_writable = True\<rparr>"
  by (auto simp: runtime_context_def run_iffs dest: find_app_SomeD)

lemma public_context_run [run_iffs]:
  "public_context cx i s = (Inr (cx', app, sc), t) \<longleftrightarrow>
     t = s \<and> find_app (w_db s) i = Some app \<and> ap_status app = ''active'' \<and> ap_public_query app \<and>
     bind_scope cx i (mk_actor ''public_query'' ''anonymous'') False = Inr cx' \<and>
     sc = \<lparr>sc_app = i, sc_actor = mk_actor ''public_query'' ''anonymous'', sc_writable = False\<rparr>"
  by (auto simp: public_context_def run_iffs dest: find_app_SomeD)

lemma via_andThen_run:
  assumes "via R m" and "\<And>s x t. m s = (Inr x, t) \<Longrightarrow> via R (f x)"
  shows "via R (andThen m f)"
  unfolding via_def
proof
  fix s
  obtain r t where m: "m s = (r, t)" by (cases "m s")
  have a: "R\<^sup>*\<^sup>* s t" by (rule viaD [OF assms(1) m])
  show "R\<^sup>*\<^sup>* s (snd (andThen m f s))"
  proof (cases r)
    case (Inr x)
    have "R\<^sup>*\<^sup>* t (snd (f x t))" using assms(2) [of s x t] m Inr by (simp add: via_def)
    with a m Inr show ?thesis by (simp add: andThen_def)
  qed (use a m in \<open>simp add: andThen_def\<close>)
qed

lemma via_contexts:
  "via R (scoped_repo cx app actor write)" "via R (application_context cx i write)"
  "via R (runtime_context cx i actor)" "via R (public_context cx i)"
proof -
  have a: "via R (scoped_repo cx app' actor' w)" for app' actor' w
    unfolding scoped_repo_def by (intro via_intros)
  show "via R (scoped_repo cx app actor write)" by (rule a)
  show "via R (application_context cx i write)" unfolding application_context_def by (intro via_intros a)
  show "via R (runtime_context cx i actor)" unfolding runtime_context_def by (intro via_intros a)
  show "via R (public_context cx i)" unfolding public_context_def by (intro via_intros a)
qed

lemma via_in_context [via_intros]:
  "(\<And>scoped app sc. sc_app sc = i \<Longrightarrow> r_app app = i \<Longrightarrow> via R (f scoped app sc)) \<Longrightarrow> via R (in_application cx i w f)"
  "(\<And>scoped app sc. sc_app sc = i \<Longrightarrow> r_app app = i \<Longrightarrow> via R (f scoped app sc)) \<Longrightarrow> via R (in_runtime cx i actor f)"
  "(\<And>scoped app sc. sc_app sc = i \<Longrightarrow> r_app app = i \<Longrightarrow> via R (f scoped app sc)) \<Longrightarrow> via R (in_public cx i f)"
  unfolding in_application_def in_runtime_def in_public_def
  by (rule via_andThen_run, rule via_contexts, force simp: run_iffs dest: find_app_SomeD)+

lemma update_serves [via_intros]:
  "sc_app sc = app \<Longrightarrow> (\<And>h. h_ctx h = cx \<Longrightarrow> h_scope h = sc \<Longrightarrow> within sg h (body h)) \<Longrightarrow>
   serves sg app (update cx sc body)"
  using serves_update by blast

lemma failure_serves [via_intros]:
  "sc_app sc = app \<Longrightarrow> serves (audit_sign sv) app (failure sv cx sc kind entity e)"
  unfolding failure_def by (intro via_intros) simp_all

lemma or_failure_serves [via_intros]:
  "sc_app sc = app \<Longrightarrow> serves (audit_sign sv) app m \<Longrightarrow> serves (audit_sign sv) app (or_failure sv cx sc kind entity m)"
  unfolding or_failure_def by (intro via_intros)

lemma serves_draw [via_intros]:
  "serves sg app draw" "serves sg app (new_id sv p)" "serves sg app (random_hex sv n)"
  "serves sg app (application_secret sv)" "serves sg app (rsa_key_pair sv)"
  "serves sg app (encrypt_for sv a p t)" "serves sg app (application_id sv)"
proof -
  show d: "serves sg app draw" by (rule via_one) (auto simp: draw_def intro: world_step.draw)
  show "serves sg app (new_id sv p)" unfolding new_id_def by (intro via_intros d)
  show r: "serves sg app (random_hex sv n)" for n unfolding random_hex_def by (intro via_intros d)
  show "serves sg app (application_secret sv)" unfolding application_secret_def by (rule r)
  show "serves sg app (rsa_key_pair sv)" unfolding rsa_key_pair_def by (intro via_intros d)
  show "serves sg app (encrypt_for sv a p t)" unfolding encrypt_for_def by (intro via_intros d)
  show "serves sg app (application_id sv)" unfolding application_id_def by (intro via_intros r)
qed

section \<open>What every request keeps\<close>

lemma fresh_db [simp]: "w_db (fresh s) = w_db s" "w_mutations (fresh s) = 0" "w_audits (fresh s) = 0"
  by (simp_all add: fresh_def)

text \<open>The state after the first two statements of a creation.\<close>

definition created_db :: "application \<Rightarrow> db \<Rightarrow> db" where
  "created_db a d = d_heads_update (\<lambda>hs. hs @ [(r_app a, \<lparr>hd_sequence = 0, hd_hash = []\<rparr>)])
                      (d_apps_update (\<lambda>rows. rows @ [a]) d)"

lemma create_steps:
  assumes "transaction True cx sc (create_rows a key ev sg) s = (r, t)"
  shows "w_db t = w_db s \<or>
    (\<not> app_exists (w_db s) (r_app a) \<and> find_head (w_db s) (r_app a) = None \<and>
     (\<exists>h u. h_scope h = sc \<and> w_db u = created_db a (w_db s) \<and> w_audits u = 0 \<and> (tx_step sg h)\<^sup>*\<^sup>* u t \<and> 0 < w_audits t))"
proof (cases "check_scope cx sc True")
  case (Inl e)
  with assms show ?thesis by (simp add: transaction_def raise_def)
next
  case (Inr x)
  let ?h = "\<lparr>h_ctx = cx, h_scope = sc, h_writable = True\<rparr>"
  obtain q u where run: "create_rows a key ev sg ?h (fresh s) = (q, u)"
    by (cases "create_rows a key ev sg ?h (fresh s)")
  show ?thesis
  proof (cases q)
    case (Inl e)
    with assms run \<open>check_scope cx sc True = Inr x\<close> show ?thesis
      by (auto simp: transaction_eq Let_def)
  next
    case q: (Inr y)
    let ?v = "(fresh s)\<lparr>w_mutations := Suc 0, w_db := created_db a (w_db s)\<rparr>"
    from run q obtain w where new: "\<not> app_exists (w_db s) (r_app a)" "find_head (w_db s) (r_app a) = None"
      and ins: "t_insert keys_t ?h key ?v = (Inr (), w)"
      and audit: "append_audit ?h ev (Some sg) w = (Inr (), u)"
      by (auto simp: create_rows_def andThen_run if_raise_run reads_run writes_run mutate_run created_db_def comp_def
          split: if_splits)
    have "tx_step sg ?h ?v w" using ins by (intro tx_step.keys) (auto simp: table_step_def)
    moreover have "tx_step sg ?h w u" using audit by (rule tx_step.audit)
    ultimately have "(tx_step sg ?h)\<^sup>*\<^sup>* ?v u" by auto
    moreover have "0 < w_audits u" using audit by (auto simp: append_audit_run audit_effect_def)
    moreover have "t = u" using assms run q \<open>check_scope cx sc True = Inr x\<close> \<open>0 < w_audits u\<close>
      by (simp add: transaction_eq Let_def)
    ultimately show ?thesis using new by (intro disjI2 conjI exI [of _ ?h] exI [of _ ?v]) (auto simp: fresh_def)
  qed
qed

lemma world_foreign:
  "world_step sg app s t \<Longrightarrow> a \<noteq> app \<Longrightarrow> only_app a (w_db t) = only_app a (w_db s)"
proof (induction rule: world_step.induct)
  case (create cx sc ap key ev s r t)
  have "only_app a (created_db ap (w_db s)) = only_app a (w_db s)"
    using create by (simp add: created_db_def only_app_def)
  with create create_steps [OF create(1)] show ?case by (auto dest: steps_foreign [where app = a])
qed (auto dest: steps_foreign)

lemma world_ids: "world_step sg app s t \<Longrightarrow> db_ids_ok (w_db s) \<Longrightarrow> db_ids_ok (w_db t)"
proof (induction rule: world_step.induct)
  case (create cx sc ap key ev s r t)
  have "db_ids_ok (created_db ap (w_db s)) = db_ids_ok (w_db s)"
    by (simp add: created_db_def db_ids_ok_def)
  with create create_steps [OF create(1)] show ?case by (auto dest: steps_ids)
qed (auto dest: steps_ids)

lemma world_balances: "world_step sg app s t \<Longrightarrow> balances_ok (w_db s) \<Longrightarrow> balances_ok (w_db t)"
proof (induction rule: world_step.induct)
  case (create cx sc ap key ev s r t)
  have "balances_ok (created_db ap (w_db s)) = balances_ok (w_db s)"
    by (simp add: created_db_def balances_ok_def)
  with create create_steps [OF create(1)] show ?case by (auto dest: steps_balances)
qed (auto dest: steps_balances)

lemma chain_created:
  "chain_ok sg app d \<Longrightarrow> find_head d (r_app a) = None \<Longrightarrow> chain_ok sg app (created_db a d)"
  by (auto simp: chain_ok_def created_db_def find_head_def map_add_def split: option.splits)

lemma world_chain:
  "world_step sg app s t \<Longrightarrow> hash_blind sg \<Longrightarrow> chain_ok sg a (w_db s) \<Longrightarrow> chain_ok sg a (w_db t)"
proof (induction rule: world_step.induct)
  case (create cx sc ap key ev s r t)
  from create_steps [OF create(1)] show ?case
  proof (elim disjE conjE exE)
    fix h u assume u: "w_db u = created_db ap (w_db s)" and steps: "(tx_step sg h)\<^sup>*\<^sup>* u t"
      and "find_head (w_db s) (r_app ap) = None"
    with create have "chain_ok sg a (w_db u)" by (simp add: chain_created)
    with steps create show ?thesis by (auto dest: steps_chain)
  qed (use create in simp)
qed (auto dest: steps_chain)

text \<open>The audit log only grows, and it grows whenever anything else changed.\<close>

definition audited :: "db \<Rightarrow> db \<Rightarrow> bool" where
  "audited d d' \<longleftrightarrow> prefix (d_audit d) (d_audit d') \<and> (d' = d \<or> length (d_audit d) < length (d_audit d'))"

lemma audited_trans: "audited d e \<Longrightarrow> audited e f \<Longrightarrow> audited d f"
  unfolding audited_def by (auto intro: prefix_order.trans dest: prefix_length_le)

lemma world_audited: "world_step sg app s t \<Longrightarrow> audited (w_db s) (w_db t)"
proof (induction rule: world_step.induct)
  case (commit h s t)
  have "counted (fresh s) t" using commit(2) by (rule steps_counted)
  with commit(3) show ?case by (auto simp: counted_def audited_def fresh_def)
next
  case (create cx sc ap key ev s r t)
  from create_steps [OF create(1)] show ?case
  proof (elim disjE conjE exE)
    fix h u
    assume "w_db u = created_db ap (w_db s)" and steps: "(tx_step sg h)\<^sup>*\<^sup>* u t"
    then have "d_audit (w_db u) = d_audit (w_db s)" by (simp add: created_db_def)
    moreover assume "w_audits u = 0" "0 < w_audits t"
    ultimately show ?thesis using steps_counted [OF steps] by (auto simp: counted_def audited_def)
  qed (simp add: audited_def)
qed (auto simp: audited_def)

section \<open>Runs that get in\<close>

text \<open>A caller who may work with an application, from a context that is not bound yet and still alive.\<close>

definition may_enter :: "ctx \<Rightarrow> string \<Rightarrow> bool \<Rightarrow> application \<Rightarrow> world \<Rightarrow> bool" where
  "may_enter cx i w app s \<longleftrightarrow>
     (case principal_from cx of Inl _ \<Rightarrow> False | Inr p \<Rightarrow> may_manage p app w) \<and>
     find_app (w_db s) i = Some app \<and> i \<noteq> [] \<and> cx_scope cx = None \<and> \<not> cx_done cx"

definition entered :: "ctx \<Rightarrow> string \<Rightarrow> bool \<Rightarrow> scope" where
  "entered cx i w = \<lparr>sc_app = i, sc_actor = pr_actor (the (cx_principal cx)), sc_writable = w\<rparr>"

definition entry :: "ctx \<Rightarrow> string \<Rightarrow> bool \<Rightarrow> handle" where
  "entry cx i w = \<lparr>h_ctx = cx\<lparr>cx_scope := Some (entered cx i w)\<rparr>, h_scope = entered cx i w, h_writable = w\<rparr>"

lemma entry_app [simp]: "h_app (entry cx i w) = i" "sc_app (entered cx i w) = i"
  by (simp_all add: entry_def entered_def)

lemma entry_checks:
  assumes "\<not> cx_done cx" and "i \<noteq> []"
  shows "check_scope (cx\<lparr>cx_scope := Some (entered cx i w)\<rparr>) (entered cx i w) w = Inr ()"
    and "check_scope (cx\<lparr>cx_scope := Some (entered cx i w)\<rparr>) (entered cx i w) False = Inr ()"
    and "may_read (entry cx i w)" and "may_write (entry cx i True)"
  using assms
  by (auto simp: check_scope_def scope_from_def entered_def entry_def same_actor_def check_read_def check_write_def)

lemma enter:
  assumes "may_enter cx i w app s"
  shows "in_application cx i w f s = f (cx\<lparr>cx_scope := Some (entered cx i w)\<rparr>) app (entered cx i w) s"
proof -
  from assms obtain p where p: "cx_principal cx = Some p" "act_kind (pr_actor p) \<noteq> []" "may_manage p app w"
    "principal_from cx = Inr p"
    by (auto simp: may_enter_def principal_from_def split: option.splits if_splits)
  with assms show ?thesis
    using find_app_SomeD [of "w_db s" i app]
    by (auto simp: in_application_def application_context_def scoped_repo_def reg_get_def may_enter_def andThen_def
        reads_def ret_def raise_def orElse_def pureA_def bind_scope_def scope_from_def entered_def)
qed

lemma view_entered:
  assumes "may_enter cx i w app s"
  shows "view (cx\<lparr>cx_scope := Some (entered cx i False)\<rparr>) (entered cx i False) body s = body (entry cx i False) s"
  using assms entry_checks(2,3) [of cx i False]
  by (auto simp: view_def may_enter_def andThen_def pureA_def tx_application_def reads_def ret_def entry_def Let_def)

lemma enter_view:
  assumes "may_enter cx i False app s"
  shows "in_application cx i False (\<lambda>scoped app sc. view scoped sc (f scoped app sc)) s =
         f (cx\<lparr>cx_scope := Some (entered cx i False)\<rparr>) app (entered cx i False) (entry cx i False) s"
  using assms by (simp add: enter view_entered)

lemma enter_update:
  assumes "may_enter cx i True app s"
  shows "in_application cx i True (\<lambda>scoped app sc. update scoped sc (f scoped app sc)) s =
    (case f (cx\<lparr>cx_scope := Some (entered cx i True)\<rparr>) app (entered cx i True) (entry cx i True) (fresh s) of
       (Inl e, t) \<Rightarrow> (Inl e, t\<lparr>w_db := w_db s\<rparr>)
     | (Inr x, t) \<Rightarrow> if 0 < w_mutations t \<and> w_audits t = 0 then (Inl ErrAuditRequired, t\<lparr>w_db := w_db s\<rparr>) else (Inr x, t))"
proof -
  let ?h = "entry cx i True"
  have a: "\<not> cx_done cx" "i \<noteq> []" "find_app (w_db s) i = Some app" using assms by (auto simp: may_enter_def)
  have "lock_application ?h (fresh s) = (Inr (), fresh s)"
    using entry_checks(4) [OF a(1,2)] by (simp add: lock_application_def pureA_def)
  moreover have "tx_application ?h (fresh s) = (Inr app, fresh s)"
    using entry_checks(3) [OF a(1,2), of True] a(3) by (simp add: tx_application_def andThen_def pureA_def reads_def ret_def)
  ultimately show ?thesis
    using assms entry_checks(1) [OF a(1,2), of True]
    by (simp add: enter update_def transaction_eq andThen_def entry_def)
qed

end
