(* ===== verification/Effects.thy ===== *)
theory Effects
  imports Platform
begin

text \<open>
  What a request that succeeded has done. Tables are looked at through \<open>row_in\<close>, the map from
  identifiers to rows that a list of rows stands for; \<open>run_iffs\<close> gets the runs of the operations of
  \<open>Platform\<close>, so that the effect of a handler can be read off its text.
\<close>

section \<open>Rows as a map\<close>

definition row_in :: "string \<Rightarrow> 'z ident_scheme list \<Rightarrow> string \<Rightarrow> 'z ident_scheme option" where
  "row_in a rows i =
     (if i = [] then None
      else case sort_key (\<lambda>r. (- r_created r, r_id r)) (filter (\<lambda>r. r_id r = i) (in_app a rows)) of
        [] \<Rightarrow> None | r # _ \<Rightarrow> Some r)"

named_theorems at_rows "tables as maps of their rows"

lemma row_at_tables [at_rows]:
  "row_at keys_t a d = row_in a (d_keys d)" "row_at plans_t a d = row_in a (d_plans d)"
  "row_at licenses_t a d = row_in a (d_licenses d)" "row_at activations_t a d = row_in a (d_activations d)"
  "row_at cards_t a d = row_in a (d_cards d)" "row_at rules_t a d = row_in a (d_rules d)"
  "row_at anchors_t a d = row_in a (d_anchors d)" "row_at invitations_t a d = row_in a (d_invitations d)"
  "row_at pending_t a d = row_in a (d_pending d)" "row_at nonces_t a d = row_in a (d_nonces d)"
  "row_at channels_t a d = row_in a (d_channels d)" "row_at orders_t a d = row_in a (d_orders d)"
  "row_at webhooks_t a d = row_in a (d_webhooks d)" "row_at usage_t a d = row_in a (d_usage d)"
  "row_at grants_t a d = row_in a (d_grants d)" "row_at money_t a d = row_in a (d_money d)"
  "row_at releases_t a d = row_in a (d_releases d)"
  by (rule ext, simp add: row_at_def row_in_def in_order_def table_defs)+

lemma row_in_member:
  assumes "ids_ok rows"
  shows "row_in a rows i = Some r \<longleftrightarrow> r \<in> set rows \<and> r_app r = a \<and> r_id r = i"
proof -
  let ?sorted = "sort_key (\<lambda>r. (- r_created r, r_id r)) (filter (\<lambda>r. r_id r = i) (in_app a rows))"
  have members: "set ?sorted = {r \<in> set rows. r_app r = a \<and> r_id r = i}" by auto
  have one: "q = r" if "q \<in> set ?sorted" "r \<in> set ?sorted" for q r
    using that assms unfolding members ids_ok_def by (auto intro: unique_rowsD simp: same_row_def)
  show ?thesis
  proof (cases ?sorted)
    case Nil
    with members show ?thesis by (auto simp: row_in_def)
  next
    case (Cons q qs)
    then have "q \<in> set ?sorted" by simp
    then have q: "q \<in> set rows" "r_app q = a" "r_id q = i" unfolding members by auto
    have "i \<noteq> []" using q assms by (auto simp: ids_ok_def)
    with Cons have v: "row_in a rows i = Some q" by (simp add: row_in_def)
    show ?thesis
    proof
      assume "row_in a rows i = Some r"
      with v q show "r \<in> set rows \<and> r_app r = a \<and> r_id r = i" by simp
    next
      assume "r \<in> set rows \<and> r_app r = a \<and> r_id r = i"
      then have "r \<in> set ?sorted" unfolding members by auto
      with one [OF \<open>q \<in> set ?sorted\<close>] v show "row_in a rows i = Some r" by simp
    qed
  qed
qed

lemma row_in_None: "ids_ok rows \<Longrightarrow> row_in a rows i = None \<longleftrightarrow> (\<forall>r \<in> set rows. \<not> (r_app r = a \<and> r_id r = i))"
  using row_in_member [of rows a i] by (metis not_None_eq)

lemma ids_ok_snoc_iff: "ids_ok (rows @ [v]) \<longleftrightarrow> ids_ok rows \<and> r_id v \<noteq> [] \<and> (\<forall>r \<in> set rows. \<not> same_row v r)"
  by (auto simp: ids_ok_def unique_rows_snoc)

lemma nonempty_ids: "(\<forall>r \<in> set q. r_id r \<noteq> []) \<longleftrightarrow> [] \<notin> set (map snd (map (\<lambda>r. (r_app r, r_id r)) q))"
  by force

lemma same_identities:
  assumes "map (\<lambda>r. (r_app r, r_id r)) rows' = map (\<lambda>r. (r_app r, r_id r)) rows"
  shows "ids_ok rows' = ids_ok rows"
  by (simp only: ids_ok_def unique_rows_def nonempty_ids assms)

lemma ids_ok_put [simp]: "ids_ok (put_row v rows) = ids_ok rows"
  by (rule same_identities) (auto simp: put_row_def same_row_def)

text \<open>Two maps of rows are equal if they have the same rows.\<close>

lemma row_in_eqI:
  assumes "ids_ok rows" and "\<And>i r. f i = Some r \<longleftrightarrow> r \<in> set rows \<and> r_app r = a \<and> r_id r = i"
  shows "row_in a rows = f"
proof
  fix i
  have "row_in a rows i = Some r \<longleftrightarrow> f i = Some r" for r
    by (simp only: row_in_member [OF assms(1)] assms(2))
  then show "row_in a rows i = f i" by (metis not_Some_eq)
qed

lemma row_in_snoc:
  assumes "ids_ok (rows @ [v])"
  shows "row_in a (rows @ [v]) = (if r_app v = a then (row_in a rows)(r_id v \<mapsto> v) else row_in a rows)"
proof -
  have ok: "ids_ok rows" and new: "\<And>r. r \<in> set rows \<Longrightarrow> r_app r = r_app v \<Longrightarrow> r_id r \<noteq> r_id v"
    using assms by (auto simp: ids_ok_snoc_iff same_row_def)
  show ?thesis
    by (rule row_in_eqI [OF assms]) (auto simp: row_in_member [OF ok] fun_upd_def dest: new split: if_splits)
qed

lemma row_in_put:
  assumes "ids_ok rows" and "row_in (r_app v) rows (r_id v) \<noteq> None"
  shows "row_in a (put_row v rows) = (if r_app v = a then (row_in a rows)(r_id v \<mapsto> v) else row_in a rows)"
proof -
  have ok: "ids_ok (put_row v rows)" using assms by simp
  from assms obtain q where "q \<in> set rows" "same_row q v" by (auto simp: row_in_member same_row_def)
  then have members: "r \<in> set (put_row v rows) \<longleftrightarrow> r = v \<or> r \<in> set rows \<and> \<not> same_row r v" for r
    by (auto simp: put_row_def)
  show ?thesis
    by (rule row_in_eqI [OF ok])
       (auto simp: row_in_member [OF assms(1)] members same_row_def fun_upd_def split: if_splits)
qed

lemma row_in_map:
  assumes "ids_ok rows" and "\<And>r. r_app (f r) = r_app r \<and> r_id (f r) = r_id r"
  shows "row_in a (map f rows) i = map_option f (row_in a rows i)" and "ids_ok (map f rows)"
proof -
  show ok: "ids_ok (map f rows)" using same_identities [of "map f rows" rows] assms by simp
  have "row_in a (map f rows) i = Some r \<longleftrightarrow> map_option f (row_in a rows i) = Some r" for r
    using assms by (subst row_in_member [OF ok]) (auto simp: row_in_member)
  then show "row_in a (map f rows) i = map_option f (row_in a rows i)" by (metis not_Some_eq)
qed

lemma row_in_SomeD:
  "row_in a rows i = Some r \<Longrightarrow> r_app r = a \<and> r_id r = i \<and> r \<in> set rows \<and> i \<noteq> []"
proof -
  let ?sorted = "sort_key (\<lambda>r. (- r_created r, r_id r)) (filter (\<lambda>r. r_id r = i) (in_app a rows))"
  assume r: "row_in a rows i = Some r"
  then have "r \<in> set ?sorted" and "i \<noteq> []"
    by (auto simp: row_in_def simp del: set_sort split: if_splits list.splits)
  then show ?thesis by auto
qed

section \<open>Runs of the shared operations\<close>

lemma draw_runs [run_iffs]:
  "draw s = (Inr n, t) \<longleftrightarrow> n = w_draws s \<and> t = s\<lparr>w_draws := Suc (w_draws s)\<rparr>"
  "new_id sv pre s = (Inr i, t) \<longleftrightarrow>
     i = pre @ ''_'' @ base32_lower (s_random sv (w_draws s) 16) \<and> t = s\<lparr>w_draws := Suc (w_draws s)\<rparr>"
  "random_hex sv k s = (Inr v, t) \<longleftrightarrow>
     v = hex_encode (s_random sv (w_draws s) k) \<and> t = s\<lparr>w_draws := Suc (w_draws s)\<rparr>"
  "rsa_key_pair sv s = (Inr p, t) \<longleftrightarrow> p = s_rsa_keys sv (w_draws s) \<and> t = s\<lparr>w_draws := Suc (w_draws s)\<rparr>"
  "encrypt_for sv a purpose text s = (Inr c, t) \<longleftrightarrow>
     c = s_encrypt sv a purpose (w_draws s) text \<and> t = s\<lparr>w_draws := Suc (w_draws s)\<rparr>"
  by (auto simp: draw_def new_id_def random_hex_def rsa_key_pair_def encrypt_for_def andThen_def ret_def)

text \<open>An appended event changes the audit log, the heads, and nothing else.\<close>

definition logged :: "world \<Rightarrow> world \<Rightarrow> bool" where
  "logged s t \<longleftrightarrow>
     (\<exists>log heads. w_db t = (w_db s)\<lparr>d_audit := d_audit (w_db s) @ log, d_heads := heads\<rparr>) \<and> w_files t = w_files s"

lemma audit_logged:
  assumes "append_audit h ev (Some sg) s = (Inr u, t)"
  shows "logged s t"
proof -
  have form: "d_heads_update f (d_audit_update g d) = d\<lparr>d_audit := g (d_audit d), d_heads := f (d_heads d)\<rparr>" for f g d
    by (cases d) simp
  from assms obtain ev' hash where t: "t = audit_effect h ev' hash s" by (auto simp: append_audit_run)
  then have "w_db t = d_heads_update (map (\<lambda>(a, old). (a, if a = h_app h then \<lparr>hd_sequence = e_sequence ev', hd_hash = hash\<rparr>
      else old))) (d_audit_update (\<lambda>rows. rows @ [ev'\<lparr>e_hash := hash\<rparr>]) (w_db s))"
    by (simp add: audit_effect_def put_head_def)
  then have "w_db t = (w_db s)\<lparr>d_audit := d_audit (w_db s) @ [ev'\<lparr>e_hash := hash\<rparr>], d_heads :=
      map (\<lambda>(a, old). (a, if a = h_app h then \<lparr>hd_sequence = e_sequence ev', hd_hash = hash\<rparr> else old)) (d_heads (w_db s))\<rparr>"
    by (rule trans) (rule form)
  moreover have "w_files t = w_files s" using t by (simp add: audit_effect_def)
  ultimately show ?thesis unfolding logged_def by blast
qed

lemma new_event_run:
  "new_event sv cx kind entity result reason payload s = (Inr ev, u) \<Longrightarrow> u = s\<lparr>w_draws := Suc (w_draws s)\<rparr>"
  by (simp add: new_event_def andThen_run draw_runs Let_def)

lemma event_logged:
  assumes "append_event sv h kind entity payload s = (Inr u, t)"
  shows "logged s t"
proof -
  from assms obtain ev v where "new_event sv (h_ctx h) kind entity ''success'' [] payload s = (Inr ev, v)"
    and "append_audit h ev (Some (audit_sign sv)) v = (Inr u, t)"
    unfolding append_event_def andThen_run by blast
  then have "logged v t" and "w_db v = w_db s" and "w_files v = w_files s"
    by (auto dest: audit_logged new_event_run)
  then show ?thesis by (simp add: logged_def)
qed

lemma logged_tables:
  assumes "logged s t"
  shows "d_apps (w_db t) = d_apps (w_db s)" "d_keys (w_db t) = d_keys (w_db s)" "d_plans (w_db t) = d_plans (w_db s)"
    "d_licenses (w_db t) = d_licenses (w_db s)" "d_activations (w_db t) = d_activations (w_db s)"
    "d_cards (w_db t) = d_cards (w_db s)" "d_rules (w_db t) = d_rules (w_db s)" "d_anchors (w_db t) = d_anchors (w_db s)"
    "d_invitations (w_db t) = d_invitations (w_db s)" "d_pending (w_db t) = d_pending (w_db s)"
    "d_nonces (w_db t) = d_nonces (w_db s)" "d_channels (w_db t) = d_channels (w_db s)"
    "d_orders (w_db t) = d_orders (w_db s)" "d_webhooks (w_db t) = d_webhooks (w_db s)"
    "d_usage (w_db t) = d_usage (w_db s)" "d_grants (w_db t) = d_grants (w_db s)" "d_money (w_db t) = d_money (w_db s)"
    "d_releases (w_db t) = d_releases (w_db s)" "d_agents (w_db t) = d_agents (w_db s)"
    "d_tiers (w_db t) = d_tiers (w_db s)" "w_files t = w_files s"
proof -
  from assms obtain log heads where "w_db t = (w_db s)\<lparr>d_audit := d_audit (w_db s) @ log, d_heads := heads\<rparr>"
    and "w_files t = w_files s"
    by (auto simp: logged_def)
  then show "d_apps (w_db t) = d_apps (w_db s)" "d_keys (w_db t) = d_keys (w_db s)" "d_plans (w_db t) = d_plans (w_db s)"
    "d_licenses (w_db t) = d_licenses (w_db s)" "d_activations (w_db t) = d_activations (w_db s)"
    "d_cards (w_db t) = d_cards (w_db s)" "d_rules (w_db t) = d_rules (w_db s)" "d_anchors (w_db t) = d_anchors (w_db s)"
    "d_invitations (w_db t) = d_invitations (w_db s)" "d_pending (w_db t) = d_pending (w_db s)"
    "d_nonces (w_db t) = d_nonces (w_db s)" "d_channels (w_db t) = d_channels (w_db s)"
    "d_orders (w_db t) = d_orders (w_db s)" "d_webhooks (w_db t) = d_webhooks (w_db s)"
    "d_usage (w_db t) = d_usage (w_db s)" "d_grants (w_db t) = d_grants (w_db s)" "d_money (w_db t) = d_money (w_db s)"
    "d_releases (w_db t) = d_releases (w_db s)" "d_agents (w_db t) = d_agents (w_db s)"
    "d_tiers (w_db t) = d_tiers (w_db s)" "w_files t = w_files s"
    by simp_all
qed

text \<open>A successful transaction.\<close>

lemma tx_application_run [run_iffs]:
  "tx_application h s = (Inr app, t) \<longleftrightarrow> may_read h \<and> t = s \<and> find_app (w_db s) (h_app h) = Some app"
  by (auto simp: tx_application_def run_iffs)

lemma update_run [run_iffs]:
  "update cx sc body s = (Inr x, t) \<longleftrightarrow>
     (let h = \<lparr>h_ctx = cx, h_scope = sc, h_writable = True\<rparr> in
      check_scope cx sc True = Inr () \<and> may_write h \<and> find_app (w_db s) (h_app h) \<noteq> None \<and>
      body h (fresh s) = (Inr x, t) \<and> (w_mutations t = 0 \<or> 0 < w_audits t))"
proof (cases "check_scope cx sc True")
  case (Inl e)
  then show ?thesis by (simp add: update_def transaction_def Let_def raise_def)
next
  case (Inr y)
  let ?h = "\<lparr>h_ctx = cx, h_scope = sc, h_writable = True\<rparr>"
  let ?m = "andThen (lock_application ?h) (\<lambda>_. andThen (tx_application ?h) (\<lambda>_. body ?h))"
  have "update cx sc body s = (Inr x, t) \<longleftrightarrow> ?m (fresh s) = (Inr x, t) \<and> (w_mutations t = 0 \<or> 0 < w_audits t)"
    using Inr by (auto simp: update_def transaction_eq Let_def split: prod.splits sum.splits if_splits)
  also have "?m (fresh s) = (Inr x, t) \<longleftrightarrow>
      may_write ?h \<and> find_app (w_db s) (h_app ?h) \<noteq> None \<and> body ?h (fresh s) = (Inr x, t)"
    by (auto simp: lock_application_def run_iffs dest: check_write_read)
  finally show ?thesis using Inr by (simp add: Let_def)
qed

lemma view_run [run_iffs]:
  "view cx sc body s = (Inr x, t) \<longleftrightarrow>
     (let h = \<lparr>h_ctx = cx, h_scope = sc, h_writable = False\<rparr> in
      may_read h \<and> find_app (w_db s) (h_app h) \<noteq> None \<and> body h s = (Inr x, t))"
  by (auto simp: view_def tx_application_def run_iffs Let_def check_read_def)

end
