(* ===== verification/Policy.thy ===== *)
theory Policy
  imports Effects
begin

text \<open>
  \<open>policy.go\<close> and \<open>normalizeBlockPolicy\<close> (\<open>security.go\<close>): the validation of applications and of
  plan terms, the usage deadline of a license and the check that it may be used now.

  \<open>terms_ok\<close> and \<open>application_ok\<close> state what validated values satisfy, clause by clause;
  normalisation returns such values, and they are exactly its fixed points, so validating a second
  time (as \<open>SavePlan\<close> does inside its transaction) changes nothing.
\<close>

section \<open>Vocabulary\<close>

definition supported_models :: "string list" where
  "supported_models = [''perpetual'', ''subscription'', ''floating'', ''metered'']"

definition supported_bindings :: "string list" where
  "supported_bindings = [''machine_id'', ''domain'', ''ip'', ''seat'', ''installation'', ''account'', ''tenant'', ''cluster'']"

definition supported_forms :: "string list" where
  "supported_forms = [''web'', ''container'', ''cluster'', ''gui'', ''cli'', ''service'', ''plugin'', ''mobile'', ''iot'', ''saas'']"

fun all_new :: "string list \<Rightarrow> string list \<Rightarrow> string list \<Rightarrow> bool" where
  "all_new allowed seen [] \<longleftrightarrow> True"
| "all_new allowed seen (v # vs) \<longleftrightarrow> v \<in> set allowed \<and> v \<notin> set seen \<and> all_new allowed (v # seen) vs"

definition unique_allowed :: "string list \<Rightarrow> string list \<Rightarrow> bool" where
  "unique_allowed values allowed \<longleftrightarrow>
     (if values = [] \<or> length allowed < length values then False else all_new allowed [] values)"

section \<open>Applications\<close>

definition normalize_block_policy :: "svc \<Rightarrow> block_policy \<Rightarrow> err + unit" where
  "normalize_block_policy sv p =
     (if 3000 < length (bp_announcement p) \<or> 1000 < length (bp_support_url p) then Inl invalid
      else if bp_support_url p \<noteq> [] then
        (case s_parse_url sv (bp_support_url p) of
           None \<Rightarrow> Inl invalid
         | Some u \<Rightarrow>
             if url_host u = [] \<or> url_has_user u \<or> url_scheme u \<noteq> ''https'' \<and> url_scheme u \<noteq> ''http''
             then Inl invalid else Inr ())
      else Inr ())"

definition zero_policy :: verify_policy where
  "zero_policy = \<lparr>vp_ip_source = [], vp_jwt_ttl = 0, vp_verify_interval = 0, vp_network_grace = 0,
     vp_subscription_grace = 0, vp_seat_lease = 0, vp_max_borrow = 0, vp_key_overlap = 0,
     vp_domain_mode = [], vp_ip_mode = []\<rparr>"

definition default_verify_policy :: verify_policy where
  "default_verify_policy = \<lparr>vp_ip_source = ''egress'', vp_jwt_ttl = 86400, vp_verify_interval = 3600,
     vp_network_grace = 3 * 86400, vp_subscription_grace = 0, vp_seat_lease = 120,
     vp_max_borrow = 86400, vp_key_overlap = 8 * 86400,
     vp_domain_mode = ''license_binding'', vp_ip_mode = ''license_binding''\<rparr>"

definition policy_ranges :: "verify_policy \<Rightarrow> bool" where
  "policy_ranges p \<longleftrightarrow>
     \<not> (vp_jwt_ttl p < 60 \<or> vp_jwt_ttl p > 3 * 86400 \<or> vp_verify_interval p < 1 \<or>
        vp_verify_interval p > vp_jwt_ttl p \<or> vp_network_grace p < 0 \<or> vp_network_grace p > 30 * 86400 \<or>
        vp_subscription_grace p < 0 \<or> vp_subscription_grace p > 365 * 86400 \<or> vp_seat_lease p < 30 \<or>
        vp_seat_lease p > 3600 \<or> vp_max_borrow p < 0 \<or> vp_max_borrow p > 30 * 86400 \<or>
        vp_key_overlap p < 0 \<or> vp_key_overlap p > 366 * 86400)"

definition rule_mode :: "string \<Rightarrow> bool" where
  "rule_mode m \<longleftrightarrow> m = ''license_binding'' \<or> m = ''application_allowlist''"

definition normalize_application :: "svc \<Rightarrow> application \<Rightarrow> err + application" where
  "normalize_application sv a =
     (case normalize_block_policy sv (ap_block a) of Inl e \<Rightarrow> Inl e | Inr _ \<Rightarrow>
      if 160 < length (ap_group a) then Inl invalid else
      let name = trim_space (ap_name a) in
      if name = [] \<or> 160 < length name then Inl invalid else
      let models = (if ap_models a = [] then [''perpetual'', ''subscription''] else ap_models a);
          bindings = (if ap_bindings a = [] then [''machine_id'', ''domain'', ''ip'', ''installation''] else ap_bindings a);
          forms = (if ap_forms a = [] then [''web'', ''container'', ''gui'', ''cli'', ''service''] else ap_forms a) in
      if \<not> unique_allowed models supported_models \<or> \<not> unique_allowed bindings supported_bindings \<or>
         \<not> unique_allowed forms supported_forms then Inl invalid
      else if ap_status a \<noteq> ''active'' \<and> ap_status a \<noteq> ''suspended'' \<and> ap_status a \<noteq> ''archived'' then Inl invalid
      else
      let p = (if ap_policy a = zero_policy then default_verify_policy else ap_policy a) in
      if \<not> policy_ranges p then Inl invalid else
      let p = (if vp_ip_source p = [] then p\<lparr>vp_ip_source := ''egress''\<rparr> else p) in
      if vp_ip_source p \<noteq> ''egress'' \<and> vp_ip_source p \<noteq> ''declared'' then Inl invalid
      else if \<not> rule_mode (vp_domain_mode p) \<or> \<not> rule_mode (vp_ip_mode p) then Inl invalid
      else Inr (a\<lparr>ap_name := name, ap_models := models, ap_bindings := bindings, ap_forms := forms,
                  ap_policy := p\<rparr>))"

section \<open>Plan terms\<close>

definition feature_ident :: "svc \<Rightarrow> string \<Rightarrow> bool" where
  "feature_ident sv f \<longleftrightarrow>
     (if is_ascii f then f \<noteq> [] \<and>
        list_all (\<lambda>c. is_digit c \<or> is_upper c \<or> is_lower c \<or> c \<in> set ''_.:-'') f
      else s_feature_text sv f)"

fun targets_ok :: "string list \<Rightarrow> string list \<Rightarrow> bool" where
  "targets_ok seen [] \<longleftrightarrow> True"
| "targets_ok seen (i # is) \<longleftrightarrow> \<not> (i = [] \<or> 96 < length i \<or> i \<in> set seen) \<and> targets_ok (i # seen) is"

fun features_ok :: "svc \<Rightarrow> string list \<Rightarrow> string list \<Rightarrow> bool" where
  "features_ok sv seen [] \<longleftrightarrow> True"
| "features_ok sv seen (f # fs) \<longleftrightarrow>
     \<not> (\<not> feature_ident sv f \<or> 64 < length f \<or> f \<noteq> trim_space f \<or> f \<in> set seen) \<and> features_ok sv (f # seen) fs"

definition normalize_terms :: "svc \<Rightarrow> application \<Rightarrow> terms \<Rightarrow> err + terms" where
  "normalize_terms sv app t =
     (if t_model t \<notin> set supported_models \<or> t_model t \<notin> set (ap_models app) then Inl invalid
      else if \<not> unique_allowed (t_bindings t) supported_bindings then Inl invalid
      else if list_ex (\<lambda>b. b \<notin> set (ap_bindings app)) (t_bindings t) then Inl invalid
      else
      let t = (if t_forms t = [] then t\<lparr>t_forms := ap_forms app\<rparr> else t) in
      if \<not> unique_allowed (t_forms t) supported_forms then Inl invalid
      else if list_ex (\<lambda>f. f \<notin> set (ap_forms app)) (t_forms t) then Inl invalid
      else
      let t = (if t_starts_on t = [] then t\<lparr>t_starts_on := ''activation''\<rparr> else t) in
      if t_starts_on t \<noteq> ''activation'' \<and> t_starts_on t \<noteq> ''issue'' then Inl invalid
      else
      let t = (if t_model t = ''perpetual'' then t\<lparr>t_perpetual := True, t_days := 0\<rparr> else t);
          t = (if t_model t = ''subscription'' then t\<lparr>t_perpetual := False\<rparr> else t) in
      if t_model t = ''floating'' \<and> (length (t_bindings t) \<noteq> 1 \<or> t_bindings t ! 0 \<noteq> ''seat'' \<or> t_max_seats t < 1)
      then Inl invalid
      else if t_model t \<noteq> ''floating'' \<and> ''seat'' \<in> set (t_bindings t) then Inl invalid
      else if \<not> t_perpetual t \<and> (t_days t < 1 \<or> t_days t > 36500) \<or> t_update_days t < 0 \<or> t_update_days t > 36500
      then Inl invalid
      else
      let t = (if t_max_groups t = 0 then t\<lparr>t_max_groups := 1\<rparr> else t) in
      if t_max_groups t < 1 \<or> t_max_groups t > 1000 then Inl invalid
      else
      let t = (if t_max_activations t = 0 then t\<lparr>t_max_activations := 1\<rparr> else t);
          t = (if t_max_aliases t = 0 then t\<lparr>t_max_aliases := 2\<rparr> else t) in
      if t_max_activations t < 1 \<or> t_max_activations t > 1000 \<or> t_max_seats t < 0 \<or> t_max_seats t > 10000 \<or>
         t_max_aliases t < 1 \<or> t_max_aliases t > 128 \<or> t_rebind_limit t < -1 \<or> t_rebind_limit t > 10000 \<or>
         t_rebind_cooldown t < 0 \<or> t_rebind_cooldown t > 3650 * 86400 \<or> 100 < length (t_features t) then Inl invalid
      else if t_model t = ''metered'' \<and>
         (t_quota t < 1 \<or> t_quota t > 1000000000000 \<or> t_unit t = [] \<or> 64 < length (t_unit t) \<or>
          t_period t \<noteq> ''lifetime'' \<and> t_period t \<noteq> ''monthly'') then Inl invalid
      else
      let t = (if t_model t = ''metered'' then t else t\<lparr>t_quota := 0, t_unit := [], t_period := []\<rparr>) in
      if 1000 < length (t_renewal_targets t) then Inl invalid
      else if \<not> targets_ok [] (t_renewal_targets t) then Inl invalid
      else if \<not> features_ok sv [] (t_features t) then Inl invalid
      else Inr t)"

section \<open>Deadlines and usability\<close>

definition usage_deadline :: "application \<Rightarrow> license \<Rightarrow> int option" where
  "usage_deadline app l =
     (if t_perpetual (l_terms l) then None
      else case l_expires_at l of
          None \<Rightarrow> None
        | Some t \<Rightarrow> Some (t + duration (vp_subscription_grace (ap_policy app)) second))"

definition check_usable :: "application \<Rightarrow> license \<Rightarrow> int \<Rightarrow> err + unit" where
  "check_usable app l now =
     (if l_renewal_only l then Inl (forbidden ''LICENSE_RENEWAL_ONLY'')
      else if ap_status app \<noteq> ''active'' then Inl (forbidden ''APPLICATION_DISABLED'')
      else if l_status l = ''suspended'' then Inl (forbidden ''LICENSE_SUSPENDED'')
      else if l_status l = ''revoked'' then Inl (forbidden ''LICENSE_REVOKED'')
      else if l_status l = ''expired'' then Inl (forbidden ''LICENSE_EXPIRED'')
      else if l_status l \<noteq> ''active'' then Inl (forbidden ''LICENSE_UNUSABLE'')
      else if (case usage_deadline app l of None \<Rightarrow> False | Some d \<Rightarrow> \<not> now < d)
      then Inl (forbidden ''LICENSE_EXPIRED'')
      else if t_model (l_terms l) \<notin> set (ap_models app) then Inl (forbidden ''MODEL_DISABLED'')
      else Inr ())"

section \<open>What validated values satisfy\<close>

lemma all_new_iff:
  "all_new allowed seen vs \<longleftrightarrow> set vs \<subseteq> set allowed \<and> distinct vs \<and> set vs \<inter> set seen = {}"
  by (induction allowed seen vs rule: all_new.induct) auto

lemma unique_allowed_iff:
  "unique_allowed vs allowed \<longleftrightarrow> vs \<noteq> [] \<and> set vs \<subseteq> set allowed \<and> distinct vs"
proof -
  have "length vs \<le> length allowed" if "set vs \<subseteq> set allowed" "distinct vs"
    using card_mono [OF _ that(1)] card_length [of allowed] that(2) by (simp add: distinct_card)
  then show ?thesis by (auto simp: unique_allowed_def all_new_iff not_less)
qed

lemma targets_ok_iff:
  "targets_ok seen is \<longleftrightarrow> (\<forall>i \<in> set is. i \<noteq> [] \<and> length i \<le> 96) \<and> distinct is \<and> set is \<inter> set seen = {}"
  by (induction seen "is" rule: targets_ok.induct) auto

lemma features_ok_iff:
  "features_ok sv seen fs \<longleftrightarrow>
     (\<forall>f \<in> set fs. feature_ident sv f \<and> length f \<le> 64 \<and> trim_space f = f) \<and> distinct fs \<and> set fs \<inter> set seen = {}"
  by (induction sv seen fs rule: features_ok.induct) auto

text \<open>The specification of validated terms.\<close>

definition terms_ok :: "svc \<Rightarrow> application \<Rightarrow> terms \<Rightarrow> bool" where
  "terms_ok sv app t \<longleftrightarrow>
     t_model t \<in> set supported_models \<inter> set (ap_models app) \<and>
     t_bindings t \<noteq> [] \<and> distinct (t_bindings t) \<and>
     set (t_bindings t) \<subseteq> set supported_bindings \<inter> set (ap_bindings app) \<and>
     t_forms t \<noteq> [] \<and> distinct (t_forms t) \<and> set (t_forms t) \<subseteq> set supported_forms \<inter> set (ap_forms app) \<and>
     t_starts_on t \<in> {''activation'', ''issue''} \<and>
     (t_model t = ''perpetual'' \<longrightarrow> t_perpetual t \<and> t_days t = 0) \<and>
     (t_model t = ''subscription'' \<longrightarrow> \<not> t_perpetual t) \<and>
     (t_model t = ''floating'' \<longrightarrow> t_bindings t = [''seat''] \<and> 1 \<le> t_max_seats t) \<and>
     (t_model t \<noteq> ''floating'' \<longrightarrow> ''seat'' \<notin> set (t_bindings t)) \<and>
     (t_perpetual t \<or> t_days t \<in> {1..36500}) \<and> t_update_days t \<in> {0..36500} \<and>
     t_max_groups t \<in> {1..1000} \<and> t_max_activations t \<in> {1..1000} \<and> t_max_seats t \<in> {0..10000} \<and>
     t_max_aliases t \<in> {1..128} \<and> t_rebind_limit t \<in> {-1..10000} \<and>
     t_rebind_cooldown t \<in> {0..3650 * 86400} \<and>
     (if t_model t = ''metered''
      then t_quota t \<in> {1..1000000000000} \<and> t_unit t \<noteq> [] \<and> length (t_unit t) \<le> 64 \<and>
           t_period t \<in> {''lifetime'', ''monthly''}
      else t_quota t = 0 \<and> t_unit t = [] \<and> t_period t = []) \<and>
     length (t_renewal_targets t) \<le> 1000 \<and> distinct (t_renewal_targets t) \<and>
     (\<forall>i \<in> set (t_renewal_targets t). i \<noteq> [] \<and> length i \<le> 96) \<and>
     length (t_features t) \<le> 100 \<and> distinct (t_features t) \<and>
     (\<forall>f \<in> set (t_features t). feature_ident sv f \<and> length f \<le> 64 \<and> trim_space f = f)"

lemma guard_iff: "(if b then Inl e else x) = Inr u \<longleftrightarrow> \<not> b \<and> x = Inr u"
  by simp

lemma terms_if_update:
  "(if c then r\<lparr>t_forms := fs\<rparr> else r) = r\<lparr>t_forms := (if c then fs else t_forms r)\<rparr>"
  "(if c then r\<lparr>t_starts_on := x\<rparr> else r) = r\<lparr>t_starts_on := (if c then x else t_starts_on r)\<rparr>"
  "(if c then r\<lparr>t_perpetual := p\<rparr> else r) = r\<lparr>t_perpetual := (if c then p else t_perpetual r)\<rparr>"
  "(if c then r\<lparr>t_perpetual := p, t_days := d\<rparr> else r) =
     r\<lparr>t_perpetual := (if c then p else t_perpetual r), t_days := (if c then d else t_days r)\<rparr>"
  "(if c then r\<lparr>t_max_groups := n\<rparr> else r) = r\<lparr>t_max_groups := (if c then n else t_max_groups r)\<rparr>"
  "(if c then r\<lparr>t_max_activations := n\<rparr> else r) = r\<lparr>t_max_activations := (if c then n else t_max_activations r)\<rparr>"
  "(if c then r\<lparr>t_max_aliases := n\<rparr> else r) = r\<lparr>t_max_aliases := (if c then n else t_max_aliases r)\<rparr>"
  "(if c then r else r\<lparr>t_quota := q, t_unit := x, t_period := y\<rparr>) =
     r\<lparr>t_quota := (if c then t_quota r else q), t_unit := (if c then t_unit r else x),
       t_period := (if c then t_period r else y)\<rparr>"
  by simp_all

lemma one_element: "length xs = Suc 0 \<Longrightarrow> xs ! 0 = x \<Longrightarrow> xs = [x]"
  by (cases xs) auto

lemma normalize_terms_sound:
  assumes "normalize_terms sv app t = Inr u"
  shows "terms_ok sv app u"
proof -
  note [split del] = if_split
  from assms show ?thesis
    apply (simp add: normalize_terms_def Let_def terms_if_update guard_iff cong: if_cong)
    apply (elim conjE)
    apply (drule sym [of _ u])
    apply (simp only: terms_ok_def)
    apply (intro conjI)
    apply (simp_all add: unique_allowed_iff targets_ok_iff features_ok_iff list_ex_iff not_less subset_iff one_element)
    apply blast
    apply (simp split: if_split)
    done
qed

lemma normalize_terms_fixed:
  assumes "terms_ok sv app u"
  shows "normalize_terms sv app u = Inr u"
proof -
  from assms have [simp]: "t_forms u \<noteq> []" "t_starts_on u \<noteq> []" "t_max_groups u \<noteq> 0"
    "t_max_activations u \<noteq> 0" "t_max_aliases u \<noteq> 0"
    by (auto simp: terms_ok_def)
  from assms have "t_model u \<in> set supported_models" by (simp add: terms_ok_def)
  then consider "t_model u = ''perpetual''" | "t_model u = ''subscription''" | "t_model u = ''floating''" | "t_model u = ''metered''"
    by (auto simp: supported_models_def)
  then show ?thesis
    using assms
    by cases (simp_all add: normalize_terms_def Let_def terms_ok_def unique_allowed_iff targets_ok_iff
        features_ok_iff list_ex_iff not_less subset_iff, auto)
qed

text \<open>The same for applications.\<close>

definition application_ok :: "svc \<Rightarrow> application \<Rightarrow> bool" where
  "application_ok sv a \<longleftrightarrow>
     normalize_block_policy sv (ap_block a) = Inr () \<and> length (ap_group a) \<le> 160 \<and>
     ap_name a \<noteq> [] \<and> length (ap_name a) \<le> 160 \<and> trim_space (ap_name a) = ap_name a \<and>
     unique_allowed (ap_models a) supported_models \<and> unique_allowed (ap_bindings a) supported_bindings \<and>
     unique_allowed (ap_forms a) supported_forms \<and>
     ap_status a \<in> {''active'', ''suspended'', ''archived''} \<and> policy_ranges (ap_policy a) \<and>
     vp_ip_source (ap_policy a) \<in> {''egress'', ''declared''} \<and>
     rule_mode (vp_domain_mode (ap_policy a)) \<and> rule_mode (vp_ip_mode (ap_policy a))"

lemma policy_if_update:
  "(if c then p\<lparr>vp_ip_source := x\<rparr> else p) = p\<lparr>vp_ip_source := (if c then x else vp_ip_source p)\<rparr>"
  by simp

lemma policy_ranges_ip [simp]: "policy_ranges (p\<lparr>vp_ip_source := x\<rparr>) = policy_ranges p"
  by (simp add: policy_ranges_def)

lemma normalize_application_sound:
  assumes "normalize_application sv a = Inr b"
  shows "application_ok sv b"
proof (cases "normalize_block_policy sv (ap_block a)")
  case (Inl e)
  with assms show ?thesis by (simp add: normalize_application_def)
next
  case (Inr x)
  note [split del] = if_split
  from assms Inr show ?thesis
    apply (simp add: normalize_application_def Let_def policy_if_update guard_iff cong: if_cong)
    apply (elim conjE)
    apply (drule sym [of _ b])
    apply (simp only: application_ok_def)
    apply (intro conjI)
    apply (simp_all add: not_less cong: if_cong)
    done
qed

lemma zero_policy_no: "policy_ranges p \<Longrightarrow> p \<noteq> zero_policy"
  by (auto simp: policy_ranges_def zero_policy_def)

lemma normalize_application_fixed:
  assumes "application_ok sv b"
  shows "normalize_application sv b = Inr b"
proof -
  from assms have [simp]: "ap_models b \<noteq> []" "ap_bindings b \<noteq> []" "ap_forms b \<noteq> []"
    "ap_policy b \<noteq> zero_policy" "vp_ip_source (ap_policy b) \<noteq> []"
    by (auto simp: application_ok_def unique_allowed_def dest: zero_policy_no)
  from assms show ?thesis
    by (auto simp: normalize_application_def application_ok_def Let_def not_less)
qed

text \<open>Exactly when a license may be used.\<close>

lemma check_usable_iff:
  "check_usable app l now = Inr () \<longleftrightarrow>
     \<not> l_renewal_only l \<and> ap_status app = ''active'' \<and> l_status l = ''active'' \<and>
     (\<forall>d. usage_deadline app l = Some d \<longrightarrow> now < d) \<and> t_model (l_terms l) \<in> set (ap_models app)"
  by (auto simp: check_usable_def split: option.splits)

end
