(* ===== verification/Access.thy ===== *)
theory Access
  imports Policy
begin

text \<open>
  Applications and their credentials: the handlers of \<open>access.go\<close> and \<open>AssignDeveloper\<close>
  (\<open>developers.go\<close>). Each handler is the Go method with the same name; the Go values \<open>scoped\<close> and
  \<open>repo\<close> are the context and the repository scope that \<open>application_context\<close> returns. A handler
  \<open>serves\<close> its application, so everything in \<open>Platform\<close> about transactions applies to it.
\<close>

section \<open>Handlers\<close>

text \<open>What leaves the service does not carry the hash of the application secret.\<close>

definition blank_secret :: "application \<Rightarrow> application" where
  "blank_secret a = a\<lparr>ap_secret_hash := []\<rparr>"

definition list_applications :: "ctx \<Rightarrow> application list db_act" where
  "list_applications cx =
     andThen (pureA (principal_from cx)) (\<lambda>p.
     if pr_kind p \<noteq> ''developer'' \<and> \<not> privileged p False then raise (forbidden ''ROLE_FORBIDDEN'')
     else andThen (reg_list (if pr_kind p = ''developer'' then pr_id p else [])) (\<lambda>apps.
       ret (map blank_secret apps)))"

record application_input =
  ai_block :: "block_policy option"
  ai_group :: string
  ai_owner_transfer :: "bool option"
  ai_updates :: "bool option"
  ai_public_query :: "bool option"
  ai_name :: string
  ai_developer :: string
  ai_models :: "string list"
  ai_bindings :: "string list"
  ai_forms :: "string list"
  ai_policy :: verify_policy

record created_application =
  ca_application :: application
  ca_app_id :: string
  ca_secret :: string
  ca_public_pem :: string

definition or_default :: "'a \<Rightarrow> 'a option \<Rightarrow> 'a" where
  "or_default d v = (case v of None \<Rightarrow> d | Some x \<Rightarrow> x)"

text \<open>The default announcement, a sentence in Chinese, as its UTF-8 bytes.\<close>

definition default_announcement :: string where
  "default_announcement = map char_of
     [231, 171, 153, 231, 130, 185, 230, 156, 170, 230, 142, 136, 230, 157, 131, 239, 188, 140,
      232, 175, 183, 232, 129, 148, 231, 179, 187, 232, 189, 175, 228, 187, 182, 230, 143, 144,
      228, 190, 155, 230, 150, 185, 230, 160, 184, 229, 174, 158, 227, 128, 130 :: nat]"

definition default_block :: block_policy where
  "default_block = \<lparr>bp_enabled = True, bp_announcement = default_announcement, bp_support_url = []\<rparr>"

definition new_application :: "application_input \<Rightarrow> string \<Rightarrow> application" where
  "new_application input developer =
     \<lparr>r_app = [], r_id = [], r_created = 0, r_updated = 0,
      ap_block = or_default default_block (ai_block input),
      ap_group = trim_space (ai_group input),
      ap_owner_transfer = or_default False (ai_owner_transfer input),
      ap_name = trim_space (ai_name input), ap_developer = developer, ap_status = ''active'',
      ap_models = ai_models input, ap_bindings = ai_bindings input, ap_forms = ai_forms input,
      ap_policy = ai_policy input, ap_secret_hash = [], ap_secret_version = 1, ap_current_kid = [],
      ap_public_query = or_default True (ai_public_query input),
      ap_updates_enabled = or_default False (ai_updates input)\<rparr>"

definition create_application ::
  "svc \<Rightarrow> ctx \<Rightarrow> application_input \<Rightarrow> created_application db_act" where
  "create_application sv cx input =
     andThen (pureA (principal_from cx)) (\<lambda>p.
     if pr_kind p \<noteq> ''developer'' \<and> \<not> privileged p True then raise (forbidden ''ROLE_FORBIDDEN'')
     else
       let developer = (if pr_kind p = ''developer'' then pr_id p else ai_developer input) in
       andThen (pureA (normalize_application sv (new_application input developer))) (\<lambda>app0.
       andThen (application_id sv) (\<lambda>appID.
       andThen (application_secret sv) (\<lambda>secret.
       andThen (rsa_key_pair sv) (\<lambda>(public, private).
       andThen (encrypt_for sv appID ''signing'' private) (\<lambda>cipher.
       andThen (new_id sv ''application'') (\<lambda>_.
       let app = app0\<lparr>r_app := appID, r_id := appID, r_created := s_now sv, r_updated := s_now sv,
                   ap_current_kid := appID @ ''.v1'',
                   ap_secret_hash := keyed_hash sv ''app-secret'' appID secret\<rparr> in
       andThen (new_id sv ''key'') (\<lambda>_.
       let key = \<lparr>r_app = appID, r_id = ap_current_kid app, r_created = s_now sv, r_updated = s_now sv,
                  k_max_issued = None, k_kid = ap_current_kid app, k_version = 1, k_algorithm = ''RS256'',
                  k_public_pem = public, k_private_cipher = cipher, k_status = ''active'',
                  k_accept_until = None\<rparr> in
       andThen (new_id sv ''event'') (\<lambda>ev.
       let event = \<lparr>r_app = appID, r_id = ev, r_created = s_now sv, r_updated = s_now sv,
                    e_sequence = 0, e_type = ''created'', e_entity = appID, e_actor = pr_actor p,
                    e_result = ''success'', e_reason = [],
                    e_payload = [(''entity'', PStr ''application''), (''name'', PStr (ap_name app))],
                    e_previous = [], e_hash = []\<rparr> in
       andThen (reg_create cx app key event (audit_sign sv)) (\<lambda>_.
       ret \<lparr>ca_application = blank_secret app, ca_app_id = appID, ca_secret = secret,
            ca_public_pem = public\<rparr>))))))))))"

definition get_application :: "ctx \<Rightarrow> string \<Rightarrow> application db_act" where
  "get_application cx i =
     in_application cx i False (\<lambda>_ app _. ret (blank_secret app))"

definition save_application_handler ::
  "svc \<Rightarrow> ctx \<Rightarrow> string \<Rightarrow> application_input \<Rightarrow> string \<Rightarrow> application db_act" where
  "save_application_handler sv cx i input status =
     in_application cx i True (\<lambda>scoped app0 sc.
     let app1 = app0\<lparr>ap_group := trim_space (ai_group input), ap_name := ai_name input,
           ap_models := ai_models input, ap_bindings := ai_bindings input, ap_forms := ai_forms input,
           ap_policy := ai_policy input, ap_block := or_default (ap_block app0) (ai_block input),
           ap_owner_transfer := or_default (ap_owner_transfer app0) (ai_owner_transfer input),
           ap_updates_enabled := or_default (ap_updates_enabled app0) (ai_updates input),
           ap_public_query := or_default (ap_public_query app0) (ai_public_query input),
           ap_status := (if status = [] then ap_status app0 else status)\<rparr> in
     andThen (pureA (normalize_application sv app1)) (\<lambda>app.
     update scoped sc (\<lambda>h.
       andThen (lock_application h) (\<lambda>_.
       andThen (tx_application h) (\<lambda>current.
       if ap_secret_version current \<noteq> ap_secret_version app then raise (conflict ''APPLICATION_CHANGED'')
       else
         let next = current\<lparr>ap_block := ap_block app, ap_group := ap_group app, ap_name := ap_name app,
               ap_status := ap_status app, ap_models := ap_models app, ap_bindings := ap_bindings app,
               ap_forms := ap_forms app, ap_owner_transfer := ap_owner_transfer app,
               ap_updates_enabled := ap_updates_enabled app, ap_public_query := ap_public_query app,
               ap_policy := ap_policy app, r_updated := s_now sv\<rparr> in
         andThen (save_application h next) (\<lambda>_.
         andThen (append_event sv h ''application_updated'' i [(''status'', PStr (ap_status next))]) (\<lambda>_.
         ret (blank_secret next))))))))"

record reset_result =
  rs_app_id :: string
  rs_secret :: string
  rs_version :: int

definition reset_app_secret :: "svc \<Rightarrow> ctx \<Rightarrow> string \<Rightarrow> string \<Rightarrow> reset_result db_act" where
  "reset_app_secret sv cx i reason =
     in_application cx i True (\<lambda>scoped app0 sc.
     if trim_space reason = [] then raise invalid
     else andThen (application_secret sv) (\<lambda>secret.
       let hash = keyed_hash sv ''app-secret'' i secret;
           version = i64 (ap_secret_version app0 + 1) in
       update scoped sc (\<lambda>h.
         andThen (lock_application h) (\<lambda>_.
         andThen (tx_application h) (\<lambda>current.
         if ap_secret_version current \<noteq> i64 (version - 1) then raise (conflict ''APPLICATION_CHANGED'')
         else
           andThen (save_application h (current\<lparr>ap_secret_hash := hash, ap_secret_version := version,
                                          r_updated := s_now sv\<rparr>)) (\<lambda>_.
           andThen (append_event sv h ''app_secret_rotated'' i
                     [(''reason'', PStr reason), (''version'', PInt version)]) (\<lambda>_.
           ret \<lparr>rs_app_id = i, rs_secret = secret, rs_version = version\<rparr>)))))))"

definition authenticate_app_secret :: "svc \<Rightarrow> string \<Rightarrow> string \<Rightarrow> application db_act" where
  "authenticate_app_secret sv appID secret =
     andThen (orElse (reg_get appID) (LicErr ''APPLICATION_CREDENTIALS_INVALID'' 401)) (\<lambda>app.
     if ap_status app \<noteq> ''active'' \<or> length secret \<noteq> 32 \<or>
        ap_secret_hash app \<noteq> keyed_hash sv ''app-secret'' appID secret
     then raise (LicErr ''APPLICATION_CREDENTIALS_INVALID'' 401)
     else ret app)"

definition check_application_access :: "ctx \<Rightarrow> string \<Rightarrow> bool \<Rightarrow> unit db_act" where
  "check_application_access cx i write = in_application cx i write (\<lambda>_ _ _. ret ())"

text \<open>\<open>WithReleaseStorage\<close>: limits that are not all positive are ignored.\<close>

definition with_release_limits :: "svc \<Rightarrow> storage_limits \<Rightarrow> svc" where
  "with_release_limits sv lim =
     (if 0 < rc_total lim \<and> 0 < rc_developer lim \<and> 0 < rc_application lim \<and> 0 < rc_versions lim
      then sv\<lparr>s_limits := lim\<rparr> else sv)"

definition assign_developer :: "svc \<Rightarrow> ctx \<Rightarrow> string \<Rightarrow> string \<Rightarrow> string \<Rightarrow> application db_act" where
  "assign_developer sv cx i developer reason =
     andThen (pureA (principal_from cx)) (\<lambda>p.
     if pr_kind p \<noteq> ''admin'' \<or> \<not> privileged p True then raise (forbidden ''ROLE_FORBIDDEN'')
     else if trim_space reason = [] \<or> 500 < length reason \<or> 96 < length developer then raise invalid
     else in_application cx i True (\<lambda>scoped _ sc.
       update scoped sc (\<lambda>h.
         andThen (tx_application h) (\<lambda>app.
         let next = app\<lparr>ap_developer := developer, r_updated := s_now sv\<rparr> in
         andThen (save_application h next) (\<lambda>_.
         andThen (append_event sv h ''developer_assigned'' i
                   [(''previous_developer_id'', PStr (ap_developer app)), (''developer_id'', PStr developer),
                    (''reason'', PStr reason)]) (\<lambda>_.
         ret (blank_secret next)))))))"

section \<open>Handlers as sequences of transactions\<close>

lemma access_serves [via_intros]:
  "serves (audit_sign sv) i (get_application cx i)"
  "serves (audit_sign sv) i (save_application_handler sv cx i input status)"
  "serves (audit_sign sv) i (reset_app_secret sv cx i reason)"
  "serves (audit_sign sv) i (check_application_access cx i write)"
  "serves (audit_sign sv) i (assign_developer sv cx i developer reason)"
  unfolding get_application_def save_application_handler_def reset_app_secret_def
    check_application_access_def assign_developer_def Let_def
  by (intro via_intros; assumption)+

end
