(* ===== verification/Tokens.thy ===== *)
theory Tokens
  imports Access
begin

text \<open>
  Tokens and signing keys: \<open>jwt.go\<close> (RS256 tokens, the JSON web key set, signed requests of an
  installation) and \<open>keys.go\<close> (key publication, rotation, signing and verification within an
  application). RSA, Ed25519, SHA-256 and the JSON codecs are parameters of the service; the
  base64url layer and every check around them are computed.
\<close>

section \<open>Tokens\<close>

definition token_issuer :: string where "token_issuer = ''urn:yunnuo:licensing:v2''"

definition jwt_segment :: "string \<Rightarrow> bool" where
  "jwt_segment s \<longleftrightarrow> s \<noteq> [] \<and> list_all (\<lambda>c. c \<in> set base64_alphabet) s"

record token_expectation =
  ex_app :: string
  ex_subject :: string
  ex_activation :: string
  ex_use :: string
  ex_binding_type :: string
  ex_binding_hash :: string
  ex_now :: "int option"

definition dot :: string where "dot = ''.''"

definition sign_jwt :: "svc \<Rightarrow> string \<Rightarrow> string \<Rightarrow> jwt_claims \<Rightarrow> err + string" where
  "sign_jwt sv private kid claims =
     (if kid = [] \<or> jc_iss claims \<noteq> token_issuer \<or> jc_aud claims = [] \<or> jc_sub claims = [] \<or>
         jc_jti claims = [] \<or> jc_use claims = [] \<or> jc_exp claims \<le> jc_iat claims
      then Inl (Fault ''incomplete JWT claims'')
      else
        let header = s_header_json sv \<lparr>jh_alg = ''RS256'', jh_typ = ''JWT'', jh_kid = kid\<rparr>;
            payload = s_claims_json sv claims;
            message = b64_encode header @ dot @ b64_encode payload in
        case s_rsa_sign sv private (s_sha256 sv message) of
          None \<Rightarrow> Inl (Fault ''invalid private key'')
        | Some signature \<Rightarrow> Inr (message @ dot @ b64_encode signature))"

definition token_parts :: "string \<Rightarrow> string list" where
  "token_parts token = split_on (CHR ''.'') token"

definition decode_jwt_header :: "svc \<Rightarrow> string \<Rightarrow> err + jwt_header" where
  "decode_jwt_header sv token =
     (let parts = token_parts token in
      if 16384 < length token \<or> length parts \<noteq> 3 then Inl (TokErr ''TOKEN_MALFORMED'')
      else if list_ex (\<lambda>p. \<not> jwt_segment p) parts then Inl (TokErr ''TOKEN_MALFORMED'')
      else case b64_decode True (parts ! 0) of
          None \<Rightarrow> Inl (TokErr ''TOKEN_MALFORMED'')
        | Some raw \<Rightarrow>
            if 2048 < length raw then Inl (TokErr ''TOKEN_MALFORMED'')
            else case s_header_parse sv raw of
                None \<Rightarrow> Inl (TokErr ''TOKEN_ALGORITHM_INVALID'')
              | Some header \<Rightarrow>
                  if jh_alg header \<noteq> ''RS256'' \<or> jh_typ header \<noteq> ''JWT'' \<or> jh_kid header = [] \<or>
                     160 < length (jh_kid header)
                  then Inl (TokErr ''TOKEN_ALGORITHM_INVALID'') else Inr header)"

definition check_claims :: "svc \<Rightarrow> jwt_claims \<Rightarrow> token_expectation \<Rightarrow> bool \<Rightarrow> err + jwt_claims" where
  "check_claims sv claims ex association =
     (if ex_app ex = [] \<or> jc_iss claims \<noteq> token_issuer \<or> jc_aud claims \<noteq> ex_app ex \<or> jc_sub claims = [] \<or>
         jc_jti claims = [] \<or> jc_exp claims = 0 \<or> jc_iat claims = 0 \<or> jc_use claims \<noteq> ex_use ex
      then Inl (TokErr ''TOKEN_SCOPE_INVALID'')
      else if ex_subject ex \<noteq> [] \<and> jc_sub claims \<noteq> ex_subject ex \<or>
         ex_activation ex \<noteq> [] \<and> jc_activation claims \<noteq> ex_activation ex \<or>
         ex_binding_type ex \<noteq> [] \<and> jc_binding_type claims \<noteq> ex_binding_type ex \<or>
         ex_binding_hash ex \<noteq> [] \<and> jc_binding_hash claims \<noteq> ex_binding_hash ex
      then Inl (TokErr ''TOKEN_BINDING_MISMATCH'')
      else
        let now = (case ex_now ex of None \<Rightarrow> s_now sv | Some t \<Rightarrow> t) in
        if unix (now + 2 * minute) < jc_iat claims \<or> unix (now + 30 * second) < jc_nbf claims
        then Inl (TokErr ''TOKEN_NOT_YET_VALID'')
        else if jc_exp claims \<le> jc_iat claims then Inl (TokErr ''TOKEN_MALFORMED'')
        else if \<not> association \<and> jc_exp claims \<le> unix now then Inl (TokErr ''TOKEN_EXPIRED'')
        else Inr claims)"

definition verify_jwt ::
  "svc \<Rightarrow> string \<Rightarrow> string \<Rightarrow> token_expectation \<Rightarrow> bool \<Rightarrow> err + jwt_claims" where
  "verify_jwt sv token public ex association =
     (case decode_jwt_header sv token of Inl e \<Rightarrow> Inl e | Inr _ \<Rightarrow>
      let parts = token_parts token in
      case s_rsa_verify sv public of None \<Rightarrow> Inl (TokErr ''TOKEN_KEY_INVALID'') | Some check \<Rightarrow>
      case b64_decode True (parts ! 2) of None \<Rightarrow> Inl (TokErr ''TOKEN_SIGNATURE_INVALID'') | Some signature \<Rightarrow>
      if \<not> check (s_sha256 sv (parts ! 0 @ dot @ parts ! 1)) signature
      then Inl (TokErr ''TOKEN_SIGNATURE_INVALID'')
      else case b64_decode True (parts ! 1) of None \<Rightarrow> Inl (TokErr ''TOKEN_MALFORMED'') | Some payload \<Rightarrow>
      case s_claims_parse sv payload of None \<Rightarrow> Inl (TokErr ''TOKEN_MALFORMED'') | Some claims \<Rightarrow>
      check_claims sv claims ex association)"

record jwk =
  jk_kty :: string
  jk_use :: string
  jk_alg :: string
  jk_kid :: string
  jk_n :: string
  jk_e :: string

definition public_jwk :: "svc \<Rightarrow> string \<Rightarrow> string \<Rightarrow> err + jwk" where
  "public_jwk sv public kid =
     (case s_rsa_parts sv public of
        None \<Rightarrow> Inl (Fault ''invalid RSA public key'')
      | Some (n, e) \<Rightarrow> Inr \<lparr>jk_kty = ''RSA'', jk_use = ''sig'', jk_alg = ''RS256'', jk_kid = kid,
                           jk_n = b64_encode n, jk_e = b64_encode e\<rparr>)"

section \<open>Signed requests of an installation\<close>

record request_proof =
  pf_timestamp :: int
  pf_nonce :: string
  pf_signature :: string

definition request_signing_message ::
  "svc \<Rightarrow> string \<Rightarrow> string \<Rightarrow> string \<Rightarrow> int \<Rightarrow> string \<Rightarrow> string \<Rightarrow> string" where
  "request_signing_message sv method' path app timestamp nonce body =
     join_with [CHR 0x0A]
       [''YN-AUTH-V2'', to_upper sv method', path, app, itoa timestamp, nonce, sha_hex sv body]"

definition verify_installation_request ::
  "svc \<Rightarrow> string \<Rightarrow> string \<Rightarrow> string \<Rightarrow> string \<Rightarrow> string \<Rightarrow> request_proof \<Rightarrow> int \<Rightarrow> err + unit" where
  "verify_installation_request sv public method' path app body proof' now =
     (let stamp = at_unix (pf_timestamp proof') in
      if pf_timestamp proof' \<le> 0 \<or> 2 * minute < now - stamp \<or> 2 * minute < stamp - now
      then Inl (TokErr ''REQUEST_TIMESTAMP_INVALID'')
      else if length (pf_nonce proof') < 22 \<or> 86 < length (pf_nonce proof') \<or> \<not> jwt_segment (pf_nonce proof')
      then Inl (TokErr ''REQUEST_NONCE_INVALID'')
      else case b64_decode True public of None \<Rightarrow> Inl (TokErr ''INSTALLATION_KEY_INVALID'') | Some key \<Rightarrow>
      if length key \<noteq> 32 then Inl (TokErr ''INSTALLATION_KEY_INVALID'')
      else case b64_decode True (pf_signature proof') of None \<Rightarrow> Inl (TokErr ''REQUEST_SIGNATURE_INVALID'') | Some signature \<Rightarrow>
      if length signature \<noteq> 64 then Inl (TokErr ''REQUEST_SIGNATURE_INVALID'')
      else if \<not> s_ed_verify sv key
           (request_signing_message sv method' path app (pf_timestamp proof') (pf_nonce proof') body) signature
      then Inl (TokErr ''REQUEST_SIGNATURE_INVALID'')
      else Inr ())"

definition public_key_fingerprint :: "svc \<Rightarrow> string \<Rightarrow> err + string" where
  "public_key_fingerprint sv public =
     (case b64_decode True public of
        None \<Rightarrow> Inl (Fault ''invalid Ed25519 public key'')
      | Some raw \<Rightarrow> if length raw \<noteq> 32 then Inl (Fault ''invalid Ed25519 public key'')
                    else Inr (sha_hex sv raw))"

section \<open>Signing keys of an application\<close>

text \<open>A key accepts tokens while it is active, or retired and before the end of its overlap.\<close>

definition key_accepts :: "signing_key \<Rightarrow> int \<Rightarrow> bool" where
  "key_accepts key now \<longleftrightarrow>
     \<not> (k_status key \<noteq> ''active'' \<and>
        (k_status key \<noteq> ''retired'' \<or> (case k_accept_until key of None \<Rightarrow> True | Some t \<Rightarrow> \<not> now < t)))"

definition public_keys :: "svc \<Rightarrow> ctx \<Rightarrow> string \<Rightarrow> jwk list db_act" where
  "public_keys sv cx appID =
     andThen (orElse (reg_get appID) not_found) (\<lambda>app.
     andThen (scoped_repo cx app (mk_actor ''public_key_read'' ''jwks'') False) (\<lambda>(scoped, _, sc).
     view scoped sc (\<lambda>h.
       andThen (t_find keys_t h (no_filter\<lparr>f_limit := 1000\<rparr>)) (\<lambda>keys.
       foldEach keys [] (\<lambda>key out.
         if \<not> key_accepts key (s_now sv) then ret out
         else if \<not> prefix (appID @ ''.v'') (k_kid key) then raise ErrScopeMismatch
         else andThen (pureA (public_jwk sv (k_public_pem key) (k_kid key))) (\<lambda>jwk. ret (out @ [jwk])))))))"

record rotation =
  ro_app_id :: string
  ro_kid :: string
  ro_previous :: string
  ro_public_pem :: string

definition rotate_signing_key :: "svc \<Rightarrow> ctx \<Rightarrow> string \<Rightarrow> string \<Rightarrow> bool \<Rightarrow> rotation db_act" where
  "rotate_signing_key sv cx i reason immediately =
     in_application cx i True (\<lambda>scoped _ sc.
     if trim_space reason = [] \<or> 500 < length reason then raise invalid
     else andThen (rsa_key_pair sv) (\<lambda>(public, private).
     andThen (encrypt_for sv i ''signing'' private) (\<lambda>cipher.
     update scoped sc (\<lambda>h.
       andThen (tx_application h) (\<lambda>app.
       andThen (t_get keys_t h (ap_current_kid app)) (\<lambda>old.
       let overlap = s_now sv + duration (vp_key_overlap (ap_policy app)) second;
           until = (if immediately then s_now sv
                    else case k_max_issued old of
                        Some m \<Rightarrow> if overlap < m then m else overlap
                      | None \<Rightarrow> overlap);
           version = i64 (k_version old + 1);
           kid = i @ ''.v'' @ itoa version in
       andThen (t_save keys_t h (old\<lparr>k_status := ''retired'', k_accept_until := Some until,
                                     k_private_cipher := [], r_updated := s_now sv\<rparr>)) (\<lambda>_.
       andThen (new_id sv ''key'') (\<lambda>_.
       andThen (t_insert keys_t h \<lparr>r_app = i, r_id = kid, r_created = s_now sv, r_updated = s_now sv,
                  k_max_issued = None, k_kid = kid, k_version = version, k_algorithm = ''RS256'',
                  k_public_pem = public, k_private_cipher = cipher, k_status = ''active'',
                  k_accept_until = None\<rparr>) (\<lambda>_.
       andThen (save_application h (app\<lparr>ap_current_kid := kid, r_updated := s_now sv\<rparr>)) (\<lambda>_.
       andThen (append_event sv h ''signing_key_rotated'' kid
                  [(''reason'', PStr reason), (''previous_kid'', PStr (k_kid old)),
                   (''overlap_until'', PTime (Some until)), (''retire_immediately'', PBool immediately)]) (\<lambda>_.
       ret \<lparr>ro_app_id = i, ro_kid = kid, ro_previous = k_kid old, ro_public_pem = public\<rparr>)))))))))))"

definition sign_claims :: "svc \<Rightarrow> handle \<Rightarrow> application \<Rightarrow> jwt_claims \<Rightarrow> string db_act" where
  "sign_claims sv h app claims =
     andThen (t_get keys_t h (ap_current_kid app)) (\<lambda>key.
     if k_status key \<noteq> ''active'' \<or> k_private_cipher key = [] then raise (forbidden ''SIGNING_KEY_UNAVAILABLE'')
     else case s_decrypt sv (r_app app) ''signing'' (k_private_cipher key) of
         None \<Rightarrow> raise (Fault ''invalid encrypted envelope'')
       | Some private \<Rightarrow>
           andThen (pureA (sign_jwt sv private (k_kid key) claims)) (\<lambda>token.
           let until = at_unix (jc_exp claims) in
           if (case k_max_issued key of None \<Rightarrow> True | Some m \<Rightarrow> m < until)
           then andThen (t_save keys_t h (key\<lparr>k_max_issued := Some until, r_updated := s_now sv\<rparr>)) (\<lambda>_. ret token)
           else ret token))"

definition verify_application_token ::
  "svc \<Rightarrow> handle \<Rightarrow> application \<Rightarrow> string \<Rightarrow> token_expectation \<Rightarrow> bool \<Rightarrow> jwt_claims db_act" where
  "verify_application_token sv h app token ex association =
     andThen (pureA (decode_jwt_header sv token)) (\<lambda>header.
     if \<not> prefix (r_app app @ ''.v'') (jh_kid header) then raise (TokErr ''TOKEN_KEY_SCOPE_INVALID'')
     else andThen (orElse (t_get keys_t h (jh_kid header)) (TokErr ''TOKEN_KEY_UNKNOWN'')) (\<lambda>key.
       if \<not> key_accepts key (s_now sv) then raise (TokErr ''TOKEN_KEY_RETIRED'')
       else pureA (verify_jwt sv token (k_public_pem key) ex association)))"

section \<open>Handlers as sequences of transactions\<close>

lemma tokens_within [via_intros]:
  "within sg h (sign_claims sv h app claims)"
  "via R (verify_application_token sv h app token ex association)"
proof -
  show "within sg h (sign_claims sv h app claims)"
    unfolding sign_claims_def Let_def by (intro via_intros)
  show "via R (verify_application_token sv h app token ex association)"
    unfolding verify_application_token_def by (intro via_intros)
qed

lemma public_keys_via [via_intros]: "via R (public_keys sv cx i)"
  unfolding public_keys_def by (intro via_intros via_contexts)

lemma rotate_serves [via_intros]: "serves (audit_sign sv) i (rotate_signing_key sv cx i reason immediately)"
  unfolding rotate_signing_key_def Let_def by (intro via_intros; assumption)

section \<open>Properties\<close>

lemma check_claims_run:
  "check_claims sv claims ex association = Inr c \<longleftrightarrow>
     c = claims \<and> ex_app ex \<noteq> [] \<and> jc_iss claims = token_issuer \<and> jc_aud claims = ex_app ex \<and>
     jc_sub claims \<noteq> [] \<and> jc_jti claims \<noteq> [] \<and> jc_exp claims \<noteq> 0 \<and> jc_iat claims \<noteq> 0 \<and>
     jc_use claims = ex_use ex \<and>
     (ex_subject ex = [] \<or> jc_sub claims = ex_subject ex) \<and>
     (ex_activation ex = [] \<or> jc_activation claims = ex_activation ex) \<and>
     (ex_binding_type ex = [] \<or> jc_binding_type claims = ex_binding_type ex) \<and>
     (ex_binding_hash ex = [] \<or> jc_binding_hash claims = ex_binding_hash ex) \<and>
     (let now = (case ex_now ex of None \<Rightarrow> s_now sv | Some t \<Rightarrow> t) in
      jc_iat claims \<le> unix (now + 2 * minute) \<and> jc_nbf claims \<le> unix (now + 30 * second) \<and>
      (association \<or> unix now < jc_exp claims)) \<and>
     jc_iat claims < jc_exp claims"
  unfolding check_claims_def Let_def by (simp add: not_le not_less) blast

lemma b64_chars: "c \<in> set (b64_encode s) \<Longrightarrow> c \<in> set base64_alphabet"
proof -
  assume "c \<in> set (b64_encode s)"
  then obtain g where g: "g \<in> set (bit_groups 6 (concat (map byte_bits s)))" "c = base64_alphabet ! bits_nat g"
    by (auto simp: b64_encode_def encode_groups_def)
  have "length g = 6" using bit_groups_length [of 6 "concat (map byte_bits s)"] g(1) by (auto simp: list_all_iff)
  then have "bits_nat g < 64" using bits_nat_less [of g] by simp
  with g(2) show ?thesis by (simp add: base64_alphabet_ok nth_mem)
qed

lemma b64_no_dot: "CHR ''.'' \<notin> set (b64_encode s)"
proof
  assume "CHR ''.'' \<in> set (b64_encode s)"
  then have "CHR ''.'' \<in> set base64_alphabet" by (rule b64_chars)
  then show False by (simp add: base64_alphabet_def)
qed

lemma b64_segment: "s \<noteq> [] \<Longrightarrow> jwt_segment (b64_encode s)"
proof -
  assume "s \<noteq> []"
  then have "b64_encode s \<noteq> []"
    using b64_decode_encode [of True s] by (auto simp: b64_decode_def)
  then show ?thesis by (simp add: jwt_segment_def list_all_iff b64_chars)
qed

text \<open>A signed token, taken apart again.\<close>

lemma sign_jwt_parts:
  assumes "sign_jwt sv private kid claims = Inr token"
  obtains signature where
    "token_parts token = [b64_encode (s_header_json sv \<lparr>jh_alg = ''RS256'', jh_typ = ''JWT'', jh_kid = kid\<rparr>),
       b64_encode (s_claims_json sv claims), b64_encode signature]"
    and "s_rsa_sign sv private (s_sha256 sv
       (b64_encode (s_header_json sv \<lparr>jh_alg = ''RS256'', jh_typ = ''JWT'', jh_kid = kid\<rparr>) @ dot @
        b64_encode (s_claims_json sv claims))) = Some signature"
    and "kid \<noteq> []" and "jc_iat claims < jc_exp claims"
proof -
  let ?h = "b64_encode (s_header_json sv \<lparr>jh_alg = ''RS256'', jh_typ = ''JWT'', jh_kid = kid\<rparr>)"
  let ?p = "b64_encode (s_claims_json sv claims)"
  from assms obtain signature where
    sig: "s_rsa_sign sv private (s_sha256 sv (?h @ dot @ ?p)) = Some signature"
    and tok: "token = ?h @ dot @ ?p @ dot @ b64_encode signature"
    and "kid \<noteq> []" "jc_iat claims < jc_exp claims"
    by (auto simp: sign_jwt_def Let_def split: if_splits option.splits)
  have "token_parts token = [?h, ?p, b64_encode signature]"
    unfolding tok token_parts_def dot_def by (simp add: split_on_append split_on_free b64_no_dot)
  with sig \<open>kid \<noteq> []\<close> \<open>jc_iat claims < jc_exp claims\<close> show thesis by (intro that)
qed

end
