(* ===== verification/Renewal.thy ===== *)
theory Renewal
  imports Tokens
begin

text \<open>
  The term of a license: \<open>startLicense\<close> (\<open>sales.go\<close>), redeeming a renewal card
  (\<open>redeemRenewal\<close>, \<open>lifecycle.go\<close>) and rebuilding the term from the remaining cards after a refund
  (\<open>renewal_ledger.go\<close>). A license the Go code changes through a pointer is an argument and a
  result.
\<close>

section \<open>Starting a license\<close>

text \<open>\<open>time.Duration(n) * 24 * time.Hour\<close>.\<close>

definition day_span :: "int \<Rightarrow> int" where
  "day_span n = i64 (i64 (n * 24) * hour)"

definition start_license :: "license \<Rightarrow> int \<Rightarrow> license" where
  "start_license l now =
     (if l_activated_at l \<noteq> None then l
      else
        let l = l\<lparr>l_activated_at := Some now\<rparr>;
            l = (if \<not> t_perpetual (l_terms l)
                 then l\<lparr>l_base_expires := Some (add_days now (l_base_days l))\<rparr> else l);
            l = l\<lparr>l_base_updates_until := Some (add_days now (l_base_update_days l))\<rparr>;
            l = (if \<not> t_perpetual (l_terms l)
                 then l\<lparr>l_expires_at := Some (now + day_span (t_days (l_terms l)))\<rparr> else l)
        in l\<lparr>l_updates_until := Some (now + day_span (t_update_days (l_terms l))), r_updated := now\<rparr>)"

section \<open>Cards\<close>

definition normalize_card :: "svc \<Rightarrow> string \<Rightarrow> string" where
  "normalize_card sv raw = to_upper sv (trim_space raw)"

definition card_hash :: "svc \<Rightarrow> string \<Rightarrow> string \<Rightarrow> string" where
  "card_hash sv app raw = keyed_hash sv ''card'' app (sha_hex sv (normalize_card sv raw))"

section \<open>Redeeming a renewal card\<close>

text \<open>The later of two instants, the first of which may be missing.\<close>

definition later :: "int option \<Rightarrow> int \<Rightarrow> int" where
  "later until at = (case until of Some u \<Rightarrow> if at < u then u else at | None \<Rightarrow> at)"

text \<open>The switch over the purpose of the card.\<close>

definition apply_renewal :: "license \<Rightarrow> license \<Rightarrow> string \<Rightarrow> int \<Rightarrow> err + license" where
  "apply_renewal l source purpose now =
     (if purpose = ''renew_usage'' then
        (if t_perpetual (l_terms l) \<or> t_perpetual (l_terms source) \<or> t_days (l_terms source) \<le> 0 then Inl invalid
         else
           let reactivate = (\<lambda>l. if l_status l = ''expired'' then l\<lparr>l_status := ''active''\<rparr> else l) in
           if l_activated_at l = None then
             (if 36500 - t_days (l_terms source) < t_days (l_terms l) then Inl invalid
              else Inr (reactivate (l\<lparr>l_terms := (l_terms l)\<lparr>t_days := t_days (l_terms l) + t_days (l_terms source)\<rparr>\<rparr>)))
           else Inr (reactivate (l\<lparr>l_expires_at :=
                  Some (add_days (later (l_expires_at l) now) (t_days (l_terms source)))\<rparr>)))
      else if purpose = ''renew_updates'' then
        (if t_update_days (l_terms source) \<le> 0 then Inl invalid
         else if l_activated_at l = None then
             (if 36500 - t_update_days (l_terms source) < t_update_days (l_terms l) then Inl invalid
              else Inr (l\<lparr>l_terms := (l_terms l)\<lparr>t_update_days := t_update_days (l_terms l) + t_update_days (l_terms source)\<rparr>\<rparr>))
         else Inr (l\<lparr>l_updates_until :=
                  Some (add_days (later (l_updates_until l) now) (t_update_days (l_terms source)))\<rparr>))
      else Inl invalid)"

definition redeem_renewal :: "svc \<Rightarrow> handle \<Rightarrow> license \<Rightarrow> string \<Rightarrow> license db_act" where
  "redeem_renewal sv h l code =
     (if l_renewal_only l then raise (forbidden ''LICENSE_RENEWAL_ONLY'')
      else andThen (tx_application h) (\<lambda>app.
      if ap_status app \<noteq> ''active'' then raise (forbidden ''APPLICATION_DISABLED'')
      else if t_model (l_terms l) \<notin> set (ap_models app) then raise (forbidden ''MODEL_DISABLED'')
      else if l_status l = ''revoked'' \<or> l_status l = ''suspended'' then raise (forbidden ''LICENSE_UNUSABLE'')
      else andThen (t_find cards_t h (no_filter\<lparr>f_key_hash := card_hash sv (r_app l) code, f_limit := 1\<rparr>)) (\<lambda>cards.
      case cards of [] \<Rightarrow> raise (forbidden ''CARD_INVALID'') | crd # others \<Rightarrow>
      if others \<noteq> [] then raise (forbidden ''CARD_INVALID'')
      else if l_updates_blocked l \<and> c_purpose crd = ''renew_updates'' then raise (forbidden ''UPDATES_BLOCKED'')
      else if c_status crd = ''used'' \<and> c_redeemed crd = r_id l then ret l
      else if c_status crd \<noteq> ''unused'' \<or> c_purpose crd = ''activate'' \<or>
              (case c_redeem_until crd of None \<Rightarrow> False | Some t \<Rightarrow> \<not> s_now sv < t)
      then raise (forbidden ''CARD_UNUSABLE'')
      else andThen (t_get licenses_t h (c_bound crd)) (\<lambda>source.
      if l_plan source \<noteq> l_plan l \<and> l_plan l \<notin> set (t_renewal_targets (l_terms source))
      then raise (forbidden ''RENEWAL_PLAN_INCOMPATIBLE'')
      else if l_status source \<noteq> ''active'' then raise (forbidden ''CARD_UNUSABLE'')
      else if r_id source = r_id l \<or> t_model (l_terms source) \<noteq> t_model (l_terms l) then raise invalid
      else andThen (pureA (apply_renewal l source (c_purpose crd) (s_now sv))) (\<lambda>renewed.
      let next = renewed\<lparr>r_updated := s_now sv\<rparr> in
      andThen (t_save cards_t h (crd\<lparr>c_status := ''used'', c_redeemed := r_id l, c_used_at := Some (s_now sv),
                                     r_updated := s_now sv\<rparr>)) (\<lambda>_.
      andThen (t_save licenses_t h (source\<lparr>l_status := ''revoked'', l_reason := ''renewal_consumed'',
                                          r_updated := s_now sv\<rparr>)) (\<lambda>_.
      andThen (t_save licenses_t h next) (\<lambda>_.
      andThen (append_event sv h ''license_renewed'' (r_id l)
                [(''purpose'', PStr (c_purpose crd)), (''source_license_id'', PStr (r_id source)),
                 (''card_id'', PStr (r_id crd))]) (\<lambda>_.
      ret next)))))))))"

section \<open>Rebuilding the term after a refund\<close>

text \<open>
  The loop that reads all cards redeemed for a license, a page of 1000 at a time. Every full page
  moves the offset, so the number of card rows bounds the number of pages.
\<close>

fun card_pages :: "nat \<Rightarrow> handle \<Rightarrow> string \<Rightarrow> int \<Rightarrow> card_key list \<Rightarrow> card_key list db_act" where
  "card_pages 0 h i offset cards = raise (Fault ''unreachable'')"
| "card_pages (Suc n) h i offset cards =
     andThen (t_find cards_t h (no_filter\<lparr>f_redeemed_license_id := i, f_limit := 1000, f_offset := offset\<rparr>)) (\<lambda>rows.
     if length rows < 1000 then ret (cards @ rows)
     else card_pages n h i (offset + 1000) (cards @ rows))"

definition card_order :: "card_key \<Rightarrow> int \<times> int \<times> string" where
  "card_order c = (case c_used_at c of Some t \<Rightarrow> (0, t, r_id c) | None \<Rightarrow> (1, 0, []))"

text \<open>One remaining card: its credit is counted from its redemption, or from the activation if that came later.\<close>

definition replay_card :: "card_key \<Rightarrow> license \<Rightarrow> license \<Rightarrow> license" where
  "replay_card crd source l =
     (case c_used_at crd of None \<Rightarrow> l | Some used \<Rightarrow>
      let before = (case l_activated_at l of None \<Rightarrow> True | Some a \<Rightarrow> used < a);
          at = (case l_activated_at l of None \<Rightarrow> used | Some a \<Rightarrow> if before then a else used) in
      if c_purpose crd = ''renew_usage'' then
        (let l = (if before then l\<lparr>l_terms := (l_terms l)\<lparr>t_days := t_days (l_terms l) + t_days (l_terms source)\<rparr>\<rparr> else l) in
         if l_activated_at l \<noteq> None
         then l\<lparr>l_expires_at := Some (add_days (later (l_expires_at l) at) (t_days (l_terms source)))\<rparr> else l)
      else if c_purpose crd = ''renew_updates'' then
        (let l = (if before then l\<lparr>l_terms := (l_terms l)\<lparr>t_update_days := t_update_days (l_terms l) + t_update_days (l_terms source)\<rparr>\<rparr> else l) in
         if l_activated_at l \<noteq> None
         then l\<lparr>l_updates_until := Some (add_days (later (l_updates_until l) at) (t_update_days (l_terms source)))\<rparr> else l)
      else l)"

definition base_term :: "license \<Rightarrow> license" where
  "base_term l = l\<lparr>l_terms := (l_terms l)\<lparr>t_days := l_base_days l, t_update_days := l_base_update_days l\<rparr>,
     l_expires_at := l_base_expires l, l_updates_until := l_base_updates_until l\<rparr>"

definition recompute_renewals :: "svc \<Rightarrow> handle \<Rightarrow> string \<Rightarrow> unit db_act" where
  "recompute_renewals sv h i =
     andThen (t_get licenses_t h i) (\<lambda>l.
     andThen (reads (\<lambda>s. length (d_cards (w_db s)))) (\<lambda>n.
     andThen (card_pages (Suc n) h i 0 []) (\<lambda>cards.
     andThen (foldEach (sort_key card_order cards) (base_term l) (\<lambda>crd l.
        if c_used_at crd = None \<or> c_refunded_at crd \<noteq> None then ret l
        else andThen (t_get licenses_t h (c_bound crd)) (\<lambda>source. ret (replay_card crd source l)))) (\<lambda>l.
     let next = l\<lparr>r_updated := s_now sv\<rparr> in
     andThen (t_save licenses_t h next) (\<lambda>_.
     append_event sv h ''renewal_refund_reconciled'' i
       [(''usage_expires_at'', PTime (l_expires_at next)), (''updates_until'', PTime (l_updates_until next))])))))"

section \<open>Handlers as sequences of steps\<close>

lemma redeem_within [via_intros]: "within (audit_sign sv) h (redeem_renewal sv h l code)"
  unfolding redeem_renewal_def Let_def by (intro via_intros)

lemma card_pages_via [via_intros]: "via R (card_pages n h i offset cards)"
  by (induction n arbitrary: offset cards) (simp_all add: via_intros)

lemma recompute_within [via_intros]: "within (audit_sign sv) h (recompute_renewals sv h i)"
  unfolding recompute_renewals_def Let_def by (intro via_intros)

section \<open>Properties\<close>

lemma day_span_small: "\<bar>n\<bar> \<le> 100000 \<Longrightarrow> day_span n = n * (24 * hour)"
  by (simp add: day_span_def hour_def minute_def second_def)

lemma start_license_twice [simp]: "start_license (start_license l now) later_now = start_license l now"
  by (simp add: start_license_def Let_def)

text \<open>The loop over the pages ends: a full page takes 1000 rows of the table.\<close>

lemma redeemed_filter_ok:
  "flt_ok cards_t (no_filter\<lparr>f_redeemed_license_id := i, f_limit := 1000, f_offset := k\<rparr>) \<longleftrightarrow> 0 \<le> k"
  by (simp add: flt_ok_def where_clause_def flt_fields_def no_filter_def has_col_def cards_t_def)

definition redeemed_cards :: "db \<Rightarrow> string \<Rightarrow> string \<Rightarrow> card_key list" where
  "redeemed_cards d app i =
     in_order cards_t False (filter (flt_selects (tb_cols cards_t) (no_filter\<lparr>f_redeemed_license_id := i\<rparr>))
       (in_app app (d_cards d)))"

lemma redeemed_hits:
  "hits cards_t app (no_filter\<lparr>f_redeemed_license_id := i, f_limit := 1000, f_offset := k\<rparr>) d =
     take 1000 (drop (nat k) (redeemed_cards d app i))"
proof -
  have "flt_selects (tb_cols cards_t) (no_filter\<lparr>f_redeemed_license_id := i, f_limit := 1000, f_offset := k\<rparr>) =
      flt_selects (tb_cols cards_t) (no_filter\<lparr>f_redeemed_license_id := i\<rparr>)"
    by (rule ext) (simp add: flt_selects_def flt_fields_def no_filter_def)
  then show ?thesis
    by (simp add: hits_def page_def redeemed_cards_def) (simp add: no_filter_def)
qed

lemma length_redeemed: "length (redeemed_cards d app i) \<le> length (d_cards d)"
  unfolding redeemed_cards_def length_in_order
  by (rule le_trans [OF length_filter_le]) (simp add: in_app_def)

lemma card_pages_reads_all:
  assumes "may_read h" and "0 \<le> k" and "length (d_cards (w_db s)) < n + nat k"
  shows "card_pages n h i k cs s = (Inr (cs @ drop (nat k) (redeemed_cards (w_db s) (h_app h) i)), s) \<or>
         n = 0 \<and> length (redeemed_cards (w_db s) (h_app h) i) < nat k"
  using assms
proof (induction n arbitrary: k cs)
  case 0
  then show ?case using length_redeemed [of "w_db s" "h_app h" i] by simp
next
  case (Suc n)
  let ?all = "redeemed_cards (w_db s) (h_app h) i"
  have page: "t_find cards_t h (no_filter\<lparr>f_redeemed_license_id := i, f_limit := 1000, f_offset := k\<rparr>) s =
      (Inr (take 1000 (drop (nat k) ?all)), s)"
    using Suc.prems by (simp add: t_find_run redeemed_filter_ok redeemed_hits)
  show ?case
  proof (cases "length ?all - nat k < 1000")
    case True
    then show ?thesis using page by (simp add: andThen_def ret_def)
  next
    case False
    have "nat (k + 1000) = nat k + 1000" using Suc.prems(2) by simp
    moreover have "take 1000 (drop (nat k) ?all) @ drop (nat k + 1000) ?all = drop (nat k) ?all"
      by (metis add.commute append_take_drop_id drop_drop)
    ultimately show ?thesis
      using Suc.IH [of "k + 1000" "cs @ take 1000 (drop (nat k) ?all)"] Suc.prems page False
      by (auto simp: andThen_def)
  qed
qed

end
