(* ===== verification/Netaddr.thy ===== *)
theory Netaddr
  imports Golib
begin

text \<open>
  The parts of Go's \<open>net/netip\<close> and \<open>net\<close> that \<open>binding.go\<close> uses: \<open>ParseAddr\<close>, \<open>Addr.Unmap\<close>,
  \<open>Addr.String\<close>, \<open>ParsePrefix\<close>, \<open>Prefix.Masked\<close>, \<open>Prefix.Contains\<close>, \<open>Prefix.String\<close> and
  \<open>net.SplitHostPort\<close>. An address is a number below \<open>2 ^ 32\<close> or \<open>2 ^ 128\<close>, the latter with a zone.
\<close>

datatype addr = V4 int | V6 int string

fun addr_zone :: "addr \<Rightarrow> string" where
  "addr_zone (V4 _) = []"
| "addr_zone (V6 _ z) = z"

fun bit_len :: "addr \<Rightarrow> nat" where
  "bit_len (V4 _) = 32"
| "bit_len (V6 _ _) = 128"

fun addr_num :: "addr \<Rightarrow> int" where
  "addr_num (V4 n) = n"
| "addr_num (V6 n _) = n"

fun is_4in6 :: "addr \<Rightarrow> bool" where
  "is_4in6 (V4 _) \<longleftrightarrow> False"
| "is_4in6 (V6 n _) \<longleftrightarrow> n div 2 ^ 32 = 65535"

definition unmap :: "addr \<Rightarrow> addr" where
  "unmap a = (if is_4in6 a then V4 (addr_num a mod 2 ^ 32) else a)"

section \<open>Parsing\<close>

definition octet :: "string \<Rightarrow> int option" where
  "octet s =
     (if s = [] \<or> 3 < length s \<or> \<not> list_all is_digit s then None
      else if 1 < length s \<and> hd s = CHR ''0'' then None
      else let n = digits_value s in if 255 < n then None else Some n)"

definition number_of :: "int \<Rightarrow> int list \<Rightarrow> int" where
  "number_of base ds = foldl (\<lambda>n d. base * n + d) 0 ds"

definition parse_octets :: "string \<Rightarrow> int list option" where
  "parse_octets s =
     (let parts = split_on (CHR ''.'') s in
      if length parts \<noteq> 4 then None else those (map octet parts))"

definition hex_digit :: "char \<Rightarrow> int option" where
  "hex_digit c =
     (if is_digit c then Some (of_char c - 48)
      else if char_in 97 102 c then Some (of_char c - 87)
      else if char_in 65 70 c then Some (of_char c - 55)
      else None)"

definition is_hex :: "char \<Rightarrow> bool" where "is_hex c \<longleftrightarrow> hex_digit c \<noteq> None"

definition hex_value :: "string \<Rightarrow> int" where
  "hex_value s = number_of 16 (map (\<lambda>c. case hex_digit c of None \<Rightarrow> 0 | Some d \<Rightarrow> d) s)"

text \<open>
  The loop of \<open>parseIPv6\<close> over the 16-bit groups: \<open>done\<close> holds the groups read so far, \<open>gap\<close> the
  place of \<open>::\<close> once seen. The loop runs at most eight times. The result is the groups, the place of
  the gap, and what is left of the text.
\<close>

fun parse_groups :: "nat \<Rightarrow> string \<Rightarrow> int list \<Rightarrow> nat option \<Rightarrow> (int list \<times> nat option \<times> string) option" where
  "parse_groups 0 s groups gap = Some (groups, gap, s)"
| "parse_groups (Suc k) s groups gap =
     (if 8 \<le> length groups then Some (groups, gap, s)
      else
        let digits = takeWhile is_hex s; rest = dropWhile is_hex s in
        if digits = [] \<or> 4 < length digits then None
        else if rest \<noteq> [] \<and> hd rest = CHR ''.'' then
          (if gap = None \<and> length groups \<noteq> 6 then None
           else if 6 < length groups then None
           else case parse_octets s of
               None \<Rightarrow> None
             | Some os \<Rightarrow> Some (groups @ [256 * os ! 0 + os ! 1, 256 * os ! 2 + os ! 3], gap, []))
        else
          let groups' = groups @ [hex_value digits] in
          case rest of
            [] \<Rightarrow> Some (groups', gap, [])
          | c # more \<Rightarrow>
              if c \<noteq> CHR '':'' then None
              else if more = [] then None
              else if hd more = CHR '':'' then
                (if gap \<noteq> None then None
                 else if tl more = [] then Some (groups', Some (length groups'), [])
                 else parse_groups k (tl more) groups' (Some (length groups')))
              else parse_groups k more groups' gap)"

definition parse_v6 :: "string \<Rightarrow> addr option" where
  "parse_v6 text =
     (let pct = takeWhile (\<lambda>c. c \<noteq> CHR ''%'') text;
          has_zone = CHR ''%'' \<in> set text;
          zone = drop (Suc (length pct)) text in
      if has_zone \<and> zone = [] then None
      else
        let lead = prefix ''::'' pct; body = (if lead then drop 2 pct else pct) in
        if lead \<and> body = [] then Some (V6 0 zone)
        else case parse_groups 8 body [] (if lead then Some 0 else None) of
            None \<Rightarrow> None
          | Some (groups, gap, rest) \<Rightarrow>
              if rest \<noteq> [] then None
              else if length groups < 8 then
                (case gap of
                   None \<Rightarrow> None
                 | Some i \<Rightarrow> Some (V6 (number_of 65536
                       (take i groups @ replicate (8 - length groups) 0 @ drop i groups)) zone))
              else if gap \<noteq> None then None
              else Some (V6 (number_of 65536 groups) zone))"

definition parse_addr :: "string \<Rightarrow> addr option" where
  "parse_addr s =
     (case List.find (\<lambda>c. c \<in> set ''.:%'') s of
        None \<Rightarrow> None
      | Some c \<Rightarrow>
          if c = CHR ''.'' then map_option (\<lambda>os. V4 (number_of 256 os)) (parse_octets s)
          else if c = CHR '':'' then parse_v6 s
          else None)"

text \<open>A prefix is an address and a number of bits.\<close>

definition parse_prefix :: "string \<Rightarrow> (addr \<times> nat) option" where
  "parse_prefix s =
     (if CHR ''/'' \<notin> set s then None
      else
        let parts = split_on (CHR ''/'') s;
            bits = last parts;
            base = take (length s - length bits - 1) s in
        case parse_addr base of
          None \<Rightarrow> None
        | Some a \<Rightarrow>
            if addr_zone a \<noteq> [] then None
            else if bits = [] \<or> 1 < length bits \<and> \<not> char_in 49 57 (hd bits) then None
            else if \<not> list_all is_digit bits then None
            else let n = nat (digits_value bits) in if bit_len a < n then None else Some (a, n))"

section \<open>Printing\<close>

definition show_octets :: "int \<Rightarrow> string" where
  "show_octets n =
     join_with ''.'' (map (\<lambda>i. itoa (n div 256 ^ i mod 256)) [3, 2, 1, 0])"

definition groups_of :: "int \<Rightarrow> int list" where
  "groups_of n = map (\<lambda>i. n div 65536 ^ i mod 65536) [7, 6, 5, 4, 3, 2, 1, 0]"

text \<open>A 16-bit group in hexadecimal, without leading zeros.\<close>

definition hex_char :: "int \<Rightarrow> char" where "hex_char d = hex_alphabet ! nat d"

definition hex_digits :: "int \<Rightarrow> string" where
  "hex_digits n =
     (let ds = map (\<lambda>i. n div 16 ^ i mod 16) [3, 2, 1, 0]; sig = dropWhile (\<lambda>d. d = 0) ds in
      map hex_char (if sig = [] then [0] else sig))"

text \<open>The first longest run of zero groups, if it has at least two of them: start and length.\<close>

fun zero_run :: "int list \<Rightarrow> nat" where
  "zero_run [] = 0"
| "zero_run (g # gs) = (if g = 0 then Suc (zero_run gs) else 0)"

definition longest_zeros :: "int list \<Rightarrow> nat \<times> nat" where
  "longest_zeros gs =
     fold (\<lambda>i (st, len). let r = zero_run (drop i gs) in if 2 \<le> r \<and> len < r then (i, r) else (st, len))
       [0..<length gs] (0, 0)"

definition show_v6 :: "int \<Rightarrow> string" where
  "show_v6 n =
     (let gs = groups_of n; z = longest_zeros gs; show_gs = (\<lambda>xs. join_with '':'' (map hex_digits xs)) in
      if snd z = 0 then show_gs gs
      else show_gs (take (fst z) gs) @ ''::'' @ show_gs (drop (fst z + snd z) gs))"

definition show_zone :: "string \<Rightarrow> string" where
  "show_zone z = (if z = [] then [] else CHR ''%'' # z)"

definition show_addr :: "addr \<Rightarrow> string" where
  "show_addr a =
     (case a of
        V4 n \<Rightarrow> show_octets n
      | V6 n z \<Rightarrow>
          if is_4in6 a then ''::ffff:'' @ show_octets (n mod 2 ^ 32) @ show_zone z
          else show_v6 n @ show_zone z)"

section \<open>Prefixes\<close>

definition mask_num :: "nat \<Rightarrow> nat \<Rightarrow> int \<Rightarrow> int" where
  "mask_num len bits n = n div 2 ^ (len - bits) * 2 ^ (len - bits)"

definition masked :: "addr \<times> nat \<Rightarrow> addr \<times> nat" where
  "masked p =
     (case p of
        (V4 n, bits) \<Rightarrow> (V4 (mask_num 32 bits n), bits)
      | (V6 n z, bits) \<Rightarrow> (V6 (mask_num 128 bits n) [], bits))"

definition show_prefix :: "addr \<times> nat \<Rightarrow> string" where
  "show_prefix p = show_addr (fst p) @ ''/'' @ nat_digits (snd p)"

definition prefix_contains :: "addr \<times> nat \<Rightarrow> addr \<Rightarrow> bool" where
  "prefix_contains p a \<longleftrightarrow>
     addr_zone a = [] \<and> bit_len (fst p) = bit_len a \<and>
     addr_num (fst p) div 2 ^ (bit_len a - snd p) = addr_num a div 2 ^ (bit_len a - snd p)"

section \<open>Host and port\<close>

definition split_host_port :: "string \<Rightarrow> string option" where
  "split_host_port s =
     (if CHR '':'' \<notin> set s then None
      else
        let port = last (split_on (CHR '':'') s); i = length s - length port - 1 in
        if hd s = CHR ''['' then
          (if CHR '']'' \<notin> set s then None
           else
             let e = length (takeWhile (\<lambda>c. c \<noteq> CHR '']'') s) in
             if Suc e = i then
               (if CHR ''['' \<in> set (drop 1 s) \<or> CHR '']'' \<in> set (drop (Suc e) s) then None
                else Some (take (e - 1) (drop 1 s)))
             else None)
        else
          let host = take i s in
          if CHR '':'' \<in> set host \<or> CHR ''['' \<in> set s \<or> CHR '']'' \<in> set s then None
          else Some host)"

section \<open>Masking and containment\<close>

lemma mask_same_network:
  "mask_num len bits n div 2 ^ (len - bits) = n div 2 ^ (len - bits)"
  by (simp add: mask_num_def)

lemma masked_contains [simp]: "prefix_contains (masked p) a = prefix_contains p a"
  by (cases p; cases "fst p") (auto simp: masked_def prefix_contains_def mask_same_network split: addr.splits)

lemma masked_idem [simp]: "masked (masked p) = masked p"
  by (cases p; cases "fst p") (auto simp: masked_def mask_num_def split: addr.splits)

lemma unmap_idem [simp]: "unmap (unmap a) = unmap a"
  by (simp add: unmap_def)

end
