(* ===== verification/Binding.thy ===== *)
theory Binding
  imports Policy Netaddr
begin

text \<open>
  \<open>binding.go\<close>: canonical forms of domains and addresses, allowlist rules, and the normalised form
  of a binding an installation presents. Parsing a URL, IDNA mapping and the public suffix list come
  from the service's parameters; everything else is computed.
\<close>

section \<open>Canonical domains and addresses\<close>

definition alnum :: "char \<Rightarrow> bool" where
  "alnum c \<longleftrightarrow> is_lower c \<or> is_digit c"

text \<open>\<open>hostLabel\<close>: 1 to 63 of a-z, 0-9 and \<open>-\<close>, with no \<open>-\<close> at either end.\<close>

definition host_label :: "string \<Rightarrow> bool" where
  "host_label s \<longleftrightarrow>
     s \<noteq> [] \<and> length s \<le> 63 \<and> list_all (\<lambda>c. alnum c \<or> c = CHR ''-'') s \<and> alnum (hd s) \<and> alnum (last s)"

definition fingerprint_pattern :: "string \<Rightarrow> bool" where
  "fingerprint_pattern s \<longleftrightarrow> length s = 64 \<and> list_all (\<lambda>c. is_digit c \<or> char_in 97 102 c) s"

definition host_part :: "svc \<Rightarrow> string \<Rightarrow> string option" where
  "host_part sv value =
     (if contains_sub value ''://'' then
        (case s_parse_url sv value of
           None \<Rightarrow> None
         | Some u \<Rightarrow> if url_has_user u then None else Some (url_hostname u))
      else case split_host_port value of Some h \<Rightarrow> Some h | None \<Rightarrow> Some value)"

definition canonical_host :: "svc \<Rightarrow> string \<Rightarrow> err + string" where
  "canonical_host sv value =
     (case host_part sv (trim_space value) of
        None \<Rightarrow> Inl invalid
      | Some host \<Rightarrow>
          case s_idna sv (trim_suffix (to_lower sv host) ''.'') of
            None \<Rightarrow> Inl invalid
          | Some ascii \<Rightarrow>
              if ascii = [] \<or> 253 < length ascii \<or> contains_any ascii (''/:?#@'' @ [CHR 0x5C]) then Inl invalid
              else if parse_addr ascii \<noteq> None then Inl invalid
              else if list_ex (\<lambda>label. \<not> host_label label) (split_on (CHR ''.'') ascii) then Inl invalid
              else Inr ascii)"

definition canonical_address :: "string \<Rightarrow> err + string" where
  "canonical_address value =
     (case parse_addr (trim_space value) of
        None \<Rightarrow> Inl invalid
      | Some a \<Rightarrow> if addr_zone a \<noteq> [] then Inl invalid else Inr (show_addr (unmap a)))"

section \<open>Allowlist rules\<close>

definition normalize_rule :: "svc \<Rightarrow> string \<Rightarrow> string \<Rightarrow> err + string" where
  "normalize_rule sv kind value0 =
     (let value = trim_space value0 in
      if kind = ''domain'' then
        (case canonical_host sv (trim_prefix value ''*.'') of
           Inl e \<Rightarrow> Inl e
         | Inr host \<Rightarrow>
             if prefix ''*.'' value then
               (case s_public_suffix sv host of (sfx, icann) \<Rightarrow>
                  if sfx = host \<and> (icann \<or> CHR ''.'' \<in> set host) then Inl invalid
                  else Inr (''*.'' @ host))
             else Inr host)
      else case parse_prefix value of
          Some (a, bits) \<Rightarrow>
            if addr_zone a \<noteq> [] then Inl invalid
            else
              let p = (if is_4in6 a \<and> 96 \<le> bits then (unmap a, bits - 96) else (a, bits)) in
              Inr (show_prefix (masked p))
        | None \<Rightarrow> canonical_address value)"

definition rule_matches :: "binding_rule \<Rightarrow> string \<Rightarrow> bool" where
  "rule_matches rule actual \<longleftrightarrow>
     (if \<not> br_enabled rule then False
      else if br_kind rule = ''domain'' then
        (if \<not> prefix ''*.'' (br_pattern rule) then br_pattern rule = actual
         else
           let base = trim_prefix (br_pattern rule) ''*.'' in
           if actual = base then br_apex rule
           else if \<not> suffix (CHR ''.'' # base) actual then False
           else
             let pre = trim_suffix actual (CHR ''.'' # base) in
             pre \<noteq> [] \<and> (br_depth rule = ''all'' \<or> CHR ''.'' \<notin> set pre))
      else
        (case parse_addr actual of
           None \<Rightarrow> False
         | Some a \<Rightarrow>
             case parse_prefix (br_pattern rule) of
               Some p \<Rightarrow> prefix_contains p (unmap a)
             | None \<Rightarrow> br_pattern rule = actual))"

section \<open>Bindings\<close>

record binding_input =
  bi_type :: string
  bi_value :: string
  bi_aliases :: "string list"
  bi_source :: string

record normalized_binding =
  nb_kind :: string
  nb_value :: string
  nb_group_value :: string
  nb_hash :: string
  nb_client_hash :: string
  nb_display :: string
  nb_aliases :: "string list"

definition digest_short :: "svc \<Rightarrow> string \<Rightarrow> string" where
  "digest_short sv value = hex_encode (take 4 (s_sha256 sv value))"

text \<open>The fixed texts of a masked anchor, in UTF-8.\<close>

definition registered_text :: string where
  "registered_text = map char_of [229, 183, 178, 231, 153, 187, 232, 174, 176 :: nat]"

definition dot_text :: string where
  "dot_text = map char_of [32, 194, 183, 32 :: nat]"

definition ellipsis_text :: string where
  "ellipsis_text = map char_of [226, 128, 166 :: nat]"

definition mask_anchor :: "svc \<Rightarrow> string \<Rightarrow> string \<Rightarrow> string" where
  "mask_anchor sv kind value =
     (if kind = ''domain'' \<or> kind = ''ip'' then registered_text @ kind @ dot_text @ digest_short sv value
      else if length value < 8 then ''****''
      else take 4 value @ ellipsis_text @ drop (length value - 4) value)"

definition client_hash :: "svc \<Rightarrow> string \<Rightarrow> string \<Rightarrow> string" where
  "client_hash sv kind value = sha_hex sv (kind @ nul @ value)"

definition binding_hash :: "svc \<Rightarrow> string \<Rightarrow> string \<Rightarrow> string \<Rightarrow> string" where
  "binding_hash sv kind app value = keyed_hash sv (''binding/'' @ kind) app value"

text \<open>The aliases of a domain binding: canonical, without repetition, in the order given.\<close>

fun canonical_aliases :: "svc \<Rightarrow> string list \<Rightarrow> string list \<Rightarrow> err + string list" where
  "canonical_aliases sv seen [] = Inr seen"
| "canonical_aliases sv seen (a # as) =
     (case canonical_host sv a of
        Inl e \<Rightarrow> Inl e
      | Inr host \<Rightarrow> if host \<in> set seen then Inl invalid else canonical_aliases sv (seen @ [host]) as)"

text \<open>The value of the binding and its aliases, by type.\<close>

definition binding_value :: "svc \<Rightarrow> binding_input \<Rightarrow> int \<Rightarrow> err + string \<times> string list" where
  "binding_value sv input max0 =
     (let value = trim_space (bi_value input);
          max_aliases = (if max0 < 1 then 2 else max0) in
      if bi_type input = ''seat'' then Inr (''seat'', [])
      else if bi_type input = ''machine_id'' then
        (let v = to_lower sv value in if \<not> fingerprint_pattern v then Inl invalid else Inr (v, []))
      else if bi_type input = ''domain'' then
        (let given = (if value = [] \<and> bi_aliases input \<noteq> [] then hd (bi_aliases input) else value) in
         case canonical_host sv given of
           Inl e \<Rightarrow> Inl e
         | Inr host \<Rightarrow>
             let aliases = (if bi_aliases input = [] then [host] else bi_aliases input) in
             if max_aliases < int (length aliases) then Inl (forbidden ''DOMAIN_ALIAS_LIMIT_EXCEEDED'')
             else case canonical_aliases sv [] aliases of
                 Inl e \<Rightarrow> Inl e
               | Inr hosts \<Rightarrow> if host \<notin> set hosts then Inl invalid else Inr (host, sort hosts))
      else if bi_type input = ''ip'' then
        (case canonical_address value of Inl e \<Rightarrow> Inl e | Inr a \<Rightarrow> Inr (a, []))
      else if bi_type input \<in> set [''installation'', ''cluster'', ''account'', ''tenant''] then
        (if value = [] \<or> 160 < length value \<or> contains_any value [CHR 0x00, CHR 0x0D, CHR 0x0A]
         then Inl invalid else Inr (value, []))
      else Inl invalid)"

definition normalize_binding :: "svc \<Rightarrow> string \<Rightarrow> binding_input \<Rightarrow> int \<Rightarrow> err + normalized_binding" where
  "normalize_binding sv app input max_aliases =
     (case binding_value sv input max_aliases of
        Inl e \<Rightarrow> Inl e
      | Inr (value, aliases) \<Rightarrow>
          Inr \<lparr>nb_kind = bi_type input, nb_value = value,
               nb_group_value = (if aliases = [] then value else s_json sv aliases),
               nb_hash = binding_hash sv (bi_type input) app value,
               nb_client_hash = client_hash sv (bi_type input) value,
               nb_display = mask_anchor sv (bi_type input) value,
               nb_aliases = aliases\<rparr>)"

definition check_application_rules ::
  "application \<Rightarrow> binding_rule list \<Rightarrow> normalized_binding \<Rightarrow> string \<Rightarrow> err + unit" where
  "check_application_rules app rules b lic =
     (let mode = (if nb_kind b = ''ip'' then vp_ip_mode (ap_policy app) else vp_domain_mode (ap_policy app)) in
      if nb_kind b \<noteq> ''domain'' \<and> nb_kind b \<noteq> ''ip'' then Inr ()
      else if mode \<noteq> ''application_allowlist'' then Inr ()
      else if list_ex (\<lambda>r. br_kind r = nb_kind b \<and> (br_license r = [] \<or> br_license r = lic) \<and>
                          rule_matches r (nb_value b)) rules then Inr ()
      else Inl (forbidden ''BINDING_NOT_ALLOWLISTED''))"

section \<open>Properties\<close>

text \<open>What a canonical host looks like.\<close>

lemma canonical_host_shape:
  assumes "canonical_host sv value = Inr host"
  shows "host \<noteq> [] \<and> length host \<le> 253 \<and> (\<forall>label \<in> set (split_on (CHR ''.'') host). host_label label) \<and>
    parse_addr host = None"
  using assms
  by (auto simp: canonical_host_def list_ex_iff split: option.splits if_splits)

lemma host_label_chars: "host_label s \<Longrightarrow> c \<in> set s \<Longrightarrow> alnum c \<or> c = CHR ''-''"
  by (auto simp: host_label_def list_all_iff)

lemma set_join_with: "set (join_with d ws) \<subseteq> \<Union> (set (map set ws)) \<union> set d"
  by (induction d ws rule: join_with.induct) auto

lemma canonical_host_chars:
  assumes "canonical_host sv value = Inr host" and "c \<in> set host"
  shows "alnum c \<or> c = CHR ''-'' \<or> c = CHR ''.''"
proof -
  have "c \<in> set (join_with [CHR ''.''] (split_on (CHR ''.'') host))" using assms(2) by (simp add: join_split)
  then have "(\<exists>l \<in> set (split_on (CHR ''.'') host). c \<in> set l) \<or> c = CHR ''.''"
    using set_join_with [of "[CHR ''.'']" "split_on (CHR ''.'') host"] by auto
  with canonical_host_shape [OF assms(1)] show ?thesis by (auto dest: host_label_chars)
qed

text \<open>Which hosts a wildcard rule matches.\<close>

lemma rule_matches_wildcard:
  assumes "br_enabled rule" and "br_kind rule = ''domain''" and "br_pattern rule = ''*.'' @ base"
  shows "rule_matches rule actual \<longleftrightarrow>
    actual = base \<and> br_apex rule \<or>
    (\<exists>pre. actual = pre @ ''.'' @ base \<and> pre \<noteq> [] \<and> (br_depth rule = ''all'' \<or> CHR ''.'' \<notin> set pre))"
proof -
  have "trim_prefix (''*.'' @ base) ''*.'' = base" by (simp add: trim_prefix_def)
  moreover have "trim_suffix (pre @ CHR ''.'' # base) (CHR ''.'' # base) = pre" for pre
    by (simp add: trim_suffix_def suffix_def)
  ultimately show ?thesis
    using assms by (auto simp: rule_matches_def Let_def suffix_def)
qed

end
