(* ===== verification/Runtime.thy ===== *)
theory Runtime
  imports Renewal Binding
begin

text \<open>
  \<open>runtime.go\<close>: what an installed copy of a product does. A request is authenticated by the
  installation's key and a fresh nonce, reserved in a transaction of its own; \<open>Activate\<close> takes a
  license from a card, an invitation or an approved request, checks binding, rules and limits, and
  issues tokens; \<open>Verify\<close> checks again, renews, consumes quota or releases. The longer methods are
  split at the places where the Go text moves on to its next concern.
\<close>

section \<open>Requests\<close>

record signed_request =
  rq_method :: string
  rq_path :: string
  rq_remote_ip :: string
  rq_request :: string
  rq_body :: string
  rq_proof :: request_proof

record activate_input =
  ac_app :: string
  ac_card :: string
  ac_invitation :: string
  ac_token :: string
  ac_pending :: string
  ac_public_key :: string
  ac_binding :: binding_input
  ac_form :: string
  ac_session :: string
  ac_label :: string
  ac_borrow :: int

record verify_input =
  vi_app :: string
  vi_activation :: string
  vi_jwt :: string
  vi_binding :: binding_input
  vi_form :: string
  vi_action :: string
  vi_units :: int
  vi_key :: string
  vi_renewal_card :: string

record runtime_result =
  rr_app :: string
  rr_license :: string
  rr_activation :: string
  rr_jwt :: string
  rr_offline :: string
  rr_server_time :: int
  rr_expires :: int
  rr_refresh :: int
  rr_grace :: int
  rr_lease :: "int option"
  rr_usage_expires :: "int option"
  rr_updates_until :: "int option"
  rr_remaining :: "int option"
  rr_released :: bool

definition installation_actor :: "string \<Rightarrow> signed_request \<Rightarrow> actor" where
  "installation_actor hash req =
     \<lparr>act_kind = ''installation'', act_id = hash, act_role = [], act_request = rq_request req\<rparr>"

section \<open>Authentication of a request\<close>

definition nonce_lifetime :: int where "nonce_lifetime = 5 * minute"

text \<open>The transaction that reserves the nonce.\<close>

definition reserve_nonce :: "svc \<Rightarrow> string \<Rightarrow> string \<Rightarrow> signed_request \<Rightarrow> handle \<Rightarrow> unit db_act" where
  "reserve_nonce sv appID hash req h =
     (let nonce_hash = keyed_hash sv ''nonce'' appID (pf_nonce (rq_proof req));
          i = keyed_hash sv ''request'' appID (hash @ ''/'' @ nonce_hash) in
      andThen (attempt (t_get nonces_t h i)) (\<lambda>r.
      case r of
        Inr _ \<Rightarrow> raise (conflict ''REQUEST_REPLAYED'')
      | Inl e \<Rightarrow>
          if e \<noteq> ErrNotFound then raise e
          else
            andThen (t_find nonces_t h (no_filter\<lparr>f_before := Some (s_now sv), f_limit := 100\<rparr>)) (\<lambda>expired.
            andThen (forEach expired (\<lambda>v. t_delete nonces_t h (r_id v))) (\<lambda>_.
            andThen (new_id sv ''nonce'') (\<lambda>_.
            andThen (t_insert nonces_t h \<lparr>r_app = appID, r_id = i, r_created = s_now sv, r_updated = s_now sv,
                       n_credential = hash, n_nonce_hash = nonce_hash, n_body_hash = sha_hex sv (rq_body req),
                       n_expires = s_now sv + nonce_lifetime\<rparr>) (\<lambda>_.
            append_event sv h ''request_authenticated'' hash [(''path'', PStr (rq_path req))]))))))"

definition authenticate_installation ::
  "svc \<Rightarrow> ctx \<Rightarrow> string \<Rightarrow> string \<Rightarrow> signed_request \<Rightarrow> (ctx \<times> application \<times> scope) db_act" where
  "authenticate_installation sv cx appID public req =
     andThen (pureA (public_key_fingerprint sv public)) (\<lambda>hash.
     in_runtime cx appID (installation_actor hash req) (\<lambda>scoped app sc.
     case verify_installation_request sv public (rq_method req) (rq_path req) appID (rq_body req) (rq_proof req)
            (s_now sv) of
       Inl e \<Rightarrow> failure sv scoped sc ''request_authentication'' hash e
     | Inr _ \<Rightarrow>
         andThen (or_failure sv scoped sc ''request_authentication'' hash
                   (update scoped sc (reserve_nonce sv appID hash req))) (\<lambda>_.
         ret (scoped, app, sc))))"

definition in_installation ::
  "svc \<Rightarrow> ctx \<Rightarrow> string \<Rightarrow> string \<Rightarrow> signed_request \<Rightarrow> (ctx \<Rightarrow> application \<Rightarrow> scope \<Rightarrow> 'a db_act) \<Rightarrow> 'a db_act" where
  "in_installation sv cx appID public req body =
     andThen (authenticate_installation sv cx appID public req) (\<lambda>(scoped, app, sc). body scoped app sc)"

definition runtime_binding ::
  "svc \<Rightarrow> application \<Rightarrow> binding_input \<Rightarrow> int \<Rightarrow> signed_request \<Rightarrow> string \<Rightarrow> err + normalized_binding" where
  "runtime_binding sv app input max_aliases req public_hash =
     (let source =
        (if bi_type input = ''ip'' \<and> vp_ip_source (ap_policy app) = ''egress'' then
           (case canonical_address (rq_remote_ip req) of
              Inl _ \<Rightarrow> Inl (forbidden ''SOURCE_IP_UNAVAILABLE'')
            | Inr actual \<Rightarrow>
                (case canonical_address (bi_value input) of
                   Inl _ \<Rightarrow> Inl (forbidden ''SOURCE_IP_MISMATCH'')
                 | Inr declared \<Rightarrow>
                     if actual \<noteq> declared then Inl (forbidden ''SOURCE_IP_MISMATCH'') else Inr ()))
         else Inr ()) in
      case source of Inl e \<Rightarrow> Inl e | Inr _ \<Rightarrow>
      case normalize_binding sv (r_app app) input max_aliases of Inl e \<Rightarrow> Inl e | Inr b \<Rightarrow>
      if bi_type input = ''seat''
      then Inr (b\<lparr>nb_hash := keyed_hash sv ''seat'' (r_app app) public_hash,
                  nb_client_hash := sha_hex sv (''seat'' @ nul @ public_hash)\<rparr>)
      else Inr b)"

section \<open>Anchor groups\<close>

text \<open>The anchors of a new group, one for each value; an anchor used before is taken over.\<close>

definition put_anchor ::
  "svc \<Rightarrow> handle \<Rightarrow> license \<Rightarrow> string \<Rightarrow> string \<Rightarrow> string \<Rightarrow> unit db_act" where
  "put_anchor sv h l kind grp value =
     (let hash = binding_hash sv kind (r_app l) value in
      andThen (new_id sv ''anchor'') (\<lambda>i.
      let anchor = \<lparr>r_app = r_app l, r_id = i, r_created = s_now sv, r_updated = s_now sv, an_license = r_id l,
                    an_group = grp, an_kind = kind, an_hash = hash, an_client_hash = client_hash sv kind value,
                    an_display = mask_anchor sv kind value, an_status = ''active''\<rparr> in
      andThen (t_find anchors_t h (no_filter\<lparr>f_license_id := r_id l, f_kind := kind, f_binding_hash := hash,
                 f_limit := 1\<rparr>)) (\<lambda>old.
      case old of
        [] \<Rightarrow> t_insert anchors_t h anchor
      | o' # _ \<Rightarrow> t_save anchors_t h (anchor\<lparr>r_app := r_app o', r_id := r_id o', r_created := r_created o'\<rparr>))))"

definition ensure_anchor_group :: "svc \<Rightarrow> handle \<Rightarrow> license \<Rightarrow> normalized_binding \<Rightarrow> string db_act" where
  "ensure_anchor_group sv h l b =
     andThen
       (if nb_kind b = ''domain'' \<or> nb_kind b = ''ip''
        then andThen (t_find rules_t h (no_filter\<lparr>f_license_id := r_id l, f_limit := 10000\<rparr>)) (\<lambda>rules.
          ret (List.find (\<lambda>r. br_kind r = nb_kind b \<and> rule_matches r (nb_value b)) rules))
        else ret None) (\<lambda>rule.
     case rule of Some r \<Rightarrow> ret (r_id r) | None \<Rightarrow>
     andThen (t_find anchors_t h (no_filter\<lparr>f_license_id := r_id l, f_kind := nb_kind b, f_binding_hash := nb_hash b,
                f_status := ''active'', f_limit := 1\<rparr>)) (\<lambda>matches.
     let values = (if nb_aliases b = [] then [nb_value b] else nb_aliases b) in
     case matches of
       m # _ \<Rightarrow>
         andThen (forEach values (\<lambda>value.
           andThen (t_count anchors_t h (no_filter\<lparr>f_license_id := r_id l, f_group_id := an_group m,
                      f_kind := nb_kind b, f_binding_hash := binding_hash sv (nb_kind b) (r_app l) value,
                      f_status := ''active''\<rparr>)) (\<lambda>found.
           if found \<noteq> 1 then raise (forbidden ''BINDING_MISMATCH'') else ret ()))) (\<lambda>_.
         ret (an_group m))
     | [] \<Rightarrow>
         andThen (count_binding_groups h (r_id l)) (\<lambda>n.
         if t_max_groups (l_terms l) \<le> n then raise (forbidden ''BINDING_LIMIT_EXCEEDED'')
         else andThen (new_id sv ''binding'') (\<lambda>grp.
           andThen (forEach values (put_anchor sv h l (nb_kind b) grp)) (\<lambda>_. ret grp)))))"

section \<open>Leases and tokens\<close>

definition extend_lease :: "svc \<Rightarrow> application \<Rightarrow> license \<Rightarrow> activation \<Rightarrow> int \<Rightarrow> err + activation" where
  "extend_lease sv app l a borrow =
     (let now = s_now sv; max_borrow = vp_max_borrow (ap_policy app) in
      if borrow \<noteq> 0 \<and> (borrow < 1 \<or> max_borrow = 0 \<or> max_borrow < borrow) then Inl invalid
      else
        let seconds = (if borrow \<noteq> 0 then borrow else vp_seat_lease (ap_policy app));
            full = now + duration seconds second;
            until = (case usage_deadline app l of Some d \<Rightarrow> if d < full then d else full | None \<Rightarrow> full) in
        if \<not> now < until then Inl (forbidden ''LICENSE_EXPIRED'')
        else Inr (a\<lparr>a_borrowed := (borrow \<noteq> 0), a_lease := Some until\<rparr>))"

definition clip :: "int option \<Rightarrow> int \<Rightarrow> int" where
  "clip limit t = (case limit of None \<Rightarrow> t | Some x \<Rightarrow> if x < t then x else t)"

text \<open>The instants of a token: expiry, end of the offline grace, next refresh.\<close>

definition token_times :: "svc \<Rightarrow> application \<Rightarrow> license \<Rightarrow> activation \<Rightarrow> err + int \<times> int \<times> int" where
  "token_times sv app l a =
     (let now = s_now sv; pol = ap_policy app;
          expires0 = now + duration (vp_jwt_ttl pol) second;
          grace0 = expires0 + duration (vp_network_grace pol) second;
          expires = clip (a_lease a) (clip (usage_deadline app l) expires0);
          grace = clip (a_lease a) (clip (usage_deadline app l) grace0) in
      if \<not> now < expires \<or> unix expires \<le> unix now then Inl (forbidden ''LICENSE_EXPIRED'')
      else
        let refresh0 = now + (if t_model (l_terms l) = ''floating''
                              then duration (go_div (vp_seat_lease pol) 3) second
                              else duration (vp_verify_interval pol) second);
            refresh = (if \<not> refresh0 < expires then expires - second else refresh0) in
        Inr (expires, grace, refresh))"

definition runtime_claims ::
  "svc \<Rightarrow> application \<Rightarrow> license \<Rightarrow> activation \<Rightarrow> string \<Rightarrow> int \<times> int \<times> int \<Rightarrow> jwt_claims" where
  "runtime_claims sv app l a jti instants =
     (case instants of (expires, grace, refresh) \<Rightarrow>
     \<lparr>jc_release = None, jc_iss = token_issuer, jc_aud = r_app app, jc_sub = r_id l, jc_jti = jti,
      jc_iat = unix (s_now sv), jc_nbf = unix (s_now sv), jc_exp = unix expires, jc_use = ''license'',
      jc_activation = r_id a, jc_binding_type = a_binding_type a, jc_binding_hash = a_client_hash a,
      jc_model = t_model (l_terms l), jc_perpetual = t_perpetual (l_terms l),
      jc_features = t_features (l_terms l), jc_refresh = unix refresh, jc_grace = unix grace,
      jc_updates = map_option unix (l_updates_until l)\<rparr>)"

definition remaining_units :: "svc \<Rightarrow> license \<Rightarrow> int option" where
  "remaining_units sv l =
     (if t_model (l_terms l) \<noteq> ''metered'' then None
      else if t_period (l_terms l) = ''monthly'' \<and> l_usage_period l \<noteq> format_month (s_now sv)
      then Some (t_quota (l_terms l))
      else Some (t_quota (l_terms l) - l_used_units l))"

definition runtime_tokens ::
  "svc \<Rightarrow> handle \<Rightarrow> application \<Rightarrow> license \<Rightarrow> activation \<Rightarrow> runtime_result db_act" where
  "runtime_tokens sv h app l a =
     andThen (pureA (token_times sv app l a)) (\<lambda>(expires, grace, refresh).
     andThen (new_id sv ''jwt'') (\<lambda>jti.
     let claims = runtime_claims sv app l a jti (expires, grace, refresh) in
     andThen (sign_claims sv h app claims) (\<lambda>token.
     andThen
       (if expires < grace \<or> a_borrowed a
        then andThen (new_id sv ''offline'') (\<lambda>off.
          sign_claims sv h app (claims\<lparr>jc_jti := off, jc_use := ''offline_grace'', jc_exp := unix grace\<rparr>))
        else ret []) (\<lambda>offline.
     ret \<lparr>rr_app = r_app app, rr_license = r_id l, rr_activation = r_id a, rr_jwt = token, rr_offline = offline,
          rr_server_time = s_now sv, rr_expires = expires, rr_refresh = refresh, rr_grace = grace,
          rr_lease = a_lease a, rr_usage_expires = l_expires_at l, rr_updates_until = l_updates_until l,
          rr_remaining = remaining_units sv l, rr_released = False\<rparr>))))"

section \<open>Activate\<close>

text \<open>Where the license of an activation comes from: a card, an invitation, or an approved request.\<close>

datatype activation_source =
    FromCard card_key
  | FromInvitation invitation
  | FromPending pending_installation

definition sources_given :: "activate_input \<Rightarrow> nat" where
  "sources_given in' =
     (if ac_card in' \<noteq> [] then 1 else 0) + (if ac_invitation in' \<noteq> [] then 1 else 0) +
     (if ac_pending in' \<noteq> [] then 1 else 0)"

definition activation_license ::
  "svc \<Rightarrow> handle \<Rightarrow> activate_input \<Rightarrow> string \<Rightarrow> (license \<times> activation_source) db_act" where
  "activation_license sv h in' public_hash =
     (if sources_given in' \<noteq> 1 then raise invalid
      else if ac_card in' \<noteq> [] then
        andThen (t_find cards_t h (no_filter\<lparr>f_key_hash := card_hash sv (ac_app in') (ac_card in'), f_limit := 1\<rparr>)) (\<lambda>cards.
        case cards of
          [c] \<Rightarrow>
            if c_status c = ''revoked'' then raise (forbidden ''CARD_REVOKED'')
            else if c_purpose c \<noteq> ''activate'' then raise invalid
            else if (case c_redeem_until c of None \<Rightarrow> False | Some t \<Rightarrow> \<not> s_now sv < t)
            then raise (forbidden ''CARD_EXPIRED'')
            else andThen (t_get licenses_t h (c_bound c)) (\<lambda>l. ret (l, FromCard c))
        | _ \<Rightarrow> raise (forbidden ''CARD_INVALID''))
      else if ac_invitation in' \<noteq> [] then
        andThen (orElse (t_get invitations_t h (ac_invitation in')) (forbidden ''INVITATION_INVALID'')) (\<lambda>v.
        if keyed_hash sv ''invitation'' (ac_app in') (ac_token in') \<noteq> i_token_hash v \<or> \<not> s_now sv < i_expires v \<or>
           i_used_at v \<noteq> None \<and> i_key_hash v \<noteq> public_hash
        then raise (forbidden ''INVITATION_INVALID'')
        else andThen (t_get licenses_t h (i_license v)) (\<lambda>l.
          if i_owner v \<noteq> [] \<and> i_owner v \<noteq> l_owner l then raise (forbidden ''INVITATION_INVALID'')
          else ret (l, FromInvitation v)))
      else
        andThen (orElse (t_get pending_t h (ac_pending in')) (forbidden ''INSTALLATION_NOT_APPROVED'')) (\<lambda>v.
        if pd_key_hash v \<noteq> public_hash \<or> pd_public_key v \<noteq> ac_public_key in' \<or> pd_status v \<noteq> ''approved'' \<or>
           \<not> s_now sv < pd_expires v
        then raise (forbidden ''INSTALLATION_NOT_APPROVED'')
        else andThen (t_get licenses_t h (pd_license v)) (\<lambda>l. ret (l, FromPending v))))"

definition blank_activation :: "svc \<Rightarrow> activate_input \<Rightarrow> string \<Rightarrow> license \<Rightarrow> string \<Rightarrow> activation" where
  "blank_activation sv in' i l public_hash =
     \<lparr>r_app = ac_app in', r_id = i, r_created = s_now sv, r_updated = s_now sv,
      a_deactivation_reason = [], a_group = [], a_license = r_id l, a_installation = public_hash,
      a_public_key = ac_public_key in', a_key_hash = public_hash, a_session = ac_session in',
      a_binding_type = [], a_binding_hash = [], a_client_hash = [], a_label = ac_label in',
      a_lease = None, a_borrowed = False, a_verified_at = 0, a_deactivated_at = None\<rparr>"

text \<open>The activation to restore, or a new one.\<close>

definition pick_activation ::
  "svc \<Rightarrow> handle \<Rightarrow> activate_input \<Rightarrow> license \<Rightarrow> string \<Rightarrow> normalized_binding \<Rightarrow> (activation \<times> bool) db_act" where
  "pick_activation sv h in' l public_hash b =
     andThen (t_find activations_t h (no_filter\<lparr>f_license_id := r_id l, f_public_key_hash := public_hash,
                f_exact_session := Some (ac_session in'), f_limit := 1\<rparr>)) (\<lambda>existing.
     case List.find (\<lambda>v. a_session v = ac_session in') existing of
       Some a \<Rightarrow>
         if a_deactivated_at a = None \<and>
            (a_binding_type a \<noteq> nb_kind b \<or>
             a_binding_hash a \<noteq> nb_hash b \<and> nb_kind b \<noteq> ''domain'' \<and> nb_kind b \<noteq> ''ip'')
         then raise (forbidden ''BINDING_MISMATCH'')
         else ret (a, True)
     | None \<Rightarrow>
         andThen (new_id sv ''activation'') (\<lambda>i. ret (blank_activation sv in' i l public_hash, False)))"

text \<open>The limits of the license: floating seats with a lease, or installations with an anchor group.\<close>

definition claim_slot ::
  "svc \<Rightarrow> handle \<Rightarrow> application \<Rightarrow> activate_input \<Rightarrow> license \<Rightarrow> normalized_binding \<Rightarrow> activation \<Rightarrow> bool \<Rightarrow> activation db_act" where
  "claim_slot sv h app in' l b a found =
     andThen (t_find activations_t h (no_filter\<lparr>f_license_id := r_id l, f_active_at := Some (s_now sv),
                f_limit := 10000\<rparr>)) (\<lambda>active.
     let others = int (length (filter (\<lambda>v. r_id v \<noteq> r_id a) active)) in
     if t_model (l_terms l) = ''floating'' then
       (if t_max_seats (l_terms l) \<le> others then raise (forbidden ''SEAT_EXCEEDED'')
        else if a_borrowed a \<and> (case a_lease a of None \<Rightarrow> False | Some t \<Rightarrow> s_now sv < t) \<and> ac_borrow in' = 0
        then raise (conflict ''SEAT_BORROWED'')
        else pureA (extend_lease sv app l a (ac_borrow in')))
     else
       (if t_max_activations (l_terms l) \<le> others then raise (forbidden ''ACTIVATION_LIMIT_EXCEEDED'')
        else andThen (ensure_anchor_group sv h l b) (\<lambda>grp.
          if found \<and> a_deactivated_at a = None \<and> a_group a \<noteq> [] \<and> a_group a \<noteq> grp
          then raise (forbidden ''BINDING_MISMATCH'')
          else ret (a\<lparr>a_group := grp\<rparr>))))"

text \<open>Marks the card, invitation or request as used.\<close>

definition use_source :: "svc \<Rightarrow> handle \<Rightarrow> activation_source \<Rightarrow> string \<Rightarrow> string \<Rightarrow> unit db_act" where
  "use_source sv h src public_hash activation =
     (case src of
        FromCard c \<Rightarrow>
          t_save cards_t h (c\<lparr>c_status := ''used'',
            c_used_at := (case c_used_at c of None \<Rightarrow> Some (s_now sv) | Some t \<Rightarrow> Some t), r_updated := s_now sv\<rparr>)
      | FromInvitation v \<Rightarrow>
          t_save invitations_t h (v\<lparr>i_used_at := Some (s_now sv), i_key_hash := public_hash, r_updated := s_now sv\<rparr>)
      | FromPending v \<Rightarrow>
          t_save pending_t h (v\<lparr>pd_activation := activation, r_updated := s_now sv\<rparr>))"

definition activated_row :: "svc \<Rightarrow> normalized_binding \<Rightarrow> activation \<Rightarrow> activation" where
  "activated_row sv b a =
     a\<lparr>a_binding_type := nb_kind b, a_binding_hash := nb_hash b, a_client_hash := nb_client_hash b,
       a_deactivated_at := None, a_deactivation_reason := [], a_verified_at := s_now sv, r_updated := s_now sv\<rparr>"

definition activated_license :: "svc \<Rightarrow> normalized_binding \<Rightarrow> license \<Rightarrow> license" where
  "activated_license sv b l =
     (start_license l (s_now sv))\<lparr>l_binding_type := nb_kind b, l_binding_hash := nb_hash b, r_updated := s_now sv\<rparr>"

definition activate_body ::
  "svc \<Rightarrow> activate_input \<Rightarrow> signed_request \<Rightarrow> string \<Rightarrow> handle \<Rightarrow> runtime_result db_act" where
  "activate_body sv in' req public_hash h =
     andThen (tx_application h) (\<lambda>app.
     andThen (activation_license sv h in' public_hash) (\<lambda>(l, src).
     andThen (pureA (check_usable app l (s_now sv))) (\<lambda>_.
     if ac_form in' \<notin> set (t_forms (l_terms l)) \<or> ac_form in' \<notin> set (ap_forms app)
     then raise (forbidden ''FORM_NOT_ALLOWED'')
     else if bi_type (ac_binding in') \<notin> set (t_bindings (l_terms l)) \<or> bi_type (ac_binding in') \<notin> set (ap_bindings app)
     then raise (forbidden ''BINDING_NOT_ALLOWED'')
     else andThen (pureA (runtime_binding sv app (ac_binding in') (t_max_aliases (l_terms l)) req public_hash)) (\<lambda>b.
     if (case src of FromPending v \<Rightarrow> pd_binding_hash v \<noteq> nb_hash b \<or> pd_binding_type v \<noteq> nb_kind b | _ \<Rightarrow> False)
     then raise (forbidden ''BINDING_MISMATCH'')
     else andThen (t_find rules_t h (no_filter\<lparr>f_limit := 10000\<rparr>)) (\<lambda>rules.
     andThen (pureA (check_application_rules app rules b (r_id l))) (\<lambda>_.
     andThen (pick_activation sv h in' l public_hash b) (\<lambda>(a0, found).
     andThen (claim_slot sv h app in' l b a0 found) (\<lambda>a1.
     let a = activated_row sv b a1; l' = activated_license sv b l in
     andThen (if found then t_save activations_t h a else t_insert activations_t h a) (\<lambda>_.
     andThen (t_save licenses_t h l') (\<lambda>_.
     andThen (use_source sv h src public_hash (r_id a)) (\<lambda>_.
     andThen (runtime_tokens sv h app l' a) (\<lambda>out.
     andThen (append_event sv h ''activated'' (r_id a)
       [(''license_id'', PStr (r_id l')), (''binding_type'', PStr (nb_kind b)), (''form'', PStr (ac_form in')),
        (''restored'', PBool found)]) (\<lambda>_.
     ret out)))))))))))))"

definition activate :: "svc \<Rightarrow> ctx \<Rightarrow> activate_input \<Rightarrow> signed_request \<Rightarrow> runtime_result db_act" where
  "activate sv cx in' req =
     (if 160 < length (ac_label in') \<or> 64 < length (ac_session in') \<or> ac_form in' \<notin> set supported_forms
      then raise invalid
      else in_installation sv cx (ac_app in') (ac_public_key in') req (\<lambda>scoped _ sc.
        let public_hash = (case public_key_fingerprint sv (ac_public_key in') of Inl _ \<Rightarrow> [] | Inr x \<Rightarrow> x) in
        or_failure sv scoped sc ''activated'' []
          (update scoped sc (activate_body sv in' req public_hash))))"

section \<open>Metered use\<close>

definition usage_period :: "svc \<Rightarrow> license \<Rightarrow> string" where
  "usage_period sv l = (if t_period (l_terms l) = ''monthly'' then format_month (s_now sv) else ''lifetime'')"

text \<open>A new period starts with nothing used.\<close>

definition enter_period :: "svc \<Rightarrow> license \<Rightarrow> license" where
  "enter_period sv l =
     (if l_usage_period l \<noteq> usage_period sv l then l\<lparr>l_used_units := 0, l_usage_period := usage_period sv l\<rparr> else l)"

definition consume :: "svc \<Rightarrow> handle \<Rightarrow> license \<Rightarrow> activation \<Rightarrow> int \<Rightarrow> string \<Rightarrow> license db_act" where
  "consume sv h l a units key =
     (if t_model (l_terms l) \<noteq> ''metered'' \<or> units < 1 \<or> 1000000000000 < units \<or> key = [] \<or> 128 < length key
      then raise invalid
      else
        let idem = keyed_hash sv ''usage-key'' (r_app l) (r_id l @ nul @ key);
            request_hash = keyed_hash sv ''usage-request'' (r_app l) (key @ nul @ itoa units) in
        andThen (t_find usage_t h (no_filter\<lparr>f_license_id := r_id l, f_idempotency_key := idem, f_limit := 1\<rparr>)) (\<lambda>receipts.
        case receipts of
          r # _ \<Rightarrow> if u_request_hash r \<noteq> request_hash then raise (conflict ''IDEMPOTENCY_CONFLICT'') else ret l
        | [] \<Rightarrow>
            let l1 = enter_period sv l in
            if t_quota (l_terms l1) - l_used_units l1 < units then raise (forbidden ''USAGE_EXCEEDED'')
            else
              let l2 = l1\<lparr>l_used_units := l_used_units l1 + units, r_updated := s_now sv\<rparr>;
                  remaining = t_quota (l_terms l2) - l_used_units l2 in
              andThen (t_save licenses_t h l2) (\<lambda>_.
              andThen (new_id sv ''usage'') (\<lambda>i.
              andThen (t_insert usage_t h \<lparr>r_app = r_app l2, r_id = i, r_created = s_now sv, r_updated = s_now sv,
                         u_license = r_id l2, u_activation = r_id a, u_key = idem, u_request_hash = request_hash,
                         u_units = units, u_period = usage_period sv l, u_remaining = remaining\<rparr>) (\<lambda>_.
              andThen (append_event sv h ''usage_consumed'' (r_id l2)
                 [(''units'', PInt units), (''period'', PStr (usage_period sv l)), (''remaining'', PInt remaining)]) (\<lambda>_.
              ret l2))))))"

section \<open>Verify\<close>

definition verify_action :: "verify_input \<Rightarrow> string" where
  "verify_action in' = (if vi_action in' = [] then ''verify'' else vi_action in')"

text \<open>An installation released by its client may come back; one disabled by anyone else may not.\<close>

definition reacquire :: "activation \<Rightarrow> string \<Rightarrow> activation" where
  "reacquire a action =
     (if a_deactivated_at a \<noteq> None \<and> action \<noteq> ''release''
      then a\<lparr>a_deactivated_at := None, a_deactivation_reason := [], a_lease := None, a_borrowed := False\<rparr>
      else a)"

definition release_activation ::
  "svc \<Rightarrow> handle \<Rightarrow> verify_input \<Rightarrow> license \<Rightarrow> activation \<Rightarrow> runtime_result db_act" where
  "release_activation sv h in' l a =
     (if a_borrowed a \<and> (case a_lease a of None \<Rightarrow> False | Some t \<Rightarrow> s_now sv < t)
      then raise (conflict ''BORROWED_SEAT_HELD'')
      else
        andThen (t_save activations_t h (a\<lparr>a_deactivated_at := Some (s_now sv),
           a_deactivation_reason := ''client_release'', a_lease := None, a_borrowed := False,
           r_updated := s_now sv\<rparr>)) (\<lambda>_.
        andThen (append_event sv h ''seat_released'' (r_id a) [(''license_id'', PStr (r_id l))]) (\<lambda>_.
        ret \<lparr>rr_app = vi_app in', rr_license = r_id l, rr_activation = r_id a, rr_jwt = [], rr_offline = [],
             rr_server_time = s_now sv, rr_expires = 0, rr_refresh = 0, rr_grace = 0, rr_lease = None,
             rr_usage_expires = None, rr_updates_until = None, rr_remaining = None, rr_released = True\<rparr>)))"

text \<open>The live binding: the license's rule behind the installation, the anchors of its domain group, or its hash.\<close>

definition live_binding ::
  "svc \<Rightarrow> handle \<Rightarrow> binding_rule list \<Rightarrow> license \<Rightarrow> activation \<Rightarrow> normalized_binding \<Rightarrow> activation db_act" where
  "live_binding sv h rules l a b =
     (let own = filter (\<lambda>r. r_id r = a_group a \<and> br_license r = r_id l) rules;
          rule_bound = (own \<noteq> []);
          bound = a\<lparr>a_binding_hash := nb_hash b, a_client_hash := nb_client_hash b\<rparr> in
      if list_ex (\<lambda>r. \<not> rule_matches r (nb_value b)) own then raise (forbidden ''BINDING_MISMATCH'')
      else if prefix ''rule_'' (a_group a) \<and> \<not> rule_bound then raise (forbidden ''BINDING_MISMATCH'')
      else if rule_bound then ret bound
      else if a_binding_type a = ''domain'' then
        andThen (t_find anchors_t h (no_filter\<lparr>f_license_id := r_id l, f_group_id := a_group a,
                   f_status := ''active'', f_binding_hash := nb_hash b, f_limit := 1\<rparr>)) (\<lambda>anchors.
        if length anchors \<noteq> 1 then raise (forbidden ''BINDING_MISMATCH'') else ret bound)
      else if a_binding_hash a \<noteq> nb_hash b then raise (forbidden ''BINDING_MISMATCH'')
      else ret a)"

text \<open>The limits: a returning installation needs a free place, a floating one a seat.\<close>

definition keep_slot ::
  "svc \<Rightarrow> handle \<Rightarrow> application \<Rightarrow> license \<Rightarrow> activation \<Rightarrow> bool \<Rightarrow> activation db_act" where
  "keep_slot sv h app l a reacquiring =
     andThen
       (if reacquiring \<and> t_model (l_terms l) \<noteq> ''floating''
        then andThen (t_count activations_t h (no_filter\<lparr>f_license_id := r_id l, f_active_at := Some (s_now sv)\<rparr>)) (\<lambda>n.
          if t_max_activations (l_terms l) \<le> n then raise (forbidden ''ACTIVATION_LIMIT_EXCEEDED'') else ret ())
        else ret ()) (\<lambda>_.
     let live = (case a_lease a of None \<Rightarrow> False | Some t \<Rightarrow> s_now sv < t) in
     if t_model (l_terms l) = ''floating'' \<and> \<not> (a_borrowed a \<and> live) then
       andThen (t_count activations_t h (no_filter\<lparr>f_license_id := r_id l, f_active_at := Some (s_now sv),
                  f_lease_only := True\<rparr>)) (\<lambda>n.
       if \<not> live \<and> t_max_seats (l_terms l) \<le> n then raise (forbidden ''SEAT_EXCEEDED'')
       else pureA (extend_lease sv app l a 0))
     else ret a)"

definition verify_body ::
  "svc \<Rightarrow> verify_input \<Rightarrow> signed_request \<Rightarrow> handle \<Rightarrow> runtime_result db_act" where
  "verify_body sv in' req h =
     andThen (tx_application h) (\<lambda>app.
     andThen (t_get activations_t h (vi_activation in')) (\<lambda>a0.
     andThen (t_get licenses_t h (a_license a0)) (\<lambda>l0.
     let action = verify_action in'; reacquiring = (a_deactivated_at a0 \<noteq> None) in
     if action \<notin> set [''verify'', ''release'', ''consume'', ''renew''] then raise invalid
     else if reacquiring \<and> a_deactivation_reason a0 \<noteq> ''client_release''
     then raise (forbidden ''ACTIVATION_DEACTIVATED'')
     else
     let a1 = reacquire a0 action in
     andThen
       (if vi_jwt in' \<noteq> []
        then andThen (verify_application_token sv h app (vi_jwt in')
               \<lparr>ex_app = vi_app in', ex_subject = r_id l0, ex_activation = r_id a1, ex_use = ''license'',
                ex_binding_type = [], ex_binding_hash = [], ex_now = Some (s_now sv)\<rparr> True) (\<lambda>_. ret ())
        else ret ()) (\<lambda>_.
     if action = ''release'' then release_activation sv h in' l0 a1
     else
     andThen (if action = ''renew'' then redeem_renewal sv h l0 (vi_renewal_card in') else ret l0) (\<lambda>l1.
     andThen (pureA (check_usable app l1 (s_now sv))) (\<lambda>_.
     if vi_form in' \<notin> set (t_forms (l_terms l1)) \<or> vi_form in' \<notin> set (ap_forms app)
     then raise (forbidden ''FORM_NOT_ALLOWED'')
     else if bi_type (vi_binding in') \<notin> set (ap_bindings app) \<or> bi_type (vi_binding in') \<noteq> a_binding_type a1
     then raise (forbidden ''BINDING_MISMATCH'')
     else
     andThen (pureA (runtime_binding sv app (vi_binding in') (t_max_aliases (l_terms l1)) req (a_key_hash a1))) (\<lambda>b.
     andThen (t_find rules_t h (no_filter\<lparr>f_limit := 10000\<rparr>)) (\<lambda>rules.
     andThen (pureA (check_application_rules app rules b (r_id l1))) (\<lambda>_.
     andThen (live_binding sv h rules l1 a1 b) (\<lambda>a2.
     andThen (keep_slot sv h app l1 a2 reacquiring) (\<lambda>a3.
     andThen
       (if action = ''consume'' then consume sv h l1 a3 (vi_units in') (vi_key in')
        else if vi_units in' \<noteq> 0 \<or> vi_key in' \<noteq> [] then raise invalid
        else ret l1) (\<lambda>l2.
     let a4 = a3\<lparr>a_verified_at := s_now sv, r_updated := s_now sv\<rparr> in
     andThen (t_save activations_t h a4) (\<lambda>_.
     andThen (runtime_tokens sv h app l2 a4) (\<lambda>out.
     andThen (append_event sv h ''verified'' (r_id a4)
       [(''license_id'', PStr (r_id l2)), (''action'', PStr action)]) (\<lambda>_.
     ret out)))))))))))))))"

definition verify :: "svc \<Rightarrow> ctx \<Rightarrow> verify_input \<Rightarrow> signed_request \<Rightarrow> runtime_result db_act" where
  "verify sv cx in' req =
     andThen (in_runtime cx (vi_app in') (mk_actor ''installation_lookup'' (vi_activation in')) (\<lambda>lookup _ sc.
       orElse (view lookup sc (\<lambda>h. t_get activations_t h (vi_activation in'))) (forbidden ''ACTIVATION_INVALID''))) (\<lambda>a.
     in_installation sv cx (vi_app in') (a_public_key a) req (\<lambda>scoped _ sc.
       or_failure sv scoped sc ''verified'' (vi_activation in')
         (update scoped sc (verify_body sv in' req))))"

section \<open>Handlers as sequences of transactions\<close>

lemma via_authenticate:
  "serves (audit_sign sv) i (authenticate_installation sv cx i public req)"
  unfolding authenticate_installation_def reserve_nonce_def Let_def
  by (intro via_intros; assumption)

lemma authenticate_run:
  assumes "authenticate_installation sv cx i public req s = (Inr (scoped, app, sc), t)"
  shows "sc_app sc = i" and "r_app app = i"
proof (atomize (full), cases "verify_installation_request sv public (rq_method req) (rq_path req) i
         (rq_body req) (rq_proof req) (s_now sv)")
  case (Inl e)
  with assms show "sc_app sc = i \<and> r_app app = i"
    by (simp add: authenticate_installation_def in_runtime_def run_iffs failure_def)
next
  case (Inr x)
  with assms show "sc_app sc = i \<and> r_app app = i"
    by (auto simp: authenticate_installation_def in_runtime_def run_iffs dest: find_app_SomeD)
qed

lemma via_installation [via_intros]:
  assumes "\<And>scoped app sc. sc_app sc = i \<Longrightarrow> serves (audit_sign sv) i (f scoped app sc)"
  shows "serves (audit_sign sv) i (in_installation sv cx i public req f)"
  unfolding in_installation_def
  by (rule via_andThen_run, rule via_authenticate) (auto dest: authenticate_run intro: assms)

lemma runtime_within [via_intros]:
  "within (audit_sign sv) h (ensure_anchor_group sv h l b)"
  "within (audit_sign sv) h (runtime_tokens sv h app l a)"
  "within (audit_sign sv) h (consume sv h l a units key)"
proof -
  have p: "within (audit_sign sv) h (put_anchor sv h l kind grp v)" for kind grp v
    unfolding put_anchor_def Let_def by (intro via_intros)
  show "within (audit_sign sv) h (ensure_anchor_group sv h l b)"
    unfolding ensure_anchor_group_def Let_def by (intro via_intros p)
  show "within (audit_sign sv) h (runtime_tokens sv h app l a)"
    unfolding runtime_tokens_def Let_def by (intro via_intros)
  show "within (audit_sign sv) h (consume sv h l a units key)"
    unfolding consume_def Let_def by (intro via_intros)
qed

lemma activate_body_within [via_intros]: "within (audit_sign sv) h (activate_body sv in' req public_hash h)"
proof -
  have l: "within sg h (activation_license sv h in' public_hash)" for sg
    unfolding activation_license_def Let_def by (intro via_intros)
  have p: "within sg h (pick_activation sv h in' l public_hash b)" for sg l b
    unfolding pick_activation_def by (intro via_intros)
  have c: "within (audit_sign sv) h (claim_slot sv h app in' l b a found)" for app l b a found
    unfolding claim_slot_def Let_def by (intro via_intros)
  have u: "within sg h (use_source sv h src public_hash x)" for sg src x
    unfolding use_source_def by (cases src) (auto intro: via_intros)
  show ?thesis unfolding activate_body_def Let_def by (intro via_intros l p c u)
qed

lemma verify_body_within [via_intros]: "within (audit_sign sv) h (verify_body sv in' req h)"
proof -
  have r: "within (audit_sign sv) h (release_activation sv h in' l a)" for l a
    unfolding release_activation_def by (intro via_intros)
  have b: "via R (live_binding sv h rules l a b)" for R rules l a b
    unfolding live_binding_def Let_def by (intro via_intros)
  have k: "via R (keep_slot sv h app l a q)" for R app l a q
    unfolding keep_slot_def Let_def by (intro via_intros)
  show ?thesis unfolding verify_body_def Let_def by (intro via_intros r b k)
qed

lemma runtime_serves [via_intros]:
  "serves (audit_sign sv) (ac_app ain) (activate sv cx ain req)"
  "serves (audit_sign sv) (vi_app vin) (verify sv cx vin req)"
proof -
  show "serves (audit_sign sv) (ac_app ain) (activate sv cx ain req)"
    unfolding activate_def Let_def by (intro via_intros; assumption)
  show "serves (audit_sign sv) (vi_app vin) (verify sv cx vin req)"
    unfolding verify_def by (intro via_intros; assumption)
qed

end
