(* ===== verification/Lifecycle.thy ===== *)
theory Lifecycle
  imports Runtime
begin

text \<open>
  \<open>lifecycle.go\<close>: what operators and owners do with a license once it exists. Listing, changing its
  status, inviting an installation, pre-registering and replacing its binding, disabling an
  installation, renewing it, and checking the integrity of the application's audit chain
  (\<open>redeemRenewal\<close> is in \<open>Renewal\<close>).

  An operator reaches a license through its application; a customer only through the license's owner
  field, which \<open>licenseOwnerContext\<close> checks before it hands out a repository and every handler checks
  again inside its transaction.
\<close>

section \<open>Contexts\<close>

text \<open>\<open>p, _ := PrincipalFrom(ctx)\<close>: the principal, whatever the check says of it.\<close>

definition acting :: "ctx \<Rightarrow> principal" where
  "acting cx =
     (case cx_principal cx of None \<Rightarrow> \<lparr>pr_actor = mk_actor [] [], pr_agent = []\<rparr> | Some p \<Rightarrow> p)"

definition owns :: "principal \<Rightarrow> license \<Rightarrow> bool" where
  "owns p l \<longleftrightarrow> l_owner l = pr_id p"

text \<open>A customer who does not own the license: \<open>p.Actor.Kind == "customer" && l.OwnerUserID != p.Actor.ID\<close>.\<close>

definition stranger :: "principal \<Rightarrow> license \<Rightarrow> bool" where
  "stranger p l \<longleftrightarrow> pr_kind p = ''customer'' \<and> \<not> owns p l"

definition license_owner_context ::
  "ctx \<Rightarrow> string \<Rightarrow> string \<Rightarrow> bool \<Rightarrow> (ctx \<times> application \<times> scope) db_act" where
  "license_owner_context cx appID licenseID write =
     andThen (pureA (principal_from cx)) (\<lambda>p.
     if pr_kind p \<noteq> ''customer'' then application_context cx appID write
     else
       andThen (runtime_context cx appID (pr_actor p)) (\<lambda>(scoped, app, sc).
       andThen (orElse (view scoped sc (\<lambda>h. t_get licenses_t h licenseID)) not_found) (\<lambda>l.
       if \<not> owns p l then raise not_found else ret (scoped, app, sc))))"

definition in_owned ::
  "ctx \<Rightarrow> string \<Rightarrow> string \<Rightarrow> bool \<Rightarrow> (ctx \<Rightarrow> application \<Rightarrow> scope \<Rightarrow> 'a db_act) \<Rightarrow> 'a db_act" where
  "in_owned cx appID licenseID write body =
     andThen (license_owner_context cx appID licenseID write) (\<lambda>(scoped, app, sc). body scoped app sc)"

text \<open>The body of the methods that list a table.\<close>

definition listing :: "ctx \<Rightarrow> string \<Rightarrow> ('z ident_scheme) table \<Rightarrow> filter_spec \<Rightarrow> 'z ident_scheme list db_act" where
  "listing cx i tb f = in_application cx i False (\<lambda>scoped _ sc. view scoped sc (\<lambda>h. t_find tb h f))"

text \<open>A borrowed seat is held until its lease ends.\<close>

definition seat_held :: "svc \<Rightarrow> activation \<Rightarrow> bool" where
  "seat_held sv a \<longleftrightarrow> a_borrowed a \<and> (case a_lease a of None \<Rightarrow> False | Some t \<Rightarrow> s_now sv < t)"

section \<open>Lists and status\<close>

definition list_licenses :: "ctx \<Rightarrow> string \<Rightarrow> license list db_act" where
  "list_licenses cx i = listing cx i licenses_t (no_filter\<lparr>f_limit := 1000\<rparr>)"

definition list_activations :: "ctx \<Rightarrow> string \<Rightarrow> string \<Rightarrow> activation list db_act" where
  "list_activations cx i licenseID =
     listing cx i activations_t (no_filter\<lparr>f_license_id := licenseID, f_limit := 1000\<rparr>)"

definition license_statuses :: "string list" where
  "license_statuses = [''active'', ''suspended'', ''revoked'', ''expired'']"

definition set_license_status :: "svc \<Rightarrow> ctx \<Rightarrow> string \<Rightarrow> string \<Rightarrow> string \<Rightarrow> string \<Rightarrow> unit db_act" where
  "set_license_status sv cx i licenseID status reason =
     in_application cx i True (\<lambda>scoped _ sc.
     if trim_space reason = [] \<or> 500 < length reason then raise invalid
     else if status \<notin> set license_statuses then raise invalid
     else update scoped sc (\<lambda>h.
       andThen (orElse (t_get licenses_t h licenseID) not_found) (\<lambda>l.
       if l_status l = ''revoked'' \<and> status \<noteq> ''revoked'' then raise (conflict ''REVOCATION_FINAL'')
       else
         andThen (t_save licenses_t h (l\<lparr>l_status := status, l_reason := reason, r_updated := s_now sv\<rparr>)) (\<lambda>_.
         append_event sv h ''license_status_changed'' licenseID
           [(''from'', PStr (l_status l)), (''to'', PStr status), (''reason'', PStr reason)]))))"

section \<open>Invitations\<close>

record invitation_result =
  ir_invitation :: invitation
  ir_token :: string

definition create_invitation :: "svc \<Rightarrow> ctx \<Rightarrow> string \<Rightarrow> string \<Rightarrow> int \<Rightarrow> invitation_result db_act" where
  "create_invitation sv cx appID licenseID hours =
     in_owned cx appID licenseID True (\<lambda>scoped _ sc.
     if hours < 1 \<or> 168 < hours then raise invalid
     else andThen (random_hex sv 24) (\<lambda>raw.
       update scoped sc (\<lambda>h.
         andThen (orElse (t_get licenses_t h licenseID) not_found) (\<lambda>l.
         if stranger (acting cx) l then raise not_found
         else
           andThen (tx_application h) (\<lambda>app.
           andThen (pureA (check_usable app l (s_now sv))) (\<lambda>_.
           andThen (new_id sv ''invite'') (\<lambda>i.
           let v = \<lparr>r_app = appID, r_id = i, r_created = s_now sv, r_updated = s_now sv, i_license = r_id l,
                    i_token_hash = keyed_hash sv ''invitation'' appID raw, i_kind = ''installation'',
                    i_owner = l_owner l, i_expires = s_now sv + duration hours hour, i_used_at = None,
                    i_key_hash = []\<rparr> in
           andThen (t_insert invitations_t h v) (\<lambda>_.
           andThen (append_event sv h ''installation_invited'' licenseID
             [(''invitation_id'', PStr (r_id v)), (''expires_at'', PTime (Some (i_expires v)))]) (\<lambda>_.
           ret \<lparr>ir_invitation = v, ir_token = raw\<rparr>)))))))))"

section \<open>A customer's licenses\<close>

definition customer_licenses :: "ctx \<Rightarrow> license list db_act" where
  "customer_licenses cx =
     andThen (pureA (principal_from cx)) (\<lambda>p.
     if pr_kind p \<noteq> ''customer'' then raise (forbidden ''ROLE_FORBIDDEN'')
     else andThen (reg_list []) (\<lambda>apps.
       foldEach apps [] (\<lambda>app out.
         in_runtime cx (r_app app) (pr_actor p) (\<lambda>scoped _ sc.
         andThen (view scoped sc (\<lambda>h.
           t_find licenses_t h (no_filter\<lparr>f_owner_user_id := pr_id p, f_exclude_renewals := True,
                                  f_limit := 10000\<rparr>))) (\<lambda>items.
         ret (out @ items))))))"

section \<open>Bindings\<close>

definition register_binding ::
  "svc \<Rightarrow> ctx \<Rightarrow> string \<Rightarrow> string \<Rightarrow> binding_input \<Rightarrow> string \<Rightarrow> unit db_act" where
  "register_binding sv cx appID licenseID input reason =
     in_application cx appID True (\<lambda>scoped _ sc.
     if trim_space reason = [] then raise invalid
     else update scoped sc (\<lambda>h.
       andThen (tx_application h) (\<lambda>app.
       andThen (orElse (t_get licenses_t h licenseID) not_found) (\<lambda>l.
       if bi_type input \<notin> set (t_bindings (l_terms l)) then raise invalid
       else
         andThen (pureA (normalize_binding sv appID input (t_max_aliases (l_terms l)))) (\<lambda>b.
         andThen (t_find rules_t h (no_filter\<lparr>f_limit := 10000\<rparr>)) (\<lambda>rules.
         andThen (pureA (check_application_rules app rules b (r_id l))) (\<lambda>_.
         andThen (ensure_anchor_group sv h l b) (\<lambda>_.
         andThen (t_save licenses_t h (l\<lparr>l_binding_type := nb_kind b, l_binding_hash := nb_hash b,
                                          r_updated := s_now sv\<rparr>)) (\<lambda>_.
         append_event sv h ''binding_registered'' (r_id l)
           [(''binding_type'', PStr (nb_kind b)), (''masked_anchor'', PStr (nb_display b)),
            (''reason'', PStr reason)])))))))))"

text \<open>The limits on what a customer may rebind without an operator.\<close>

definition check_self_service :: "svc \<Rightarrow> principal \<Rightarrow> license \<Rightarrow> err + unit" where
  "check_self_service sv p l =
     (if pr_kind p \<noteq> ''customer'' then Inr ()
      else if t_rebind_limit (l_terms l) = 0 \<or>
              0 < t_rebind_limit (l_terms l) \<and> t_rebind_limit (l_terms l) \<le> l_rebinds_used l
      then Inl (forbidden ''REBIND_LIMIT_EXCEEDED'')
      else if (case l_last_rebind l of None \<Rightarrow> False
               | Some t \<Rightarrow> s_now sv < t + duration (t_rebind_cooldown (l_terms l)) second)
      then Inl (forbidden ''REBIND_COOLDOWN'')
      else Inr ())"

definition rebound :: "svc \<Rightarrow> normalized_binding \<Rightarrow> license \<Rightarrow> license" where
  "rebound sv b l =
     l\<lparr>l_binding_type := nb_kind b, l_binding_hash := nb_hash b, l_rebinds_used := i64 (l_rebinds_used l + 1),
       l_last_rebind := Some (s_now sv), r_updated := s_now sv\<rparr>"

definition rebind_body ::
  "svc \<Rightarrow> principal \<Rightarrow> string \<Rightarrow> string \<Rightarrow> binding_input \<Rightarrow> string \<Rightarrow> handle \<Rightarrow> unit db_act" where
  "rebind_body sv p appID licenseID input reason h =
     andThen (tx_application h) (\<lambda>app.
     andThen (orElse (t_get licenses_t h licenseID) not_found) (\<lambda>l.
     if stranger p l then raise not_found
     else
       andThen (pureA (check_usable app l (s_now sv))) (\<lambda>_.
       if bi_type input \<notin> set (t_bindings (l_terms l)) then raise invalid
       else
         andThen (pureA (check_self_service sv p l)) (\<lambda>_.
         andThen (pureA (normalize_binding sv appID input (t_max_aliases (l_terms l)))) (\<lambda>b.
         andThen (t_find rules_t h (no_filter\<lparr>f_limit := 10000\<rparr>)) (\<lambda>rules.
         andThen (pureA (check_application_rules app rules b (r_id l))) (\<lambda>_.
         andThen (t_count activations_t h (no_filter\<lparr>f_license_id := r_id l, f_active_at := Some (s_now sv),
                    f_borrowed := Some True\<rparr>)) (\<lambda>held.
         if 0 < held then raise (conflict ''BORROWED_SEAT_HELD'')
         else
           andThen (retire_bindings h (r_id l) (s_now sv)) (\<lambda>_.
           andThen (deactivate_all h (r_id l) (s_now sv)) (\<lambda>_.
           andThen (invalidate_invitations h (r_id l) (s_now sv)) (\<lambda>_.
           andThen (ensure_anchor_group sv h l b) (\<lambda>_.
           andThen (t_save licenses_t h (rebound sv b l)) (\<lambda>_.
           append_event sv h ''binding_replaced'' (r_id l)
             [(''binding_type'', PStr (nb_kind b)), (''reason'', PStr reason),
              (''all_previous_activations_deactivated'', PBool True)])))))))))))))"

definition rebind ::
  "svc \<Rightarrow> ctx \<Rightarrow> string \<Rightarrow> string \<Rightarrow> binding_input \<Rightarrow> string \<Rightarrow> unit db_act" where
  "rebind sv cx appID licenseID input reason =
     in_owned cx appID licenseID True (\<lambda>scoped _ sc.
     if trim_space reason = [] then raise invalid
     else update scoped sc (rebind_body sv (acting cx) appID licenseID input reason))"

definition deactivate_installation :: "svc \<Rightarrow> ctx \<Rightarrow> string \<Rightarrow> string \<Rightarrow> string \<Rightarrow> unit db_act" where
  "deactivate_installation sv cx appID activationID reason =
     in_application cx appID True (\<lambda>scoped _ sc.
     if trim_space reason = [] then raise invalid
     else update scoped sc (\<lambda>h.
       andThen (orElse (t_get activations_t h activationID) not_found) (\<lambda>a.
       if seat_held sv a then raise (conflict ''BORROWED_SEAT_HELD'')
       else
         andThen (t_save activations_t h (a\<lparr>a_deactivated_at := Some (s_now sv),
                    a_deactivation_reason := ''administrative'', r_updated := s_now sv\<rparr>)) (\<lambda>_.
         append_event sv h ''installation_deactivated'' (r_id a) [(''reason'', PStr reason)]))))"

definition customer_renew :: "svc \<Rightarrow> ctx \<Rightarrow> string \<Rightarrow> string \<Rightarrow> string \<Rightarrow> license db_act" where
  "customer_renew sv cx appID licenseID crd =
     in_owned cx appID licenseID True (\<lambda>scoped _ sc.
     update scoped sc (\<lambda>h.
       andThen (orElse (t_get licenses_t h licenseID) not_found) (\<lambda>l.
       if stranger (acting cx) l then raise not_found
       else redeem_renewal sv h l crd)))"

section \<open>Integrity of the audit chain\<close>

record integrity =
  ig_valid :: bool
  ig_sequence :: int
  ig_head :: string
  ig_error :: "err option"

text \<open>
  The inner loop of \<open>AuditIntegrity\<close> over the events of a page: the error that ends it, if any, and the
  two variables it leaves behind.
\<close>

fun check_events :: "audit_signer \<Rightarrow> audit_event list \<Rightarrow> int \<times> string \<Rightarrow> err option \<times> int \<times> string" where
  "check_events sg [] (seq, previous) = (None, seq, previous)"
| "check_events sg (e # es) (seq, previous) =
     (if e_sequence e \<noteq> i64 (seq + 1) \<or> e_previous e \<noteq> previous
      then (Some (Fault ''audit sequence or chain mismatch''), seq, previous)
      else case sg e of
        Inl err \<Rightarrow> (Some err, seq, previous)
      | Inr hash \<Rightarrow>
          if hash \<noteq> e_hash e then (Some (Fault ''audit event authentication failed''), seq, previous)
          else check_events sg es (e_sequence e, e_hash e))"

text \<open>
  The outer loop reads pages of 1000 events, from the sequence number reached so far. Every page that
  is not empty and has no error moves it on, so the number of audit rows bounds the number of pages.
\<close>

fun check_pages :: "nat \<Rightarrow> audit_signer \<Rightarrow> handle \<Rightarrow> int \<times> string \<Rightarrow> (err option \<times> int \<times> string) db_act" where
  "check_pages 0 sg h (seq, previous) = ret (Some (Fault ''unreachable''), seq, previous)"
| "check_pages (Suc n) sg h (seq, previous) =
     andThen (attempt (t_find audit_t h (no_filter\<lparr>f_ascending := True, f_offset := seq, f_limit := 1000\<rparr>))) (\<lambda>r.
     case r of
       Inl e \<Rightarrow> ret (Some e, seq, previous)
     | Inr [] \<Rightarrow>
         andThen (attempt (audit_head_of h)) (\<lambda>head. ret (case head of
           Inl e \<Rightarrow> (Some e, seq, previous)
         | Inr hd' \<Rightarrow>
             if hd_sequence hd' \<noteq> seq \<or> hd_hash hd' \<noteq> previous
             then (Some (Fault ''audit head mismatch''), seq, previous) else (None, seq, previous)))
     | Inr (e # es) \<Rightarrow>
         (case check_events sg (e # es) (seq, previous) of
            (None, reached) \<Rightarrow> check_pages n sg h reached
          | (Some err, reached) \<Rightarrow> ret (Some err, reached)))"

definition audit_integrity :: "svc \<Rightarrow> ctx \<Rightarrow> string \<Rightarrow> integrity db_act" where
  "audit_integrity sv cx appID =
     in_application cx appID False (\<lambda>scoped _ sc.
     andThen (attempt (view scoped sc (\<lambda>h.
       andThen (reads (\<lambda>s. length (d_audit (w_db s)))) (\<lambda>n.
       check_pages (Suc n) (audit_sign sv) h (0, []))))) (\<lambda>r.
     ret (case r of
       Inl e \<Rightarrow> \<lparr>ig_valid = False, ig_sequence = 0, ig_head = [], ig_error = Some e\<rparr>
     | Inr (err, seq, previous) \<Rightarrow>
         \<lparr>ig_valid = (err = None), ig_sequence = seq, ig_head = previous, ig_error = err\<rparr>)))"

section \<open>Handlers as sequences of transactions\<close>

lemma license_owner_run:
  "license_owner_context cx appID licenseID write s = (Inr (scoped, app, sc), t) \<Longrightarrow>
   sc_app sc = appID \<and> r_app app = appID"
  by (auto simp: license_owner_context_def run_iffs dest: find_app_SomeD split: if_splits)

lemma via_owner: "via R (license_owner_context cx appID licenseID write)"
  unfolding license_owner_context_def by (intro via_intros via_contexts)

lemma via_in_owned [via_intros]:
  assumes "\<And>scoped app sc. sc_app sc = i \<Longrightarrow> r_app app = i \<Longrightarrow> via R (f scoped app sc)"
  shows "via R (in_owned cx i licenseID write f)"
  unfolding in_owned_def
  by (rule via_andThen_run, rule via_owner) (auto dest: license_owner_run intro: assms)

lemma via_listing [via_intros]: "via R (listing cx i tb f)"
  unfolding listing_def by (intro via_intros)

lemma via_check_pages [via_intros]: "via R (check_pages n sg h p)"
proof (induction n arbitrary: p)
  case (Suc n)
  then show ?case by (cases p) (auto intro!: via_intros split: list.split option.split prod.split)
qed (auto intro: via_intros)

lemma lifecycle_via [via_intros]:
  "via R (list_licenses cx i)" "via R (list_activations cx i licenseID)" "via R (customer_licenses cx)"
  "via R (audit_integrity sv cx i)"
  unfolding list_licenses_def list_activations_def customer_licenses_def audit_integrity_def
  by (intro via_intros)+

lemma rebind_within [via_intros]: "within (audit_sign sv) h (rebind_body sv p i licenseID input reason h)"
  unfolding rebind_body_def by (intro via_intros)

lemma lifecycle_serves [via_intros]:
  "serves (audit_sign sv) i (set_license_status sv cx i licenseID status reason)"
  "serves (audit_sign sv) i (create_invitation sv cx i licenseID hours)"
  "serves (audit_sign sv) i (register_binding sv cx i licenseID input reason)"
  "serves (audit_sign sv) i (rebind sv cx i licenseID input reason)"
  "serves (audit_sign sv) i (deactivate_installation sv cx i activationID reason)"
  "serves (audit_sign sv) i (customer_renew sv cx i licenseID crd)"
  unfolding set_license_status_def create_invitation_def register_binding_def rebind_def
    deactivate_installation_def customer_renew_def Let_def
  by (intro via_intros; assumption)+

end
