(* ===== verification/Sales.thy ===== *)
theory Sales
  imports Lifecycle
begin

text \<open>
  \<open>sales.go\<close>: orders, the licenses and cards they issue, sales channels with their signed webhook,
  and refunds. \<open>issue_order\<close> and \<open>refund_order\<close> run inside the transaction of the handler that calls
  them; Go changes the order through a pointer, here it is an argument and a result.
\<close>

section \<open>Requests and results\<close>

record card_delivery =
  cd_card :: string
  cd_license :: string
  cd_code :: string

record sale_result =
  sr_order :: sales_order
  sr_cards :: "card_delivery list"
  sr_replayed :: bool

definition money_limit :: int where "money_limit = 1000000000000"

definition validate_sale :: "sale_input \<Rightarrow> err + unit" where
  "validate_sale in' =
     (if si_plan in' = [] \<or> si_quantity in' < 1 \<or> 1000 < si_quantity in' \<or> 190 < length (si_customer in') \<or>
         96 < length (si_owner in') \<or> si_amount in' < 0 \<or> money_limit < si_amount in'
      then Inl invalid
      else if si_digests in' \<noteq> [] \<and>
              (\<not> si_distribute in' \<or> int (length (si_digests in')) \<noteq> si_quantity in' \<or>
               \<not> list_all fingerprint_pattern (si_digests in') \<or> \<not> distinct (si_digests in'))
      then Inl invalid
      else if si_purpose in' \<notin> set [[], ''activate'', ''renew_usage'', ''renew_updates''] then Inl invalid
      else if si_purpose in' \<noteq> [] \<and> si_purpose in' \<noteq> ''activate'' \<and> \<not> si_distribute in' then Inl invalid
      else Inr ())"

section \<open>Issuing an order\<close>

text \<open>\<open>License{...}\<close> in \<open>issueOrder\<close>, and the card that goes with it.\<close>

definition issued_license :: "svc \<Rightarrow> application \<Rightarrow> sales_order \<Rightarrow> string \<Rightarrow> string \<Rightarrow> license" where
  "issued_license sv app order purpose i =
     (let l = \<lparr>r_app = r_app app, r_id = i, r_created = s_now sv, r_updated = s_now sv,
               l_base_days = t_days (o_terms order), l_base_update_days = t_update_days (o_terms order),
               l_base_expires = None, l_base_updates_until = None, l_updates_blocked = False,
               l_renewal_only = (purpose \<noteq> ''activate''), l_activated_at = None, l_plan = o_plan order,
               l_customer = o_customer order, l_owner = o_owner order, l_order = r_id order,
               l_status = ''active'', l_terms = o_terms order, l_binding_type = [], l_binding_hash = [],
               l_expires_at = None, l_updates_until = None, l_used_units = 0, l_usage_period = [],
               l_rebinds_used = 0, l_last_rebind = None, l_reason = []\<rparr>
      in if purpose = ''activate'' \<and> t_starts_on (l_terms l) = ''issue'' then start_license l (s_now sv) else l)"

record card_code =
  cc_raw :: string
  cc_last_four :: string
  cc_source :: string
  cc_hash :: string

definition issue_code :: "svc \<Rightarrow> handle \<Rightarrow> application \<Rightarrow> sales_order \<Rightarrow> nat \<Rightarrow> card_code db_act" where
  "issue_code sv h app order i =
     (if o_digests order \<noteq> [] then
        (if length (o_digests order) \<le> i then raise (Fault ''index out of range'')
         else
           let hash = keyed_hash sv ''card'' (r_app app) (o_digests order ! i) in
           andThen (t_count cards_t h (no_filter\<lparr>f_key_hash := hash\<rparr>)) (\<lambda>existing.
           if 0 < existing then raise (conflict ''CARD_DIGEST_EXISTS'')
           else ret \<lparr>cc_raw = [], cc_last_four = [], cc_source = ''sales_system'', cc_hash = hash\<rparr>))
      else
        andThen (random_hex sv 20) (\<lambda>v.
        let raw = ''YN2-'' @ to_upper sv v in
        ret \<lparr>cc_raw = raw, cc_last_four = drop (length raw - 4) raw, cc_source = ''platform'',
             cc_hash = card_hash sv (r_app app) raw\<rparr>))"

definition issued_card ::
  "svc \<Rightarrow> application \<Rightarrow> sales_order \<Rightarrow> string \<Rightarrow> int option \<Rightarrow> string \<Rightarrow> card_code \<Rightarrow> string \<Rightarrow> string \<Rightarrow> card_key" where
  "issued_card sv app order purpose until batch code i bound =
     \<lparr>r_app = r_app app, r_id = i, r_created = s_now sv, r_updated = s_now sv, c_refunded_at = None,
      c_source = cc_source code, c_redeemed = [], c_plan = o_plan order, c_batch = batch,
      c_key_hash = cc_hash code, c_last_four = cc_last_four code, c_purpose = purpose, c_status = ''unused'',
      c_bound = bound, c_used_at = None, c_redeem_until = until\<rparr>"

text \<open>One round of the loop: a license, and a card for it when the order distributes cards.\<close>

definition issue_one ::
  "svc \<Rightarrow> handle \<Rightarrow> application \<Rightarrow> sales_order \<Rightarrow> string \<Rightarrow> int option \<Rightarrow> string \<Rightarrow> nat \<Rightarrow>
   string list \<times> card_delivery list \<Rightarrow> (string list \<times> card_delivery list) db_act" where
  "issue_one sv h app order purpose until batch i = (\<lambda>(ids, cards).
     andThen (new_id sv ''license'') (\<lambda>lid.
     andThen (t_insert licenses_t h (issued_license sv app order purpose lid)) (\<lambda>_.
     if \<not> o_distribute order then ret (ids @ [lid], cards)
     else
       andThen (issue_code sv h app order i) (\<lambda>code.
       andThen (new_id sv ''card'') (\<lambda>cid.
       andThen (t_insert cards_t h (issued_card sv app order purpose until batch code cid lid)) (\<lambda>_.
       ret (ids @ [lid], cards @ [\<lparr>cd_card = cid, cd_license = lid, cd_code = cc_raw code\<rparr>])))))))"

definition issue_order ::
  "svc \<Rightarrow> handle \<Rightarrow> application \<Rightarrow> sales_order \<Rightarrow> string \<Rightarrow> int option \<Rightarrow> sale_result db_act" where
  "issue_order sv h app order purpose0 until =
     (if o_status order \<noteq> ''pending'' then raise (conflict ''ORDER_ALREADY_CONFIRMED'')
      else if ap_status app \<noteq> ''active'' then raise (forbidden ''APPLICATION_DISABLED'')
      else
        andThen (pureA (normalize_terms sv app (o_terms order))) (\<lambda>_.
        let purpose = (if purpose0 = [] then ''activate'' else purpose0) in
        if (case until of None \<Rightarrow> False | Some t \<Rightarrow> \<not> s_now sv < t) then raise invalid
        else
          andThen (new_id sv ''batch'') (\<lambda>batch.
          andThen (foldEach [0..<nat (o_quantity order)] (o_licenses order, [])
                    (issue_one sv h app order purpose until batch)) (\<lambda>(ids, cards).
          let done' = order\<lparr>o_licenses := ids, o_status := ''confirmed'', r_updated := s_now sv\<rparr> in
          andThen (t_save orders_t h done') (\<lambda>_.
          ret \<lparr>sr_order = done', sr_cards = cards, sr_replayed = False\<rparr>)))))"

section \<open>Sales by an operator\<close>

text \<open>\<open>SalesOrder{...}\<close> with the fields every sale sets; the others are set by the caller.\<close>

definition new_order :: "svc \<Rightarrow> string \<Rightarrow> string \<Rightarrow> plan \<Rightarrow> terms \<Rightarrow> sales_order" where
  "new_order sv appID i p trms =
     \<lparr>r_app = appID, r_id = i, r_created = s_now sv, r_updated = s_now sv, o_digests = [], o_purpose = [],
      o_redeem_until = None, o_external = [], o_channel = [], o_agent = [], o_plan = r_id p, o_customer = [],
      o_owner = [], o_quantity = 0, o_amount = 0, o_cost = 0, o_currency = p_currency p,
      o_status = ''pending'', o_terms = trms, o_distribute = False, o_licenses = [], o_reason = []\<rparr>"

definition ordered :: "sale_input \<Rightarrow> sales_order \<Rightarrow> sales_order" where
  "ordered in' order =
     order\<lparr>o_customer := si_customer in', o_owner := si_owner in', o_quantity := si_quantity in',
       o_amount := si_amount in', o_distribute := si_distribute in', o_digests := si_digests in'\<rparr>"

definition sale_body :: "svc \<Rightarrow> string \<Rightarrow> sale_input \<Rightarrow> bool \<Rightarrow> handle \<Rightarrow> sale_result db_act" where
  "sale_body sv appID in' confirmed h =
     andThen (tx_application h) (\<lambda>app.
     andThen (orElse (t_get plans_t h (si_plan in')) not_found) (\<lambda>p.
     if \<not> p_enabled p then raise (forbidden ''PLAN_DISABLED'')
     else
       andThen (pureA (normalize_terms sv app (case si_terms in' of None \<Rightarrow> p_terms p | Some t \<Rightarrow> t))) (\<lambda>trms.
       andThen (new_id sv ''order'') (\<lambda>i.
       let order = (ordered in' (new_order sv appID i p trms))
             \<lparr>o_purpose := si_purpose in', o_redeem_until := si_redeem_until in', o_reason := si_reason in'\<rparr> in
       andThen (t_insert orders_t h order) (\<lambda>_.
       andThen
         (if confirmed then issue_order sv h app order (si_purpose in') (si_redeem_until in')
          else ret \<lparr>sr_order = order, sr_cards = [], sr_replayed = False\<rparr>) (\<lambda>out.
       andThen (append_event sv h ''sale_created'' (r_id order)
         [(''quantity'', PInt (si_quantity in')), (''confirmed'', PBool confirmed),
          (''distribute_cards'', PBool (si_distribute in')), (''reason'', PStr (si_reason in'))]) (\<lambda>_.
       ret out)))))))"

definition create_sale :: "svc \<Rightarrow> ctx \<Rightarrow> string \<Rightarrow> sale_input \<Rightarrow> bool \<Rightarrow> sale_result db_act" where
  "create_sale sv cx appID in' confirmed =
     in_application cx appID True (\<lambda>scoped _ sc.
     andThen (pureA (validate_sale in')) (\<lambda>_.
     if confirmed \<and> trim_space (si_reason in') = [] then raise invalid
     else update scoped sc (sale_body sv appID in' confirmed)))"

definition confirm_sale :: "svc \<Rightarrow> ctx \<Rightarrow> string \<Rightarrow> string \<Rightarrow> string \<Rightarrow> sale_result db_act" where
  "confirm_sale sv cx appID orderID reason =
     in_application cx appID True (\<lambda>scoped _ sc.
     if trim_space reason = [] then raise invalid
     else update scoped sc (\<lambda>h.
       andThen (tx_application h) (\<lambda>app.
       andThen (orElse (t_get orders_t h orderID) not_found) (\<lambda>order.
       andThen (issue_order sv h app (order\<lparr>o_reason := reason\<rparr>) (o_purpose order) (o_redeem_until order)) (\<lambda>out.
       andThen (append_event sv h ''sale_confirmed'' orderID [(''reason'', PStr reason)]) (\<lambda>_.
       ret out))))))"

definition list_sales :: "ctx \<Rightarrow> string \<Rightarrow> sales_order list db_act" where
  "list_sales cx i = listing cx i orders_t (no_filter\<lparr>f_limit := 1000\<rparr>)"

definition list_cards :: "ctx \<Rightarrow> string \<Rightarrow> card_key list db_act" where
  "list_cards cx i = listing cx i cards_t (no_filter\<lparr>f_limit := 1000\<rparr>)"

definition revoke_card :: "svc \<Rightarrow> ctx \<Rightarrow> string \<Rightarrow> string \<Rightarrow> string \<Rightarrow> unit db_act" where
  "revoke_card sv cx appID cardID reason =
     in_application cx appID True (\<lambda>scoped _ sc.
     if trim_space reason = [] then raise invalid
     else update scoped sc (\<lambda>h.
       andThen (orElse (t_get cards_t h cardID) not_found) (\<lambda>crd.
       andThen (t_save cards_t h (crd\<lparr>c_status := ''revoked'', r_updated := s_now sv\<rparr>)) (\<lambda>_.
       append_event sv h ''card_revoked'' cardID
         [(''reason'', PStr reason), (''license_unchanged'', PBool True)]))))"

section \<open>Sales channels\<close>

record channel_input =
  ci_name :: string
  ci_enabled :: bool
  ci_plans :: "string list"

record channel_credentials =
  ck_channel :: sales_channel
  ck_secret :: string

definition save_channel_body ::
  "svc \<Rightarrow> string \<Rightarrow> string \<Rightarrow> channel_input \<Rightarrow> bool \<Rightarrow> handle \<Rightarrow> channel_credentials db_act" where
  "save_channel_body sv appID channelID in' rot0 h =
     andThen (forEach (ci_plans in') (\<lambda>i. orElse (andThen (t_get plans_t h i) (\<lambda>_. ret ())) not_found)) (\<lambda>_.
     andThen
       (if channelID = []
        then andThen (new_id sv ''channel'') (\<lambda>i.
          ret \<lparr>r_app = appID, r_id = i, r_created = s_now sv, r_updated = s_now sv, ch_name = [],
               ch_kind = ''signed_webhook'', ch_enabled = False, ch_secret_cipher = [], ch_version = 0,
               ch_plans = []\<rparr>)
        else orElse (t_get channels_t h channelID) not_found) (\<lambda>old.
     let rot = rot0 \<or> channelID = [];
         ch = old\<lparr>ch_name := trim_space (ci_name in'), ch_enabled := ci_enabled in', ch_plans := ci_plans in',
                  r_updated := s_now sv\<rparr> in
     andThen
       (if rot then
          andThen (random_hex sv 32) (\<lambda>raw.
          andThen (encrypt_for sv appID ''webhook'' raw) (\<lambda>cipher.
          ret (ch\<lparr>ch_secret_cipher := cipher, ch_version := i64 (ch_version ch + 1)\<rparr>, raw)))
        else ret (ch, [])) (\<lambda>(ch, raw).
     andThen (if channelID = [] then t_insert channels_t h ch else t_save channels_t h ch) (\<lambda>_.
     andThen (append_event sv h ''sales_channel_saved'' (r_id ch)
       [(''secret_rotated'', PBool rot), (''enabled'', PBool (ci_enabled in'))]) (\<lambda>_.
     ret \<lparr>ck_channel = ch, ck_secret = raw\<rparr>)))))"

definition save_sales_channel ::
  "svc \<Rightarrow> ctx \<Rightarrow> string \<Rightarrow> string \<Rightarrow> channel_input \<Rightarrow> bool \<Rightarrow> channel_credentials db_act" where
  "save_sales_channel sv cx appID channelID in' rot =
     in_application cx appID True (\<lambda>scoped _ sc.
     if trim_space (ci_name in') = [] \<or> 160 < length (ci_name in') \<or> ci_plans in' = [] \<or>
        1000 < length (ci_plans in')
     then raise invalid
     else update scoped sc (save_channel_body sv appID channelID in' rot))"

definition list_sales_channels :: "ctx \<Rightarrow> string \<Rightarrow> sales_channel list db_act" where
  "list_sales_channels cx i = listing cx i channels_t (no_filter\<lparr>f_limit := 1000\<rparr>)"

section \<open>Refunds\<close>

definition revoke_licenses :: "svc \<Rightarrow> handle \<Rightarrow> string list \<Rightarrow> unit db_act" where
  "revoke_licenses sv h ids =
     forEach ids (\<lambda>i.
       andThen (t_get licenses_t h i) (\<lambda>l.
       t_save licenses_t h (l\<lparr>l_status := ''revoked'', l_reason := ''sales_refund'', r_updated := s_now sv\<rparr>)))"

text \<open>Revokes the cards bound to the licenses of the order and collects the licenses they renewed.\<close>

definition refund_cards :: "svc \<Rightarrow> handle \<Rightarrow> string list \<Rightarrow> string list db_act" where
  "refund_cards sv h ids =
     foldEach ids [] (\<lambda>i affected.
       andThen (t_find cards_t h (no_filter\<lparr>f_bound_license_id := i, f_limit := 1000\<rparr>)) (\<lambda>cards.
       foldEach cards affected (\<lambda>crd affected.
         andThen (t_save cards_t h (crd\<lparr>c_refunded_at := Some (s_now sv), c_status := ''revoked'',
                                        r_updated := s_now sv\<rparr>)) (\<lambda>_.
         ret (if c_redeemed crd \<noteq> [] then List.insert (c_redeemed crd) affected else affected)))))"

definition return_cost :: "svc \<Rightarrow> handle \<Rightarrow> sales_order \<Rightarrow> unit db_act" where
  "return_cost sv h order =
     (if o_agent order = [] then ret ()
      else
        andThen (credit_agent h (o_agent order) (o_cost order)) (\<lambda>balance.
        andThen (new_id sv ''money'') (\<lambda>i.
        t_insert money_t h \<lparr>r_app = r_app order, r_id = i, r_created = s_now sv, r_updated = s_now sv,
          m_request_hash = [], m_agent = o_agent order, m_order = r_id order,
          m_request = ''refund:'' @ r_id order, m_amount = o_cost order, m_balance_after = balance,
          m_kind = ''refund''\<rparr>)))"

definition refund_order :: "svc \<Rightarrow> handle \<Rightarrow> sales_order \<Rightarrow> string \<Rightarrow> sales_order db_act" where
  "refund_order sv h order reason =
     (if o_status order = ''refunded'' then ret order
      else if o_status order \<noteq> ''confirmed'' then raise (conflict ''ORDER_NOT_CONFIRMED'')
      else
        let next = order\<lparr>o_status := ''refunded'', r_updated := s_now sv\<rparr> in
        andThen (t_save orders_t h next) (\<lambda>_.
        andThen (revoke_licenses sv h (o_licenses next)) (\<lambda>_.
        andThen (refund_cards sv h (o_licenses next)) (\<lambda>affected.
        andThen (forEach (s_range sv affected) (recompute_renewals sv h)) (\<lambda>_.
        andThen (return_cost sv h next) (\<lambda>_.
        andThen (append_event sv h ''sale_refunded'' (r_id next)
          [(''reason'', PStr reason), (''cost_returned_cents'', PInt (o_cost next))]) (\<lambda>_.
        ret next)))))))"

definition refund_sale :: "svc \<Rightarrow> ctx \<Rightarrow> string \<Rightarrow> string \<Rightarrow> string \<Rightarrow> sales_order db_act" where
  "refund_sale sv cx appID orderID reason =
     in_application cx appID True (\<lambda>scoped _ sc.
     if trim_space reason = [] \<or> 1000 < length reason then raise invalid
     else update scoped sc (\<lambda>h.
       andThen (orElse (t_get orders_t h orderID) not_found) (\<lambda>order.
       if o_agent order \<noteq> [] \<and> \<not> privileged (acting cx) True then raise (forbidden ''ROLE_FORBIDDEN'')
       else refund_order sv h order reason)))"

section \<open>The signed webhook\<close>

text \<open>
  \<open>fmt.Sscanf(timestamp, "%d", &stamp)\<close> with \<open>fmt.Sprint(stamp) == timestamp\<close>: the text is the
  canonical decimal form of a 64-bit integer.
\<close>

definition parse_stamp :: "string \<Rightarrow> int option" where
  "parse_stamp text =
     (let n = (case text of [] \<Rightarrow> 0 | c # cs \<Rightarrow> if c = CHR ''-'' then - digits_value cs else digits_value text) in
      if itoa n = text \<and> i64 n = n then Some n else None)"

definition webhook_clock_ok :: "svc \<Rightarrow> string \<Rightarrow> bool" where
  "webhook_clock_ok sv timestamp =
     (case parse_stamp timestamp of
        None \<Rightarrow> False
      | Some n \<Rightarrow> s_now sv - at_unix n \<le> 2 * minute \<and> at_unix n - s_now sv \<le> 2 * minute)"

definition webhook_signature :: "svc \<Rightarrow> string \<Rightarrow> string \<Rightarrow> string \<Rightarrow> string" where
  "webhook_signature sv secret timestamp body = hex_encode (s_hmac_with sv secret (timestamp @ [CHR 0x0A] @ body))"

text \<open>A refund names the order by the event that paid it.\<close>

definition webhook_refund :: "svc \<Rightarrow> handle \<Rightarrow> string \<Rightarrow> webhook_input \<Rightarrow> sale_result db_act" where
  "webhook_refund sv h channelID in' =
     andThen (t_find orders_t h (no_filter\<lparr>f_channel_id := channelID, f_external_id := wi_original in',
                f_limit := 2\<rparr>)) (\<lambda>orders.
     case orders of [] \<Rightarrow> raise invalid | order # others \<Rightarrow>
     if others \<noteq> [] then raise invalid
     else
       andThen (refund_order sv h order ''signed sales refund'') (\<lambda>order.
       ret \<lparr>sr_order = order, sr_cards = [], sr_replayed = False\<rparr>))"

definition webhook_payment ::
  "svc \<Rightarrow> handle \<Rightarrow> application \<Rightarrow> string \<Rightarrow> string \<Rightarrow> sales_channel \<Rightarrow> webhook_input \<Rightarrow> sale_result db_act" where
  "webhook_payment sv h app appID channelID ch in' =
     (let sale = wi_sale in' in
      andThen (pureA (validate_sale sale)) (\<lambda>_.
      if si_terms sale \<noteq> None then raise invalid
      else if si_plan sale \<notin> set (ch_plans ch) then raise (forbidden ''PLAN_NOT_GRANTED'')
      else
        andThen (orElse (t_get plans_t h (si_plan sale)) not_found) (\<lambda>p.
        if \<not> p_enabled p then raise (forbidden ''PLAN_DISABLED'')
        else
          andThen (new_id sv ''order'') (\<lambda>i.
          let order = (ordered sale (new_order sv appID i p (p_terms p)))
                \<lparr>o_channel := channelID, o_external := wi_event_id in'\<rparr> in
          andThen (t_insert orders_t h order) (\<lambda>_.
          issue_order sv h app order (si_purpose sale) (si_redeem_until sale))))))"

definition webhook_body ::
  "svc \<Rightarrow> string \<Rightarrow> string \<Rightarrow> webhook_input \<Rightarrow> string \<Rightarrow> string \<Rightarrow> string \<Rightarrow> handle \<Rightarrow> sale_result db_act" where
  "webhook_body sv appID channelID in' timestamp signature body h =
     andThen (tx_application h) (\<lambda>app.
     andThen (orElse (t_get channels_t h channelID) (forbidden ''CHANNEL_DISABLED'')) (\<lambda>ch.
     if \<not> ch_enabled ch then raise (forbidden ''CHANNEL_DISABLED'')
     else case s_decrypt sv appID ''webhook'' (ch_secret_cipher ch) of
       None \<Rightarrow> raise (Fault ''decrypt'')
     | Some secret \<Rightarrow>
         if webhook_signature sv secret timestamp body \<noteq> signature then raise (forbidden ''SIGNATURE_INVALID'')
         else
           let bodyHash = sha_hex sv (s_webhook_json sv in') in
           andThen (t_find webhooks_t h (no_filter\<lparr>f_channel_id := channelID, f_external_id := wi_event_id in',
                      f_limit := 1\<rparr>)) (\<lambda>receipts.
           case receipts of
             receipt # _ \<Rightarrow>
               if wh_body_hash receipt \<noteq> bodyHash then raise (conflict ''IDEMPOTENCY_CONFLICT'')
               else andThen (t_get orders_t h (wh_order receipt)) (\<lambda>order.
                 ret \<lparr>sr_order = order, sr_cards = [], sr_replayed = True\<rparr>)
           | [] \<Rightarrow>
               andThen
                 (if wi_event in' = ''payment.refunded'' then webhook_refund sv h channelID in'
                  else webhook_payment sv h app appID channelID ch in') (\<lambda>out.
               andThen (new_id sv ''webhook'') (\<lambda>i.
               andThen (t_insert webhooks_t h \<lparr>r_app = appID, r_id = i, r_created = s_now sv, r_updated = s_now sv,
                          wh_channel = channelID, wh_external = wi_event_id in', wh_body_hash = bodyHash,
                          wh_order = r_id (sr_order out), wh_result = wi_event in'\<rparr>) (\<lambda>_.
               andThen (append_event sv h ''sales_webhook'' (r_id (sr_order out))
                 [(''event'', PStr (wi_event in')), (''event_id'', PStr (wi_event_id in')),
                  (''quantity'', PInt (o_quantity (sr_order out)))]) (\<lambda>_.
               ret out)))))))"

definition webhook_valid :: "webhook_input \<Rightarrow> bool" where
  "webhook_valid in' \<longleftrightarrow>
     wi_event_id in' \<noteq> [] \<and> length (wi_event_id in') \<le> 190 \<and>
     (wi_event in' = ''payment.confirmed'' \<or> wi_event in' = ''payment.refunded'')"

definition receive_sale ::
  "svc \<Rightarrow> ctx \<Rightarrow> string \<Rightarrow> string \<Rightarrow> string \<Rightarrow> string \<Rightarrow> string \<Rightarrow> sale_result db_act" where
  "receive_sale sv cx appID channelID timestamp signature body =
     in_runtime cx appID (mk_actor ''sales_channel'' channelID) (\<lambda>scoped _ sc.
     case s_webhook_parse sv body of None \<Rightarrow> raise invalid | Some in' \<Rightarrow>
     if \<not> webhook_valid in' then raise invalid
     else if \<not> webhook_clock_ok sv timestamp then raise (forbidden ''REQUEST_EXPIRED'')
     else or_failure sv scoped sc ''sales_webhook'' channelID
            (update scoped sc (webhook_body sv appID channelID in' timestamp signature body)))"

section \<open>Handlers as sequences of transactions\<close>

lemma sales_via [via_intros]:
  "via R (list_sales cx i)" "via R (list_cards cx i)" "via R (list_sales_channels cx i)"
  unfolding list_sales_def list_cards_def list_sales_channels_def by (intro via_intros)+

lemma issue_within [via_intros]: "within (audit_sign sv) h (issue_order sv h app order purpose until)"
proof -
  have code: "within sg h (issue_code sv h app order i)" for sg i
    unfolding issue_code_def Let_def by (intro via_intros)
  have one: "within sg h (issue_one sv h app order purpose until batch i p)" for sg purpose batch i p
    unfolding issue_one_def by (intro via_intros code)
  show ?thesis unfolding issue_order_def Let_def by (intro via_intros one)
qed

lemma refund_within [via_intros]: "within (audit_sign sv) h (refund_order sv h order reason)"
proof -
  have "within sg h (revoke_licenses sv h ids)" for sg ids
    unfolding revoke_licenses_def by (intro via_intros)
  moreover have "within sg h (refund_cards sv h ids)" for sg ids
    unfolding refund_cards_def by (intro via_intros)
  moreover have "within sg h (return_cost sv h order)" for sg order
    unfolding return_cost_def by (intro via_intros)
  ultimately show ?thesis unfolding refund_order_def Let_def by (intro via_intros)
qed

lemma sales_within [via_intros]:
  "within (audit_sign sv) h (sale_body sv i sin confirmed h)"
  "within (audit_sign sv) h (save_channel_body sv i channelID cin rot h)"
  "within (audit_sign sv) h (webhook_body sv i channelID win timestamp signature body h)"
proof -
  show "within (audit_sign sv) h (sale_body sv i sin confirmed h)"
    unfolding sale_body_def Let_def by (intro via_intros)
  show "within (audit_sign sv) h (save_channel_body sv i channelID cin rot h)"
    unfolding save_channel_body_def Let_def by (intro via_intros)
  show "within (audit_sign sv) h (webhook_body sv i channelID win timestamp signature body h)"
    unfolding webhook_body_def webhook_refund_def webhook_payment_def Let_def by (intro via_intros)
qed

lemma sales_serves [via_intros]:
  "serves (audit_sign sv) i (create_sale sv cx i sin confirmed)"
  "serves (audit_sign sv) i (confirm_sale sv cx i orderID reason)"
  "serves (audit_sign sv) i (revoke_card sv cx i cardID reason)"
  "serves (audit_sign sv) i (save_sales_channel sv cx i channelID cin rot)"
  "serves (audit_sign sv) i (receive_sale sv cx i channelID timestamp signature body)"
  "serves (audit_sign sv) i (refund_sale sv cx i orderID reason)"
  unfolding create_sale_def confirm_sale_def revoke_card_def save_sales_channel_def receive_sale_def
    refund_sale_def
  by (intro via_intros; assumption)+

end
