(* ===== verification/Installations.thy ===== *)
theory Installations
  imports Lifecycle
begin

text \<open>
  \<open>installations.go\<close> and \<open>customers.go\<close>: an installation that asks to be approved, the operator's
  decision, the customer's claim of a license by card and the operator's assignment of an owner; what
  a customer sees of their licenses, and how they disable one of their installations.
\<close>

section \<open>Requests for approval\<close>

record pending_input =
  pi_app :: string
  pi_public_key :: string
  pi_binding :: binding_input
  pi_label :: string

text \<open>The transaction of \<open>RequestInstallation\<close>: a request that is still open is returned again.\<close>

definition request_body ::
  "svc \<Rightarrow> pending_input \<Rightarrow> signed_request \<Rightarrow> string \<Rightarrow> handle \<Rightarrow> pending_installation db_act" where
  "request_body sv in' req hash h =
     andThen (tx_application h) (\<lambda>app.
     if ap_status app \<noteq> ''active'' \<or> bi_type (pi_binding in') \<notin> set (ap_bindings app)
     then raise (forbidden ''APPLICATION_DISABLED'')
     else
       andThen (pureA (runtime_binding sv app (pi_binding in') 128 req hash)) (\<lambda>b.
       andThen (t_find pending_t h (no_filter\<lparr>f_public_key_hash := hash, f_binding_hash := nb_hash b,
                  f_status := ''pending'', f_limit := 1000\<rparr>)) (\<lambda>old.
       case List.find (\<lambda>v. s_now sv < pd_expires v) old of
         Some v \<Rightarrow> ret v
       | None \<Rightarrow>
           andThen (new_id sv ''pending'') (\<lambda>i.
           let v = \<lparr>r_app = pi_app in', r_id = i, r_created = s_now sv, r_updated = s_now sv, pd_license = [],
                    pd_public_key = pi_public_key in', pd_key_hash = hash, pd_binding_type = nb_kind b,
                    pd_binding_hash = nb_hash b, pd_client_hash = nb_client_hash b, pd_display = nb_display b,
                    pd_status = ''pending'', pd_expires = s_now sv + 48 * hour, pd_activation = []\<rparr> in
           andThen (t_insert pending_t h v) (\<lambda>_.
           andThen (append_event sv h ''installation_requested'' (r_id v)
             [(''binding_type'', PStr (nb_kind b)), (''masked_anchor'', PStr (nb_display b))]) (\<lambda>_.
           ret v))))))"

definition request_installation ::
  "svc \<Rightarrow> ctx \<Rightarrow> pending_input \<Rightarrow> signed_request \<Rightarrow> pending_installation db_act" where
  "request_installation sv cx in' req =
     in_installation sv cx (pi_app in') (pi_public_key in') req (\<lambda>scoped _ sc.
       let hash = (case public_key_fingerprint sv (pi_public_key in') of Inl _ \<Rightarrow> [] | Inr x \<Rightarrow> x) in
       update scoped sc (request_body sv in' req hash))"

definition list_pending_installations :: "ctx \<Rightarrow> string \<Rightarrow> pending_installation list db_act" where
  "list_pending_installations cx i = listing cx i pending_t (no_filter\<lparr>f_limit := 1000\<rparr>)"

definition approve_installation ::
  "svc \<Rightarrow> ctx \<Rightarrow> string \<Rightarrow> string \<Rightarrow> string \<Rightarrow> string \<Rightarrow> string \<Rightarrow> unit db_act" where
  "approve_installation sv cx appID pendingID licenseID status reason =
     in_application cx appID True (\<lambda>scoped _ sc.
     if status \<noteq> ''approved'' \<and> status \<noteq> ''rejected'' \<or> trim_space reason = [] then raise invalid
     else update scoped sc (\<lambda>h.
       andThen (orElse (t_get pending_t h pendingID) not_found) (\<lambda>v.
       if pd_status v \<noteq> ''pending'' \<or> \<not> s_now sv < pd_expires v then raise (conflict ''REQUEST_NOT_PENDING'')
       else
         andThen
           (if status = ''approved'' then
              andThen (orElse (t_get licenses_t h licenseID) not_found) (\<lambda>l.
              andThen (tx_application h) (\<lambda>app.
              andThen (pureA (check_usable app l (s_now sv))) (\<lambda>_.
              if pd_binding_type v \<notin> set (t_bindings (l_terms l)) then raise invalid
              else ret (v\<lparr>pd_license := licenseID\<rparr>))))
            else ret v) (\<lambda>v.
         andThen (t_save pending_t h (v\<lparr>pd_status := status, r_updated := s_now sv\<rparr>)) (\<lambda>_.
         append_event sv h (''installation_'' @ status) pendingID
           [(''license_id'', PStr licenseID), (''reason'', PStr reason)])))))"

section \<open>Owners\<close>

definition claim_customer_license :: "svc \<Rightarrow> ctx \<Rightarrow> string \<Rightarrow> string \<Rightarrow> license db_act" where
  "claim_customer_license sv cx appID code =
     andThen (pureA (principal_from cx)) (\<lambda>p.
     if pr_kind p \<noteq> ''customer'' then raise (forbidden ''ROLE_FORBIDDEN'')
     else in_runtime cx appID (pr_actor p) (\<lambda>scoped _ sc.
       update scoped sc (\<lambda>h.
         andThen (t_find cards_t h (no_filter\<lparr>f_key_hash := card_hash sv appID code, f_limit := 1\<rparr>)) (\<lambda>cards.
         case cards of [] \<Rightarrow> raise (forbidden ''CARD_INVALID'') | crd # others \<Rightarrow>
         if others \<noteq> [] \<or> c_purpose crd \<noteq> ''activate'' \<or> c_status crd = ''revoked''
         then raise (forbidden ''CARD_INVALID'')
         else if (case c_redeem_until crd of None \<Rightarrow> False | Some t \<Rightarrow> \<not> s_now sv < t)
         then raise (forbidden ''CARD_EXPIRED'')
         else
           andThen (t_get licenses_t h (c_bound crd)) (\<lambda>l.
           if l_owner l \<noteq> [] \<and> l_owner l \<noteq> pr_id p then raise (conflict ''LICENSE_ALREADY_OWNED'')
           else if l_owner l = pr_id p then ret l
           else
             let next = l\<lparr>l_owner := pr_id p, r_updated := s_now sv\<rparr> in
             andThen (t_save licenses_t h next) (\<lambda>_.
             andThen (append_event sv h ''license_owner_claimed'' (r_id l)
               [(''owner_user_id'', PStr (pr_id p))]) (\<lambda>_.
             ret next)))))))"

definition assign_license_owner ::
  "svc \<Rightarrow> ctx \<Rightarrow> string \<Rightarrow> string \<Rightarrow> string \<Rightarrow> string \<Rightarrow> unit db_act" where
  "assign_license_owner sv cx appID licenseID user reason =
     in_application cx appID True (\<lambda>scoped _ sc.
     if trim_space reason = [] \<or> user = [] then raise invalid
     else update scoped sc (\<lambda>h.
       andThen (orElse (t_get licenses_t h licenseID) not_found) (\<lambda>l.
       andThen (tx_application h) (\<lambda>app.
       let moves = l_owner l \<noteq> [] \<and> l_owner l \<noteq> user in
       if moves \<and> \<not> ap_owner_transfer app then raise (forbidden ''OWNER_TRANSFER_DISABLED'')
       else
         andThen
           (if moves then
              andThen (t_count activations_t h (no_filter\<lparr>f_license_id := r_id l, f_active_at := Some (s_now sv),
                         f_borrowed := Some True\<rparr>)) (\<lambda>held.
              if 0 < held then raise (conflict ''BORROWED_SEAT_HELD'')
              else
                andThen (deactivate_all h (r_id l) (s_now sv)) (\<lambda>_.
                invalidate_invitations h (r_id l) (s_now sv)))
            else ret ()) (\<lambda>_.
         andThen (t_save licenses_t h (l\<lparr>l_owner := user, r_updated := s_now sv\<rparr>)) (\<lambda>_.
         append_event sv h ''license_owner_assigned'' (r_id l)
           [(''from'', PStr (l_owner l)), (''to'', PStr user), (''reason'', PStr reason)]))))))"

section \<open>The customer's view\<close>

record public_application =
  pa_app :: string
  pa_name :: string
  pa_bindings :: "string list"

definition public_view :: "application \<Rightarrow> public_application" where
  "public_view app = \<lparr>pa_app = r_app app, pa_name = ap_name app, pa_bindings = ap_bindings app\<rparr>"

record customer_activation =
  cv_id :: string
  cv_label :: string
  cv_binding_type :: string
  cv_verified_at :: int
  cv_lease :: "int option"
  cv_deactivated_at :: "int option"
  cv_borrowed :: bool

record entitlement =
  en_application :: public_application
  en_license :: license
  en_activations :: "customer_activation list"
  en_status :: string
  en_updates :: bool

definition customer_activation_of :: "activation \<Rightarrow> customer_activation" where
  "customer_activation_of a =
     \<lparr>cv_id = r_id a, cv_label = a_label a, cv_binding_type = a_binding_type a, cv_verified_at = a_verified_at a,
      cv_lease = a_lease a, cv_deactivated_at = a_deactivated_at a, cv_borrowed = a_borrowed a\<rparr>"

definition customer_entitlements :: "ctx \<Rightarrow> entitlement list db_act" where
  "customer_entitlements cx =
     andThen (pureA (principal_from cx)) (\<lambda>p.
     if pr_kind p \<noteq> ''customer'' then raise (forbidden ''ROLE_FORBIDDEN'')
     else andThen (reg_list []) (\<lambda>apps.
       foldEach apps [] (\<lambda>app out.
         in_runtime cx (r_app app) (pr_actor p) (\<lambda>scoped _ sc.
         view scoped sc (\<lambda>h.
           andThen (t_find licenses_t h (no_filter\<lparr>f_owner_user_id := pr_id p, f_exclude_renewals := True,
                      f_limit := 10000\<rparr>)) (\<lambda>licenses.
           foldEach licenses out (\<lambda>l out.
             andThen (t_find activations_t h (no_filter\<lparr>f_license_id := r_id l, f_limit := 10000\<rparr>)) (\<lambda>activations.
             ret (out @ [\<lparr>en_application = public_view app, en_license = l,
                          en_activations = map customer_activation_of activations,
                          en_status = ap_status app, en_updates = ap_updates_enabled app\<rparr>])))))))))"

definition customer_deactivate ::
  "svc \<Rightarrow> ctx \<Rightarrow> string \<Rightarrow> string \<Rightarrow> string \<Rightarrow> string \<Rightarrow> unit db_act" where
  "customer_deactivate sv cx appID licenseID activationID reason =
     in_owned cx appID licenseID True (\<lambda>scoped _ sc.
     andThen (pureA (principal_from cx)) (\<lambda>p.
     if reason = [] then raise invalid
     else update scoped sc (\<lambda>h.
       andThen (orElse (t_get licenses_t h licenseID) not_found) (\<lambda>l.
       if stranger p l then raise not_found
       else
         andThen (orElse (t_get activations_t h activationID) not_found) (\<lambda>a.
         if a_license a \<noteq> licenseID then raise not_found
         else if seat_held sv a then raise (conflict ''BORROWED_SEAT_HELD'')
         else
           andThen (t_save activations_t h (a\<lparr>a_deactivated_at := Some (s_now sv),
                      a_deactivation_reason := ''customer_disabled'', r_updated := s_now sv\<rparr>)) (\<lambda>_.
           append_event sv h ''installation_deactivated'' (r_id a)
             [(''license_id'', PStr (r_id l)), (''reason'', PStr reason)]))))))"

section \<open>Handlers as sequences of transactions\<close>

lemma installations_via [via_intros]:
  "via R (list_pending_installations cx i)" "via R (customer_entitlements cx)"
  unfolding list_pending_installations_def customer_entitlements_def by (intro via_intros)+

lemma request_within [via_intros]: "within (audit_sign sv) h (request_body sv pin req hash h)"
  unfolding request_body_def Let_def by (intro via_intros)

lemma installations_serves [via_intros]:
  "serves (audit_sign sv) (pi_app pin) (request_installation sv cx pin req)"
  "serves (audit_sign sv) i (approve_installation sv cx i pendingID licenseID status reason)"
  "serves (audit_sign sv) i (claim_customer_license sv cx i code)"
  "serves (audit_sign sv) i (assign_license_owner sv cx i licenseID user reason)"
  "serves (audit_sign sv) i (customer_deactivate sv cx i licenseID activationID reason)"
  unfolding request_installation_def approve_installation_def claim_customer_license_def
    assign_license_owner_def customer_deactivate_def Let_def
  by (intro via_intros; assumption)+

end
