(* ===== verification/Catalog.thy ===== *)
theory Catalog
  imports Lifecycle
begin

text \<open>
  \<open>catalog.go\<close>: the plans an application sells, the binding rules it enforces, and the read-only
  views of its diagnostics and audit events. The terms of a plan are frozen once a license has been
  issued for it; Go compares the JSON encodings of the terms, here they are compared as values.
\<close>

section \<open>Plans\<close>

record plan_input =
  pl_name :: string
  pl_terms :: terms
  pl_price :: int
  pl_agent_cost :: int
  pl_currency :: string
  pl_enabled :: "bool option"

definition list_plans :: "ctx \<Rightarrow> string \<Rightarrow> plan list db_act" where
  "list_plans cx i = listing cx i plans_t (no_filter\<lparr>f_limit := 1000\<rparr>)"

definition set_enabled :: "bool option \<Rightarrow> plan \<Rightarrow> plan" where
  "set_enabled enabled p = (case enabled of None \<Rightarrow> p | Some b \<Rightarrow> p\<lparr>p_enabled := b\<rparr>)"

text \<open>Inserts a plan, or changes one: its terms only while no license has them.\<close>

definition put_plan ::
  "svc \<Rightarrow> string \<Rightarrow> string \<Rightarrow> plan_input \<Rightarrow> string \<Rightarrow> terms \<Rightarrow> handle \<Rightarrow> plan db_act" where
  "put_plan sv appID planID input currency trms h =
     (let name = trim_space (pl_name input) in
      if planID = [] then
        andThen (new_id sv ''plan'') (\<lambda>i.
        let p = set_enabled (pl_enabled input)
              \<lparr>r_app = appID, r_id = i, r_created = s_now sv, r_updated = s_now sv, p_name = name,
               p_enabled = True, p_terms = trms, p_price = pl_price input, p_agent_cost = pl_agent_cost input,
               p_currency = currency\<rparr> in
        andThen (t_insert plans_t h p) (\<lambda>_. ret p))
      else
        andThen (orElse (t_get plans_t h planID) not_found) (\<lambda>old.
        andThen
          (if p_terms old \<noteq> trms
           then andThen (t_count licenses_t h (no_filter\<lparr>f_plan_id := planID\<rparr>)) (\<lambda>n.
             if 0 < n then raise (conflict ''PLAN_TERMS_FROZEN'') else ret ())
           else ret ()) (\<lambda>_.
        let p = (set_enabled (pl_enabled input)
              (old\<lparr>p_name := name, p_terms := trms, p_price := pl_price input,
                   p_agent_cost := pl_agent_cost input, p_currency := currency\<rparr>))\<lparr>r_updated := s_now sv\<rparr> in
        andThen (t_save plans_t h p) (\<lambda>_. ret p))))"

definition save_plan :: "svc \<Rightarrow> ctx \<Rightarrow> string \<Rightarrow> string \<Rightarrow> plan_input \<Rightarrow> plan db_act" where
  "save_plan sv cx appID planID input =
     in_application cx appID True (\<lambda>scoped app sc.
     let name = trim_space (pl_name input);
         currency = (if pl_currency input = [] then ''CNY'' else pl_currency input) in
     if name = [] \<or> 160 < length name \<or> pl_price input < 0 \<or> 1000000000000 < pl_price input \<or>
        pl_agent_cost input < 0 \<or> 1000000000000 < pl_agent_cost input
     then raise invalid
     else if currency \<noteq> ''CNY'' then raise invalid
     else
       andThen (pureA (normalize_terms sv app (pl_terms input))) (\<lambda>terms0.
       update scoped sc (\<lambda>h.
         andThen (tx_application h) (\<lambda>current.
         andThen (pureA (normalize_terms sv current terms0)) (\<lambda>trms.
         andThen (forEach (t_renewal_targets trms) (\<lambda>target.
           orElse (andThen (t_get plans_t h target) (\<lambda>_. ret ())) invalid)) (\<lambda>_.
         andThen (put_plan sv appID planID input currency trms h) (\<lambda>p.
         andThen (append_event sv h ''plan_saved'' (r_id p)
           [(''name'', PStr name), (''model'', PStr (t_model trms)), (''enabled'', PBool (p_enabled p))]) (\<lambda>_.
         ret p))))))))"

section \<open>Binding rules\<close>

definition list_binding_rules :: "ctx \<Rightarrow> string \<Rightarrow> binding_rule list db_act" where
  "list_binding_rules cx i = listing cx i rules_t (no_filter\<lparr>f_limit := 1000\<rparr>)"

definition put_rule ::
  "svc \<Rightarrow> string \<Rightarrow> string \<Rightarrow> binding_rule \<Rightarrow> string \<Rightarrow> handle \<Rightarrow> binding_rule db_act" where
  "put_rule sv appID ruleID input pattern h =
     (if ruleID = [] then
        andThen (new_id sv ''rule'') (\<lambda>i.
        let r = input\<lparr>r_app := appID, r_id := i, r_created := s_now sv, r_updated := s_now sv,
                      br_pattern := pattern\<rparr> in
        andThen (t_insert rules_t h r) (\<lambda>_. ret r))
      else
        andThen (orElse (t_get rules_t h ruleID) not_found) (\<lambda>old.
        let r = old\<lparr>br_kind := br_kind input, br_pattern := pattern, br_enabled := br_enabled input,
                    br_apex := br_apex input, br_depth := br_depth input, br_license := br_license input,
                    br_label := br_label input, r_updated := s_now sv\<rparr> in
        andThen (t_save rules_t h r) (\<lambda>_. ret r)))"

definition save_binding_rule ::
  "svc \<Rightarrow> ctx \<Rightarrow> string \<Rightarrow> string \<Rightarrow> binding_rule \<Rightarrow> binding_rule db_act" where
  "save_binding_rule sv cx appID ruleID input0 =
     in_application cx appID True (\<lambda>scoped _ sc.
     if br_kind input0 \<noteq> ''domain'' \<and> br_kind input0 \<noteq> ''ip'' then raise invalid
     else
       andThen (pureA (normalize_rule sv (br_kind input0) (br_pattern input0))) (\<lambda>pattern.
       let input = (if br_depth input0 = [] then input0\<lparr>br_depth := ''one''\<rparr> else input0) in
       if br_depth input \<noteq> ''one'' \<and> br_depth input \<noteq> ''all'' \<or> 160 < length (br_label input) then raise invalid
       else update scoped sc (\<lambda>h.
         andThen
           (if br_license input \<noteq> []
            then orElse (andThen (t_get licenses_t h (br_license input)) (\<lambda>_. ret ())) not_found
            else ret ()) (\<lambda>_.
         andThen (put_rule sv appID ruleID input pattern h) (\<lambda>r.
         andThen (append_event sv h ''binding_rule_saved'' (r_id r)
           [(''kind'', PStr (br_kind r)), (''enabled'', PBool (br_enabled r)),
            (''license_id'', PStr (br_license r))]) (\<lambda>_.
         ret r))))))"

definition remove_binding_rule :: "svc \<Rightarrow> ctx \<Rightarrow> string \<Rightarrow> string \<Rightarrow> string \<Rightarrow> unit db_act" where
  "remove_binding_rule sv cx appID ruleID reason =
     in_application cx appID True (\<lambda>scoped _ sc.
     if trim_space reason = [] then raise invalid
     else update scoped sc (\<lambda>h.
       andThen (orElse (t_delete rules_t h ruleID) not_found) (\<lambda>_.
       append_event sv h ''binding_rule_removed'' ruleID [(''reason'', PStr reason)])))"

section \<open>Diagnostics and audit events\<close>

definition diagnostics_of :: "svc \<Rightarrow> ctx \<Rightarrow> string \<Rightarrow> diagnostics db_act" where
  "diagnostics_of sv cx i =
     in_application cx i False (\<lambda>scoped _ sc. view scoped sc (\<lambda>h. tx_diagnostics h (s_now sv)))"

definition audit_events :: "ctx \<Rightarrow> string \<Rightarrow> filter_spec \<Rightarrow> audit_event list db_act" where
  "audit_events cx i f = listing cx i audit_t f"

section \<open>Handlers as sequences of transactions\<close>

lemma catalog_via [via_intros]:
  "via R (list_plans cx i)" "via R (list_binding_rules cx i)" "via R (diagnostics_of sv cx i)"
  "via R (audit_events cx i f)"
  unfolding list_plans_def list_binding_rules_def diagnostics_of_def audit_events_def tx_diagnostics_def
  by (intro via_intros)+

lemma catalog_within [via_intros]:
  "within sg h (put_plan sv i planID pin currency trms h)"
  "within sg h (put_rule sv i ruleID rin pattern h)"
proof -
  show "within sg h (put_plan sv i planID pin currency trms h)"
    unfolding put_plan_def Let_def by (intro via_intros)
  show "within sg h (put_rule sv i ruleID rin pattern h)"
    unfolding put_rule_def Let_def by (intro via_intros)
qed

lemma catalog_serves [via_intros]:
  "serves (audit_sign sv) i (save_plan sv cx i planID pin)"
  "serves (audit_sign sv) i (save_binding_rule sv cx i ruleID rin)"
  "serves (audit_sign sv) i (remove_binding_rule sv cx i ruleID reason)"
  unfolding save_plan_def save_binding_rule_def remove_binding_rule_def Let_def
  by (intro via_intros; assumption)+

end
