(* ===== verification/Agents.thy ===== *)
theory Agents
  imports Sales Installations Catalog
begin

text \<open>
  \<open>agents.go\<close>: which plans an agent may issue and at what cost, the sale that pays from the agent's
  balance, and the agent's records. Amounts are cents in 64-bit integers. A platform-wide method runs
  one transaction per application.
\<close>

section \<open>Grants and quotes\<close>

definition save_agent_grant :: "svc \<Rightarrow> ctx \<Rightarrow> string \<Rightarrow> agent_grant \<Rightarrow> agent_grant db_act" where
  "save_agent_grant sv cx appID in' =
     in_application cx appID True (\<lambda>scoped _ sc.
     if \<not> privileged (acting cx) True then raise (forbidden ''ROLE_FORBIDDEN'')
     else if g_agent in' = [] \<or> g_plan in' = [] \<or> g_max_batch in' < 1 \<or> 1000 < g_max_batch in' \<or>
             (case g_override in' of None \<Rightarrow> False | Some v \<Rightarrow> v < 0 \<or> money_limit < v)
     then raise invalid
     else update scoped sc (\<lambda>h.
       andThen (orElse (agent_account h (g_agent in')) not_found) (\<lambda>_.
       andThen (orElse (t_get plans_t h (g_plan in')) not_found) (\<lambda>_.
       andThen (t_find grants_t h (no_filter\<lparr>f_agent_id := g_agent in', f_plan_id := g_plan in', f_limit := 1\<rparr>)) (\<lambda>old.
       andThen
         (case old of
            [] \<Rightarrow>
              andThen (new_id sv ''grant'') (\<lambda>i.
              let out = in'\<lparr>r_app := appID, r_id := i, r_created := s_now sv, r_updated := s_now sv\<rparr> in
              andThen (t_insert grants_t h out) (\<lambda>_. ret out))
          | o' # _ \<Rightarrow>
              let out = in'\<lparr>r_app := r_app o', r_id := r_id o', r_created := r_created o', r_updated := s_now sv\<rparr> in
              andThen (t_save grants_t h out) (\<lambda>_. ret out)) (\<lambda>out.
       andThen (append_event sv h ''agent_grant_saved'' (r_id out)
         [(''agent_id'', PStr (g_agent in')), (''plan_id'', PStr (g_plan in')), (''enabled'', PBool (g_enabled in')),
          (''override_cost_cents'', POptInt (g_override in'))]) (\<lambda>_.
       ret out)))))))"

definition list_agent_grants :: "ctx \<Rightarrow> string \<Rightarrow> agent_grant list db_act" where
  "list_agent_grants cx i = listing cx i grants_t (no_filter\<lparr>f_limit := 10000\<rparr>)"

record agent_quote =
  qt_application :: application
  qt_plan :: plan
  qt_grant :: agent_grant
  qt_unit_cost :: int
  qt_balance :: int
  qt_rate :: int

text \<open>The cost of one license: the plan's cost at the agent's rate, rounded up, unless the grant sets it.\<close>

definition unit_cost :: "plan \<Rightarrow> agent_grant \<Rightarrow> agent_account \<Rightarrow> int" where
  "unit_cost p g account =
     (case g_override g of
        None \<Rightarrow> go_div (i64 (i64 (p_agent_cost p * aa_rate account) + 9999)) 10000
      | Some v \<Rightarrow> v)"

definition quote_agent ::
  "svc \<Rightarrow> application \<Rightarrow> plan \<Rightarrow> agent_grant \<Rightarrow> agent_account \<Rightarrow> err + agent_quote" where
  "quote_agent sv app p g account =
     (if ap_status app \<noteq> ''active'' \<or> \<not> p_enabled p \<or> \<not> g_enabled g \<or> aa_status account \<noteq> ''active''
      then Inl (forbidden ''AGENT_PLAN_NOT_GRANTED'')
      else case normalize_terms sv app (p_terms p) of
        Inl e \<Rightarrow> Inl e
      | Inr _ \<Rightarrow>
          Inr \<lparr>qt_application = app, qt_plan = p, qt_grant = g, qt_unit_cost = unit_cost p g account,
               qt_balance = aa_balance account, qt_rate = aa_rate account\<rparr>)"

definition agent_principal :: "ctx \<Rightarrow> err + principal" where
  "agent_principal cx =
     (case principal_from cx of
        Inl e \<Rightarrow> Inl e
      | Inr p \<Rightarrow> if pr_kind p \<noteq> ''agent'' \<or> pr_agent p = [] then Inl (forbidden ''ROLE_FORBIDDEN'') else Inr p)"

definition agent_catalog :: "svc \<Rightarrow> ctx \<Rightarrow> agent_quote list db_act" where
  "agent_catalog sv cx =
     andThen (pureA (agent_principal cx)) (\<lambda>p.
     andThen (reg_list []) (\<lambda>apps.
     foldEach apps [] (\<lambda>app out.
       in_runtime cx (r_app app) (pr_actor p) (\<lambda>scoped _ sc.
       view scoped sc (\<lambda>h.
         andThen (t_find grants_t h (no_filter\<lparr>f_agent_id := pr_agent p, f_limit := 10000\<rparr>)) (\<lambda>grants.
         if grants = [] then ret out
         else
           andThen (agent_account h (pr_agent p)) (\<lambda>account.
           foldEach grants out (\<lambda>g out.
             andThen (t_get plans_t h (g_plan g)) (\<lambda>pl.
             ret (case quote_agent sv app pl g account of
                Inl _ \<Rightarrow> out
              | Inr q \<Rightarrow> out @ [q\<lparr>qt_application := blank_secret (qt_application q)\<rparr>]))))))))))"

section \<open>Sales from the balance\<close>

text \<open>\<open>validateSale(SaleInput{...})\<close> of the agent's request.\<close>

definition agent_sale_input_of :: "agent_sale_input \<Rightarrow> sale_input" where
  "agent_sale_input_of in' =
     \<lparr>si_digests = [], si_plan = as_plan in', si_customer = as_customer in', si_owner = [],
      si_quantity = as_quantity in', si_amount = 0, si_distribute = True, si_purpose = as_purpose in',
      si_redeem_until = None, si_terms = None, si_reason = []\<rparr>"

definition agent_order ::
  "svc \<Rightarrow> string \<Rightarrow> string \<Rightarrow> principal \<Rightarrow> plan \<Rightarrow> agent_sale_input \<Rightarrow> int \<Rightarrow> sales_order" where
  "agent_order sv appID i p pl in' cost =
     (new_order sv appID i pl (p_terms pl))
       \<lparr>o_agent := pr_agent p, o_external := as_request in', o_plan := as_plan in',
        o_quantity := as_quantity in', o_customer := trim_space (as_customer in'), o_cost := cost,
        o_currency := ''CNY'', o_distribute := True, o_purpose := as_purpose in',
        o_reason := ''agent_balance''\<rparr>"

definition agent_issue ::
  "svc \<Rightarrow> string \<Rightarrow> principal \<Rightarrow> agent_sale_input \<Rightarrow> string \<Rightarrow> handle \<Rightarrow> sale_result db_act" where
  "agent_issue sv appID p in' fingerprint h =
     andThen (t_find grants_t h (no_filter\<lparr>f_agent_id := pr_agent p, f_plan_id := as_plan in', f_limit := 1\<rparr>)) (\<lambda>grants.
     case grants of [] \<Rightarrow> raise (forbidden ''AGENT_PLAN_NOT_GRANTED'') | g # others \<Rightarrow>
     if others \<noteq> [] then raise (forbidden ''AGENT_PLAN_NOT_GRANTED'')
     else
       andThen (tx_application h) (\<lambda>app.
       andThen (orElse (t_get plans_t h (as_plan in')) not_found) (\<lambda>pl.
       andThen (agent_account h (pr_agent p)) (\<lambda>account.
       andThen (pureA (quote_agent sv app pl g account)) (\<lambda>quote.
       if g_max_batch g < as_quantity in' then raise (forbidden ''BATCH_LIMIT_EXCEEDED'')
       else if as_expected in' \<noteq> Some (qt_unit_cost quote) then raise (conflict ''PRICE_CHANGED'')
       else
         let cost = i64 (qt_unit_cost quote * as_quantity in') in
         andThen (debit_agent h (pr_agent p) cost) (\<lambda>balance.
         andThen (new_id sv ''order'') (\<lambda>i.
         let order = agent_order sv appID i p pl in' cost in
         andThen (t_insert orders_t h order) (\<lambda>_.
         andThen (issue_order sv h app order (as_purpose in') None) (\<lambda>out.
         andThen (new_id sv ''money'') (\<lambda>m.
         andThen (t_insert money_t h \<lparr>r_app = appID, r_id = m, r_created = s_now sv, r_updated = s_now sv,
           m_request_hash = fingerprint, m_agent = pr_agent p, m_order = r_id order, m_request = as_request in',
           m_amount = - cost, m_balance_after = balance, m_kind = ''issue''\<rparr>) (\<lambda>_.
         andThen (append_event sv h ''agent_sale_confirmed'' (r_id order)
           [(''agent_id'', PStr (pr_agent p)), (''quantity'', PInt (as_quantity in')),
            (''unit_cost_cents'', PInt (qt_unit_cost quote)), (''cost_cents'', PInt cost),
            (''balance_after'', PInt balance)]) (\<lambda>_.
         ret out))))))))))))"

definition agent_sale_body ::
  "svc \<Rightarrow> string \<Rightarrow> principal \<Rightarrow> agent_sale_input \<Rightarrow> handle \<Rightarrow> sale_result db_act" where
  "agent_sale_body sv appID p in' h =
     (let fingerprint = keyed_hash sv ''agent-order'' appID (s_agent_json sv in') in
      andThen (t_find money_t h (no_filter\<lparr>f_agent_id := pr_agent p, f_request_id := as_request in', f_limit := 1\<rparr>)) (\<lambda>events.
      case events of
        ev # _ \<Rightarrow>
          if m_request_hash ev \<noteq> fingerprint then raise (conflict ''IDEMPOTENCY_CONFLICT'')
          else andThen (t_get orders_t h (m_order ev)) (\<lambda>order.
            ret \<lparr>sr_order = order, sr_cards = [], sr_replayed = True\<rparr>)
      | [] \<Rightarrow> agent_issue sv appID p in' fingerprint h))"

definition agent_sale :: "svc \<Rightarrow> ctx \<Rightarrow> string \<Rightarrow> agent_sale_input \<Rightarrow> sale_result db_act" where
  "agent_sale sv cx appID in' =
     andThen (pureA (agent_principal cx)) (\<lambda>p.
     if pr_role p \<noteq> ''agent_owner'' \<and> pr_role p \<noteq> ''agent_manager'' then raise (forbidden ''ROLE_FORBIDDEN'')
     else if length (as_request in') < 8 \<or> 128 < length (as_request in') \<or> as_expected in' = None
     then raise invalid
     else
       andThen (pureA (validate_sale (agent_sale_input_of in'))) (\<lambda>_.
       in_runtime cx appID (pr_actor p) (\<lambda>scoped _ sc.
       update scoped sc (agent_sale_body sv appID p in'))))"

definition agent_orders :: "ctx \<Rightarrow> string \<Rightarrow> sales_order list db_act" where
  "agent_orders cx appID =
     andThen (pureA (agent_principal cx)) (\<lambda>p.
     in_runtime cx appID (pr_actor p) (\<lambda>scoped _ sc.
     view scoped sc (\<lambda>h. t_find orders_t h (no_filter\<lparr>f_agent_id := pr_agent p, f_limit := 1000\<rparr>))))"

section \<open>Records of an agent\<close>

record agent_records =
  ax_application :: public_application
  ax_orders :: "sales_order list"
  ax_licenses :: "license list"
  ax_money :: "money_event list"

definition order_licenses :: "handle \<Rightarrow> sales_order list \<Rightarrow> license list db_act" where
  "order_licenses h orders =
     foldEach orders [] (\<lambda>order found.
       foldEach (o_licenses order) found (\<lambda>i found.
         andThen (t_get licenses_t h i) (\<lambda>l.
         if l_order l \<noteq> r_id order then raise ErrScopeMismatch else ret (found @ [l]))))"

definition records_of :: "application \<Rightarrow> string \<Rightarrow> agent_records list \<Rightarrow> handle \<Rightarrow> agent_records list db_act" where
  "records_of app agent out h =
     andThen (t_find orders_t h (no_filter\<lparr>f_agent_id := agent, f_limit := 10000\<rparr>)) (\<lambda>orders.
     if orders = [] then ret out
     else
       andThen (order_licenses h orders) (\<lambda>licenses.
       andThen (t_find money_t h (no_filter\<lparr>f_agent_id := agent, f_limit := 10000\<rparr>)) (\<lambda>money.
       ret (out @ [\<lparr>ax_application = public_view app, ax_orders = orders, ax_licenses = licenses, ax_money = money\<rparr>]))))"

definition agent_records_of :: "ctx \<Rightarrow> principal \<Rightarrow> string \<Rightarrow> agent_records list db_act" where
  "agent_records_of cx p agent =
     andThen (reg_list []) (\<lambda>apps.
     foldEach apps [] (\<lambda>app out.
       if pr_kind p = ''admin''
       then in_application cx (r_app app) False (\<lambda>scoped _ sc. view scoped sc (records_of app agent out))
       else in_runtime cx (r_app app) (pr_actor p) (\<lambda>scoped _ sc. view scoped sc (records_of app agent out))))"

definition agent_history :: "ctx \<Rightarrow> agent_records list db_act" where
  "agent_history cx =
     andThen (pureA (agent_principal cx)) (\<lambda>p. agent_records_of cx p (pr_agent p))"

definition admin_agent_history :: "ctx \<Rightarrow> string \<Rightarrow> agent_records list db_act" where
  "admin_agent_history cx agent =
     andThen (pureA (principal_from cx)) (\<lambda>p.
     if pr_kind p \<noteq> ''admin'' \<or> \<not> privileged p False then raise (forbidden ''ROLE_FORBIDDEN'')
     else if agent = [] \<or> 96 < length agent then raise invalid
     else agent_records_of cx p agent)"

section \<open>Grants for a group of applications\<close>

record group_failure =
  gf_app :: string
  gf_plan :: string
  gf_code :: string

text \<open>Each application and plan is a transaction of its own; what fails is reported and does not stop the rest.\<close>

definition save_group_agent_grants ::
  "svc \<Rightarrow> ctx \<Rightarrow> string \<Rightarrow> agent_grant \<Rightarrow> (int \<times> group_failure list) db_act" where
  "save_group_agent_grants sv cx group0 grant =
     andThen (pureA (principal_from cx)) (\<lambda>p.
     if pr_kind p \<noteq> ''admin'' \<or> \<not> privileged p True then raise (forbidden ''ROLE_FORBIDDEN'')
     else if trim_space group0 = [] then raise invalid
     else
       andThen (list_applications cx) (\<lambda>apps.
       foldEach apps (0, []) (\<lambda>app (saved, failures).
         if ap_group app \<noteq> trim_space group0 then ret (saved, failures)
         else
           andThen (attempt (list_plans cx (r_app app))) (\<lambda>r.
           case r of
             Inl e \<Rightarrow> ret (saved, failures @ [\<lparr>gf_app = r_app app, gf_plan = [], gf_code = error_code e\<rparr>])
           | Inr plans \<Rightarrow>
               foldEach plans (saved, failures) (\<lambda>pl (saved, failures).
                 if \<not> p_enabled pl then ret (saved, failures)
                 else
                   andThen (attempt (save_agent_grant sv cx (r_app app) (grant\<lparr>g_plan := r_id pl\<rparr>))) (\<lambda>r.
                   ret (case r of
                      Inl e \<Rightarrow> (saved, failures @ [\<lparr>gf_app = r_app app, gf_plan = r_id pl, gf_code = error_code e\<rparr>])
                    | Inr _ \<Rightarrow> (saved + 1, failures))))))))"

section \<open>Handlers as sequences of transactions\<close>

lemma agents_via [via_intros]:
  "via R (list_agent_grants cx i)" "via R (agent_catalog sv cx)" "via R (agent_orders cx i)"
  "via R (agent_history cx)" "via R (admin_agent_history cx agent)" "via R (list_applications cx)"
proof -
  show "via R (list_agent_grants cx i)" unfolding list_agent_grants_def by (intro via_intros)
  show "via R (agent_catalog sv cx)" unfolding agent_catalog_def by (intro via_intros)
  show "via R (agent_orders cx i)" unfolding agent_orders_def by (intro via_intros)
  have r: "via R (agent_records_of cx p agent)" for p agent
    unfolding agent_records_of_def records_of_def order_licenses_def by (intro via_intros)
  show "via R (agent_history cx)" unfolding agent_history_def by (intro via_intros r)
  show "via R (admin_agent_history cx agent)" unfolding admin_agent_history_def by (intro via_intros r)
  show "via R (list_applications cx)" unfolding list_applications_def by (intro via_intros)
qed

lemma agent_sale_within [via_intros]: "within (audit_sign sv) h (agent_sale_body sv i p ain h)"
  unfolding agent_sale_body_def agent_issue_def Let_def by (intro via_intros)

lemma agents_serves [via_intros]:
  "serves (audit_sign sv) i (save_agent_grant sv cx i gin)"
  "serves (audit_sign sv) i (agent_sale sv cx i ain)"
proof -
  show "serves (audit_sign sv) i (save_agent_grant sv cx i gin)"
    unfolding save_agent_grant_def Let_def by (intro via_intros; assumption)
  show "serves (audit_sign sv) i (agent_sale sv cx i ain)"
    unfolding agent_sale_def by (intro via_intros; assumption)
qed

end
