(* ===== verification/Public.thy ===== *)
theory Public
  imports Agents
begin

text \<open>
  \<open>public.go\<close> and \<open>security.go\<close>: the queries that need no login, and the reports, reviews and
  appeals around the integrity of an installation. The public queries read, one application at a
  time, through a scope that may not write.
\<close>

section \<open>Public directory\<close>

definition listed :: "application \<Rightarrow> bool" where
  "listed app \<longleftrightarrow> ap_status app = ''active'' \<and> ap_public_query app"

definition public_applications :: "public_application list db_act" where
  "public_applications = andThen (reg_list []) (\<lambda>apps. ret (map public_view (filter listed apps)))"

record lookup_input =
  lk_app :: string
  lk_binding :: binding_input
  lk_card :: string

record lookup_result =
  lr_server_time :: int
  lr_application :: public_application
  lr_authorized :: bool
  lr_status :: string
  lr_model :: string
  lr_perpetual :: bool
  lr_usage_expires :: "int option"
  lr_updates_until :: "int option"
  lr_updates_allowed :: bool
  lr_awaiting :: bool

definition nothing_found :: "svc \<Rightarrow> application \<Rightarrow> lookup_result" where
  "nothing_found sv app =
     \<lparr>lr_server_time = s_now sv, lr_application = public_view app, lr_authorized = False,
      lr_status = ''not_found'', lr_model = [], lr_perpetual = False, lr_usage_expires = None,
      lr_updates_until = None, lr_updates_allowed = False, lr_awaiting = False\<rparr>"

text \<open>The licenses a card or a binding leads to, and the normalized binding of the query.\<close>

definition lookup_ids ::
  "svc \<Rightarrow> lookup_input \<Rightarrow> handle \<Rightarrow> (string list \<times> normalized_binding option) db_act" where
  "lookup_ids sv in' h =
     (if lk_card in' \<noteq> [] then
        andThen (t_find cards_t h (no_filter\<lparr>f_key_hash := card_hash sv (lk_app in') (lk_card in'), f_limit := 1\<rparr>)) (\<lambda>cards.
        ret (case cards of
               [c] \<Rightarrow> if c_status c \<noteq> ''revoked'' \<and> c_purpose c = ''activate'' then [c_bound c] else []
             | _ \<Rightarrow> [], None))
      else if bi_type (lk_binding in') \<noteq> ''domain'' \<and> bi_type (lk_binding in') \<noteq> ''ip'' then raise invalid
      else
        andThen (pureA (normalize_binding sv (lk_app in') (lk_binding in') 128)) (\<lambda>b.
        andThen (t_find anchors_t h (no_filter\<lparr>f_kind := nb_kind b, f_binding_hash := nb_hash b,
                   f_status := ''active'', f_limit := 10000\<rparr>)) (\<lambda>anchors.
        andThen (t_find rules_t h (no_filter\<lparr>f_kind := nb_kind b, f_limit := 10000\<rparr>)) (\<lambda>rules.
        ret (map an_license anchors @
             map br_license (filter (\<lambda>r. br_license r \<noteq> [] \<and> rule_matches r (nb_value b)) rules), Some b)))))"

text \<open>
  What the query says of one license. A query by binding is also subject to the application's rules;
  a query by card (no binding) is not.
\<close>

definition lookup_candidate ::
  "svc \<Rightarrow> public_application \<Rightarrow> application \<Rightarrow> binding_rule list \<Rightarrow> normalized_binding option \<Rightarrow> license \<Rightarrow> lookup_result" where
  "lookup_candidate sv pub app rules b l =
     (let usable = (check_usable app l (s_now sv) = Inr ());
          status = (if \<not> usable \<and> l_status l = ''active'' then ''expired'' else l_status l);
          denied = (case b of None \<Rightarrow> False | Some v \<Rightarrow>
             check_application_rules app rules v (r_id l) \<noteq> Inr () \<or> nb_kind v \<notin> set (ap_bindings app));
          usable = (usable \<and> \<not> denied);
          status = (if denied then ''policy_denied'' else status) in
      \<lparr>lr_server_time = s_now sv, lr_application = pub, lr_authorized = usable, lr_status = status,
       lr_model = t_model (l_terms l), lr_perpetual = t_perpetual (l_terms l),
       lr_usage_expires = l_expires_at l, lr_updates_until = l_updates_until l,
       lr_updates_allowed = (usable \<and> ap_updates_enabled app \<and> l_activated_at l \<noteq> None \<and>
         (case l_updates_until l of None \<Rightarrow> False | Some t \<Rightarrow> s_now sv < t) \<and>
         (t_perpetual (l_terms l) \<or> (case l_expires_at l of None \<Rightarrow> False | Some t \<Rightarrow> s_now sv < t))),
       lr_awaiting = (l_activated_at l = None)\<rparr>)"

text \<open>The loop over the identifiers stops at the first license that is authorized.\<close>

primrec lookup_loop ::
  "svc \<Rightarrow> application \<Rightarrow> binding_rule list \<Rightarrow> normalized_binding option \<Rightarrow> handle \<Rightarrow> string list \<Rightarrow>
   string list \<Rightarrow> lookup_result \<Rightarrow> lookup_result db_act" where
  "lookup_loop sv app rules b h [] = (\<lambda>seen out. ret out)"
| "lookup_loop sv app rules b h (i # ids) = (\<lambda>seen out.
     if i \<in> set seen then lookup_loop sv app rules b h ids seen out
     else
       andThen (t_get licenses_t h i) (\<lambda>l.
       if l_renewal_only l then lookup_loop sv app rules b h ids (i # seen) out
       else
         let cand = lookup_candidate sv (lr_application out) app rules b l;
             out' = (if lr_status out = ''not_found'' \<or> lr_authorized cand \<and> \<not> lr_authorized out then cand else out) in
         if lr_authorized out' then ret out' else lookup_loop sv app rules b h ids (i # seen) out'))"

definition public_lookup :: "svc \<Rightarrow> ctx \<Rightarrow> lookup_input \<Rightarrow> lookup_result db_act" where
  "public_lookup sv cx in' =
     in_public cx (lk_app in') (\<lambda>scoped app0 sc.
     view scoped sc (\<lambda>h.
       andThen (tx_application h) (\<lambda>app.
       if \<not> listed app then raise not_found
       else
         andThen (lookup_ids sv in' h) (\<lambda>(ids, b).
         andThen (t_find rules_t h (no_filter\<lparr>f_limit := 10000\<rparr>)) (\<lambda>rules.
         lookup_loop sv app rules b h ids [] (nothing_found sv app0))))))"

text \<open>Whether a listed application grants the agent a plan that can be sold now.\<close>

primrec any_sellable :: "svc \<Rightarrow> application \<Rightarrow> handle \<Rightarrow> agent_grant list \<Rightarrow> bool db_act" where
  "any_sellable sv app h [] = ret False"
| "any_sellable sv app h (g # gs) =
     (if \<not> g_enabled g then any_sellable sv app h gs
      else
        andThen (t_get plans_t h (g_plan g)) (\<lambda>p.
        if p_enabled p \<and> (case normalize_terms sv app (p_terms p) of Inl _ \<Rightarrow> False | Inr _ \<Rightarrow> True)
        then ret True else any_sellable sv app h gs))"

definition public_agent_applications :: "svc \<Rightarrow> ctx \<Rightarrow> string \<Rightarrow> public_application list db_act" where
  "public_agent_applications sv cx agent =
     andThen (reg_list []) (\<lambda>apps.
     foldEach apps [] (\<lambda>app out.
       if \<not> listed app then ret out
       else in_public cx (r_app app) (\<lambda>scoped _ sc.
         andThen (view scoped sc (\<lambda>h.
           andThen (t_find grants_t h (no_filter\<lparr>f_agent_id := agent, f_limit := 10000\<rparr>)) (\<lambda>grants.
           any_sellable sv app h grants))) (\<lambda>granted.
         ret (if granted then out @ [public_view app] else out)))))"

section \<open>Integrity of installations\<close>

definition public_block_policy :: "string \<Rightarrow> (string \<times> block_policy) db_act" where
  "public_block_policy i =
     andThen (orElse (reg_get i) not_found) (\<lambda>app. ret (ap_name app, ap_block app))"

record report_input =
  rp_app :: string
  rp_activation :: string
  rp_signal :: string
  rp_evidence :: string
  rp_summary :: string

text \<open>\<open>hex.DecodeString\<close> accepts both cases of the letters.\<close>

definition hex_text :: "string \<Rightarrow> bool" where
  "hex_text s \<longleftrightarrow> even (length s) \<and> list_all (\<lambda>c. is_digit c \<or> char_in 97 102 c \<or> char_in 65 70 c) s"

definition append_pending ::
  "svc \<Rightarrow> handle \<Rightarrow> string \<Rightarrow> string \<Rightarrow> string \<Rightarrow> payload \<Rightarrow> string db_act" where
  "append_pending sv h kind entity reason payload =
     andThen (new_event sv (h_ctx h) kind entity ''pending'' reason payload) (\<lambda>ev.
     andThen (append_audit h ev (Some (audit_sign sv))) (\<lambda>_. ret (r_id ev)))"

definition report_body :: "svc \<Rightarrow> report_input \<Rightarrow> activation \<Rightarrow> handle \<Rightarrow> string db_act" where
  "report_body sv in' a h =
     andThen (orElse (t_get activations_t h (rp_activation in')) not_found) (\<lambda>current.
     if a_public_key current \<noteq> a_public_key a then raise not_found
     else append_pending sv h ''integrity_reported'' (a_license current) (rp_signal in')
       [(''activation_id'', PStr (r_id a)), (''evidence_sha256'', PStr (rp_evidence in')),
        (''summary'', PStr (rp_summary in'))])"

definition report_integrity :: "svc \<Rightarrow> ctx \<Rightarrow> report_input \<Rightarrow> signed_request \<Rightarrow> string db_act" where
  "report_integrity sv cx in' req =
     (if rp_signal in' \<notin> set [''binary_modified'', ''unexpected_signature'', ''copied_installation'']
      then raise invalid
      else if 1000 < length (rp_summary in') \<or> length (rp_evidence in') \<noteq> 64 then raise invalid
      else if \<not> hex_text (rp_evidence in') then raise invalid
      else
        andThen (in_runtime cx (rp_app in') (mk_actor ''installation_lookup'' (rp_activation in')) (\<lambda>lookup _ sc.
          orElse (view lookup sc (\<lambda>h. t_get activations_t h (rp_activation in'))) not_found)) (\<lambda>a.
        in_installation sv cx (rp_app in') (a_public_key a) req (\<lambda>scoped _ sc.
        update scoped sc (report_body sv in' a))))"

record decision_input =
  dn_action :: string
  dn_reason :: string
  dn_reference :: string

definition review_license_security ::
  "svc \<Rightarrow> ctx \<Rightarrow> string \<Rightarrow> string \<Rightarrow> decision_input \<Rightarrow> unit db_act" where
  "review_license_security sv cx i licenseID in' =
     in_application cx i True (\<lambda>scoped _ sc.
     if pr_kind (acting cx) \<noteq> ''admin'' \<and> pr_kind (acting cx) \<noteq> ''developer'' then raise (forbidden ''ROLE_FORBIDDEN'')
     else if trim_space (dn_reason in') = [] \<or> 1000 < length (dn_reason in') then raise invalid
     else if dn_action in' \<notin> set [''allow_updates'', ''deny_updates'', ''observe''] then raise invalid
     else
       andThen
         (if dn_reference in' \<noteq> [] then
            view scoped sc (\<lambda>h.
              andThen (orElse (t_get audit_t h (dn_reference in')) invalid) (\<lambda>ev.
              if e_entity ev \<noteq> licenseID then raise invalid else ret ()))
          else ret ()) (\<lambda>_.
       update scoped sc (\<lambda>h.
         andThen (orElse (t_get licenses_t h licenseID) not_found) (\<lambda>l.
         andThen
           (if dn_action in' \<noteq> ''observe''
            then t_save licenses_t h (l\<lparr>l_updates_blocked := (dn_action in' = ''deny_updates''), r_updated := s_now sv\<rparr>)
            else ret ()) (\<lambda>_.
         append_event sv h ''security_reviewed'' licenseID
           [(''action'', PStr (dn_action in')), (''reason'', PStr (dn_reason in')),
            (''reference_event_id'', PStr (dn_reference in'))])))))"

definition submit_security_appeal :: "svc \<Rightarrow> ctx \<Rightarrow> string \<Rightarrow> string \<Rightarrow> string \<Rightarrow> string db_act" where
  "submit_security_appeal sv cx i licenseID reason =
     in_owned cx i licenseID True (\<lambda>scoped _ sc.
     if pr_kind (acting cx) \<noteq> ''customer'' then raise (forbidden ''ROLE_FORBIDDEN'')
     else if length (trim_space reason) < 6 \<or> 3000 < length reason then raise invalid
     else update scoped sc (\<lambda>h.
       andThen (orElse (t_get licenses_t h licenseID) not_found) (\<lambda>l.
       if \<not> owns (acting cx) l then raise not_found
       else append_pending sv h ''security_appeal'' licenseID [] [(''reason'', PStr reason)])))"

section \<open>Handlers as sequences of transactions\<close>

lemma lookup_loop_via [via_intros]: "via R (lookup_loop sv app rules b h ids seen out)"
  by (induction ids arbitrary: seen out) (auto simp: Let_def intro!: via_intros)

lemma any_sellable_via [via_intros]: "via R (any_sellable sv app h gs)"
  by (induction gs) (auto intro!: via_intros)

lemma public_via [via_intros]:
  "via R public_applications" "via R (public_lookup sv cx lin)"
  "via R (public_agent_applications sv cx agent)" "via R (public_block_policy i)"
proof -
  show "via R public_applications" unfolding public_applications_def by (intro via_intros)
  have "via R (lookup_ids sv lin h)" for h unfolding lookup_ids_def by (intro via_intros)
  then show "via R (public_lookup sv cx lin)" unfolding public_lookup_def by (intro via_intros)
  show "via R (public_agent_applications sv cx agent)"
    unfolding public_agent_applications_def by (intro via_intros)
  show "via R (public_block_policy i)" unfolding public_block_policy_def by (intro via_intros)
qed

lemma append_pending_within [via_intros]:
  "within (audit_sign sv) h (append_pending sv h kind entity reason payload)"
  unfolding append_pending_def by (intro via_intros)

lemma security_serves [via_intros]:
  "serves (audit_sign sv) (rp_app rin) (report_integrity sv cx rin req)"
  "serves (audit_sign sv) i (review_license_security sv cx i licenseID din)"
  "serves (audit_sign sv) i (submit_security_appeal sv cx i licenseID reason)"
proof -
  have r: "within (audit_sign sv) h (report_body sv rin a h)" for h a
    unfolding report_body_def by (intro via_intros)
  show "serves (audit_sign sv) (rp_app rin) (report_integrity sv cx rin req)"
    unfolding report_integrity_def by (intro via_intros r; assumption)
  show "serves (audit_sign sv) i (review_license_security sv cx i licenseID din)"
    unfolding review_license_security_def by (intro via_intros; assumption)
  show "serves (audit_sign sv) i (submit_security_appeal sv cx i licenseID reason)"
    unfolding submit_security_appeal_def by (intro via_intros; assumption)
qed

end
