(* ===== verification/Updates.thy ===== *)
theory Updates
  imports Lifecycle
begin

text \<open>
  \<open>updates.go\<close>: versions and release targets, uploading and publishing releases, and the signed
  update check of an installation. A package is its bytes, in \<open>w_files\<close> under the name of its
  release; the temporary upload file, the lock file and failures of the file system other than a
  missing package are not modelled.
\<close>

section \<open>Versions\<close>

text \<open>\<open>versionRE\<close>: three decimal numbers of at most nine digits, without leading zeros.\<close>

definition version_part :: "string \<Rightarrow> bool" where
  "version_part s \<longleftrightarrow>
     s = ''0'' \<or>
     (case s of [] \<Rightarrow> False | c # cs \<Rightarrow> char_in 49 57 c \<and> length cs \<le> 8 \<and> list_all is_digit cs)"

definition version_ok :: "string \<Rightarrow> bool" where
  "version_ok s \<longleftrightarrow> length (split_on (CHR ''.'') s) = 3 \<and> list_all version_part (split_on (CHR ''.'') s)"

definition version_numbers :: "string \<Rightarrow> int list" where
  "version_numbers s = map digits_value (split_on (CHR ''.'') s)"

text \<open>
  \<open>compareVersion\<close> on texts that match \<open>versionRE\<close>, as every caller has checked: the first of the
  three numbers that differ decides.
\<close>

fun compare_numbers :: "nat \<Rightarrow> int list \<Rightarrow> int list \<Rightarrow> int" where
  "compare_numbers (Suc n) (x # xs) (y # ys) =
     (if y < x then 1 else if x < y then - 1 else compare_numbers n xs ys)"
| "compare_numbers _ _ _ = 0"

definition compare_version :: "string \<Rightarrow> string \<Rightarrow> int" where
  "compare_version a b = compare_numbers 3 (version_numbers a) (version_numbers b)"

section \<open>Targets\<close>

definition lower_alnum :: "char \<Rightarrow> bool" where
  "lower_alnum c \<longleftrightarrow> char_in 97 122 c \<or> is_digit c"

text \<open>\<open>targetRE\<close>, \<open>imageRE\<close> and \<open>imageDigestRE\<close>.\<close>

definition target_ok :: "string \<Rightarrow> bool" where
  "target_ok s \<longleftrightarrow>
     (case s of [] \<Rightarrow> False | c # cs \<Rightarrow>
        lower_alnum c \<and> length cs \<le> 31 \<and> list_all (\<lambda>c. lower_alnum c \<or> c \<in> set ''._-'') cs)"

definition image_name_ok :: "string \<Rightarrow> bool" where
  "image_name_ok s \<longleftrightarrow>
     (case s of [] \<Rightarrow> False | c # cs \<Rightarrow>
        lower_alnum c \<and> length cs \<le> 220 \<and> list_all (\<lambda>c. lower_alnum c \<or> c \<in> set ''./:_-'') cs)"

definition image_version_ok :: "string \<Rightarrow> bool" where
  "image_version_ok s \<longleftrightarrow>
     1 \<le> length s \<and> length s \<le> 100 \<and>
     list_all (\<lambda>c. lower_alnum c \<or> char_in 65 90 c \<or> c \<in> set ''_.-'') s"

definition image_ok :: "string \<Rightarrow> bool" where
  "image_ok s \<longleftrightarrow>
     list_ex (\<lambda>i. s ! i = CHR '':'' \<and> image_name_ok (take i s) \<and> image_version_ok (drop (Suc i) s)) [0..<length s]"

definition image_digest_ok :: "string \<Rightarrow> bool" where
  "image_digest_ok s \<longleftrightarrow> prefix ''sha256:'' s \<and> fingerprint_pattern (drop 7 s)"

definition or_else :: "string \<Rightarrow> string \<Rightarrow> string" where
  "or_else d s = (if s = [] then d else s)"

definition default_target :: "release_target \<Rightarrow> release_target" where
  "default_target t =
     t\<lparr>tg_os := or_else ''any'' (tg_os t), tg_arch := or_else ''any'' (tg_arch t),
       tg_runtime := or_else ''any'' (tg_runtime t), tg_channel := or_else ''stable'' (tg_channel t),
       tg_kind := or_else ''archive'' (tg_kind t)\<rparr>"

definition normalize_target :: "release_target \<Rightarrow> err + release_target" where
  "normalize_target t0 =
     (let t = default_target t0 in
      if \<not> (target_ok (tg_os t) \<and> target_ok (tg_arch t) \<and> target_ok (tg_runtime t) \<and> target_ok (tg_channel t))
      then Inl invalid
      else if tg_kind t \<notin> set [''archive'', ''installer'', ''container_archive''] then Inl invalid
      else if tg_min t \<noteq> [] \<and> \<not> version_ok (tg_min t) \<or> tg_max t \<noteq> [] \<and> \<not> version_ok (tg_max t) \<or>
              tg_min t \<noteq> [] \<and> tg_max t \<noteq> [] \<and> 0 < compare_version (tg_min t) (tg_max t)
      then Inl invalid
      else if tg_kind t = ''container_archive'' then
        (if \<not> image_ok (tg_image_tag t) \<or> \<not> image_digest_ok (tg_image_digest t) then Inl invalid else Inr t)
      else if tg_image_tag t \<noteq> [] \<or> tg_image_digest t \<noteq> [] then Inl invalid
      else Inr t)"

definition target_key :: "svc \<Rightarrow> release_target \<Rightarrow> string" where
  "target_key sv t = sha_hex sv (s_json sv [tg_os t, tg_arch t, tg_runtime t, tg_channel t, tg_kind t])"

section \<open>Packages\<close>

definition max_package :: nat where "max_package = 268435456"

text \<open>\<open>filepath.Base(strings.ReplaceAll(name, "\", "/"))\<close>.\<close>

definition base_name :: "string \<Rightarrow> string" where
  "base_name name =
     (let s = map (\<lambda>c. if c = CHR 0x5C then CHR ''/'' else c) name;
          trimmed = rev (dropWhile (\<lambda>c. c = CHR ''/'') (rev s)) in
      if s = [] then ''.''
      else if trimmed = [] then ''/''
      else rev (takeWhile (\<lambda>c. c \<noteq> CHR ''/'') (rev trimmed)))"

definition package_name_ok :: "svc \<Rightarrow> string \<Rightarrow> bool" where
  "package_name_ok sv filename \<longleftrightarrow>
     (let low = to_lower sv filename in
      length filename \<le> 200 \<and> \<not> contains_any filename [CHR 0x00, CHR 0x0D, CHR 0x0A] \<and>
      (suffix ''.zip'' low \<or> suffix ''.tar.gz'' low \<or> suffix ''.tgz'' low))"

definition package_unavailable :: err where "package_unavailable = forbidden ''PACKAGE_UNAVAILABLE''"

definition open_package :: "svc \<Rightarrow> release \<Rightarrow> string db_act" where
  "open_package sv r =
     andThen (reads (\<lambda>s. w_files s (r_id r))) (\<lambda>file.
     case file of None \<Rightarrow> raise package_unavailable | Some data \<Rightarrow>
     let data' = take (Suc max_package) data in
     if int (length data') \<noteq> rl_size r \<or> sha_hex sv data' \<noteq> rl_sha r
     then raise (forbidden ''PACKAGE_INTEGRITY_FAILED'')
     else ret data)"

definition put_file :: "string \<Rightarrow> string option \<Rightarrow> unit db_act" where
  "put_file name data = writes (\<lambda>s. s\<lparr>w_files := (w_files s)(name := data)\<rparr>)"

section \<open>Releases\<close>

record upload_input =
  ui_version :: string
  ui_notes :: string
  ui_filename :: string
  ui_target :: release_target

definition list_releases :: "ctx \<Rightarrow> string \<Rightarrow> release list db_act" where
  "list_releases cx i = listing cx i releases_t (no_filter\<lparr>f_limit := 10000\<rparr>)"

definition over_quota :: "svc \<Rightarrow> application \<Rightarrow> release_capacity \<Rightarrow> int \<Rightarrow> bool" where
  "over_quota sv app cap sz \<longleftrightarrow>
     rc_total (s_limits sv) - rc_total cap < sz \<or>
     rc_application (s_limits sv) - rc_application cap < sz \<or>
     rc_versions (s_limits sv) \<le> rc_versions cap \<or>
     ap_developer app \<noteq> [] \<and> rc_developer (s_limits sv) - rc_developer cap < sz"

definition upload_body :: "svc \<Rightarrow> release \<Rightarrow> string \<Rightarrow> handle \<Rightarrow> unit db_act" where
  "upload_body sv r data h =
     andThen (tx_application h) (\<lambda>app.
     if ap_status app \<noteq> ''active'' then raise (forbidden ''APPLICATION_DISABLED'')
     else
       andThen (release_capacity_of h) (\<lambda>cap.
       if over_quota sv app cap (rl_size r) then raise (conflict ''STORAGE_QUOTA_EXCEEDED'')
       else
         andThen (t_find releases_t h (no_filter\<lparr>f_limit := 10000\<rparr>)) (\<lambda>releases.
         if list_ex (\<lambda>q. rl_version q = rl_version r \<and> rl_target_key q = rl_target_key r) releases
         then raise (conflict ''RELEASE_EXISTS'')
         else
           andThen (put_file (r_id r) (Some data)) (\<lambda>_.
           andThen (t_insert releases_t h r) (\<lambda>_.
           append_event sv h ''release_uploaded'' (r_id r)
             [(''version'', PStr (rl_version r)), (''target'', PTarget (rl_target r)),
              (''size'', PInt (rl_size r)), (''sha256'', PStr (rl_sha r))])))))"

text \<open>
  When the transaction fails the package goes, unless the release is there after all. \<open>content\<close> is
  what the reader yields.
\<close>

definition upload_release ::
  "svc \<Rightarrow> ctx \<Rightarrow> string \<Rightarrow> upload_input \<Rightarrow> string \<Rightarrow> release db_act" where
  "upload_release sv cx appID in' content =
     in_application cx appID True (\<lambda>scoped _ sc.
     andThen (pureA (normalize_target (ui_target in'))) (\<lambda>target.
     let filename = base_name (ui_filename in') in
     if \<not> s_release_dir sv \<or> \<not> version_ok (ui_version in') \<or> 16000 < length (ui_notes in') \<or>
        \<not> package_name_ok sv filename
     then raise invalid
     else
       let data = take (Suc max_package) content in
       if data = [] \<or> max_package < length data then raise (LicErr ''PACKAGE_SIZE_INVALID'' 413)
       else
         andThen (new_id sv ''v2rel'') (\<lambda>i.
         let r = \<lparr>r_app = appID, r_id = i, r_created = s_now sv, r_updated = s_now sv,
                  rl_target_key = target_key sv target, rl_version = ui_version in', rl_target = target,
                  rl_status = ''draft'', rl_notes = ui_notes in', rl_filename = filename, rl_storage = i,
                  rl_size = int (length data), rl_sha = sha_hex sv data\<rparr> in
         andThen (attempt (update scoped sc (upload_body sv r data))) (\<lambda>outcome.
         case outcome of
           Inr _ \<Rightarrow> ret r
         | Inl e \<Rightarrow>
             andThen (attempt (view scoped sc (\<lambda>h. t_get releases_t h (r_id r)))) (\<lambda>found.
             andThen (if found = Inl ErrNotFound then put_file (r_id r) None else ret ()) (\<lambda>_.
             raise e))))))"

definition set_release_status ::
  "svc \<Rightarrow> ctx \<Rightarrow> string \<Rightarrow> string \<Rightarrow> string \<Rightarrow> string \<Rightarrow> release db_act" where
  "set_release_status sv cx appID releaseID status reason =
     in_application cx appID True (\<lambda>scoped _ sc.
     if status \<noteq> ''published'' \<and> status \<noteq> ''withdrawn'' \<or> trim_space reason = [] then raise invalid
     else update scoped sc (\<lambda>h.
       andThen (orElse (t_get releases_t h releaseID) not_found) (\<lambda>r.
       if rl_status r = ''deleted'' then raise not_found
       else
         andThen (if status = ''published'' then andThen (open_package sv r) (\<lambda>_. ret ()) else ret ()) (\<lambda>_.
         let next = r\<lparr>rl_status := status, r_updated := s_now sv\<rparr> in
         andThen (t_save releases_t h next) (\<lambda>_.
         andThen (append_event sv h (''release_'' @ status) (r_id next)
           [(''version'', PStr (rl_version next)), (''reason'', PStr reason)]) (\<lambda>_.
         ret next))))))"

section \<open>Choosing an update\<close>

record update_input =
  up_app :: string
  up_activation :: string
  up_binding :: binding_input
  up_form :: string
  up_current :: string
  up_target :: release_target

record update_result =
  ur_available :: bool
  ur_release :: "release option"
  ur_manifest :: string
  ur_server_time :: int

definition serves_value :: "string \<Rightarrow> string \<Rightarrow> bool" where
  "serves_value offered wanted \<longleftrightarrow> offered = ''any'' \<or> offered = wanted"

definition release_matches :: "release \<Rightarrow> update_input \<Rightarrow> bool" where
  "release_matches r in' \<longleftrightarrow>
     (let t = rl_target r; want = up_target in' in
      serves_value (tg_os t) (tg_os want) \<and> serves_value (tg_arch t) (tg_arch want) \<and>
      serves_value (tg_runtime t) (tg_runtime want) \<and>
      or_else ''stable'' (tg_channel want) = tg_channel t \<and>
      (tg_kind want = [] \<or> tg_kind t = tg_kind want) \<and>
      (tg_min t = [] \<or> 0 \<le> compare_version (up_current in') (tg_min t)) \<and>
      (tg_max t = [] \<or> compare_version (up_current in') (tg_max t) \<le> 0))"

definition candidate :: "update_input \<Rightarrow> string \<Rightarrow> release \<Rightarrow> bool" where
  "candidate in' releaseID r \<longleftrightarrow>
     (releaseID = [] \<or> r_id r = releaseID) \<and> 0 < compare_version (rl_version r) (up_current in') \<and>
     release_matches r in'"

definition specificity :: "release \<Rightarrow> int" where
  "specificity r =
     int (length (filter (\<lambda>v. v \<noteq> ''any'') [tg_os (rl_target r), tg_arch (rl_target r), tg_runtime (rl_target r)]))"

text \<open>The loop over the releases: the variables \<open>chosen\<close> and \<open>score\<close>.\<close>

definition better :: "release \<Rightarrow> release option \<times> int \<Rightarrow> release option \<times> int" where
  "better r st =
     (case st of (chosen, score) \<Rightarrow>
      let take_it =
        (case chosen of None \<Rightarrow> True
         | Some c \<Rightarrow> 0 < compare_version (rl_version r) (rl_version c) \<or>
                    rl_version r = rl_version c \<and> score < specificity r)
      in if take_it then (Some r, specificity r) else (chosen, score))"

definition choose_release :: "update_input \<Rightarrow> string \<Rightarrow> release list \<Rightarrow> release option" where
  "choose_release in' releaseID releases =
     fst (fold (\<lambda>r st. if candidate in' releaseID r then better r st else st) releases (None, - 1))"

section \<open>Authorizing an update\<close>

definition update_context :: "svc \<Rightarrow> ctx \<Rightarrow> update_input \<Rightarrow> activation db_act" where
  "update_context sv cx in' =
     in_runtime cx (up_app in') (mk_actor ''installation_lookup'' (up_activation in')) (\<lambda>lookup _ sc.
     orElse (view lookup sc (\<lambda>h. t_get activations_t h (up_activation in'))) (forbidden ''ACTIVATION_INVALID''))"

text \<open>What must hold of application, license and activation before the binding is looked at.\<close>

definition update_entitled ::
  "svc \<Rightarrow> application \<Rightarrow> license \<Rightarrow> activation \<Rightarrow> update_input \<Rightarrow> err + unit" where
  "update_entitled sv app l a in' =
     (case check_usable app l (s_now sv) of Inl e \<Rightarrow> Inl e | Inr _ \<Rightarrow>
      if l_updates_blocked l then Inl (forbidden ''UPDATES_BLOCKED'')
      else if \<not> ap_updates_enabled app then Inl (forbidden ''UPDATES_DISABLED'')
      else if l_activated_at l = None \<or>
              (case l_updates_until l of None \<Rightarrow> True | Some t \<Rightarrow> \<not> s_now sv < t) \<or>
              \<not> t_perpetual (l_terms l) \<and>
                (case l_expires_at l of None \<Rightarrow> True | Some t \<Rightarrow> \<not> s_now sv < t)
      then Inl (forbidden ''UPDATES_EXPIRED'')
      else if a_deactivated_at a \<noteq> None then Inl (forbidden ''ACTIVATION_DEACTIVATED'')
      else if (case a_lease a of None \<Rightarrow> False | Some t \<Rightarrow> \<not> s_now sv < t)
      then Inl (forbidden ''SEAT_LEASE_EXPIRED'')
      else if up_form in' \<notin> set (ap_forms app) \<or> up_form in' \<notin> set (t_forms (l_terms l)) \<or>
              bi_type (up_binding in') \<notin> set (ap_bindings app) \<or> a_binding_type a \<noteq> bi_type (up_binding in')
      then Inl (forbidden ''BINDING_MISMATCH'')
      else Inr ())"

text \<open>The live binding of the installation, as \<open>allowed\<close> computes it.\<close>

definition update_binding ::
  "handle \<Rightarrow> binding_rule list \<Rightarrow> license \<Rightarrow> activation \<Rightarrow> normalized_binding \<Rightarrow> bool db_act" where
  "update_binding h rules l a b =
     (if prefix ''rule_'' (a_group a) then
        ret (list_ex (\<lambda>r. r_id r = a_group a \<and> br_license r = r_id l \<and> br_kind r = nb_kind b \<and>
                          rule_matches r (nb_value b)) rules)
      else if nb_kind b = ''domain'' then
        andThen (t_find anchors_t h (no_filter\<lparr>f_license_id := r_id l, f_group_id := a_group a,
                   f_binding_hash := nb_hash b, f_status := ''active'', f_limit := 1\<rparr>)) (\<lambda>anchors.
        ret (length anchors = 1))
      else ret (a_binding_hash a = nb_hash b))"

definition check_update_license ::
  "svc \<Rightarrow> handle \<Rightarrow> update_input \<Rightarrow> signed_request \<Rightarrow> (application \<times> license \<times> activation) db_act" where
  "check_update_license sv h in' req =
     andThen (tx_application h) (\<lambda>app.
     andThen (t_get activations_t h (up_activation in')) (\<lambda>a.
     andThen (t_get licenses_t h (a_license a)) (\<lambda>l.
     andThen (pureA (update_entitled sv app l a in')) (\<lambda>_.
     andThen (pureA (runtime_binding sv app (up_binding in') (t_max_aliases (l_terms l)) req (a_key_hash a))) (\<lambda>b.
     andThen (t_find rules_t h (no_filter\<lparr>f_limit := 10000\<rparr>)) (\<lambda>rules.
     andThen (pureA (check_application_rules app rules b (r_id l))) (\<lambda>_.
     andThen (update_binding h rules l a b) (\<lambda>allowed.
     if \<not> allowed then raise (forbidden ''BINDING_MISMATCH'')
     else ret (app, l, a\<lparr>a_client_hash := nb_client_hash b\<rparr>)))))))))"

text \<open>The manifest is good for five minutes, and for no longer than license, updates and lease are.\<close>

definition manifest_until :: "svc \<Rightarrow> license \<Rightarrow> activation \<Rightarrow> int" where
  "manifest_until sv l a =
     clip (a_lease a) (clip (l_expires_at l) (clip (l_updates_until l) (s_now sv + 5 * minute)))"

definition manifest_of :: "release \<Rightarrow> release_manifest" where
  "manifest_of r =
     \<lparr>mf_id = r_id r, mf_version = rl_version r, mf_target = rl_target r, mf_sha = rl_sha r,
      mf_size = rl_size r, mf_filename = rl_filename r\<rparr>"

definition manifest_claims ::
  "svc \<Rightarrow> string \<Rightarrow> license \<Rightarrow> activation \<Rightarrow> release \<Rightarrow> string \<Rightarrow> jwt_claims" where
  "manifest_claims sv appID l a r jti =
     \<lparr>jc_release = Some (manifest_of r), jc_iss = token_issuer, jc_aud = appID, jc_sub = r_id l, jc_jti = jti,
      jc_iat = unix (s_now sv), jc_nbf = unix (s_now sv), jc_exp = unix (manifest_until sv l a),
      jc_use = ''update_manifest'', jc_activation = r_id a, jc_binding_type = a_binding_type a,
      jc_binding_hash = a_client_hash a, jc_model = [], jc_perpetual = False, jc_features = [],
      jc_refresh = 0, jc_grace = 0, jc_updates = None\<rparr>"

definition update_event :: "string \<Rightarrow> bool \<Rightarrow> string" where
  "update_event releaseID download =
     (if download then ''update_download_authorized''
      else if releaseID \<noteq> [] then ''update_install_authorized'' else ''update_checked'')"

definition authorize_body ::
  "svc \<Rightarrow> update_input \<Rightarrow> string \<Rightarrow> signed_request \<Rightarrow> bool \<Rightarrow> handle \<Rightarrow> (update_result \<times> string option) db_act" where
  "authorize_body sv in' releaseID req download h =
     andThen (check_update_license sv h in' req) (\<lambda>(app, l, a).
     andThen (t_find releases_t h (no_filter\<lparr>f_status := ''published'', f_limit := 10000\<rparr>)) (\<lambda>releases.
     case choose_release in' releaseID releases of
       None \<Rightarrow>
         if releaseID \<noteq> [] then raise (forbidden ''RELEASE_UNAVAILABLE'')
         else
           andThen (append_event sv h ''update_checked'' (r_id l)
             [(''available'', PBool False), (''current_version'', PStr (up_current in'))]) (\<lambda>_.
           ret (\<lparr>ur_available = False, ur_release = None, ur_manifest = [], ur_server_time = s_now sv\<rparr>, None))
     | Some r \<Rightarrow>
         andThen
           (if download then
              andThen (open_package sv r) (\<lambda>data.
              andThen (check_update_license sv h in' req) (\<lambda>_. ret (Some data)))
            else ret None) (\<lambda>opened.
         if unix (manifest_until sv l a) \<le> unix (s_now sv) then raise (forbidden ''UPDATES_EXPIRED'')
         else
           andThen (new_id sv ''manifest'') (\<lambda>jti.
           andThen (sign_claims sv h app (manifest_claims sv (up_app in') l a r jti)) (\<lambda>token.
           andThen (append_event sv h (update_event releaseID download) (r_id r)
             [(''license_id'', PStr (r_id l)), (''version'', PStr (rl_version r)), (''target'', PTarget (rl_target r))]) (\<lambda>_.
           ret (\<lparr>ur_available = True, ur_release = Some r, ur_manifest = token, ur_server_time = s_now sv\<rparr>,
                opened)))))))"

definition authorize ::
  "svc \<Rightarrow> ctx \<Rightarrow> update_input \<Rightarrow> string \<Rightarrow> signed_request \<Rightarrow> bool \<Rightarrow> (update_result \<times> string option) db_act" where
  "authorize sv cx in' releaseID req download =
     (if \<not> version_ok (up_current in') then raise invalid
      else
        andThen (update_context sv cx in') (\<lambda>a.
        in_installation sv cx (up_app in') (a_public_key a) req (\<lambda>scoped _ sc.
        or_failure sv scoped sc ''update_authorization'' releaseID
          (update scoped sc (authorize_body sv in' releaseID req download)))))"

definition check_update :: "svc \<Rightarrow> ctx \<Rightarrow> update_input \<Rightarrow> signed_request \<Rightarrow> update_result db_act" where
  "check_update sv cx in' req = andThen (authorize sv cx in' [] req False) (\<lambda>(out, _). ret out)"

definition authorize_update ::
  "svc \<Rightarrow> ctx \<Rightarrow> update_input \<Rightarrow> string \<Rightarrow> signed_request \<Rightarrow> update_result db_act" where
  "authorize_update sv cx in' releaseID req = andThen (authorize sv cx in' releaseID req False) (\<lambda>(out, _). ret out)"

definition download_update ::
  "svc \<Rightarrow> ctx \<Rightarrow> update_input \<Rightarrow> string \<Rightarrow> signed_request \<Rightarrow> (update_result \<times> string option) db_act" where
  "download_update sv cx in' releaseID req = authorize sv cx in' releaseID req True"

section \<open>Handlers as sequences of transactions\<close>

lemma file_steps [via_intros]:
  "within sg h (put_file name data)" "serves sg i (put_file name data)"
proof -
  show "within sg h (put_file name data)"
    unfolding put_file_def by (rule via_one) (auto simp: writes_def intro: tx_step.files)
  show "serves sg i (put_file name data)"
    unfolding put_file_def by (rule via_one) (auto simp: writes_def intro: world_step.files)
qed

lemma updates_via [via_intros]:
  "via R (list_releases cx i)" "via R (open_package sv r)" "via R (update_context sv cx upin)"
  "via R (check_update_license sv h upin req)"
proof -
  show "via R (list_releases cx i)" unfolding list_releases_def by (intro via_intros)
  show "via R (open_package sv r)" unfolding open_package_def Let_def by (intro via_intros)
  show "via R (update_context sv cx upin)" unfolding update_context_def by (intro via_intros)
  have "via R (update_binding h rules l a b)" for rules l a b
    unfolding update_binding_def by (intro via_intros)
  then show "via R (check_update_license sv h upin req)"
    unfolding check_update_license_def by (intro via_intros)
qed

lemma updates_within [via_intros]:
  "within (audit_sign sv) h (upload_body sv r data h)"
  "within (audit_sign sv) h (authorize_body sv upin releaseID req download h)"
proof -
  show "within (audit_sign sv) h (upload_body sv r data h)"
    unfolding upload_body_def by (intro via_intros)
  show "within (audit_sign sv) h (authorize_body sv upin releaseID req download h)"
    unfolding authorize_body_def by (intro via_intros)
qed

lemma authorize_serves [via_intros]:
  "serves (audit_sign sv) (up_app upin) (authorize sv cx upin releaseID req download)"
  unfolding authorize_def by (intro via_intros; assumption)

lemma updates_serves [via_intros]:
  "serves (audit_sign sv) i (upload_release sv cx i uin content)"
  "serves (audit_sign sv) i (set_release_status sv cx i releaseID status reason)"
  "serves (audit_sign sv) (up_app upin) (check_update sv cx upin req)"
  "serves (audit_sign sv) (up_app upin) (authorize_update sv cx upin releaseID req)"
  "serves (audit_sign sv) (up_app upin) (download_update sv cx upin releaseID req)"
proof -
  show "serves (audit_sign sv) i (upload_release sv cx i uin content)"
    unfolding upload_release_def Let_def by (intro via_intros; assumption)
  show "serves (audit_sign sv) i (set_release_status sv cx i releaseID status reason)"
    unfolding set_release_status_def Let_def by (intro via_intros; assumption)
  show "serves (audit_sign sv) (up_app upin) (check_update sv cx upin req)"
    unfolding check_update_def by (intro via_intros)
  show "serves (audit_sign sv) (up_app upin) (authorize_update sv cx upin releaseID req)"
    unfolding authorize_update_def by (intro via_intros)
  show "serves (audit_sign sv) (up_app upin) (download_update sv cx upin releaseID req)"
    unfolding download_update_def by (intro via_intros)
qed

end
