(* ===== verification/Sample.thy ===== *)
theory Sample
  imports Access
begin

text \<open>
  A small concrete service, database and set of callers. The theorems that have hypotheses are applied
  to them in the witnesses, where the hypotheses are evaluated. The functions that stand for
  cryptography and encoders are replaced by simple ones here; no theorem depends on this theory.
\<close>

definition sample_svc :: svc where
  "sample_svc =
     \<lparr>s_now = 1700000000 * second, s_hmac = (\<lambda>v. v), s_hmac_with = (\<lambda>k v. k @ v),
      s_audit_mac = (\<lambda>e. itoa (e_sequence e)),
      s_random = (\<lambda>n k. replicate k (char_of (n mod 256))), s_sha256 = (\<lambda>v. v),
      s_rsa_keys = (\<lambda>_. (''public'', ''private'')), s_rsa_sign = (\<lambda>_ m. Some m),
      s_rsa_verify = (\<lambda>_. Some (\<lambda>m sig. sig = m)), s_rsa_parts = (\<lambda>_. Some (''n'', ''e'')),
      s_ed_verify = (\<lambda>_ _ _. True), s_encrypt = (\<lambda>_ _ _ t. t), s_decrypt = (\<lambda>_ _ t. Some t),
      s_json = concat, s_header_json = (\<lambda>h. jh_kid h),
      s_header_parse = (\<lambda>kid. Some \<lparr>jh_alg = ''RS256'', jh_typ = ''JWT'', jh_kid = kid\<rparr>),
      s_claims_json = (\<lambda>c. jc_jti c), s_claims_parse = (\<lambda>_. None),
      s_webhook_json = (\<lambda>w. wi_event_id w), s_webhook_parse = (\<lambda>_. None), s_agent_json = (\<lambda>a. as_request a),
      s_feature_text = (\<lambda>_. True), s_upper = (\<lambda>v. v), s_lower = (\<lambda>v. v), s_idna = Some,
      s_public_suffix = (\<lambda>_. (''com'', True)), s_parse_url = (\<lambda>_. None), s_range = (\<lambda>keys. keys),
      s_release_dir = True,
      s_limits = \<lparr>rc_total = 1000, rc_developer = 1000, rc_application = 1000, rc_versions = 10\<rparr>\<rparr>"

definition sample_ctx :: "string \<Rightarrow> string \<Rightarrow> string \<Rightarrow> ctx" where
  "sample_ctx kind i role =
     \<lparr>cx_scope = None,
      cx_principal = Some \<lparr>pr_actor = \<lparr>act_kind = kind, act_id = i, act_role = role, act_request = []\<rparr>,
                           pr_agent = (if kind = ''agent'' then i else [])\<rparr>,
      cx_done = False\<rparr>"

definition sample_admin :: ctx where "sample_admin = sample_ctx ''admin'' ''root'' ''super_admin''"

definition sample_app :: application where
  "sample_app =
     \<lparr>r_app = ''yn1'', r_id = ''yn1'', r_created = 0, r_updated = 0, ap_block = default_block, ap_group = [],
      ap_owner_transfer = True, ap_name = ''Product'', ap_developer = ''dev'', ap_status = ''active'',
      ap_models = [''subscription'', ''floating'', ''metered''], ap_bindings = [''machine_id'', ''domain'', ''account''],
      ap_forms = [''web''], ap_policy = default_verify_policy, ap_secret_hash = [], ap_secret_version = 1,
      ap_current_kid = ''yn1.v1'', ap_public_query = True, ap_updates_enabled = True\<rparr>"

definition sample_terms :: terms where
  "sample_terms =
     \<lparr>t_renewal_targets = [], t_max_groups = 2, t_starts_on = ''activation'', t_model = ''subscription'',
      t_bindings = [''machine_id'', ''domain'', ''account''], t_forms = [''web''], t_perpetual = False, t_days = 30,
      t_update_days = 30, t_max_activations = 2, t_max_seats = 0, t_max_aliases = 1, t_quota = 0, t_unit = [],
      t_period = [], t_rebind_limit = 1, t_rebind_cooldown = 0, t_features = []\<rparr>"

definition sample_plan :: plan where
  "sample_plan =
     \<lparr>r_app = ''yn1'', r_id = ''plan_1'', r_created = 0, r_updated = 0, p_name = ''Plan'', p_enabled = True,
      p_terms = sample_terms, p_price = 1000, p_agent_cost = 500, p_currency = ''CNY''\<rparr>"

definition sample_license :: license where
  "sample_license =
     \<lparr>r_app = ''yn1'', r_id = ''lic_1'', r_created = 0, r_updated = 0, l_base_days = 30, l_base_update_days = 30,
      l_base_expires = None, l_base_updates_until = None, l_updates_blocked = False, l_renewal_only = False,
      l_activated_at = None, l_plan = ''plan_1'', l_customer = ''c'', l_owner = ''u1'', l_order = [],
      l_status = ''active'', l_terms = sample_terms, l_binding_type = [], l_binding_hash = [],
      l_expires_at = None, l_updates_until = None, l_used_units = 0, l_usage_period = [], l_rebinds_used = 0,
      l_last_rebind = None, l_reason = []\<rparr>"

definition sample_key :: signing_key where
  "sample_key =
     \<lparr>r_app = ''yn1'', r_id = ''yn1.v1'', r_created = 0, r_updated = 0, k_max_issued = None, k_kid = ''yn1.v1'',
      k_version = 1, k_algorithm = ''RS256'', k_public_pem = ''public'', k_private_cipher = ''private'',
      k_status = ''active'', k_accept_until = None\<rparr>"

definition sample_db :: db where
  "sample_db =
     \<lparr>d_apps = [sample_app], d_keys = [sample_key], d_plans = [sample_plan], d_licenses = [sample_license],
      d_activations = [], d_cards = [], d_rules = [], d_anchors = [], d_invitations = [], d_pending = [],
      d_nonces = [], d_channels = [], d_orders = [], d_webhooks = [], d_usage = [], d_grants = [],
      d_money = [], d_releases = [], d_audit = [],
      d_heads = [(''yn1'', \<lparr>hd_sequence = 0, hd_hash = []\<rparr>)],
      d_agents = [\<lparr>ag_id = ''ag1'', ag_status = ''active'', ag_balance = 100000, ag_tier = []\<rparr>],
      d_tiers = [], d_legacy_bytes = 0\<rparr>"

definition sample_world :: "db \<Rightarrow> world" where
  "sample_world d = \<lparr>w_db = d, w_files = (\<lambda>_. None), w_draws = 0, w_mutations = 0, w_audits = 0\<rparr>"

text \<open>The handle of a transaction of the administrator.\<close>

definition sample_handle :: handle where "sample_handle = entry sample_admin ''yn1'' True"

lemmas sample_defs =
  sample_svc_def sample_ctx_def sample_admin_def sample_app_def sample_terms_def sample_plan_def
  sample_license_def sample_key_def sample_db_def sample_world_def

lemma sample_enter: "may_enter sample_admin ''yn1'' w sample_app (sample_world sample_db)"
  by (simp add: may_enter_def sample_defs principal_from_def may_manage_def privileged_def find_app_def)

end
