(* ===== verification/AuditTrail.thy ===== *)
theory AuditTrail
  imports Lifecycle Sample
begin

text \<open>
  What the check of the audit log (\<open>AuditIntegrity\<close>, lifecycle.go) says about the log: reading page
  after page reads all of it, the two loops accept it exactly when it is a chain up to the recorded
  head, and two different logs with the same head contain a collision of the authentication code.
\<close>

section \<open>Reading page after page\<close>

lemma audit_filter_ok:
  "flt_ok audit_t (no_filter\<lparr>f_ascending := True, f_offset := k, f_limit := 1000\<rparr>) \<longleftrightarrow> 0 \<le> k"
  by (simp add: flt_ok_def where_clause_def flt_fields_def no_filter_def has_col_def audit_t_def)

definition audit_log :: "db \<Rightarrow> string \<Rightarrow> audit_event list" where
  "audit_log d app = sort_key e_sequence (in_app app (d_audit d))"

lemma audit_hits:
  "hits audit_t app (no_filter\<lparr>f_ascending := True, f_offset := k, f_limit := 1000\<rparr>) d =
     take 1000 (drop (nat k) (audit_log d app))"
proof -
  have "flt_selects (tb_cols audit_t) (no_filter\<lparr>f_ascending := True, f_offset := k, f_limit := 1000\<rparr>) = (\<lambda>_. True)"
    by (rule ext) (simp add: flt_selects_def flt_fields_def no_filter_def)
  then show ?thesis
    by (simp add: hits_def page_def audit_log_def in_order_def audit_t_def no_filter_def)
qed

lemma check_events_append:
  "check_events sg (es @ fs) p =
     (case check_events sg es p of (None, q) \<Rightarrow> check_events sg fs q | r \<Rightarrow> r)"
  by (induction sg es p rule: check_events.induct) (auto split: sum.splits)

lemma check_events_None:
  "check_events sg es (seq, previous) = (None, n, x) \<longleftrightarrow>
   chain sg \<lparr>hd_sequence = seq, hd_hash = previous\<rparr> es = Some \<lparr>hd_sequence = n, hd_hash = x\<rparr>"
  by (induction sg es "(seq, previous)" arbitrary: seq previous rule: check_events.induct)
     (auto split: sum.splits)

lemma chain_sequence:
  "chain sg head es = Some h \<Longrightarrow> 0 \<le> hd_sequence head \<Longrightarrow> hd_sequence head + int (length es) < 2 ^ 63 \<Longrightarrow>
   hd_sequence h = hd_sequence head + int (length es) \<and>
   map e_sequence es = map (\<lambda>k. hd_sequence head + 1 + int k) [0..<length es]"
proof (induction sg head es rule: chain.induct)
  case (2 sg head e es)
  from 2(2) have e: "e_sequence e = i64 (hd_sequence head + 1)"
    and c: "chain sg \<lparr>hd_sequence = e_sequence e, hd_hash = e_hash e\<rparr> es = Some h"
    by (auto split: if_splits)
  have s: "e_sequence e = hd_sequence head + 1" using 2(3,4) e by simp
  have "hd_sequence h = e_sequence e + int (length es) \<and>
    map e_sequence es = map (\<lambda>k. e_sequence e + 1 + int k) [0..<length es]"
    using 2(1) [OF _ c] 2(2-4) s by (auto split: if_splits)
  then show ?case using s by (auto simp: upt_conv_Cons map_Suc_upt [symmetric] simp del: upt_Suc)
qed simp

lemma chain_append:
  "chain sg head (es @ fs) = (case chain sg head es of None \<Rightarrow> None | Some h \<Rightarrow> chain sg h fs)"
  by (induction sg head es rule: chain.induct) auto

lemma check_events_Some:
  "check_events sg es (seq, previous) = (Some e, r) \<Longrightarrow> chain sg \<lparr>hd_sequence = seq, hd_hash = previous\<rparr> es = None"
  by (cases "chain sg \<lparr>hd_sequence = seq, hd_hash = previous\<rparr> es")
     (metis audit_head.cases check_events_None option.distinct(1) prod.inject)+

lemma check_pages_result:
  assumes "may_read h" and "find_head (w_db s) (h_app h) = Some head"
    and "L = audit_log (w_db s) (h_app h)" and "int (length L) < 2 ^ 63"
    and "k \<le> length L" and "length L < n + k"
  shows "\<exists>r. check_pages n sg h (int k, previous) s = (Inr r, s) \<and>
           (fst r = None \<longleftrightarrow> chain sg \<lparr>hd_sequence = int k, hd_hash = previous\<rparr> (drop k L) = Some head) \<and>
           (fst r = None \<longrightarrow> snd r = (hd_sequence head, hd_hash head))"
  using assms(5,6)
proof (induction n arbitrary: k previous)
  case (Suc n)
  let ?start = "\<lparr>hd_sequence = int k, hd_hash = previous\<rparr>"
  define pg where "pg = take 1000 (drop k L)"
  have find: "t_find audit_t h (no_filter\<lparr>f_ascending := True, f_offset := int k, f_limit := 1000\<rparr>) s = (Inr pg, s)"
    using assms(1,3) by (simp add: t_find_run audit_filter_ok audit_hits pg_def)
  have head: "audit_head_of h s = (Inr head, s)"
    using assms(1,2) by (simp add: audit_head_of_def andThen_def reads_def pureA_def ret_def)
  have rest: "drop k L = pg @ drop (k + length pg) L"
    unfolding pg_def by (metis append_take_drop_id drop_drop add.commute length_take min_def drop_all nat_le_linear take_all)
  show ?case
  proof (cases pg)
    case Nil
    then have "drop k L = []" by (simp add: pg_def)
    moreover have "check_pages (Suc n) sg h (int k, previous) s =
        (Inr (if hd_sequence head \<noteq> int k \<or> hd_hash head \<noteq> previous
              then (Some (Fault ''audit head mismatch''), int k, previous) else (None, int k, previous)), s)"
      using find Nil head by (simp add: andThen_def attempt_def ret_def)
    ultimately show ?thesis by (cases head) auto
  next
    case (Cons e es)
    obtain err m x where ev: "check_events sg pg (int k, previous) = (err, m, x)" by (metis prod_cases3)
    have run: "check_pages (Suc n) sg h (int k, previous) s =
        (case err of None \<Rightarrow> check_pages n sg h (m, x) s | Some e \<Rightarrow> (Inr (Some e, m, x), s))"
      using find ev Cons by (simp add: andThen_def attempt_def ret_def split: option.splits)
    show ?thesis
    proof (cases err)
      case None
      with ev have c: "chain sg ?start pg = Some \<lparr>hd_sequence = m, hd_hash = x\<rparr>"
        by (simp add: check_events_None)
      have short: "length pg \<le> length L - k" by (simp add: pg_def)
      have m: "m = int (k + length pg)"
        using chain_sequence [OF c] short Suc.prems(1) assms(4) by auto
      have "0 < length pg" using Cons by simp
      with short Suc.prems have "k + length pg \<le> length L" "length L < n + (k + length pg)" by linarith+
      from Suc.IH [OF this, of x] show ?thesis
        using run None m rest c by (simp add: chain_append)
    next
      case (Some er)
      with ev have "chain sg ?start pg = None" by (simp add: check_events_Some)
      then have "chain sg ?start (drop k L) = None" by (subst rest) (simp add: chain_append)
      with run Some show ?thesis by simp
    qed
  qed
qed simp


lemma audit_log_chain:
  assumes "chain sg head (in_app i (d_audit d)) = Some h" and "0 \<le> hd_sequence head"
    and "hd_sequence head + int (length (in_app i (d_audit d))) < 2 ^ 63"
  shows "audit_log d i = in_app i (d_audit d)"
proof -
  have "map e_sequence (in_app i (d_audit d)) =
      map (\<lambda>k. hd_sequence head + 1 + int k) [0..<length (in_app i (d_audit d))]"
    using chain_sequence [OF assms] by simp
  moreover have "sorted (map (\<lambda>k. c + int k) [0..<n])" for c n
    by (simp add: sorted_iff_nth_mono)
  ultimately show ?thesis unfolding audit_log_def by (simp add: sort_key_id_if_sorted sorted_sort_id)
qed

lemma audit_integrity_run:
  assumes "may_enter cx i False app s" and "find_head (w_db s) i = Some head"
    and "int (length (audit_log (w_db s) i)) < 2 ^ 63"
  shows "\<exists>r. audit_integrity sv cx i s = (Inr r, s) \<and>
     (ig_valid r \<longleftrightarrow> chain (audit_sign sv) \<lparr>hd_sequence = 0, hd_hash = []\<rparr> (audit_log (w_db s) i) = Some head)"
proof -
  let ?n = "Suc (length (d_audit (w_db s)))"
  have "may_read (entry cx i False)" using assms(1) entry_checks(3) by (auto simp: may_enter_def)
  moreover have "length (audit_log (w_db s) i) < ?n"
    using length_filter_le [of _ "d_audit (w_db s)"] by (simp add: audit_log_def in_app_def le_imp_less_Suc)
  ultimately obtain r where
    "check_pages ?n (audit_sign sv) (entry cx i False) (0, []) s = (Inr r, s)"
    "fst r = None \<longleftrightarrow> chain (audit_sign sv) \<lparr>hd_sequence = 0, hd_hash = []\<rparr> (audit_log (w_db s) i) = Some head"
    using check_pages_result [of "entry cx i False" s head _ 0 ?n "audit_sign sv" "[]"] assms by auto
  with assms(1) show ?thesis
    by (cases r) (auto simp: audit_integrity_def enter view_entered andThen_def attempt_def reads_def ret_def
        simp del: check_pages.simps)
qed

section \<open>Properties\<close>

text \<open>C5. \<open>AuditIntegrity\<close> answers for every caller who may read the application, it changes nothing,
  and it reports a valid log exactly when the events in order of their sequence numbers form a chain
  from the empty hash to the recorded head, each event carrying the signature of its own content.\<close>

theorem audit_integrity_iff:
  assumes "may_enter cx i False app s" and "find_head (w_db s) i = Some head"
    and "int (length (audit_log (w_db s) i)) < 2 ^ 63"
  shows "\<exists>r. audit_integrity sv cx i s = (Inr r, s) \<and>
     (ig_valid r \<longleftrightarrow> chain (audit_sign sv) \<lparr>hd_sequence = 0, hd_hash = []\<rparr> (audit_log (w_db s) i) = Some head)"
  by (rule audit_integrity_run [OF assms])

lemma audit_integrity_iff_witness:
  "may_enter sample_admin ''yn1'' False sample_app (sample_world sample_db) \<and>
   (\<exists>r. audit_integrity sample_svc sample_admin ''yn1'' (sample_world sample_db) = (Inr r, sample_world sample_db) \<and>
     ig_valid r)"
proof -
  have "find_head (w_db (sample_world sample_db)) ''yn1'' = Some \<lparr>hd_sequence = 0, hd_hash = []\<rparr>"
    "audit_log (w_db (sample_world sample_db)) ''yn1'' = []"
    by (simp_all add: sample_defs find_head_def audit_log_def in_app_def)
  then show ?thesis
    using audit_integrity_iff [OF sample_enter, of "\<lparr>hd_sequence = 0, hd_hash = []\<rparr>" sample_svc]
    by (auto simp: sample_enter)
qed

text \<open>C6. The log is tamper-evident: two logs that the check accepts with the same head are the same
  log, or they contain two events with different content and the same authentication code.\<close>

theorem audit_log_tamper_evident:
  assumes "chain (audit_sign sv) start es = Some head" and "chain (audit_sign sv) start fs = Some head"
    and "0 \<le> hd_sequence start" and "hd_sequence start + int (length es) < 2 ^ 63"
    and "hd_sequence start + int (length fs) < 2 ^ 63"
  shows "es = fs \<or>
    (\<exists>e \<in> set es. \<exists>f \<in> set fs. e\<lparr>e_hash := []\<rparr> \<noteq> f\<lparr>e_hash := []\<rparr> \<and>
       s_audit_mac sv (e\<lparr>e_hash := []\<rparr>) = s_audit_mac sv (f\<lparr>e_hash := []\<rparr>))"
  using assms
proof (induction es arbitrary: fs head rule: rev_induct)
  case Nil
  have "hd_sequence head = hd_sequence start + int (length fs)" using chain_sequence [OF Nil(2,3,5)] by simp
  with Nil(1) show ?case by auto
next
  case (snoc e es)
  have "hd_sequence head = hd_sequence start + int (length fs)" using chain_sequence [OF snoc(3,4,6)] by simp
  moreover have "hd_sequence head = hd_sequence start + int (Suc (length es))"
    using chain_sequence [OF snoc(2,4,5)] by simp
  ultimately obtain gs f where fs: "fs = gs @ [f]" by (cases fs rule: rev_cases) auto
  from snoc(2) obtain p where p: "chain (audit_sign sv) start es = Some p"
    "e_sequence e = i64 (hd_sequence p + 1)" "e_previous e = hd_hash p" "audit_sign sv e = Inr (e_hash e)"
    "head = \<lparr>hd_sequence = e_sequence e, hd_hash = e_hash e\<rparr>"
    by (auto simp: chain_snoc split: option.splits if_splits)
  from snoc(3) fs obtain q where q: "chain (audit_sign sv) start gs = Some q"
    "e_sequence f = i64 (hd_sequence q + 1)" "e_previous f = hd_hash q" "audit_sign sv f = Inr (e_hash f)"
    "head = \<lparr>hd_sequence = e_sequence f, hd_hash = e_hash f\<rparr>"
    by (auto simp: chain_snoc split: option.splits if_splits)
  show ?case
  proof (cases "e\<lparr>e_hash := []\<rparr> = f\<lparr>e_hash := []\<rparr>")
    case True
    then have "e\<lparr>e_hash := []\<rparr>\<lparr>e_hash := e_hash e\<rparr> = f\<lparr>e_hash := []\<rparr>\<lparr>e_hash := e_hash f\<rparr>"
      using p(5) q(5) by simp
    then have ef: "e = f" by simp
    have n: "hd_sequence start + int (length es) < 2 ^ 63" "hd_sequence start + int (length gs) < 2 ^ 63"
      using snoc.prems fs by auto
    have "length es = length gs"
      using \<open>hd_sequence head = hd_sequence start + int (length fs)\<close>
        \<open>hd_sequence head = hd_sequence start + int (Suc (length es))\<close> fs by simp
    then have "p = q" using ef p(3) q(3) chain_sequence [OF p(1) snoc(4) n(1)] chain_sequence [OF q(1) snoc(4) n(2)]
      by (cases p, cases q) auto
    with snoc.IH [OF p(1) _ snoc(4) n] q(1) fs ef show ?thesis by auto
  next
    case False
    moreover have "s_audit_mac sv (e\<lparr>e_hash := []\<rparr>) = s_audit_mac sv (f\<lparr>e_hash := []\<rparr>)"
      using p(4,5) q(4,5) by (simp add: audit_sign_def)
    ultimately show ?thesis using fs by auto
  qed
qed

lemma audit_log_tamper_evident_witness:
  "\<exists>e head. chain (audit_sign sample_svc) \<lparr>hd_sequence = 0, hd_hash = []\<rparr> [e] = Some head \<and>
     (\<forall>f. chain (audit_sign sample_svc) \<lparr>hd_sequence = 0, hd_hash = []\<rparr> [f] = Some head \<longrightarrow>
        [e] = [f] \<or> s_audit_mac sample_svc (e\<lparr>e_hash := []\<rparr>) = s_audit_mac sample_svc (f\<lparr>e_hash := []\<rparr>))"
proof -
  define e where "e = \<lparr>r_app = ''yn1'', r_id = ''event_1'', r_created = 0, r_updated = 0, e_sequence = 1,
    e_type = ''license_issued'', e_entity = ''lic_1'',
    e_actor = \<lparr>act_kind = ''admin'', act_id = ''root'', act_role = [], act_request = []\<rparr>,
    e_result = ''success'', e_reason = [], e_payload = [], e_previous = [], e_hash = ''1''\<rparr>"
  have "itoa 1 = ''1''" by code_simp
  then have c: "chain (audit_sign sample_svc) \<lparr>hd_sequence = 0, hd_hash = []\<rparr> [e] = Some \<lparr>hd_sequence = 1, hd_hash = ''1''\<rparr>"
    by (simp add: audit_sign_def sample_svc_def e_def)
  then show ?thesis
    by (intro exI [of _ e] exI conjI allI impI, assumption) (drule audit_log_tamper_evident [OF c], auto)
qed

end
