(* ===== verification/Requests.thy ===== *)
theory Requests
  imports Public Updates AuditTrail
begin

text \<open>
  The service as a transition system: one step is one call of a handler of \<open>internal/licensing\<close>, for
  any caller, any arguments and any outcome. \<open>app_request sv app\<close> collects the handlers that work on
  one application, \<open>request sv\<close> adds the creation of an application and the grants for a group of
  applications. Every step is a sequence of transactions (\<open>world_step\<close>), which gives the invariants.
\<close>

section \<open>Calls\<close>

inductive app_request :: "svc \<Rightarrow> string \<Rightarrow> world \<Rightarrow> world \<Rightarrow> bool" for sv app where
  save_application: "save_application_handler sv cx app input status s = (r1, t) \<Longrightarrow> app_request sv app s t"
| reset_secret: "reset_app_secret sv cx app reason s = (r2, t) \<Longrightarrow> app_request sv app s t"
| assign_dev: "assign_developer sv cx app developer reason s = (r3, t) \<Longrightarrow> app_request sv app s t"
| rotate_key: "rotate_signing_key sv cx app reason immediately s = (r4, t) \<Longrightarrow> app_request sv app s t"
| save_plan: "save_plan sv cx app planID pin s = (r5, t) \<Longrightarrow> app_request sv app s t"
| save_rule: "save_binding_rule sv cx app ruleID rin s = (r6, t) \<Longrightarrow> app_request sv app s t"
| remove_rule: "remove_binding_rule sv cx app ruleID reason s = (r7, t) \<Longrightarrow> app_request sv app s t"
| activate: "activate sv cx ain req s = (r8, t) \<Longrightarrow> ac_app ain = app \<Longrightarrow> app_request sv app s t"
| verify: "verify sv cx vin req s = (r9, t) \<Longrightarrow> vi_app vin = app \<Longrightarrow> app_request sv app s t"
| set_status: "set_license_status sv cx app licenseID status reason s = (r10, t) \<Longrightarrow> app_request sv app s t"
| invite: "create_invitation sv cx app licenseID hours s = (r11, t) \<Longrightarrow> app_request sv app s t"
| register: "register_binding sv cx app licenseID binding reason s = (r12, t) \<Longrightarrow> app_request sv app s t"
| rebind: "rebind sv cx app licenseID binding reason s = (r13, t) \<Longrightarrow> app_request sv app s t"
| deactivate: "deactivate_installation sv cx app activationID reason s = (r14, t) \<Longrightarrow> app_request sv app s t"
| renew: "customer_renew sv cx app licenseID crd s = (r15, t) \<Longrightarrow> app_request sv app s t"
| audit: "audit_integrity sv cx app s = (r16, t) \<Longrightarrow> app_request sv app s t"
| ask_installation: "request_installation sv cx pin' req s = (r17, t) \<Longrightarrow> pi_app pin' = app \<Longrightarrow> app_request sv app s t"
| approve: "approve_installation sv cx app pendingID licenseID status reason s = (r18, t) \<Longrightarrow> app_request sv app s t"
| claim: "claim_customer_license sv cx app code s = (r19, t) \<Longrightarrow> app_request sv app s t"
| assign_owner: "assign_license_owner sv cx app licenseID user reason s = (r20, t) \<Longrightarrow> app_request sv app s t"
| customer_deactivate:
    "customer_deactivate sv cx app licenseID activationID reason s = (r21, t) \<Longrightarrow> app_request sv app s t"
| create_sale: "create_sale sv cx app sin' confirmed s = (r22, t) \<Longrightarrow> app_request sv app s t"
| confirm_sale: "confirm_sale sv cx app orderID reason s = (r23, t) \<Longrightarrow> app_request sv app s t"
| revoke_card: "revoke_card sv cx app cardID reason s = (r24, t) \<Longrightarrow> app_request sv app s t"
| save_channel: "save_sales_channel sv cx app channelID cin rot s = (r25, t) \<Longrightarrow> app_request sv app s t"
| receive_sale: "receive_sale sv cx app channelID timestamp signature body s = (r26, t) \<Longrightarrow> app_request sv app s t"
| refund_sale: "refund_sale sv cx app orderID reason s = (r27, t) \<Longrightarrow> app_request sv app s t"
| save_grant: "save_agent_grant sv cx app gin s = (r28, t) \<Longrightarrow> app_request sv app s t"
| agent_sale: "agent_sale sv cx app asin s = (r29, t) \<Longrightarrow> app_request sv app s t"
| upload: "upload_release sv cx app uin content s = (r30, t) \<Longrightarrow> app_request sv app s t"
| release_status: "set_release_status sv cx app releaseID status reason s = (r31, t) \<Longrightarrow> app_request sv app s t"
| check_update: "check_update sv cx upin req s = (r32, t) \<Longrightarrow> up_app upin = app \<Longrightarrow> app_request sv app s t"
| authorize_update:
    "authorize_update sv cx upin releaseID req s = (r33, t) \<Longrightarrow> up_app upin = app \<Longrightarrow> app_request sv app s t"
| download_update:
    "download_update sv cx upin releaseID req s = (r34, t) \<Longrightarrow> up_app upin = app \<Longrightarrow> app_request sv app s t"
| report: "report_integrity sv cx rin req s = (r35, t) \<Longrightarrow> rp_app rin = app \<Longrightarrow> app_request sv app s t"
| review: "review_license_security sv cx app licenseID din s = (r36, t) \<Longrightarrow> app_request sv app s t"
| appeal: "submit_security_appeal sv cx app licenseID reason s = (r37, t) \<Longrightarrow> app_request sv app s t"

inductive request :: "svc \<Rightarrow> world \<Rightarrow> world \<Rightarrow> bool" for sv where
  one: "app_request sv app s t \<Longrightarrow> request sv s t"
| create: "create_application sv cx input s = (r1, t) \<Longrightarrow> request sv s t"
| group_grants: "save_group_agent_grants sv cx grp grant s = (r2, t) \<Longrightarrow> request sv s t"

inductive_cases app_requestE: "app_request sv app s t"
inductive_cases requestE: "request sv s t"

section \<open>Calls are sequences of transactions\<close>

lemma app_request_steps:
  assumes "app_request sv app s t"
  shows "(world_step (audit_sign sv) app)\<^sup>*\<^sup>* s t"
  using assms
  by (rule app_requestE)
     (auto elim!: viaD [rotated] intro: access_serves rotate_serves catalog_serves runtime_serves lifecycle_serves
        lifecycle_via installations_serves sales_serves agents_serves updates_serves security_serves)

text \<open>The steps of the service as a whole, on any application.\<close>

definition any_step :: "svc \<Rightarrow> world \<Rightarrow> world \<Rightarrow> bool" where
  "any_step sv s t \<longleftrightarrow> (\<exists>app. world_step (audit_sign sv) app s t)"

lemma via_any: "serves (audit_sign sv) app m \<Longrightarrow> via (any_step sv) m"
  unfolding via_def by (metis (no_types, lifting) any_step_def mono_rtranclp)

lemma via_create_application: "via (any_step sv) (create_application sv cx input)"
proof -
  have c: "via (any_step sv) (reg_create cx' a key ev (audit_sign sv))" for cx' a key ev
  proof (rule via_one)
    fix s r t assume run: "reg_create cx' a key ev (audit_sign sv) s = (r, t)"
    show "any_step sv s t \<or> t = s"
    proof (cases "r_app a = [] \<or> r_id a \<noteq> r_app a \<or> act_kind (e_actor ev) = []")
      case False
      show ?thesis
      proof (cases "bind_scope cx' (r_app a) (e_actor ev) True")
        case (Inr cx2)
        let ?sc = "\<lparr>sc_app = r_app a, sc_actor = e_actor ev, sc_writable = True\<rparr>"
        have "scope_from cx2 = Inr ?sc" using bind_scope_Inr [OF Inr] by (simp add: scope_from_def)
        with run False Inr have "transaction True cx2 ?sc (create_rows a key ev (audit_sign sv)) s = (r, t)"
          by (simp add: reg_create_def)
        then have "world_step (audit_sign sv) (r_app a) s t" by (rule world_step.create) simp_all
        then show ?thesis unfolding any_step_def by blast
      qed (use run False in \<open>simp add: reg_create_def raise_def\<close>)
    qed (use run in \<open>simp add: reg_create_def raise_def\<close>)
  qed
  show ?thesis
    unfolding create_application_def Let_def
    by (intro via_intros c via_any [OF serves_draw(1)] via_any [OF serves_draw(2)] via_any [OF serves_draw(4)]
        via_any [OF serves_draw(5)] via_any [OF serves_draw(6)] via_any [OF serves_draw(7)])
qed

lemma via_group_grants: "via (any_step sv) (save_group_agent_grants sv cx grp grant)"
  unfolding save_group_agent_grants_def list_plans_def
  by (intro via_intros via_any [OF agents_serves(1)])

lemma request_steps: "request sv s t \<Longrightarrow> (any_step sv)\<^sup>*\<^sup>* s t"
proof (induction rule: request.induct)
  case (one app s t)
  have "(world_step (audit_sign sv) app)\<^sup>*\<^sup>* s t" by (rule app_request_steps [OF one])
  then show ?case by (rule rtranclp_mono [THEN predicate2D, rotated]) (auto simp: any_step_def)
next
  case (create cx input s r t)
  then show ?case by (rule viaD [OF via_create_application])
next
  case (group_grants cx grp grant s r t)
  then show ?case by (rule viaD [OF via_group_grants])
qed

text \<open>What every transaction keeps, every call keeps.\<close>

lemma request_keeps:
  assumes "request sv s t" and "I s"
    and "\<And>app u v. world_step (audit_sign sv) app u v \<Longrightarrow> I u \<Longrightarrow> I v"
  shows "I t"
  using request_steps [OF assms(1)]
  by (induction rule: rtranclp_induct) (use assms in \<open>auto simp: any_step_def\<close>)

section \<open>Every application has an audit head\<close>

definition heads_ok :: "db \<Rightarrow> bool" where
  "heads_ok d \<longleftrightarrow> list_all (\<lambda>a. find_head d (r_app a) \<noteq> None) (d_apps d)"

lemma heads_kept: "tx_step sg h s t \<Longrightarrow> heads_ok (w_db s) \<Longrightarrow> heads_ok (w_db t)"
proof (induction rule: tx_step.induct)
  case (application a s t)
  then show ?case by (fastforce simp: run_iffs heads_ok_def find_head_def list_all_iff)
next
  case (audit ev s t)
  have "d_apps (put_head x y d) = d_apps d" for x y d by (simp add: put_head_def)
  with audit show ?case by (auto simp: run_iffs heads_ok_def audit_effect_def find_head_put list_all_iff)
qed (auto simp: heads_ok_def find_head_def table_edit_def run_iffs step_run_defs list_all_iff dest!: table_step_edit)

lemma steps_heads: "(tx_step sg h)\<^sup>*\<^sup>* s t \<Longrightarrow> heads_ok (w_db s) \<Longrightarrow> heads_ok (w_db t)"
  by (induction rule: rtranclp_induct) (auto simp: heads_kept)

lemma world_heads: "world_step sg app s t \<Longrightarrow> heads_ok (w_db s) \<Longrightarrow> heads_ok (w_db t)"
proof (induction rule: world_step.induct)
  case (create cx sc ap key ev s r t)
  have "heads_ok (w_db s) \<Longrightarrow> heads_ok (created_db ap (w_db s))"
    by (auto simp: created_db_def heads_ok_def find_head_def list_all_iff map_add_def split: option.splits)
  with create create_steps [OF create(1)] show ?case by (auto dest: steps_heads)
qed (auto dest: steps_heads)

section \<open>The invariant of the service\<close>

definition service_ok :: "svc \<Rightarrow> db \<Rightarrow> bool" where
  "service_ok sv d \<longleftrightarrow>
     db_ids_ok d \<and> balances_ok d \<and> heads_ok d \<and> (\<forall>app. chain_ok (audit_sign sv) app d)"

lemma service_ok_request: "request sv s t \<Longrightarrow> service_ok sv (w_db s) \<Longrightarrow> service_ok sv (w_db t)"
  by (rule request_keeps [where I = "\<lambda>s. service_ok sv (w_db s)"])
     (auto simp: service_ok_def dest: world_ids world_balances world_heads world_chain)

lemma service_ok_reach: "(request sv)\<^sup>*\<^sup>* s t \<Longrightarrow> service_ok sv (w_db s) \<Longrightarrow> service_ok sv (w_db t)"
  by (induction rule: rtranclp_induct) (auto simp: service_ok_request)

lemma sample_service_ok: "service_ok sample_svc sample_db"
  by (auto simp: service_ok_def db_ids_ok_def balances_ok_def heads_ok_def chain_ok_def ids_ok_def unique_rows_def
      sample_defs find_head_def in_app_def balance_limit_def)

end
