(* ===== verification/Execution.thy ===== *)
theory Execution
  imports Sample Runtime
begin

text \<open>
  Running a handler on a concrete state by rewriting: the congruence rules keep the simplifier out of
  the continuations until their argument is known, and \<open>exec\<close> collects the equations of the store, the
  transactions and the platform. The witnesses use it on the service and database of \<open>Sample\<close>.
\<close>

section \<open>Order of evaluation\<close>

lemma run_lazy:
  "andThen m f = andThen m f" "update a b g = update a b g" "view a b g = view a b g"
  "in_application a c w k = in_application a c w k" "in_runtime a c e k = in_runtime a c e k"
  "in_public a c k = in_public a c k"
  by (rule refl)+

lemma let_lazy: "x = y \<Longrightarrow> Let x f = Let y f"
  by simp

lemmas exec_cong = run_lazy let_lazy if_weak_cong option.case_cong_weak prod.case_cong_weak
  sum.case_cong_weak list.case_cong_weak

named_theorems exec "equations that run a handler"

lemma exec_at [exec]:
  "andThen m f s = (case m s of (Inl e, t) \<Rightarrow> (Inl e, t) | (Inr x, t) \<Rightarrow> f x t)"
  "(if c then m else n) s = (if c then m s else n s)"
  "(Let v g) s = g v s"
  by (simp_all add: andThen_def)

lemmas exec_prims [exec] =
  ret_def raise_def pureA_def reads_def writes_def attempt_def orElse_def forEach.simps foldEach.simps mutate_def

lemma t_get_at [exec]:
  "check_read h = Inr () \<Longrightarrow>
   t_get tb h i s = (case row_at tb (h_app h) (w_db s) i of None \<Rightarrow> (Inl ErrNotFound, s) | Some r \<Rightarrow> (Inr r, s))"
proof (cases "row_at tb (h_app h) (w_db s) i")
  case None
  assume r: "check_read h = Inr ()"
  show ?thesis
  proof (cases "i = []")
    case False
    from None False have e: "in_order tb False (filter (\<lambda>r. r_id r = i) (in_app (h_app h) (tb_rows tb (w_db s)))) = []"
      by (simp add: row_at_def split: list.splits)
    have "hits tb (h_app h) (no_filter\<lparr>f_id := i, f_limit := 1\<rparr>) (w_db s) = []"
      unfolding hits_def flt_selects_id [OF False] using e by (simp add: page_def)
    moreover have "t_find tb h (no_filter\<lparr>f_id := i, f_limit := 1\<rparr>) s =
        (Inr (hits tb (h_app h) (no_filter\<lparr>f_id := i, f_limit := 1\<rparr>) (w_db s)), s)"
      using r by (simp add: t_find_run flt_ok_id)
    ultimately show ?thesis using None False by (simp add: t_get_def andThen_def raise_def)
  qed (simp add: t_get_def raise_def)
next
  case (Some r)
  assume "check_read h = Inr ()"
  with Some have "t_get tb h i s = (Inr r, s)" by (simp add: t_get_run)
  with Some show ?thesis by simp
qed

lemmas exec_store [exec] =
  bind_scope_def scope_from_def same_actor_def check_scope_def check_read_def check_write_def in_app_def
  has_row_def app_exists_def flt_fields_def sql_after_def sql_not_before_def sql_before_def col_value_def
  has_col_def flt_selects_def where_clause_def in_order_def page_def t_find_def row_at_def t_count_def
  t_prepare_def same_row_def clashes_def t_insert_def put_row_def t_save_def drop_row_def t_delete_def
  t_lock_def table_defs no_filter_def sql_opt_str_def sql_opt_time_def

lemmas exec_transactions [exec] =
  find_app_def reg_get_def reg_list_def tx_application_def lock_application_def save_application_def
  find_head_def put_head_def append_audit_def audit_head_of_def active_groups_def count_binding_groups_def
  bulk_def retire_bindings_def deactivate_all_def invalidate_invitations_def agent_account_def
  add_balance_def balance_met_def debit_agent_def credit_agent_def view_def transaction_def update_def
  create_rows_def reg_create_def event_id_def

lemmas exec_platform [exec] =
  audit_sign_def draw_def new_id_def random_hex_def rsa_key_pair_def encrypt_for_def application_secret_def
  application_id_def new_event_def append_event_def failure_def or_failure_def principal_from_def
  privileged_def may_manage_def scoped_repo_def application_context_def runtime_context_def mk_actor_def
  public_context_def in_application_def in_runtime_def in_public_def
  second_def minute_def hour_def

section \<open>The sample service\<close>

lemma sample_fields [exec]:
  "s_now sample_svc = 1700000000 * second" "s_hmac sample_svc v = v" "s_hmac_with sample_svc k v = k @ v"
  "s_audit_mac sample_svc e = itoa (e_sequence e)" "s_sha256 sample_svc v = v"
  "s_rsa_keys sample_svc n = (''public'', ''private'')" "s_rsa_sign sample_svc p v = Some v"
  "s_encrypt sample_svc a p n x = x" "s_decrypt sample_svc a p x = Some x"
  "s_release_dir sample_svc" "s_range sample_svc ks = ks"
  "s_limits sample_svc = \<lparr>rc_total = 1000, rc_developer = 1000, rc_application = 1000, rc_versions = 10\<rparr>"
  by (simp_all add: sample_svc_def)

lemma sample_ids [exec]:
  "base32_lower (s_random sample_svc 0 16) = ''aaaaaaaaaaaaaaaaaaaaaaaaaa''"
  "base32_lower (s_random sample_svc (Suc 0) 16) = ''aeaqcaibaeaqcaibaeaqcaibae''"
  "base32_lower (s_random sample_svc (Suc (Suc 0)) 16) = ''aibaeaqcaibaeaqcaibaeaqcai''"
  "base32_lower (s_random sample_svc (Suc (Suc (Suc 0))) 16) = ''ambqgaydambqgaydambqgaydam''"
  "base32_lower (s_random sample_svc (Suc (Suc (Suc (Suc 0)))) 16) = ''aqcaibaeaqcaibaeaqcaibaeaq''"
  "base32_lower (s_random sample_svc (Suc (Suc (Suc (Suc (Suc 0))))) 16) = ''aucqkbifaucqkbifaucqkbifau''"
  "base32_lower (s_random sample_svc (Suc (Suc (Suc (Suc (Suc (Suc 0)))))) 16) = ''aydambqgaydambqgaydambqgay''"
  "base32_lower (s_random sample_svc (Suc (Suc (Suc (Suc (Suc (Suc (Suc 0))))))) 16) = ''a4dqobyha4dqobyha4dqobyha4''"
  by code_simp+

lemma sample_texts [exec]:
  "itoa 1 = ''1''" "itoa 2 = ''2''" "itoa 3 = ''3''" "trim_space ''reason'' = ''reason''"
  by code_simp+

lemmas exec_sample [exec] =
  sample_ctx_def sample_admin_def sample_app_def sample_terms_def sample_plan_def sample_license_def
  sample_key_def sample_db_def sample_world_def sample_handle_def entry_def entered_def fresh_def

lemma sample_terms_normal: "normalize_terms sample_svc sample_app sample_terms = Inr sample_terms"
  by code_simp

lemmas sample_terms_accepted [exec] = sample_terms_normal [unfolded sample_app_def sample_terms_def]

text \<open>A run that did not fail has a result.\<close>

lemma succeeds: "\<not> isl (fst p) \<Longrightarrow> \<exists>x t. p = (Inr x, t)"
  by (metis isl_def prod.collapse sum.exhaust_sel)

lemma succeeds_unit: "\<not> isl (fst p) \<Longrightarrow> \<exists>t. p = (Inr (), t)"
  using succeeds [of p] by simp

text \<open>A binding to an account.\<close>

definition sample_account :: binding_input where
  "sample_account = \<lparr>bi_type = ''account'', bi_value = ''acc1'', bi_aliases = [], bi_source = []\<rparr>"

lemma sample_account_normal [exec]:
  "bi_type sample_account = ''account''"
  "normalize_binding sample_svc ''yn1'' sample_account 1 =
     Inr \<lparr>nb_kind = ''account'', nb_value = ''acc1'', nb_group_value = ''acc1'',
       nb_hash = binding_hash sample_svc ''account'' ''yn1'' ''acc1'', nb_client_hash = client_hash sample_svc ''account'' ''acc1'',
       nb_display = mask_anchor sample_svc ''account'' ''acc1'', nb_aliases = []\<rparr>"
  by code_simp+

text \<open>A signed request and a running installation.\<close>

definition sample_request :: signed_request where
  "sample_request =
     \<lparr>rq_method = ''POST'', rq_path = ''/activate'', rq_remote_ip = [], rq_request = ''r1'', rq_body = ''{}'',
      rq_proof = \<lparr>pf_timestamp = 1700000000, pf_nonce = ''n1'', pf_signature = []\<rparr>\<rparr>"

definition sample_seat :: activation where
  "sample_seat =
     \<lparr>r_app = ''yn1'', r_id = ''act_1'', r_created = 0, r_updated = 0, a_deactivation_reason = [], a_group = ''g1'',
      a_license = ''lic_1'', a_installation = ''hash'', a_public_key = ''key'', a_key_hash = ''hash'', a_session = [],
      a_binding_type = ''account'', a_binding_hash = keyed_hash sample_svc ''binding/account'' ''yn1'' ''acc1'',
      a_client_hash = [], a_label = [], a_lease = None, a_borrowed = False, a_verified_at = 0, a_deactivated_at = None\<rparr>"

lemma sample_account_hash: "binding_hash sample_svc ''account'' ''yn1'' ''acc1'' = a_binding_hash sample_seat"
  by (simp add: binding_hash_def sample_seat_def)

text \<open>A card that activates the sample license.\<close>

definition sample_card :: card_key where
  "sample_card =
     \<lparr>r_app = ''yn1'', r_id = ''card_1'', r_created = 0, r_updated = 0, c_refunded_at = None, c_source = [],
      c_redeemed = [], c_plan = ''plan_1'', c_batch = [], c_key_hash = card_hash sample_svc ''yn1'' ''c1'',
      c_last_four = [], c_purpose = ''activate'', c_status = ''unused'', c_bound = ''lic_1'', c_used_at = None,
      c_redeem_until = None\<rparr>"

section \<open>Tokens\<close>

text \<open>The text of a token is left as it is when a handler is run.\<close>

definition token_text :: "string \<Rightarrow> string \<Rightarrow> jwt_claims \<Rightarrow> string" where
  "token_text private kid claims = (case sign_jwt sample_svc private kid claims of Inr t \<Rightarrow> t | Inl _ \<Rightarrow> [])"

lemma sign_jwt_text [exec]:
  "sign_jwt sample_svc private kid claims =
     (if kid = [] \<or> jc_iss claims \<noteq> token_issuer \<or> jc_aud claims = [] \<or> jc_sub claims = [] \<or>
         jc_jti claims = [] \<or> jc_use claims = [] \<or> jc_exp claims \<le> jc_iat claims
      then Inl (Fault ''incomplete JWT claims'') else Inr (token_text private kid claims))"
  by (simp add: token_text_def sign_jwt_def Let_def sample_svc_def)

end
