(* ===== verification/Outcomes.thy ===== *)
theory Outcomes
  imports Lifecycle
begin

text \<open>
  Reading the effect of a handler off its text. \<open>outcome\<close> takes a successful run apart: the guards that
  held, the rows that were read, the writes that were made, in terms of the maps of rows of \<open>Effects\<close>.
\<close>

named_theorems outcome "the parts of a successful run"

lemmas outcome_plumbing [outcome] =
  ret_run raise_run andThen_run pureA_run reads_run writes_run attempt_run orElse_run case_option_run
  forEach_Nil_run forEach_Cons_run mutate_run draw_runs t_find_run t_count_run t_lock_run

lemma if_cases_run [outcome]:
  "(if c then m else n) s = (Inr y, t) \<longleftrightarrow> c \<and> m s = (Inr y, t) \<or> \<not> c \<and> n s = (Inr y, t)"
  by simp

lemma let_run [outcome]: "(Let v f) s = (Inr y, t) \<longleftrightarrow> f v s = (Inr y, t)"
  by (simp add: Let_def)

lemma case_sum_run [outcome]:
  "(case r of Inl e \<Rightarrow> m e | Inr x \<Rightarrow> n x) s = (Inr y, t) \<longleftrightarrow>
   (\<exists>e. r = Inl e \<and> m e s = (Inr y, t)) \<or> (\<exists>x. r = Inr x \<and> n x s = (Inr y, t))"
  by (cases r) auto

lemma case_list_run [outcome]:
  "(case q of [] \<Rightarrow> m | x # xs \<Rightarrow> n x xs) s = (Inr y, t) \<longleftrightarrow>
   q = [] \<and> m s = (Inr y, t) \<or> (\<exists>x xs. q = x # xs \<and> n x xs s = (Inr y, t))"
  by (cases q) auto

lemma case_prod_run [outcome]:
  "(case p of (a, b) \<Rightarrow> f a b) s = (Inr x, t) \<longleftrightarrow> (\<exists>a b. p = (a, b) \<and> f a b s = (Inr x, t))"
  by (cases p) auto

section \<open>Contexts\<close>

lemma in_application_run [outcome]:
  "in_application cx i w f s = (Inr x, t) \<longleftrightarrow>
     (\<exists>p app cx'. principal_from cx = Inr p \<and> find_app (w_db s) i = Some app \<and> r_app app = i \<and> i \<noteq> [] \<and>
        may_manage p app w \<and> bind_scope cx i (pr_actor p) w = Inr cx' \<and>
        f cx' app \<lparr>sc_app = i, sc_actor = pr_actor p, sc_writable = w\<rparr> s = (Inr x, t))"
  by (auto simp: in_application_def run_iffs dest: find_app_SomeD bind_scope_Inr)

lemma in_runtime_run [outcome]:
  "in_runtime cx i actor f s = (Inr x, t) \<longleftrightarrow>
     (\<exists>app cx'. find_app (w_db s) i = Some app \<and> r_app app = i \<and> i \<noteq> [] \<and> bind_scope cx i actor True = Inr cx' \<and>
        f cx' app \<lparr>sc_app = i, sc_actor = actor, sc_writable = True\<rparr> s = (Inr x, t))"
  by (auto simp: in_runtime_def run_iffs dest: find_app_SomeD bind_scope_Inr)

text \<open>The handle of the transaction that a scope opens.\<close>

abbreviation handle_of :: "ctx \<Rightarrow> scope \<Rightarrow> bool \<Rightarrow> handle" where
  "handle_of cx sc w \<equiv> \<lparr>h_ctx = cx, h_scope = sc, h_writable = w\<rparr>"

lemma update_outcome [outcome]:
  "update cx sc body s = (Inr x, t) \<longleftrightarrow>
     check_scope cx sc True = Inr () \<and> may_write (handle_of cx sc True) \<and> find_app (w_db s) (sc_app sc) \<noteq> None \<and>
     body (handle_of cx sc True) (fresh s) = (Inr x, t) \<and> (0 < w_mutations t \<longrightarrow> 0 < w_audits t)"
  by (auto simp: update_run Let_def)

lemma view_outcome [outcome]:
  "view cx sc body s = (Inr x, t) \<longleftrightarrow>
     may_read (handle_of cx sc False) \<and> find_app (w_db s) (sc_app sc) \<noteq> None \<and>
     body (handle_of cx sc False) s = (Inr x, t)"
  by (auto simp: view_run Let_def)

lemma tx_application_outcome [outcome]:
  "tx_application h s = (Inr app, t) \<longleftrightarrow>
     may_read h \<and> t = s \<and> find_app (w_db s) (h_app h) = Some app \<and> r_app app = h_app h"
  by (auto simp: tx_application_run dest: find_app_SomeD)

lemma may_write_read [simp]: "may_write h \<Longrightarrow> may_read h"
  by (rule check_write_read)

section \<open>Reads and writes\<close>

lemma t_get_outcome [outcome]:
  "t_get tb h i s = (Inr r, t) \<longleftrightarrow>
     may_read h \<and> t = s \<and> row_at tb (h_app h) (w_db s) i = Some r \<and> r_app r = h_app h \<and> r_id r = i"
  by (auto simp: t_get_run dest: row_at_SomeD)

text \<open>What a write asks of the other rows.\<close>

definition insertable :: "('z ident_scheme) table \<Rightarrow> db \<Rightarrow> 'z ident_scheme \<Rightarrow> bool" where
  "insertable tb d v \<longleftrightarrow> (\<forall>r \<in> set (tb_rows tb d). \<not> clashes tb v r) \<and> tb_refs tb d v"

definition savable :: "('z ident_scheme) table \<Rightarrow> db \<Rightarrow> 'z ident_scheme \<Rightarrow> bool" where
  "savable tb d v \<longleftrightarrow> (\<forall>r \<in> set (tb_rows tb d). same_row r v \<or> \<not> clashes tb v r) \<and> tb_refs tb d v"

lemma t_insert_outcome [outcome]:
  "t_insert tb h v s = (Inr u, t) \<longleftrightarrow>
     may_write h \<and> (r_app v = [] \<or> r_app v = h_app h) \<and> r_id v \<noteq> [] \<and> insertable tb (w_db s) (v\<lparr>r_app := h_app h\<rparr>) \<and>
     t = s\<lparr>w_db := tb_write tb (\<lambda>rows. rows @ [v\<lparr>r_app := h_app h\<rparr>]) (w_db s), w_mutations := Suc (w_mutations s)\<rparr>"
  by (auto simp: t_insert_run insertable_def Let_def)

lemma t_save_outcome [outcome]:
  "t_save tb h v s = (Inr u, t) \<longleftrightarrow>
     may_write h \<and> (r_app v = [] \<or> r_app v = h_app h) \<and> row_at tb (h_app h) (w_db s) (r_id v) \<noteq> None \<and>
     savable tb (w_db s) (v\<lparr>r_app := h_app h\<rparr>) \<and>
     t = s\<lparr>w_db := tb_write tb (put_row (v\<lparr>r_app := h_app h\<rparr>)) (w_db s), w_mutations := Suc (w_mutations s)\<rparr>"
  by (auto simp: t_save_run savable_def Let_def)

lemma save_application_outcome [outcome]:
  "save_application h a s = (Inr u, t) \<longleftrightarrow>
     may_write h \<and> r_app a = h_app h \<and> r_id a = r_app a \<and>
     t = s\<lparr>w_db := d_apps_update (map (\<lambda>b. if r_app b = r_app a then a else b)) (w_db s), w_mutations := Suc (w_mutations s)\<rparr>"
  by (auto simp: save_application_def run_iffs)

lemma lock_application_outcome [outcome]: "lock_application h s = (Inr u, t) \<longleftrightarrow> may_write h \<and> t = s"
  by (auto simp: lock_application_def run_iffs)

lemma own_app [simp]: "r_app r = a \<Longrightarrow> r\<lparr>r_app := a\<rparr> = r"
  by (cases r) simp

lemmas row_effects = row_in_put row_in_snoc

lemma insertable_new: "insertable tb d v \<Longrightarrow> \<forall>r \<in> set (tb_rows tb d). \<not> same_row v r"
  by (auto simp: insertable_def clashes_def same_row_def)

lemma find_app_saved:
  "find_app (d_apps_update (map (\<lambda>b. if r_app b = r_app a then a else b)) d) i =
   (if i = r_app a \<and> find_app d i \<noteq> None then Some a else find_app d i)"
proof -
  have "List.find (\<lambda>b. r_app b = i) (map (\<lambda>b. if r_app b = r_app a then a else b) rows) =
      (if i = r_app a \<and> List.find (\<lambda>b. r_app b = i) rows \<noteq> None then Some a else List.find (\<lambda>b. r_app b = i) rows)" for rows
    by (induction rows) auto
  from this [of "d_apps d"] show ?thesis unfolding find_app_def by simp
qed

text \<open>An inserted row has an identifier that was free.\<close>

lemma insertable_ids:
  "insertable tb d v \<Longrightarrow> ids_ok (tb_rows tb d) \<Longrightarrow> r_id v \<noteq> [] \<Longrightarrow> ids_ok (tb_rows tb d @ [v])"
  by (simp add: ids_ok_snoc_iff insertable_new)

section \<open>What a computation leaves alone\<close>

text \<open>\<open>keeps f m\<close>: whatever \<open>m\<close> does, \<open>f\<close> of the database stays the same.\<close>

abbreviation same_part :: "(db \<Rightarrow> 'p) \<Rightarrow> world \<Rightarrow> world \<Rightarrow> bool" where
  "same_part f s t \<equiv> f (w_db t) = f (w_db s)"

abbreviation keeps :: "(db \<Rightarrow> 'p) \<Rightarrow> 'a db_act \<Rightarrow> bool" where
  "keeps f \<equiv> via (same_part f)"

lemma keepsD: "keeps f m \<Longrightarrow> m s = (r, t) \<Longrightarrow> f (w_db t) = f (w_db s)"
proof -
  assume "keeps f m" "m s = (r, t)"
  then have "(same_part f)\<^sup>*\<^sup>* s t" by (rule viaD)
  then show ?thesis by (induction rule: rtranclp_induct) auto
qed

named_theorems keeps_intros "introduction rules for keeps"

lemma keeps_draw [keeps_intros]:
  "keeps f draw" "keeps f (new_id sv p)" "keeps f (random_hex sv n)" "keeps f (rsa_key_pair sv)"
  "keeps f (encrypt_for sv a p x)"
  by (rule via_one, simp add: draw_def new_id_def random_hex_def rsa_key_pair_def encrypt_for_def andThen_def ret_def)+

lemma keeps_write [keeps_intros]:
  assumes "\<And>g d. f (tb_write tb g d) = f d"
  shows "keeps f (t_insert tb h v)" "keeps f (t_save tb h v)" "keeps f (t_delete tb h i)"
proof -
  have "same_part f s t" if "m s = (r, t)" "\<And>u t. m s = (Inr u, t) \<Longrightarrow> same_part f s t" "\<And>e. fst (m s) = Inl e \<Longrightarrow> snd (m s) = s"
    for m :: "unit db_act" and s r t
    using that by (cases r) fastforce+
  note one = this
  show "keeps f (t_insert tb h v)"
    by (rule via_one, rule disjI1, erule one) (auto simp: t_insert_outcome assms write_fails_unchanged)
  show "keeps f (t_save tb h v)"
    by (rule via_one, rule disjI1, erule one) (auto simp: t_save_outcome assms write_fails_unchanged)
  show "keeps f (t_delete tb h i)"
    by (rule via_one, rule disjI1, erule one) (auto simp: t_delete_run assms write_fails_unchanged)
qed

lemma keeps_mutate [keeps_intros]: "(\<And>d. f (g d) = f d) \<Longrightarrow> keeps f (mutate g)"
  by (rule via_one) (simp add: mutate_def writes_def)

lemma keeps_bulk [keeps_intros]:
  assumes "\<And>g d. f (tb_write tb g d) = f d"
  shows "keeps f (bulk cond change tb)"
  unfolding bulk_def by (rule via_one) (auto simp: writes_def assms)

lemma keeps_bulks [keeps_intros]:
  "(\<And>g d. f (d_anchors_update g d) = f d) \<Longrightarrow> keeps f (retire_bindings h i n)"
  "(\<And>g d. f (d_activations_update g d) = f d) \<Longrightarrow> keeps f (deactivate_all h i n)"
  "(\<And>g d. f (d_invitations_update g d) = f d) \<Longrightarrow> keeps f (invalidate_invitations h i n)"
  unfolding retire_bindings_def deactivate_all_def invalidate_invitations_def
  by (intro via_intros keeps_intros; simp)+

lemma keeps_audit [keeps_intros]:
  assumes "\<And>g d. f (d_audit_update g d) = f d" and "\<And>g d. f (d_heads_update g d) = f d"
  shows "keeps f (append_audit h ev sg)" and "keeps f (append_event sv h kind entity payload)"
proof -
  have a: "keeps f (append_audit h ev sg)" for ev sg
  proof -
    have "keeps f (writes (\<lambda>s. s\<lparr>w_db := put_head x y (w_db s), w_audits := Suc (w_audits s)\<rparr>))" for x y
      by (rule via_one) (simp add: writes_def put_head_def assms)
    moreover have "keeps f (t_insert audit_t h v)" for v
      by (rule keeps_write) (simp add: assms)
    ultimately show ?thesis unfolding append_audit_def Let_def by (intro via_intros)
  qed
  show "keeps f (append_audit h ev sg)" by (rule a)
  show "keeps f (append_event sv h kind entity payload)"
    unfolding append_event_def new_event_def by (intro via_intros keeps_intros a)
qed

section \<open>Owned licenses and updates of many rows\<close>

lemma in_owned_runD:
  assumes "in_owned cx i licenseID w f s = (Inr x, t)"
  shows "\<exists>scoped app sc. sc_app sc = i \<and> r_app app = i \<and> f scoped app sc s = (Inr x, t)"
proof -
  from assms obtain scoped app sc u where
    o: "license_owner_context cx i licenseID w s = (Inr (scoped, app, sc), u)" and f: "f scoped app sc u = (Inr x, t)"
    by (auto simp: in_owned_def andThen_run)
  have "u = s" using o by (auto simp: license_owner_context_def run_iffs if_cases_run Let_def simp del: if_run)
  with license_owner_run [OF o] f show ?thesis by blast
qed

lemma bulk_none_left:
  assumes "bulk cond change tb s = (Inr u, t)" and "\<And>g d. tb_rows tb (tb_write tb g d) = g (tb_rows tb d)"
    and "\<And>r. cond r \<Longrightarrow> \<not> cond (change r)" and "r \<in> set (tb_rows tb (w_db t))"
  shows "\<not> cond r"
proof (cases "list_ex cond (tb_rows tb (w_db s))")
  case True
  then have "tb_rows tb (w_db t) = map (\<lambda>r. if cond r then change r else r) (tb_rows tb (w_db s))"
    using assms(1,2) by (simp add: bulk_def writes_run)
  then show ?thesis using assms(3,4) by (auto split: if_splits)
next
  case False
  then show ?thesis using assms(1,4) by (auto simp: bulk_def writes_run list_ex_iff)
qed

lemma deactivated_all:
  assumes "deactivate_all h lic now s = (Inr u, t)" and "a \<in> set (d_activations (w_db t))"
  shows "\<not> (r_app a = h_app h \<and> a_license a = lic \<and> a_deactivated_at a = None)"
proof -
  from assms(1) have "bulk (\<lambda>r. r_app r = h_app h \<and> a_license r = lic \<and> a_deactivated_at r = None)
      (\<lambda>r. r\<lparr>a_deactivated_at := Some now, r_updated := now, a_deactivation_reason := ''administrative''\<rparr>) activations_t s = (Inr u, t)"
    by (simp add: deactivate_all_def andThen_run pureA_run)
  from bulk_none_left [OF this, of a] assms(2) show ?thesis by simp
qed

lemma bulk_changed:
  assumes "bulk cond change tb s = (Inr u, t)" and "\<And>g d. tb_rows tb (tb_write tb g d) = g (tb_rows tb d)"
    and "r \<in> set (tb_rows tb (w_db t))" and "cond r"
  shows "\<exists>q. r = change q"
proof (cases "list_ex cond (tb_rows tb (w_db s))")
  case True
  then have "tb_rows tb (w_db t) = map (\<lambda>r. if cond r then change r else r) (tb_rows tb (w_db s))"
    using assms(1,2) by (simp add: bulk_def writes_run)
  then show ?thesis using assms(3,4) by (auto split: if_splits)
next
  case False
  then show ?thesis using assms(1,3,4) by (auto simp: bulk_def writes_run list_ex_iff)
qed

lemma invalidated_all:
  assumes "invalidate_invitations h lic now s = (Inr u, t)" and "v \<in> set (d_invitations (w_db t))"
    and "r_app v = h_app h" and "i_license v = lic"
  shows "i_used_at v \<noteq> None"
proof -
  from assms(1) have "bulk (\<lambda>r. r_app r = h_app h \<and> i_license r = lic)
      (\<lambda>r. r\<lparr>i_used_at := Some now, r_updated := now, i_key_hash := []\<rparr>) invitations_t s = (Inr u, t)"
    by (simp add: invalidate_invitations_def andThen_run pureA_run)
  from bulk_changed [OF this, of v] assms(2-4) show ?thesis by auto
qed

lemma retired_all:
  assumes "retire_bindings h lic now s = (Inr u, t)" and "v \<in> set (d_anchors (w_db t))"
  shows "\<not> (r_app v = h_app h \<and> an_license v = lic \<and> an_status v = ''active'')"
proof -
  from assms(1) have "bulk (\<lambda>r. r_app r = h_app h \<and> an_license r = lic \<and> an_status r = ''active'')
      (\<lambda>r. r\<lparr>an_status := ''replaced'', r_updated := now\<rparr>) anchors_t s = (Inr u, t)"
    by (simp add: retire_bindings_def andThen_run pureA_run)
  from bulk_none_left [OF this, of v] assms(2) show ?thesis by simp
qed

lemma keeps_anchor_group [keeps_intros]:
  assumes "\<And>g d. f (d_anchors_update g d) = f d"
  shows "keeps f (ensure_anchor_group sv h l b)"
proof -
  have "keeps f (put_anchor sv h l kind grp v)" for kind grp v
    unfolding put_anchor_def Let_def by (intro via_intros keeps_intros; simp add: assms)
  then show ?thesis unfolding ensure_anchor_group_def Let_def by (intro via_intros keeps_intros; simp add: assms)
qed

section \<open>Searches\<close>

lemma hits_Nil:
  assumes "f_offset f = 0" and "1 \<le> f_limit f"
  shows "hits tb app f d = [] \<longleftrightarrow> (\<forall>r \<in> set (tb_rows tb d). r_app r = app \<longrightarrow> \<not> flt_selects (tb_cols tb) f r)"
  using assms by (auto simp: hits_def page_def filter_empty_conv)

lemma hits_member: "r \<in> set (hits tb app f d) \<Longrightarrow> r \<in> set (tb_rows tb d) \<and> r_app r = app \<and> flt_selects (tb_cols tb) f r"
  using hits_subset by fastforce

end
