(* ===== verification/LicenseEffects.thy ===== *)
theory LicenseEffects
  imports Outcomes Execution
begin

text \<open>
  What the handlers of \<open>Lifecycle\<close> have done to a license when they return: a change of status, and a
  rebinding.
\<close>

text \<open>C7. Revocation is final: a change of status that succeeds has found the license, has not brought
  it back from revocation, and has written exactly the status and the reason it was asked for; every
  other license of the application is as it was.\<close>

theorem set_license_status_final:
  assumes "db_ids_ok (w_db s)"
    and "set_license_status sv cx i licenseID status reason s = (Inr (), t)"
  shows "\<exists>l. row_in i (d_licenses (w_db s)) licenseID = Some l \<and> status \<in> set license_statuses \<and>
     (l_status l = ''revoked'' \<longrightarrow> status = ''revoked'') \<and>
     row_in i (d_licenses (w_db t)) =
       (row_in i (d_licenses (w_db s)))(licenseID \<mapsto> l\<lparr>l_status := status, l_reason := reason, r_updated := s_now sv\<rparr>)"
  using assms
  by (simp add: set_license_status_def outcome at_rows del: if_run)
     (elim exE conjE, drule event_logged, simp add: db_ids_ok_def row_effects logged_tables)

lemma sample_ids_ok: "db_ids_ok (w_db (sample_world sample_db))"
  by (simp add: db_ids_ok_def ids_ok_def unique_rows_def exec)

lemma set_license_status_final_witness:
  "\<exists>t l. set_license_status sample_svc sample_admin ''yn1'' ''lic_1'' ''suspended'' ''reason'' (sample_world sample_db)
       = (Inr (), t) \<and>
     row_in ''yn1'' (d_licenses (w_db t)) ''lic_1'' = Some l \<and> l_status l = ''suspended''"
proof -
  have "\<not> isl (fst (set_license_status sample_svc sample_admin ''yn1'' ''lic_1'' ''suspended'' ''reason'' (sample_world sample_db)))"
    by (simp add: set_license_status_def license_statuses_def exec cong: exec_cong)
  from succeeds_unit [OF this] obtain t where t: "set_license_status sample_svc sample_admin ''yn1'' ''lic_1'' ''suspended'' ''reason''
      (sample_world sample_db) = (Inr (), t)"
    by (elim exE)
  from set_license_status_final [OF sample_ids_ok t] obtain l where
    "row_in ''yn1'' (d_licenses (w_db t)) ''lic_1'' = Some (l\<lparr>l_status := ''suspended'', l_reason := ''reason'', r_updated := s_now sample_svc\<rparr>)"
    by (elim exE conjE) (simp only: fun_upd_same)
  with t show ?thesis by (intro exI conjI) (assumption, assumption, simp)
qed




end
