(* ===== verification/MeteredUse.thy ===== *)
theory MeteredUse
  imports Outcomes Execution
begin

text \<open>
  Metered licenses (\<open>consume\<close>, runtime.go): a charge is made once for a key, within the quota of the
  period, and a replay is recognised by the receipt.
\<close>

section \<open>Receipts\<close>

lemma usage_selects:
  "flt_selects (tb_cols usage_t) (no_filter\<lparr>f_license_id := i, f_idempotency_key := k, f_limit := 1\<rparr>) r \<longleftrightarrow>
     (i = [] \<or> u_license r = i) \<and> (k = [] \<or> u_key r = k)"
  by (auto simp: flt_selects_def flt_fields_def no_filter_def col_value_def usage_t_def)

lemma usage_filter_ok: "flt_ok usage_t (no_filter\<lparr>f_license_id := i, f_idempotency_key := k, f_limit := 1\<rparr>)"
  by (simp add: flt_ok_def where_clause_def flt_fields_def no_filter_def has_col_def usage_t_def)

definition usage_hash :: "svc \<Rightarrow> license \<Rightarrow> string \<Rightarrow> string" where
  "usage_hash sv l key = keyed_hash sv ''usage-key'' (r_app l) (r_id l @ nul @ key)"

text \<open>The receipts of a license for a key.\<close>

definition receipts_for :: "svc \<Rightarrow> db \<Rightarrow> license \<Rightarrow> string \<Rightarrow> usage_receipt list" where
  "receipts_for sv d l key =
     hits usage_t (r_app l) (no_filter\<lparr>f_license_id := r_id l, f_idempotency_key := usage_hash sv l key, f_limit := 1\<rparr>) d"

text \<open>The license after a charge.\<close>

definition charged :: "svc \<Rightarrow> license \<Rightarrow> int \<Rightarrow> license" where
  "charged sv l units =
     (enter_period sv l)\<lparr>l_used_units := l_used_units (enter_period sv l) + units, r_updated := s_now sv\<rparr>"

definition usage_request :: "svc \<Rightarrow> license \<Rightarrow> string \<Rightarrow> int \<Rightarrow> string" where
  "usage_request sv l key units = keyed_hash sv ''usage-request'' (r_app l) (key @ nul @ itoa units)"

lemma enter_period_fields [simp]:
  "r_app (enter_period sv l) = r_app l" "r_id (enter_period sv l) = r_id l" "l_terms (enter_period sv l) = l_terms l"
  "r_app (charged sv l n) = r_app l" "r_id (charged sv l n) = r_id l" "l_terms (charged sv l n) = l_terms l"
  by (simp_all add: enter_period_def charged_def)

definition usage_row :: "svc \<Rightarrow> string \<Rightarrow> license \<Rightarrow> activation \<Rightarrow> int \<Rightarrow> string \<Rightarrow> usage_receipt" where
  "usage_row sv i l a units key =
     \<lparr>r_app = r_app l, r_id = i, r_created = s_now sv, r_updated = s_now sv, u_license = r_id l,
      u_activation = r_id a, u_key = usage_hash sv l key, u_request_hash = usage_request sv l key units,
      u_units = units, u_period = usage_period sv l,
      u_remaining = t_quota (l_terms l) - l_used_units (charged sv l units)\<rparr>"

lemma consume_run:
  assumes "consume sv h l a units key s = (Inr l', t)" and "r_app l = h_app h"
  shows "(\<exists>r rs. receipts_for sv (w_db s) l key = r # rs \<and> u_request_hash r = usage_request sv l key units \<and> l' = l \<and> t = s) \<or>
     (receipts_for sv (w_db s) l key = [] \<and> l' = charged sv l units \<and> 0 < units \<and> l_used_units l' \<le> t_quota (l_terms l) \<and>
      row_in (r_app l) (d_licenses (w_db s)) (r_id l) \<noteq> None \<and>
      (\<exists>i u. insertable usage_t (d_licenses_update (put_row l') (w_db s)) (usage_row sv i l a units key) \<and> i \<noteq> [] \<and>
         w_db u = d_usage_update (\<lambda>rows. rows @ [usage_row sv i l a units key]) (d_licenses_update (put_row l') (w_db s)) \<and>
         logged u t))"
  using assms
  apply (simp add: consume_def outcome receipts_for_def usage_hash_def usage_request_def charged_def [symmetric] at_rows
      usage_row_def del: if_run)
  apply (elim conjE disjE exE)
  subgoal
    apply (drule event_logged)
    apply (rule disjI2)
    apply (intro conjI)
        apply assumption
       apply (rule sym, assumption)
      apply (fastforce simp: charged_def)
     apply blast
    apply (rule exI, intro conjI)
      apply (simp only:)
     apply simp
    apply (rule exI, rule conjI [rotated], assumption)
    apply simp
    done
  apply (rule disjI1, blast)
  done

text \<open>Every receipt of a key is the receipt that was stored for it.\<close>

lemma receipts_after:
  assumes "receipts_for sv d l key = []" and "r_app v = r_app l" and "u_license v = r_id l" and "u_key v = usage_hash sv l key"
    and "d_usage d' = d_usage d @ [v]"
  shows "receipts_for sv d' l key = [v]"
proof -
  let ?f = "no_filter\<lparr>f_license_id := r_id l, f_idempotency_key := usage_hash sv l key, f_limit := 1\<rparr>"
  have none: "filter (flt_selects (tb_cols usage_t) ?f) (in_app (r_app l) (d_usage d)) = []"
    using assms(1) by (simp add: receipts_for_def hits_def page_def no_filter_def)
  have "flt_selects (tb_cols usage_t) ?f v" using assms(3,4) by (simp only: usage_selects) simp
  then have "filter (flt_selects (tb_cols usage_t) ?f) (in_app (r_app l) (d_usage d')) = [v]"
    using none assms(2,5) by simp
  then show ?thesis by (simp add: receipts_for_def hits_def page_def no_filter_def)
qed

lemma consume_guards:
  "consume sv h l a units key s = (Inr l', t) \<Longrightarrow>
   t_model (l_terms l) = ''metered'' \<and> 1 \<le> units \<and> units \<le> 1000000000000 \<and> key \<noteq> [] \<and> length key \<le> 128 \<and> may_read h"
  by (auto simp: consume_def outcome simp del: if_run)

lemma consume_receipts_after:
  assumes "consume sv h l a units key s = (Inr l', t)" and "r_app l = h_app h"
  shows "\<exists>r rs. receipts_for sv (w_db t) l key = r # rs \<and> u_request_hash r = usage_request sv l key units"
proof (cases "receipts_for sv (w_db s) l key")
  case Nil
  with consume_run [OF assms] obtain i u where
    u: "w_db u = d_usage_update (\<lambda>rows. rows @ [usage_row sv i l a units key]) (d_licenses_update (put_row l') (w_db s))"
    and lg: "logged u t" by auto
  have "d_usage (w_db t) = d_usage (w_db s) @ [usage_row sv i l a units key]"
    using u lg by (simp add: logged_tables)
  from receipts_after [OF Nil _ _ _ this] show ?thesis by (simp add: usage_row_def)
next
  case (Cons r rs)
  with consume_run [OF assms] show ?thesis by auto
qed

section \<open>A metered license and its installation\<close>

definition sample_metered :: license where
  "sample_metered = sample_license\<lparr>l_terms := sample_terms\<lparr>t_model := ''metered'', t_quota := 100, t_unit := ''call'',
     t_period := ''lifetime''\<rparr>\<rparr>"

definition sample_activation :: activation where
  "sample_activation =
     \<lparr>r_app = ''yn1'', r_id = ''act_1'', r_created = 0, r_updated = 0, a_deactivation_reason = [], a_group = ''g1'',
      a_license = ''lic_1'', a_installation = ''hash'', a_public_key = ''key'', a_key_hash = ''hash'', a_session = [],
      a_binding_type = ''account'', a_binding_hash = ''b'', a_client_hash = ''b'', a_label = [], a_lease = None,
      a_borrowed = False, a_verified_at = 0, a_deactivated_at = None\<rparr>"

definition sample_metered_world :: world where
  "sample_metered_world =
     sample_world (sample_db\<lparr>d_licenses := [sample_metered], d_activations := [sample_activation]\<rparr>)"

lemma sample_consume:
  "\<exists>t. consume sample_svc sample_handle sample_metered sample_activation 5 ''k1'' sample_metered_world =
     (Inr (sample_metered\<lparr>l_used_units := 5, l_usage_period := ''lifetime'', r_updated := s_now sample_svc\<rparr>), t)"
  by (simp add: consume_def sample_metered_def sample_activation_def sample_metered_world_def usage_period_def
      enter_period_def keyed_hash_def exec cong: exec_cong)


section \<open>Properties\<close>



text \<open>C10. Idempotence of metered use: after a request has succeeded, a request with the same key changes
  nothing, at whatever time and from whatever installation; it returns the license if it asks for the
  same thing and a conflict if the hash of what it asks for is another.\<close>

theorem consume_replayed:
  assumes "consume sv h l a units key s = (Inr l', t)" and "r_app l = h_app h"
    and "r_app q = r_app l" and "r_id q = r_id l" and "t_model (l_terms q) = ''metered''"
    and "1 \<le> wanted" and "wanted \<le> 1000000000000"
  shows "consume (sv\<lparr>s_now := n\<rparr>) h q a2 wanted key t =
    (if usage_request sv l key wanted = usage_request sv l key units then Inr q else Inl (conflict ''IDEMPOTENCY_CONFLICT''), t)"
proof -
  obtain r rs where r: "receipts_for sv (w_db t) l key = r # rs" "u_request_hash r = usage_request sv l key units"
    using consume_receipts_after [OF assms(1,2)] by blast
  have same: "keyed_hash (sv\<lparr>s_now := n\<rparr>) = keyed_hash sv" by (intro ext) (simp add: keyed_hash_def)
  have "t_find usage_t h (no_filter\<lparr>f_license_id := r_id l, f_idempotency_key := usage_hash sv l key, f_limit := 1\<rparr>) t = (Inr (r # rs), t)"
    using r(1) consume_guards [OF assms(1)] assms(2) by (simp add: t_find_run usage_filter_ok receipts_for_def)
  then show ?thesis
    using consume_guards [OF assms(1)] assms(3-7) r(2)
    by (simp add: consume_def same andThen_def raise_def ret_def usage_hash_def usage_request_def Let_def)
qed

lemma consume_replayed_witness:
  "\<exists>l t. consume sample_svc sample_handle sample_metered sample_activation 5 ''k1'' sample_metered_world = (Inr l, t) \<and>
     consume (sample_svc\<lparr>s_now := 0\<rparr>) sample_handle l sample_activation 5 ''k1'' t = (Inr l, t)"
proof -
  obtain l t where run: "consume sample_svc sample_handle sample_metered sample_activation 5 ''k1'' sample_metered_world = (Inr l, t)"
    and l: "l = sample_metered\<lparr>l_used_units := 5, l_usage_period := ''lifetime'', r_updated := s_now sample_svc\<rparr>"
    using sample_consume by blast
  have "consume (sample_svc\<lparr>s_now := 0\<rparr>) sample_handle l sample_activation 5 ''k1'' t =
      (if usage_request sample_svc sample_metered ''k1'' 5 = usage_request sample_svc sample_metered ''k1'' 5 then Inr l
       else Inl (conflict ''IDEMPOTENCY_CONFLICT''), t)"
    by (rule consume_replayed [OF run]) (simp_all add: l sample_metered_def exec)
  with run show ?thesis by (intro exI conjI) (assumption, simp)
qed

end
