(* ===== verification/Validation.thy ===== *)
theory Validation
  imports Renewal Binding Execution
begin

text \<open>
  The checks of policy.go and binding.go against their specifications: which terms and applications are
  accepted, when a license may be used, what a wildcard rule matches, which hosts are canonical.
\<close>

section \<open>One kind of refusal\<close>

definition refuses_invalid :: "err + 'a \<Rightarrow> bool" where
  "refuses_invalid r \<longleftrightarrow> (case r of Inl e \<Rightarrow> e = invalid | Inr _ \<Rightarrow> True)"

lemma refuses_invalid_intros:
  "refuses_invalid (Inl invalid)" "refuses_invalid (Inr x)"
  "refuses_invalid a \<Longrightarrow> refuses_invalid b \<Longrightarrow> refuses_invalid (if c then a else b)"
  "(\<And>x. refuses_invalid (f x)) \<Longrightarrow> refuses_invalid (Let v f)"
  "refuses_invalid a \<Longrightarrow> (\<And>x. refuses_invalid (g x)) \<Longrightarrow> refuses_invalid (case q of None \<Rightarrow> a | Some x \<Rightarrow> g x)"
  by (simp_all add: refuses_invalid_def split: option.splits)

lemma refuses_invalid_case:
  "refuses_invalid q \<Longrightarrow> (\<And>x. refuses_invalid (f x)) \<Longrightarrow>
   refuses_invalid (case q of Inl e \<Rightarrow> Inl e | Inr x \<Rightarrow> f x)"
  by (cases q) (simp_all add: refuses_invalid_def)


lemma normalize_application_refusals: "refuses_invalid (normalize_application sv a)"
  unfolding normalize_application_def normalize_block_policy_def
  by (intro refuses_invalid_intros refuses_invalid_case)

section \<open>Properties\<close>


text \<open>The same for applications.\<close>

theorem normalize_application_spec:
  "(normalize_application sv a = Inr a \<longleftrightarrow> application_ok sv a) \<and>
   (case normalize_application sv given of
      Inr b \<Rightarrow> application_ok sv b \<and> normalize_application sv b = Inr b
    | Inl e \<Rightarrow> e = invalid)"
  using normalize_application_refusals [of sv given]
  by (auto simp: normalize_application_fixed refuses_invalid_def dest: normalize_application_sound split: sum.splits)


text \<open>A wildcard rule \<open>*.base\<close> matches its apex if the rule says so, and otherwise the hosts that end
  in \<open>.base\<close> after at least one label, after exactly one unless the rule covers all depths.\<close>

theorem wildcard_rule_matches:
  assumes "br_enabled rule" and "br_kind rule = ''domain''" and "br_pattern rule = ''*.'' @ base"
  shows "rule_matches rule actual \<longleftrightarrow>
    actual = base \<and> br_apex rule \<or>
    (\<exists>pre. actual = pre @ ''.'' @ base \<and> pre \<noteq> [] \<and> (br_depth rule = ''all'' \<or> CHR ''.'' \<notin> set pre))"
  by (rule rule_matches_wildcard [OF assms])

lemma wildcard_rule_matches_witness:
  "\<exists>r. rule_matches r ''a.b.c'' \<and> \<not> rule_matches r ''b.c''"
proof -
  define r where "r = \<lparr>r_app = ''yn1'', r_id = ''rule_1'', r_created = 0, r_updated = 0,
    br_kind = ''domain'', br_pattern = ''*.'' @ ''b.c'', br_enabled = True, br_apex = False, br_depth = ''one'',
    br_license = [], br_label = []\<rparr>"
  have "rule_matches r actual \<longleftrightarrow> actual = ''b.c'' \<and> br_apex r \<or>
      (\<exists>pre. actual = pre @ ''.'' @ ''b.c'' \<and> pre \<noteq> [] \<and> (br_depth r = ''all'' \<or> CHR ''.'' \<notin> set pre))" for actual
    by (rule wildcard_rule_matches) (simp_all add: r_def)
  note m = this
  have "rule_matches r ''a.b.c''" unfolding m by (intro disjI2 exI [of _ "''a''"]) simp
  moreover have "\<not> rule_matches r ''b.c''" unfolding m by (auto simp: r_def append_eq_Cons_conv)
  ultimately show ?thesis by blast
qed

text \<open>C15. A canonical host is a sequence of labels of 1 to 63 letters, digits and inner hyphens, of at
  most 253 characters in all, and never an IP address.\<close>

theorem canonical_host_form:
  assumes "canonical_host sv value = Inr host"
  shows "host \<noteq> [] \<and> length host \<le> 253 \<and> list_all host_label (split_on (CHR ''.'') host) \<and>
    join_with ''.'' (split_on (CHR ''.'') host) = host \<and>
    list_all (\<lambda>c. alnum c \<or> c = CHR ''-'' \<or> c = CHR ''.'') host \<and> parse_addr host = None"
  using canonical_host_shape [OF assms] canonical_host_chars [OF assms] join_split [of "CHR ''.''" host]
  by (simp add: list_all_iff)

lemma canonical_host_form_witness:
  "canonical_host sample_svc ''Example.COM.'' = Inr ''example.com'' \<and> length ''example.com'' \<le> 253"
proof -
  have c: "canonical_host sample_svc ''Example.COM.'' = Inr ''example.com''" by code_simp
  with canonical_host_form [OF c] show ?thesis by blast
qed



end
