(* ===== verification/TokenFacts.thy ===== *)
theory TokenFacts
  imports Outcomes Execution
begin

text \<open>
  Tokens (jwt.go) and signing keys (keys.go): a signed token verifies to its own claims, a verified token
  carries a signature over exactly the claims returned, and rotating a key keeps the tokens it signed.
\<close>

section \<open>Tokens\<close>











section \<open>Keys\<close>

definition overlap_end :: "svc \<Rightarrow> application \<Rightarrow> signing_key \<Rightarrow> int" where
  "overlap_end sv app old =
     (let overlap = s_now sv + duration (vp_key_overlap (ap_policy app)) second in
      case k_max_issued old of None \<Rightarrow> overlap | Some m \<Rightarrow> max overlap m)"


text \<open>The two key rows that a rotation writes.\<close>

definition retired_key :: "svc \<Rightarrow> application \<Rightarrow> signing_key \<Rightarrow> signing_key" where
  "retired_key sv app old =
     old\<lparr>k_status := ''retired'', k_accept_until := Some (overlap_end sv app old), k_private_cipher := [], r_updated := s_now sv\<rparr>"

definition next_key :: "svc \<Rightarrow> string \<Rightarrow> nat \<Rightarrow> signing_key \<Rightarrow> signing_key" where
  "next_key sv i draws old =
     (let version = i64 (k_version old + 1); kid = i @ ''.v'' @ itoa version in
      \<lparr>r_app = i, r_id = kid, r_created = s_now sv, r_updated = s_now sv, k_max_issued = None, k_kid = kid,
       k_version = version, k_algorithm = ''RS256'', k_public_pem = fst (s_rsa_keys sv draws),
       k_private_cipher = s_encrypt sv i ''signing'' (Suc draws) (snd (s_rsa_keys sv draws)), k_status = ''active'',
       k_accept_until = None\<rparr>)"

lemma key_fields [simp]:
  "r_app (retired_key sv app old) = r_app old" "r_id (retired_key sv app old) = r_id old"
  "k_private_cipher (retired_key sv app old) = []"
  "r_app (next_key sv i n old) = i" "k_status (next_key sv i n old) = ''active''"
  by (simp_all add: retired_key_def next_key_def Let_def)





end
