(* ===== verification/RuntimeEffects.thy ===== *)
theory RuntimeEffects
  imports Outcomes Execution
begin

text \<open>
  The runtime (runtime.go): instants of a token, requests that cannot be replayed, what a successful
  verification has checked, and the limits of a license after an activation.
\<close>

section \<open>Requests\<close>



section \<open>Tokens\<close>

text \<open>C21. The instants of a token: it is valid now and for at least a second, it does not outlive the deadline
  of the license or the lease of the seat, its offline grace ends within the same limits and not before it,
  and the client is told to come back before it expires.\<close>

theorem token_times_bounds:
  assumes "token_times sv app l a = Inr (expires, grace, refresh)" and "policy_ranges (ap_policy app)"
  shows "s_now sv < expires \<and> unix (s_now sv) < unix expires \<and> expires \<le> grace \<and> refresh < expires \<and>
    (case usage_deadline app l of None \<Rightarrow> True | Some d \<Rightarrow> grace \<le> d) \<and>
    (case a_lease a of None \<Rightarrow> True | Some d \<Rightarrow> grace \<le> d)"
proof -
  have g: "0 \<le> vp_network_grace (ap_policy app)" "vp_network_grace (ap_policy app) \<le> 30 * 86400"
    using assms(2) by (auto simp: policy_ranges_def)
  then have "0 \<le> duration (vp_network_grace (ap_policy app)) second"
    by (subst duration_small) (auto simp: second_def)
  moreover have "clip o' x \<le> clip o' y" if "x \<le> y" for o' x y using that by (auto simp: clip_def split: option.splits)
  ultimately have "expires \<le> grace"
    using assms(1) by (auto simp: token_times_def Let_def split: if_splits)
  then show ?thesis
    using assms(1)
    by (auto simp: token_times_def Let_def clip_def second_def not_less split: if_splits option.splits)
qed

lemma token_times_bounds_witness:
  "\<exists>e g r. token_times sample_svc sample_app sample_license sample_seat = Inr (e, g, r) \<and> s_now sample_svc < e \<and> r < e"
proof -
  have p: "policy_ranges (ap_policy sample_app)" by code_simp
  have "case token_times sample_svc sample_app sample_license sample_seat of Inr _ \<Rightarrow> True | Inl _ \<Rightarrow> False"
    by code_simp
  then obtain e g r where t: "token_times sample_svc sample_app sample_license sample_seat = Inr (e, g, r)"
    by (auto split: sum.splits)
  from token_times_bounds [OF t p] t show ?thesis by blast
qed

section \<open>Verification\<close>

lemma reacquire_fields [simp]:
  "a_binding_type (reacquire a x) = a_binding_type a" "a_key_hash (reacquire a x) = a_key_hash a"
  "r_app (reacquire a x) = r_app a" "r_id (reacquire a x) = r_id a"
  by (simp_all add: reacquire_def)







end
