(* ===== verification/Seats.thy ===== *)
theory Seats
  imports Outcomes Execution
begin

text \<open>
  How many installations a license serves at a time: the places that are taken after an activation never
  exceed the limit of its terms.
\<close>

text \<open>The installations that hold a place of a license, and the number of places it has.\<close>

definition holds_place :: "string \<Rightarrow> string \<Rightarrow> int \<Rightarrow> activation \<Rightarrow> bool" where
  "holds_place app lic now a \<longleftrightarrow>
     r_app a = app \<and> a_license a = lic \<and> a_deactivated_at a = None \<and>
     (case a_lease a of None \<Rightarrow> True | Some u \<Rightarrow> now < u)"

definition places :: "terms \<Rightarrow> int" where
  "places t = (if t_model t = ''floating'' then t_max_seats t else t_max_activations t)"

definition taken :: "db \<Rightarrow> string \<Rightarrow> string \<Rightarrow> int \<Rightarrow> activation list" where
  "taken d app lic now = filter (holds_place app lic now) (d_activations d)"

text \<open>The query of the code selects exactly these.\<close>

lemma active_selects:
  "lic \<noteq> [] \<Longrightarrow>
   flt_selects (tb_cols activations_t) (no_filter\<lparr>f_license_id := lic, f_active_at := Some now, f_limit := 10000\<rparr>) a \<and> r_app a = app
   \<longleftrightarrow> holds_place app lic now a"
  by (auto simp: flt_selects_def flt_fields_def no_filter_def col_value_def activations_t_def holds_place_def
      sql_opt_time_def sql_after_def split: option.splits)

lemma active_hits:
  assumes "lic \<noteq> []"
  shows "hits activations_t app (no_filter\<lparr>f_license_id := lic, f_active_at := Some now, f_limit := 10000\<rparr>) d =
     take 10000 (in_order activations_t False (taken d app lic now))"
proof -
  have "filter (flt_selects (tb_cols activations_t) (no_filter\<lparr>f_license_id := lic, f_active_at := Some now, f_limit := 10000\<rparr>))
      (in_app app (d_activations d)) = taken d app lic now"
    unfolding taken_def in_app_def filter_filter by (rule filter_cong) (auto simp: active_selects [OF assms, symmetric])
  then show ?thesis by (simp add: hits_def page_def table_rows) (simp add: no_filter_def)
qed

lemma length_filter_take:
  "length (filter P xs) \<le> length (filter P (take n xs)) + (length xs - n)"
proof -
  have "length (filter P xs) = length (filter P (take n xs)) + length (filter P (drop n xs))"
    by (metis append_take_drop_id filter_append length_append)
  then show ?thesis using length_filter_le [of P "drop n xs"] by simp
qed

lemma length_filter_in_order: "length (filter P (in_order tb asc rows)) = length (filter P rows)"
  by (simp add: in_order_def filter_sort split: option.splits)

lemma distinct_ids_in_order: "distinct (map r_id (in_order tb asc rows)) = distinct (map r_id rows)"
  by (simp add: distinct_map) (simp add: in_order_def split: option.splits)

lemma one_row_less: "distinct (map f xs) \<Longrightarrow> length xs \<le> Suc (length (filter (\<lambda>x. f x \<noteq> i) xs))"
proof (induction xs)
  case (Cons a xs)
  show ?case
  proof (cases "f a = i")
    case True
    have "filter (\<lambda>x. f x \<noteq> i) xs = xs"
      by (rule filter_True) (use True Cons.prems in \<open>auto simp: image_iff\<close>)
    then show ?thesis by simp
  qed (use Cons in simp)
qed simp

lemma taken_distinct: "unique_rows (d_activations d) \<Longrightarrow> distinct (map r_id (taken d app lic now))"
  by (auto simp: taken_def unique_rows_def distinct_map distinct_filter inj_on_def holds_place_def)

text \<open>If the query shows fewer other rows than the limit, there are no more: its page is larger.\<close>

lemma others_bound:
  assumes "unique_rows (d_activations d)" and "lic \<noteq> []" and "limit < 10000"
    and "int (length (filter (\<lambda>v. r_id v \<noteq> i)
           (hits activations_t app (no_filter\<lparr>f_license_id := lic, f_active_at := Some now, f_limit := 10000\<rparr>) d))) < limit"
  shows "int (length (filter (\<lambda>v. r_id v \<noteq> i) (taken d app lic now))) < limit"
proof -
  let ?L = "in_order activations_t False (taken d app lic now)"
  have h: "int (length (filter (\<lambda>v. r_id v \<noteq> i) (take 10000 ?L))) < limit"
    using assms(4) by (simp add: active_hits [OF assms(2)])
  have "distinct (map r_id ?L)" using taken_distinct [OF assms(1)] by (simp add: distinct_ids_in_order)
  then have "distinct (map r_id (take 10000 ?L))" by (simp add: take_map [symmetric])
  from one_row_less [OF this, of i] h assms(3) have "length (take 10000 ?L) < 10000" by linarith
  then have "length (taken d app lic now) < 10000" by simp
  then have "take 10000 ?L = ?L" by simp
  with h show ?thesis by (simp add: length_filter_in_order)
qed

text \<open>Writing one row adds at most that row.\<close>

lemma filter_put_other:
  "filter (\<lambda>v. r_id v \<noteq> r_id a) (filter P (put_row a rows)) = filter (\<lambda>v. r_id v \<noteq> r_id a) (filter P rows)"
  by (induction rows) (auto simp: put_row_def same_row_def)

lemma taken_put:
  assumes "unique_rows (d_activations d)"
  shows "length (taken (d_activations_update (put_row a) d) app lic now) \<le>
     Suc (length (filter (\<lambda>v. r_id v \<noteq> r_id a) (taken d app lic now)))"
proof -
  let ?new = "taken (d_activations_update (put_row a) d) app lic now"
  have "unique_rows (put_row a (d_activations d))" using assms by simp
  then have "length ?new \<le> Suc (length (filter (\<lambda>v. r_id v \<noteq> r_id a) ?new))"
    by (intro one_row_less taken_distinct) simp
  moreover have "filter (\<lambda>v. r_id v \<noteq> r_id a) ?new = filter (\<lambda>v. r_id v \<noteq> r_id a) (taken d app lic now)"
    by (simp add: taken_def filter_put_other del: filter_filter)
  ultimately show ?thesis by simp
qed

lemma taken_snoc:
  "length (taken (d_activations_update (\<lambda>rows. rows @ [a]) d) app lic now) \<le> Suc (length (taken d app lic now))"
  by (simp add: taken_def)

lemma taken_written:
  assumes "unique_rows (d_activations (w_db s))"
    and "(if found then t_save activations_t h a else t_insert activations_t h a) s = (Inr x, t)"
  shows "length (taken (w_db t) (h_app h) lic now) \<le>
     Suc (length (filter (\<lambda>v. r_id v \<noteq> r_id a) (taken (w_db s) (h_app h) lic now)))"
proof (cases found)
  case True
  with assms(2) have "w_db t = d_activations_update (put_row (a\<lparr>r_app := h_app h\<rparr>)) (w_db s)"
    by (simp add: t_save_outcome table_write)
  then show ?thesis using taken_put [OF assms(1), of "a\<lparr>r_app := h_app h\<rparr>"] by simp
next
  case False
  with assms(2) have t: "insertable activations_t (w_db s) (a\<lparr>r_app := h_app h\<rparr>)"
    "w_db t = d_activations_update (\<lambda>rows. rows @ [a\<lparr>r_app := h_app h\<rparr>]) (w_db s)"
    by (simp_all add: t_insert_outcome table_write)
  from insertable_new [OF t(1)]
  have "filter (\<lambda>v. r_id v \<noteq> r_id a) (taken (w_db s) (h_app h) lic now) = taken (w_db s) (h_app h) lic now"
    by (intro filter_True) (auto simp: taken_def holds_place_def same_row_def table_rows)
  with t(2) show ?thesis using taken_snoc [of "a\<lparr>r_app := h_app h\<rparr>"] by simp
qed

text \<open>The steps of an activation: the place is claimed, one installation is written, nothing later writes another.\<close>

lemma activation_license_run:
  assumes "activation_license sv h input hash s = (Inr (l, src), u)"
  shows "u = s" and "row_at licenses_t (h_app h) (w_db s) (r_id l) = Some l" and "r_app l = h_app h"
  using assms by (auto simp: activation_license_def outcome at_rows simp del: if_run)

lemma pick_activation_run:
  assumes "pick_activation sv h input l hash b s = (Inr (a, found), u)"
  shows "d_activations (w_db u) = d_activations (w_db s)"
  using assms by (auto simp: pick_activation_def outcome simp del: if_run)

lemma claim_slot_run:
  assumes "claim_slot sv h app input l b a found s = (Inr a1, u)"
  shows "r_id a1 = r_id a" and "r_app a1 = r_app a" and "d_activations (w_db u) = d_activations (w_db s)"
    and "int (length (filter (\<lambda>v. r_id v \<noteq> r_id a) (hits activations_t (h_app h)
           (no_filter\<lparr>f_license_id := r_id l, f_active_at := Some (s_now sv), f_limit := 10000\<rparr>) (w_db s)))) < places (l_terms l)"
proof -
  have k: "keeps d_activations (ensure_anchor_group sv h l b)" by (simp add: keeps_intros)
  show "r_id a1 = r_id a" "r_app a1 = r_app a" "d_activations (w_db u) = d_activations (w_db s)"
    "int (length (filter (\<lambda>v. r_id v \<noteq> r_id a) (hits activations_t (h_app h)
       (no_filter\<lparr>f_license_id := r_id l, f_active_at := Some (s_now sv), f_limit := 10000\<rparr>) (w_db s)))) < places (l_terms l)"
    using assms by (auto simp: claim_slot_def outcome places_def extend_lease_def Let_def
        dest: keepsD [OF k] split: if_splits simp del: if_run)
qed

lemma runtime_tokens_run:
  assumes "runtime_tokens sv h app l a s = (Inr out, t)"
  shows "rr_license out = r_id l" and "rr_activation out = r_id a" and "d_activations (w_db t) = d_activations (w_db s)"
proof -
  have k: "keeps d_activations (sign_claims sv h app c)" for c
    unfolding sign_claims_def Let_def by (intro via_intros keeps_intros; simp)
  have "keeps d_activations (runtime_tokens sv h app l a)"
    unfolding runtime_tokens_def Let_def by (intro via_intros keeps_intros k)
  from keepsD [OF this assms] show "d_activations (w_db t) = d_activations (w_db s)" .
  show "rr_license out = r_id l" "rr_activation out = r_id a"
    using assms by (auto simp: runtime_tokens_def outcome simp del: if_run)
qed

lemma use_source_keeps: "keeps d_activations (use_source sv h src hash i)"
  unfolding use_source_def by (cases src) (auto intro!: keeps_intros)

lemma activate_body_run:
  assumes "activate_body sv input req hash h s = (Inr out, t)"
  shows "\<exists>app l src a0 a1 b found x3 x4 x5 u1 u2 u3 u4 u5 u6.
    activation_license sv h input hash s = (Inr (l, src), s) \<and>
    pick_activation sv h input l hash b s = (Inr (a0, found), u1) \<and>
    claim_slot sv h app input l b a0 found u1 = (Inr a1, u2) \<and>
    (if found then t_save activations_t h (activated_row sv b a1)
     else t_insert activations_t h (activated_row sv b a1)) u2 = (Inr x3, u3) \<and>
    t_save licenses_t h (activated_license sv b l) u3 = (Inr x4, u4) \<and>
    use_source sv h src hash (r_id (activated_row sv b a1)) u4 = (Inr x5, u5) \<and>
    runtime_tokens sv h app (activated_license sv b l) (activated_row sv b a1) u5 = (Inr out, u6) \<and>
    logged u6 t"
  using assms unfolding activate_body_def
  by (simp only: andThen_run ret_run tx_application_outcome case_prod_run let_run pureA_run t_find_run if_raise_run)
     (elim exE conjE, hypsubst, frule activation_license_run(1), drule event_logged, hypsubst,
      intro exI conjI, assumption+)

lemma activated_fields [simp]:
  "r_id (activated_row sv b a) = r_id a" "r_app (activated_row sv b a) = r_app a"
  "r_id (activated_license sv b l) = r_id l"
  by (simp_all add: activated_row_def activated_license_def start_license_def Let_def)

text \<open>C25. The limit of a license: after an activation, no more installations hold a place than the terms
  allow, seats for a floating license and installations otherwise. (The query that counts them reads a
  page of 10000; no plan allows more.)\<close>

theorem activation_within_limit:
  assumes "db_ids_ok (w_db s)" and "activate_body sv input req hash h s = (Inr out, t)"
  shows "\<exists>l. row_in (h_app h) (d_licenses (w_db s)) (rr_license out) = Some l \<and>
     (places (l_terms l) < 10000 \<longrightarrow>
      int (length (taken (w_db t) (h_app h) (rr_license out) (s_now sv))) \<le> places (l_terms l))"
proof -
  from activate_body_run [OF assms(2)] obtain app l src a0 a1 b found x3 x4 x5 u1 u2 u3 u4 u5 u6 where
    lic: "activation_license sv h input hash s = (Inr (l, src), s)"
    and pick: "pick_activation sv h input l hash b s = (Inr (a0, found), u1)"
    and claim: "claim_slot sv h app input l b a0 found u1 = (Inr a1, u2)"
    and put: "(if found then t_save activations_t h (activated_row sv b a1)
               else t_insert activations_t h (activated_row sv b a1)) u2 = (Inr x3, u3)"
    and save: "t_save licenses_t h (activated_license sv b l) u3 = (Inr x4, u4)"
    and src: "use_source sv h src hash (r_id (activated_row sv b a1)) u4 = (Inr x5, u5)"
    and tok: "runtime_tokens sv h app (activated_license sv b l) (activated_row sv b a1) u5 = (Inr out, u6)"
    and log: "logged u6 t"
    by (elim exE conjE) blast
  have l: "row_at licenses_t (h_app h) (w_db s) (r_id l) = Some l" "r_id l \<noteq> []"
    using activation_license_run(2) [OF lic] by (auto dest: row_at_nonempty)
  have id: "rr_license out = r_id l" using runtime_tokens_run(1) [OF tok] by simp
  have same: "d_activations (w_db u1) = d_activations (w_db s)" "d_activations (w_db u2) = d_activations (w_db s)"
    "d_activations (w_db t) = d_activations (w_db u3)"
    using claim_slot_run(3) [OF claim] pick_activation_run [OF pick] save keepsD [OF use_source_keeps src]
      runtime_tokens_run(3) [OF tok] log by (auto simp: t_save_outcome logged_tables)
  have unique: "unique_rows (d_activations (w_db s))" using assms(1) by (simp add: db_ids_ok_def ids_ok_def)
  let ?taken = "\<lambda>u. taken (w_db u) (h_app h) (r_id l) (s_now sv)"
  have taken: "?taken t = ?taken u3" "?taken u2 = ?taken s" "?taken u1 = ?taken s"
    using same by (simp_all add: taken_def)
  have "length (?taken u3) \<le> Suc (length (filter (\<lambda>v. r_id v \<noteq> r_id a1) (?taken u2)))"
    using taken_written [OF _ put, of "r_id l"] unique same by simp
  moreover have "int (length (filter (\<lambda>v. r_id v \<noteq> r_id a1) (?taken u1))) < places (l_terms l)" if "places (l_terms l) < 10000"
    using others_bound [OF _ l(2) that] claim_slot_run(1,4) [OF claim] unique same by simp
  ultimately have "int (length (?taken t)) \<le> places (l_terms l)" if "places (l_terms l) < 10000"
    using that unfolding taken by simp
  with l(1) id show ?thesis by (auto simp: at_rows)
qed

definition sample_activate :: activate_input where
  "sample_activate =
     \<lparr>ac_app = ''yn1'', ac_card = ''c1'', ac_invitation = [], ac_token = [], ac_pending = [], ac_public_key = ''key'',
      ac_binding = sample_account, ac_form = ''web'', ac_session = [], ac_label = [], ac_borrow = 0\<rparr>"

definition sample_shop :: world where
  "sample_shop = sample_world (sample_db\<lparr>d_cards := [sample_card]\<rparr>)"

lemma card_hash_nonempty: "card_hash sample_svc ''yn1'' ''c1'' \<noteq> []"
  by (simp add: card_hash_def keyed_hash_def exec)

lemma sample_activated:
  "\<not> isl (fst (activate_body sample_svc sample_activate sample_request ''hash'' sample_handle sample_shop))"
  by (simp add: activate_body_def activation_license_def sources_given_def sample_activate_def sample_shop_def sample_card_def
      card_hash_nonempty check_usable_def usage_deadline_def runtime_binding_def check_application_rules_def
      pick_activation_def blank_activation_def claim_slot_def ensure_anchor_group_def put_anchor_def activated_row_def
      activated_license_def start_license_def day_span_def use_source_def
      runtime_tokens_def token_times_def clip_def runtime_claims_def sign_claims_def default_verify_policy_def
      duration_def i64_def go_div_def unix_def at_unix_def token_issuer_def
      exec cong: exec_cong)

lemma activation_within_limit_witness:
  "\<exists>out t. activate_body sample_svc sample_activate sample_request ''hash'' sample_handle sample_shop = (Inr out, t) \<and>
     length (taken (w_db t) ''yn1'' (rr_license out) (s_now sample_svc)) \<le> 2"
proof -
  from succeeds [OF sample_activated] obtain out t where
    run: "activate_body sample_svc sample_activate sample_request ''hash'' sample_handle sample_shop = (Inr out, t)"
    by (elim exE)
  have ids: "db_ids_ok (w_db sample_shop)"
    by (simp add: sample_shop_def db_ids_ok_def ids_ok_def unique_rows_def sample_card_def exec)
  have app: "h_app sample_handle = ''yn1''" by (simp add: exec)
  have "row_in ''yn1'' (d_licenses (w_db sample_shop)) i = Some l \<Longrightarrow> l = sample_license" for i l
    by (auto simp: sample_shop_def row_in_def exec split: if_splits)
  moreover have "places (l_terms sample_license) = 2" by (simp add: places_def exec)
  ultimately have "int (length (taken (w_db t) ''yn1'' (rr_license out) (s_now sample_svc))) \<le> 2"
    using activation_within_limit [OF ids run] unfolding app by fastforce
  with run show ?thesis by (intro exI conjI) (assumption, simp)
qed

end
