(* ===== verification/Credentials.thy ===== *)
theory Credentials
  imports Outcomes Execution
begin

text \<open>
  The secret of an application: what \<open>CreateApplication\<close> and \<open>ResetAppSecret\<close> hand out is what
  \<open>AuthenticateAppSecret\<close> accepts, and after a reset nothing else is.
\<close>

lemma length_hex_encode: "length (hex_encode bs) = 2 * length bs"
proof (induction bs)
  case (Cons c bs)
  have "bit_groups 4 (take 4 (byte_bits c) @ drop 4 (byte_bits c) @ r) =
      take 4 (byte_bits c) # drop 4 (byte_bits c) # bit_groups 4 r" for r
    by (simp add: bit_groups_append del: append_take_drop_id)
  then have "bit_groups 4 (byte_bits c @ r) = take 4 (byte_bits c) # drop 4 (byte_bits c) # bit_groups 4 r" for r
    by (metis append.assoc append_take_drop_id)
  with Cons show ?case by (simp add: hex_encode_def encode_groups_def)
qed (simp add: hex_encode_def encode_groups_def)

text \<open>When a secret is accepted.\<close>

definition secret_ok :: "svc \<Rightarrow> application \<Rightarrow> string \<Rightarrow> bool" where
  "secret_ok sv app secret \<longleftrightarrow>
     ap_status app = ''active'' \<and> length secret = 32 \<and>
     ap_secret_hash app = keyed_hash sv ''app-secret'' (r_app app) secret"

lemma authenticate_iff:
  "authenticate_app_secret sv i secret s = (Inr app, t) \<longleftrightarrow>
     t = s \<and> find_app (w_db s) i = Some app \<and> secret_ok sv app secret"
  by (auto simp: authenticate_app_secret_def outcome secret_ok_def reg_get_run dest: find_app_SomeD simp del: if_run)

lemma find_app_put:
  "r_app a = j \<Longrightarrow> find_app (d_apps_update (map (\<lambda>b. if r_app b = j then a else b)) d) i =
     (if i = j \<and> find_app d i \<noteq> None then Some a else find_app d i)"
  using find_app_saved [of a d i] by simp

lemma logged_find_app: "logged s t \<Longrightarrow> find_app (w_db t) i = find_app (w_db s) i"
  by (simp add: find_app_def logged_tables)

text \<open>C26. Round trip of an application secret: after a reset the new secret authenticates an active
  application, the version has gone up by one, and a secret that authenticates has the same keyed hash
  as the new one; the old one is void.\<close>

theorem reset_secret_authenticates:
  assumes "\<And>n k. length (s_random sv n k) = k"
    and "reset_app_secret sv cx i reason s = (Inr out, t)"
  shows "\<exists>old app. find_app (w_db s) i = Some old \<and> find_app (w_db t) i = Some app \<and>
     rs_version out = ap_secret_version app \<and> ap_secret_version app = i64 (ap_secret_version old + 1) \<and>
     (ap_status old = ''active'' \<longrightarrow> authenticate_app_secret sv i (rs_secret out) t = (Inr app, t)) \<and>
     (\<forall>secret a u. authenticate_app_secret sv i secret t = (Inr a, u) \<longrightarrow>
        keyed_hash sv ''app-secret'' i secret = keyed_hash sv ''app-secret'' i (rs_secret out))"
  using assms(2)
  by (simp add: reset_app_secret_def application_secret_def outcome at_rows del: if_run)
     (elim exE conjE, drule event_logged, auto simp: authenticate_iff secret_ok_def logged_find_app find_app_put
       assms(1) length_hex_encode)

lemma sample_random: "length (s_random sample_svc n k) = k"
  by (simp add: sample_svc_def)

lemma sample_hex [exec]: "hex_encode (s_random sample_svc 0 8) = ''0000000000000000''"
  by code_simp

lemma reset_secret_authenticates_witness:
  "\<exists>out t app. reset_app_secret sample_svc sample_admin ''yn1'' ''reason'' (sample_world sample_db) = (Inr out, t) \<and>
     authenticate_app_secret sample_svc ''yn1'' (rs_secret out) t = (Inr app, t) \<and> ap_secret_version app = 2"
proof -
  have "\<not> isl (fst (reset_app_secret sample_svc sample_admin ''yn1'' ''reason'' (sample_world sample_db)))"
    by (simp add: reset_app_secret_def i64_def exec cong: exec_cong)
  from succeeds [OF this] obtain out t where
    run: "reset_app_secret sample_svc sample_admin ''yn1'' ''reason'' (sample_world sample_db) = (Inr out, t)"
    by (elim exE)
  have "find_app (w_db (sample_world sample_db)) ''yn1'' = Some sample_app"
    by (simp add: exec)
  with reset_secret_authenticates [OF sample_random run] have
    "\<exists>app. authenticate_app_secret sample_svc ''yn1'' (rs_secret out) t = (Inr app, t) \<and> ap_secret_version app = i64 (1 + 1)"
    by (auto simp: sample_app_def)
  with run show ?thesis by (auto simp: i64_def)
qed

lemma transaction_creating:
  "transaction True cx sc body s = (Inr x, t) \<longleftrightarrow>
     check_scope cx sc True = Inr () \<and> body (handle_of cx sc True) (fresh s) = (Inr x, t) \<and>
     (0 < w_mutations t \<longrightarrow> 0 < w_audits t)"
  by (cases "check_scope cx sc True")
     (auto simp: transaction_eq transaction_def fresh_def andThen_def pureA_def Let_def split: prod.splits sum.splits if_splits)

text \<open>Creating an application adds its row, its first key, an audit head and an event.\<close>

lemma create_rows_outcome:
  assumes "create_rows a key event sign h s = (Inr u, t)"
  shows "\<not> app_exists (w_db s) (r_app a)" and "r_id key \<noteq> []"
    and "\<forall>r \<in> set (d_keys (w_db s)). \<not> same_row (key\<lparr>r_app := h_app h\<rparr>) r"
    and "d_apps (w_db t) = d_apps (w_db s) @ [a]"
    and "d_keys (w_db t) = d_keys (w_db s) @ [key\<lparr>r_app := h_app h\<rparr>]"
    and "d_licenses (w_db t) = d_licenses (w_db s)"
  using assms
  by (simp_all add: create_rows_def outcome del: if_run)
     (elim exE conjE, drule audit_logged, drule insertable_new, simp add: logged_tables table_rows)+

lemma create_rows_effect:
  assumes "create_rows a key event sign h s = (Inr u, t)" and "ids_ok (d_keys (w_db s))"
  shows "find_app (w_db s) (r_app a) = None \<and> find_app (w_db t) (r_app a) = Some a \<and>
     row_in (h_app h) (d_keys (w_db t)) (r_id key) = Some (key\<lparr>r_app := h_app h\<rparr>) \<and>
     d_licenses (w_db t) = d_licenses (w_db s)"
proof -
  note run = create_rows_outcome [OF assms(1)]
  have none: "List.find (\<lambda>b. r_app b = r_app a) (d_apps (w_db s)) = None"
    using run(1) by (auto simp: app_exists_def find_None_iff list_ex_iff)
  have "List.find P (xs @ [y]) = Some y" if "List.find P xs = None" "P y" for P and xs :: "application list" and y
    using that by (induction xs) (auto split: if_splits)
  with none have "find_app (w_db t) (r_app a) = Some a" by (simp add: find_app_def run(4))
  moreover have "ids_ok (d_keys (w_db s) @ [key\<lparr>r_app := h_app h\<rparr>])"
    using assms(2) run(2,3) by (simp add: ids_ok_snoc_iff)
  ultimately show ?thesis
    using none run(5,6) by (simp add: find_app_def row_in_snoc)
qed

lemma normalize_keeps_status: "normalize_application sv a = Inr b \<Longrightarrow> ap_status b = ap_status a"
  unfolding normalize_application_def Let_def by (auto split: sum.splits if_split_asm)

text \<open>C27. A new application has a fresh identifier, its first key is active, and it authenticates with the
  secret that was handed out.\<close>

theorem created_application_authenticates:
  assumes "\<And>n k. length (s_random sv n k) = k" and "db_ids_ok (w_db s)"
    and "create_application sv cx input s = (Inr out, t)"
  shows "\<exists>app key. find_app (w_db s) (ca_app_id out) = None \<and> find_app (w_db t) (ca_app_id out) = Some app \<and>
     ca_application out = blank_secret app \<and>
     authenticate_app_secret sv (ca_app_id out) (ca_secret out) t = (Inr app, t) \<and>
     row_in (ca_app_id out) (d_keys (w_db t)) (ap_current_kid app) = Some key \<and>
     k_status key = ''active'' \<and> k_public_pem key = ca_public_pem out \<and>
     d_licenses (w_db t) = d_licenses (w_db s)"
proof -
  have keys: "ids_ok (d_keys (w_db s))" using assms(2) by (simp add: db_ids_ok_def)
  show ?thesis
    using assms(3)
    by (simp add: create_application_def application_secret_def application_id_def reg_create_def
          transaction_creating outcome at_rows del: if_run)
       (elim exE conjE, drule create_rows_effect, simp add: keys, drule bind_scope_Inr, drule normalize_keeps_status,
        auto simp: authenticate_iff secret_ok_def assms(1) length_hex_encode scope_from_def fresh_def new_application_def)
qed


definition sample_input :: application_input where
  "sample_input =
     \<lparr>ai_block = None, ai_group = [], ai_owner_transfer = None, ai_updates = None, ai_public_query = None,
      ai_name = ''App'', ai_developer = ''dev'', ai_models = [], ai_bindings = [], ai_forms = [],
      ai_policy = zero_policy\<rparr>"

lemma created_application_authenticates_witness:
  "\<exists>out t app. create_application sample_svc sample_admin sample_input (sample_world sample_db) = (Inr out, t) \<and>
     authenticate_app_secret sample_svc (ca_app_id out) (ca_secret out) t = (Inr app, t) \<and>
     ca_application out = blank_secret app"
proof -
  have d: "ai_developer sample_input = ''dev''" by (simp add: sample_input_def)
  have t: "trim_space ''App'' = ''App''" by code_simp
  have b: "normalize_block_policy sample_svc default_block = Inr ()" by code_simp
  have n: "normalize_application sample_svc (new_application sample_input ''dev'') =
     Inr (new_application sample_input ''dev''\<lparr>ap_models := [''perpetual'', ''subscription''],
       ap_bindings := [''machine_id'', ''domain'', ''ip'', ''installation''],
       ap_forms := [''web'', ''container'', ''gui'', ''cli'', ''service''], ap_policy := default_verify_policy\<rparr>)"
    by (simp add: normalize_application_def new_application_def sample_input_def b t or_default_def unique_allowed_def
          supported_models_def supported_bindings_def supported_forms_def zero_policy_def default_verify_policy_def
          policy_ranges_def rule_mode_def)
  have "\<not> isl (fst (create_application sample_svc sample_admin sample_input (sample_world sample_db)))"
    by (simp add: create_application_def d n exec cong: exec_cong)
  from succeeds [OF this] obtain out t where
    run: "create_application sample_svc sample_admin sample_input (sample_world sample_db) = (Inr out, t)"
    by (elim exE)
  have "db_ids_ok (w_db (sample_world sample_db))"
    by (simp add: db_ids_ok_def ids_ok_def unique_rows_def exec)
  from created_application_authenticates [OF sample_random this run] run show ?thesis by blast
qed

end
