(* ===== verification/Ledger.thy ===== *)
theory Ledger
  imports Outcomes Execution
begin

text \<open>
  The renewal ledger. \<open>recomputeRenewals\<close> rebuilds the term of a license from what was first paid for and
  the renewal cards that are left; redeeming a card and starting a license change the same term directly.
  The two agree: whatever cards were redeemed, before or after the start, replaying all of them gives
  the term the license has.
\<close>

section \<open>Replay\<close>

abbreviation credit_days :: "string \<Rightarrow> (terms \<Rightarrow> int) \<Rightarrow> (card_key \<times> license) list \<Rightarrow> int" where
  "credit_days purpose days cs \<equiv> sum_list (map (\<lambda>(c, src). if c_purpose c = purpose then days (l_terms src) else 0) cs)"

definition usage_days :: "(card_key \<times> license) list \<Rightarrow> int" where
  "usage_days = credit_days ''renew_usage'' t_days"

definition update_days :: "(card_key \<times> license) list \<Rightarrow> int" where
  "update_days = credit_days ''renew_updates'' t_update_days"

definition replay :: "(card_key \<times> license) list \<Rightarrow> license \<Rightarrow> license" where
  "replay cs l = fold (\<lambda>(c, src). replay_card c src) cs l"

lemma replay_simps [simp]:
  "replay [] l = l" "replay ((c, src) # cs) l = replay cs (replay_card c src l)"
  "replay (cs @ ds) l = replay ds (replay cs l)"
  by (simp_all add: replay_def)

lemma credit_days_simps [simp]:
  "usage_days [] = 0" "update_days [] = 0"
  "usage_days ((c, src) # cs) = (if c_purpose c = ''renew_usage'' then t_days (l_terms src) else 0) + usage_days cs"
  "update_days ((c, src) # cs) = (if c_purpose c = ''renew_updates'' then t_update_days (l_terms src) else 0) + update_days cs"
  "usage_days (cs @ ds) = usage_days cs + usage_days ds"
  "update_days (cs @ ds) = update_days cs + update_days ds"
  by (simp_all add: usage_days_def update_days_def)

text \<open>A credit that redeeming accepts for a license: it was used, and it is worth some days of a kind the
  license can use.\<close>

definition creditable :: "bool \<Rightarrow> card_key \<times> license \<Rightarrow> bool" where
  "creditable perpetual c \<longleftrightarrow>
     c_used_at (fst c) \<noteq> None \<and>
     (c_purpose (fst c) = ''renew_usage'' \<and> \<not> perpetual \<and> 0 < t_days (l_terms (snd c)) \<or>
      c_purpose (fst c) = ''renew_updates'' \<and> 0 < t_update_days (l_terms (snd c)))"

lemma credit_days_pos:
  assumes "list_all (creditable p) cs" shows "0 \<le> usage_days cs" and "0 \<le> update_days cs" and "p \<Longrightarrow> usage_days cs = 0"
  using assms by (induction cs) (auto simp: creditable_def)

lemma replay_card_kept [simp]:
  "r_app (replay_card c src l) = r_app l" "r_id (replay_card c src l) = r_id l"
  "l_activated_at (replay_card c src l) = l_activated_at l" "t_perpetual (l_terms (replay_card c src l)) = t_perpetual (l_terms l)"
  by (simp_all add: replay_card_def Let_def split: option.splits)

lemma replay_kept [simp]:
  "r_app (replay cs l) = r_app l" "r_id (replay cs l) = r_id l"
  "l_activated_at (replay cs l) = l_activated_at l" "t_perpetual (l_terms (replay cs l)) = t_perpetual (l_terms l)"
  by (induction cs arbitrary: l) auto

text \<open>Before the start, credits add up in the terms.\<close>

lemma replay_unstarted:
  assumes "list_all (creditable p) cs" and "l_activated_at l = None"
  shows "t_days (l_terms (replay cs l)) = t_days (l_terms l) + usage_days cs"
    and "t_update_days (l_terms (replay cs l)) = t_update_days (l_terms l) + update_days cs"
    and "l_expires_at (replay cs l) = l_expires_at l" and "l_updates_until (replay cs l) = l_updates_until l"
  using assms
  by (induction cs arbitrary: l) (auto simp: creditable_def replay_card_def Let_def)

text \<open>Credits used before the start count from the start.\<close>

lemma replay_started:
  assumes "list_all (creditable p) cs" and "l_activated_at l = Some a" and "\<forall>(c, src) \<in> set cs. \<exists>u. c_used_at c = Some u \<and> u < a"
    and "l_updates_until l = Some u" and "a \<le> u"
    and "p \<and> l_expires_at l = None \<or> (\<exists>e. l_expires_at l = Some e \<and> a \<le> e)"
  shows "t_days (l_terms (replay cs l)) = t_days (l_terms l) + usage_days cs \<and>
    t_update_days (l_terms (replay cs l)) = t_update_days (l_terms l) + update_days cs \<and>
    l_expires_at (replay cs l) = map_option (\<lambda>e. add_days e (usage_days cs)) (l_expires_at l) \<and>
    l_updates_until (replay cs l) = Some (add_days u (update_days cs))"
  using assms
proof (induction cs arbitrary: l u)
  case Nil
  then show ?case by (auto simp: add_days_def option.map_ident)
next
  case (Cons c cs)
  obtain crd src where c: "c = (crd, src)" by (cases c)
  with Cons.prems obtain at where at: "c_used_at crd = Some at" "at < a" by auto
  show ?case
  proof (cases "c_purpose crd = ''renew_usage''")
    case True
    with Cons.prems(1,6) c obtain e where e: "l_expires_at l = Some e" "a \<le> e" and d: "0 < t_days (l_terms src)"
      by (auto simp: creditable_def)
    let ?l = "replay_card crd src l"
    have l: "l_expires_at ?l = Some (add_days e (t_days (l_terms src)))" "l_updates_until ?l = Some u"
      "t_days (l_terms ?l) = t_days (l_terms l) + t_days (l_terms src)" "t_update_days (l_terms ?l) = t_update_days (l_terms l)"
      using True at e Cons.prems(2,4) by (simp_all add: replay_card_def later_def Let_def)
    have "a \<le> add_days e (t_days (l_terms src))" using e d by (simp add: add_days_def hour_def minute_def second_def)
    with Cons.IH [of ?l u] Cons.prems l show ?thesis
      by (simp add: c True e) (auto simp: add_days_def algebra_simps)
  next
    case False
    with Cons.prems(1) c have p: "c_purpose crd = ''renew_updates''" and d: "0 < t_update_days (l_terms src)"
      by (auto simp: creditable_def)
    let ?l = "replay_card crd src l"
    have l: "l_expires_at ?l = l_expires_at l" "l_updates_until ?l = Some (add_days u (t_update_days (l_terms src)))"
      "t_days (l_terms ?l) = t_days (l_terms l)" "t_update_days (l_terms ?l) = t_update_days (l_terms l) + t_update_days (l_terms src)"
      using p at Cons.prems(2,4,5) by (simp_all add: replay_card_def later_def Let_def)
    have "a \<le> add_days u (t_update_days (l_terms src))" using Cons.prems(5) d by (simp add: add_days_def hour_def minute_def second_def)
    with Cons.IH [of ?l "add_days u (t_update_days (l_terms src))"] Cons.prems l show ?thesis
      by (simp add: c p) (auto simp: add_days_def algebra_simps)
  qed
qed

section \<open>The history of a license\<close>

datatype term_event = Start | Redeem card_key license

text \<open>A history of instants and events, and the license after it: \<open>startLicense\<close> and the switch of \<open>redeemRenewal\<close>.\<close>

fun live :: "license \<Rightarrow> (int \<times> term_event) list \<Rightarrow> license option" where
  "live l [] = Some l"
| "live l ((now, Start) # es) = live (start_license l now) es"
| "live l ((now, Redeem c src) # es) =
     (case apply_renewal l src (c_purpose c) now of Inl _ \<Rightarrow> None | Inr l1 \<Rightarrow> live l1 es)"

text \<open>What the cards record of it.\<close>

fun recorded :: "(int \<times> term_event) list \<Rightarrow> (card_key \<times> license) list" where
  "recorded [] = []"
| "recorded ((now, Start) # es) = recorded es"
| "recorded ((now, Redeem c src) # es) = (c\<lparr>c_used_at := Some now\<rparr>, src) # recorded es"

fun chronological :: "int \<Rightarrow> (int \<times> term_event) list \<Rightarrow> bool" where
  "chronological t [] \<longleftrightarrow> True"
| "chronological t ((now, e) # es) \<longleftrightarrow> t < now \<and> chronological now es"

text \<open>A license as it is issued.\<close>

definition issued :: "license \<Rightarrow> bool" where
  "issued l \<longleftrightarrow> l_activated_at l = None \<and> l_expires_at l = None \<and> l_updates_until l = None \<and>
     l_base_expires l = None \<and> l_base_updates_until l = None \<and>
     l_base_days l = t_days (l_terms l) \<and> l_base_update_days l = t_update_days (l_terms l) \<and>
     t_days (l_terms l) \<in> {0..36500} \<and> t_update_days (l_terms l) \<in> {0..36500}"

definition term_of :: "license \<Rightarrow> int \<times> int \<times> int option \<times> int option" where
  "term_of l = (t_days (l_terms l), t_update_days (l_terms l), l_expires_at l, l_updates_until l)"

text \<open>What holds of a license \<open>l\<close> with the credits \<open>cs\<close> at the instant \<open>t\<close>.\<close>

definition booked :: "license \<Rightarrow> (card_key \<times> license) list \<Rightarrow> int \<Rightarrow> bool" where
  "booked l cs t \<longleftrightarrow>
     list_all (creditable (t_perpetual (l_terms l))) cs \<and> (\<forall>(c, src) \<in> set cs. \<exists>u. c_used_at c = Some u \<and> u \<le> t) \<and>
     l_base_days l \<in> {0..36500} \<and> l_base_update_days l \<in> {0..36500} \<and>
     (case l_activated_at l of
        None \<Rightarrow> l_base_expires l = None \<and> l_base_updates_until l = None \<and> l_expires_at l = None \<and> l_updates_until l = None \<and>
          t_days (l_terms l) = l_base_days l + usage_days cs \<and> t_days (l_terms l) \<le> 36500 \<and>
          t_update_days (l_terms l) = l_base_update_days l + update_days cs \<and> t_update_days (l_terms l) \<le> 36500
      | Some a \<Rightarrow> a \<le> t \<and> term_of l = term_of (replay cs (base_term l)))"

lemma booked_issued: "issued l \<Longrightarrow> booked l [] t"
  by (auto simp: issued_def booked_def)

lemma base_term_fields [simp]:
  "r_app (base_term l) = r_app l" "r_id (base_term l) = r_id l"
  "l_activated_at (base_term l) = l_activated_at l" "t_perpetual (l_terms (base_term l)) = t_perpetual (l_terms l)"
  "t_days (l_terms (base_term l)) = l_base_days l" "t_update_days (l_terms (base_term l)) = l_base_update_days l"
  "l_expires_at (base_term l) = l_base_expires l" "l_updates_until (base_term l) = l_base_updates_until l"
  by (simp_all add: base_term_def)

lemma booked_replay:
  assumes "booked l cs t" shows "term_of l = term_of (replay cs (base_term l))"
proof (cases "l_activated_at l")
  case None
  from assms have c: "list_all (creditable (t_perpetual (l_terms l))) cs" by (simp add: booked_def)
  from None assms show ?thesis
    using replay_unstarted [OF c, of "base_term l"] by (simp add: booked_def term_of_def)
qed (use assms in \<open>simp add: booked_def\<close>)

text \<open>The start: the paid days run from it, the replayed ones too.\<close>

lemma start_booked:
  assumes "booked l cs t" and "t < now" shows "booked (start_license l now) cs now"
proof (cases "l_activated_at l")
  case None
  let ?l = "start_license l now"
  from assms None have c: "list_all (creditable (t_perpetual (l_terms l))) cs"
    and u: "\<forall>(c, src) \<in> set cs. \<exists>u. c_used_at c = Some u \<and> u < now" "\<forall>(c, src) \<in> set cs. \<exists>u. c_used_at c = Some u \<and> u \<le> now"
    and b: "l_base_days l \<in> {0..36500}" "l_base_update_days l \<in> {0..36500}" "l_expires_at l = None" "l_base_expires l = None"
    and d: "t_days (l_terms l) = l_base_days l + usage_days cs" "t_days (l_terms l) \<le> 36500"
      "t_update_days (l_terms l) = l_base_update_days l + update_days cs" "t_update_days (l_terms l) \<le> 36500"
    by (fastforce simp: booked_def)+
  have f: "l_terms ?l = l_terms l" "l_base_days ?l = l_base_days l" "l_base_update_days ?l = l_base_update_days l"
    "l_activated_at ?l = Some now" "l_base_updates_until ?l = Some (add_days now (l_base_update_days l))"
    "l_base_expires ?l = (if t_perpetual (l_terms l) then None else Some (add_days now (l_base_days l)))"
    "l_expires_at ?l = (if t_perpetual (l_terms l) then None else Some (now + day_span (t_days (l_terms l))))"
    "l_updates_until ?l = Some (now + day_span (t_update_days (l_terms l)))"
    using None b by (simp_all add: start_license_def Let_def)
  note pos = credit_days_pos [OF c]
  have s: "day_span (t_days (l_terms l)) = t_days (l_terms l) * (24 * hour)"
    "day_span (t_update_days (l_terms l)) = t_update_days (l_terms l) * (24 * hour)"
    using d b pos by (auto intro!: day_span_small)
  have e: "t_perpetual (l_terms l) \<and> l_expires_at (base_term ?l) = None \<or> (\<exists>e. l_expires_at (base_term ?l) = Some e \<and> now \<le> e)"
    using b f by (simp add: add_days_def hour_def minute_def second_def)
  have "now \<le> add_days now (l_base_update_days l)" using b by (simp add: add_days_def hour_def minute_def second_def)
  with replay_started [OF c, of "base_term ?l" now "add_days now (l_base_update_days l)"] u(1) e f(4,5)
  have r: "t_days (l_terms (replay cs (base_term ?l))) = l_base_days l + usage_days cs"
    "t_update_days (l_terms (replay cs (base_term ?l))) = l_base_update_days l + update_days cs"
    "l_expires_at (replay cs (base_term ?l)) = map_option (\<lambda>e. add_days e (usage_days cs)) (l_base_expires ?l)"
    "l_updates_until (replay cs (base_term ?l)) = Some (add_days (add_days now (l_base_update_days l)) (update_days cs))"
    using f(2,3) by simp_all
  have "term_of ?l = term_of (replay cs (base_term ?l))"
    unfolding term_of_def r f s using d by (simp add: add_days_def algebra_simps)
  then show ?thesis using c u b f by (simp add: booked_def)
next
  case (Some a)
  then have "start_license l now = l" by (simp add: start_license_def)
  with assms Some show ?thesis by (fastforce simp: booked_def)
qed

lemma replay_card_cong:
  "l_activated_at l = l_activated_at m \<Longrightarrow> term_of l = term_of m \<Longrightarrow> term_of (replay_card c src l) = term_of (replay_card c src m)"
  by (simp add: term_of_def replay_card_def Let_def split: option.splits)

lemma replay_cong:
  "l_activated_at l = l_activated_at m \<Longrightarrow> term_of l = term_of m \<Longrightarrow> term_of (replay cs l) = term_of (replay cs m)"
proof (induction cs arbitrary: l m)
  case (Cons c cs)
  obtain crd src where c: "c = (crd, src)" by (cases c)
  have "l_activated_at (replay_card crd src l) = l_activated_at (replay_card crd src m)"
    by (simp only: replay_card_kept Cons.prems(1))
  from Cons.IH [OF this replay_card_cong [OF Cons.prems]] show ?case by (simp only: c replay_simps)
qed (simp only: replay_simps)

text \<open>Redeeming: the direct change is the replay of one more card.\<close>

lemma redeem_booked:
  assumes "booked l cs t" and "t < now" and "apply_renewal l src (c_purpose c) now = Inr l1"
  shows "booked l1 (cs @ [(c\<lparr>c_used_at := Some now\<rparr>, src)]) now"
proof -
  let ?c = "(c\<lparr>c_used_at := Some now\<rparr>, src)"
  from assms(3) have good: "creditable (t_perpetual (l_terms l)) ?c"
    by (auto simp: creditable_def apply_renewal_def Let_def split: if_splits)
  have f: "l_base_days l1 = l_base_days l" "l_base_update_days l1 = l_base_update_days l" "l_base_expires l1 = l_base_expires l"
    "l_base_updates_until l1 = l_base_updates_until l" "l_activated_at l1 = l_activated_at l"
    "t_perpetual (l_terms l1) = t_perpetual (l_terms l)"
    using assms(3) by (auto simp: apply_renewal_def Let_def split: if_splits)
  have used: "\<forall>(c, src) \<in> set (cs @ [?c]). \<exists>u. c_used_at c = Some u \<and> u \<le> now"
    using assms(1,2) by (fastforce simp: booked_def)
  have all: "list_all (creditable (t_perpetual (l_terms l))) (cs @ [?c])"
    using assms(1) good by (simp add: booked_def)
  show ?thesis
  proof (cases "l_activated_at l")
    case None
    note b = assms(1) [unfolded booked_def None option.case]
    consider "c_purpose c = ''renew_usage''" | "c_purpose c = ''renew_updates''"
      using good by (auto simp: creditable_def)
    then have "l_expires_at l1 = None \<and> l_updates_until l1 = None \<and>
        t_days (l_terms l1) = l_base_days l + usage_days (cs @ [?c]) \<and> t_days (l_terms l1) \<le> 36500 \<and>
        t_update_days (l_terms l1) = l_base_update_days l + update_days (cs @ [?c]) \<and> t_update_days (l_terms l1) \<le> 36500"
      using assms(3) None b by cases (simp_all add: apply_renewal_def Let_def split: if_split_asm, (hypsubst, simp)+)
    then show ?thesis
      unfolding booked_def f None option.case using b all used by (elim conjE) (intro conjI; assumption)
  next
    case (Some a)
    with assms(1) have a: "a \<le> t" "term_of l = term_of (replay cs (base_term l))" by (simp_all add: booked_def)
    have "term_of (base_term l1) = term_of (base_term l)" using f by (simp add: term_of_def)
    then have "term_of (replay cs (base_term l1)) = term_of l" unfolding a(2) using f(5) by (intro replay_cong) simp_all
    moreover have "l_activated_at (replay cs (base_term l1)) = l_activated_at l" by (simp only: replay_kept base_term_fields f)
    ultimately have "term_of (replay (cs @ [?c]) (base_term l1)) = term_of (replay_card (fst ?c) src l)"
      unfolding replay_simps fst_conv by (intro replay_card_cong)
    also have "\<dots> = term_of l1"
      using assms(2,3) a(1) Some by (auto simp: term_of_def replay_card_def apply_renewal_def Let_def split: if_splits)
    finally show ?thesis
      unfolding booked_def f Some option.case using assms(1,2) all used a(1) by (simp add: booked_def)
  qed
qed

lemma live_booked:
  "live l es = Some l1 \<Longrightarrow> booked l cs t \<Longrightarrow> chronological t es \<Longrightarrow> \<exists>t1. booked l1 (cs @ recorded es) t1"
proof (induction l es arbitrary: cs t rule: live.induct)
  case (2 l now es)
  then show ?case by (auto dest: start_booked)
next
  case (3 l now c src es)
  then obtain l2 where r: "apply_renewal l src (c_purpose c) now = Inr l2" "live l2 es = Some l1"
    by (auto split: sum.splits)
  with 3 show ?case using redeem_booked [OF "3.prems"(2) _ r(1)] by fastforce
qed auto

text \<open>C23. The ledger is faithful: from the moment a license is issued, whatever cards are redeemed for it and
  whenever it is started, replaying the recorded cards on its base term, as a refund does with those that
  are left, gives the term that the direct changes have produced.\<close>

theorem ledger_replays_history:
  assumes "issued l" and "chronological t es" and "live l es = Some l1"
  shows "term_of (replay (recorded es) (base_term l1)) = term_of l1"
proof -
  from live_booked [OF assms(3) booked_issued [OF assms(1)] assms(2)] obtain t1 where "booked l1 (recorded es) t1" by auto
  then show ?thesis by (simp add: booked_replay)
qed

text \<open>A card that came with a license of its own, for 30 more days.\<close>

definition sample_source :: license where
  "sample_source = sample_license\<lparr>r_id := ''lic_2'', l_renewal_only := True\<rparr>"

definition sample_credit :: card_key where
  "sample_credit = sample_card\<lparr>c_purpose := ''renew_usage'', c_bound := ''lic_2''\<rparr>"

lemma sample_credit_bought:
  "apply_renewal sample_license sample_source ''renew_usage'' now =
     Inr (sample_license\<lparr>l_terms := sample_terms\<lparr>t_days := 60\<rparr>\<rparr>)"
  by (simp add: apply_renewal_def sample_source_def sample_license_def sample_terms_def)

lemma ledger_replays_history_witness:
  "\<exists>l1. live sample_license [(1, Redeem sample_credit sample_source), (2, Start)] = Some l1 \<and> t_days (l_terms l1) = 60 \<and>
     term_of (replay (recorded [(1, Redeem sample_credit sample_source), (2, Start)]) (base_term l1)) = term_of l1"
proof -
  have i: "issued sample_license" by (simp add: issued_def sample_license_def sample_terms_def)
  have p: "c_purpose sample_credit = ''renew_usage''" by (simp add: sample_credit_def)
  have c: "chronological 0 [(1, Redeem sample_credit sample_source), (2, Start)]" by simp
  have l: "live sample_license [(1, Redeem sample_credit sample_source), (2, Start)] =
      Some (start_license (sample_license\<lparr>l_terms := sample_terms\<lparr>t_days := 60\<rparr>\<rparr>) 2)"
    by (simp only: live.simps p sample_credit_bought sum.case)
  have "t_days (l_terms (start_license (sample_license\<lparr>l_terms := sample_terms\<lparr>t_days := 60\<rparr>\<rparr>) 2)) = 60"
    by (simp add: start_license_def Let_def)
  with ledger_replays_history [OF i c l] l show ?thesis by blast
qed

section \<open>What a refund recomputes\<close>

text \<open>The cards of a license that still count, in the order of their use, with the licenses they came with.\<close>

definition remaining :: "db \<Rightarrow> string \<Rightarrow> string \<Rightarrow> card_key list" where
  "remaining d app i =
     filter (\<lambda>c. c_used_at c \<noteq> None \<and> c_refunded_at c = None) (sort_key card_order (redeemed_cards d app i))"

definition credits :: "db \<Rightarrow> string \<Rightarrow> string \<Rightarrow> (card_key \<times> license) list" where
  "credits d app i = map (\<lambda>c. (c, the (row_in app (d_licenses d) (c_bound c)))) (remaining d app i)"

lemma replay_loop:
  assumes "foldEach cards l (\<lambda>crd l.
      if c_used_at crd = None \<or> (\<exists>y. c_refunded_at crd = Some y) then ret l
      else andThen (t_get licenses_t h (c_bound crd)) (\<lambda>source. ret (replay_card crd source l))) s = (Inr l1, t)"
  shows "t = s" and "l1 = replay (map (\<lambda>c. (c, the (row_in (h_app h) (d_licenses (w_db s)) (c_bound c))))
    (filter (\<lambda>c. c_used_at c \<noteq> None \<and> c_refunded_at c = None) cards)) l"
  using assms
proof (atomize (full), induction cards arbitrary: l)
  case (Cons c cards)
  then show ?case by (auto simp: outcome at_rows simp del: if_run split: if_splits)
qed (simp add: outcome)

lemma pages_read:
  assumes "card_pages (Suc (length (d_cards (w_db s)))) h i 0 [] s = (Inr cards, t)" and "may_read h"
  shows "cards = redeemed_cards (w_db s) (h_app h) i" and "t = s"
  using card_pages_reads_all [OF assms(2), of 0 s "Suc (length (d_cards (w_db s)))" i "[]"] assms(1) by auto

text \<open>C24. What \<open>recomputeRenewals\<close> leaves in a license after a refund: its base term with the replay of
  exactly the cards that were redeemed for it and not refunded, in the order of their use. All pages of
  cards are read; no other license changes.\<close>

theorem recompute_replays_ledger:
  assumes "db_ids_ok (w_db s)" and "recompute_renewals sv h i s = (Inr (), t)"
  shows "\<exists>l. row_in (h_app h) (d_licenses (w_db s)) i = Some l \<and>
     row_in (h_app h) (d_licenses (w_db t)) = (row_in (h_app h) (d_licenses (w_db s)))
       (i \<mapsto> (replay (credits (w_db s) (h_app h) i) (base_term l))\<lparr>r_updated := s_now sv\<rparr>)"
  using assms
  by (simp add: recompute_renewals_def outcome at_rows db_ids_ok_def del: if_run card_pages.simps)
     (elim exE conjE, drule event_logged, frule replay_loop(1), drule replay_loop(2),
      frule (1) pages_read(1), drule (1) pages_read(2), hypsubst,
      simp add: row_effects logged_tables credits_def remaining_def)

definition sample_refund :: world where
  "sample_refund = sample_world (sample_db\<lparr>d_licenses := [sample_license, sample_source],
     d_cards := [sample_credit\<lparr>c_status := ''used'', c_redeemed := ''lic_1'', c_used_at := Some 5\<rparr>]\<rparr>)"

lemma recompute_replays_ledger_witness:
  "\<exists>t l. recompute_renewals sample_svc sample_handle ''lic_1'' sample_refund = (Inr (), t) \<and>
     row_in ''yn1'' (d_licenses (w_db t)) ''lic_1'' = Some l \<and> t_days (l_terms l) = 60"
proof -
  have "\<not> isl (fst (recompute_renewals sample_svc sample_handle ''lic_1'' sample_refund))"
    by (simp add: recompute_renewals_def sample_refund_def sample_credit_def sample_source_def sample_card_def base_term_def
        replay_card_def card_order_def exec cong: exec_cong)
  from succeeds_unit [OF this] obtain t where
    run: "recompute_renewals sample_svc sample_handle ''lic_1'' sample_refund = (Inr (), t)"
    by (elim exE)
  have ids: "db_ids_ok (w_db sample_refund)"
    by (simp add: sample_refund_def db_ids_ok_def ids_ok_def unique_rows_def sample_credit_def sample_source_def sample_card_def exec)
  have app: "h_app sample_handle = ''yn1''" by (simp add: exec)
  from recompute_replays_ledger [OF ids run] obtain l where
    l: "row_in ''yn1'' (d_licenses (w_db sample_refund)) ''lic_1'' = Some l"
      "row_in ''yn1'' (d_licenses (w_db t)) ''lic_1'' =
         Some ((replay (credits (w_db sample_refund) ''yn1'' ''lic_1'') (base_term l))\<lparr>r_updated := s_now sample_svc\<rparr>)"
    unfolding app by (elim exE conjE) (simp only: fun_upd_same)
  have "row_in ''yn1'' (d_licenses (w_db sample_refund)) ''lic_1'' = Some sample_license"
    by (simp add: sample_refund_def sample_source_def row_in_def exec)
  with l(1) have "l = sample_license" by simp
  moreover have "credits (w_db sample_refund) ''yn1'' ''lic_1'' =
      [(sample_credit\<lparr>c_status := ''used'', c_redeemed := ''lic_1'', c_used_at := Some 5\<rparr>, sample_source)]"
    by (simp add: credits_def remaining_def redeemed_cards_def sample_refund_def sample_credit_def sample_source_def sample_card_def
        row_in_def exec)
  moreover have "t_days (l_terms (replay [(sample_credit\<lparr>c_status := ''used'', c_redeemed := ''lic_1'', c_used_at := Some 5\<rparr>, sample_source)]
      (base_term sample_license))) = 60"
    by (simp add: replay_card_def sample_credit_def sample_source_def sample_license_def sample_terms_def sample_card_def base_term_def Let_def)
  ultimately have "t_days (l_terms ((replay (credits (w_db sample_refund) ''yn1'' ''lic_1'') (base_term l))\<lparr>r_updated := s_now sample_svc\<rparr>)) = 60"
    by (simp del: replay_simps)
  with run l(2) show ?thesis by blast
qed

end
