(* ===== verification/Orders.thy ===== *)
theory Orders
  imports Outcomes Sales Execution
begin

text \<open>
  What a confirmed order has issued, and that it is issued once.
\<close>

section \<open>Issuing\<close>

lemma issued_license_fields [simp]:
  "r_app (issued_license sv app order p i) = r_app app" "r_id (issued_license sv app order p i) = i"
  "l_order (issued_license sv app order p i) = r_id order" "l_status (issued_license sv app order p i) = ''active''"
  "l_terms (issued_license sv app order p i) = o_terms order" "l_owner (issued_license sv app order p i) = o_owner order"
  by (simp_all add: issued_license_def start_license_def Let_def)


lemma issue_code_keeps: "keeps f (issue_code sv h app order i)"
  unfolding issue_code_def Let_def by (intro via_intros keeps_intros)



abbreviation confirmed_order :: "svc \<Rightarrow> sales_order \<Rightarrow> string list \<Rightarrow> sales_order" where
  "confirmed_order sv order ids \<equiv> order\<lparr>o_licenses := ids, o_status := ''confirmed'', r_updated := s_now sv\<rparr>"

lemma issue_order_run:
  assumes "issue_order sv h app order purpose until s = (Inr out, t)"
  shows "o_status order = ''pending'' \<and>
    (\<exists>p batch ids cards u. foldEach [0..<nat (o_quantity order)] (o_licenses order, []) (issue_one sv h app order p until batch)
        (s\<lparr>w_draws := Suc (w_draws s)\<rparr>) = (Inr (ids, cards), u) \<and>
      out = \<lparr>sr_order = confirmed_order sv order ids, sr_cards = cards, sr_replayed = False\<rparr> \<and>
      t_save orders_t h (confirmed_order sv order ids) u = (Inr (), t))"
  using assms by (simp add: issue_order_def outcome del: if_run t_save_outcome foldEach.simps) blast

lemma issue_loop_keeps: "keeps d_orders (foldEach ks q (issue_one sv h app order p until batch))"
  unfolding issue_one_def by (intro via_intros keeps_intros issue_code_keeps) simp_all

lemma order_saved:
  assumes "ids_ok (d_orders (w_db s))" and "issue_order sv h app order purpose until s = (Inr out, t)"
  shows "o_status order = ''pending''"
    and "\<exists>o1. row_in (h_app h) (d_orders (w_db t)) (r_id order) = Some o1 \<and> o_status o1 = ''confirmed''"
proof -
  from issue_order_run [OF assms(2)] obtain p batch ids cards u where
    run: "foldEach [0..<nat (o_quantity order)] (o_licenses order, []) (issue_one sv h app order p until batch)
        (s\<lparr>w_draws := Suc (w_draws s)\<rparr>) = (Inr (ids, cards), u)" and pending: "o_status order = ''pending''"
    and save: "t_save orders_t h (confirmed_order sv order ids) u = (Inr (), t)" by blast
  show "o_status order = ''pending''" by (rule pending)
  have "d_orders (w_db u) = d_orders (w_db s)" using keepsD [OF issue_loop_keeps run] by simp
  with assms(1) save show "\<exists>o1. row_in (h_app h) (d_orders (w_db t)) (r_id order) = Some o1 \<and> o_status o1 = ''confirmed''"
    by (auto simp: t_save_outcome at_rows row_in_put)
qed


text \<open>C29. An order is issued once: after a confirmation nobody can confirm it again, whatever else has
  happened, as long as its row is the same.\<close>

theorem confirm_sale_once:
  assumes "db_ids_ok (w_db s)" and "confirm_sale sv cx appID orderID reason s = (Inr out, t)"
    and "row_in appID (d_orders (w_db u)) orderID = row_in appID (d_orders (w_db t)) orderID"
  shows "isl (fst (confirm_sale sv2 cx2 appID orderID reason2 u))"
proof -
  have run: "\<exists>o1 h app out2 v.
      issue_order sv h app (o1\<lparr>o_reason := reason\<rparr>) (o_purpose o1) (o_redeem_until o1) (fresh w) = (Inr out2, v) \<and> logged v x \<and>
      row_in appID (d_orders (w_db w)) orderID = Some o1 \<and> r_id o1 = orderID \<and> h_app h = appID"
    if "confirm_sale sv cx appID orderID reason w = (Inr out, x)" for sv cx reason w out x
    using that by (simp add: confirm_sale_def outcome at_rows del: if_run) 
      (elim exE conjE, drule event_logged, intro exI conjI, assumption+, simp)
  from run [OF assms(2)] obtain o1 h app out2 v where o1: "h_app h = appID" "r_id o1 = orderID"
    "issue_order sv h app (o1\<lparr>o_reason := reason\<rparr>) (o_purpose o1) (o_redeem_until o1) (fresh s) = (Inr out2, v)" "logged v t"
    by blast
  have "\<exists>o2. row_in appID (d_orders (w_db t)) orderID = Some o2 \<and> o_status o2 = ''confirmed''"
    using order_saved(2) [OF _ o1(3)] assms(1) o1 by (simp add: db_ids_ok_def logged_tables)
  then obtain o2 where o2: "row_in appID (d_orders (w_db u)) orderID = Some o2" "o_status o2 = ''confirmed''"
    using assms(3) by auto
  show ?thesis
  proof (rule ccontr)
    assume "\<not> isl (fst (confirm_sale sv2 cx2 appID orderID reason2 u))"
    from succeeds [OF this] obtain out3 x where "confirm_sale sv2 cx2 appID orderID reason2 u = (Inr out3, x)" by (elim exE)
    from run [OF this] obtain h app out2 v where
      "issue_order sv2 h app (o2\<lparr>o_reason := reason2\<rparr>) (o_purpose o2) (o_redeem_until o2) (fresh u) = (Inr out2, v)"
      unfolding o2(1) by auto
    from issue_order_run [OF this] o2(2) show False by simp
  qed
qed

section \<open>An order of two licenses\<close>

definition sample_order :: sales_order where
  "sample_order = (new_order sample_svc ''yn1'' ''order_1'' sample_plan sample_terms)\<lparr>o_quantity := 2, o_owner := ''u1''\<rparr>"

definition sample_orders :: world where
  "sample_orders = sample_world (sample_db\<lparr>d_orders := [sample_order]\<rparr>)"

lemma sample_order_ids: "db_ids_ok (w_db sample_orders)"
  by (simp add: db_ids_ok_def ids_ok_def unique_rows_def sample_orders_def sample_order_def new_order_def exec)


lemma confirm_sale_once_witness:
  "\<exists>out t. confirm_sale sample_svc sample_admin ''yn1'' ''order_1'' ''reason'' sample_orders = (Inr out, t) \<and>
     isl (fst (confirm_sale sample_svc sample_admin ''yn1'' ''order_1'' ''reason'' t))"
proof -
  have "\<not> isl (fst (confirm_sale sample_svc sample_admin ''yn1'' ''order_1'' ''reason'' sample_orders))"
    by (simp add: confirm_sale_def issue_order_def sample_orders_def sample_order_def new_order_def issue_one_def
        issued_license_def upt_rec exec cong: exec_cong)
  from succeeds [OF this] obtain out t where
    run: "confirm_sale sample_svc sample_admin ''yn1'' ''order_1'' ''reason'' sample_orders = (Inr out, t)"
    by (elim exE)
  from confirm_sale_once [OF sample_order_ids run refl] run show ?thesis by blast
qed

end
