(* ===== verification/Goods.thy ===== *)
theory Goods
  imports Platform
begin

text \<open>
  The goods of the first-generation service (\<open>domain/models.go\<close>, \<open>authorization.go\<close>, \<open>commerce.go\<close>,
  \<open>security.go\<close>, \<open>customers.go\<close>): products with their terms, card batches and cards, licenses with
  bindings, installations and seats, risk blocks and alerts, security cases, the agents' policies, quotas,
  packages and money, and the tables that hold them.

  A Go struct is a record with the struct's fields; a column that the struct does not show but a statement
  writes (\<open>revoked_at\<close>, \<open>kicked_at\<close>, \<open>open_marker\<close>) is a field too. \<open>nil\<close> and the empty list are not told
  apart. A field that a query computes from another table (\<open>AuthorizationTerms\<close>, \<open>KeyVersion\<close>, \<open>OwnerUserID\<close>)
  is empty in the stored row and filled in by the read.
\<close>

section \<open>Products and terms\<close>

text \<open>\<open>domain.AuthorizationTerms\<close>.\<close>

record auth_terms =
  tm_purpose :: string
  tm_version :: int
  tm_forms :: "string list"
  tm_mode :: string
  tm_kinds :: "string list"
  tm_apex :: bool
  tm_depth :: string
  tm_bindings :: int
  tm_instance :: bool
  tm_deployments :: int
  tm_devices :: int
  tm_seats :: int
  tm_lease :: int
  tm_offline :: int
  tm_license_mode :: string
  tm_update_days :: int
  tm_expire_days :: int
  tm_unbinds :: int
  tm_cooldown :: int
  tm_features :: "string list"

text \<open>\<open>domain.Product\<close>, \<open>domain.ProductKey\<close>, \<open>store.ApplicationCredential\<close>.\<close>

record g_product =
  gp_terms :: "auth_terms option"
  gp_license_mode :: string
  gp_update_days :: int
  gp_developer :: string
  gp_id :: string
  gp_name :: string
  gp_code :: string
  gp_app_key :: string
  gp_secret :: string
  gp_secret_hash :: string
  gp_public :: string
  gp_private :: string
  gp_key_version :: int
  gp_mode :: string
  gp_max_binds :: int
  gp_conflict :: string
  gp_offline_mode :: string
  gp_offline_days :: int
  gp_expire_days :: int
  gp_unbinds :: int
  gp_cooldown :: int
  gp_status :: string
  gp_created :: int
  gp_updated :: int

record g_key =
  ky_product :: string
  ky_version :: int
  ky_public :: string
  ky_by :: string
  ky_created :: int

record g_credential =
  cr_product :: string
  cr_hash :: string
  cr_version :: int
  cr_updated :: int

text \<open>\<open>AuthorizationTerms.Apply\<close> and \<open>LegacyTerms\<close>, \<open>effectiveProduct\<close>.\<close>

definition apply_terms :: "auth_terms \<Rightarrow> g_product \<Rightarrow> g_product" where
  "apply_terms t p =
     p\<lparr>gp_mode := tm_mode t, gp_max_binds := tm_bindings t,
       gp_license_mode := tm_license_mode t, gp_update_days := tm_update_days t,
       gp_expire_days := tm_expire_days t, gp_offline_days := tm_offline t,
       gp_unbinds := tm_unbinds t, gp_cooldown := tm_cooldown t, gp_terms := Some t\<rparr>"

definition legacy_terms :: "g_product \<Rightarrow> auth_terms" where
  "legacy_terms p =
     (case gp_terms p of
        Some t \<Rightarrow> t
      | None \<Rightarrow>
          \<lparr>tm_purpose = ''license'', tm_version = 1, tm_forms = [''web'', ''gui'', ''service''], tm_mode = gp_mode p,
           tm_kinds = [], tm_apex = False, tm_depth = ''one'', tm_bindings = gp_max_binds p, tm_instance = False,
           tm_deployments = 1, tm_devices = 0, tm_seats = 0, tm_lease = 120, tm_offline = gp_offline_days p,
           tm_license_mode = gp_license_mode p, tm_update_days = gp_update_days p, tm_expire_days = gp_expire_days p,
           tm_unbinds = gp_unbinds p, tm_cooldown = gp_cooldown p, tm_features = []\<rparr>)"

definition effective_product :: "g_product \<Rightarrow> auth_terms option \<Rightarrow> g_product" where
  "effective_product p t =
     (case t of None \<Rightarrow> p\<lparr>gp_terms := None\<rparr> | Some v \<Rightarrow> apply_terms v (p\<lparr>gp_terms := None\<rparr>))"

section \<open>Cards, licenses, bindings\<close>

text \<open>\<open>domain.Card\<close>, \<open>domain.CardBatch\<close>.\<close>

record g_card =
  gc_terms :: "auth_terms option"
  gc_id :: string
  gc_product :: string
  gc_batch :: string
  gc_agent :: string
  gc_hash :: string
  gc_sealed :: string
  gc_prefix :: string
  gc_days :: int
  gc_permanent :: bool
  gc_status :: string
  gc_order :: string
  gc_license :: string
  gc_activated :: "int option"
  gc_consumed :: "int option"
  gc_voided :: "int option"
  gc_reason :: string
  gc_by :: string
  gc_created :: int
  gc_updated :: int

record g_batch =
  gt_id :: string
  gt_product :: string
  gt_agent :: string
  gt_name :: string
  gt_quantity :: int
  gt_days :: int
  gt_permanent :: bool
  gt_source :: string
  gt_status :: string
  gt_exports :: int
  gt_by :: string
  gt_created :: int
  gt_updated :: int

text \<open>\<open>domain.License\<close> with the columns \<open>revoked_at\<close> and \<open>revoked_reason\<close>.\<close>

record g_license =
  gl_terms :: "auth_terms option"
  gl_owner :: string
  gl_mode :: string
  gl_usage :: "int option"
  gl_updates :: "int option"
  gl_id :: string
  gl_no :: string
  gl_product :: string
  gl_card :: string
  gl_agent :: string
  gl_status :: string
  gl_issued :: int
  gl_activated :: int
  gl_expired :: "int option"
  gl_verified :: "int option"
  gl_heartbeat :: "int option"
  gl_offline_version :: int
  gl_created :: int
  gl_updated :: int
  gl_revoked :: "int option"
  gl_revoked_reason :: string

text \<open>\<open>domain.Binding\<close> with the columns of its ends; the last three fields are the view that is computed when
  bindings are listed.\<close>

record g_binding =
  gb_id :: string
  gb_license :: string
  gb_product :: string
  gb_mode :: string
  gb_hash :: string
  gb_sealed :: string
  gb_name :: string
  gb_status :: string
  gb_first_ip :: string
  gb_last_ip :: string
  gb_user_agent :: string
  gb_heartbeat :: "int option"
  gb_activated :: int
  gb_created :: int
  gb_updated :: int
  gb_unbound :: "int option"
  gb_kicked :: "int option"
  gb_revoked :: "int option"
  gb_seen :: "int option"
  gb_online :: string
  gb_offline_days :: int

text \<open>\<open>domain.Installation\<close>, \<open>domain.SeatLease\<close>, a row of \<open>license_claim_tickets\<close>, and the part of
  \<open>domain.ClientInstance\<close> that licensing reads (target and version serve updates only).\<close>

record g_installation =
  gi_license :: string
  gi_id :: string
  gi_binding :: string
  gi_secret :: string
  gi_device :: string
  gi_label :: string
  gi_status :: string
  gi_seen :: int
  gi_created :: int

record g_seat =
  gs_id :: string
  gs_license :: string
  gs_instance :: string
  gs_session :: string
  gs_expires :: int
  gs_borrowed :: bool
  gs_token :: string

record claim_ticket =
  ct_hash :: string
  ct_license :: string
  ct_expires :: int
  ct_claimed :: string

record client_instance =
  ci_session :: string
  ci_instance :: string
  ci_secret :: string
  ci_device :: string
  ci_seat :: string
  ci_bindings :: "(string \<times> string) list"

text \<open>\<open>domain.BindingPolicy\<close> and a row of \<open>binding_changes\<close>.\<close>

record change_policy =
  by_product :: string
  by_mode :: string
  by_allowed :: bool
  by_limit :: int
  by_cooldown :: int
  by_transfer :: bool

record binding_change =
  bc_id :: string
  bc_license :: string
  bc_binding :: string
  bc_request :: string
  bc_hash :: string
  bc_kind :: string
  bc_created :: int

section \<open>Risk and security\<close>

text \<open>\<open>domain.RiskBlock\<close>, \<open>domain.RiskAlert\<close> with \<open>open_marker\<close>, \<open>domain.RiskSummary\<close>.\<close>

record risk_block =
  rb_id :: string
  rb_product :: string
  rb_kind :: string
  rb_hash :: string
  rb_masked :: string
  rb_reason :: string
  rb_status :: string
  rb_by :: string
  rb_created :: int
  rb_updated :: int
  rb_expires :: "int option"

record risk_alert =
  al_id :: string
  al_product :: string
  al_license :: string
  al_binding :: string
  al_type :: string
  al_severity :: string
  al_status :: string
  al_kind :: string
  al_hash :: string
  al_masked :: string
  al_open :: bool
  al_detail :: string
  al_count :: int
  al_first :: int
  al_last :: int
  al_resolved :: "int option"
  al_resolved_by :: string
  al_created :: int
  al_updated :: int

record risk_summary =
  rm_blocks :: nat
  rm_open :: nat
  rm_critical :: nat
  rm_day :: nat

text \<open>\<open>domain.SecurityPolicy\<close>, \<open>domain.SecurityCase\<close>, \<open>domain.SecurityAppeal\<close>.\<close>

record security_policy =
  sp_product :: string
  sp_enabled :: bool
  sp_mismatch :: bool
  sp_reports :: bool
  sp_action :: string
  sp_message :: string
  sp_url :: string

record security_case =
  sx_id :: string
  sx_product :: string
  sx_license :: string
  sx_no :: string
  sx_signal :: string
  sx_subject :: string
  sx_evidence :: string
  sx_status :: string
  sx_action :: string
  sx_count :: int
  sx_first :: int
  sx_last :: int
  sx_reason :: string
  sx_reviewer :: string

record security_appeal =
  sl_id :: string
  sl_case :: string
  sl_user :: string
  sl_reason :: string
  sl_status :: string
  sl_created :: int

section \<open>Agents' commerce\<close>

text \<open>\<open>domain.AgentProductPolicy\<close> (without the rate and price that are always 1 and 0), \<open>domain.AgentQuotaLedger\<close>.\<close>

record agent_policy =
  po_id :: string
  po_agent :: string
  po_product :: string
  po_generate :: bool
  po_export :: bool
  po_days :: "int list"
  po_permanent :: bool
  po_max :: int
  po_status :: string
  po_created :: int
  po_updated :: int

record quota_entry =
  qu_id :: string
  qu_agent :: string
  qu_product :: string
  qu_days :: int
  qu_permanent :: bool
  qu_type :: string
  qu_change :: int
  qu_balance :: int
  qu_batch :: string
  qu_card :: string
  qu_by_type :: string
  qu_by :: string
  qu_remark :: string
  qu_created :: int

text \<open>\<open>domain.ProductGroup\<close>, \<open>CardPackage\<close>, \<open>AgentTier\<close>, \<open>PackageGrant\<close>, \<open>PackageQuote\<close>, \<open>AgentAccount\<close>, \<open>MoneyLedger\<close>.\<close>

record product_group =
  gg_id :: string
  gg_name :: string
  gg_products :: "string list"

record card_package =
  pk_terms :: "auth_terms option"
  pk_id :: string
  pk_product :: string
  pk_name :: string
  pk_days :: int
  pk_permanent :: bool
  pk_cost :: int
  pk_quota :: bool
  pk_enabled :: bool

record agent_tier =
  ti_id :: string
  ti_name :: string
  ti_rate :: int
  ti_order :: int
  ti_count :: int

record package_grant =
  pg_agent :: string
  pg_package :: string
  pg_enabled :: bool
  pg_override :: "int option"

record package_quote =
  pq_package :: card_package
  pq_cost :: int
  pq_source :: string

record agent_purse =
  pu_agent :: string
  pu_tier :: string
  pu_balance :: int

record money_row =
  mo_id :: string
  mo_agent :: string
  mo_request :: string
  mo_kind :: string
  mo_amount :: int
  mo_balance :: int
  mo_batch :: string
  mo_package :: string
  mo_unit :: int
  mo_quantity :: int
  mo_remark :: string
  mo_actor :: string
  mo_created :: int

section \<open>Offline licenses and releases\<close>

text \<open>\<open>domain.OfflineLicense\<close>, \<open>ProductUpdateSettings\<close> (a pair in its table) and \<open>ProductRelease\<close>.\<close>

record offline_license =
  ol_id :: string
  ol_no :: string
  ol_product :: string
  ol_label :: string
  ol_machine_hash :: string
  ol_machine_sealed :: string
  ol_machine_masked :: string
  ol_token_sealed :: string
  ol_token_version :: int
  ol_status :: string
  ol_issued :: int
  ol_expired :: "int option"
  ol_revoked :: "int option"
  ol_reason :: string
  ol_by :: string
  ol_created :: int
  ol_updated :: int

record g_release =
  gr_target :: "release_target option"
  gr_id :: string
  gr_product :: string
  gr_version :: string
  gr_notes :: string
  gr_status :: string
  gr_filename :: string
  gr_size :: int
  gr_sha :: string
  gr_key_version :: int
  gr_token :: string
  gr_created :: int

text \<open>The columns of \<open>product_releases\<close> that a row of \<open>release_targets\<close> completes: the version column holds what
  \<open>ReleaseStorageVersion\<close> makes of version and target.\<close>

record release_row =
  rr_release :: g_release
  rr_stored_version :: string

section \<open>The tables\<close>

record goods =
  x_products :: "g_product list"
  x_keys :: "g_key list"
  x_developers :: "(string \<times> string) list"
  x_license_policies :: "(string \<times> string \<times> int) list"
  x_credentials :: "g_credential list"
  x_terms :: "((string \<times> string) \<times> auth_terms) list"
  x_batches :: "g_batch list"
  x_cards :: "g_card list"
  x_licenses :: "g_license list"
  x_entitlements :: "(string \<times> string \<times> int option) list"
  x_owners :: "(string \<times> string) list"
  x_bindings :: "g_binding list"
  x_subjects :: "(string \<times> string \<times> string) list"
  x_installations :: "g_installation list"
  x_seats :: "g_seat list"
  x_tickets :: "claim_ticket list"
  x_change_policies :: "change_policy list"
  x_changes :: "binding_change list"
  x_blocks :: "risk_block list"
  x_alerts :: "risk_alert list"
  x_security :: "security_policy list"
  x_cases :: "security_case list"
  x_appeals :: "security_appeal list"
  x_policies :: "agent_policy list"
  x_quotas :: "quota_entry list"
  x_groups :: "product_group list"
  x_packages :: "card_package list"
  x_tiers :: "(string \<times> string) list"
  x_tier_settings :: "(string \<times> int \<times> int) list"
  x_tier_prices :: "((string \<times> string) \<times> int) list"
  x_purses :: "agent_purse list"
  x_grants :: "package_grant list"
  x_money :: "money_row list"
  x_orders :: "((string \<times> string) \<times> string \<times> string) list"
  x_offline :: "offline_license list"
  x_updates :: "(string \<times> bool) list"
  x_releases :: "release_row list"

definition empty_goods :: goods where
  "empty_goods =
     \<lparr>x_products = [], x_keys = [], x_developers = [], x_license_policies = [], x_credentials = [], x_terms = [],
      x_batches = [], x_cards = [], x_licenses = [], x_entitlements = [], x_owners = [], x_bindings = [],
      x_subjects = [], x_installations = [], x_seats = [], x_tickets = [], x_change_policies = [], x_changes = [],
      x_blocks = [], x_alerts = [], x_security = [], x_cases = [], x_appeals = [], x_policies = [], x_quotas = [],
      x_groups = [], x_packages = [], x_tiers = [], x_tier_settings = [], x_tier_prices = [], x_purses = [],
      x_grants = [], x_money = [], x_orders = [], x_offline = [], x_updates = [], x_releases = []\<rparr>"

text \<open>The values of a signed payload (\<open>map[string]any\<close>).\<close>

datatype claim = CText string | CInt int | CBool bool | CTime int | CWhen "int option" | CTerms "auth_terms option"
  | CTarget "release_target option"

text \<open>What the extra column of the log can hold, before it becomes JSON.\<close>

datatype extra =
    NoExtra
  | NullExtra
  | Fields "(string \<times> string) list"
  | TermsExtra auth_terms
  | QuotaExtra quota_entry
  | MoneyExtra money_row
  | PolicyExtra change_policy
  | SecurityExtra security_policy
  | GroupExtra product_group
  | PackageExtra card_package
  | TierExtra agent_tier
  | TierChange agent_tier agent_tier
  | PurseExtra agent_purse
  | GrantExtra string string "card_package list" bool "int option"
  | ReviewExtra string string string string
  | ClaimsExtra "(string \<times> claim) list"
  | PriceExtra string string "int option"

text \<open>The claims of an application's access token.\<close>

record app_claims =
  apc_app :: string
  apc_version :: int
  apc_exp :: int

end
