(* ===== verification/Accounts.thy ===== *)
theory Accounts
  imports Goods
begin

text \<open>
  The accounts of the platform (\<open>domain/*.go\<close>, \<open>service/errors.go\<close>): administrators with their two-step
  verification, customers, agents and the members of their teams, password resets, the image CAPTCHA, mail
  and the log; the state that holds them, what the \<open>service\<close> package gets from outside, and how it reads and
  writes its database.

  \<^item> A table is a list of rows. \<open>QueryRow ... Scan\<close> is \<open>fetch\<close> (no row is \<open>sql.ErrNoRows\<close>), an
    \<open>INSERT\<close> is \<open>put\<close> with the \<open>PRIMARY KEY\<close> and \<open>UNIQUE\<close> conditions of the migrations, an \<open>UPDATE ... WHERE
    id=?\<close> is \<open>alter\<close>. Foreign keys are not modelled: every insert of these tables follows a read or an
    insert of the row it refers to. The statements that lock a row by writing its own value change nothing.
  \<^item> \<open>WithTx\<close> is \<open>with_tx\<close>: an error restores the directory. Failures of the connection are not modelled.
  \<^item> Instants are stored as RFC 3339 text and parsed back, which gives the same instant. Where SQL compares
    the text itself, the comparison is \<open>text_less\<close>.
\<close>

section \<open>Errors\<close>

datatype app_err = AppError string int | NoRows | DbFault | GoError string

definition bad_request :: "string \<Rightarrow> app_err" where "bad_request code = AppError code 400"
definition denied :: "string \<Rightarrow> app_err" where "denied code = AppError code 403"
definition unauthorized :: "string \<Rightarrow> app_err" where "unauthorized code = AppError code 401"
definition missing :: "string \<Rightarrow> app_err" where "missing code = AppError code 404"

definition ErrInvalidRequest :: app_err where "ErrInvalidRequest = bad_request ''INVALID_REQUEST''"
definition ErrPermissionDenied :: app_err where "ErrPermissionDenied = denied ''PERMISSION_DENIED''"
definition ErrInvalidCredentials :: app_err where "ErrInvalidCredentials = unauthorized ''INVALID_CREDENTIALS''"
definition ErrInvalidAdminToken :: app_err where "ErrInvalidAdminToken = unauthorized ''INVALID_ADMIN_TOKEN''"
definition ErrInvalidAgentToken :: app_err where "ErrInvalidAgentToken = unauthorized ''INVALID_AGENT_TOKEN''"
definition ErrAdminUserDisabled :: app_err where "ErrAdminUserDisabled = denied ''ADMIN_USER_DISABLED''"
definition ErrAgentUserDisabled :: app_err where "ErrAgentUserDisabled = denied ''AGENT_USER_DISABLED''"
definition ErrAgentNotFound :: app_err where "ErrAgentNotFound = missing ''AGENT_NOT_FOUND''"
definition ErrAgentDisabled :: app_err where "ErrAgentDisabled = denied ''AGENT_DISABLED''"
definition ErrAgentSuspended :: app_err where "ErrAgentSuspended = denied ''AGENT_SUSPENDED''"
definition ErrCaptchaRequired :: app_err where "ErrCaptchaRequired = unauthorized ''CAPTCHA_REQUIRED''"
definition ErrCaptchaInvalid :: app_err where "ErrCaptchaInvalid = unauthorized ''CAPTCHA_INVALID''"

definition is_not_found :: "app_err \<Rightarrow> bool" where "is_not_found e \<longleftrightarrow> e = NoRows"

section \<open>Data\<close>

text \<open>\<open>domain.AdminUser\<close>.\<close>

record admin_user =
  ad_id :: string
  ad_username :: string
  ad_email :: string
  ad_hash :: string
  ad_name :: string
  ad_role :: string
  ad_status :: string
  ad_version :: int
  ad_last_login :: "int option"
  ad_created :: int
  ad_updated :: int

text \<open>\<open>store.AdminMFA\<close>; \<open>PendingAt\<close> is the instant that was written there, \<open>RecoveryHashes\<close> the list whose
  JSON text is stored.\<close>

record admin_mfa =
  mf_user :: string
  mf_secret :: string
  mf_pending :: int
  mf_recovery :: "string list"
  mf_enabled :: bool
  mf_last_step :: int

text \<open>\<open>domain.Customer\<close>; the last two fields are filled in for the answer only.\<close>

record customer =
  cu_id :: string
  cu_username :: string
  cu_email :: string
  cu_hash :: string
  cu_name :: string
  cu_status :: string
  cu_version :: int
  cu_created :: int
  cu_agent :: string
  cu_agent_status :: string

text \<open>\<open>domain.Agent\<close> without the columns that only describe it.\<close>

record agent =
  an_id :: string
  an_no :: string
  an_code :: string
  an_name :: string
  an_contact :: string
  an_phone :: string
  an_email :: string
  an_status :: string
  an_remark :: string
  an_created_by :: string
  an_created :: int
  an_updated :: int
  an_disabled :: "int option"

text \<open>\<open>domain.AgentUser\<close>, a member of an agent's team.\<close>

record agent_user =
  mb_identity :: string
  mb_version :: int
  mb_id :: string
  mb_agent :: string
  mb_username :: string
  mb_hash :: string
  mb_name :: string
  mb_phone :: string
  mb_email :: string
  mb_role :: string
  mb_status :: string
  mb_last_login :: "int option"
  mb_created :: int
  mb_updated :: int

text \<open>\<open>domain.RecoveryAccount\<close>, \<open>domain.PasswordReset\<close>, \<open>domain.ResetAccountRef\<close>.\<close>

record recovery_account =
  ra_id :: string
  ra_username :: string
  ra_name :: string
  ra_email :: string
  ra_role :: string
  ra_status :: string
  ra_hash :: string

record password_reset =
  rs_id :: string
  rs_token :: string
  rs_kind :: string
  rs_user :: string
  rs_credential :: string
  rs_by :: string
  rs_reason :: string
  rs_expires :: int
  rs_created :: int
  rs_consumed :: "int option"

record account_ref =
  rf_id :: string
  rf_username :: string
  rf_kind :: string
  rf_status :: string

record captcha_row =
  cp_id :: string
  cp_hash :: string
  cp_expires :: int
  cp_consumed :: "int option"

text \<open>\<open>domain.EmailSettings\<close>, \<open>domain.EmailLog\<close>, \<open>domain.SiteSettings\<close>, a row of the notification outbox
  (\<open>store.Notification\<close> is the part of it that a worker sees) and the mail it carries.\<close>

record email_settings =
  es_enabled :: bool
  es_host :: string
  es_port :: int
  es_username :: string
  es_password :: string
  es_from :: string
  es_name :: string
  es_encryption :: string
  es_site_url :: string
  es_updated :: int

record email_log =
  el_id :: string
  el_to :: string
  el_subject :: string
  el_kind :: string
  el_agent :: string
  el_status :: string
  el_error :: string
  el_created :: int

record site_settings =
  ss_name :: string
  ss_title :: string
  ss_logo :: string
  ss_favicon :: string
  ss_updated :: int

record mail_payload =
  mp_to :: "string list"
  mp_subject :: string
  mp_agent :: string
  mp_html :: string

record notice =
  no_id :: string
  no_dedup :: string
  no_payload :: string
  no_kind :: string
  no_status :: string
  no_attempts :: int
  no_available :: int
  no_lease :: "int option"
  no_error :: string
  no_created :: int
  no_completed :: "int option"

text \<open>\<open>mailer.Config\<close>.\<close>

record mail_config =
  mk_host :: string
  mk_port :: int
  mk_username :: string
  mk_password :: string
  mk_from :: string
  mk_name :: string
  mk_encryption :: string

text \<open>\<open>domain.AuditLog\<close>; the extra column is kept as the value whose JSON it holds.\<close>

record log_entry =
  lg_id :: string
  lg_type :: string
  lg_actor :: string
  lg_agent :: string
  lg_product :: string
  lg_license :: string
  lg_card :: string
  lg_action :: string
  lg_ip :: string
  lg_request :: string
  lg_result :: string
  lg_code :: string
  lg_user_agent :: string
  lg_extra :: extra
  lg_at :: int

section \<open>State and environment\<close>

record directory =
  y_admins :: "admin_user list"
  y_mfa :: "admin_mfa list"
  y_customers :: "customer list"
  y_agents :: "agent list"
  y_codes :: "(string \<times> string) list"
  y_members :: "agent_user list"
  y_identities :: "(string \<times> string) list"
  y_versions :: "(string \<times> int) list"
  y_resets :: "password_reset list"
  y_captcha_on :: bool
  y_captcha_at :: int
  y_captchas :: "captcha_row list"
  y_log :: "log_entry list"
  y_mail :: email_settings
  y_mail_log :: "email_log list"
  y_outbox :: "notice list"
  y_site :: site_settings
  y_goods :: goods

text \<open>A file of the release directory: its bytes and when they were last written.\<close>

record release_file =
  rf_data :: string
  rf_time :: int

text \<open>
  The state: the database, the draws made from the random source, the files of the release directory by name, and the
  places taken by uploads and downloads that are under way (the channels \<open>uploadSlots\<close> and \<open>downloadSlots\<close>).
\<close>

record site =
  st_db :: directory
  st_draws :: nat
  st_files :: "(string \<times> release_file) list"
  st_uploads :: nat
  st_downloads :: nat

type_synonym 'a site_act = "(site, app_err, 'a) act"

text \<open>The payload of a session token (\<open>adminTokenPayload\<close>) and of the older agent token.\<close>

record session_claims =
  sn_type :: string
  sn_user :: string
  sn_version :: int
  sn_iat :: int
  sn_exp :: int
  sn_mfa :: string
  sn_ip :: string

record member_claims =
  mc_version :: int
  mc_type :: string
  mc_agent :: string
  mc_user :: string
  mc_username :: string
  mc_role :: string
  mc_iat :: int
  mc_exp :: int

text \<open>The payload of an offline license file (\<open>OfflineLicensePayload\<close>) and the limits of releases (\<open>ResourceLimits\<close>).\<close>

record offline_payload =
  op_version :: int
  op_key_version :: int
  op_license :: string
  op_product_id :: string
  op_product :: string
  op_name :: string
  op_app_key :: string
  op_mode :: string
  op_machine :: string
  op_issued :: int
  op_expired :: "int option"
  op_permanent :: bool

record resource_limits =
  li_total :: int
  li_developer :: int
  li_product :: int
  li_versions :: int
  li_downloads :: int
  li_uploads :: int
  li_min_free :: int

text \<open>\<open>AuditActor\<close>, who calls.\<close>

record caller =
  cl_type :: string
  cl_id :: string
  cl_role :: string
  cl_request :: string
  cl_ip :: string

text \<open>
  The service of the first generation: \<open>ho_core\<close> holds what it shares with the licensing service (clock,
  random bytes, SHA-256, HMAC, Unicode tables). \<open>ho_pbkdf2\<close> is \<open>pbkdf2.Key\<close> with SHA-256, \<open>ho_sha1_mac\<close>
  HMAC-SHA-1, \<open>ho_seal\<close>/\<open>ho_open\<close> \<open>EncryptString\<close>/\<open>DecryptString\<close> with the data key, \<open>ho_mail\<close> the address that
  \<open>mail.ParseAddress\<close> finds, \<open>ho_below k n\<close> what \<open>rand.Int\<close> draws below \<open>n\<close>;
  \<open>ho_letter\<close> subject and HTML text of a mail of a kind with its data (the sentences and templates are not
  modelled), \<open>ho_smtp\<close> the outcome of a dialog with the mail server (\<open>None\<close>: accepted); the JSON codecs are Go's,
  where a JSON object of strings is the list of its members, with distinct keys; \<open>ho_data_key\<close> is the data key.
  \<open>ho_offline_json\<close> and \<open>ho_key_file\<close> write the payload and the file of an offline license (\<open>MarshalIndent\<close>),
  \<open>ho_offline_parse\<close> and \<open>ho_key_file_parse\<close> read them; \<open>ho_free\<close> is the free space on the disks of the release
  directory and of temporary files.
\<close>

record host =
  ho_core :: svc
  ho_pepper :: string
  ho_pbkdf2 :: "string \<Rightarrow> string \<Rightarrow> int \<Rightarrow> nat \<Rightarrow> string option"
  ho_sha1_mac :: "string \<Rightarrow> string \<Rightarrow> string"
  ho_base32 :: "string \<Rightarrow> string option"
  ho_claims_json :: "session_claims \<Rightarrow> string"
  ho_claims_parse :: "string \<Rightarrow> session_claims option"
  ho_member_json :: "member_claims \<Rightarrow> string"
  ho_member_parse :: "string \<Rightarrow> member_claims option"
  ho_mfa_json :: "string \<Rightarrow> int \<Rightarrow> string list \<Rightarrow> string"
  ho_seal :: "nat \<Rightarrow> string \<Rightarrow> string"
  ho_open :: "string \<Rightarrow> string option"
  ho_mail :: "string \<Rightarrow> string option"
  ho_below :: "nat \<Rightarrow> nat \<Rightarrow> nat"
  ho_mail_json :: "mail_payload \<Rightarrow> string"
  ho_mail_parse :: "string \<Rightarrow> mail_payload option"
  ho_letter :: "string \<Rightarrow> (string \<times> string) list \<Rightarrow> (string \<times> string) option"
  ho_smtp :: "nat \<Rightarrow> mail_config \<Rightarrow> string list \<Rightarrow> string \<Rightarrow> string \<Rightarrow> string option"
  ho_caller :: "caller option"
  ho_data_key :: string
  ho_map_json :: "(string \<times> string) list \<Rightarrow> string"
  ho_map_parse :: "string \<Rightarrow> (string \<times> string) list option"
  ho_payload_json :: "(string \<times> claim) list \<Rightarrow> string"
  ho_app_json :: "app_claims \<Rightarrow> string"
  ho_app_parse :: "string \<Rightarrow> app_claims option"
  ho_order_json :: "string \<Rightarrow> string \<Rightarrow> int \<Rightarrow> int \<Rightarrow> string"
  ho_offline_json :: "offline_payload \<Rightarrow> string"
  ho_offline_parse :: "string \<Rightarrow> offline_payload option"
  ho_key_file :: "string \<Rightarrow> int \<Rightarrow> string \<Rightarrow> string"
  ho_key_file_parse :: "string \<Rightarrow> (string \<times> int \<times> string) option"
  ho_limits :: resource_limits
  ho_free :: "int list"

abbreviation now_of :: "host \<Rightarrow> int" where "now_of hs \<equiv> s_now (ho_core hs)"

section \<open>Reading and writing\<close>

definition alter :: "('a \<Rightarrow> 'k) \<Rightarrow> 'k \<Rightarrow> ('a \<Rightarrow> 'a) \<Rightarrow> 'a list \<Rightarrow> 'a list" where
  "alter key i f rows = map (\<lambda>r. if key r = i then f r else r) rows"

definition row_of :: "('a \<Rightarrow> 'k) \<Rightarrow> 'k \<Rightarrow> 'a list \<Rightarrow> 'a option" where
  "row_of key i rows = List.find (\<lambda>r. key r = i) rows"

definition fetch :: "(directory \<Rightarrow> 'a option) \<Rightarrow> 'a site_act" where
  "fetch q = (\<lambda>s. (case q (st_db s) of None \<Rightarrow> Inl NoRows | Some x \<Rightarrow> Inr x, s))"

definition look :: "(directory \<Rightarrow> 'a) \<Rightarrow> 'a site_act" where
  "look q = reads (\<lambda>s. q (st_db s))"

definition modify :: "(directory \<Rightarrow> directory) \<Rightarrow> unit site_act" where
  "modify f = writes (\<lambda>s. s\<lparr>st_db := f (st_db s)\<rparr>)"

definition put :: "(directory \<Rightarrow> bool) \<Rightarrow> (directory \<Rightarrow> directory) \<Rightarrow> unit site_act" where
  "put ok f = andThen (look ok) (\<lambda>b. if b then modify f else raise DbFault)"

definition with_tx :: "'a site_act \<Rightarrow> 'a site_act" where
  "with_tx body = (\<lambda>s. case body s of
       (Inl e, t) \<Rightarrow> (Inl e, t\<lparr>st_db := st_db s\<rparr>)
     | (Inr x, t) \<Rightarrow> (Inr x, t))"

text \<open>\<open>_ = f(...)\<close>: the outcome is ignored.\<close>

definition quiet :: "'a site_act \<Rightarrow> unit site_act" where
  "quiet m = andThen (attempt m) (\<lambda>_. ret ())"

text \<open>\<open>if err != nil\<close> with \<open>store.IsNotFound(err)\<close>: another error for a missing row only.\<close>

definition orMissing :: "'a site_act \<Rightarrow> app_err \<Rightarrow> 'a site_act" where
  "orMissing m e = andThen (attempt m) (\<lambda>r. case r of
     Inl x \<Rightarrow> raise (if is_not_found x then e else x) | Inr v \<Rightarrow> ret v)"

text \<open>A missing row is no error, any other is.\<close>

definition optional :: "'a site_act \<Rightarrow> 'a option site_act" where
  "optional m = andThen (attempt m) (\<lambda>r. case r of
     Inl e \<Rightarrow> if is_not_found e then ret None else raise e | Inr v \<Rightarrow> ret (Some v))"

definition take_random :: "host \<Rightarrow> nat \<Rightarrow> string site_act" where
  "take_random hs k = (\<lambda>s. (Inr (s_random (ho_core hs) (st_draws s) k), s\<lparr>st_draws := Suc (st_draws s)\<rparr>))"

definition take_below :: "host \<Rightarrow> nat \<Rightarrow> nat site_act" where
  "take_below hs n = (\<lambda>s. (Inr (ho_below hs (st_draws s) n), s\<lparr>st_draws := Suc (st_draws s)\<rparr>))"

text \<open>\<open>crypto.NewID\<close>, \<open>crypto.EncryptString\<close>.\<close>

definition fresh_id :: "host \<Rightarrow> string \<Rightarrow> string site_act" where
  "fresh_id hs pre = andThen (take_random hs 16) (\<lambda>b. ret (pre @ ''_'' @ base32_lower b))"

definition seal :: "host \<Rightarrow> string \<Rightarrow> string site_act" where
  "seal hs text = (\<lambda>s. (Inr (ho_seal hs (st_draws s) text), s\<lparr>st_draws := Suc (st_draws s)\<rparr>))"

text \<open>
  Text of an instant of four-digit years, \<open>t.UTC().Format(time.RFC3339Nano)\<close>, compared as text: the part down
  to the second has a fixed width and sorts like the seconds; behind it stands \<open>Z\<close>, or a point, the digits
  of the fraction without trailing zeros, and \<open>Z\<close>.
\<close>

definition fraction_text :: "int \<Rightarrow> string" where
  "fraction_text t =
     (let f = t mod second in
      if f = 0 then ''Z''
      else CHR ''.'' # rev (dropWhile (\<lambda>c. c = CHR ''0'') (rev (pad_zeros 9 (itoa f)))) @ ''Z'')"

definition text_key :: "int \<Rightarrow> int \<times> string" where
  "text_key t = (unix t, fraction_text t)"

definition text_less :: "int \<Rightarrow> int \<Rightarrow> bool" where
  "text_less a b \<longleftrightarrow> text_key a < text_key b"

text \<open>\<open>ORDER BY created_at DESC\<close>; rows of the same instant come in an order that SQL leaves open.\<close>

definition newest_first :: "('a \<Rightarrow> int) \<Rightarrow> 'a list \<Rightarrow> 'a list" where
  "newest_first at rows = rev (sort_key (\<lambda>r. text_key (at r)) rows)"

section \<open>Successful runs\<close>

lemma fetch_run [run_iffs]: "fetch q s = (Inr x, t) \<longleftrightarrow> q (st_db s) = Some x \<and> t = s"
  by (auto simp: fetch_def split: option.splits)

lemma look_run [run_iffs]: "look q s = (Inr x, t) \<longleftrightarrow> x = q (st_db s) \<and> t = s"
  by (simp add: look_def run_iffs)

lemma modify_run [run_iffs]: "modify f s = (Inr x, t) \<longleftrightarrow> t = s\<lparr>st_db := f (st_db s)\<rparr>"
  by (simp add: modify_def run_iffs)

lemma put_run [run_iffs]: "put ok f s = (Inr x, t) \<longleftrightarrow> ok (st_db s) \<and> t = s\<lparr>st_db := f (st_db s)\<rparr>"
  by (auto simp: put_def run_iffs)

lemma with_tx_run [run_iffs]: "with_tx m s = (Inr x, t) \<longleftrightarrow> m s = (Inr x, t)"
  by (auto simp: with_tx_def split: prod.splits sum.splits)

lemma quiet_run [run_iffs]: "quiet m s = (Inr x, t) \<longleftrightarrow> t = snd (m s)"
  by (cases "m s") (auto simp: quiet_def andThen_run attempt_run)

lemma orMissing_run [run_iffs]: "orMissing m e s = (Inr x, t) \<longleftrightarrow> m s = (Inr x, t)"
  by (auto simp: orMissing_def run_iffs attempt_def andThen_def ret_def raise_def split: prod.splits sum.splits)

lemma optional_run [run_iffs]:
  "optional m s = (Inr r, t) \<longleftrightarrow> (r = None \<and> m s = (Inl NoRows, t)) \<or> (\<exists>x. r = Some x \<and> m s = (Inr x, t))"
  by (auto simp: optional_def is_not_found_def attempt_def andThen_def ret_def raise_def split: prod.splits sum.splits)

lemma fetch_none [simp]: "fetch q s = (Inl e, t) \<longleftrightarrow> q (st_db s) = None \<and> e = NoRows \<and> t = s"
  by (auto simp: fetch_def split: option.splits)

lemma take_random_run [run_iffs]:
  "take_random hs k s = (Inr x, t) \<longleftrightarrow> x = s_random (ho_core hs) (st_draws s) k \<and> t = s\<lparr>st_draws := Suc (st_draws s)\<rparr>"
  by (auto simp: take_random_def)

lemma fresh_id_run [run_iffs]:
  "fresh_id hs pre s = (Inr x, t) \<longleftrightarrow>
     x = pre @ ''_'' @ base32_lower (s_random (ho_core hs) (st_draws s) 16) \<and> t = s\<lparr>st_draws := Suc (st_draws s)\<rparr>"
  by (auto simp: fresh_id_def run_iffs)

lemma seal_run [run_iffs]:
  "seal hs x s = (Inr y, t) \<longleftrightarrow> y = ho_seal hs (st_draws s) x \<and> t = s\<lparr>st_draws := Suc (st_draws s)\<rparr>"
  by (auto simp: seal_def)

end
