(* ===== verification/Directory.thy ===== *)
theory Directory
  imports Accounts
begin

text \<open>
  The statements of the store on the accounts (\<open>store/sqlite.go\<close>, \<open>admin_mfa.go\<close>, \<open>customers.go\<close>, \<open>agent_identity.go\<close>,
  \<open>recovery.go\<close>, \<open>captcha.go\<close>, \<open>developers.go\<close>, \<open>email.go\<close>), one definition per statement or query, and the log of the
  service (\<open>Service.audit\<close> and its relatives).
\<close>

section \<open>Administrators\<close>

definition count_admins :: "int site_act" where
  "count_admins = look (\<lambda>d. int (length (y_admins d)))"

definition insert_admin :: "admin_user \<Rightarrow> unit site_act" where
  "insert_admin u =
     put (\<lambda>d. \<forall>v \<in> set (y_admins d). ad_id v \<noteq> ad_id u \<and> ad_username v \<noteq> ad_username u)
       (\<lambda>d. d\<lparr>y_admins := y_admins d @ [u]\<rparr>)"

definition delete_admin :: "string \<Rightarrow> unit site_act" where
  "delete_admin i = modify (\<lambda>d. d\<lparr>y_admins := filter (\<lambda>u. ad_id u \<noteq> i) (y_admins d)\<rparr>)"

definition admin_by_username :: "string \<Rightarrow> admin_user site_act" where
  "admin_by_username name = fetch (\<lambda>d. row_of ad_username name (y_admins d))"

definition admin_by_id :: "string \<Rightarrow> admin_user site_act" where
  "admin_by_id i = fetch (\<lambda>d. row_of ad_id i (y_admins d))"

definition list_admins :: "admin_user list site_act" where
  "list_admins = look (\<lambda>d. newest_first ad_created (y_admins d))"

definition alter_admin :: "string \<Rightarrow> (admin_user \<Rightarrow> admin_user) \<Rightarrow> directory \<Rightarrow> directory" where
  "alter_admin i f d = d\<lparr>y_admins := alter ad_id i f (y_admins d)\<rparr>"

definition update_admin_last_login :: "string \<Rightarrow> int \<Rightarrow> unit site_act" where
  "update_admin_last_login i t = modify (alter_admin i (\<lambda>u. u\<lparr>ad_last_login := Some t, ad_updated := t\<rparr>))"

definition update_admin_password :: "string \<Rightarrow> string \<Rightarrow> int \<Rightarrow> unit site_act" where
  "update_admin_password i hash t =
     modify (alter_admin i (\<lambda>u. u\<lparr>ad_hash := hash, ad_version := ad_version u + 1, ad_updated := t\<rparr>))"

definition admin_id_by_email :: "string \<Rightarrow> string site_act" where
  "admin_id_by_email email =
     look (\<lambda>d. case row_of ad_email email (y_admins d) of None \<Rightarrow> [] | Some u \<Rightarrow> ad_id u)"

definition update_admin_email :: "string \<Rightarrow> string \<Rightarrow> int \<Rightarrow> unit site_act" where
  "update_admin_email i email t = modify (alter_admin i (\<lambda>u. u\<lparr>ad_email := email, ad_updated := t\<rparr>))"

definition update_developer_status :: "string \<Rightarrow> string \<Rightarrow> unit site_act" where
  "update_developer_status i status =
     modify (alter_admin i (\<lambda>u. if ad_role u = ''developer''
       then u\<lparr>ad_status := status, ad_version := ad_version u + 1\<rparr> else u))"

definition mfa_of :: "string \<Rightarrow> admin_mfa site_act" where
  "mfa_of i = fetch (\<lambda>d. row_of mf_user i (y_mfa d))"

definition save_mfa :: "admin_mfa \<Rightarrow> bool \<Rightarrow> int \<Rightarrow> unit site_act" where
  "save_mfa m revoke t =
     andThen (modify (\<lambda>d. d\<lparr>y_mfa := filter (\<lambda>x. mf_user x \<noteq> mf_user m) (y_mfa d) @ [m]\<rparr>)) (\<lambda>_.
     if revoke
     then modify (alter_admin (mf_user m) (\<lambda>u. u\<lparr>ad_version := ad_version u + 1, ad_updated := t\<rparr>))
     else ret ())"

section \<open>Customers\<close>

definition customer_by_id :: "string \<Rightarrow> customer site_act" where
  "customer_by_id i = fetch (\<lambda>d. row_of cu_id i (y_customers d))"

text \<open>The rows that answer to a login name; SQL's \<open>LOWER\<close> maps ASCII letters.\<close>

definition answers_to :: "host \<Rightarrow> string \<Rightarrow> customer \<Rightarrow> bool" where
  "answers_to hs login c \<longleftrightarrow>
     cu_username c = login \<or> cu_email c \<noteq> [] \<and> map lower_char (cu_email c) = to_lower (ho_core hs) login"

definition customer_by_login :: "host \<Rightarrow> string \<Rightarrow> customer site_act" where
  "customer_by_login hs login =
     fetch (\<lambda>d. case filter (answers_to hs login) (y_customers d) of [c] \<Rightarrow> Some c | _ \<Rightarrow> None)"

definition identity_login_available :: "string \<Rightarrow> string \<Rightarrow> bool site_act" where
  "identity_login_available username email =
     look (\<lambda>d. \<not> list_ex (\<lambda>c. cu_username c = username \<or>
         cu_email c \<noteq> [] \<and> map lower_char (cu_email c) = username \<or>
         email \<noteq> [] \<and> (map lower_char (cu_username c) = email \<or> map lower_char (cu_email c) = email))
       (y_customers d))"

definition insert_customer :: "customer \<Rightarrow> unit site_act" where
  "insert_customer c =
     put (\<lambda>d. \<forall>v \<in> set (y_customers d). cu_id v \<noteq> cu_id c \<and> cu_username v \<noteq> cu_username c)
       (\<lambda>d. d\<lparr>y_customers := y_customers d @ [c]\<rparr>)"

definition alter_customer :: "string \<Rightarrow> (customer \<Rightarrow> customer) \<Rightarrow> directory \<Rightarrow> directory" where
  "alter_customer i f d = d\<lparr>y_customers := alter cu_id i f (y_customers d)\<rparr>"

definition update_customer_status :: "string \<Rightarrow> string \<Rightarrow> unit site_act" where
  "update_customer_status i status =
     modify (alter_customer i (\<lambda>c. c\<lparr>cu_status := status, cu_version := cu_version c + 1\<rparr>))"

text \<open>\<open>syncAgentIdentityPassword\<close>: the member of a team that belongs to the customer gets the same hash,
  and its sessions end.\<close>

definition member_of_user :: "directory \<Rightarrow> string \<Rightarrow> string option" where
  "member_of_user d user = map_option fst (row_of snd user (y_identities d))"

definition bump_version :: "string \<Rightarrow> (string \<times> int) list \<Rightarrow> (string \<times> int) list" where
  "bump_version i vs =
     filter (\<lambda>(k, _). k \<noteq> i) vs @ [(i, (case map_of vs i of None \<Rightarrow> 0 | Some v \<Rightarrow> v) + 1)]"

definition sync_identity_password :: "string \<Rightarrow> string \<Rightarrow> directory \<Rightarrow> directory" where
  "sync_identity_password user hash d =
     (case member_of_user d user of
        None \<Rightarrow> d
      | Some m \<Rightarrow> d\<lparr>y_members := alter mb_id m (\<lambda>v. v\<lparr>mb_hash := hash\<rparr>) (y_members d),
                    y_versions := bump_version m (y_versions d)\<rparr>)"

definition update_customer_password :: "string \<Rightarrow> string \<Rightarrow> unit site_act" where
  "update_customer_password i hash =
     andThen (modify (alter_customer i (\<lambda>c. c\<lparr>cu_hash := hash, cu_version := cu_version c + 1\<rparr>))) (\<lambda>_.
     modify (sync_identity_password i hash))"

section \<open>Agents and their members\<close>

definition agent_by_id :: "string \<Rightarrow> agent site_act" where
  "agent_by_id i = fetch (\<lambda>d. row_of an_id i (y_agents d))"

definition agent_login_code :: "string \<Rightarrow> string site_act" where
  "agent_login_code i = fetch (\<lambda>d. map_of (y_codes d) i)"

definition agent_by_login_code :: "string \<Rightarrow> agent site_act" where
  "agent_by_login_code code =
     fetch (\<lambda>d. case row_of snd code (y_codes d) of None \<Rightarrow> None
       | Some (i, _) \<Rightarrow> map_option (\<lambda>a. a\<lparr>an_code := code\<rparr>) (row_of an_id i (y_agents d)))"

definition insert_agent :: "agent \<Rightarrow> unit site_act" where
  "insert_agent a =
     andThen (put (\<lambda>d. \<forall>v \<in> set (y_agents d). an_id v \<noteq> an_id a \<and> an_no v \<noteq> an_no a)
       (\<lambda>d. d\<lparr>y_agents := y_agents d @ [a\<lparr>an_code := []\<rparr>]\<rparr>)) (\<lambda>_.
     put (\<lambda>d. \<forall>(i, c) \<in> set (y_codes d). i \<noteq> an_id a \<and> c \<noteq> an_code a)
       (\<lambda>d. d\<lparr>y_codes := y_codes d @ [(an_id a, an_code a)]\<rparr>))"

definition list_agents :: "agent list site_act" where
  "list_agents = look (\<lambda>d. map (\<lambda>a. a\<lparr>an_code := (case map_of (y_codes d) (an_id a) of None \<Rightarrow> [] | Some c \<Rightarrow> c)\<rparr>)
     (newest_first an_created (y_agents d)))"

definition insert_login_code :: "string \<Rightarrow> string \<Rightarrow> unit site_act" where
  "insert_login_code i code =
     put (\<lambda>d. \<forall>(k, c) \<in> set (y_codes d). k \<noteq> i \<and> c \<noteq> code) (\<lambda>d. d\<lparr>y_codes := y_codes d @ [(i, code)]\<rparr>)"

text \<open>\<open>requireAffected\<close>: an update that hits no row is \<open>sql.ErrNoRows\<close>.\<close>

definition modify_found :: "(directory \<Rightarrow> bool) \<Rightarrow> (directory \<Rightarrow> directory) \<Rightarrow> unit site_act" where
  "modify_found hit f = andThen (look hit) (\<lambda>b. if b then modify f else raise NoRows)"

definition update_agent_status :: "string \<Rightarrow> string \<Rightarrow> int option \<Rightarrow> int \<Rightarrow> unit site_act" where
  "update_agent_status i status disabled t =
     modify_found (\<lambda>d. row_of an_id i (y_agents d) \<noteq> None)
       (\<lambda>d. d\<lparr>y_agents := alter an_id i (\<lambda>a. a\<lparr>an_status := status, an_disabled := disabled, an_updated := t\<rparr>) (y_agents d)\<rparr>)"

definition update_agent_profile :: "string \<Rightarrow> string \<Rightarrow> string \<Rightarrow> string \<Rightarrow> string \<Rightarrow> int \<Rightarrow> unit site_act" where
  "update_agent_profile i name contact phone email t =
     modify_found (\<lambda>d. row_of an_id i (y_agents d) \<noteq> None)
       (\<lambda>d. d\<lparr>y_agents := alter an_id i (\<lambda>a. a\<lparr>an_name := name, an_contact := contact, an_phone := phone,
          an_email := email, an_updated := t\<rparr>) (y_agents d)\<rparr>)"

text \<open>A member as it is read: with the version of its sessions.\<close>

definition read_member :: "directory \<Rightarrow> agent_user \<Rightarrow> agent_user" where
  "read_member d m = m\<lparr>mb_identity := [],
     mb_version := (case map_of (y_versions d) (mb_id m) of None \<Rightarrow> 0 | Some v \<Rightarrow> v)\<rparr>"

definition member_by_id :: "string \<Rightarrow> agent_user site_act" where
  "member_by_id i = fetch (\<lambda>d. map_option (read_member d) (row_of mb_id i (y_members d)))"

definition member_for_user :: "string \<Rightarrow> agent_user site_act" where
  "member_for_user user = fetch (\<lambda>d. case member_of_user d user of None \<Rightarrow> None
     | Some m \<Rightarrow> map_option (read_member d) (row_of mb_id m (y_members d)))"

definition identity_of :: "string \<Rightarrow> string site_act" where
  "identity_of member = fetch (\<lambda>d. map_of (y_identities d) member)"

definition list_members :: "string \<Rightarrow> agent_user list site_act" where
  "list_members i = look (\<lambda>d. newest_first mb_created
     (map (read_member d) (filter (\<lambda>m. mb_agent m = i) (y_members d))))"

definition insert_member :: "agent_user \<Rightarrow> unit site_act" where
  "insert_member m =
     put (\<lambda>d. \<forall>v \<in> set (y_members d). mb_id v \<noteq> mb_id m \<and> (mb_agent v, mb_username v) \<noteq> (mb_agent m, mb_username m))
       (\<lambda>d. d\<lparr>y_members := y_members d @ [m\<lparr>mb_identity := [], mb_version := 0\<rparr>]\<rparr>)"

definition bind_identity :: "string \<Rightarrow> string \<Rightarrow> unit site_act" where
  "bind_identity member user =
     put (\<lambda>d. \<forall>(m, u) \<in> set (y_identities d). m \<noteq> member \<and> u \<noteq> user)
       (\<lambda>d. d\<lparr>y_identities := y_identities d @ [(member, user)]\<rparr>)"

definition update_member_last_login :: "string \<Rightarrow> int \<Rightarrow> unit site_act" where
  "update_member_last_login i t =
     modify (\<lambda>d. d\<lparr>y_members := alter mb_id i (\<lambda>m. m\<lparr>mb_last_login := Some t, mb_updated := t\<rparr>) (y_members d)\<rparr>)"

definition update_member_status :: "string \<Rightarrow> string \<Rightarrow> string \<Rightarrow> int \<Rightarrow> unit site_act" where
  "update_member_status agentID i status t =
     (let hit = (\<lambda>m. mb_id m = i \<and> mb_agent m = agentID) in
      modify_found (\<lambda>d. list_ex hit (y_members d))
        (\<lambda>d. d\<lparr>y_members := map (\<lambda>m. if hit m then m\<lparr>mb_status := status, mb_updated := t\<rparr> else m) (y_members d)\<rparr>))"

text \<open>\<open>Customers\<close> and \<open>EligibleAgentUsers\<close>, with what the join adds about the agent.\<close>

definition joined_agent :: "directory \<Rightarrow> customer \<Rightarrow> customer" where
  "joined_agent d c =
     (case Option.bind (member_of_user d (cu_id c)) (\<lambda>m. row_of mb_id m (y_members d)) of
        None \<Rightarrow> c\<lparr>cu_agent := [], cu_agent_status := []\<rparr>
      | Some m \<Rightarrow>
          let status = (if mb_status m = ''active''
                        then (case row_of an_id (mb_agent m) (y_agents d) of None \<Rightarrow> [] | Some a \<Rightarrow> an_status a)
                        else ''disabled'') in
          c\<lparr>cu_agent := mb_agent m, cu_agent_status := (if mb_agent m = [] then [] else status)\<rparr>)"

definition list_customers :: "customer list site_act" where
  "list_customers = look (\<lambda>d. map (joined_agent d) (newest_first cu_created (y_customers d)))"

definition eligible_agent_users :: "customer list site_act" where
  "eligible_agent_users = look (\<lambda>d. newest_first cu_created
     (filter (\<lambda>c. cu_status c = ''active'' \<and> member_of_user d (cu_id c) = None) (y_customers d)))"

text \<open>\<open>EmailTaken\<close>; the code passes the name of the table.\<close>

definition emails_in :: "string \<Rightarrow> directory \<Rightarrow> string list option" where
  "emails_in tab d =
     (if tab = ''admin_users'' then Some (map ad_email (y_admins d))
      else if tab = ''customer_users'' then Some (map cu_email (y_customers d))
      else if tab = ''agent_users'' then Some (map mb_email (y_members d))
      else if tab = ''agents'' then Some (map an_email (y_agents d))
      else None)"

definition email_taken :: "string \<Rightarrow> string \<Rightarrow> bool site_act" where
  "email_taken tab email = andThen (look (emails_in tab)) (\<lambda>r.
     case r of None \<Rightarrow> raise (GoError ''invalid table'') | Some es \<Rightarrow> ret (email \<in> set es))"

section \<open>Password resets\<close>

definition account_table :: "string \<Rightarrow> app_err + unit" where
  "account_table kind =
     (if kind \<in> {''customer'', ''agent'', ''admin''} then Inr () else Inl (GoError ''invalid account kind''))"

definition lock_account :: "string \<Rightarrow> string \<Rightarrow> unit site_act" where
  "lock_account kind i = pureA (account_table kind)"

text \<open>The customer behind a member, whose login, address and password count for the member too.\<close>

definition identity_customer :: "directory \<Rightarrow> string \<Rightarrow> customer option" where
  "identity_customer d member =
     Option.bind (map_of (y_identities d) member) (\<lambda>u. row_of cu_id u (y_customers d))"

definition read_recovery_account :: "directory \<Rightarrow> string \<Rightarrow> string \<Rightarrow> recovery_account option" where
  "read_recovery_account d kind i =
     (if kind = ''customer'' then map_option (\<lambda>c. \<lparr>ra_id = cu_id c, ra_username = cu_username c, ra_name = cu_name c,
          ra_email = cu_email c, ra_role = ''customer'', ra_status = cu_status c, ra_hash = cu_hash c\<rparr>)
          (row_of cu_id i (y_customers d))
      else if kind = ''admin'' then map_option (\<lambda>u. \<lparr>ra_id = ad_id u, ra_username = ad_username u, ra_name = ad_name u,
          ra_email = ad_email u, ra_role = ad_role u, ra_status = ad_status u, ra_hash = ad_hash u\<rparr>)
          (row_of ad_id i (y_admins d))
      else map_option (\<lambda>m. case identity_customer d (mb_id m) of
            None \<Rightarrow> \<lparr>ra_id = mb_id m, ra_username = mb_username m, ra_name = mb_name m, ra_email = mb_email m,
                     ra_role = mb_role m, ra_status = mb_status m, ra_hash = mb_hash m\<rparr>
          | Some c \<Rightarrow> \<lparr>ra_id = mb_id m, ra_username = cu_username c, ra_name = mb_name m, ra_email = cu_email c,
                       ra_role = mb_role m, ra_status = (if cu_status c \<noteq> ''active'' then ''disabled'' else mb_status m),
                       ra_hash = cu_hash c\<rparr>)
          (row_of mb_id i (y_members d)))"

definition recovery_account_of :: "string \<Rightarrow> string \<Rightarrow> recovery_account site_act" where
  "recovery_account_of kind i =
     andThen (pureA (account_table kind)) (\<lambda>_. fetch (\<lambda>d. read_recovery_account d kind i))"

definition store_account_password :: "string \<Rightarrow> string \<Rightarrow> string \<Rightarrow> int \<Rightarrow> unit site_act" where
  "store_account_password kind i hash t =
     (if kind = ''customer'' then update_customer_password i hash
      else if kind = ''admin'' then update_admin_password i hash t
      else if kind = ''agent'' then
        andThen (look (\<lambda>d. map_of (y_identities d) i)) (\<lambda>identity.
        case identity of
          Some user \<Rightarrow> update_customer_password user hash
        | None \<Rightarrow> modify (\<lambda>d. d\<lparr>y_members := alter mb_id i (\<lambda>m. m\<lparr>mb_hash := hash, mb_updated := t\<rparr>) (y_members d),
                                y_versions := bump_version i (y_versions d)\<rparr>))
      else raise (GoError ''invalid account kind''))"

definition insert_reset :: "password_reset \<Rightarrow> unit site_act" where
  "insert_reset r =
     andThen (modify (\<lambda>d. d\<lparr>y_resets := map (\<lambda>v. if rs_kind v = rs_kind r \<and> rs_user v = rs_user r \<and> rs_consumed v = None
          then v\<lparr>rs_consumed := Some (rs_created r)\<rparr> else v) (y_resets d)\<rparr>)) (\<lambda>_.
     put (\<lambda>d. \<forall>v \<in> set (y_resets d). rs_id v \<noteq> rs_id r \<and> rs_token v \<noteq> rs_token r)
       (\<lambda>d. d\<lparr>y_resets := y_resets d @ [r]\<rparr>))"

definition reset_by_token :: "string \<Rightarrow> password_reset site_act" where
  "reset_by_token hash = fetch (\<lambda>d. row_of rs_token hash (y_resets d))"

definition reset_by_account :: "string \<Rightarrow> string \<Rightarrow> string \<Rightarrow> password_reset site_act" where
  "reset_by_account kind i hash =
     fetch (\<lambda>d. List.find (\<lambda>r. rs_kind r = kind \<and> rs_user r = i \<and> rs_token r = hash) (y_resets d))"

definition account_refs :: "string \<Rightarrow> account_ref list site_act" where
  "account_refs username =
     look (\<lambda>d.
       map (\<lambda>u. \<lparr>rf_id = ad_id u, rf_username = ad_username u, rf_kind = ''admin'', rf_status = ad_status u\<rparr>)
         (filter (\<lambda>u. ad_username u = username) (y_admins d)) @
       map (\<lambda>c. \<lparr>rf_id = cu_id c, rf_username = cu_username c, rf_kind = ''customer'', rf_status = cu_status c\<rparr>)
         (filter (\<lambda>c. cu_username c = username) (y_customers d)) @
       map (\<lambda>m. \<lparr>rf_id = mb_id m, rf_username = mb_username m, rf_kind = ''agent'', rf_status = mb_status m\<rparr>)
         (filter (\<lambda>m. mb_username m = username) (y_members d)))"

definition consume_reset :: "string \<Rightarrow> int \<Rightarrow> unit site_act" where
  "consume_reset i t = modify (\<lambda>d. d\<lparr>y_resets := alter rs_id i (\<lambda>r. r\<lparr>rs_consumed := Some t\<rparr>) (y_resets d)\<rparr>)"

definition last_reset_created :: "string \<Rightarrow> string \<Rightarrow> int option site_act" where
  "last_reset_created kind i =
     look (\<lambda>d. case newest_first rs_created (filter (\<lambda>r. rs_kind r = kind \<and> rs_user r = i) (y_resets d)) of
        [] \<Rightarrow> None | r # _ \<Rightarrow> Some (rs_created r))"

section \<open>Image CAPTCHA\<close>

definition update_captcha_row :: "bool \<Rightarrow> int \<Rightarrow> unit site_act" where
  "update_captcha_row on t = modify (\<lambda>d. d\<lparr>y_captcha_on := on, y_captcha_at := t\<rparr>)"

definition insert_captcha :: "string \<Rightarrow> string \<Rightarrow> int \<Rightarrow> unit site_act" where
  "insert_captcha i hash expires =
     put (\<lambda>d. \<forall>c \<in> set (y_captchas d). cp_id c \<noteq> i)
       (\<lambda>d. d\<lparr>y_captchas := y_captchas d @ [\<lparr>cp_id = i, cp_hash = hash, cp_expires = expires, cp_consumed = None\<rparr>]\<rparr>)"

definition captcha_open :: "string \<Rightarrow> string \<Rightarrow> int \<Rightarrow> captcha_row \<Rightarrow> bool" where
  "captcha_open i hash now c \<longleftrightarrow> cp_id c = i \<and> cp_hash c = hash \<and> cp_consumed c = None \<and> text_less now (cp_expires c)"

definition consume_captcha :: "string \<Rightarrow> string \<Rightarrow> int \<Rightarrow> bool site_act" where
  "consume_captcha i hash now =
     andThen (look (\<lambda>d. length (filter (captcha_open i hash now) (y_captchas d)))) (\<lambda>affected.
     andThen (modify (\<lambda>d. d\<lparr>y_captchas := map (\<lambda>c. if captcha_open i hash now c
        then c\<lparr>cp_consumed := Some now\<rparr> else c) (y_captchas d)\<rparr>)) (\<lambda>_.
     ret (affected = 1)))"

definition cleanup_captchas :: "int \<Rightarrow> unit site_act" where
  "cleanup_captchas now =
     modify (\<lambda>d. d\<lparr>y_captchas := filter (\<lambda>c. cp_consumed c = None \<and> text_less (now - hour) (cp_expires c)) (y_captchas d)\<rparr>)"

section \<open>The log\<close>

definition insert_log :: "log_entry \<Rightarrow> unit site_act" where
  "insert_log e = put (\<lambda>d. \<forall>v \<in> set (y_log d). lg_id v \<noteq> lg_id e) (\<lambda>d. d\<lparr>y_log := y_log d @ [e]\<rparr>)"

definition plain_entry :: "host \<Rightarrow> string \<Rightarrow> log_entry" where
  "plain_entry hs i = \<lparr>lg_id = i, lg_type = [], lg_actor = [], lg_agent = [], lg_product = [], lg_license = [], lg_card = [],
     lg_action = [], lg_ip = [], lg_request = [], lg_result = [], lg_code = [], lg_user_agent = [], lg_extra = NoExtra, lg_at = now_of hs\<rparr>"

text \<open>\<open>Service.audit\<close>, \<open>auditAgent\<close>, \<open>auditAdminAgent\<close>, \<open>transactionAudit\<close>.\<close>

definition audit ::
  "host \<Rightarrow> string \<Rightarrow> string \<Rightarrow> string \<Rightarrow> string \<Rightarrow> string \<Rightarrow> string \<Rightarrow> string \<Rightarrow> string \<Rightarrow> unit site_act" where
  "audit hs kind who product license crd action result code =
     (let (kind2, who2) = (case ho_caller hs of
          Some a \<Rightarrow> if who = [] \<and> cl_type a \<noteq> ''anonymous'' then (cl_type a, cl_id a) else (kind, who)
        | None \<Rightarrow> (kind, who)) in
      andThen (fresh_id hs ''audit'') (\<lambda>i.
      insert_log (plain_entry hs i\<lparr>lg_type := kind2, lg_actor := who2, lg_product := product, lg_license := license,
        lg_card := crd, lg_action := action, lg_result := result, lg_code := code\<rparr>)))"

definition audit_agent :: "host \<Rightarrow> string \<Rightarrow> string \<Rightarrow> string \<Rightarrow> string \<Rightarrow> string \<Rightarrow> string \<Rightarrow> unit site_act" where
  "audit_agent hs who agentID product action result code =
     andThen (fresh_id hs ''audit'') (\<lambda>i.
     insert_log (plain_entry hs i\<lparr>lg_type := ''agent'', lg_actor := who, lg_agent := agentID, lg_product := product,
       lg_action := action, lg_result := result, lg_code := code\<rparr>))"

definition audit_admin_agent :: "host \<Rightarrow> string \<Rightarrow> string \<Rightarrow> string \<Rightarrow> string \<Rightarrow> string \<Rightarrow> unit site_act" where
  "audit_admin_agent hs who agentID action result code =
     andThen (fresh_id hs ''audit'') (\<lambda>i.
     insert_log (plain_entry hs i\<lparr>lg_type := ''admin'', lg_actor := who, lg_agent := agentID,
       lg_action := action, lg_result := result, lg_code := code\<rparr>))"

definition transaction_audit ::
  "host \<Rightarrow> string \<Rightarrow> string \<Rightarrow> string \<Rightarrow> string \<Rightarrow> string \<Rightarrow> extra \<Rightarrow> unit site_act" where
  "transaction_audit hs kind who product license action extra =
     andThen (fresh_id hs ''audit'') (\<lambda>i.
     insert_log (plain_entry hs i\<lparr>lg_type := kind, lg_actor := who, lg_product := product, lg_license := license,
       lg_action := action, lg_result := ''success'', lg_extra := extra,
       lg_request := (case ho_caller hs of None \<Rightarrow> [] | Some a \<Rightarrow> cl_request a),
       lg_ip := (case ho_caller hs of None \<Rightarrow> [] | Some a \<Rightarrow> cl_ip a)\<rparr>))"

section \<open>What the log leaves alone\<close>

lemma lock_account_run [run_iffs]:
  "lock_account kind i s = (Inr x, t) \<longleftrightarrow> kind \<in> {''customer'', ''agent'', ''admin''} \<and> t = s"
  by (auto simp: lock_account_def account_table_def run_iffs)

text \<open>Only the log and the number of draws may differ.\<close>

definition logged_only :: "site \<Rightarrow> site \<Rightarrow> bool" where
  "logged_only s t \<longleftrightarrow> (\<exists>l. st_db t = (st_db s)\<lparr>y_log := l\<rparr>)"

lemma logged_only_simps:
  assumes "logged_only s t"
  shows "y_admins (st_db t) = y_admins (st_db s)" "y_mfa (st_db t) = y_mfa (st_db s)"
    "y_customers (st_db t) = y_customers (st_db s)" "y_agents (st_db t) = y_agents (st_db s)"
    "y_codes (st_db t) = y_codes (st_db s)" "y_members (st_db t) = y_members (st_db s)"
    "y_identities (st_db t) = y_identities (st_db s)" "y_versions (st_db t) = y_versions (st_db s)"
    "y_resets (st_db t) = y_resets (st_db s)" "y_captcha_on (st_db t) = y_captcha_on (st_db s)"
    "y_captchas (st_db t) = y_captchas (st_db s)" "y_mail (st_db t) = y_mail (st_db s)"
    "y_outbox (st_db t) = y_outbox (st_db s)" "y_site (st_db t) = y_site (st_db s)"
    "y_goods (st_db t) = y_goods (st_db s)"
  using assms by (auto simp: logged_only_def)

lemma logged_only_log: "logged_only s (s\<lparr>st_db := st_db s\<lparr>y_log := l\<rparr>, st_draws := n\<rparr>)"
  "logged_only s (s\<lparr>st_draws := n\<rparr>)" "logged_only s s"
  "logged_only s (s\<lparr>st_draws := n, st_db := st_db s\<lparr>y_log := l\<rparr>\<rparr>)"
  unfolding logged_only_def by (rule exI [of _ l] exI [of _ "y_log (st_db s)"], simp)+

lemma insert_log_state: "snd (insert_log e s) = s \<or> (\<exists>l. snd (insert_log e s) = s\<lparr>st_db := st_db s\<lparr>y_log := l\<rparr>\<rparr>)"
  by (auto simp: insert_log_def put_def look_def modify_def andThen_def reads_def writes_def raise_def)

lemma fresh_log_state: "logged_only s (snd (andThen (fresh_id hs pre) (\<lambda>i. insert_log (f i)) s))"
proof -
  let ?i = "pre @ ''_'' @ base32_lower (s_random (ho_core hs) (st_draws s) 16)"
  have "snd (andThen (fresh_id hs pre) (\<lambda>i. insert_log (f i)) s) = snd (insert_log (f ?i) (s\<lparr>st_draws := Suc (st_draws s)\<rparr>))"
    by (simp add: fresh_id_def take_random_def andThen_def ret_def)
  with insert_log_state [of "f ?i" "s\<lparr>st_draws := Suc (st_draws s)\<rparr>"] show ?thesis
    by (auto intro: logged_only_log)
qed

lemma audit_state:
  "logged_only s (snd (audit hs kind who product license crd action result code s))"
  "logged_only s (snd (audit_agent hs who agentID product action result code s))"
  "logged_only s (snd (audit_admin_agent hs who agentID action result code s))"
  "logged_only s (snd (transaction_audit hs kind who product license action extra s))"
  unfolding audit_def audit_agent_def audit_admin_agent_def transaction_audit_def Let_def
  by (auto intro: fresh_log_state split: prod.split)

lemma transaction_audit_logged:
  "transaction_audit hs kind who product license action extra s = (r, t) \<Longrightarrow> logged_only s t"
  using audit_state(4) [of s hs kind who product license action extra] by simp

end
