(* ===== verification/SignIn.thy ===== *)
theory SignIn
  imports Directory
begin

text \<open>
  Signing in: passwords and session tokens (\<open>agent_auth.go\<close>, \<open>password_change.go\<close>), the image CAPTCHA
  (\<open>captcha.go\<close>), administrators (\<open>admin_auth.go\<close>, \<open>developers.go\<close>), their two-step verification
  (\<open>admin_mfa.go\<close>) and the login in two steps (\<open>admin_login.go\<close>).

  \<open>signed\<close> is the token format that administrators, customers and agents share: the Base64url text of a
  JSON payload, a point, and the Base64url text of its HMAC under a key derived from the pepper.
\<close>

section \<open>Passwords\<close>

definition password_version :: string where "password_version = ''pbkdf2_sha256_v1''"
definition password_iterations :: int where "password_iterations = 210000"

definition hash_password :: "host \<Rightarrow> string \<Rightarrow> string site_act" where
  "hash_password hs password =
     andThen (take_random hs 16) (\<lambda>salt.
     case ho_pbkdf2 hs password salt password_iterations 32 of
       None \<Rightarrow> raise (GoError ''pbkdf2'')
     | Some key \<Rightarrow> ret (join_with ''$'' [password_version, itoa password_iterations, b64_encode salt, b64_encode key]))"

text \<open>\<open>strconv.Atoi\<close>: an optional sign and decimal digits, within 64 bits.\<close>

definition atoi :: "string \<Rightarrow> int option" where
  "atoi s =
     (let (neg, ds) = (case s of c # cs \<Rightarrow> if c = CHR ''-'' then (True, cs) else if c = CHR ''+'' then (False, cs) else (False, s)
                       | [] \<Rightarrow> (False, []));
          n = (if neg then - digits_value ds else digits_value ds) in
      if ds = [] \<or> list_ex (\<lambda>c. \<not> is_digit c) ds \<or> n < - (2 ^ 63) \<or> 2 ^ 63 \<le> n then None else Some n)"

text \<open>\<open>None\<close> is an error of the function; every caller treats it like \<open>Some False\<close>.\<close>

definition verify_password :: "host \<Rightarrow> string \<Rightarrow> string \<Rightarrow> bool option" where
  "verify_password hs password stored =
     (case split_on (CHR ''$'') stored of
        [version, iterations, salt, key] \<Rightarrow>
          if version \<noteq> password_version then None
          else (case atoi iterations of None \<Rightarrow> None | Some n \<Rightarrow>
            if n \<le> 0 then None
            else (case b64_decode False salt of None \<Rightarrow> None | Some salt' \<Rightarrow>
              (case b64_decode False key of None \<Rightarrow> None | Some expected \<Rightarrow>
                (case ho_pbkdf2 hs password salt' n (length expected) of None \<Rightarrow> None
                 | Some actual \<Rightarrow> Some (actual = expected)))))
      | _ \<Rightarrow> None)"

definition password_ok :: "host \<Rightarrow> string \<Rightarrow> string \<Rightarrow> bool" where
  "password_ok hs password stored \<longleftrightarrow> verify_password hs password stored = Some True"

record password_change =
  pc_current :: string
  pc_new :: string
  pc_confirm :: "string option"

definition validate_password_change :: "password_change \<Rightarrow> app_err + unit" where
  "validate_password_change input =
     (if pc_current input = [] then Inl (bad_request ''CURRENT_PASSWORD_REQUIRED'')
      else if length (pc_new input) < 8 \<or> 256 < length (pc_new input) \<or> trim_space (pc_new input) = []
      then Inl (bad_request ''NEW_PASSWORD_INVALID'')
      else case pc_confirm input of
          None \<Rightarrow> Inr ()
        | Some c \<Rightarrow> if c \<noteq> pc_new input then Inl (bad_request ''PASSWORD_CONFIRMATION_MISMATCH'') else Inr ())"

section \<open>Signed session tokens\<close>

definition mac :: "host \<Rightarrow> string \<Rightarrow> string \<Rightarrow> string" where
  "mac hs key msg = s_hmac_with (ho_core hs) key msg"

definition signed :: "host \<Rightarrow> string \<Rightarrow> string \<Rightarrow> string" where
  "signed hs key body = b64_encode body @ ''.'' @ b64_encode (mac hs key (b64_encode body))"

definition open_signed :: "host \<Rightarrow> string \<Rightarrow> string \<Rightarrow> string option" where
  "open_signed hs key token =
     (case split_on (CHR ''.'') token of
        [body, signature] \<Rightarrow>
          if b64_decode False signature \<noteq> Some (mac hs key body) then None else b64_decode False body
      | _ \<Rightarrow> None)"

definition admin_token_key :: "host \<Rightarrow> string" where
  "admin_token_key hs = mac hs (ho_pepper hs) ''yn-license-admin-session-v1''"

definition agent_token_key :: "host \<Rightarrow> string" where
  "agent_token_key hs = mac hs (ho_pepper hs) ''yn-license-agent-session-v1''"

definition sign_admin_token :: "host \<Rightarrow> session_claims \<Rightarrow> string" where
  "sign_admin_token hs c = signed hs (admin_token_key hs) (ho_claims_json hs c)"

definition verify_admin_token :: "host \<Rightarrow> string \<Rightarrow> session_claims option" where
  "verify_admin_token hs token = Option.bind (open_signed hs (admin_token_key hs) token) (ho_claims_parse hs)"

definition sign_agent_token :: "host \<Rightarrow> member_claims \<Rightarrow> string" where
  "sign_agent_token hs c = signed hs (agent_token_key hs) (ho_member_json hs c)"

definition verify_agent_token :: "host \<Rightarrow> string \<Rightarrow> member_claims option" where
  "verify_agent_token hs token = Option.bind (open_signed hs (agent_token_key hs) token) (ho_member_parse hs)"

section \<open>Image CAPTCHA\<close>

definition captcha_ttl :: int where "captcha_ttl = 5 * minute"

definition digest :: "host \<Rightarrow> string \<Rightarrow> string" where
  "digest hs value = hex_encode (s_sha256 (ho_core hs) value)"

definition captcha_settings :: "(bool \<times> int) site_act" where
  "captcha_settings = look (\<lambda>d. (y_captcha_on d, y_captcha_at d))"

definition update_captcha_settings :: "host \<Rightarrow> bool \<Rightarrow> string \<Rightarrow> (bool \<times> int) site_act" where
  "update_captcha_settings hs on who =
     andThen (update_captcha_row on (now_of hs)) (\<lambda>_.
     andThen (quiet (audit hs ''admin'' who [] [] [] ''captcha_settings.update'' ''success'' [])) (\<lambda>_.
     ret (on, now_of hs)))"

text \<open>\<open>captcha.NewCode\<close>; the picture (\<open>captcha.Render\<close>) is not modelled.\<close>

definition captcha_chars :: string where "captcha_chars = ''23456789ABCDEFGHJKMNPQRSTUVWXYZ''"

definition new_code :: "host \<Rightarrow> string site_act" where
  "new_code hs = foldEach [0..<4] [] (\<lambda>_ out.
     andThen (take_below hs (length captcha_chars)) (\<lambda>n. ret (out @ [captcha_chars ! n])))"

definition new_captcha :: "host \<Rightarrow> (string \<times> string \<times> int) site_act" where
  "new_captcha hs =
     andThen (quiet (cleanup_captchas (now_of hs))) (\<lambda>_.
     andThen (new_code hs) (\<lambda>code.
     andThen (fresh_id hs ''cap'') (\<lambda>i.
     andThen (insert_captcha i (digest hs code) (now_of hs + captcha_ttl)) (\<lambda>_.
     ret (i, code, now_of hs + captcha_ttl)))))"

definition ensure_captcha :: "host \<Rightarrow> string \<Rightarrow> string \<Rightarrow> unit site_act" where
  "ensure_captcha hs i answer =
     (if trim_space i = [] \<or> trim_space answer = [] then raise ErrCaptchaRequired
      else andThen (consume_captcha (trim_space i) (digest hs (to_upper (ho_core hs) (trim_space answer))) (now_of hs)) (\<lambda>ok.
        if \<not> ok then raise ErrCaptchaInvalid else ret ()))"

definition ensure_login_captcha :: "host \<Rightarrow> string \<Rightarrow> string \<Rightarrow> unit site_act" where
  "ensure_login_captcha hs i answer =
     andThen captcha_settings (\<lambda>(on, _). if \<not> on then ret () else ensure_captcha hs i answer)"

section \<open>Administrators\<close>

definition normalize_username :: "host \<Rightarrow> string \<Rightarrow> string" where
  "normalize_username hs name = to_lower (ho_core hs) (trim_space name)"

definition normalize_email :: "host \<Rightarrow> string \<Rightarrow> app_err + string" where
  "normalize_email hs value =
     (let v = to_lower (ho_core hs) (trim_space value) in
      if v = [] then Inr []
      else if ho_mail hs v \<noteq> Some v \<or> 254 < length v then Inl (bad_request ''EMAIL_INVALID'')
      else Inr v)"

definition ensure_email_available :: "string \<Rightarrow> string \<Rightarrow> unit site_act" where
  "ensure_email_available tab email =
     (if email = [] then ret ()
      else andThen (email_taken tab email) (\<lambda>taken. if taken then raise (bad_request ''EMAIL_TAKEN'') else ret ()))"

definition valid_admin_role :: "string \<Rightarrow> bool" where
  "valid_admin_role r \<longleftrightarrow> r \<in> {''super_admin'', ''admin'', ''operator'', ''auditor'', ''developer''}"

record create_admin_input =
  ci_username :: string
  ci_password :: string
  ci_name :: string
  ci_role :: string
  ci_email :: string

definition create_admin_user :: "host \<Rightarrow> create_admin_input \<Rightarrow> admin_user site_act" where
  "create_admin_user hs input =
     (let username = normalize_username hs (ci_username input);
          password = trim_space (ci_password input);
          name = trim_space (ci_name input) in
      if username = [] \<or> length password < 8 \<or> \<not> valid_admin_role (ci_role input) then raise ErrInvalidRequest
      else andThen (pureA (normalize_email hs (ci_email input))) (\<lambda>email.
           andThen (ensure_email_available ''admin_users'' email) (\<lambda>_.
           andThen (hash_password hs password) (\<lambda>hash.
           andThen (fresh_id hs ''admin'') (\<lambda>i.
           let user = \<lparr>ad_id = i, ad_username = username, ad_email = email, ad_hash = hash, ad_name = name,
                 ad_role = ci_role input, ad_status = ''active'', ad_version = 1, ad_last_login = None,
                 ad_created = now_of hs, ad_updated = now_of hs\<rparr> in
           andThen (insert_admin user) (\<lambda>_.
           andThen (quiet (audit hs ''admin'' [] [] [] [] ''admin_user.create'' ''success'' [])) (\<lambda>_.
           ret user)))))))"

definition ensure_bootstrap_admin ::
  "host \<Rightarrow> string \<Rightarrow> string \<Rightarrow> string \<Rightarrow> admin_user option site_act" where
  "ensure_bootstrap_admin hs username password name =
     andThen count_admins (\<lambda>count.
     if 0 < count then ret None
     else andThen (create_admin_user hs \<lparr>ci_username = username, ci_password = password, ci_name = name,
            ci_role = ''super_admin'', ci_email = []\<rparr>) (\<lambda>u. ret (Some u)))"

record admin_login_input =
  li_otp :: string
  li_username :: string
  li_password :: string
  li_captcha :: string
  li_captcha_code :: string

record admin_login_response =
  lr_token :: string
  lr_expires :: int
  lr_user :: admin_user

record admin_session =
  as_user :: string
  as_username :: string
  as_name :: string
  as_role :: string
  as_expires :: int

definition admin_token_ttl :: int where "admin_token_ttl = 12 * hour"

definition check_admin_login_credentials :: "host \<Rightarrow> admin_login_input \<Rightarrow> admin_user site_act" where
  "check_admin_login_credentials hs input =
     andThen (ensure_login_captcha hs (li_captcha input) (li_captcha_code input)) (\<lambda>_.
     let username = normalize_username hs (li_username input) in
     if username = [] \<or> trim_space (li_password input) = [] then raise ErrInvalidCredentials
     else andThen (orMissing (admin_by_username username) ErrInvalidCredentials) (\<lambda>user.
       if ad_status user \<noteq> ''active'' then raise ErrAdminUserDisabled
       else if \<not> password_ok hs (li_password input) (ad_hash user) then raise ErrInvalidCredentials
       else ret user))"

definition session_payload :: "host \<Rightarrow> admin_user \<Rightarrow> session_claims" where
  "session_payload hs user =
     \<lparr>sn_type = ''admin_session'', sn_user = ad_id user, sn_version = ad_version user, sn_iat = unix (now_of hs),
      sn_exp = unix (now_of hs + admin_token_ttl), sn_mfa = [], sn_ip = []\<rparr>"

definition issue_admin_login :: "host \<Rightarrow> admin_user \<Rightarrow> admin_login_response site_act" where
  "issue_admin_login hs user =
     andThen (update_admin_last_login (ad_id user) (now_of hs)) (\<lambda>_.
     andThen (quiet (audit hs ''admin'' (ad_id user) [] [] [] ''admin.login'' ''success'' [])) (\<lambda>_.
     ret \<lparr>lr_token = sign_admin_token hs (session_payload hs user), lr_expires = now_of hs + admin_token_ttl,
          lr_user = user\<lparr>ad_last_login := Some (now_of hs), ad_updated := now_of hs\<rparr>\<rparr>))"

definition authenticate_admin_token :: "host \<Rightarrow> string \<Rightarrow> admin_session site_act" where
  "authenticate_admin_token hs token =
     (case verify_admin_token hs (trim_space token) of
        None \<Rightarrow> raise ErrInvalidAdminToken
      | Some payload \<Rightarrow>
          if sn_type payload \<noteq> ''admin_session'' \<or> sn_user payload = [] \<or> sn_exp payload \<le> unix (now_of hs)
          then raise ErrInvalidAdminToken
          else andThen (orMissing (admin_by_id (sn_user payload)) ErrInvalidAdminToken) (\<lambda>user.
            if ad_status user \<noteq> ''active'' then raise ErrAdminUserDisabled
            else if ad_version user \<noteq> sn_version payload \<or> \<not> valid_admin_role (ad_role user)
            then raise ErrInvalidAdminToken
            else ret \<lparr>as_user = ad_id user, as_username = ad_username user, as_name = ad_name user,
                      as_role = ad_role user, as_expires = at_unix (sn_exp payload)\<rparr>))"

definition change_admin_password :: "host \<Rightarrow> string \<Rightarrow> password_change \<Rightarrow> unit site_act" where
  "change_admin_password hs userID input =
     (if userID = [] then raise ErrInvalidRequest
      else andThen (pureA (validate_password_change input)) (\<lambda>_.
      andThen (orMissing (admin_by_id userID) ErrInvalidAdminToken) (\<lambda>user.
      if \<not> password_ok hs (pc_current input) (ad_hash user) then raise (bad_request ''CURRENT_PASSWORD_INCORRECT'')
      else andThen (hash_password hs (pc_new input)) (\<lambda>hash.
        andThen (update_admin_password (ad_id user) hash (now_of hs)) (\<lambda>_.
        quiet (audit hs ''admin'' (ad_id user) [] [] [] ''admin.password.change'' ''success'' []))))))"

definition update_my_email :: "host \<Rightarrow> string \<Rightarrow> string \<Rightarrow> admin_user site_act" where
  "update_my_email hs actorID value =
     (if trim_space actorID = [] then raise ErrPermissionDenied
      else andThen (pureA (normalize_email hs value)) (\<lambda>email.
      andThen (if email = [] then ret ()
               else andThen (admin_id_by_email email) (\<lambda>owner.
                 if owner \<noteq> [] \<and> owner \<noteq> actorID then raise (bad_request ''EMAIL_TAKEN'') else ret ())) (\<lambda>_.
      andThen (update_admin_email actorID email (now_of hs)) (\<lambda>_.
      andThen (quiet (audit hs ''admin'' actorID [] [] [] ''admin.email.update'' ''success'' [])) (\<lambda>_.
      admin_by_id actorID)))))"

definition set_developer_status :: "host \<Rightarrow> string \<Rightarrow> string \<Rightarrow> string \<Rightarrow> unit site_act" where
  "set_developer_status hs userID status who =
     andThen (orElse (admin_by_id userID) ErrInvalidRequest) (\<lambda>user.
     if ad_role user \<noteq> ''developer'' then raise ErrInvalidRequest
     else if status \<noteq> ''active'' \<and> status \<noteq> ''disabled'' then raise ErrInvalidRequest
     else andThen (update_developer_status userID status) (\<lambda>_.
       quiet (audit hs ''admin'' who [] [] [] ''developer.status'' ''success'' [])))"

section \<open>Two-step verification\<close>

definition ErrMFARequired :: app_err where "ErrMFARequired = denied ''MFA_REQUIRED''"
definition ErrMFALoginInvalid :: app_err where "ErrMFALoginInvalid = unauthorized ''MFA_CHALLENGE_INVALID''"
definition ErrMFALoginExpired :: app_err where "ErrMFALoginExpired = unauthorized ''MFA_CHALLENGE_EXPIRED''"
definition ErrMFACodeInvalid :: app_err where "ErrMFACodeInvalid = denied ''MFA_CODE_INVALID''"

text \<open>Big-endian numbers of bytes.\<close>

definition be_bytes :: "nat \<Rightarrow> int \<Rightarrow> string" where
  "be_bytes k n = map (\<lambda>i. char_of (nat (n div 256 ^ (k - 1 - i)) mod 256 :: nat)) [0..<k]"

definition be_value :: "string \<Rightarrow> int" where
  "be_value s = foldl (\<lambda>n c. 256 * n + of_char c) 0 s"

definition totp :: "host \<Rightarrow> string \<Rightarrow> int \<Rightarrow> string" where
  "totp hs secret step =
     (case ho_base32 hs secret of
        None \<Rightarrow> []
      | Some key \<Rightarrow>
          let sum = ho_sha1_mac hs key (be_bytes 8 (step mod 2 ^ 64));
              offset = (of_char (last sum) :: nat) mod 16;
              n = be_value (take 4 (drop offset sum)) mod 2 ^ 31 in
          pad_zeros 6 (itoa (n mod 1000000)))"

text \<open>The first of the three time steps, none before or at the last one used, whose code matches.\<close>

definition matching_step :: "host \<Rightarrow> string \<Rightarrow> int \<Rightarrow> string \<Rightarrow> int option" where
  "matching_step hs secret used code =
     (let step = go_div (unix (now_of hs)) 30 in
      if length code \<noteq> 6 then None
      else List.find (\<lambda>c. used < c \<and> totp hs secret c = code) [step, step - 1, step + 1])"

definition verify_mfa_code :: "host \<Rightarrow> admin_mfa \<Rightarrow> string \<Rightarrow> bool \<Rightarrow> admin_mfa option" where
  "verify_mfa_code hs m code allow_recovery =
     (case ho_open hs (mf_secret m) of
        None \<Rightarrow> None
      | Some secret \<Rightarrow>
          let code' = trim_space code in
          case matching_step hs secret (mf_last_step m) code' of
            Some c \<Rightarrow> Some (m\<lparr>mf_last_step := c\<rparr>)
          | None \<Rightarrow>
              let want = digest hs (to_lower (ho_core hs) code') in
              if allow_recovery \<and> want \<in> set (mf_recovery m)
              then Some (m\<lparr>mf_recovery := remove1 want (mf_recovery m)\<rparr>)
              else None)"

definition mfa_status :: "string \<Rightarrow> (bool \<times> nat) site_act" where
  "mfa_status i =
     andThen (optional (mfa_of i)) (\<lambda>r. case r of
       None \<Rightarrow> ret (False, 0)
     | Some m \<Rightarrow> ret (mf_enabled m, length (mf_recovery m)))"

definition check_admin_password :: "host \<Rightarrow> string \<Rightarrow> string \<Rightarrow> unit site_act" where
  "check_admin_password hs i password =
     andThen (admin_by_id i) (\<lambda>u.
     if \<not> password_ok hs password (ad_hash u) then raise ErrInvalidCredentials else ret ())"

text \<open>The answer holds the secret; the \<open>otpauth\<close> URL is built from it and the user name.\<close>

definition base32_secret :: "string \<Rightarrow> string" where
  "base32_secret raw = map upper_char (base32_lower raw)"

definition begin_admin_mfa :: "host \<Rightarrow> string \<Rightarrow> string \<Rightarrow> (string \<times> string) site_act" where
  "begin_admin_mfa hs i password =
     andThen (check_admin_password hs i password) (\<lambda>_.
     andThen (take_random hs 20) (\<lambda>raw.
     let secret = base32_secret raw in
     andThen (seal hs secret) (\<lambda>enc.
     andThen (with_tx (
       andThen (lock_account ''admin'' i) (\<lambda>_.
       andThen (optional (mfa_of i)) (\<lambda>r.
       if (case r of None \<Rightarrow> False | Some m \<Rightarrow> mf_enabled m) then raise (bad_request ''MFA_ALREADY_ENABLED'')
       else andThen (save_mfa \<lparr>mf_user = i, mf_secret = enc, mf_pending = now_of hs, mf_recovery = [],
                mf_enabled = False, mf_last_step = -1\<rparr> False (now_of hs)) (\<lambda>_.
         transaction_audit hs ''admin'' i [] [] ''admin.mfa.begin'' NullExtra))))) (\<lambda>_.
     andThen (admin_by_id i) (\<lambda>u. ret (secret, ad_username u))))))"

definition recovery_codes :: "host \<Rightarrow> string list site_act" where
  "recovery_codes hs = foldEach [0..<10] [] (\<lambda>_ out.
     andThen (take_random hs 16) (\<lambda>raw. ret (out @ [hex_encode raw])))"

definition confirm_admin_mfa :: "host \<Rightarrow> string \<Rightarrow> string \<Rightarrow> string \<Rightarrow> string list site_act" where
  "confirm_admin_mfa hs i password code =
     andThen (check_admin_password hs i password) (\<lambda>_.
     andThen (recovery_codes hs) (\<lambda>codes.
     andThen (with_tx (
       andThen (lock_account ''admin'' i) (\<lambda>_.
       andThen (orElse (mfa_of i) ErrMFARequired) (\<lambda>m.
       if 10 * minute < now_of hs - mf_pending m \<or> mf_enabled m then raise ErrMFARequired
       else case verify_mfa_code hs m code False of
           None \<Rightarrow> raise ErrMFARequired
         | Some m2 \<Rightarrow>
             andThen (save_mfa (m2\<lparr>mf_enabled := True, mf_recovery := map (digest hs) codes\<rparr>) True (now_of hs)) (\<lambda>_.
             transaction_audit hs ''admin'' i [] [] ''admin.mfa.enable'' NullExtra))))) (\<lambda>_.
     ret codes)))"

definition disable_admin_mfa :: "host \<Rightarrow> string \<Rightarrow> string \<Rightarrow> string \<Rightarrow> unit site_act" where
  "disable_admin_mfa hs i password code =
     andThen (check_admin_password hs i password) (\<lambda>_.
     with_tx (
       andThen (lock_account ''admin'' i) (\<lambda>_.
       andThen (orElse (mfa_of i) ErrMFARequired) (\<lambda>m.
       if \<not> mf_enabled m then raise ErrMFARequired
       else case verify_mfa_code hs m code True of
           None \<Rightarrow> raise ErrMFARequired
         | Some m2 \<Rightarrow>
             andThen (save_mfa (m2\<lparr>mf_enabled := False, mf_secret := [], mf_recovery := []\<rparr>) True (now_of hs)) (\<lambda>_.
             transaction_audit hs ''admin'' i [] [] ''admin.mfa.disable'' NullExtra)))))"

definition verify_admin_mfa :: "host \<Rightarrow> string \<Rightarrow> string \<Rightarrow> unit site_act" where
  "verify_admin_mfa hs i code =
     with_tx (
       andThen (lock_account ''admin'' i) (\<lambda>_.
       andThen (optional (mfa_of i)) (\<lambda>r. case r of
         None \<Rightarrow> ret ()
       | Some m \<Rightarrow>
           if \<not> mf_enabled m then ret ()
           else case verify_mfa_code hs m code True of
               None \<Rightarrow> raise ErrMFARequired
             | Some m2 \<Rightarrow> save_mfa m2 False (now_of hs))))"

definition admin_login :: "host \<Rightarrow> admin_login_input \<Rightarrow> admin_login_response site_act" where
  "admin_login hs input =
     andThen (check_admin_login_credentials hs input) (\<lambda>user.
     andThen (verify_admin_mfa hs (ad_id user) (li_otp input)) (\<lambda>_.
     issue_admin_login hs user))"

section \<open>The login in two steps\<close>

definition admin_login_challenge_ttl :: int where "admin_login_challenge_ttl = 5 * minute"

definition admin_mfa_state :: "host \<Rightarrow> admin_mfa \<Rightarrow> string" where
  "admin_mfa_state hs m = digest hs (ho_mfa_json hs (mf_secret m) (mf_last_step m) (mf_recovery m))"

datatype login_start = LoginDone admin_login_response | LoginChallenge string int

definition challenge_payload :: "host \<Rightarrow> admin_user \<Rightarrow> admin_mfa \<Rightarrow> string \<Rightarrow> session_claims" where
  "challenge_payload hs user m ip =
     \<lparr>sn_type = ''admin_mfa_challenge'', sn_user = ad_id user, sn_version = ad_version user,
      sn_iat = unix (now_of hs), sn_exp = unix (now_of hs + admin_login_challenge_ttl),
      sn_mfa = admin_mfa_state hs m, sn_ip = ip\<rparr>"

definition start_admin_login :: "host \<Rightarrow> admin_login_input \<Rightarrow> string \<Rightarrow> login_start site_act" where
  "start_admin_login hs input ip =
     andThen (check_admin_login_credentials hs input) (\<lambda>user.
     andThen (with_tx (
       andThen (lock_account ''admin'' (ad_id user)) (\<lambda>_.
       andThen (admin_by_id (ad_id user)) (\<lambda>current.
       if ad_status current \<noteq> ''active'' \<or> ad_version current \<noteq> ad_version user then raise ErrInvalidCredentials
       else andThen (optional (mfa_of (ad_id user))) (\<lambda>r. case r of
           None \<Rightarrow> ret None
         | Some m \<Rightarrow> if \<not> mf_enabled m then ret None
                   else ret (Some (sign_admin_token hs (challenge_payload hs user m ip),
                                   at_unix (unix (now_of hs + admin_login_challenge_ttl))))))))) (\<lambda>mfa.
     case mfa of
       Some (token, expires) \<Rightarrow> ret (LoginChallenge token expires)
     | None \<Rightarrow> andThen (issue_admin_login hs user) (\<lambda>login. ret (LoginDone login))))"

definition complete_admin_login :: "host \<Rightarrow> string \<Rightarrow> string \<Rightarrow> string \<Rightarrow> admin_login_response site_act" where
  "complete_admin_login hs challenge code ip =
     (if 4096 < length challenge then raise ErrMFALoginInvalid
      else case verify_admin_token hs (trim_space challenge) of
        None \<Rightarrow> raise ErrMFALoginInvalid
      | Some payload \<Rightarrow>
          if sn_type payload \<noteq> ''admin_mfa_challenge'' \<or> sn_user payload = [] \<or> sn_mfa payload = [] \<or> sn_ip payload \<noteq> ip
          then raise ErrMFALoginInvalid
          else if sn_exp payload \<le> unix (now_of hs) then raise ErrMFALoginExpired
          else andThen (with_tx (
            andThen (lock_account ''admin'' (sn_user payload)) (\<lambda>_.
            andThen (orMissing (admin_by_id (sn_user payload)) ErrMFALoginInvalid) (\<lambda>user.
            if ad_status user \<noteq> ''active'' \<or> ad_version user \<noteq> sn_version payload then raise ErrMFALoginInvalid
            else andThen (orMissing (mfa_of (ad_id user)) ErrMFALoginInvalid) (\<lambda>m.
              if \<not> mf_enabled m \<or> admin_mfa_state hs m \<noteq> sn_mfa payload then raise ErrMFALoginInvalid
              else case verify_mfa_code hs m code True of
                  None \<Rightarrow> raise ErrMFACodeInvalid
                | Some m2 \<Rightarrow> andThen (save_mfa m2 False (now_of hs)) (\<lambda>_. ret user)))))) (issue_admin_login hs))"

end
