(* ===== verification/Mail.thy ===== *)
theory Mail
  imports SignIn
begin

text \<open>
  Mail: the settings and their validation (\<open>email.go\<close>, \<open>mailer/mailer.go\<close>, \<open>store/email.go\<close>), delivery with its
  log, and the outbox that carries notifications (\<open>outbox.go\<close>, \<open>store/outbox.go\<close>): a worker claims a row under
  a lease, tries to deliver it and finishes it as sent, to be retried, or dead. Also the site settings.

  The dialog with the mail server and the text of the mails are parameters of the host.
\<close>

section \<open>Configuration of the mailer\<close>

definition mailer_ready :: "mail_config \<Rightarrow> bool" where
  "mailer_ready c \<longleftrightarrow> trim_space (mk_host c) \<noteq> [] \<and> 0 < mk_port c \<and> trim_space (mk_from c) \<noteq> []"

definition encryptions :: "string list" where "encryptions = [''none'', ''starttls'', ''ssl'']"

definition mailer_validate :: "host \<Rightarrow> mail_config \<Rightarrow> app_err + unit" where
  "mailer_validate hs c =
     (if trim_space (mk_host c) = [] then Inl (GoError ''host'')
      else if mk_port c < 1 \<or> 65535 < mk_port c then Inl (GoError ''port'')
      else if mk_encryption c \<notin> set encryptions then Inl (GoError ''encryption'')
      else if mk_username c = [] \<and> mk_password c \<noteq> [] then Inl (GoError ''username'')
      else if ho_mail hs (trim_space (mk_from c)) \<noteq> Some (trim_space (mk_from c)) then Inl (GoError ''from'')
      else Inr ())"

text \<open>The addresses that can be read, in lower case, each once, in the order given.\<close>

fun recipients_from :: "host \<Rightarrow> string list \<Rightarrow> string list \<Rightarrow> string list" where
  "recipients_from hs out [] = out"
| "recipients_from hs out (raw # rest) =
     (case ho_mail hs (trim_space raw) of
        None \<Rightarrow> recipients_from hs out rest
      | Some a \<Rightarrow> let low = to_lower (ho_core hs) a in
          if low \<in> set out then recipients_from hs out rest else recipients_from hs (out @ [low]) rest)"

definition normalize_recipients :: "host \<Rightarrow> string list \<Rightarrow> app_err + string list" where
  "normalize_recipients hs to =
     (let out = recipients_from hs [] to in if out = [] then Inl (GoError ''recipients'') else Inr out)"

definition mailer_send :: "host \<Rightarrow> mail_config \<Rightarrow> string list \<Rightarrow> string \<Rightarrow> string \<Rightarrow> unit site_act" where
  "mailer_send hs c to subject html =
     andThen (pureA (normalize_recipients hs to)) (\<lambda>recipients.
     (\<lambda>s. (case ho_smtp hs (st_draws s) c recipients subject html of None \<Rightarrow> Inr () | Some e \<Rightarrow> Inl (GoError e),
           s\<lparr>st_draws := Suc (st_draws s)\<rparr>)))"

section \<open>Settings\<close>

definition normalize_site_url :: "string \<Rightarrow> string" where
  "normalize_site_url value =
     (let v = trim_space value in
      if v = [] then []
      else let w = (if \<not> prefix ''http://'' v \<and> \<not> prefix ''https://'' v then ''https://'' @ v else v) in
        rev (dropWhile (\<lambda>c. c = CHR ''/'') (rev w)))"

record email_settings_input =
  ei_enabled :: bool
  ei_host :: string
  ei_port :: int
  ei_username :: string
  ei_password :: string
  ei_from :: string
  ei_name :: string
  ei_encryption :: string
  ei_site_url :: string
  ei_actor :: string

text \<open>\<open>EmailSettingsView\<close>: the settings with a mark in place of the password.\<close>

definition email_settings_view :: "email_settings \<Rightarrow> email_settings \<times> bool" where
  "email_settings_view s = (s\<lparr>es_password := []\<rparr>, es_password s \<noteq> [])"

definition get_email_settings :: "(email_settings \<times> bool) site_act" where
  "get_email_settings = andThen (look y_mail) (\<lambda>s. ret (email_settings_view s))"

definition update_email_settings :: "host \<Rightarrow> email_settings_input \<Rightarrow> (email_settings \<times> bool) site_act" where
  "update_email_settings hs input =
     (let server = trim_space (ei_host input); from = trim_space (ei_from input); name = trim_space (ei_name input);
          given = trim_space (ei_username input);
          encryption = (if ei_encryption input = [] then ''ssl'' else ei_encryption input) in
      if ei_port input < 1 \<or> 65535 < ei_port input then raise ErrInvalidRequest
      else if encryption \<notin> set encryptions then raise ErrInvalidRequest
      else andThen (look y_mail) (\<lambda>current.
        let username = (if given \<noteq> [] then given else if es_username current \<noteq> [] then es_username current
                        else if ei_password input \<noteq> [] then from else []);
            cfg = \<lparr>mk_host = server, mk_port = ei_port input, mk_username = username, mk_password = ei_password input,
                   mk_from = from, mk_name = name, mk_encryption = encryption\<rparr> in
        if ei_enabled input \<and> isl (mailer_validate hs cfg) then raise ErrInvalidRequest
        else if ei_enabled input \<and> ei_password input = [] \<and> username \<noteq> [] \<and> es_password current = []
        then raise ErrInvalidRequest
        else andThen (if ei_password input \<noteq> [] then seal hs (ei_password input) else ret (es_password current)) (\<lambda>enc.
          let settings = \<lparr>es_enabled = ei_enabled input, es_host = server, es_port = ei_port input,
                es_username = username, es_password = enc, es_from = from, es_name = name,
                es_encryption = encryption, es_site_url = normalize_site_url (ei_site_url input),
                es_updated = now_of hs\<rparr> in
          andThen (modify (\<lambda>d. d\<lparr>y_mail := settings\<rparr>)) (\<lambda>_.
          andThen (quiet (audit hs ''admin'' (ei_actor input) [] [] [] ''email_settings.update'' ''success'' [])) (\<lambda>_.
          ret (email_settings_view settings))))))"

definition max_brand_asset :: nat where "max_brand_asset = 700 * 1024"

definition valid_brand_asset :: "string \<Rightarrow> bool" where
  "valid_brand_asset value \<longleftrightarrow>
     value = [] \<or>
     length value \<le> max_brand_asset \<and>
     (\<exists>p \<in> set [''data:image/png;base64,'', ''data:image/jpeg;base64,'', ''data:image/webp;base64,'',
         ''data:image/x-icon;base64,'', ''data:image/vnd.microsoft.icon;base64,'']. prefix p value \<and> length p < length value)"

text \<open>The number of code points of UTF-8 text: the bytes that do not continue one (\<open>len([]rune(s))\<close>).\<close>

definition rune_count :: "string \<Rightarrow> nat" where
  "rune_count s = length (filter (\<lambda>c. \<not> char_in 128 191 c) s)"

definition update_site_settings :: "host \<Rightarrow> site_settings \<Rightarrow> string \<Rightarrow> site_settings site_act" where
  "update_site_settings hs input who =
     (let name = trim_space (ss_name input); title = trim_space (ss_title input) in
      if name = [] \<or> title = [] \<or> 80 < rune_count name \<or> 80 < rune_count title then raise ErrInvalidRequest
      else if \<not> valid_brand_asset (ss_logo input) \<or> \<not> valid_brand_asset (ss_favicon input) then raise ErrInvalidRequest
      else let settings = input\<lparr>ss_name := name, ss_title := title, ss_updated := now_of hs\<rparr> in
        andThen (modify (\<lambda>d. d\<lparr>y_site := settings\<rparr>)) (\<lambda>_.
        andThen (quiet (audit hs ''admin'' who [] [] [] ''site_settings.update'' ''success'' [])) (\<lambda>_.
        ret settings)))"

section \<open>Delivery\<close>

record email_runtime =
  er_config :: mail_config
  er_settings :: email_settings

definition email_runtime_of :: "host \<Rightarrow> email_runtime site_act" where
  "email_runtime_of hs =
     andThen (look y_mail) (\<lambda>s.
     let cfg = \<lparr>mk_host = es_host s, mk_port = es_port s, mk_username = es_username s, mk_password = [],
                mk_from = es_from s, mk_name = es_name s, mk_encryption = es_encryption s\<rparr> in
     if es_password s = [] then ret \<lparr>er_config = cfg, er_settings = s\<rparr>
     else case ho_open hs (es_password s) of
         None \<Rightarrow> raise (GoError ''decrypt'')
       | Some password \<Rightarrow> ret \<lparr>er_config = cfg\<lparr>mk_password := password\<rparr>, er_settings = s\<rparr>)"

definition usable :: "email_runtime \<Rightarrow> bool" where
  "usable r \<longleftrightarrow> es_enabled (er_settings r) \<and> mailer_ready (er_config r)"

text \<open>\<open>recordEmailLog\<close>; the texts are cut off at the widths of the columns, after whole characters.\<close>

fun take_runes :: "nat \<Rightarrow> string \<Rightarrow> string" where
  "take_runes n [] = []"
| "take_runes n (c # cs) =
     (if char_in 128 191 c then c # take_runes n cs
      else if n = 0 then [] else c # take_runes (n - 1) cs)"

definition ellipsis :: string where "ellipsis = [CHR 0xE2, CHR 0x80, CHR 0xA6]"

definition truncate_runes :: "string \<Rightarrow> nat \<Rightarrow> string" where
  "truncate_runes value n = (if rune_count value \<le> n then value else take_runes n value @ ellipsis)"

definition record_email_log ::
  "host \<Rightarrow> string list \<Rightarrow> string \<Rightarrow> string \<Rightarrow> string \<Rightarrow> app_err option \<Rightarrow> unit site_act" where
  "record_email_log hs to subject kind agentID outcome =
     andThen (fresh_id hs ''mail'') (\<lambda>i.
     quiet (put (\<lambda>d. \<forall>e \<in> set (y_mail_log d). el_id e \<noteq> i)
       (\<lambda>d. d\<lparr>y_mail_log := y_mail_log d @ [\<lparr>el_id = i, el_to = truncate_runes (join_with '', '' to) 250,
          el_subject = truncate_runes subject 250, el_kind = kind, el_agent = agentID,
          el_status = (if outcome = None then ''sent'' else ''failed''),
          el_error = (case outcome of Some (GoError e) \<Rightarrow> truncate_runes e 450 | _ \<Rightarrow> []), el_created = now_of hs\<rparr>]\<rparr>)))"

definition deliver_email ::
  "host \<Rightarrow> email_runtime \<Rightarrow> string list \<Rightarrow> string \<Rightarrow> string \<Rightarrow> string \<Rightarrow> string \<Rightarrow> unit site_act" where
  "deliver_email hs r to subject kind agentID html =
     andThen (attempt (mailer_send hs (er_config r) to subject html)) (\<lambda>outcome.
     andThen (record_email_log hs to subject kind agentID
       (case outcome of Inl e \<Rightarrow> Some e | Inr _ \<Rightarrow> None)) (\<lambda>_.
     pureA outcome))"

text \<open>\<open>baseData\<close> with what a letter says.\<close>

definition send_verification_email ::
  "host \<Rightarrow> email_runtime \<Rightarrow> string list \<Rightarrow> string \<Rightarrow> string \<Rightarrow> (string \<times> string) list \<Rightarrow> unit site_act" where
  "send_verification_email hs r to kind agentID details =
     andThen (look y_site) (\<lambda>site.
     case ho_letter hs ''verify_code'' ((''site'', ss_name site) # (''url'', es_site_url (er_settings r)) # details) of
       None \<Rightarrow> raise (GoError ''render'')
     | Some (subject, html) \<Rightarrow> deliver_email hs r to subject kind agentID html)"

definition send_test_email :: "host \<Rightarrow> string \<Rightarrow> string \<Rightarrow> unit site_act" where
  "send_test_email hs actorID to =
     andThen (email_runtime_of hs) (\<lambda>r.
     if \<not> usable r then raise (bad_request ''EMAIL_NOT_ENABLED'')
     else if isl (mailer_validate hs (er_config r)) then raise (bad_request ''EMAIL_NOT_CONFIGURED'')
     else andThen (look y_site) (\<lambda>site.
       case ho_letter hs ''test'' [(''site'', ss_name site), (''url'', es_site_url (er_settings r))] of
         None \<Rightarrow> raise (GoError ''render'')
       | Some (subject, html) \<Rightarrow>
           andThen (orElse (deliver_email hs r [trim_space to] subject ''test'' [] html) (bad_request ''EMAIL_SEND_FAILED'')) (\<lambda>_.
           quiet (audit hs ''admin'' actorID [] [] [] ''email.test'' ''success'' (trim_space to)))))"

text \<open>\<open>AgentEmailRecipients\<close>: the address of the agent and of its active members, in lower case, each once.\<close>

fun add_addresses :: "host \<Rightarrow> string list \<Rightarrow> string list \<Rightarrow> string list" where
  "add_addresses hs out [] = out"
| "add_addresses hs out (v # vs) =
     (let low = to_lower (ho_core hs) (trim_space v) in
      if low = [] \<or> low \<in> set out then add_addresses hs out vs else add_addresses hs (out @ [low]) vs)"

definition agent_email_recipients :: "host \<Rightarrow> string \<Rightarrow> string list site_act" where
  "agent_email_recipients hs i =
     look (\<lambda>d. add_addresses hs []
       ((case row_of an_id i (y_agents d) of None \<Rightarrow> [] | Some a \<Rightarrow> an_email a) #
        map mb_email (filter (\<lambda>m. mb_agent m = i \<and> mb_status m = ''active'') (y_members d))))"

definition admin_email_recipients :: "string list site_act" where
  "admin_email_recipients =
     look (\<lambda>d. map ad_email (filter (\<lambda>u. ad_status u = ''active'' \<and> ad_email u \<noteq> []) (y_admins d)))"

definition send_agent_email :: "host \<Rightarrow> string \<Rightarrow> string \<Rightarrow> string \<Rightarrow> string \<Rightarrow> nat site_act" where
  "send_agent_email hs agentID subject0 body0 actorID =
     (let i = trim_space agentID; subject = trim_space subject0; body = trim_space body0 in
      if i = [] \<or> subject = [] \<or> body = [] \<or> 200 < rune_count subject \<or> 5000 < rune_count body then raise ErrInvalidRequest
      else andThen (orMissing (agent_by_id i) ErrAgentNotFound) (\<lambda>a.
      andThen (agent_email_recipients hs i) (\<lambda>to.
      if to = [] then raise (bad_request ''AGENT_EMAIL_MISSING'')
      else andThen (email_runtime_of hs) (\<lambda>r.
        if \<not> usable r then raise (bad_request ''EMAIL_NOT_ENABLED'')
        else if isl (mailer_validate hs (er_config r)) then raise (bad_request ''EMAIL_NOT_CONFIGURED'')
        else andThen (look y_site) (\<lambda>site.
          case ho_letter hs ''manual'' [(''site'', ss_name site), (''title'', subject), (''agent'', an_name a), (''body'', body)] of
            None \<Rightarrow> raise (GoError ''render'')
          | Some (_, html) \<Rightarrow>
              andThen (orElse (deliver_email hs r to subject ''manual'' i html) (bad_request ''EMAIL_SEND_FAILED'')) (\<lambda>_.
              andThen (quiet (audit hs ''admin'' actorID [] [] [] ''email.send'' ''success'' (an_name a))) (\<lambda>_.
              ret (length to))))))))"

section \<open>The outbox\<close>

definition enqueue_notice :: "notice \<Rightarrow> bool site_act" where
  "enqueue_notice n =
     andThen (look (\<lambda>d. \<forall>v \<in> set (y_outbox d). no_id v \<noteq> no_id n \<and> no_dedup v \<noteq> no_dedup n)) (\<lambda>new.
     andThen (if new then modify (\<lambda>d. d\<lparr>y_outbox := y_outbox d @ [n]\<rparr>) else ret ()) (\<lambda>_.
     ret new))"

definition queue_email ::
  "host \<Rightarrow> string list \<Rightarrow> string \<Rightarrow> string \<Rightarrow> string \<Rightarrow> string \<Rightarrow> string \<Rightarrow> bool site_act" where
  "queue_email hs to subject kind agentID html dedup =
     andThen (seal hs (ho_mail_json hs \<lparr>mp_to = to, mp_subject = subject, mp_agent = agentID, mp_html = html\<rparr>)) (\<lambda>enc.
     andThen (fresh_id hs ''notice'') (\<lambda>i.
     enqueue_notice \<lparr>no_id = i, no_dedup = (if dedup = [] then i else digest hs dedup), no_payload = enc, no_kind = kind,
       no_status = ''pending'', no_attempts = 0, no_available = now_of hs, no_lease = None, no_error = [],
       no_created = now_of hs, no_completed = None\<rparr>))"

text \<open>A row that a worker may take: waiting and due, or taken by a worker whose lease has run out.
  (A row that is not being sent has an empty lease text, which is before every instant.)\<close>

definition claimable :: "int \<Rightarrow> notice \<Rightarrow> bool" where
  "claimable now n \<longleftrightarrow>
     no_status n \<in> {''pending'', ''retry''} \<and> \<not> text_less now (no_available n) \<or>
     no_status n = ''sending'' \<and> (case no_lease n of None \<Rightarrow> True | Some t \<Rightarrow> \<not> text_less now t)"

definition notice_lease :: int where "notice_lease = 2 * minute"

definition claim_notice :: "int \<Rightarrow> notice site_act" where
  "claim_notice now =
     with_tx (
       andThen (fetch (\<lambda>d. case sort_key (\<lambda>n. (text_key (no_available n), no_id n)) (filter (claimable now) (y_outbox d)) of
          [] \<Rightarrow> None | n # _ \<Rightarrow> Some n)) (\<lambda>n.
       let m = n\<lparr>no_status := ''sending'', no_attempts := no_attempts n + 1, no_lease := Some (now + notice_lease)\<rparr> in
       andThen (modify (\<lambda>d. d\<lparr>y_outbox := alter no_id (no_id n) (\<lambda>_. m) (y_outbox d)\<rparr>)) (\<lambda>_.
       ret m)))"

text \<open>Only the worker whose attempt is the last one may finish a row.\<close>

definition finish_notice :: "notice \<Rightarrow> string \<Rightarrow> string \<Rightarrow> int \<Rightarrow> int \<Rightarrow> unit site_act" where
  "finish_notice n status code available now =
     modify (\<lambda>d. d\<lparr>y_outbox := map (\<lambda>v.
       if no_id v = no_id n \<and> no_status v = ''sending'' \<and> no_attempts v = no_attempts n
       then v\<lparr>no_status := status, no_error := code, no_available := available, no_lease := None,
              no_completed := (if status \<in> {''sent'', ''dead''} then Some now else None),
              no_payload := (if status = ''sent'' then [] else no_payload v)\<rparr>
       else v) (y_outbox d)\<rparr>)"

definition try_notice :: "host \<Rightarrow> notice \<Rightarrow> (string \<times> bool) site_act" where
  "try_notice hs n =
     (case Option.bind (ho_open hs (no_payload n)) (ho_mail_parse hs) of
        None \<Rightarrow> ret (''INVALID_PAYLOAD'', False)
      | Some p \<Rightarrow>
          andThen (attempt (email_runtime_of hs)) (\<lambda>r. case r of
            Inl _ \<Rightarrow> ret (''SMTP_UNAVAILABLE'', False)
          | Inr runtime \<Rightarrow>
              if \<not> usable runtime then ret (''SMTP_UNAVAILABLE'', False)
              else andThen (attempt (deliver_email hs runtime (mp_to p) (mp_subject p) (no_kind n) (mp_agent p) (mp_html p)))
                (\<lambda>out. ret (''SMTP_DELIVERY_FAILED'', \<not> isl out))))"

definition retry_delay :: "int \<Rightarrow> int" where
  "retry_delay attempts = minute * 2 ^ nat (min (attempts - 1) 10)"

definition outbox_step :: "host \<Rightarrow> notice \<Rightarrow> bool site_act" where
  "outbox_step hs n =
     andThen (try_notice hs n) (\<lambda>(code, ok).
     if ok then andThen (finish_notice n ''sent'' [] (now_of hs) (now_of hs)) (\<lambda>_. ret True)
     else andThen (finish_notice n
            (if 12 \<le> no_attempts n \<or> code = ''INVALID_PAYLOAD'' then ''dead'' else ''retry'')
            code (now_of hs + retry_delay (no_attempts n)) (now_of hs)) (\<lambda>_. ret False))"

fun run_outbox :: "host \<Rightarrow> nat \<Rightarrow> nat \<Rightarrow> nat site_act" where
  "run_outbox hs 0 sent = ret sent"
| "run_outbox hs (Suc k) sent =
     andThen (optional (claim_notice (now_of hs))) (\<lambda>r. case r of
       None \<Rightarrow> ret sent
     | Some n \<Rightarrow> andThen (outbox_step hs n) (\<lambda>ok. run_outbox hs k (if ok then Suc sent else sent)))"

definition notification_status :: "(string \<times> nat) list site_act" where
  "notification_status = look (\<lambda>d. map (\<lambda>k. (k, length (filter (\<lambda>n. no_status n = k) (y_outbox d))))
     [''pending'', ''retry'', ''sending'', ''sent'', ''dead''])"

definition retry_dead_notifications :: "host \<Rightarrow> string \<Rightarrow> unit site_act" where
  "retry_dead_notifications hs who =
     andThen (modify (\<lambda>d. d\<lparr>y_outbox := map (\<lambda>n. if no_status n = ''dead''
        then n\<lparr>no_status := ''retry'', no_attempts := 0, no_error := [], no_available := now_of hs, no_completed := None\<rparr>
        else n) (y_outbox d)\<rparr>)) (\<lambda>_.
     audit hs ''admin'' who [] [] [] ''notification.retry'' ''success'' [])"

text \<open>\<open>notifyAgentEmail\<close>: nothing that goes wrong here reaches the caller.\<close>

definition notify_agent_email :: "host \<Rightarrow> string \<Rightarrow> string \<Rightarrow> (string \<times> string) list \<Rightarrow> string \<Rightarrow> unit site_act" where
  "notify_agent_email hs kind agentID details dedup =
     quiet (
       andThen (email_runtime_of hs) (\<lambda>r.
       if \<not> usable r then ret ()
       else andThen (agent_email_recipients hs agentID) (\<lambda>to.
         if to = [] then ret ()
         else andThen (look y_site) (\<lambda>site.
           case ho_letter hs kind ((''site'', ss_name site) # details) of
             None \<Rightarrow> ret ()
           | Some (subject, html) \<Rightarrow>
               andThen (queue_email hs to subject kind agentID html
                 (if dedup = [] then [] else kind @ ''|'' @ agentID @ ''|'' @ dedup)) (\<lambda>_. ret ())))))"

end
