(* ===== verification/Recovery.thy ===== *)
theory Recovery
  imports Mail
begin

text \<open>
  Password recovery (\<open>recovery.go\<close>): codes that an administrator hands over or has mailed, codes that the
  holder of an account asks for, and their redemption. A long code is looked up by its digest, a code of six
  digits by the account as well; the digest of the latter covers the account.
\<close>

definition ErrRecoveryInvalid :: app_err where "ErrRecoveryInvalid = unauthorized ''RECOVERY_INVALID''"

definition can_recover :: "string \<Rightarrow> string \<Rightarrow> string \<Rightarrow> bool" where
  "can_recover role kind target \<longleftrightarrow>
     role = ''super_admin'' \<or> role = ''admin'' \<and> (kind \<noteq> ''admin'' \<or> target = ''developer'')"

definition scope_digest :: "host \<Rightarrow> string \<Rightarrow> string \<Rightarrow> string \<Rightarrow> string" where
  "scope_digest hs kind i code = digest hs (kind @ nul @ i @ nul @ code)"

text \<open>The accounts an administrator may recover, with the address that would be used.\<close>

definition clean_email :: "host \<Rightarrow> string \<Rightarrow> string" where
  "clean_email hs e = to_lower (ho_core hs) (trim_space e)"

definition recovery_accounts :: "host \<Rightarrow> string \<Rightarrow> string \<Rightarrow> string \<Rightarrow> recovery_account list site_act" where
  "recovery_accounts hs kind agentID role =
     (if kind = ''customer'' then
        andThen list_customers (\<lambda>rows. ret (map (\<lambda>r. \<lparr>ra_id = cu_id r, ra_username = cu_username r, ra_name = cu_name r,
          ra_email = clean_email hs (cu_email r), ra_role = ''customer'', ra_status = cu_status r, ra_hash = []\<rparr>) rows))
      else if kind = ''agent'' then
        (if trim_space agentID = [] then raise ErrInvalidRequest
         else andThen (list_members agentID) (\<lambda>rows.
         andThen (look (\<lambda>d. map (\<lambda>r. case identity_customer d (mb_id r) of
             None \<Rightarrow> clean_email hs (mb_email r) | Some c \<Rightarrow> cu_email c) rows)) (\<lambda>emails.
         ret (map (\<lambda>(r, e). \<lparr>ra_id = mb_id r, ra_username = mb_username r, ra_name = mb_name r,
           ra_email = e, ra_role = mb_role r, ra_status = mb_status r, ra_hash = []\<rparr>) (zip rows emails)))))
      else if kind = ''admin'' then
        andThen list_admins (\<lambda>rows. ret (map (\<lambda>r. \<lparr>ra_id = ad_id r, ra_username = ad_username r, ra_name = ad_name r,
          ra_email = clean_email hs (ad_email r), ra_role = ad_role r, ra_status = ad_status r, ra_hash = []\<rparr>)
          (filter (\<lambda>r. can_recover role kind (ad_role r)) rows)))
      else raise ErrInvalidRequest)"

record recovery_input =
  ri_reason :: string
  ri_minutes :: int

definition validate_recovery_input :: "recovery_input \<Rightarrow> app_err + recovery_input" where
  "validate_recovery_input in0 =
     (let input = (if ri_minutes in0 = 0 then in0\<lparr>ri_minutes := 30\<rparr> else in0) in
      if ri_minutes input < 5 \<or> 1440 < ri_minutes input \<or> trim_space (ri_reason input) = [] \<or> 500 < length (ri_reason input)
      then Inl ErrInvalidRequest else Inr input)"

definition issue_password_reset ::
  "host \<Rightarrow> string \<Rightarrow> string \<Rightarrow> string \<Rightarrow> string \<Rightarrow> recovery_input \<Rightarrow> string \<Rightarrow> bool \<Rightarrow> int site_act" where
  "issue_password_reset hs kind i who role input token by_admin =
     (let expires = now_of hs + duration (ri_minutes input) minute in
      with_tx (
        andThen (orElse (lock_account kind i) ErrInvalidRequest) (\<lambda>_.
        andThen (orElse (recovery_account_of kind i) (missing ''ACCOUNT_NOT_FOUND'')) (\<lambda>a.
        if by_admin \<and> \<not> can_recover role kind (ra_role a) then raise ErrPermissionDenied
        else if ra_status a \<noteq> ''active'' then raise (denied ''ACCOUNT_DISABLED'')
        else andThen (fresh_id hs ''reset'') (\<lambda>rid.
          andThen (insert_reset \<lparr>rs_id = rid, rs_token = token, rs_kind = kind, rs_user = i,
             rs_credential = digest hs (ra_hash a), rs_by = who, rs_reason = ri_reason input, rs_expires = expires,
             rs_created = now_of hs, rs_consumed = None\<rparr>) (\<lambda>_.
          andThen (transaction_audit hs ''admin'' who [] [] ''account.recovery.issue''
             (Fields [(''account_kind'', kind), (''user_id'', i), (''reset_id'', rid), (''reason'', ri_reason input)])) (\<lambda>_.
          ret expires)))))))"

definition create_recovery ::
  "host \<Rightarrow> string \<Rightarrow> string \<Rightarrow> string \<Rightarrow> string \<Rightarrow> recovery_input \<Rightarrow> (string \<times> int) site_act" where
  "create_recovery hs kind i who role input =
     andThen (pureA (validate_recovery_input input)) (\<lambda>input'.
     andThen (take_random hs 32) (\<lambda>raw.
     let code = ''reset_'' @ b64_encode raw in
     andThen (issue_password_reset hs kind i who role input' (digest hs code) True) (\<lambda>expires.
     ret (code, expires))))"

definition six_digit_code :: "host \<Rightarrow> string site_act" where
  "six_digit_code hs = andThen (take_below hs 1000000) (\<lambda>n. ret (pad_zeros 6 (itoa (int n))))"

definition recovery_letter :: "string \<Rightarrow> string \<Rightarrow> int \<Rightarrow> (string \<times> string) list" where
  "recovery_letter username code minutes =
     [(''username'', username), (''code'', code), (''valid_minutes'', itoa minutes)]"

definition create_recovery_by_email ::
  "host \<Rightarrow> string \<Rightarrow> string \<Rightarrow> string \<Rightarrow> string \<Rightarrow> recovery_input \<Rightarrow> (string \<times> int) site_act" where
  "create_recovery_by_email hs kind i who role input =
     andThen (pureA (validate_recovery_input input)) (\<lambda>input'.
     andThen (orElse (recovery_account_of kind i) (missing ''ACCOUNT_NOT_FOUND'')) (\<lambda>account.
     let email = clean_email hs (ra_email account) in
     if email = [] then raise (bad_request ''ACCOUNT_EMAIL_MISSING'')
     else andThen (email_runtime_of hs) (\<lambda>r.
       if \<not> usable r \<or> isl (mailer_validate hs (er_config r)) then raise (bad_request ''EMAIL_NOT_ENABLED'')
       else andThen (six_digit_code hs) (\<lambda>code.
         andThen (issue_password_reset hs kind i who role input' (scope_digest hs kind i code) True) (\<lambda>expires.
         andThen (orElse (send_verification_email hs r [email] ''recovery_code'' []
            (recovery_letter (ra_username account) code (go_div (expires - now_of hs) minute + 1)))
            (bad_request ''EMAIL_SEND_FAILED'')) (\<lambda>_.
         andThen (quiet (audit hs ''admin'' who [] [] [] ''account.recovery.email'' ''success'' [])) (\<lambda>_.
         ret (email, expires))))))))"

text \<open>The first active account of the name that has an address.\<close>

fun reachable_account :: "host \<Rightarrow> account_ref list \<Rightarrow> (string \<times> string \<times> string) option site_act" where
  "reachable_account hs [] = ret None"
| "reachable_account hs (ref # refs) =
     (if rf_status ref \<noteq> ''active'' then reachable_account hs refs
      else andThen (attempt (recovery_account_of (rf_kind ref) (rf_id ref))) (\<lambda>r. case r of
        Inl _ \<Rightarrow> reachable_account hs refs
      | Inr a \<Rightarrow> if clean_email hs (ra_email a) \<noteq> [] then ret (Some (rf_kind ref, rf_id ref, clean_email hs (ra_email a)))
                 else reachable_account hs refs))"

text \<open>\<open>RequestRecoveryEmail\<close>: whatever happens, the caller sees the same answer. (The reason that is recorded is
  a Chinese sentence in the code.)\<close>

definition request_recovery_email :: "host \<Rightarrow> string \<Rightarrow> unit site_act" where
  "request_recovery_email hs name =
     (let username = trim_space name in
      if username = [] \<or> 80 < length username then raise ErrInvalidRequest
      else andThen (account_refs username) (\<lambda>refs.
      andThen (reachable_account hs refs) (\<lambda>target. case target of
        None \<Rightarrow> ret ()
      | Some (kind, i, email) \<Rightarrow>
          andThen (last_reset_created kind i) (\<lambda>last_at.
          if (case last_at of None \<Rightarrow> False | Some t \<Rightarrow> now_of hs - t < minute) then ret ()
          else quiet (
            andThen (email_runtime_of hs) (\<lambda>r.
            if \<not> usable r then ret ()
            else andThen (six_digit_code hs) (\<lambda>code.
              andThen (issue_password_reset hs kind i i [] \<lparr>ri_reason = ''self service'', ri_minutes = 30\<rparr>
                 (scope_digest hs kind i code) False) (\<lambda>_.
              andThen (send_verification_email hs r [email] ''recovery_code'' [] (recovery_letter username code 30)) (\<lambda>_.
              audit hs kind i [] [] [] ''account.recovery.request'' ''success'' [])))))))))"

fun locate_account_reset ::
  "host \<Rightarrow> string \<Rightarrow> account_ref list \<Rightarrow> (password_reset \<times> account_ref) option site_act" where
  "locate_account_reset hs code [] = ret None"
| "locate_account_reset hs code (ref # refs) =
     andThen (optional (reset_by_account (rf_kind ref) (rf_id ref) (scope_digest hs (rf_kind ref) (rf_id ref) code))) (\<lambda>r.
     case r of Some x \<Rightarrow> ret (Some (x, ref)) | None \<Rightarrow> locate_account_reset hs code refs)"

definition find_reset ::
  "host \<Rightarrow> string \<Rightarrow> string \<Rightarrow> (password_reset \<times> account_ref option) site_act" where
  "find_reset hs code username =
     andThen (optional (reset_by_token (digest hs code))) (\<lambda>r. case r of
       Some x \<Rightarrow> ret (x, None)
     | None \<Rightarrow>
         if trim_space username = [] then raise ErrRecoveryInvalid
         else andThen (account_refs (trim_space username)) (\<lambda>refs.
           andThen (locate_account_reset hs code refs) (\<lambda>l. case l of
             None \<Rightarrow> raise ErrRecoveryInvalid | Some (x, ref) \<Rightarrow> ret (x, Some ref))))"

definition redeem_recovery :: "host \<Rightarrow> string \<Rightarrow> string \<Rightarrow> string \<Rightarrow> unit site_act" where
  "redeem_recovery hs code0 password username =
     (if 100 < length code0 \<or> length password < 8 \<or> 256 < length password then raise ErrRecoveryInvalid
      else let code = trim_space code0 in
      andThen (orElse (find_reset hs code username) ErrRecoveryInvalid) (\<lambda>(r, found).
      andThen (hash_password hs password) (\<lambda>hash.
      with_tx (
        andThen (lock_account (rs_kind r) (rs_user r)) (\<lambda>_.
        andThen (orElse (case found of
            Some ref \<Rightarrow> reset_by_account (rf_kind ref) (rf_id ref) (scope_digest hs (rf_kind ref) (rf_id ref) code)
          | None \<Rightarrow> reset_by_token (digest hs code)) ErrRecoveryInvalid) (\<lambda>fresh.
        if rs_consumed fresh \<noteq> None \<or> \<not> now_of hs < rs_expires fresh then raise ErrRecoveryInvalid
        else andThen (orElse (recovery_account_of (rs_kind r) (rs_user r)) ErrRecoveryInvalid) (\<lambda>a.
          if ra_status a \<noteq> ''active'' \<or> digest hs (ra_hash a) \<noteq> rs_credential fresh then raise ErrRecoveryInvalid
          else andThen (store_account_password (rs_kind r) (rs_user r) hash (now_of hs)) (\<lambda>_.
            andThen (consume_reset (rs_id r) (now_of hs)) (\<lambda>_.
            transaction_audit hs (rs_kind r) (rs_user r) [] [] ''account.recovery.redeem'' (Fields [(''reset_id'', rs_id r)]))))))))))"

definition reset_account_password ::
  "host \<Rightarrow> string \<Rightarrow> string \<Rightarrow> string \<Rightarrow> string \<Rightarrow> string \<Rightarrow> string \<Rightarrow> unit site_act" where
  "reset_account_password hs kind i password reason who role =
     (if length password < 8 \<or> 256 < length password \<or> trim_space reason = [] \<or> 500 < length reason
      then raise ErrInvalidRequest
      else andThen (hash_password hs password) (\<lambda>hash.
      with_tx (
        andThen (orElse (lock_account kind i) ErrInvalidRequest) (\<lambda>_.
        andThen (orElse (recovery_account_of kind i) (missing ''ACCOUNT_NOT_FOUND'')) (\<lambda>a.
        if \<not> can_recover role kind (ra_role a) then raise ErrPermissionDenied
        else andThen (store_account_password kind i hash (now_of hs)) (\<lambda>_.
          transaction_audit hs ''admin'' who [] [] ''account.password.reset''
            (Fields [(''account_kind'', kind), (''user_id'', i), (''reason'', reason)])))))))"

end
