(* ===== verification/Cards.thy ===== *)
theory Cards
  imports Directory
begin

text \<open>
  Card codes, their keyed hashes and the hashes of bindings (\<open>crypto/cards.go\<close>), and the random identifiers and
  secrets of \<open>crypto/ids.go\<close>. A code is the product's prefix, twelve random characters and two characters of
  checksum over both, in groups of four. What a code is checked against is its normal form: upper case,
  without hyphens and spaces.
\<close>

definition card_alphabet :: string where "card_alphabet = ''ABCDEFGHJKLMNPQRSTUVWXYZ23456789''"

definition card_letter :: "char \<Rightarrow> char" where
  "card_letter b = card_alphabet ! (of_char b mod length card_alphabet)"

definition random_alphabet :: "host \<Rightarrow> nat \<Rightarrow> string site_act" where
  "random_alphabet hs n = andThen (take_random hs n) (\<lambda>raw. ret (map card_letter raw))"

definition normalize_card_code :: "svc \<Rightarrow> string \<Rightarrow> string" where
  "normalize_card_code sv code = filter (\<lambda>c. c \<noteq> CHR ''-'' \<and> c \<noteq> CHR '' '') (to_upper sv (trim_space code))"

fun fours :: "string \<Rightarrow> string list" where
  "fours [] = []"
| "fours (a # b # c # d # s) = [a, b, c, d] # fours s"
| "fours s = [s]"

definition format_card_code :: "svc \<Rightarrow> string \<Rightarrow> string \<Rightarrow> string" where
  "format_card_code sv product normalized = join_with ''-'' (to_upper sv product # fours normalized)"

definition checksum :: "svc \<Rightarrow> string \<Rightarrow> string" where
  "checksum sv input =
     (let sum = s_sha256 sv (to_upper sv input) in [card_letter (sum ! 0), card_letter (sum ! 1)])"

definition generate_card_code :: "host \<Rightarrow> string \<Rightarrow> string site_act" where
  "generate_card_code hs product =
     andThen (random_alphabet hs 12) (\<lambda>body.
     ret (format_card_code (ho_core hs) product (body @ checksum (ho_core hs) (product @ body))))"

definition validate_checksum :: "svc \<Rightarrow> string \<Rightarrow> string \<Rightarrow> bool" where
  "validate_checksum sv product code =
     (let pre = to_upper sv product; n = trim_prefix (normalize_card_code sv code) pre in
      3 \<le> length n \<and> checksum sv (pre @ take (length n - 2) n) = drop (length n - 2) n)"

section \<open>Hashes\<close>

definition code_hash :: "host \<Rightarrow> string \<Rightarrow> string" where
  "code_hash hs code = hex_encode (s_hmac_with (ho_core hs) (ho_pepper hs) (normalize_card_code (ho_core hs) code))"

definition binding_hash_value :: "svc \<Rightarrow> string \<Rightarrow> string \<Rightarrow> string" where
  "binding_hash_value sv mode value =
     (let v = trim_space value in
      if to_lower sv (trim_space mode) \<in> {''tenant'', ''instance'', ''cluster'', ''composite''} then v else to_lower sv v)"

definition bind_hash :: "host \<Rightarrow> string \<Rightarrow> string \<Rightarrow> string" where
  "bind_hash hs mode value =
     hex_encode (s_hmac_with (ho_core hs) (ho_pepper hs)
       (to_lower (ho_core hs) (trim_space mode) @ nul @ binding_hash_value (ho_core hs) mode value))"

definition bind_digest :: "svc \<Rightarrow> string \<Rightarrow> string \<Rightarrow> string" where
  "bind_digest sv mode value = sha_hex sv (to_lower sv (trim_space mode) @ nul @ binding_hash_value sv mode value)"

section \<open>Identifiers and secrets\<close>

definition hex_random :: "host \<Rightarrow> nat \<Rightarrow> string site_act" where
  "hex_random hs n = andThen (take_random hs n) (\<lambda>raw. ret (hex_encode raw))"

definition new_application_id :: "host \<Rightarrow> string site_act" where
  "new_application_id hs = andThen (hex_random hs 8) (\<lambda>v. ret (''yn'' @ v))"

definition new_application_secret :: "host \<Rightarrow> string site_act" where
  "new_application_secret hs = hex_random hs 16"

section \<open>Codes that are accepted\<close>

lemma set_card_alphabet: "card_letter b \<in> set card_alphabet"
proof -
  have "of_char b mod length card_alphabet < length card_alphabet"
    by (rule mod_less_divisor) (simp add: card_alphabet_def)
  then show ?thesis unfolding card_letter_def by (rule nth_mem)
qed

text \<open>Capital letters and digits: what card codes are made of.\<close>

definition plain_char :: "char \<Rightarrow> bool" where
  "plain_char c \<longleftrightarrow> is_upper c \<or> is_digit c"

lemma card_alphabet_plain: "list_all plain_char card_alphabet"
  by code_simp

lemma card_letter_plain [simp]: "plain_char (card_letter b)"
  using card_alphabet_plain set_card_alphabet [of b] by (auto simp: list_all_iff)

lemma plain_char_facts:
  assumes "plain_char c"
  shows "upper_char c = c" "(of_char c :: nat) < 128" "c \<noteq> CHR ''-''" "c \<noteq> CHR '' ''"
  using assms by (auto simp: plain_char_def char_in_def upper_char_def Let_def)

lemma plain_upper: "list_all plain_char s \<Longrightarrow> to_upper sv s = s"
  by (auto simp: to_upper_def is_ascii_def list_all_iff plain_char_facts intro: map_idI)

lemma concat_fours: "concat (fours s) = s"
  by (induction s rule: fours.induct) auto

lemma fours_nonempty: "s \<noteq> [] \<Longrightarrow> fours s \<noteq> [] \<and> [] \<notin> set (fours s)"
  by (induction s rule: fours.induct) (auto split: list.splits, (metis fours.simps(1) list.set_cases empty_iff list.set(1))+)

lemma filter_join:
  "filter (\<lambda>c. c \<noteq> CHR ''-'' \<and> c \<noteq> CHR '' '') (join_with ''-'' ws) = filter (\<lambda>c. c \<noteq> CHR ''-'' \<and> c \<noteq> CHR '' '') (concat ws)"
  by (induction "''-''" ws rule: join_with.induct) auto

end
