(* ===== verification/Members.thy ===== *)
theory Members
  imports Mail Cards
begin

text \<open>
  Customers and the members of agents' teams: registration, login and sessions (\<open>customers.go\<close>,
  \<open>agent_auth.go\<close>, \<open>agent_identity.go\<close>), agents (\<open>service.go\<close>, \<open>operations.go\<close>). A member signs in as the
  customer it is bound to; the older agent tokens are still verified.
\<close>

section \<open>Customers\<close>

definition ErrCustomerToken :: app_err where "ErrCustomerToken = unauthorized ''INVALID_USER_TOKEN''"
definition ErrCustomerDisabled :: app_err where "ErrCustomerDisabled = denied ''USER_DISABLED''"

record customer_input =
  xi_username :: string
  xi_password :: string
  xi_name :: string
  xi_email :: string

definition create_customer :: "host \<Rightarrow> customer_input \<Rightarrow> string \<Rightarrow> customer site_act" where
  "create_customer hs input who =
     (let username = normalize_username hs (xi_username input) in
      if username = [] \<or> 80 < length username \<or> length (xi_password input) < 8 \<or> 256 < length (xi_password input) \<or>
         160 < length (xi_name input)
      then raise ErrInvalidRequest
      else andThen (pureA (normalize_email hs (xi_email input))) (\<lambda>email.
      andThen (ensure_email_available ''customer_users'' email) (\<lambda>_.
      andThen (hash_password hs (xi_password input)) (\<lambda>hash.
      andThen (fresh_id hs ''usr'') (\<lambda>i.
      let c = \<lparr>cu_id = i, cu_username = username, cu_email = email, cu_hash = hash, cu_name = trim_space (xi_name input),
               cu_status = ''active'', cu_version = 1, cu_created = now_of hs, cu_agent = [], cu_agent_status = []\<rparr> in
      with_tx (
        andThen (identity_login_available username email) (\<lambda>available.
        if \<not> available then raise (AppError ''USERNAME_TAKEN'' 409)
        else andThen (insert_customer c) (\<lambda>_.
          andThen (transaction_audit hs ''admin'' who [] [] ''user.create'' (Fields [(''user_id'', i)])) (\<lambda>_.
          ret c)))))))))"

definition user_account_profile :: "string \<Rightarrow> customer site_act" where
  "user_account_profile i =
     andThen (customer_by_id i) (\<lambda>c.
     andThen (optional (member_for_user i)) (\<lambda>r. case r of
       None \<Rightarrow> ret c
     | Some m \<Rightarrow> andThen (agent_by_id (mb_agent m)) (\<lambda>a.
         ret (c\<lparr>cu_agent := an_id a,
                cu_agent_status := (if mb_status m \<noteq> ''active'' then ''disabled'' else an_status a)\<rparr>))))"

definition customer_payload :: "host \<Rightarrow> customer \<Rightarrow> session_claims" where
  "customer_payload hs c =
     \<lparr>sn_type = ''customer_session'', sn_user = cu_id c, sn_version = cu_version c, sn_iat = unix (now_of hs),
      sn_exp = unix (now_of hs + 12 * hour), sn_mfa = [], sn_ip = []\<rparr>"

definition customer_login :: "host \<Rightarrow> admin_login_input \<Rightarrow> (string \<times> customer \<times> int) site_act" where
  "customer_login hs input =
     andThen (ensure_login_captcha hs (li_captcha input) (li_captcha_code input)) (\<lambda>_.
     andThen (orElse (customer_by_login hs (normalize_username hs (li_username input))) ErrInvalidCredentials) (\<lambda>c.
     if cu_status c \<noteq> ''active'' then raise ErrCustomerDisabled
     else if \<not> password_ok hs (li_password input) (cu_hash c) then raise ErrInvalidCredentials
     else andThen (user_account_profile (cu_id c)) (\<lambda>profile.
       ret (sign_admin_token hs (customer_payload hs c), profile, now_of hs + 12 * hour))))"

definition authenticate_customer :: "host \<Rightarrow> string \<Rightarrow> customer site_act" where
  "authenticate_customer hs token =
     (case verify_admin_token hs token of
        None \<Rightarrow> raise ErrCustomerToken
      | Some claim \<Rightarrow>
          if sn_type claim \<noteq> ''customer_session'' \<or> \<not> now_of hs < at_unix (sn_exp claim) then raise ErrCustomerToken
          else andThen (orElse (customer_by_id (sn_user claim)) ErrCustomerToken) (\<lambda>c.
            if cu_version c \<noteq> sn_version claim then raise ErrCustomerToken
            else if cu_status c \<noteq> ''active'' then raise ErrCustomerDisabled
            else ret c))"

definition set_customer_status :: "host \<Rightarrow> string \<Rightarrow> string \<Rightarrow> string \<Rightarrow> unit site_act" where
  "set_customer_status hs i status who =
     (if status \<noteq> ''active'' \<and> status \<noteq> ''disabled'' then raise ErrInvalidRequest
      else andThen (orElse (customer_by_id i) (missing ''USER_NOT_FOUND'')) (\<lambda>_.
      with_tx (
        andThen (update_customer_status i status) (\<lambda>_.
        transaction_audit hs ''admin'' who [] [] ''user.status'' (Fields [(''user_id'', i), (''status'', status)])))))"

definition customer_password :: "host \<Rightarrow> string \<Rightarrow> password_change \<Rightarrow> unit site_act" where
  "customer_password hs i input =
     andThen (pureA (validate_password_change input)) (\<lambda>_.
     andThen (orElse (customer_by_id i) ErrCustomerToken) (\<lambda>c.
     if \<not> password_ok hs (pc_current input) (cu_hash c) then raise (bad_request ''CURRENT_PASSWORD_INCORRECT'')
     else andThen (hash_password hs (pc_new input)) (\<lambda>hash.
       with_tx (
         andThen (update_customer_password i hash) (\<lambda>_.
         transaction_audit hs ''customer'' i [] [] ''user.password'' NullExtra)))))"

section \<open>Agents\<close>

definition valid_agent_role :: "string \<Rightarrow> bool" where
  "valid_agent_role r \<longleftrightarrow> r \<in> {''agent_owner'', ''agent_manager'', ''agent_staff'', ''agent_readonly''}"

definition valid_agent_status :: "string \<Rightarrow> bool" where
  "valid_agent_status s \<longleftrightarrow> s \<in> {''active'', ''suspended'', ''disabled''}"

definition ensure_agent_active :: "agent \<Rightarrow> app_err + unit" where
  "ensure_agent_active a =
     (if an_status a = ''active'' then Inr ()
      else if an_status a = ''suspended'' then Inl ErrAgentSuspended
      else Inl ErrAgentDisabled)"

fun new_agent_login_code :: "host \<Rightarrow> nat \<Rightarrow> string site_act" where
  "new_agent_login_code hs 0 = raise (GoError ''could not generate unique agent login code'')"
| "new_agent_login_code hs (Suc k) =
     andThen (random_alphabet hs 6) (\<lambda>body.
     let code = ''YN-'' @ body in
     andThen (optional (agent_by_login_code code)) (\<lambda>r. case r of
       None \<Rightarrow> ret code
     | Some _ \<Rightarrow> new_agent_login_code hs k))"

record agent_input =
  gi_name :: string
  gi_contact :: string
  gi_phone :: string
  gi_email :: string
  gi_remark :: string

definition create_agent :: "host \<Rightarrow> agent_input \<Rightarrow> agent site_act" where
  "create_agent hs input =
     (if trim_space (gi_name input) = [] then raise ErrInvalidRequest
      else andThen (pureA (normalize_email hs (gi_email input))) (\<lambda>email.
      andThen (ensure_email_available ''agents'' email) (\<lambda>_.
      andThen (new_agent_login_code hs 10) (\<lambda>code.
      andThen (fresh_id hs ''agent'') (\<lambda>i.
      andThen (fresh_id hs ''agt'') (\<lambda>no.
      let a = \<lparr>an_id = i, an_no = to_upper (ho_core hs) no, an_code = code, an_name = trim_space (gi_name input),
               an_contact = trim_space (gi_contact input), an_phone = trim_space (gi_phone input), an_email = email,
               an_status = ''active'', an_remark = trim_space (gi_remark input), an_created_by = [],
               an_created = now_of hs, an_updated = now_of hs, an_disabled = None\<rparr> in
      andThen (with_tx (insert_agent a)) (\<lambda>_.
      andThen (quiet (audit hs ''admin'' [] [] [] [] ''agent.create'' ''success'' [])) (\<lambda>_.
      ret a))))))))"

definition ensure_agent_login_codes :: "host \<Rightarrow> unit site_act" where
  "ensure_agent_login_codes hs =
     andThen list_agents (\<lambda>agents.
     forEach agents (\<lambda>a.
       if an_code a \<noteq> [] then ret ()
       else andThen (new_agent_login_code hs 10) (\<lambda>code. insert_login_code (an_id a) code)))"

definition with_login_code :: "agent \<Rightarrow> agent site_act" where
  "with_login_code a =
     andThen (optional (agent_login_code (an_id a))) (\<lambda>r.
     ret (a\<lparr>an_code := (case r of None \<Rightarrow> [] | Some c \<Rightarrow> c)\<rparr>))"

definition update_agent :: "host \<Rightarrow> string \<Rightarrow> agent_input \<Rightarrow> string \<Rightarrow> agent site_act" where
  "update_agent hs agentID input who =
     (let i = trim_space agentID; name = trim_space (gi_name input) in
      if i = [] \<or> name = [] then raise ErrInvalidRequest
      else andThen (orMissing (agent_by_id i) ErrAgentNotFound) (\<lambda>a.
      andThen (update_agent_profile i name (trim_space (gi_contact input)) (trim_space (gi_phone input))
         (trim_space (gi_email input)) (now_of hs)) (\<lambda>_.
      andThen (with_login_code (a\<lparr>an_name := name, an_contact := trim_space (gi_contact input),
         an_phone := trim_space (gi_phone input), an_email := trim_space (gi_email input), an_updated := now_of hs\<rparr>)) (\<lambda>b.
      andThen (quiet (audit_admin_agent hs who i ''agent.update'' ''success'' [])) (\<lambda>_.
      ret b)))))"

definition change_agent_status :: "host \<Rightarrow> string \<Rightarrow> string \<Rightarrow> string \<Rightarrow> agent site_act" where
  "change_agent_status hs agentID status who =
     (let i = trim_space agentID in
      if i = [] \<or> \<not> valid_agent_status status then raise ErrInvalidRequest
      else andThen (orMissing (agent_by_id i) ErrAgentNotFound) (\<lambda>a.
      let disabled = (if status = ''disabled'' then Some (now_of hs) else None) in
      andThen (update_agent_status i status disabled (now_of hs)) (\<lambda>_.
      andThen (with_login_code (a\<lparr>an_status := status, an_disabled := disabled, an_updated := now_of hs\<rparr>)) (\<lambda>b.
      andThen (quiet (audit_admin_agent hs who i (''agent.status.'' @ status) ''success'' [])) (\<lambda>_.
      andThen (notify_agent_email hs ''status_change'' i [(''agent'', an_name b), (''status'', status)] []) (\<lambda>_.
      ret b))))))"

definition change_agent_user_status :: "host \<Rightarrow> string \<Rightarrow> string \<Rightarrow> string \<Rightarrow> string \<Rightarrow> agent_user site_act" where
  "change_agent_user_status hs agentID userID status who =
     (let i = trim_space agentID; u = trim_space userID in
      if i = [] \<or> u = [] \<or> status \<noteq> ''active'' \<and> status \<noteq> ''disabled'' then raise ErrInvalidRequest
      else andThen (orMissing (member_by_id u) (missing ''AGENT_USER_NOT_FOUND'')) (\<lambda>m.
      if mb_agent m \<noteq> i then raise (missing ''AGENT_USER_NOT_FOUND'')
      else andThen (orMissing (update_member_status i u status (now_of hs)) (missing ''AGENT_USER_NOT_FOUND'')) (\<lambda>_.
        andThen (quiet (audit_admin_agent hs who i (''agent_user.status.'' @ status) ''success'' [])) (\<lambda>_.
        ret (m\<lparr>mb_status := status, mb_updated := now_of hs\<rparr>)))))"

section \<open>Members of a team\<close>

record member_input =
  mi_user :: string
  mi_agent :: string
  mi_username :: string
  mi_password :: string
  mi_name :: string
  mi_phone :: string
  mi_email :: string
  mi_role :: string

definition prepare_agent_identity :: "host \<Rightarrow> member_input \<Rightarrow> (customer \<times> bool) site_act" where
  "prepare_agent_identity hs input =
     (if mi_user input \<noteq> [] then
        (if mi_username input \<noteq> [] \<or> mi_password input \<noteq> [] \<or> mi_email input \<noteq> [] then raise ErrInvalidRequest
         else andThen (orElse (customer_by_id (mi_user input)) ErrInvalidRequest) (\<lambda>c.
           if cu_status c \<noteq> ''active'' then raise ErrInvalidRequest else ret (c, False)))
      else let username = normalize_username hs (mi_username input) in
        if username = [] \<or> 80 < length username \<or> length (mi_password input) < 8 \<or> 256 < length (mi_password input) \<or>
           160 < length (mi_name input)
        then raise ErrInvalidRequest
        else andThen (pureA (normalize_email hs (mi_email input))) (\<lambda>email.
          andThen (hash_password hs (mi_password input)) (\<lambda>hash.
          andThen (fresh_id hs ''usr'') (\<lambda>i.
          ret (\<lparr>cu_id = i, cu_username = username, cu_email = email, cu_hash = hash, cu_name = trim_space (mi_name input),
                cu_status = ''active'', cu_version = 1, cu_created = now_of hs, cu_agent = [], cu_agent_status = []\<rparr>, True)))))"

definition new_member :: "host \<Rightarrow> customer \<Rightarrow> string \<Rightarrow> string \<Rightarrow> string \<Rightarrow> agent_user" where
  "new_member hs c agentID role phone =
     \<lparr>mb_identity = cu_id c, mb_version = 0, mb_id = cu_id c, mb_agent = agentID, mb_username = cu_username c,
      mb_hash = cu_hash c, mb_name = cu_name c, mb_phone = trim_space phone, mb_email = cu_email c, mb_role = role,
      mb_status = ''active'', mb_last_login = None, mb_created = now_of hs, mb_updated = now_of hs\<rparr>"

definition create_agent_membership ::
  "host \<Rightarrow> customer \<Rightarrow> bool \<Rightarrow> string \<Rightarrow> string \<Rightarrow> string \<Rightarrow> agent_user site_act" where
  "create_agent_membership hs c0 new_user agentID role phone =
     andThen (if new_user
       then andThen (identity_login_available (cu_username c0) (cu_email c0)) (\<lambda>ok.
         if \<not> ok then raise (AppError ''USERNAME_TAKEN'' 409)
         else andThen (insert_customer c0) (\<lambda>_. ret c0))
       else andThen (lock_account ''customer'' (cu_id c0)) (\<lambda>_.
         andThen (orElse (customer_by_id (cu_id c0)) ErrInvalidRequest) (\<lambda>c.
         if cu_status c \<noteq> ''active'' then raise ErrInvalidRequest else ret c))) (\<lambda>c.
     andThen (optional (member_for_user (cu_id c))) (\<lambda>r.
     if r \<noteq> None then raise (AppError ''AGENT_ALREADY_GRANTED'' 409)
     else let m = new_member hs c agentID role phone in
       andThen (insert_member m) (\<lambda>_.
       andThen (bind_identity (mb_id m) (cu_id c)) (\<lambda>_.
       ret m))))"

definition create_unified_agent_member :: "host \<Rightarrow> member_input \<Rightarrow> agent_user site_act" where
  "create_unified_agent_member hs input =
     (let role = (if mi_role input = [] then ''agent_owner'' else mi_role input) in
      if \<not> valid_agent_role role then raise ErrInvalidRequest
      else andThen (orElse (agent_by_id (mi_agent input)) ErrAgentNotFound) (\<lambda>a.
      andThen (pureA (ensure_agent_active a)) (\<lambda>_.
      andThen (prepare_agent_identity hs input) (\<lambda>(c, new_user).
      andThen (with_tx (
        andThen (create_agent_membership hs c new_user (an_id a) role (mi_phone input)) (\<lambda>m.
        andThen (transaction_audit hs ''admin'' (case ho_caller hs of None \<Rightarrow> [] | Some w \<Rightarrow> cl_id w) [] []
          ''agent.member.create'' (Fields [(''agent_id'', an_id a), (''user_id'', cu_id c)])) (\<lambda>_.
        ret m)))) (\<lambda>m.
      andThen (notify_agent_email hs ''account_created'' (an_id a)
        [(''agent'', an_name a), (''username'', mb_username m), (''role'', mb_role m)] []) (\<lambda>_.
      ret m))))))"

record agent_session =
  gx_agent :: string
  gx_no :: string
  gx_code :: string
  gx_agent_name :: string
  gx_user :: string
  gx_username :: string
  gx_name :: string
  gx_role :: string
  gx_expires :: int

definition agent_session_for_member :: "agent_user \<Rightarrow> int \<Rightarrow> agent_session site_act" where
  "agent_session_for_member m expires =
     (if mb_status m \<noteq> ''active'' then raise ErrAgentUserDisabled
      else andThen (orElse (agent_by_id (mb_agent m)) ErrAgentNotFound) (\<lambda>a.
      andThen (pureA (ensure_agent_active a)) (\<lambda>_.
      ret \<lparr>gx_agent = an_id a, gx_no = an_no a, gx_code = [], gx_agent_name = an_name a, gx_user = mb_id m,
           gx_username = mb_username m, gx_name = mb_name m, gx_role = mb_role m, gx_expires = expires\<rparr>)))"

record agent_login_input =
  gn_agent :: string
  gn_no :: string
  gn_code :: string
  gn_username :: string
  gn_password :: string
  gn_captcha :: string
  gn_captcha_code :: string

definition normalize_agent_login_code :: "host \<Rightarrow> string \<Rightarrow> string" where
  "normalize_agent_login_code hs code =
     to_upper (ho_core hs) (filter (\<lambda>c. c \<noteq> CHR '' '') (trim_space code))"

definition unified_agent_login ::
  "host \<Rightarrow> (string \<Rightarrow> string \<Rightarrow> bool) \<Rightarrow> agent_login_input \<Rightarrow> (string \<times> agent \<times> agent_user \<times> int) site_act" where
  "unified_agent_login hs equal_fold input =
     andThen (customer_login hs \<lparr>li_otp = [], li_username = gn_username input, li_password = gn_password input,
        li_captcha = gn_captcha input, li_captcha_code = gn_captcha_code input\<rparr>) (\<lambda>(token, user, expires).
     andThen (orElse (member_for_user (cu_id user)) ErrPermissionDenied) (\<lambda>m.
     andThen (orElse (agent_by_id (mb_agent m)) ErrAgentNotFound) (\<lambda>a.
     if gn_agent input \<noteq> [] \<and> gn_agent input \<noteq> an_id a \<or>
        gn_no input \<noteq> [] \<and> \<not> equal_fold (trim_space (gn_no input)) (an_no a)
     then raise ErrInvalidCredentials
     else andThen (if gn_code input = [] then ret ()
         else andThen (orElse (agent_login_code (an_id a)) ErrInvalidCredentials) (\<lambda>code.
           if normalize_agent_login_code hs (gn_code input) \<noteq> code then raise ErrInvalidCredentials else ret ())) (\<lambda>_.
       andThen (agent_session_for_member m expires) (\<lambda>_.
       andThen (update_member_last_login (mb_id m) (now_of hs)) (\<lambda>_.
       andThen (quiet (audit_agent hs (mb_id m) (an_id a) [] ''agent.login'' ''success'' [])) (\<lambda>_.
       ret (token, a, m\<lparr>mb_last_login := Some (now_of hs), mb_identity := cu_id user\<rparr>, expires))))))))"

text \<open>\<open>AuthenticateAgentToken\<close>: a customer session of a member, or an older agent token.\<close>

definition authenticate_legacy_agent :: "host \<Rightarrow> string \<Rightarrow> agent_session site_act" where
  "authenticate_legacy_agent hs token =
     (case verify_agent_token hs token of
        None \<Rightarrow> raise ErrInvalidAgentToken
      | Some payload \<Rightarrow>
          if mc_type payload \<noteq> ''agent_session'' \<or> mc_agent payload = [] \<or> mc_user payload = [] \<or>
             mc_exp payload \<le> unix (now_of hs)
          then raise ErrInvalidAgentToken
          else andThen (orMissing (agent_by_id (mc_agent payload)) ErrInvalidAgentToken) (\<lambda>a.
          andThen (pureA (ensure_agent_active a)) (\<lambda>_.
          andThen (orMissing (agent_login_code (an_id a)) ErrInvalidAgentToken) (\<lambda>code.
          andThen (orMissing (member_by_id (mc_user payload)) ErrInvalidAgentToken) (\<lambda>m.
          if mc_version payload \<noteq> mb_version m then raise ErrInvalidAgentToken
          else if mb_agent m \<noteq> mc_agent payload \<or> mb_status m \<noteq> ''active'' then raise ErrAgentUserDisabled
          else andThen (attempt (identity_of (mb_id m))) (\<lambda>r.
            andThen (case r of
                Inl _ \<Rightarrow> ret ()
              | Inr identity \<Rightarrow> andThen (orElse (customer_by_id identity) ErrAgentUserDisabled) (\<lambda>c.
                  if cu_status c \<noteq> ''active'' then raise ErrAgentUserDisabled else ret ())) (\<lambda>_.
            ret \<lparr>gx_agent = mc_agent payload, gx_no = an_no a, gx_code = code, gx_agent_name = an_name a,
                 gx_user = mc_user payload, gx_username = mb_username m, gx_name = mb_name m, gx_role = mb_role m,
                 gx_expires = at_unix (mc_exp payload)\<rparr>)))))))"

definition authenticate_agent_token :: "host \<Rightarrow> string \<Rightarrow> agent_session site_act" where
  "authenticate_agent_token hs token =
     (case verify_admin_token hs (trim_space token) of
        Some claims \<Rightarrow>
          if sn_type claims = ''customer_session'' then
            andThen (orElse (authenticate_customer hs token) ErrInvalidAgentToken) (\<lambda>user.
            andThen (orMissing (member_for_user (cu_id user)) ErrPermissionDenied) (\<lambda>m.
            agent_session_for_member m (at_unix (sn_exp claims))))
          else authenticate_legacy_agent hs (trim_space token)
      | None \<Rightarrow> authenticate_legacy_agent hs (trim_space token))"

end
