(* ===== verification/Stock.thy ===== *)
theory Stock
  imports Cards
begin

text \<open>
  The statements on products, cards, licenses, bindings and installations (\<open>store/sqlite.go\<close>,
  \<open>authorization.go\<close>, \<open>entitlements.go\<close>, \<open>customers.go\<close>, \<open>application_credentials.go\<close>, \<open>developers.go\<close>): one
  definition per method of the store, with the keys of the migrations. The statements that only lock a row
  (\<open>LockLicense\<close>, \<open>LockProduct\<close>, \<open>LockAgent\<close>) change nothing and are left out. A read by key finds at
  most one row; where SQL leaves the order open, rows come in the order of insertion.
\<close>

section \<open>Access to the goods\<close>

definition fetch_goods :: "(goods \<Rightarrow> 'a option) \<Rightarrow> 'a site_act" where
  "fetch_goods q = fetch (\<lambda>d. q (y_goods d))"

definition look_goods :: "(goods \<Rightarrow> 'a) \<Rightarrow> 'a site_act" where
  "look_goods q = look (\<lambda>d. q (y_goods d))"

definition edit_goods :: "(goods \<Rightarrow> goods) \<Rightarrow> directory \<Rightarrow> directory" where
  "edit_goods f d = d\<lparr>y_goods := f (y_goods d)\<rparr>"

definition change :: "(goods \<Rightarrow> goods) \<Rightarrow> unit site_act" where
  "change f = modify (edit_goods f)"

text \<open>An \<open>INSERT\<close> under the table's keys.\<close>

definition put_goods :: "(goods \<Rightarrow> bool) \<Rightarrow> (goods \<Rightarrow> goods) \<Rightarrow> unit site_act" where
  "put_goods ok f = put (\<lambda>d. ok (y_goods d)) (edit_goods f)"

text \<open>An \<open>UPDATE\<close> followed by \<open>requireAffected\<close>.\<close>

definition change_found :: "(goods \<Rightarrow> bool) \<Rightarrow> (goods \<Rightarrow> goods) \<Rightarrow> unit site_act" where
  "change_found hit f = andThen (look_goods hit) (\<lambda>b. if b then change f else raise NoRows)"

definition new_keys :: "('a \<Rightarrow> 'k) list \<Rightarrow> 'a list \<Rightarrow> 'a \<Rightarrow> bool" where
  "new_keys keys rows r \<longleftrightarrow> (\<forall>v \<in> set rows. \<forall>k \<in> set keys. k v \<noteq> k r)"

text \<open>\<open>DELETE\<close> and \<open>INSERT\<close> under one key, as the code replaces a row.\<close>

definition replace_row :: "('a \<Rightarrow> 'k) \<Rightarrow> 'a \<Rightarrow> 'a list \<Rightarrow> 'a list" where
  "replace_row key r rows = filter (\<lambda>v. key v \<noteq> key r) rows @ [r]"

definition option_text :: "string option \<Rightarrow> string" where
  "option_text o' = (case o' of None \<Rightarrow> [] | Some v \<Rightarrow> v)"

section \<open>Terms\<close>

definition terms_of :: "string \<Rightarrow> string \<Rightarrow> goods \<Rightarrow> auth_terms option" where
  "terms_of scope i g = map_of (x_terms g) (scope, i)"

definition save_terms :: "string \<Rightarrow> string \<Rightarrow> auth_terms option \<Rightarrow> unit site_act" where
  "save_terms scope i t =
     (case t of
        None \<Rightarrow> ret ()
      | Some v \<Rightarrow> change (\<lambda>g. g\<lparr>x_terms := replace_row fst ((scope, i), v) (x_terms g)\<rparr>))"

section \<open>Products\<close>

definition plain_product :: "g_product \<Rightarrow> g_product" where
  "plain_product p =
     p\<lparr>gp_terms := None, gp_license_mode := [], gp_update_days := 0, gp_developer := [], gp_secret := [],
       gp_secret_hash := [], gp_key_version := 0\<rparr>"

text \<open>\<open>productColumns\<close> and \<open>scanProduct\<close>.\<close>

definition newest_key :: "goods \<Rightarrow> string \<Rightarrow> int" where
  "newest_key g i = fold max (map ky_version (filter (\<lambda>k. ky_product k = i) (x_keys g))) 0"

definition joined_product :: "goods \<Rightarrow> g_product \<Rightarrow> g_product" where
  "joined_product g p =
     (let n = newest_key g (gp_id p) in
      p\<lparr>gp_key_version := (if n = 0 then 1 else n),
        gp_developer := option_text (map_of (x_developers g) (gp_id p)),
        gp_license_mode := (case map_of (x_license_policies g) (gp_id p) of None \<Rightarrow> ''subscription'' | Some (m, _) \<Rightarrow> m),
        gp_update_days := (case map_of (x_license_policies g) (gp_id p) of None \<Rightarrow> 0 | Some (_, n) \<Rightarrow> n),
        gp_terms := terms_of ''product'' (gp_id p) g\<rparr>)"

definition insert_product :: "g_product \<Rightarrow> unit site_act" where
  "insert_product p =
     with_tx (
       andThen (put_goods (\<lambda>g. new_keys [gp_id, gp_code, gp_app_key] (x_products g) p)
         (\<lambda>g. g\<lparr>x_products := x_products g @ [plain_product p]\<rparr>)) (\<lambda>_.
       andThen (if gp_secret_hash p \<noteq> []
                then let c = \<lparr>cr_product = gp_id p, cr_hash = gp_secret_hash p, cr_version = 1, cr_updated = gp_created p\<rparr> in
                  put_goods (\<lambda>g. new_keys [cr_product] (x_credentials g) c) (\<lambda>g. g\<lparr>x_credentials := x_credentials g @ [c]\<rparr>)
                else ret ()) (\<lambda>_.
       andThen (let k = \<lparr>ky_product = gp_id p, ky_version = 1, ky_public = gp_public p, ky_by = ''product.create'',
                  ky_created = gp_created p\<rparr> in
                put_goods (\<lambda>g. new_keys [\<lambda>v. (ky_product v, ky_version v)] (x_keys g) k) (\<lambda>g. g\<lparr>x_keys := x_keys g @ [k]\<rparr>)) (\<lambda>_.
       andThen (if gp_developer p \<noteq> []
                then put_goods (\<lambda>g. new_keys [fst] (x_developers g) (gp_id p, gp_developer p))
                  (\<lambda>g. g\<lparr>x_developers := x_developers g @ [(gp_id p, gp_developer p)]\<rparr>)
                else ret ()) (\<lambda>_.
       put_goods (\<lambda>g. new_keys [fst] (x_license_policies g) (gp_id p, gp_license_mode p, gp_update_days p))
         (\<lambda>g. g\<lparr>x_license_policies := x_license_policies g @ [(gp_id p, gp_license_mode p, gp_update_days p)]\<rparr>))))))"

definition product_of :: "goods \<Rightarrow> string \<Rightarrow> g_product option" where
  "product_of g i = map_option (joined_product g) (row_of gp_id i (x_products g))"

definition product_by_id :: "string \<Rightarrow> g_product site_act" where
  "product_by_id i = fetch_goods (\<lambda>g. product_of g i)"

definition product_by_key :: "string \<Rightarrow> g_product site_act" where
  "product_by_key key =
     fetch_goods (\<lambda>g. map_option (joined_product g) (List.find (\<lambda>p. gp_id p = key \<or> gp_app_key p = key) (x_products g)))"

definition list_products :: "g_product list site_act" where
  "list_products = look_goods (\<lambda>g. map (joined_product g) (newest_first gp_created (x_products g)))"

definition keys_of_product :: "string \<Rightarrow> g_key list site_act" where
  "keys_of_product i =
     look_goods (\<lambda>g. rev (sort_key ky_version (filter (\<lambda>k. ky_product k = i) (x_keys g))))"

definition rotate_key_row :: "string \<Rightarrow> string \<Rightarrow> string \<Rightarrow> string \<Rightarrow> int \<Rightarrow> int site_act" where
  "rotate_key_row i public sealed who t =
     with_tx (
       andThen (look_goods (\<lambda>g. newest_key g i + 1)) (\<lambda>version.
       andThen (change_found (\<lambda>g. row_of gp_id i (x_products g) \<noteq> None)
         (\<lambda>g. g\<lparr>x_products := alter gp_id i (\<lambda>p. p\<lparr>gp_public := public, gp_private := sealed, gp_updated := t\<rparr>) (x_products g)\<rparr>)) (\<lambda>_.
       let k = \<lparr>ky_product = i, ky_version = version, ky_public = public, ky_by = who, ky_created = t\<rparr> in
       andThen (put_goods (\<lambda>g. new_keys [\<lambda>v. (ky_product v, ky_version v)] (x_keys g) k) (\<lambda>g. g\<lparr>x_keys := x_keys g @ [k]\<rparr>)) (\<lambda>_.
       ret version))))"

definition alter_product :: "string \<Rightarrow> (g_product \<Rightarrow> g_product) \<Rightarrow> goods \<Rightarrow> goods" where
  "alter_product i f g = g\<lparr>x_products := alter gp_id i f (x_products g)\<rparr>"

definition has_product :: "string \<Rightarrow> goods \<Rightarrow> bool" where
  "has_product i g \<longleftrightarrow> row_of gp_id i (x_products g) \<noteq> None"

definition update_product_status_row :: "string \<Rightarrow> string \<Rightarrow> int \<Rightarrow> unit site_act" where
  "update_product_status_row i status t =
     change_found (has_product i) (alter_product i (\<lambda>p. p\<lparr>gp_status := status, gp_updated := t\<rparr>))"

definition update_product_row :: "string \<Rightarrow> string \<Rightarrow> string \<Rightarrow> string \<Rightarrow> int \<Rightarrow> int \<Rightarrow> int \<Rightarrow> unit site_act" where
  "update_product_row i name mode strategy max_binds offline t =
     change_found (has_product i) (alter_product i (\<lambda>p. p\<lparr>gp_name := name, gp_mode := mode, gp_conflict := strategy,
       gp_max_binds := max_binds, gp_offline_days := offline, gp_updated := t\<rparr>))"

definition issued_any :: "string \<Rightarrow> goods \<Rightarrow> bool" where
  "issued_any i g \<longleftrightarrow> list_ex (\<lambda>c. gc_product c = i) (x_cards g) \<or> list_ex (\<lambda>l. gl_product l = i) (x_licenses g)"

definition license_policy_locked :: "string \<Rightarrow> bool site_act" where
  "license_policy_locked i = look_goods (issued_any i)"

text \<open>\<open>ErrLicensePolicyLocked\<close> of the store.\<close>

definition policy_locked :: app_err where
  "policy_locked = GoError ''product already has issued cards or licenses''"

definition set_license_policy_row :: "string \<Rightarrow> string \<Rightarrow> int \<Rightarrow> int \<Rightarrow> int \<Rightarrow> unit site_act" where
  "set_license_policy_row i mode update_days grace t =
     with_tx (
       andThen (look_goods (issued_any i)) (\<lambda>locked.
       if locked then raise policy_locked
       else andThen (change (\<lambda>g. g\<lparr>x_license_policies := replace_row fst (i, mode, update_days) (x_license_policies g)\<rparr>)) (\<lambda>_.
            change (alter_product i (\<lambda>p. p\<lparr>gp_expire_days := grace, gp_updated := t\<rparr>)))))"

definition list_developer_products :: "string \<Rightarrow> g_product list site_act" where
  "list_developer_products user =
     look_goods (\<lambda>g. map (joined_product g)
       (newest_first gp_created (filter (\<lambda>p. (gp_id p, user) \<in> set (x_developers g)) (x_products g))))"

definition assign_developer_row :: "string \<Rightarrow> string \<Rightarrow> unit site_act" where
  "assign_developer_row i user =
     change (\<lambda>g. g\<lparr>x_developers := filter (\<lambda>v. fst v \<noteq> i) (x_developers g) @ (if user = [] then [] else [(i, user)])\<rparr>)"

text \<open>\<open>ApplicationCredential\<close>, \<open>SetApplicationSecret\<close>: the new version, and whether the expected one was there.\<close>

definition credential_of :: "string \<Rightarrow> g_credential site_act" where
  "credential_of i = fetch_goods (\<lambda>g. row_of cr_product i (x_credentials g))"

definition set_application_secret :: "string \<Rightarrow> string \<Rightarrow> int \<Rightarrow> int \<Rightarrow> (int \<times> bool) site_act" where
  "set_application_secret i hash expected t =
     andThen (look_goods (\<lambda>g. row_of cr_product i (x_credentials g))) (\<lambda>r.
     let version = (case r of None \<Rightarrow> 0 | Some c \<Rightarrow> cr_version c) in
     if version \<noteq> expected then ret (version, False)
     else andThen (case r of
          None \<Rightarrow> change (\<lambda>g. g\<lparr>x_credentials := x_credentials g @ [\<lparr>cr_product = i, cr_hash = hash, cr_version = 1, cr_updated = t\<rparr>]\<rparr>)
        | Some _ \<Rightarrow> change (\<lambda>g. g\<lparr>x_credentials := alter cr_product i
              (\<lambda>c. c\<lparr>cr_hash := hash, cr_version := cr_version c + 1, cr_updated := t\<rparr>) (x_credentials g)\<rparr>)) (\<lambda>_.
        ret (version + 1, True)))"

section \<open>Batches and cards\<close>

definition insert_batch :: "g_batch \<Rightarrow> unit site_act" where
  "insert_batch b = put_goods (\<lambda>g. new_keys [gt_id] (x_batches g) b) (\<lambda>g. g\<lparr>x_batches := x_batches g @ [b]\<rparr>)"

definition insert_card :: "g_card \<Rightarrow> unit site_act" where
  "insert_card c =
     andThen (put_goods (\<lambda>g. new_keys [gc_id, gc_hash] (x_cards g) c)
       (\<lambda>g. g\<lparr>x_cards := x_cards g @ [c\<lparr>gc_terms := None\<rparr>]\<rparr>)) (\<lambda>_.
     save_terms ''card'' (gc_id c) (gc_terms c))"

definition create_batch_rows :: "g_batch \<Rightarrow> g_card list \<Rightarrow> unit site_act" where
  "create_batch_rows b cards = with_tx (andThen (insert_batch b) (\<lambda>_. forEach cards insert_card))"

definition joined_card :: "goods \<Rightarrow> g_card \<Rightarrow> g_card" where
  "joined_card g c = c\<lparr>gc_terms := terms_of ''card'' (gc_id c) g\<rparr>"

definition list_batches :: "g_batch list site_act" where
  "list_batches = look_goods (\<lambda>g. newest_first gt_created (x_batches g))"

definition batch_by_id :: "string \<Rightarrow> g_batch site_act" where
  "batch_by_id i = fetch_goods (\<lambda>g. row_of gt_id i (x_batches g))"

definition count_export :: "string \<Rightarrow> int \<Rightarrow> unit site_act" where
  "count_export i t =
     change_found (\<lambda>g. row_of gt_id i (x_batches g) \<noteq> None)
       (\<lambda>g. g\<lparr>x_batches := alter gt_id i (\<lambda>b. b\<lparr>gt_exports := gt_exports b + 1, gt_updated := t\<rparr>) (x_batches g)\<rparr>)"

definition batches_of_agent :: "string \<Rightarrow> g_batch list site_act" where
  "batches_of_agent who = look_goods (\<lambda>g. newest_first gt_created (filter (\<lambda>b. gt_agent b = who) (x_batches g)))"

definition batch_for_agent :: "string \<Rightarrow> string \<Rightarrow> g_batch site_act" where
  "batch_for_agent i who = fetch_goods (\<lambda>g. List.find (\<lambda>b. gt_id b = i \<and> gt_agent b = who) (x_batches g))"

definition oldest_first :: "('a \<Rightarrow> int) \<Rightarrow> 'a list \<Rightarrow> 'a list" where
  "oldest_first at rows = sort_key (\<lambda>r. text_key (at r)) rows"

definition cards_of_batch :: "string \<Rightarrow> g_card list site_act" where
  "cards_of_batch i =
     look_goods (\<lambda>g. map (joined_card g) (oldest_first gc_created (filter (\<lambda>c. gc_batch c = i) (x_cards g))))"

definition cards_of_batch_for_agent :: "string \<Rightarrow> string \<Rightarrow> g_card list site_act" where
  "cards_of_batch_for_agent i who =
     look_goods (\<lambda>g. map (joined_card g) (oldest_first gc_created (filter (\<lambda>c. gc_batch c = i \<and> gc_agent c = who) (x_cards g))))"

definition card_by_hash :: "string \<Rightarrow> g_card site_act" where
  "card_by_hash hash = fetch_goods (\<lambda>g. map_option (joined_card g) (row_of gc_hash hash (x_cards g)))"

definition card_by_id :: "string \<Rightarrow> g_card site_act" where
  "card_by_id i = fetch_goods (\<lambda>g. map_option (joined_card g) (row_of gc_id i (x_cards g)))"

definition alter_card :: "string \<Rightarrow> (g_card \<Rightarrow> g_card) \<Rightarrow> goods \<Rightarrow> goods" where
  "alter_card i f g = g\<lparr>x_cards := alter gc_id i f (x_cards g)\<rparr>"

text \<open>The unused cards of a batch by agent, product and duration, with their numbers.\<close>

definition unused_quota_groups :: "string \<Rightarrow> ((string \<times> string \<times> int \<times> bool) \<times> nat) list site_act" where
  "unused_quota_groups i =
     look_goods (\<lambda>g.
       let keys = map (\<lambda>c. (gc_agent c, gc_product c, gc_days c, gc_permanent c))
         (filter (\<lambda>c. gc_batch c = i \<and> gc_status c = ''unused'' \<and> gc_agent c \<noteq> []) (x_cards g)) in
       map (\<lambda>k. (k, count_list keys k)) (remdups keys))"

definition void_row :: "string \<Rightarrow> int \<Rightarrow> g_card \<Rightarrow> g_card" where
  "void_row reason t c = c\<lparr>gc_status := ''voided'', gc_voided := Some t, gc_reason := reason, gc_updated := t\<rparr>"

definition void_unused_in_batch :: "string \<Rightarrow> string \<Rightarrow> int \<Rightarrow> nat site_act" where
  "void_unused_in_batch i reason t =
     andThen (look_goods (\<lambda>g. length (filter (\<lambda>c. gc_batch c = i \<and> gc_status c = ''unused'') (x_cards g)))) (\<lambda>n.
     andThen (change (\<lambda>g. g\<lparr>x_cards := map (\<lambda>c. if gc_batch c = i \<and> gc_status c = ''unused'' then void_row reason t c else c)
       (x_cards g)\<rparr>)) (\<lambda>_.
     ret n))"

definition void_unused_card :: "string \<Rightarrow> string \<Rightarrow> int \<Rightarrow> bool site_act" where
  "void_unused_card i reason t =
     andThen (look_goods (\<lambda>g. list_ex (\<lambda>c. gc_id c = i \<and> gc_status c = ''unused'') (x_cards g))) (\<lambda>hit.
     andThen (change (alter_card i (\<lambda>c. if gc_status c = ''unused'' then void_row reason t c else c))) (\<lambda>_.
     ret hit))"

definition update_card_activated :: "string \<Rightarrow> string \<Rightarrow> int \<Rightarrow> unit site_act" where
  "update_card_activated i lic t =
     change (alter_card i (\<lambda>c. c\<lparr>gc_status := ''activated'', gc_license := lic, gc_activated := Some t, gc_updated := t\<rparr>))"

definition update_card_consumed :: "string \<Rightarrow> string \<Rightarrow> int \<Rightarrow> unit site_act" where
  "update_card_consumed i lic t =
     change (alter_card i (\<lambda>c. c\<lparr>gc_status := ''consumed_for_renewal'', gc_license := lic, gc_consumed := Some t, gc_updated := t\<rparr>))"

section \<open>Agents' policies and quotas\<close>

definition upsert_policy :: "agent_policy \<Rightarrow> unit site_act" where
  "upsert_policy p =
     andThen (look_goods (\<lambda>g. list_ex (\<lambda>v. po_agent v = po_agent p \<and> po_product v = po_product p) (x_policies g))) (\<lambda>there.
     if there
     then change (\<lambda>g. g\<lparr>x_policies := map (\<lambda>v. if po_agent v = po_agent p \<and> po_product v = po_product p
            then p\<lparr>po_id := po_id v, po_created := po_created v\<rparr> else v) (x_policies g)\<rparr>)
     else put_goods (\<lambda>g. new_keys [po_id] (x_policies g) p) (\<lambda>g. g\<lparr>x_policies := x_policies g @ [p]\<rparr>))"

definition policies_of_agent :: "string \<Rightarrow> agent_policy list site_act" where
  "policies_of_agent who = look_goods (\<lambda>g. newest_first po_created (filter (\<lambda>p. po_agent p = who) (x_policies g)))"

definition policy_of :: "string \<Rightarrow> string \<Rightarrow> goods \<Rightarrow> agent_policy option" where
  "policy_of who product g = List.find (\<lambda>p. po_agent p = who \<and> po_product p = product) (x_policies g)"

definition agent_policy_for :: "string \<Rightarrow> string \<Rightarrow> agent_policy site_act" where
  "agent_policy_for who product = fetch_goods (policy_of who product)"

definition quota_ledgers :: "string \<Rightarrow> quota_entry list site_act" where
  "quota_ledgers who = look_goods (\<lambda>g. take 200 (newest_first qu_created (filter (\<lambda>q. qu_agent q = who) (x_quotas g))))"

definition quota_sum :: "string \<Rightarrow> string \<Rightarrow> int \<Rightarrow> bool \<Rightarrow> goods \<Rightarrow> int" where
  "quota_sum who product days permanent g =
     sum_list (map qu_change (filter (\<lambda>q. qu_agent q = who \<and> qu_product q = product \<and> qu_days q = days \<and>
       qu_permanent q = permanent) (x_quotas g)))"

text \<open>\<open>ListAgentQuotaSummaries\<close>: product, duration, permanence and balance of every group.\<close>

definition quota_summaries :: "string \<Rightarrow> (string \<times> int \<times> bool \<times> int) list site_act" where
  "quota_summaries who =
     look_goods (\<lambda>g. map (\<lambda>(product, days, permanent). (product, days, permanent, quota_sum who product days permanent g))
       (sort_key (\<lambda>(product, days, _). (product, days))
         (remdups (map (\<lambda>q. (qu_product q, qu_days q, qu_permanent q)) (filter (\<lambda>q. qu_agent q = who) (x_quotas g))))))"

definition quota_balance :: "string \<Rightarrow> string \<Rightarrow> int \<Rightarrow> bool \<Rightarrow> int site_act" where
  "quota_balance who product days permanent = look_goods (quota_sum who product days permanent)"

definition insert_quota :: "quota_entry \<Rightarrow> unit site_act" where
  "insert_quota q = put_goods (\<lambda>g. new_keys [qu_id] (x_quotas g) q) (\<lambda>g. g\<lparr>x_quotas := x_quotas g @ [q]\<rparr>)"

definition refund_agent_quota ::
  "host \<Rightarrow> string \<Rightarrow> string \<Rightarrow> int \<Rightarrow> bool \<Rightarrow> int \<Rightarrow> string \<Rightarrow> string \<Rightarrow> string \<Rightarrow> int \<Rightarrow> int site_act" where
  "refund_agent_quota hs who product days permanent quantity batch crd remark t =
     (if quantity \<le> 0 then ret 0
      else
        andThen (agent_by_id who) (\<lambda>_.
        andThen (quota_balance who product days permanent) (\<lambda>balance.
        andThen (fresh_id hs ''quota'') (\<lambda>i.
        andThen (insert_quota \<lparr>qu_id = i, qu_agent = who, qu_product = product, qu_days = days, qu_permanent = permanent,
          qu_type = ''revoke'', qu_change = quantity, qu_balance = balance + quantity, qu_batch = batch, qu_card = crd,
          qu_by_type = ''admin'', qu_by = [], qu_remark = remark, qu_created = t\<rparr>) (\<lambda>_.
        ret (balance + quantity))))))"

end
