(* ===== verification/Rights.thy ===== *)
theory Rights
  imports Stock
begin

text \<open>
  The statements on licenses and what hangs on them: owners, entitlements, bindings and the index of their
  subjects, changes of bindings and the rules for them, installations, seats and claim tickets
  (\<open>store/sqlite.go\<close>, \<open>authorization.go\<close>, \<open>entitlements.go\<close>, \<open>customers.go\<close>). \<open>license_bindings\<close> is unique
  in license, mode and hash of the value, whatever the status of the row.
\<close>

section \<open>Licenses\<close>

text \<open>\<open>licenseColumns\<close> and \<open>scanLicense\<close>.\<close>

definition joined_license :: "goods \<Rightarrow> g_license \<Rightarrow> g_license" where
  "joined_license g l =
     l\<lparr>gl_mode := (case map_of (x_entitlements g) (gl_id l) of None \<Rightarrow> ''subscription'' | Some (m, _) \<Rightarrow> m),
       gl_updates := (case map_of (x_entitlements g) (gl_id l) of None \<Rightarrow> gl_expired l | Some (_, u) \<Rightarrow> u),
       gl_owner := option_text (map_of (x_owners g) (gl_id l)),
       gl_terms := terms_of ''license'' (gl_id l) g,
       gl_usage := gl_expired l\<rparr>"

definition set_entitlements :: "string \<Rightarrow> string \<Rightarrow> int option \<Rightarrow> unit site_act" where
  "set_entitlements i mode updates =
     change (\<lambda>g. g\<lparr>x_entitlements := replace_row fst (i, mode, updates) (x_entitlements g)\<rparr>)"

definition set_owner :: "string \<Rightarrow> string \<Rightarrow> unit site_act" where
  "set_owner i user = change (\<lambda>g. g\<lparr>x_owners := replace_row fst (i, user) (x_owners g)\<rparr>)"

definition owner_of :: "string \<Rightarrow> string site_act" where
  "owner_of i = look_goods (\<lambda>g. option_text (map_of (x_owners g) i))"

text \<open>The columns of \<open>licenses\<close>; mode, updates, owner and terms go to tables of their own.\<close>

definition plain_license :: "g_license \<Rightarrow> g_license" where
  "plain_license l = l\<lparr>gl_terms := None, gl_owner := [], gl_mode := [], gl_updates := None, gl_usage := None,
     gl_revoked := None, gl_revoked_reason := []\<rparr>"

definition insert_license :: "g_license \<Rightarrow> unit site_act" where
  "insert_license l =
     andThen (put_goods (\<lambda>g. new_keys [gl_id, gl_no, gl_card] (x_licenses g) l)
       (\<lambda>g. g\<lparr>x_licenses := x_licenses g @ [plain_license l]\<rparr>)) (\<lambda>_.
     andThen (if gl_mode l = [] then set_entitlements (gl_id l) ''subscription'' (gl_expired l)
              else set_entitlements (gl_id l) (gl_mode l) (gl_updates l)) (\<lambda>_.
     andThen (save_terms ''license'' (gl_id l) (gl_terms l)) (\<lambda>_.
     if gl_owner l \<noteq> [] then set_owner (gl_id l) (gl_owner l) else ret ())))"

definition license_of :: "string \<Rightarrow> goods \<Rightarrow> g_license option" where
  "license_of i g = map_option (joined_license g) (row_of gl_id i (x_licenses g))"

definition license_by_id :: "string \<Rightarrow> g_license site_act" where
  "license_by_id i = fetch_goods (license_of i)"

definition license_by_no :: "string \<Rightarrow> g_license site_act" where
  "license_by_no no = fetch_goods (\<lambda>g. map_option (joined_license g) (row_of gl_no no (x_licenses g)))"

definition list_all_licenses :: "g_license list site_act" where
  "list_all_licenses = look_goods (\<lambda>g. map (joined_license g) (take 200 (newest_first gl_created (x_licenses g))))"

definition licenses_of_agent :: "string \<Rightarrow> g_license list site_act" where
  "licenses_of_agent who =
     look_goods (\<lambda>g. map (joined_license g) (take 200 (newest_first gl_created (filter (\<lambda>l. gl_agent l = who) (x_licenses g)))))"

definition licenses_of_customer :: "string \<Rightarrow> g_license list site_act" where
  "licenses_of_customer user =
     look_goods (\<lambda>g. map (joined_license g) (newest_first gl_created
       (filter (\<lambda>l. (gl_id l, user) \<in> set (x_owners g)) (x_licenses g))))"

text \<open>\<open>text LIKE pattern\<close> of SQLite: \<open>%\<close> is any text, \<open>_\<close> one character, letters match in either case.\<close>

fun sql_like :: "string \<Rightarrow> string \<Rightarrow> bool" where
  "sql_like [] s \<longleftrightarrow> s = []"
| "sql_like (p # ps) [] \<longleftrightarrow> p = CHR ''%'' \<and> sql_like ps []"
| "sql_like (p # ps) (c # s) \<longleftrightarrow>
     (if p = CHR ''%'' then sql_like ps (c # s) \<or> sql_like (p # ps) s
      else (p = CHR ''_'' \<or> lower_char p = lower_char c) \<and> sql_like ps s)"

definition status_shown :: "string \<Rightarrow> int \<Rightarrow> g_license \<Rightarrow> bool" where
  "status_shown status now l \<longleftrightarrow>
     (if status = [] then True
      else if status = ''active'' then gl_status l = ''active'' \<and> (case gl_expired l of None \<Rightarrow> True | Some e \<Rightarrow> text_less now e)
      else if status = ''expired'' then gl_status l = ''expired'' \<or>
        gl_status l = ''active'' \<and> (case gl_expired l of None \<Rightarrow> False | Some e \<Rightarrow> \<not> text_less now e)
      else gl_status l = status)"

definition licenses_page ::
  "string \<Rightarrow> string \<Rightarrow> string \<Rightarrow> string \<Rightarrow> nat \<Rightarrow> nat \<Rightarrow> int \<Rightarrow> (g_license list \<times> nat) site_act" where
  "licenses_page status product who query limit offset now =
     look_goods (\<lambda>g.
       let rows = filter (\<lambda>l. status_shown status now l \<and> (product = [] \<or> gl_product l = product) \<and>
         (who = [] \<or> gl_agent l = who) \<and> (query = [] \<or> sql_like (''%'' @ query @ ''%'') (gl_no l))) (x_licenses g) in
       (map (joined_license g) (take limit (drop offset (newest_first gl_created rows))), length rows))"

definition alter_license :: "string \<Rightarrow> (g_license \<Rightarrow> g_license) \<Rightarrow> goods \<Rightarrow> goods" where
  "alter_license i f g = g\<lparr>x_licenses := alter gl_id i f (x_licenses g)\<rparr>"

definition revoke_rows :: "string \<Rightarrow> string \<Rightarrow> int \<Rightarrow> unit site_act" where
  "revoke_rows i reason t =
     andThen (change (alter_license i (\<lambda>l. l\<lparr>gl_status := ''revoked'', gl_revoked := Some t, gl_revoked_reason := reason,
       gl_updated := t\<rparr>))) (\<lambda>_.
     change (\<lambda>g. g\<lparr>x_bindings := map (\<lambda>b. if gb_license b = i \<and> gb_status b = ''active''
       then b\<lparr>gb_status := ''revoked'', gb_revoked := Some t, gb_updated := t\<rparr> else b) (x_bindings g)\<rparr>))"

definition restore_license_row :: "string \<Rightarrow> int \<Rightarrow> unit site_act" where
  "restore_license_row i t =
     change_found (\<lambda>g. list_ex (\<lambda>l. gl_id l = i \<and> gl_status l = ''revoked'') (x_licenses g))
       (alter_license i (\<lambda>l. if gl_status l = ''revoked''
          then l\<lparr>gl_status := ''active'', gl_revoked := None, gl_revoked_reason := [], gl_updated := t\<rparr> else l))"

definition restore_binding_rows :: "string \<Rightarrow> int \<Rightarrow> nat site_act" where
  "restore_binding_rows i t =
     andThen (look_goods (\<lambda>g. length (filter (\<lambda>b. gb_license b = i \<and> gb_status b = ''revoked'') (x_bindings g)))) (\<lambda>n.
     andThen (change (\<lambda>g. g\<lparr>x_bindings := map (\<lambda>b. if gb_license b = i \<and> gb_status b = ''revoked''
       then b\<lparr>gb_status := ''active'', gb_revoked := None, gb_updated := t\<rparr> else b) (x_bindings g)\<rparr>)) (\<lambda>_.
     ret n))"

definition update_license_verify :: "string \<Rightarrow> int \<Rightarrow> unit site_act" where
  "update_license_verify i t = change (alter_license i (\<lambda>l. l\<lparr>gl_verified := Some t, gl_updated := t\<rparr>))"

definition update_license_expiry :: "string \<Rightarrow> int option \<Rightarrow> int \<Rightarrow> unit site_act" where
  "update_license_expiry i expired t =
     change (alter_license i (\<lambda>l. l\<lparr>gl_status := ''active'', gl_expired := expired, gl_updated := t\<rparr>))"

definition update_license_rights :: "g_license \<Rightarrow> int \<Rightarrow> unit site_act" where
  "update_license_rights l t =
     andThen (update_license_expiry (gl_id l) (gl_expired l) t) (\<lambda>_. set_entitlements (gl_id l) (gl_mode l) (gl_updates l))"

section \<open>Bindings\<close>

definition bindings_of :: "string \<Rightarrow> g_binding list site_act" where
  "bindings_of i = look_goods (\<lambda>g. oldest_first gb_created (filter (\<lambda>b. gb_license b = i) (x_bindings g)))"

definition active_bindings_by_hash :: "string \<Rightarrow> string \<Rightarrow> nat \<Rightarrow> g_binding list site_act" where
  "active_bindings_by_hash mode hash limit =
     look_goods (\<lambda>g. take (if limit = 0 \<or> 10 < limit then 10 else limit) (newest_first gb_activated
       (filter (\<lambda>b. gb_mode b = mode \<and> gb_hash b = hash \<and> gb_status b = ''active'') (x_bindings g))))"

definition active_binding :: "string \<Rightarrow> string \<Rightarrow> string \<Rightarrow> goods \<Rightarrow> g_binding option" where
  "active_binding i mode hash g =
     List.find (\<lambda>b. gb_license b = i \<and> gb_mode b = mode \<and> gb_hash b = hash \<and> gb_status b = ''active'') (x_bindings g)"

definition active_binding_by_hash :: "string \<Rightarrow> string \<Rightarrow> string \<Rightarrow> g_binding site_act" where
  "active_binding_by_hash i mode hash = fetch_goods (active_binding i mode hash)"

definition binding_by_id :: "string \<Rightarrow> g_binding site_act" where
  "binding_by_id i = fetch_goods (\<lambda>g. row_of gb_id i (x_bindings g))"

definition active_bindings_in :: "string \<Rightarrow> goods \<Rightarrow> g_binding list" where
  "active_bindings_in i g = filter (\<lambda>b. gb_license b = i \<and> gb_status b = ''active'') (x_bindings g)"

definition count_active_bindings :: "string \<Rightarrow> nat site_act" where
  "count_active_bindings i = look_goods (\<lambda>g. length (active_bindings_in i g))"

definition oldest_active_binding :: "string \<Rightarrow> g_binding site_act" where
  "oldest_active_binding i =
     fetch_goods (\<lambda>g. case oldest_first (\<lambda>b. case gb_heartbeat b of Some h \<Rightarrow> h | None \<Rightarrow> gb_activated b) (active_bindings_in i g) of
        [] \<Rightarrow> None | b # _ \<Rightarrow> Some b)"

definition alter_binding :: "string \<Rightarrow> (g_binding \<Rightarrow> g_binding) \<Rightarrow> goods \<Rightarrow> goods" where
  "alter_binding i f g = g\<lparr>x_bindings := alter gb_id i f (x_bindings g)\<rparr>"

definition mark_binding_kicked :: "string \<Rightarrow> int \<Rightarrow> unit site_act" where
  "mark_binding_kicked i t = change (alter_binding i (\<lambda>b. b\<lparr>gb_status := ''kicked'', gb_kicked := Some t, gb_updated := t\<rparr>))"

definition mark_binding_unbound :: "string \<Rightarrow> int \<Rightarrow> unit site_act" where
  "mark_binding_unbound i t = change (alter_binding i (\<lambda>b. b\<lparr>gb_status := ''unbound'', gb_unbound := Some t, gb_updated := t\<rparr>))"

definition binding_key :: "g_binding \<Rightarrow> string \<times> string \<times> string" where
  "binding_key b = (gb_license b, gb_mode b, gb_hash b)"

definition insert_binding :: "g_binding \<Rightarrow> unit site_act" where
  "insert_binding b =
     put_goods (\<lambda>g. new_keys [gb_id] (x_bindings g) b \<and> new_keys [binding_key] (x_bindings g) b)
       (\<lambda>g. g\<lparr>x_bindings := x_bindings g @ [b]\<rparr>)"

text \<open>The new value must not meet another row of the license, which the table's key forbids.\<close>

definition rebound_rows :: "string \<Rightarrow> string \<Rightarrow> string \<Rightarrow> int \<Rightarrow> goods \<Rightarrow> goods" where
  "rebound_rows i hash sealed t =
     alter_binding i (\<lambda>b. if gb_status b = ''active'' then b\<lparr>gb_hash := hash, gb_sealed := sealed, gb_updated := t\<rparr> else b)"

definition replace_binding :: "string \<Rightarrow> string \<Rightarrow> string \<Rightarrow> int \<Rightarrow> unit site_act" where
  "replace_binding i hash sealed t =
     put_goods (\<lambda>g. distinct (map binding_key (x_bindings (rebound_rows i hash sealed t g)))) (rebound_rows i hash sealed t)"

definition update_heartbeat :: "string \<Rightarrow> string \<Rightarrow> int \<Rightarrow> string \<Rightarrow> unit site_act" where
  "update_heartbeat i binding t ip =
     andThen (change (alter_license i (\<lambda>l. l\<lparr>gl_heartbeat := Some t, gl_updated := t\<rparr>))) (\<lambda>_.
     change (alter_binding binding (\<lambda>b. b\<lparr>gb_heartbeat := Some t, gb_last_ip := ip, gb_updated := t\<rparr>)))"

definition count_bindings_by_hash :: "string \<Rightarrow> string \<Rightarrow> nat site_act" where
  "count_bindings_by_hash product hash =
     look_goods (\<lambda>g. card (set (map gb_license (filter (\<lambda>b. gb_product b = product \<and> gb_hash b = hash) (x_bindings g)))))"

definition clear_subjects :: "string \<Rightarrow> unit site_act" where
  "clear_subjects i = change (\<lambda>g. g\<lparr>x_subjects := filter (\<lambda>s. fst s \<noteq> i) (x_subjects g)\<rparr>)"

definition index_subject :: "string \<Rightarrow> string \<Rightarrow> string \<Rightarrow> unit site_act" where
  "index_subject i kind hash =
     put_goods (\<lambda>g. (i, kind, hash) \<notin> set (x_subjects g)) (\<lambda>g. g\<lparr>x_subjects := x_subjects g @ [(i, kind, hash)]\<rparr>)"

definition lookup_subjects :: "string \<Rightarrow> string list \<Rightarrow> g_binding list site_act" where
  "lookup_subjects kind hashes =
     look_goods (\<lambda>g. if hashes = [] then []
       else take 20 (newest_first gb_activated (filter (\<lambda>b. gb_status b = ''active'' \<and>
         list_ex (\<lambda>h. (gb_id b, kind, h) \<in> set (x_subjects g)) hashes) (x_bindings g))))"

section \<open>Changes of bindings\<close>

definition change_policy_of :: "g_product \<Rightarrow> goods \<Rightarrow> change_policy" where
  "change_policy_of p g =
     (case List.find (\<lambda>y. by_product y = gp_id p \<and> by_mode y = gp_mode p) (x_change_policies g) of
        Some y \<Rightarrow> y
      | None \<Rightarrow> \<lparr>by_product = gp_id p, by_mode = gp_mode p, by_allowed = gp_unbinds p \<noteq> 0, by_limit = gp_unbinds p,
                 by_cooldown = gp_cooldown p, by_transfer = False\<rparr>)"

definition binding_policy :: "g_product \<Rightarrow> change_policy site_act" where
  "binding_policy p = look_goods (change_policy_of p)"

definition set_binding_policy_row :: "change_policy \<Rightarrow> unit site_act" where
  "set_binding_policy_row y =
     change (\<lambda>g. g\<lparr>x_change_policies := replace_row (\<lambda>v. (by_product v, by_mode v)) y (x_change_policies g)\<rparr>)"

text \<open>\<open>COUNT(*)\<close> and \<open>MAX(created_at)\<close>, the latter by text.\<close>

definition binding_change_stats :: "string \<Rightarrow> (nat \<times> int option) site_act" where
  "binding_change_stats i =
     look_goods (\<lambda>g. let cs = filter (\<lambda>c. bc_license c = i) (x_changes g) in
       (length cs, case newest_first bc_created cs of [] \<Rightarrow> None | c # _ \<Rightarrow> Some (bc_created c)))"

definition binding_change_hash :: "string \<Rightarrow> string \<Rightarrow> string site_act" where
  "binding_change_hash i request =
     fetch_goods (\<lambda>g. map_option bc_hash (row_of (\<lambda>c. (bc_license c, bc_request c)) (i, request) (x_changes g)))"

definition add_binding_change :: "string \<Rightarrow> string \<Rightarrow> string \<Rightarrow> string \<Rightarrow> string \<Rightarrow> string \<Rightarrow> int \<Rightarrow> unit site_act" where
  "add_binding_change i lic binding request hash kind t =
     (let c = \<lparr>bc_id = i, bc_license = lic, bc_binding = binding, bc_request = request, bc_hash = hash, bc_kind = kind,
        bc_created = t\<rparr> in
      put_goods (\<lambda>g. new_keys [bc_id] (x_changes g) c \<and> new_keys [\<lambda>v. (bc_license v, bc_request v)] (x_changes g) c)
        (\<lambda>g. g\<lparr>x_changes := x_changes g @ [c]\<rparr>))"

section \<open>Installations, seats, tickets\<close>

definition installation_key :: "g_installation \<Rightarrow> string \<times> string" where
  "installation_key v = (gi_license v, gi_id v)"

definition installation_of :: "string \<Rightarrow> string \<Rightarrow> g_installation site_act" where
  "installation_of lic i = fetch_goods (\<lambda>g. row_of installation_key (lic, i) (x_installations g))"

definition insert_installation :: "g_installation \<Rightarrow> unit site_act" where
  "insert_installation v =
     put_goods (\<lambda>g. new_keys [installation_key] (x_installations g) v) (\<lambda>g. g\<lparr>x_installations := x_installations g @ [v]\<rparr>)"

definition touch_installation :: "string \<Rightarrow> string \<Rightarrow> int \<Rightarrow> unit site_act" where
  "touch_installation lic i t =
     change (\<lambda>g. g\<lparr>x_installations := alter installation_key (lic, i) (\<lambda>v. v\<lparr>gi_seen := t\<rparr>) (x_installations g)\<rparr>)"

text \<open>Installations that count: active ones on an active binding of the license.\<close>

definition counted_installations :: "string \<Rightarrow> goods \<Rightarrow> g_installation list" where
  "counted_installations lic g =
     filter (\<lambda>v. gi_license v = lic \<and> gi_status v = ''active'' \<and>
       list_ex (\<lambda>b. gb_license b = lic \<and> gb_status b = ''active'' \<and> gb_id b = gi_binding v) (x_bindings g)) (x_installations g)"

definition installation_counts :: "string \<Rightarrow> string \<Rightarrow> (nat \<times> nat \<times> nat) site_act" where
  "installation_counts lic device =
     look_goods (\<lambda>g. let vs = counted_installations lic g in
       (length vs, card (set (map gi_device vs)), length (filter (\<lambda>v. gi_device v = device) vs)))"

text \<open>The listing leaves the hashes out.\<close>

definition installations_of :: "string \<Rightarrow> g_installation list site_act" where
  "installations_of lic =
     look_goods (\<lambda>g. map (\<lambda>v. v\<lparr>gi_license := [], gi_secret := [], gi_device := []\<rparr>)
       (sort_key (\<lambda>v. (text_key (gi_created v), gi_id v)) (filter (\<lambda>v. gi_license v = lic) (x_installations g))))"

definition disable_installation_row :: "string \<Rightarrow> string \<Rightarrow> unit site_act" where
  "disable_installation_row lic i =
     andThen (change_found (\<lambda>g. list_ex (\<lambda>v. installation_key v = (lic, i) \<and> gi_status v = ''active'') (x_installations g))
       (\<lambda>g. g\<lparr>x_installations := alter installation_key (lic, i)
          (\<lambda>v. if gi_status v = ''active'' then v\<lparr>gi_status := ''disabled''\<rparr> else v) (x_installations g)\<rparr>)) (\<lambda>_.
     change (\<lambda>g. g\<lparr>x_seats := filter (\<lambda>s. \<not> (gs_license s = lic \<and> gs_instance s = i \<and> \<not> gs_borrowed s)) (x_seats g)\<rparr>))"

text \<open>Instants of leases have a fixed width, so their text sorts like the instants.\<close>

definition seats_of :: "string \<Rightarrow> int \<Rightarrow> g_seat list site_act" where
  "seats_of lic now = look_goods (\<lambda>g. filter (\<lambda>s. gs_license s = lic \<and> now < gs_expires s) (x_seats g))"

definition seat_key :: "g_seat \<Rightarrow> string \<times> string \<times> string" where
  "seat_key s = (gs_license s, gs_instance s, gs_session s)"

definition save_seat :: "g_seat \<Rightarrow> unit site_act" where
  "save_seat s =
     andThen (change (\<lambda>g. g\<lparr>x_seats := filter (\<lambda>v. seat_key v \<noteq> seat_key s) (x_seats g)\<rparr>)) (\<lambda>_.
     put_goods (\<lambda>g. new_keys [gs_id] (x_seats g) s) (\<lambda>g. g\<lparr>x_seats := x_seats g @ [s\<lparr>gs_token := []\<rparr>]\<rparr>))"

definition release_seat_row :: "string \<Rightarrow> string \<Rightarrow> string \<Rightarrow> string \<Rightarrow> unit site_act" where
  "release_seat_row lic instance_id i session =
     change (\<lambda>g. g\<lparr>x_seats := filter (\<lambda>s. \<not> (seat_key s = (lic, instance_id, session) \<and> gs_id s = i \<and> \<not> gs_borrowed s)) (x_seats g)\<rparr>)"

definition insert_ticket :: "string \<Rightarrow> string \<Rightarrow> int \<Rightarrow> unit site_act" where
  "insert_ticket hash lic until =
     (let v = \<lparr>ct_hash = hash, ct_license = lic, ct_expires = until, ct_claimed = []\<rparr> in
      put_goods (\<lambda>g. new_keys [ct_hash] (x_tickets g) v) (\<lambda>g. g\<lparr>x_tickets := x_tickets g @ [v]\<rparr>))"

definition ticket_of :: "string \<Rightarrow> claim_ticket site_act" where
  "ticket_of hash = fetch_goods (\<lambda>g. row_of ct_hash hash (x_tickets g))"

definition consume_ticket :: "string \<Rightarrow> string \<Rightarrow> unit site_act" where
  "consume_ticket hash user =
     change (\<lambda>g. g\<lparr>x_tickets := alter ct_hash hash (\<lambda>v. v\<lparr>ct_claimed := user\<rparr>) (x_tickets g)\<rparr>)"

end
