(* ===== verification/Conditions.thy ===== *)
theory Conditions
  imports Rights Netaddr
begin

text \<open>
  The conditions a license is used under: terms of authorization and their normal form
  (\<open>authorization_terms.go\<close>), license modes and expiry (\<open>entitlements.go\<close>, \<open>service.go\<close>), values that a license is
  bound to, their normal forms and patterns, and the index that finds them (\<open>binding_subjects.go\<close>).
\<close>

definition ErrProductNotFound :: app_err where "ErrProductNotFound = missing ''PRODUCT_NOT_FOUND''"
definition ErrInvalidAppKey :: app_err where "ErrInvalidAppKey = missing ''INVALID_APP_KEY''"
definition ErrProductDisabled :: app_err where "ErrProductDisabled = denied ''PRODUCT_DISABLED''"
definition ErrCardInvalid :: app_err where "ErrCardInvalid = missing ''CARD_INVALID''"
definition ErrLicenseNotFound :: app_err where "ErrLicenseNotFound = missing ''LICENSE_NOT_FOUND''"
definition ErrLicenseExpired :: app_err where "ErrLicenseExpired = denied ''LICENSE_EXPIRED''"
definition ErrLicenseRevoked :: app_err where "ErrLicenseRevoked = denied ''LICENSE_REVOKED''"
definition ErrBindingRequired :: app_err where "ErrBindingRequired = bad_request ''BINDING_REQUIRED''"
definition ErrBindingMismatch :: app_err where "ErrBindingMismatch = denied ''BINDING_MISMATCH''"
definition ErrDeviceLimitExceeded :: app_err where "ErrDeviceLimitExceeded = denied ''DEVICE_LIMIT_EXCEEDED''"

section \<open>Terms\<close>

definition valid_binding_mode :: "string \<Rightarrow> bool" where
  "valid_binding_mode mode \<longleftrightarrow>
     mode \<in> {''none'', ''device'', ''domain'', ''domain_wildcard'', ''ip'', ''ip_cidr'', ''account'', ''tenant'', ''instance'',
       ''cluster'', ''composite''}"

definition valid_license_policy :: "string \<Rightarrow> int \<Rightarrow> int \<Rightarrow> bool" where
  "valid_license_policy mode update_days grace_days \<longleftrightarrow>
     (mode = ''subscription'' \<or> mode = ''perpetual'') \<and> 0 \<le> update_days \<and> update_days \<le> 36500 \<and>
     0 \<le> grace_days \<and> grace_days \<le> 365"

definition default_text :: "string \<Rightarrow> string \<Rightarrow> string" where
  "default_text v d = (if v = [] then d else v)"

definition default_int :: "int \<Rightarrow> int \<Rightarrow> int" where
  "default_int v d = (if v = 0 then d else v)"

definition terms_in_range :: "auth_terms \<Rightarrow> bool" where
  "terms_in_range t \<longleftrightarrow>
     1 \<le> tm_bindings t \<and> tm_bindings t \<le> 1000 \<and> 1 \<le> tm_deployments t \<and> tm_deployments t \<le> 10000 \<and>
     0 \<le> tm_devices t \<and> tm_devices t \<le> 10000 \<and> 0 \<le> tm_seats t \<and> tm_seats t \<le> 10000 \<and>
     30 \<le> tm_lease t \<and> tm_lease t \<le> 3600 \<and> 0 \<le> tm_offline t \<and> tm_offline t \<le> 365 \<and>
     -1 \<le> tm_unbinds t \<and> tm_unbinds t \<le> 10000 \<and> 0 \<le> tm_cooldown t \<and> tm_cooldown t \<le> 87600 \<and>
     (tm_depth t = ''one'' \<or> tm_depth t = ''all'')"

definition valid_forms :: "string list \<Rightarrow> bool" where
  "valid_forms fs \<longleftrightarrow>
     set fs \<subseteq> {''web'', ''container'', ''cluster'', ''gui'', ''cli'', ''service'', ''plugin'', ''mobile'', ''iot'', ''saas''} \<and> distinct fs"

definition valid_features :: "string list \<Rightarrow> bool" where
  "valid_features fs \<longleftrightarrow> list_all (\<lambda>f. f \<noteq> [] \<and> length f \<le> 64 \<and> trim_space f = f) fs \<and> distinct fs"

definition valid_kinds :: "string \<Rightarrow> string list \<Rightarrow> bool" where
  "valid_kinds mode ks \<longleftrightarrow>
     (if mode = ''composite''
      then 2 \<le> length ks \<and> length ks \<le> 6 \<and>
        list_all (\<lambda>k. valid_binding_mode k \<and> k \<noteq> ''none'' \<and> k \<noteq> ''composite'') ks \<and> distinct ks
      else ks = [])"

definition normalize_auth_terms :: "auth_terms \<Rightarrow> app_err + auth_terms" where
  "normalize_auth_terms t0 =
     (let t = t0\<lparr>tm_version := 2, tm_purpose := default_text (tm_purpose t0) ''license''\<rparr> in
      if tm_purpose t \<notin> {''license'', ''renew_usage'', ''renew_updates''} then Inl ErrInvalidRequest
      else
        let t = t\<lparr>tm_mode := default_text (tm_mode t) ''device''\<rparr> in
        if \<not> valid_binding_mode (tm_mode t) then Inl (bad_request ''TERMS_INVALID'')
        else if \<not> valid_license_policy (tm_license_mode t) (tm_update_days t) (tm_expire_days t) then Inl ErrInvalidRequest
        else
          let t = t\<lparr>tm_bindings := default_int (tm_bindings t) 1, tm_deployments := default_int (tm_deployments t) 1,
                    tm_lease := default_int (tm_lease t) 120, tm_depth := default_text (tm_depth t) ''one''\<rparr> in
          if \<not> terms_in_range t then Inl ErrInvalidRequest
          else
            let t = t\<lparr>tm_instance := tm_instance t \<or> 0 < tm_devices t \<or> 0 < tm_seats t \<or> tm_mode t = ''instance'' \<or>
                        tm_mode t = ''cluster'',
                      tm_forms := (if tm_forms t = [] then [''service''] else tm_forms t)\<rparr> in
            if 12 < length (tm_forms t) \<or> 100 < length (tm_features t) then Inl ErrInvalidRequest
            else if \<not> valid_forms (tm_forms t) \<or> \<not> valid_features (tm_features t) \<or> \<not> valid_kinds (tm_mode t) (tm_kinds t)
            then Inl ErrInvalidRequest
            else Inr t)"

section \<open>Expiry\<close>

definition usage_grace_until :: "g_product \<Rightarrow> g_license \<Rightarrow> int option" where
  "usage_grace_until p l = map_option (\<lambda>e. add_days e (gp_expire_days p)) (gl_expired l)"

definition before_expiry :: "int \<Rightarrow> int option \<Rightarrow> bool" where
  "before_expiry now until \<longleftrightarrow> (case until of None \<Rightarrow> True | Some u \<Rightarrow> now < u)"

definition license_can_update :: "g_license \<Rightarrow> int \<Rightarrow> bool" where
  "license_can_update l now \<longleftrightarrow> gl_status l = ''active'' \<and> before_expiry now (gl_expired l) \<and> before_expiry now (gl_updates l)"

definition extend_expiry :: "int option \<Rightarrow> int \<Rightarrow> bool \<Rightarrow> int \<Rightarrow> int option" where
  "extend_expiry expiry days permanent now =
     (case expiry of
        None \<Rightarrow> None
      | Some e \<Rightarrow> if permanent then None else Some (add_days (if now < e then e else now) days))"

definition ensure_usable :: "g_product \<Rightarrow> g_license \<Rightarrow> int \<Rightarrow> app_err + unit" where
  "ensure_usable p0 l now =
     (let p = effective_product p0 (gl_terms l) in
      if gl_status l = ''revoked'' then Inl ErrLicenseRevoked
      else case gl_expired l of
          None \<Rightarrow> Inr ()
        | Some e \<Rightarrow> if now < add_days e (gp_expire_days p) then Inr () else Inl ErrLicenseExpired)"

section \<open>The product of a request\<close>

definition product_for_app :: "string \<Rightarrow> g_product site_act" where
  "product_for_app key =
     andThen (orMissing (product_by_key key) ErrInvalidAppKey) (\<lambda>p.
     if gp_status p \<noteq> ''active'' then raise ErrProductDisabled else ret p)"

definition product_for_license :: "g_product \<Rightarrow> string \<Rightarrow> g_product site_act" where
  "product_for_license p no =
     andThen (attempt (license_by_no no)) (\<lambda>r. case r of
        Inr l \<Rightarrow> ret (effective_product p (if gl_product l = gp_id p then gl_terms l else None))
      | Inl _ \<Rightarrow> ret (effective_product p None))"

definition product_for_card :: "host \<Rightarrow> g_product \<Rightarrow> string \<Rightarrow> g_product site_act" where
  "product_for_card hs p code =
     andThen (attempt (card_by_hash (code_hash hs code))) (\<lambda>r. case r of
        Inr c \<Rightarrow> ret (effective_product p (if gc_product c = gp_id p then gc_terms c else None))
      | Inl _ \<Rightarrow> ret (effective_product p None))"

section \<open>Values and patterns\<close>

text \<open>\<open>net.ParseIP\<close>: no zone; an IPv4 address within IPv6 is the IPv4 address.\<close>

definition parse_ip :: "string \<Rightarrow> addr option" where
  "parse_ip s = (case parse_addr s of None \<Rightarrow> None | Some a \<Rightarrow> if addr_zone a = [] then Some (unmap a) else None)"

definition domain_label :: "string \<Rightarrow> bool" where
  "domain_label l \<longleftrightarrow>
     l \<noteq> [] \<and> length l \<le> 63 \<and> hd l \<noteq> CHR ''-'' \<and> last l \<noteq> CHR ''-'' \<and>
     list_all (\<lambda>c. is_lower c \<or> is_digit c \<or> c = CHR ''-'') l"

definition is_valid_domain :: "string \<Rightarrow> bool" where
  "is_valid_domain v \<longleftrightarrow>
     length v \<le> 253 \<and> parse_ip v = None \<and> CHR ''.'' \<in> set v \<and> list_all domain_label (split_on (CHR ''.'') v)"

text \<open>\<open>publicsuffix.EffectiveTLDPlusOne\<close> succeeds.\<close>

definition has_registrable :: "svc \<Rightarrow> string \<Rightarrow> bool" where
  "has_registrable sv d \<longleftrightarrow>
     \<not> prefix ''.'' d \<and> \<not> suffix ''.'' d \<and> \<not> contains_sub d ''..'' \<and>
     (let sfx = fst (s_public_suffix sv d) in
      length sfx < length d \<and> d ! (length d - length sfx - 1) = CHR ''.'')"

definition canonical_domain :: "svc \<Rightarrow> string \<Rightarrow> bool \<Rightarrow> app_err + string" where
  "canonical_domain sv value0 pat =
     (let value = trim_suffix (to_lower sv (trim_space value0)) ''.''; wild = prefix ''*.'' value in
      if wild \<and> \<not> pat then Inl ErrBindingRequired
      else case s_idna sv (if wild then trim_prefix value ''*.'' else value) of
          None \<Rightarrow> Inl ErrBindingRequired
        | Some ascii \<Rightarrow>
            if \<not> is_valid_domain ascii then Inl ErrBindingRequired
            else if wild then (if has_registrable sv ascii then Inr (''*.'' @ ascii) else Inl ErrBindingRequired)
            else Inr ascii)"

definition canonical_cidr :: "string \<Rightarrow> app_err + string" where
  "canonical_cidr value =
     (case parse_addr value of
        Some a \<Rightarrow> Inr (show_addr (unmap a))
      | None \<Rightarrow>
          case parse_prefix value of
            None \<Rightarrow> Inl ErrBindingRequired
          | Some (a, bits) \<Rightarrow> if bits = 0 \<or> addr_zone a \<noteq> [] then Inl ErrBindingRequired else Inr (show_prefix (masked (a, bits))))"

text \<open>\<open>normalizeBindingValue\<close> for every mode but \<open>composite\<close>, with the cases of \<open>normalizeExtendedBinding\<close>.\<close>

definition domain_part :: "svc \<Rightarrow> string \<Rightarrow> string option" where
  "domain_part sv host =
     (if contains_sub host ''://'' then map_option url_hostname (s_parse_url sv host)
      else Some (hd (split_on (CHR '':'') (hd (split_on (CHR ''/'') host)))))"

definition normalize_single :: "svc \<Rightarrow> string \<Rightarrow> string \<Rightarrow> app_err + string" where
  "normalize_single sv mode value0 =
     (let value = trim_space value0 in
      if value = [] then Inl ErrBindingRequired
      else if mode \<in> {''domain_wildcard'', ''ip_cidr'', ''instance'', ''tenant'', ''cluster''} \<and> 2000 < length value
      then Inl ErrBindingRequired
      else if mode = ''domain_wildcard'' then canonical_domain sv value True
      else if mode = ''ip_cidr'' then canonical_cidr value
      else if mode \<in> {''instance'', ''tenant'', ''cluster''}
      then (if 128 < length value \<or> contains_any value [CHR 0x00, CHR 0x0D, CHR 0x0A] then Inl ErrBindingRequired else Inr value)
      else if mode = ''ip''
      then (case parse_ip value of None \<Rightarrow> Inl ErrBindingRequired | Some a \<Rightarrow> Inr (show_addr a))
      else if mode = ''domain''
      then (case domain_part sv (to_lower sv value) of
              None \<Rightarrow> Inl ErrBindingRequired
            | Some host \<Rightarrow> canonical_domain sv (trim_suffix host ''.'') False)
      else if mode = ''account'' then Inr (to_lower sv value)
      else Inr value)"

text \<open>A composite value is a JSON object; \<open>json.Marshal\<close> writes its keys in order.\<close>

fun normalize_parts :: "svc \<Rightarrow> (string \<times> string) list \<Rightarrow> app_err + (string \<times> string) list" where
  "normalize_parts sv [] = Inr []"
| "normalize_parts sv ((k, v) # parts) =
     (if \<not> valid_binding_mode k \<or> k = ''composite'' \<or> k = ''none'' then Inl ErrBindingRequired
      else case normalize_single sv k v of
          Inl e \<Rightarrow> Inl e
        | Inr n \<Rightarrow> (case normalize_parts sv parts of Inl e \<Rightarrow> Inl e | Inr ns \<Rightarrow> Inr ((k, n) # ns)))"

definition object_text :: "host \<Rightarrow> (string \<times> string) list \<Rightarrow> string" where
  "object_text hs m = ho_map_json hs (sort_key fst m)"

definition normalize_binding_value :: "host \<Rightarrow> string \<Rightarrow> string \<Rightarrow> app_err + string" where
  "normalize_binding_value hs mode value0 =
     (let value = trim_space value0 in
      if mode \<noteq> ''composite'' then normalize_single (ho_core hs) mode value
      else if value = [] \<or> 2000 < length value then Inl ErrBindingRequired
      else case ho_map_parse hs value of
          None \<Rightarrow> Inl ErrBindingRequired
        | Some parts \<Rightarrow>
            if length parts < 2 \<or> 6 < length parts then Inl ErrBindingRequired
            else case normalize_parts (ho_core hs) parts of Inl e \<Rightarrow> Inl e | Inr ns \<Rightarrow> Inr (object_text hs ns))"

definition binding_text :: "host \<Rightarrow> string \<Rightarrow> (string \<times> string) list \<Rightarrow> string" where
  "binding_text hs value values =
     (if values = [] then value else if value \<noteq> [] then [] else object_text hs values)"

definition validate_binding_shape :: "host \<Rightarrow> g_product \<Rightarrow> string \<Rightarrow> app_err + unit" where
  "validate_binding_shape hs p value =
     (if gp_mode p \<noteq> ''composite'' then Inr ()
      else case ho_map_parse hs value of
          None \<Rightarrow> Inl ErrBindingRequired
        | Some m \<Rightarrow>
            let kinds = tm_kinds (legacy_terms p) in
            if length m \<noteq> length kinds then Inl ErrBindingMismatch
            else if list_all (\<lambda>k. map_of m k \<noteq> None) kinds then Inr () else Inl ErrBindingMismatch)"

text \<open>Mode, normal form and hash of the value of a request.\<close>

definition normalize_bound :: "host \<Rightarrow> g_product \<Rightarrow> string \<Rightarrow> string \<Rightarrow> app_err + string \<times> string \<times> string" where
  "normalize_bound hs p input_mode input_value =
     (let mode = default_text (default_text input_mode (gp_mode p)) ''none'';
          value = (if mode = ''none'' then ''none'' else trim_space input_value) in
      if value = [] then Inl ErrBindingRequired
      else if mode \<noteq> gp_mode p then Inl ErrBindingMismatch
      else case normalize_binding_value hs mode value of
          Inl _ \<Rightarrow> Inl ErrBindingRequired
        | Inr v \<Rightarrow> (case validate_binding_shape hs p v of Inl e \<Rightarrow> Inl e | Inr _ \<Rightarrow> Inr (mode, v, bind_hash hs mode v)))"

definition match_pattern :: "string \<Rightarrow> string \<Rightarrow> string \<Rightarrow> auth_terms \<Rightarrow> bool" where
  "match_pattern mode registered actual t \<longleftrightarrow>
     (if mode = ''domain_wildcard'' then
        (if CHR ''*'' \<in> set actual then False
         else if \<not> prefix ''*.'' registered then registered = actual
         else
           let base = trim_prefix registered ''*.'' in
           if actual = base then tm_apex t
           else if \<not> suffix (CHR ''.'' # base) actual then False
           else let pre = trim_suffix actual (CHR ''.'' # base) in
                pre \<noteq> [] \<and> (tm_depth t = ''all'' \<or> CHR ''.'' \<notin> set pre))
      else if mode = ''ip_cidr'' then
        (case parse_addr actual of
           None \<Rightarrow> False
         | Some a \<Rightarrow> (case parse_prefix registered of
             None \<Rightarrow> registered = show_addr (unmap a)
           | Some p \<Rightarrow> prefix_contains p (unmap a)))
      else registered = actual)"

text \<open>The components of a composite value are of other modes (\<open>validBindingMode\<close> keeps \<open>composite\<close> out of them).\<close>

definition match_binding :: "host \<Rightarrow> string \<Rightarrow> string \<Rightarrow> string \<Rightarrow> auth_terms \<Rightarrow> bool" where
  "match_binding hs mode registered actual t \<longleftrightarrow>
     (if mode = ''composite'' then
        (case (ho_map_parse hs registered, ho_map_parse hs actual) of
           (Some r, Some a) \<Rightarrow> length r = length a \<and>
             list_all (\<lambda>(k, v). case map_of a k of None \<Rightarrow> False | Some av \<Rightarrow> match_pattern k v av t) r
         | _ \<Rightarrow> False)
      else match_pattern mode registered actual t)"

fun first_match :: "host \<Rightarrow> string \<Rightarrow> string \<Rightarrow> auth_terms \<Rightarrow> g_binding list \<Rightarrow> app_err + g_binding" where
  "first_match hs mode value t [] = Inl NoRows"
| "first_match hs mode value t (b # bs) =
     (if gb_status b \<noteq> ''active'' \<or> gb_mode b \<noteq> mode then first_match hs mode value t bs
      else case ho_open hs (gb_sealed b) of
          None \<Rightarrow> Inl (GoError ''decrypt'')
        | Some registered \<Rightarrow>
            if match_binding hs mode registered value t then Inr b else first_match hs mode value t bs)"

definition authorized_binding ::
  "host \<Rightarrow> g_product \<Rightarrow> string \<Rightarrow> string \<Rightarrow> string \<Rightarrow> string \<Rightarrow> g_binding site_act" where
  "authorized_binding hs p lic mode value hash =
     (if mode \<notin> {''domain_wildcard'', ''ip_cidr'', ''composite''} then active_binding_by_hash lic mode hash
      else andThen (look_goods (\<lambda>g. sort_key (\<lambda>b. (text_key (gb_created b), gb_id b)) (filter (\<lambda>b. gb_license b = lic) (x_bindings g))))
        (\<lambda>bs. pureA (first_match hs mode value (legacy_terms p) bs)))"

section \<open>The index of bound values\<close>

definition index_binding :: "host \<Rightarrow> g_binding \<Rightarrow> string \<Rightarrow> unit site_act" where
  "index_binding hs b value =
     andThen (clear_subjects (gb_id b)) (\<lambda>_.
     andThen (if gb_mode b \<noteq> ''composite'' then ret [(gb_mode b, value)]
              else case ho_map_parse hs value of
                  None \<Rightarrow> raise (GoError ''json'')
                | Some m \<Rightarrow> ret ((if map_of m ''composite'' = None then [(''composite'', value)] else []) @ m)) (\<lambda>values.
     forEach values (\<lambda>(kind, v). index_subject (gb_id b) kind (bind_hash hs kind v))))"

end
