(* ===== verification/Masks.thy ===== *)
theory Masks
  imports Conditions Mail
begin

text \<open>
  What the service of the first generation shows of a value that it must not show in full, and the kind of
  a public query (\<open>service/service.go\<close>, \<open>risk_control.go\<close>, \<open>offline_licenses.go\<close>); the log entries of clients.
  Texts are UTF-8; their characters are the bytes up to the next one that does not continue a character.
\<close>

fun utf8_chars :: "string \<Rightarrow> string list" where
  "utf8_chars [] = []"
| "utf8_chars (c # cs) =
     (let rest = takeWhile (char_in 128 191) cs in (c # rest) # utf8_chars (drop (length rest) cs))"

definition stars :: "nat \<Rightarrow> string" where "stars n = replicate n (CHR ''*'')"

definition last_of :: "nat \<Rightarrow> 'a list \<Rightarrow> 'a list" where "last_of n xs = drop (length xs - n) xs"

definition mask_text :: "string \<Rightarrow> string" where
  "mask_text value =
     (let cs = utf8_chars value; n = length cs in
      if n = 0 then ''*''
      else if n \<le> 2 then concat (take 1 cs) @ ''*''
      else if n \<le> 6 then concat (take 1 cs) @ stars (n - 2) @ last cs
      else concat (take 3 cs) @ stars (min 4 (n - 5)) @ concat (last_of 2 cs))"

definition mask_license_no :: "string \<Rightarrow> string" where
  "mask_license_no no =
     (if length no \<le> 11 then (if 6 < length no then take (length no - 3) no @ ''****'' else ''****'')
      else take 7 no @ ''****'' @ last_of 2 no)"

definition is_ascii_digits :: "string \<Rightarrow> bool" where
  "is_ascii_digits value \<longleftrightarrow> list_all is_digit value \<and> value \<noteq> []"

definition mask_public_query :: "string \<Rightarrow> string \<Rightarrow> string" where
  "mask_public_query kind value =
     (if kind = ''ip'' then
        (case parse_ip value of
           Some (V4 n) \<Rightarrow> join_with ''.'' (take 3 (split_on (CHR ''.'') (show_addr (V4 n)))) @ ''.*''
         | Some a \<Rightarrow>
             let parts = split_on (CHR '':'') (show_addr a) in
             if 2 < length parts then join_with '':'' (take 2 parts) @ ''::*'' else mask_text value
         | None \<Rightarrow> mask_text value)
      else if kind = ''domain'' then
        (case split_on (CHR ''.'') value of p # parts \<Rightarrow> mask_text p @ ''.'' @ join_with ''.'' parts | [] \<Rightarrow> mask_text value)
      else if kind = ''account'' then
        (let user = takeWhile (\<lambda>c. c \<noteq> CHR ''@'') value in
         if user \<noteq> [] \<and> user \<noteq> value then mask_text user @ drop (length user) value
         else if length value = 11 \<and> is_ascii_digits value then take 3 value @ ''****'' @ drop 7 value
         else mask_text value)
      else mask_text value)"

definition detect_public_query_type :: "svc \<Rightarrow> string \<Rightarrow> string" where
  "detect_public_query_type sv value =
     (let v = trim_space value in
      if prefix ''lic_'' (to_lower sv v) then ''license''
      else if parse_ip v \<noteq> None then ''ip''
      else if CHR ''.'' \<in> set v \<and> \<not> contains_any v '' @'' then ''domain''
      else if 2 \<le> count_list v (CHR ''-'') then ''card''
      else ''account'')"

section \<open>Values of the risk control\<close>

definition normalize_risk_value :: "string \<Rightarrow> string \<Rightarrow> app_err + string" where
  "normalize_risk_value kind raw =
     (let value = trim_space raw in
      if kind = ''ip'' then (case parse_ip value of None \<Rightarrow> Inl ErrInvalidRequest | Some a \<Rightarrow> Inr (show_addr a))
      else if kind = ''device''
      then (if value = [] \<or> 256 < length value then Inl ErrInvalidRequest else Inr value)
      else Inl ErrInvalidRequest)"

definition mask_risk_value :: "string \<Rightarrow> string \<Rightarrow> string" where
  "mask_risk_value kind value =
     (if kind = ''ip'' then
        (case parse_ip value of
           Some (V4 n) \<Rightarrow> join_with ''.'' (take 3 (split_on (CHR ''.'') (show_addr (V4 n)))) @ ''.*''
         | _ \<Rightarrow>
             let parts = split_on (CHR '':'') value in
             if 2 < length parts then join_with '':'' (take 2 parts) @ '':*'' else ''*'')
      else if length value \<le> 8 then stars (length value)
      else take 4 value @ ''...'' @ last_of 4 value)"

definition risk_hash :: "host \<Rightarrow> string \<Rightarrow> string \<Rightarrow> string" where
  "risk_hash hs kind value = bind_hash hs (''risk:'' @ kind) value"

section \<open>Log entries of clients\<close>

definition app_code :: "app_err \<Rightarrow> string" where
  "app_code e = (case e of AppError code _ \<Rightarrow> code | _ \<Rightarrow> ''INTERNAL_ERROR'')"

definition audit_client ::
  "host \<Rightarrow> string \<Rightarrow> string \<Rightarrow> string \<Rightarrow> string \<Rightarrow> string \<Rightarrow> string \<Rightarrow> string \<Rightarrow> string \<Rightarrow> unit site_act" where
  "audit_client hs product lic crd action result code ip agent_text =
     andThen (fresh_id hs ''audit'') (\<lambda>i.
     insert_log (plain_entry hs i\<lparr>lg_type := ''client'', lg_product := product, lg_license := lic, lg_card := crd,
       lg_action := action, lg_ip := ip, lg_user_agent := agent_text, lg_result := result, lg_code := code\<rparr>))"

end
