(* ===== verification/Guard.thy ===== *)
theory Guard
  imports Masks
begin

text \<open>
  Security policies, cases and appeals of the first generation (\<open>service/security.go\<close>, \<open>store/security.go\<close>):
  a confirmed case restricts a license as far as the product's policy is enabled. An administrator reviews
  cases; the owner of the license may appeal once per case.
\<close>

definition ErrSecurityUse :: app_err where "ErrSecurityUse = denied ''SECURITY_USE_DENIED''"
definition ErrSecurityUpdates :: app_err where "ErrSecurityUpdates = denied ''SECURITY_UPDATES_DENIED''"

section \<open>Statements\<close>

text \<open>The notice that stands for a missing policy, in UTF-8.\<close>

definition default_notice :: string where
  "default_notice =
     [CHR 0xE6, CHR 0xAD, CHR 0xA4, CHR 0xE5, CHR 0xBA, CHR 0x94, CHR 0xE7, CHR 0x94, CHR 0xA8, CHR 0xE7, CHR
     0x9A, CHR 0x84, CHR 0xE6, CHR 0x8E, CHR 0x88, CHR 0xE6, CHR 0x9D, CHR 0x83, CHR 0xE9, CHR 0x9C, CHR 0x80,
     CHR 0xE8, CHR 0xA6, CHR 0x81, CHR 0xE6, CHR 0xA0, CHR 0xB8, CHR 0xE5, CHR 0xAE, CHR 0x9E, CHR 0xEF, CHR
     0xBC, CHR 0x8C, CHR 0xE8, CHR 0xAF, CHR 0xB7, CHR 0xE8, CHR 0x81, CHR 0x94, CHR 0xE7, CHR 0xB3, CHR 0xBB,
     CHR 0xE6, CHR 0x9C, CHR 0x8D, CHR 0xE5, CHR 0x8A, CHR 0xA1, CHR 0xE6, CHR 0x8F, CHR 0x90, CHR 0xE4, CHR
     0xBE, CHR 0x9B, CHR 0xE6, CHR 0x96, CHR 0xB9, CHR 0xE3, CHR 0x80, CHR 0x82]"

definition default_policy :: "string \<Rightarrow> security_policy" where
  "default_policy product =
     \<lparr>sp_product = product, sp_enabled = False, sp_mismatch = False, sp_reports = False, sp_action = ''observe'',
      sp_message = default_notice, sp_url = []\<rparr>"

definition security_policy_of :: "string \<Rightarrow> goods \<Rightarrow> security_policy" where
  "security_policy_of product g =
     (case row_of sp_product product (x_security g) of None \<Rightarrow> default_policy product | Some p \<Rightarrow> p)"

definition save_security_policy :: "security_policy \<Rightarrow> unit site_act" where
  "save_security_policy p = change (\<lambda>g. g\<lparr>x_security := replace_row sp_product p (x_security g)\<rparr>)"

text \<open>\<open>caseColumns\<close>: the number of the license comes from a join.\<close>

definition joined_case :: "goods \<Rightarrow> security_case \<Rightarrow> security_case option" where
  "joined_case g c = map_option (\<lambda>l. c\<lparr>sx_no := gl_no l\<rparr>) (row_of gl_id (sx_license c) (x_licenses g))"

definition case_of :: "string \<Rightarrow> goods \<Rightarrow> security_case option" where
  "case_of i g = Option.bind (row_of sx_id i (x_cases g)) (joined_case g)"

definition security_case_by_id :: "string \<Rightarrow> security_case site_act" where
  "security_case_by_id i = fetch_goods (case_of i)"

definition case_key :: "security_case \<Rightarrow> string \<times> string \<times> string" where
  "case_key c = (sx_product c, sx_license c, sx_signal c)"

definition record_security_case :: "security_case \<Rightarrow> security_case site_act" where
  "record_security_case c =
     andThen (look_goods (\<lambda>g. Option.bind (row_of case_key (case_key c) (x_cases g)) (joined_case g))) (\<lambda>r.
     case r of
       Some old \<Rightarrow>
         andThen (change (\<lambda>g. g\<lparr>x_cases := alter sx_id (sx_id old) (\<lambda>v. v\<lparr>sx_count := sx_count v + 1, sx_last := sx_last c\<rparr>)
           (x_cases g)\<rparr>)) (\<lambda>_. security_case_by_id (sx_id old))
     | None \<Rightarrow>
         andThen (put_goods (\<lambda>g. new_keys [sx_id] (x_cases g) c \<and> new_keys [case_key] (x_cases g) c)
           (\<lambda>g. g\<lparr>x_cases := x_cases g @ [c\<lparr>sx_no := []\<rparr>]\<rparr>)) (\<lambda>_. ret c))"

definition security_cases_of :: "string \<Rightarrow> security_case list site_act" where
  "security_cases_of user =
     look_goods (\<lambda>g. take 500 (List.map_filter (joined_case g)
       (rev (sort_key (\<lambda>c. (text_key (sx_last c), sx_id c))
         (filter (\<lambda>c. user = [] \<or> (sx_license c, user) \<in> set (x_owners g)) (x_cases g))))))"

definition severity :: "string \<Rightarrow> nat" where
  "severity action =
     (if action = ''block_page'' then 4 else if action = ''deny_use'' then 3 else if action = ''deny_updates'' then 2 else 1)"

text \<open>The confirmed case of the license with the strongest action, the first by identifier among equals.\<close>

definition active_case :: "string \<Rightarrow> goods \<Rightarrow> security_case option" where
  "active_case lic g =
     (case sort_key (\<lambda>c. (- int (severity (sx_action c)), sx_id c))
         (List.map_filter (joined_case g) (filter (\<lambda>c. sx_license c = lic \<and> sx_status c = ''confirmed'') (x_cases g))) of
        [] \<Rightarrow> None | c # _ \<Rightarrow> Some c)"

definition review_case_rows :: "string \<Rightarrow> string \<Rightarrow> string \<Rightarrow> string \<Rightarrow> string \<Rightarrow> unit site_act" where
  "review_case_rows i status action reason who =
     andThen (change (\<lambda>g. g\<lparr>x_cases := alter sx_id i
       (\<lambda>c. c\<lparr>sx_status := status, sx_action := action, sx_reason := reason, sx_reviewer := who\<rparr>) (x_cases g)\<rparr>)) (\<lambda>_.
     if status = ''resolved''
     then change (\<lambda>g. g\<lparr>x_appeals := map (\<lambda>a. if sl_case a = i then a\<lparr>sl_status := ''closed''\<rparr> else a) (x_appeals g)\<rparr>)
     else ret ())"

definition appeal_key :: "security_appeal \<Rightarrow> string \<times> string" where
  "appeal_key a = (sl_case a, sl_user a)"

definition insert_appeal :: "security_appeal \<Rightarrow> security_appeal site_act" where
  "insert_appeal a =
     andThen (look_goods (\<lambda>g. row_of appeal_key (appeal_key a) (x_appeals g))) (\<lambda>r.
     case r of
       Some old \<Rightarrow> ret old
     | None \<Rightarrow> andThen (put_goods (\<lambda>g. new_keys [sl_id] (x_appeals g) a) (\<lambda>g. g\<lparr>x_appeals := x_appeals g @ [a]\<rparr>)) (\<lambda>_. ret a))"

definition security_appeals_of :: "string \<Rightarrow> security_appeal list site_act" where
  "security_appeals_of user =
     look_goods (\<lambda>g. take 500 (newest_first sl_created (filter (\<lambda>a. user = [] \<or> sl_user a = user) (x_appeals g))))"

section \<open>Policies and decisions\<close>

definition valid_security_action :: "string \<Rightarrow> bool" where
  "valid_security_action a \<longleftrightarrow> a = ''observe'' \<or> a = ''deny_updates'' \<or> a = ''deny_use'' \<or> a = ''block_page''"

definition valid_support_url :: "svc \<Rightarrow> string \<Rightarrow> bool" where
  "valid_support_url sv url \<longleftrightarrow>
     url = [] \<or> (case s_parse_url sv url of
        None \<Rightarrow> False
      | Some u \<Rightarrow> url_host u \<noteq> [] \<and> \<not> url_has_user u \<and> (url_scheme u = ''https'' \<or> url_scheme u = ''http''))"

definition get_security_policy :: "string \<Rightarrow> security_policy site_act" where
  "get_security_policy i =
     andThen (orElse (product_by_id i) ErrProductNotFound) (\<lambda>_. look_goods (security_policy_of i))"

definition set_security_policy :: "host \<Rightarrow> string \<Rightarrow> string \<Rightarrow> security_policy \<Rightarrow> security_policy site_act" where
  "set_security_policy hs i who p0 =
     (if \<not> valid_security_action (sp_action p0) \<or> trim_space (sp_message p0) = [] \<or> 1000 < length (sp_message p0) \<or>
         500 < length (sp_url p0) \<or> \<not> valid_support_url (ho_core hs) (sp_url p0)
      then raise ErrInvalidRequest
      else
        andThen (orElse (product_by_id i) ErrProductNotFound) (\<lambda>_.
        let p = p0\<lparr>sp_product := i\<rparr> in
        andThen (with_tx (
          andThen (save_security_policy p) (\<lambda>_.
          transaction_audit hs ''admin'' who i [] ''security.policy'' (SecurityExtra p)))) (\<lambda>_.
        ret p)))"

text \<open>\<open>securityAction\<close>: the action, with the case that asks for it and the policy.\<close>

definition security_action :: "g_license \<Rightarrow> goods \<Rightarrow> string \<times> security_case option \<times> security_policy" where
  "security_action l g =
     (let p = security_policy_of (gl_product l) g in
      if \<not> sp_enabled p then (''observe'', None, p)
      else case active_case (gl_id l) g of
          None \<Rightarrow> (''observe'', None, p)
        | Some c \<Rightarrow> (sx_action c, Some c, p))"

definition enforce_security :: "g_license \<Rightarrow> bool \<Rightarrow> unit site_act" where
  "enforce_security l updates =
     andThen (look_goods (\<lambda>g. fst (security_action l g))) (\<lambda>a.
     if a = ''deny_use'' \<or> a = ''block_page'' then raise ErrSecurityUse
     else if updates \<and> a = ''deny_updates'' then raise ErrSecurityUpdates
     else ret ())"

definition record_security_signal :: "host \<Rightarrow> g_license \<Rightarrow> string \<Rightarrow> string \<Rightarrow> string \<Rightarrow> security_case site_act" where
  "record_security_signal hs l signal subject evidence =
     andThen (fresh_id hs ''case'') (\<lambda>i.
     with_tx (
       andThen (record_security_case \<lparr>sx_id = i, sx_product = gl_product l, sx_license = gl_id l, sx_no = gl_no l,
         sx_signal = signal, sx_subject = subject, sx_evidence = evidence, sx_status = ''open'', sx_action = ''observe'',
         sx_count = 1, sx_first = now_of hs, sx_last = now_of hs, sx_reason = [], sx_reviewer = []\<rparr>) (\<lambda>c.
       andThen (transaction_audit hs ''client'' [] (gl_product l) (gl_id l) ''security.signal''
         (Fields [(''case_id'', sx_id c), (''signal'', signal)])) (\<lambda>_.
       ret c))))"

definition mismatch_evidence :: string where
  "mismatch_evidence =
     [CHR 0xE6, CHR 0x9C, CHR 0x8D, CHR 0xE5, CHR 0x8A, CHR 0xA1, CHR 0xE7, CHR 0xAB, CHR 0xAF, CHR 0xE9,
     CHR 0xAA, CHR 0x8C, CHR 0xE8, CHR 0xAF, CHR 0x81, CHR 0xE5, CHR 0x8F, CHR 0x91, CHR 0xE7, CHR 0x8E, CHR
     0xB0, CHR 0xE7, CHR 0xBB, CHR 0x91, CHR 0xE5, CHR 0xAE, CHR 0x9A, CHR 0xE4, CHR 0xB8, CHR 0x8D, CHR
     0xE5, CHR 0x8C, CHR 0xB9, CHR 0xE9, CHR 0x85, CHR 0x8D, CHR 0xEF, CHR 0xBC, CHR 0x9B, CHR 0xE5, CHR
     0x8F, CHR 0xAF, CHR 0xE8, CHR 0x83, CHR 0xBD, CHR 0xE4, CHR 0xB8, CHR 0xBA, CHR 0xE9, CHR 0x85, CHR
     0x8D, CHR 0xE7, CHR 0xBD, CHR 0xAE, CHR 0xE9, CHR 0x94, CHR 0x99, CHR 0xE8, CHR 0xAF, CHR 0xAF, CHR
     0xEF, CHR 0xBC, CHR 0x8C, CHR 0xE9, CHR 0x9C, CHR 0x80, CHR 0xE4, CHR 0xBA, CHR 0xBA, CHR 0xE5, CHR
     0xB7, CHR 0xA5, CHR 0xE6, CHR 0xA0, CHR 0xB8, CHR 0xE5, CHR 0xAE, CHR 0x9E, CHR 0xE3, CHR 0x80, CHR
     0x82]"

text \<open>\<open>recordBindingMismatch\<close>; no license is the zero value of \<open>domain.License\<close>.\<close>

definition record_binding_mismatch :: "host \<Rightarrow> g_license option \<Rightarrow> string \<Rightarrow> string \<Rightarrow> unit site_act" where
  "record_binding_mismatch hs lic mode value =
     (case lic of
        None \<Rightarrow> ret ()
      | Some l \<Rightarrow>
          andThen (look_goods (security_policy_of (gl_product l))) (\<lambda>p.
          if \<not> sp_enabled p \<or> \<not> sp_mismatch p then ret ()
          else andThen (record_security_signal hs l ''binding_mismatch'' (mask_public_query mode value) mismatch_evidence)
            (\<lambda>_. ret ())))"

section \<open>Review and appeal\<close>

definition list_security_cases :: "string \<Rightarrow> security_case list site_act" where
  "list_security_cases user =
     andThen (security_cases_of user) (\<lambda>cs.
     ret (if user = [] then cs else map (\<lambda>c. c\<lparr>sx_evidence := [], sx_reviewer := [], sx_reason := []\<rparr>) cs))"

definition review_security_case :: "host \<Rightarrow> string \<Rightarrow> string \<Rightarrow> string \<Rightarrow> string \<Rightarrow> string \<Rightarrow> unit site_act" where
  "review_security_case hs i who status action0 reason =
     (if status \<noteq> ''confirmed'' \<and> status \<noteq> ''resolved'' \<or> trim_space reason = [] \<or> 1000 < length reason
      then raise ErrInvalidRequest
      else
        andThen (orElse (security_case_by_id i) (missing ''SECURITY_CASE_NOT_FOUND'')) (\<lambda>c.
        with_tx (
          andThen (look_goods (security_policy_of (sx_product c))) (\<lambda>p.
          let action = (if status = ''resolved'' then ''observe'' else default_text action0 (sp_action p)) in
          if \<not> valid_security_action action then raise ErrInvalidRequest
          else
            andThen (review_case_rows i status action reason who) (\<lambda>_.
            transaction_audit hs ''admin'' who (sx_product c) (sx_license c) ''security.review''
              (ReviewExtra i status action reason))))))"

definition appeal_security_case :: "host \<Rightarrow> string \<Rightarrow> string \<Rightarrow> string \<Rightarrow> security_appeal site_act" where
  "appeal_security_case hs user i reason =
     (if trim_space reason = [] \<or> 1000 < length reason then raise ErrInvalidRequest
      else
        andThen (orElse (security_case_by_id i) ErrLicenseNotFound) (\<lambda>c.
        with_tx (
          andThen (owner_of (sx_license c)) (\<lambda>owner.
          if owner \<noteq> user then raise ErrLicenseNotFound
          else
            andThen (security_case_by_id i) (\<lambda>fresh.
            if sx_status fresh = ''resolved'' then raise (bad_request ''SECURITY_CASE_RESOLVED'')
            else
              andThen (fresh_id hs ''appeal'') (\<lambda>aid.
              andThen (insert_appeal \<lparr>sl_id = aid, sl_case = i, sl_user = user, sl_reason = reason, sl_status = ''open'',
                sl_created = now_of hs\<rparr>) (\<lambda>a.
              andThen (transaction_audit hs ''customer'' user (sx_product c) (sx_license c) ''security.appeal''
                (Fields [(''case_id'', i), (''appeal_id'', sl_id a)])) (\<lambda>_.
              ret a))))))))"

end
