(* ===== verification/Risk.thy ===== *)
theory Risk
  imports Guard
begin

text \<open>
  Risk control (\<open>service/risk_control.go\<close>, \<open>store/risk_control.go\<close>): blocks of addresses and devices, by hand or
  after a burst of activations with invalid cards, and the alerts for the administrators. An expired block
  is lifted by the next access.
\<close>

definition ErrRiskBlockedIP :: app_err where "ErrRiskBlockedIP = denied ''RISK_IP_BLOCKED''"
definition ErrRiskBlockedDevice :: app_err where "ErrRiskBlockedDevice = denied ''RISK_DEVICE_BLOCKED''"
definition ErrRiskBlockNotFound :: app_err where "ErrRiskBlockNotFound = missing ''RISK_BLOCK_NOT_FOUND''"
definition ErrRiskAlertNotFound :: app_err where "ErrRiskAlertNotFound = missing ''RISK_ALERT_NOT_FOUND''"

section \<open>Statements\<close>

definition block_key :: "risk_block \<Rightarrow> string \<times> string \<times> string" where
  "block_key b = (rb_kind b, rb_product b, rb_hash b)"

text \<open>On a conflict of the key the statement keeps \<open>expires_at\<close>, \<open>id\<close> and \<open>created_at\<close> of the row.\<close>

definition upsert_block :: "risk_block \<Rightarrow> unit site_act" where
  "upsert_block b =
     andThen (look_goods (\<lambda>g. row_of block_key (block_key b) (x_blocks g))) (\<lambda>r.
     case r of
       Some _ \<Rightarrow> change (\<lambda>g. g\<lparr>x_blocks := alter block_key (block_key b)
         (\<lambda>v. v\<lparr>rb_masked := rb_masked b, rb_reason := rb_reason b, rb_status := rb_status b, rb_by := rb_by b,
              rb_updated := rb_updated b\<rparr>) (x_blocks g)\<rparr>)
     | None \<Rightarrow> put_goods (\<lambda>g. new_keys [rb_id] (x_blocks g) b) (\<lambda>g. g\<lparr>x_blocks := x_blocks g @ [b]\<rparr>))"

definition count_recent_events :: "string \<Rightarrow> string \<Rightarrow> string \<Rightarrow> string \<Rightarrow> int \<Rightarrow> nat site_act" where
  "count_recent_events product action result ip since =
     look (\<lambda>d. length (filter (\<lambda>e. lg_type e = ''client'' \<and> lg_product e = product \<and> lg_action e = action \<and>
       lg_result e = result \<and> lg_ip e = ip \<and> \<not> text_less (lg_at e) since) (y_log d)))"

text \<open>The block of the product comes before the one of the platform.\<close>

definition block_in_force :: "string \<Rightarrow> string \<Rightarrow> string \<Rightarrow> goods \<Rightarrow> risk_block option" where
  "block_in_force product kind hash g =
     (let bs = filter (\<lambda>b. rb_kind b = kind \<and> rb_hash b = hash \<and> rb_status b = ''active'' \<and>
        (rb_product b = [] \<or> rb_product b = product)) (x_blocks g) in
      case filter (\<lambda>b. rb_product b = product) bs of
        b # _ \<Rightarrow> Some b
      | [] \<Rightarrow> (case bs of b # _ \<Rightarrow> Some b | [] \<Rightarrow> None))"

definition find_block :: "string \<Rightarrow> string \<Rightarrow> string \<Rightarrow> risk_block site_act" where
  "find_block product kind hash = fetch_goods (block_in_force product kind hash)"

definition blocks_listed :: "string \<Rightarrow> string \<Rightarrow> string \<Rightarrow> risk_block list site_act" where
  "blocks_listed kind status product =
     look_goods (\<lambda>g. newest_first rb_created (filter (\<lambda>b. (kind = [] \<or> rb_kind b = kind) \<and>
       (status = [] \<or> rb_status b = status) \<and> (product = [] \<or> rb_product b = product)) (x_blocks g)))"

definition disable_block_row :: "string \<Rightarrow> int \<Rightarrow> unit site_act" where
  "disable_block_row i t =
     change_found (\<lambda>g. list_ex (\<lambda>b. rb_id b = i \<and> rb_status b = ''active'') (x_blocks g))
       (\<lambda>g. g\<lparr>x_blocks := alter rb_id i (\<lambda>b. if rb_status b = ''active''
          then b\<lparr>rb_status := ''disabled'', rb_updated := t\<rparr> else b) (x_blocks g)\<rparr>)"

text \<open>One alert is open for a product, type and subject (\<open>open_marker\<close> is NULL in resolved ones).\<close>

definition alert_key :: "risk_alert \<Rightarrow> string \<times> string \<times> string \<times> bool" where
  "alert_key a = (al_product a, al_type a, al_hash a, al_open a)"

definition upsert_alert :: "risk_alert \<Rightarrow> risk_alert site_act" where
  "upsert_alert a0 =
     (let a = a0\<lparr>al_open := True\<rparr> in
      andThen (look_goods (\<lambda>g. row_of alert_key (alert_key a) (x_alerts g))) (\<lambda>r.
      andThen (case r of
          Some _ \<Rightarrow> change (\<lambda>g. g\<lparr>x_alerts := alter alert_key (alert_key a)
            (\<lambda>v. v\<lparr>al_count := al_count v + 1, al_severity := al_severity a, al_detail := al_detail a,
                 al_license := al_license a, al_binding := al_binding a, al_masked := al_masked a,
                 al_last := al_last a, al_updated := al_updated a\<rparr>) (x_alerts g)\<rparr>)
        | None \<Rightarrow> put_goods (\<lambda>g. new_keys [al_id] (x_alerts g) a) (\<lambda>g. g\<lparr>x_alerts := x_alerts g @ [a]\<rparr>)) (\<lambda>_.
      fetch_goods (\<lambda>g. row_of alert_key (alert_key a) (x_alerts g)))))"

definition severity_rank :: "string \<Rightarrow> nat" where
  "severity_rank s = (if s = ''critical'' then 0 else if s = ''high'' then 1 else if s = ''medium'' then 2 else 3)"

definition alerts_listed :: "string \<Rightarrow> string \<Rightarrow> string \<Rightarrow> string \<Rightarrow> nat \<Rightarrow> risk_alert list site_act" where
  "alerts_listed status sev kind product limit =
     look_goods (\<lambda>g. take limit (sort_key (\<lambda>a. severity_rank (al_severity a)) (newest_first al_last
       (filter (\<lambda>a. (status = [] \<or> al_status a = status) \<and> (sev = [] \<or> al_severity a = sev) \<and>
         (kind = [] \<or> al_type a = kind) \<and> (product = [] \<or> al_product a = product)) (x_alerts g)))))"

definition resolve_alert_row :: "string \<Rightarrow> string \<Rightarrow> int \<Rightarrow> unit site_act" where
  "resolve_alert_row i who t =
     change_found (\<lambda>g. list_ex (\<lambda>a. al_id a = i \<and> al_status a = ''open'') (x_alerts g))
       (\<lambda>g. g\<lparr>x_alerts := alter al_id i (\<lambda>a. if al_status a = ''open''
          then a\<lparr>al_status := ''resolved'', al_open := False, al_resolved := Some t, al_resolved_by := who, al_updated := t\<rparr>
          else a) (x_alerts g)\<rparr>)"

definition risk_summary_since :: "int \<Rightarrow> risk_summary site_act" where
  "risk_summary_since since =
     look_goods (\<lambda>g. \<lparr>rm_blocks = length (filter (\<lambda>b. rb_status b = ''active'') (x_blocks g)),
       rm_open = length (filter (\<lambda>a. al_status a = ''open'') (x_alerts g)),
       rm_critical = length (filter (\<lambda>a. al_status a = ''open'' \<and> al_severity a = ''critical'') (x_alerts g)),
       rm_day = length (filter (\<lambda>a. \<not> text_less (al_last a) since) (x_alerts g))\<rparr>)"

section \<open>Blocks by hand\<close>

definition create_risk_block :: "host \<Rightarrow> string \<Rightarrow> string \<Rightarrow> string \<Rightarrow> string \<Rightarrow> string \<Rightarrow> risk_block site_act" where
  "create_risk_block hs product0 kind0 value0 reason0 who =
     (let product = trim_space product0; kind = to_lower (ho_core hs) (trim_space kind0); reason = trim_space reason0 in
      case normalize_risk_value kind value0 of
        Inl _ \<Rightarrow> raise ErrInvalidRequest
      | Inr value \<Rightarrow>
          if reason = [] \<or> 500 < length reason then raise ErrInvalidRequest
          else
            andThen (if product = [] then ret ()
                     else andThen (orMissing (product_by_id product) ErrProductNotFound) (\<lambda>_. ret ())) (\<lambda>_.
            andThen (fresh_id hs ''rblock'') (\<lambda>i.
            andThen (upsert_block \<lparr>rb_id = i, rb_product = product, rb_kind = kind, rb_hash = risk_hash hs kind value,
              rb_masked = mask_risk_value kind value, rb_reason = reason, rb_status = ''active'', rb_by = who,
              rb_created = now_of hs, rb_updated = now_of hs, rb_expires = None\<rparr>) (\<lambda>_.
            andThen (quiet (audit hs ''admin'' who product [] [] ''risk_block.create'' ''success'' [])) (\<lambda>_.
            find_block product kind (risk_hash hs kind value))))))"

definition list_risk_blocks :: "string \<Rightarrow> string \<Rightarrow> string \<Rightarrow> risk_block list site_act" where
  "list_risk_blocks kind status product =
     (if kind \<noteq> [] \<and> kind \<noteq> ''ip'' \<and> kind \<noteq> ''device'' then raise ErrInvalidRequest
      else if status \<noteq> [] \<and> status \<noteq> ''active'' \<and> status \<noteq> ''disabled'' then raise ErrInvalidRequest
      else blocks_listed kind status product)"

definition disable_risk_block :: "host \<Rightarrow> string \<Rightarrow> string \<Rightarrow> unit site_act" where
  "disable_risk_block hs i who =
     (if trim_space i = [] then raise ErrInvalidRequest
      else andThen (orMissing (disable_block_row i (now_of hs)) ErrRiskBlockNotFound) (\<lambda>_.
        quiet (audit hs ''admin'' who [] [] [] ''risk_block.disable'' ''success'' [])))"

definition list_risk_alerts :: "string \<Rightarrow> string \<Rightarrow> string \<Rightarrow> string \<Rightarrow> int \<Rightarrow> risk_alert list site_act" where
  "list_risk_alerts status sev kind product limit =
     (let n = (if limit \<le> 0 then 100 else limit) in
      alerts_listed status sev kind product (nat (if 500 < n then 500 else n)))"

definition resolve_risk_alert :: "host \<Rightarrow> string \<Rightarrow> string \<Rightarrow> unit site_act" where
  "resolve_risk_alert hs i who =
     (if trim_space i = [] then raise ErrInvalidRequest
      else andThen (orMissing (resolve_alert_row i who (now_of hs)) ErrRiskAlertNotFound) (\<lambda>_.
        quiet (audit hs ''admin'' who [] [] [] ''risk_alert.resolve'' ''success'' [])))"

definition get_risk_summary :: "host \<Rightarrow> risk_summary site_act" where
  "get_risk_summary hs = risk_summary_since (now_of hs - 24 * hour)"

section \<open>Alerts\<close>

definition record_risk_alert ::
  "host \<Rightarrow> string \<Rightarrow> string \<Rightarrow> string \<Rightarrow> string \<Rightarrow> string \<Rightarrow> string \<Rightarrow> string \<Rightarrow> string \<Rightarrow> unit site_act" where
  "record_risk_alert hs product lic binding kind sev subject_kind subject detail =
     (case normalize_risk_value subject_kind subject of
        Inl _ \<Rightarrow> ret ()
      | Inr value \<Rightarrow>
          andThen (fresh_id hs ''ralert'') (\<lambda>i.
          quiet (upsert_alert \<lparr>al_id = i, al_product = product, al_license = lic, al_binding = binding, al_type = kind,
            al_severity = sev, al_status = ''open'', al_kind = subject_kind, al_hash = risk_hash hs subject_kind value,
            al_masked = mask_risk_value subject_kind value, al_open = True, al_detail = detail, al_count = 1,
            al_first = now_of hs, al_last = now_of hs, al_resolved = None, al_resolved_by = [], al_created = now_of hs,
            al_updated = now_of hs\<rparr>)))"

text \<open>The letter gets the masked address, the reason and the instant at which the block ends.\<close>

definition notify_admin_risk_block :: "host \<Rightarrow> string \<Rightarrow> string \<Rightarrow> int \<Rightarrow> unit site_act" where
  "notify_admin_risk_block hs ip reason until =
     quiet (
       andThen (email_runtime_of hs) (\<lambda>r.
       if \<not> usable r then ret ()
       else andThen admin_email_recipients (\<lambda>to.
         if to = [] then ret ()
         else andThen (look y_site) (\<lambda>site.
           case ho_letter hs ''risk_alert'' [(''site'', ss_name site), (''subject'', mask_risk_value ''ip'' ip),
               (''reason'', reason), (''until'', itoa (unix until))] of
             None \<Rightarrow> ret ()
           | Some (subject, html) \<Rightarrow> andThen (queue_email hs to subject ''risk_alert'' [] html []) (\<lambda>_. ret ())))))"

section \<open>Access\<close>

text \<open>The details of alerts, in UTF-8.\<close>

definition blocked_ip_detail :: string where
  "blocked_ip_detail =
     [CHR 0xE9, CHR 0xBB, CHR 0x91, CHR 0xE5, CHR 0x90, CHR 0x8D, CHR 0xE5, CHR 0x8D, CHR 0x95] @ '' IP '' @
     [CHR 0xE5, CHR 0xB0, CHR 0x9D, CHR 0xE8, CHR 0xAF, CHR 0x95, CHR 0xE8, CHR 0xAE, CHR 0xBF, CHR 0xE9,
     CHR 0x97, CHR 0xAE, CHR 0xE6, CHR 0x8E, CHR 0x88, CHR 0xE6, CHR 0x9D, CHR 0x83, CHR 0xE6, CHR 0x8E, CHR
     0xA5, CHR 0xE5, CHR 0x8F, CHR 0xA3]"

definition blocked_device_detail :: string where
  "blocked_device_detail =
     [CHR 0xE9, CHR 0xBB, CHR 0x91, CHR 0xE5, CHR 0x90, CHR 0x8D, CHR 0xE5, CHR 0x8D, CHR 0x95, CHR 0xE8,
     CHR 0xAE, CHR 0xBE, CHR 0xE5, CHR 0xA4, CHR 0x87, CHR 0xE5, CHR 0xB0, CHR 0x9D, CHR 0xE8, CHR 0xAF, CHR
     0x95, CHR 0xE8, CHR 0xAE, CHR 0xBF, CHR 0xE9, CHR 0x97, CHR 0xAE, CHR 0xE6, CHR 0x8E, CHR 0x88, CHR
     0xE6, CHR 0x9D, CHR 0x83, CHR 0xE6, CHR 0x8E, CHR 0xA5, CHR 0xE5, CHR 0x8F, CHR 0xA3]"

definition many_licenses_detail :: "nat \<Rightarrow> string" where
  "many_licenses_detail n =
     [CHR 0xE5, CHR 0x90, CHR 0x8C, CHR 0xE4, CHR 0xB8, CHR 0x80, CHR 0xE8, CHR 0xAE, CHR 0xBE, CHR 0xE5,
     CHR 0xA4, CHR 0x87, CHR 0xE5, CHR 0xB7, CHR 0xB2, CHR 0xE5, CHR 0x85, CHR 0xB3, CHR 0xE8, CHR 0x81, CHR
     0x94] @ '' '' @ itoa (int n) @ '' '' @ [CHR 0xE4, CHR 0xB8, CHR 0xAA, CHR 0xE6, CHR 0x8E, CHR 0x88, CHR
     0xE6, CHR 0x9D, CHR 0x83]"

definition burst_detail :: "nat \<Rightarrow> string" where
  "burst_detail n =
     [CHR 0xE5, CHR 0x90, CHR 0x8C, CHR 0xE4, CHR 0xB8, CHR 0x80] @ '' IP '' @ [CHR 0xE5, CHR 0x9C, CHR
     0xA8] @ '' 10 '' @ [CHR 0xE5, CHR 0x88, CHR 0x86, CHR 0xE9, CHR 0x92, CHR 0x9F, CHR 0xE5, CHR 0x86, CHR
     0x85, CHR 0xE5, CHR 0xAE, CHR 0x8C, CHR 0xE6, CHR 0x88, CHR 0x90] @ '' '' @ itoa (int n) @ '' '' @ [CHR
     0xE6, CHR 0xAC, CHR 0xA1, CHR 0xE6, CHR 0xBF, CHR 0x80, CHR 0xE6, CHR 0xB4, CHR 0xBB]"

definition failures_detail :: "nat \<Rightarrow> string" where
  "failures_detail n =
     [CHR 0xE5, CHR 0x90, CHR 0x8C, CHR 0xE4, CHR 0xB8, CHR 0x80] @ '' IP '' @ [CHR 0xE5, CHR 0x9C, CHR
     0xA8] @ '' 10 '' @ [CHR 0xE5, CHR 0x88, CHR 0x86, CHR 0xE9, CHR 0x92, CHR 0x9F, CHR 0xE5, CHR 0x86, CHR
     0x85, CHR 0xE8, CHR 0xBF, CHR 0x9E, CHR 0xE7, CHR 0xBB, CHR 0xAD, CHR 0xE6, CHR 0xBF, CHR 0x80, CHR
     0xE6, CHR 0xB4, CHR 0xBB, CHR 0xE5, CHR 0xA4, CHR 0xB1, CHR 0xE8, CHR 0xB4, CHR 0xA5] @ '' '' @ itoa
     (int n) @ '' '' @ [CHR 0xE6, CHR 0xAC, CHR 0xA1]"

definition auto_block_reason :: "nat \<Rightarrow> string" where
  "auto_block_reason n =
     [CHR 0xE9, CHR 0xA3, CHR 0x8E, CHR 0xE6, CHR 0x8E, CHR 0xA7, CHR 0xE8, CHR 0x87, CHR 0xAA, CHR 0xE5,
     CHR 0x8A, CHR 0xA8, CHR 0xE5, CHR 0xB0, CHR 0x81, CHR 0xE7, CHR 0xA6, CHR 0x81, CHR 0xEF, CHR 0xBC, CHR
     0x9A, CHR 0xE8, CHR 0xAF, CHR 0xA5] @ '' IP '' @ [CHR 0xE5, CHR 0x9C, CHR 0xA8] @ '' 10 '' @ [CHR 0xE5,
     CHR 0x88, CHR 0x86, CHR 0xE9, CHR 0x92, CHR 0x9F, CHR 0xE5, CHR 0x86, CHR 0x85, CHR 0xE5, CHR 0x87, CHR
     0xBA, CHR 0xE7, CHR 0x8E, CHR 0xB0] @ '' '' @ itoa (int n) @ '' '' @ [CHR 0xE6, CHR 0xAC, CHR 0xA1, CHR
     0xE5, CHR 0x8D, CHR 0xA1, CHR 0xE5, CHR 0xAF, CHR 0x86, CHR 0xE6, CHR 0x97, CHR 0xA0, CHR 0xE6, CHR
     0x95, CHR 0x88, CHR 0xE7, CHR 0x9A, CHR 0x84, CHR 0xE6, CHR 0xBF, CHR 0x80, CHR 0xE6, CHR 0xB4, CHR
     0xBB, CHR 0xE5, CHR 0xB0, CHR 0x9D, CHR 0xE8, CHR 0xAF, CHR 0x95]"

text \<open>\<open>riskBlockedError\<close> changes the message of the error only.\<close>

definition check_ip_access :: "host \<Rightarrow> string \<Rightarrow> string \<Rightarrow> unit site_act" where
  "check_ip_access hs product ip0 =
     (case normalize_risk_value ''ip'' ip0 of
        Inl _ \<Rightarrow> ret ()
      | Inr ip \<Rightarrow>
          andThen (optional (find_block product ''ip'' (risk_hash hs ''ip'' ip))) (\<lambda>r.
          case r of
            None \<Rightarrow> ret ()
          | Some b \<Rightarrow>
              if (case rb_expires b of None \<Rightarrow> False | Some e \<Rightarrow> e \<le> now_of hs)
              then quiet (disable_block_row (rb_id b) (now_of hs))
              else andThen (record_risk_alert hs product [] [] ''blocked_ip'' ''critical'' ''ip'' ip blocked_ip_detail) (\<lambda>_.
                raise ErrRiskBlockedIP)))"

definition check_device_access :: "host \<Rightarrow> string \<Rightarrow> string \<Rightarrow> unit site_act" where
  "check_device_access hs product value =
     (case normalize_risk_value ''device'' value of
        Inl _ \<Rightarrow> raise ErrInvalidRequest
      | Inr device \<Rightarrow>
          andThen (optional (find_block product ''device'' (risk_hash hs ''device'' device))) (\<lambda>r.
          case r of
            None \<Rightarrow> ret ()
          | Some _ \<Rightarrow>
              andThen (record_risk_alert hs product [] [] ''blocked_device'' ''critical'' ''device'' device blocked_device_detail)
                (\<lambda>_. raise ErrRiskBlockedDevice)))"

definition check_risk_access :: "host \<Rightarrow> string \<Rightarrow> string \<Rightarrow> string \<Rightarrow> string \<Rightarrow> unit site_act" where
  "check_risk_access hs product ip mode value =
     andThen (check_ip_access hs product ip) (\<lambda>_.
     if mode = ''device'' then check_device_access hs product value else ret ())"

section \<open>Activations\<close>

definition evaluate_activation_risk ::
  "host \<Rightarrow> string \<Rightarrow> g_license \<Rightarrow> g_binding \<Rightarrow> string \<Rightarrow> string \<Rightarrow> unit site_act" where
  "evaluate_activation_risk hs product l b ip value =
     andThen (if gb_mode b = ''device''
              then andThen (count_bindings_by_hash product (gb_hash b)) (\<lambda>n.
                if 3 \<le> n
                then record_risk_alert hs product (gl_id l) (gb_id b) ''device_multi_license'' ''high'' ''device'' value
                  (many_licenses_detail n)
                else ret ())
              else ret ()) (\<lambda>_.
     case normalize_risk_value ''ip'' ip of
       Inl _ \<Rightarrow> ret ()
     | Inr addr \<Rightarrow>
         andThen (count_recent_events product ''license.activate'' ''success'' ip (now_of hs - 10 * minute)) (\<lambda>n.
         if 10 \<le> n
         then record_risk_alert hs product (gl_id l) (gb_id b) ''ip_activation_burst'' ''high'' ''ip'' addr (burst_detail n)
         else ret ()))"

definition auto_block_threshold :: nat where "auto_block_threshold = 12"
definition auto_block_ttl :: int where "auto_block_ttl = 24 * hour"

definition is_credential_probe_failure :: "app_err \<Rightarrow> bool" where
  "is_credential_probe_failure e \<longleftrightarrow>
     (case e of AppError code _ \<Rightarrow> code = ''CARD_INVALID'' \<or> code = ''CARD_NOT_FOUND'' | _ \<Rightarrow> False)"

definition auto_block_ip :: "host \<Rightarrow> string \<Rightarrow> string \<Rightarrow> string \<Rightarrow> unit site_act" where
  "auto_block_ip hs product ip reason =
     (let hash = risk_hash hs ''ip'' ip; until = now_of hs + auto_block_ttl in
      andThen (attempt (find_block product ''ip'' hash)) (\<lambda>found.
      if found \<noteq> Inl NoRows then ret ()
      else
        andThen (fresh_id hs ''rblock'') (\<lambda>i.
        andThen (attempt (upsert_block \<lparr>rb_id = i, rb_product = product, rb_kind = ''ip'', rb_hash = hash,
          rb_masked = mask_risk_value ''ip'' ip, rb_reason = reason, rb_status = ''active'', rb_by = ''system:risk'',
          rb_created = now_of hs, rb_updated = now_of hs, rb_expires = Some until\<rparr>)) (\<lambda>r.
        case r of
          Inl _ \<Rightarrow> ret ()
        | Inr _ \<Rightarrow>
            andThen (record_risk_alert hs product [] [] ''activation_auto_blocked'' ''critical'' ''ip'' ip reason) (\<lambda>_.
            andThen (quiet (audit hs ''system'' ''system:risk'' product [] [] ''risk_block.auto_create'' ''success'' [])) (\<lambda>_.
            notify_admin_risk_block hs ip reason until))))))"

definition evaluate_failed_activation_risk :: "host \<Rightarrow> string \<Rightarrow> string \<Rightarrow> app_err \<Rightarrow> unit site_act" where
  "evaluate_failed_activation_risk hs product ip0 cause =
     (if \<not> is_credential_probe_failure cause then ret ()
      else case normalize_risk_value ''ip'' ip0 of
          Inl _ \<Rightarrow> ret ()
        | Inr ip \<Rightarrow>
            andThen (count_recent_events product ''license.activate'' ''failed'' ip0 (now_of hs - 10 * minute)) (\<lambda>n.
            if auto_block_threshold \<le> n then auto_block_ip hs product ip (auto_block_reason n)
            else if 5 \<le> n
            then record_risk_alert hs product [] [] ''activation_failure_burst'' ''high'' ''ip'' ip (failures_detail n)
            else ret ()))"

end
