(* ===== verification/Installs.thy ===== *)
theory Installs
  imports Risk
begin

text \<open>
  Installations of an application under a license (\<open>service/installations.go\<close>, \<open>installation_management.go\<close>),
  the guard for changes of bindings (\<open>customers.go\<close>) and the view of bindings by their heartbeats (\<open>online_state.go\<close>).
  An installation proves itself with a secret of 32 bytes, of which the table keeps a keyed hash.
\<close>

definition ErrRebindDenied :: app_err where "ErrRebindDenied = denied ''REBIND_DISABLED''"
definition ErrRebindLimit :: app_err where "ErrRebindLimit = denied ''REBIND_LIMIT_REACHED''"
definition ErrUnbindCooldown :: app_err where "ErrUnbindCooldown = denied ''UNBIND_COOLDOWN''"
definition ErrOwnerRequired :: app_err where "ErrOwnerRequired = denied ''OWNER_REQUIRED''"

section \<open>Credentials of an installation\<close>

text \<open>\<open>hex.DecodeString\<close>; the bytes do not matter here, only whether they are well formed and how many.\<close>

fun hex_decode :: "string \<Rightarrow> string option" where
  "hex_decode [] = Some []"
| "hex_decode [c] = None"
| "hex_decode (c # d # s) =
     (case (hex_digit c, hex_digit d) of
        (Some a, Some b) \<Rightarrow> map_option (\<lambda>r. char_of (nat (16 * a + b)) # r) (hex_decode s)
      | _ \<Rightarrow> None)"

text \<open>\<open>instanceIDPattern\<close>: \<open>^[a-z0-9_-]{16,64}$\<close>.\<close>

definition is_instance_id :: "string \<Rightarrow> bool" where
  "is_instance_id s \<longleftrightarrow>
     16 \<le> length s \<and> length s \<le> 64 \<and> list_all (\<lambda>c. is_lower c \<or> is_digit c \<or> c = CHR ''_'' \<or> c = CHR ''-'') s"

definition instance_hash :: "host \<Rightarrow> string \<Rightarrow> string \<Rightarrow> string" where
  "instance_hash hs kind value = hex_encode (s_hmac_with (ho_core hs) (ho_pepper hs) (kind @ nul @ value))"

definition valid_secret :: "string \<Rightarrow> bool" where
  "valid_secret s \<longleftrightarrow> (case hex_decode s of None \<Rightarrow> False | Some raw \<Rightarrow> length raw = 32)"

definition validate_instance :: "g_product \<Rightarrow> client_instance \<Rightarrow> app_err + unit" where
  "validate_instance p ci =
     (let t = legacy_terms p in
      if \<not> tm_instance t \<and> ci_instance ci = [] \<and> ci_secret ci = [] then Inr ()
      else if \<not> is_instance_id (ci_instance ci) \<or> \<not> valid_secret (ci_secret ci) \<or> 256 < length (ci_device ci) \<or>
        0 < tm_devices t \<and> ci_device ci = []
      then Inl (bad_request ''INSTANCE_REQUIRED'')
      else Inr ())"

section \<open>Registration\<close>

text \<open>The value of the binding names the installation, where the mode says so.\<close>

definition bound_instance :: "host \<Rightarrow> g_product \<Rightarrow> string \<Rightarrow> string option" where
  "bound_instance hs p value =
     (if gp_mode p = ''instance'' then Some value
      else if gp_mode p = ''composite''
      then (case ho_map_parse hs value of None \<Rightarrow> None | Some m \<Rightarrow> map_of m ''instance'')
      else None)"

definition known_installation ::
  "host \<Rightarrow> g_license \<Rightarrow> g_binding \<Rightarrow> client_instance \<Rightarrow> g_installation \<Rightarrow> unit site_act" where
  "known_installation hs l b ci v =
     (if gi_status v \<noteq> ''active'' then raise (denied ''INSTANCE_DISABLED'')
      else if gi_secret v \<noteq> instance_hash hs ''instance'' (ci_secret ci) then raise (denied ''INSTANCE_INVALID'')
      else if gi_binding v \<noteq> gb_id b then raise ErrBindingMismatch
      else touch_installation (gl_id l) (ci_instance ci) (now_of hs))"

definition new_installation ::
  "host \<Rightarrow> g_product \<Rightarrow> g_license \<Rightarrow> g_binding \<Rightarrow> client_instance \<Rightarrow> string \<Rightarrow> unit site_act" where
  "new_installation hs p l b ci label =
     (let hash = instance_hash hs ''device'' (default_text (ci_device ci) (ci_instance ci)); t = legacy_terms p in
      andThen (installation_counts (gl_id l) hash) (\<lambda>(count, devices, same).
      if tm_deployments t \<le> int count then raise (denied ''DEPLOYMENT_LIMIT_EXCEEDED'')
      else if 0 < tm_devices t \<and> same = 0 \<and> tm_devices t \<le> int devices then raise ErrDeviceLimitExceeded
      else if 160 < length label then raise ErrInvalidRequest
      else
        andThen (insert_installation \<lparr>gi_license = gl_id l, gi_id = ci_instance ci, gi_binding = gb_id b,
          gi_secret = instance_hash hs ''instance'' (ci_secret ci), gi_device = hash, gi_label = label,
          gi_status = ''active'', gi_seen = now_of hs, gi_created = now_of hs\<rparr>) (\<lambda>_.
        transaction_audit hs ''client'' (ci_instance ci) (gp_id p) (gl_id l) ''installation.register''
          (Fields [(''instance_id'', ci_instance ci)]))))"

text \<open>\<open>registerInstallationTx\<close>: \<open>user\<close>, \<open>value\<close> and \<open>label\<close> are \<open>OwnerUserID\<close>, \<open>BindValue\<close>, \<open>DeviceName\<close>.\<close>

definition register_installation ::
  "host \<Rightarrow> g_product \<Rightarrow> g_license \<Rightarrow> g_binding \<Rightarrow> client_instance \<Rightarrow> string \<Rightarrow> string \<Rightarrow> string \<Rightarrow> unit site_act" where
  "register_installation hs p l b ci user value label =
     (if user \<noteq> [] \<and> ci_instance ci = [] \<and> ci_secret ci = [] then ret ()
      else
        andThen (pureA (validate_instance p ci)) (\<lambda>_.
        if ci_instance ci = [] then ret ()
        else if (case bound_instance hs p value of None \<Rightarrow> False | Some i \<Rightarrow> i \<noteq> ci_instance ci)
        then raise ErrBindingMismatch
        else
          andThen (optional (installation_of (gl_id l) (ci_instance ci))) (\<lambda>r.
          case r of
            Some v \<Rightarrow> known_installation hs l b ci v
          | None \<Rightarrow> new_installation hs p l b ci label)))"

section \<open>Checks\<close>

definition has_seat :: "client_instance \<Rightarrow> g_seat list \<Rightarrow> bool" where
  "has_seat ci seats \<longleftrightarrow>
     list_ex (\<lambda>s. gs_id s = ci_seat ci \<and> gs_instance s = ci_instance ci \<and> gs_session s = ci_session ci) seats"

definition check_installation ::
  "host \<Rightarrow> g_product \<Rightarrow> g_license \<Rightarrow> g_binding \<Rightarrow> client_instance \<Rightarrow> bool \<Rightarrow> unit site_act" where
  "check_installation hs p l b ci need_seat =
     andThen (pureA (validate_instance p ci)) (\<lambda>_.
     if ci_instance ci = [] then ret ()
     else
       andThen (attempt (installation_of (gl_id l) (ci_instance ci))) (\<lambda>r.
       case r of
         Inl _ \<Rightarrow> raise (denied ''INSTANCE_INVALID'')
       | Inr v \<Rightarrow>
           if gi_status v \<noteq> ''active'' \<or> gi_secret v \<noteq> instance_hash hs ''instance'' (ci_secret ci)
           then raise (denied ''INSTANCE_INVALID'')
           else if gi_binding v \<noteq> gb_id b then raise ErrBindingMismatch
           else if 0 < tm_devices (legacy_terms p) \<and> gi_device v \<noteq> instance_hash hs ''device'' (ci_device ci)
           then raise ErrBindingMismatch
           else
             andThen (if need_seat \<and> 0 < tm_seats (legacy_terms p)
                      then andThen (seats_of (gl_id l) (now_of hs)) (\<lambda>seats.
                        if has_seat ci seats then ret () else raise (denied ''SEAT_REQUIRED''))
                      else ret ()) (\<lambda>_.
             touch_installation (gl_id l) (ci_instance ci) (now_of hs))))"

section \<open>Changes of bindings\<close>

definition terms_policy :: "g_product \<Rightarrow> change_policy" where
  "terms_policy p =
     \<lparr>by_product = gp_id p, by_mode = gp_mode p, by_allowed = gp_unbinds p \<noteq> 0, by_limit = gp_unbinds p,
      by_cooldown = gp_cooldown p, by_transfer = False\<rparr>"

definition has_v2_terms :: "g_license \<Rightarrow> bool" where
  "has_v2_terms l \<longleftrightarrow> (case gl_terms l of None \<Rightarrow> False | Some t \<Rightarrow> 2 \<le> tm_version t)"

definition guard_binding_change :: "host \<Rightarrow> g_product \<Rightarrow> g_license \<Rightarrow> unit site_act" where
  "guard_binding_change hs p l =
     andThen (if has_v2_terms l then ret (terms_policy p) else binding_policy p) (\<lambda>y.
     if \<not> by_allowed y \<or> gp_mode p = ''none'' then raise ErrRebindDenied
     else
       andThen (binding_change_stats (gl_id l)) (\<lambda>(count, recent).
       if 0 \<le> by_limit y \<and> by_limit y \<le> int count then raise ErrRebindLimit
       else if (case recent of None \<Rightarrow> False | Some t \<Rightarrow> now_of hs < t + duration (by_cooldown y) hour)
       then raise ErrUnbindCooldown
       else pureA (ensure_usable p l (now_of hs))))"

section \<open>Management\<close>

definition license_installations :: "string \<Rightarrow> string \<Rightarrow> string \<Rightarrow> g_installation list site_act" where
  "license_installations product no user =
     andThen (attempt (license_by_no no)) (\<lambda>r.
     case r of
       Inl _ \<Rightarrow> raise ErrLicenseNotFound
     | Inr l \<Rightarrow>
         if product \<noteq> [] \<and> gl_product l \<noteq> product \<or> user \<noteq> [] \<and> gl_owner l \<noteq> user then raise ErrLicenseNotFound
         else installations_of (gl_id l))"

definition owner_disables :: "host \<Rightarrow> g_license \<Rightarrow> string \<Rightarrow> unit site_act" where
  "owner_disables hs l i =
     andThen (product_by_id (gl_product l)) (\<lambda>p0.
     andThen (guard_binding_change hs (effective_product p0 (gl_terms l)) l) (\<lambda>_.
     andThen (fresh_id hs ''change'') (\<lambda>c.
     andThen (fresh_id hs ''req'') (\<lambda>q.
     add_binding_change c (gl_id l) [] q (instance_hash hs ''instance-id'' i) ''instance'' (now_of hs)))))"

definition disable_installation ::
  "host \<Rightarrow> string \<Rightarrow> string \<Rightarrow> string \<Rightarrow> string \<Rightarrow> string \<Rightarrow> string \<Rightarrow> unit site_act" where
  "disable_installation hs product no i user who reason =
     (if trim_space reason = [] \<or> 500 < length reason then raise ErrInvalidRequest
      else with_tx (
        andThen (orElse (license_by_no no) ErrLicenseNotFound) (\<lambda>l0.
        if product \<noteq> [] \<and> gl_product l0 \<noteq> product \<or> user \<noteq> [] \<and> gl_owner l0 \<noteq> user then raise ErrLicenseNotFound
        else
          andThen (license_by_id (gl_id l0)) (\<lambda>l.
          if user \<noteq> [] \<and> gl_owner l \<noteq> user then raise ErrLicenseNotFound
          else
            andThen (if user \<noteq> [] then owner_disables hs l i else ret ()) (\<lambda>_.
            andThen (disable_installation_row (gl_id l) i) (\<lambda>_.
            transaction_audit hs (if user \<noteq> [] then ''customer'' else ''admin'') who (gl_product l) (gl_id l)
              ''installation.disable'' (Fields [(''instance_id'', i), (''reason'', reason)])))))))"

section \<open>Heartbeats\<close>

text \<open>\<open>bindingOnlineStates\<close>: the days are \<open>int(since.Hours() / 24)\<close>, towards zero
  (up to the rounding of the floating-point quotient).\<close>

definition last_seen :: "g_binding \<Rightarrow> int" where
  "last_seen b = (case gb_heartbeat b of None \<Rightarrow> gb_activated b | Some h \<Rightarrow> max (gb_activated b) h)"

definition online_grace :: "int \<Rightarrow> int" where
  "online_grace days = (let g = duration days (24 * hour) in if g \<le> 0 then 15 * 24 * hour else g)"

definition online_state :: "int \<Rightarrow> int \<Rightarrow> g_binding \<Rightarrow> g_binding" where
  "online_state grace now b =
     (if gb_status b \<noteq> ''active'' then b
      else let since = now - last_seen b in
        b\<lparr>gb_seen := Some (last_seen b), gb_offline_days := go_div since (24 * hour),
          gb_online := (if since \<le> 24 * hour then ''online'' else if since \<le> grace then ''idle'' else ''offline'')\<rparr>)"

definition binding_online_states :: "g_binding list \<Rightarrow> int \<Rightarrow> int \<Rightarrow> g_binding list" where
  "binding_online_states bs grace_days now = map (online_state (online_grace grace_days) now) bs"

end
