(* ===== verification/Classic.thy ===== *)
theory Classic
  imports Installs
begin

text \<open>
  What a client of the first generation asks for (\<open>service/service.go\<close>): activation with a card, verification,
  heartbeat, renewal and unbinding, and the signed answer. Each handler normalizes the bound value, asks
  the risk control, runs one transaction and logs the outcome.
\<close>

definition ErrCardVoided :: app_err where "ErrCardVoided = denied ''CARD_VOIDED''"
definition ErrCardUsed :: app_err where "ErrCardUsed = denied ''CARD_USED_BY_OTHER_BINDING''"
definition ErrLicensePermanent :: app_err where "ErrLicensePermanent = denied ''LICENSE_PERMANENT''"

section \<open>Requests and answers\<close>

text \<open>\<open>ActivateInput\<close>, \<open>VerifyInput\<close>, \<open>RenewInput\<close>, \<open>UnbindInput\<close>, \<open>LicenseResponse\<close>.\<close>

record activation_input =
  av_instance :: client_instance
  av_user :: string
  av_key :: string
  av_card :: string
  av_mode :: string
  av_value :: string
  av_device :: string
  av_ip :: string
  av_agent :: string

record check_input =
  vi_skip_seat :: bool
  vi_instance :: client_instance
  vi_key :: string
  vi_no :: string
  vi_mode :: string
  vi_value :: string
  vi_ip :: string
  vi_agent :: string

record renew_input =
  ri_instance :: client_instance
  ri_user :: string
  ri_key :: string
  ri_no :: string
  ri_card :: string
  ri_mode :: string
  ri_value :: string
  ri_ip :: string
  ri_agent :: string

record unbind_input =
  ui_instance :: client_instance
  ui_key :: string
  ui_no :: string
  ui_mode :: string
  ui_value :: string
  ui_ip :: string
  ui_agent :: string

record license_reply =
  ly_mode :: string
  ly_value :: string
  ly_terms :: "auth_terms option"
  ly_license_mode :: string
  ly_use :: bool
  ly_update :: bool
  ly_updates :: "int option"
  ly_no :: string
  ly_status :: string
  ly_expired :: "int option"
  ly_grace :: "int option"
  ly_token :: string
  ly_offline :: string
  ly_time :: int

section \<open>The signed answer\<close>

text \<open>\<open>crypto.SignJSON\<close>: an RSA signature over the SHA-256 hash of the JSON text.\<close>

definition sign_json :: "host \<Rightarrow> string \<Rightarrow> (string \<times> claim) list \<Rightarrow> app_err + string" where
  "sign_json hs pem payload =
     (let body = ho_payload_json hs payload in
      case s_rsa_sign (ho_core hs) pem (s_sha256 (ho_core hs) body) of
        None \<Rightarrow> Inl (GoError ''rsa'')
      | Some sig \<Rightarrow> Inr (b64_encode body @ ''.'' @ b64_encode sig))"

definition opened :: "host \<Rightarrow> string \<Rightarrow> app_err + string" where
  "opened hs sealed = (case ho_open hs sealed of None \<Rightarrow> Inl (GoError ''decrypt'') | Some v \<Rightarrow> Inr v)"

definition license_claims ::
  "g_product \<Rightarrow> g_license \<Rightarrow> g_binding \<Rightarrow> string \<Rightarrow> string \<Rightarrow> bool \<Rightarrow> bool \<Rightarrow> string \<Rightarrow> int \<Rightarrow> (string \<times> claim) list" where
  "license_claims p l b digest_text instance_id use upd action now =
     [(''type'', CText ''license''), (''instance_id'', CText instance_id), (''authorization_terms'', CTerms (gl_terms l)),
      (''grace_until'', CWhen (usage_grace_until p l)), (''can_use'', CBool use), (''can_update'', CBool upd),
      (''security_action'', CText action), (''license_no'', CText (gl_no l)), (''product_code'', CText (gp_code p)),
      (''bind_mode'', CText (gb_mode b)), (''bind_hash'', CText (gb_hash b)), (''bind_digest'', CText digest_text),
      (''status'', CText (gl_status l)), (''issued_at'', CTime now), (''expired_at'', CWhen (gl_expired l)),
      (''usage_expired_at'', CWhen (gl_expired l)), (''updates_expired_at'', CWhen (gl_updates l)),
      (''license_mode'', CText (gl_mode l)), (''key_version'', CInt (gp_key_version p))]"

text \<open>How long the offline token is good: the grace of the product, not at all under floating seats, and
  never longer than the license.\<close>

definition offline_limit :: "g_product \<Rightarrow> g_license \<Rightarrow> int \<Rightarrow> int" where
  "offline_limit p l now =
     (let t = (if 0 < tm_seats (legacy_terms p) then now else add_days now (gp_offline_days p)) in
      case usage_grace_until p l of None \<Rightarrow> t | Some g \<Rightarrow> if g < t then g else t)"

definition offline_claims ::
  "g_product \<Rightarrow> g_license \<Rightarrow> g_binding \<Rightarrow> string \<Rightarrow> string \<Rightarrow> bool \<Rightarrow> bool \<Rightarrow> string \<Rightarrow> int \<Rightarrow> (string \<times> claim) list" where
  "offline_claims p l b digest_text instance_id use upd action now =
     [(''type'', CText ''offline_cache''), (''instance_id'', CText instance_id),
      (''authorization_terms'', CTerms (gl_terms l)), (''can_use'', CBool use), (''can_update'', CBool upd),
      (''security_action'', CText action), (''license_no'', CText (gl_no l)), (''product_code'', CText (gp_code p)),
      (''bind_mode'', CText (gb_mode b)), (''bind_hash'', CText (gb_hash b)), (''bind_digest'', CText digest_text),
      (''license_expired_at'', CWhen (usage_grace_until p l)), (''usage_expired_at'', CWhen (gl_expired l)),
      (''updates_expired_at'', CWhen (gl_updates l)), (''license_mode'', CText (gl_mode l)),
      (''offline_until'', CTime (offline_limit p l now)), (''issued_at'', CTime now),
      (''key_version'', CInt (gp_key_version p))]"

definition refused_reply :: "g_license \<Rightarrow> int \<Rightarrow> license_reply" where
  "refused_reply l now =
     \<lparr>ly_mode = [], ly_value = [], ly_terms = gl_terms l, ly_license_mode = gl_mode l, ly_use = False, ly_update = False,
      ly_updates = gl_updates l, ly_no = gl_no l, ly_status = gl_status l, ly_expired = gl_expired l, ly_grace = None,
      ly_token = [], ly_offline = [], ly_time = now\<rparr>"

definition license_response ::
  "host \<Rightarrow> g_product \<Rightarrow> g_license \<Rightarrow> g_binding \<Rightarrow> int \<Rightarrow> client_instance \<Rightarrow> license_reply site_act" where
  "license_response hs p0 l b now ci =
     (let p = effective_product p0 (gl_terms l) in
      andThen (look_goods (\<lambda>g. fst (security_action l g))) (\<lambda>action.
      let use = ensure_usable p l now = Inr () \<and> action \<noteq> ''deny_use'' \<and> action \<noteq> ''block_page'';
          upd = license_can_update l now \<and> action = ''observe'' in
      if \<not> use then ret (refused_reply l now)
      else
        andThen (pureA (opened hs (gp_private p))) (\<lambda>pem.
        andThen (pureA (opened hs (gb_sealed b))) (\<lambda>value.
        let dg = bind_digest (ho_core hs) (gb_mode b) value in
        andThen (pureA (sign_json hs pem (license_claims p l b dg (ci_instance ci) use upd action now))) (\<lambda>token.
        andThen (pureA (sign_json hs pem (offline_claims p l b dg (ci_instance ci) use upd action now))) (\<lambda>offline.
        ret \<lparr>ly_mode = gb_mode b, ly_value = value, ly_terms = gl_terms l, ly_license_mode = gl_mode l, ly_use = use,
             ly_update = upd, ly_updates = gl_updates l, ly_no = gl_no l, ly_status = gl_status l,
             ly_expired = gl_expired l, ly_grace = usage_grace_until p l, ly_token = token, ly_offline = offline,
             ly_time = now\<rparr>))))))"

section \<open>Activation\<close>

definition capped_by :: "int option \<Rightarrow> int option \<Rightarrow> int option" where
  "capped_by updates usage =
     (case usage of
        None \<Rightarrow> updates
      | Some e \<Rightarrow> (case updates of None \<Rightarrow> usage | Some u \<Rightarrow> if e < u then usage else updates))"

definition license_row :: "g_product \<Rightarrow> g_card \<Rightarrow> int \<Rightarrow> string \<Rightarrow> string \<Rightarrow> g_license" where
  "license_row p0 c now i no =
     (let p = effective_product p0 (gc_terms c);
          card_end = (if gc_permanent c then None else Some (add_days now (gc_days c)));
          updates = (if 0 < gp_update_days p then Some (add_days now (gp_update_days p)) else card_end);
          usage = (if gp_license_mode p = ''perpetual'' then None else card_end) in
      \<lparr>gl_terms = gc_terms c, gl_owner = [], gl_mode = default_text (gp_license_mode p) ''subscription'', gl_usage = usage,
       gl_updates = capped_by updates usage, gl_id = i, gl_no = no, gl_product = gp_id p, gl_card = gc_id c,
       gl_agent = gc_agent c, gl_status = ''active'', gl_issued = now, gl_activated = now, gl_expired = usage,
       gl_verified = None, gl_heartbeat = None, gl_offline_version = 1, gl_created = now, gl_updated = now,
       gl_revoked = None, gl_revoked_reason = []\<rparr>)"

definition new_license :: "host \<Rightarrow> g_product \<Rightarrow> g_card \<Rightarrow> int \<Rightarrow> g_license site_act" where
  "new_license hs p c now =
     andThen (fresh_id hs ''licid'') (\<lambda>i. andThen (fresh_id hs ''lic'') (\<lambda>no. ret (license_row p c now i no)))"

text \<open>The license of the card: a new one for a card that has none.\<close>

definition card_license :: "host \<Rightarrow> g_product \<Rightarrow> string \<Rightarrow> g_card \<Rightarrow> g_license site_act" where
  "card_license hs p user c =
     andThen (if gc_license c = []
       then andThen (new_license hs p c (now_of hs)) (\<lambda>l0.
         let l = l0\<lparr>gl_owner := user\<rparr> in
         andThen (insert_license l) (\<lambda>_.
         andThen (update_card_activated (gc_id c) (gl_id l) (now_of hs)) (\<lambda>_. ret (gl_id l))))
       else andThen (license_by_id (gc_license c)) (\<lambda>l. ret (gl_id l))) (\<lambda>i.
     license_by_id i)"

text \<open>A free place among the bindings: with the strategy \<open>kick_oldest\<close> the oldest binding makes way.\<close>

definition make_room :: "host \<Rightarrow> g_product \<Rightarrow> g_license \<Rightarrow> string \<Rightarrow> unit site_act" where
  "make_room hs p l hash =
     andThen (count_active_bindings (gl_id l)) (\<lambda>n.
     if gp_max_binds p \<noteq> -1 \<and> gp_max_binds p \<le> int n then
       (if gp_conflict p = ''kick_oldest'' then
          andThen (guard_binding_change hs p l) (\<lambda>_.
          andThen (oldest_active_binding (gl_id l)) (\<lambda>old.
          andThen (mark_binding_kicked (gb_id old) (now_of hs)) (\<lambda>_.
          andThen (fresh_id hs ''change'') (\<lambda>c.
          andThen (fresh_id hs ''req'') (\<lambda>q.
          add_binding_change c (gl_id l) (gb_id old) q hash ''kick'' (now_of hs))))))
        else raise ErrDeviceLimitExceeded)
     else ret ())"

definition new_binding ::
  "host \<Rightarrow> g_product \<Rightarrow> g_license \<Rightarrow> activation_input \<Rightarrow> string \<Rightarrow> string \<Rightarrow> string \<Rightarrow> g_binding site_act" where
  "new_binding hs p l inp mode value hash =
     andThen (seal hs value) (\<lambda>sealed.
     andThen (fresh_id hs ''bind'') (\<lambda>i.
     ret \<lparr>gb_id = i, gb_license = gl_id l, gb_product = gp_id p, gb_mode = mode, gb_hash = hash, gb_sealed = sealed,
          gb_name = av_device inp, gb_status = ''active'', gb_first_ip = av_ip inp, gb_last_ip = av_ip inp,
          gb_user_agent = av_agent inp, gb_heartbeat = None, gb_activated = now_of hs, gb_created = now_of hs,
          gb_updated = now_of hs, gb_unbound = None, gb_kicked = None, gb_revoked = None, gb_seen = None,
          gb_online = [], gb_offline_days = 0\<rparr>))"

definition usable_card :: "g_product \<Rightarrow> g_card \<Rightarrow> app_err + unit" where
  "usable_card p c =
     (if gc_product c \<noteq> gp_id p then Inl ErrCardInvalid
      else if gc_status c = ''voided'' then Inl ErrCardVoided
      else if gc_status c \<noteq> ''unused'' \<and> gc_status c \<noteq> ''activated'' then Inl ErrCardUsed
      else Inr ())"

definition bind_value ::
  "host \<Rightarrow> g_product \<Rightarrow> g_license \<Rightarrow> activation_input \<Rightarrow> string \<Rightarrow> string \<Rightarrow> string \<Rightarrow> string \<Rightarrow> g_binding site_act" where
  "bind_value hs p l inp raw mode value hash =
     andThen (optional (active_binding_by_hash (gl_id l) mode hash)) (\<lambda>r.
     case r of
       Some b \<Rightarrow>
         andThen (register_installation hs p l b (av_instance inp) (av_user inp) raw (av_device inp)) (\<lambda>_. ret b)
     | None \<Rightarrow>
         andThen (make_room hs p l hash) (\<lambda>_.
         andThen (new_binding hs p l inp mode value hash) (\<lambda>b.
         andThen (insert_binding b) (\<lambda>_.
         andThen (index_binding hs b value) (\<lambda>_.
         andThen (register_installation hs p l b (av_instance inp) (av_user inp) raw (av_device inp)) (\<lambda>_.
         andThen (if av_user inp \<noteq> []
                  then transaction_audit hs ''customer'' (av_user inp) (gp_id p) (gl_id l) ''license.claim'' NullExtra
                  else ret ()) (\<lambda>_.
         ret b)))))))"

definition activation_tx ::
  "host \<Rightarrow> g_product \<Rightarrow> activation_input \<Rightarrow> string \<Rightarrow> string \<Rightarrow> string \<Rightarrow> string \<Rightarrow> (g_license \<times> g_binding) site_act" where
  "activation_tx hs p inp raw mode value hash =
     andThen (orMissing (card_by_hash (code_hash hs (av_card inp))) ErrCardInvalid) (\<lambda>c.
     andThen (pureA (usable_card p c)) (\<lambda>_.
     andThen (card_license hs p (av_user inp) c) (\<lambda>l.
     if av_user inp \<noteq> [] \<and> gl_owner l \<noteq> av_user inp then raise ErrOwnerRequired
     else
       andThen (pureA (ensure_usable p l (now_of hs))) (\<lambda>_.
       andThen (enforce_security l False) (\<lambda>_.
       andThen (bind_value hs p l inp raw mode value hash) (\<lambda>b.
       ret (l, b)))))))"

text \<open>A handler's log entries: \<open>auditClient\<close> with the outcome, whose own failure is ignored.\<close>

definition note_client :: "host \<Rightarrow> string \<Rightarrow> string \<Rightarrow> string \<Rightarrow> app_err option \<Rightarrow> string \<Rightarrow> string \<Rightarrow> unit site_act" where
  "note_client hs product lic action err ip agent_text =
     quiet (audit_client hs product lic [] action (if err = None then ''success'' else ''failed'')
       (case err of None \<Rightarrow> [] | Some e \<Rightarrow> app_code e) ip agent_text)"

text \<open>The first part of a handler: the bound value and the risk control, whose refusal is logged.\<close>

definition admit ::
  "host \<Rightarrow> g_product \<Rightarrow> string \<Rightarrow> string \<Rightarrow> string \<Rightarrow> string \<Rightarrow> string \<Rightarrow> (string \<times> string \<times> string) site_act" where
  "admit hs p action mode0 raw ip agent_text =
     andThen (pureA (normalize_bound hs p mode0 raw)) (\<lambda>(mode, value, hash).
     andThen (attempt (check_risk_access hs (gp_id p) ip mode value)) (\<lambda>r.
     case r of
       Inl e \<Rightarrow> andThen (note_client hs (gp_id p) [] action (Some e) ip agent_text) (\<lambda>_. raise e)
     | Inr _ \<Rightarrow> ret (mode, value, hash)))"

definition activate_card :: "host \<Rightarrow> activation_input \<Rightarrow> license_reply site_act" where
  "activate_card hs inp =
     andThen (product_for_app (av_key inp)) (\<lambda>p0.
     if \<not> validate_checksum (ho_core hs) (gp_code p0) (av_card inp) then raise ErrCardInvalid
     else
       andThen (product_for_card hs p0 (av_card inp)) (\<lambda>p.
       if (case gp_terms p of None \<Rightarrow> False | Some t \<Rightarrow> tm_purpose t \<noteq> [] \<and> tm_purpose t \<noteq> ''license'')
       then raise (bad_request ''CARD_RENEWAL_ONLY'')
       else
         let raw = binding_text hs (av_value inp) (ci_bindings (av_instance inp)) in
         andThen (admit hs p ''license.activate'' (av_mode inp) raw (av_ip inp) (av_agent inp)) (\<lambda>(mode, value, hash).
         andThen (attempt (with_tx (activation_tx hs p inp raw mode value hash))) (\<lambda>r.
         case r of
           Inl e \<Rightarrow>
             andThen (note_client hs (gp_id p) [] ''license.activate'' (Some e) (av_ip inp) (av_agent inp)) (\<lambda>_.
             andThen (evaluate_failed_activation_risk hs (gp_id p) (av_ip inp) e) (\<lambda>_. raise e))
         | Inr (l, b) \<Rightarrow>
             andThen (note_client hs (gp_id p) (gl_id l) ''license.activate'' None (av_ip inp) (av_agent inp)) (\<lambda>_.
             andThen (evaluate_activation_risk hs (gp_id p) l b (av_ip inp) value) (\<lambda>_.
             license_response hs p l b (now_of hs) (av_instance inp)))))))"

section \<open>Verification and heartbeat\<close>

definition own_license :: "g_product \<Rightarrow> string \<Rightarrow> g_license site_act" where
  "own_license p no =
     andThen (orMissing (license_by_no no) ErrLicenseNotFound) (\<lambda>l.
     if gl_product l \<noteq> gp_id p then raise ErrLicenseNotFound else ret l)"

definition verify_tx ::
  "host \<Rightarrow> g_product \<Rightarrow> check_input \<Rightarrow> string \<Rightarrow> string \<Rightarrow> string \<Rightarrow> (g_license \<times> g_binding) site_act" where
  "verify_tx hs p inp mode value hash =
     andThen (own_license p (vi_no inp)) (\<lambda>l.
     if gl_status l = ''revoked'' then raise ErrLicenseRevoked
     else
       andThen (orMissing (authorized_binding hs p (gl_id l) mode value hash) ErrBindingMismatch) (\<lambda>b.
       andThen (check_installation hs p l b (vi_instance inp) (\<not> vi_skip_seat inp)) (\<lambda>_.
       andThen (pureA (ensure_usable p l (now_of hs))) (\<lambda>_.
       andThen (enforce_security l False) (\<lambda>_.
       andThen (update_license_verify (gl_id l) (now_of hs)) (\<lambda>_.
       ret (l, b)))))))"

text \<open>After a mismatch the signal is about the license that the rolled back transaction had read first.\<close>

definition signal_mismatch :: "host \<Rightarrow> string \<Rightarrow> app_err \<Rightarrow> string \<Rightarrow> string \<Rightarrow> unit site_act" where
  "signal_mismatch hs no e mode value =
     (if app_code e \<noteq> ''BINDING_MISMATCH'' then ret ()
      else andThen (attempt (license_by_no no)) (\<lambda>r.
        record_binding_mismatch hs (case r of Inl _ \<Rightarrow> None | Inr l \<Rightarrow> Some l) mode value))"

definition verify_license :: "host \<Rightarrow> check_input \<Rightarrow> license_reply site_act" where
  "verify_license hs inp =
     andThen (product_for_app (vi_key inp)) (\<lambda>p0.
     andThen (product_for_license p0 (vi_no inp)) (\<lambda>p.
     let raw = binding_text hs (vi_value inp) (ci_bindings (vi_instance inp)) in
     andThen (admit hs p ''license.verify'' (vi_mode inp) raw (vi_ip inp) (vi_agent inp)) (\<lambda>(mode, value, hash).
     andThen (attempt (with_tx (verify_tx hs p inp mode value hash))) (\<lambda>r.
     case r of
       Inl e \<Rightarrow>
         andThen (signal_mismatch hs (vi_no inp) e mode value) (\<lambda>_.
         andThen (note_client hs (gp_id p) [] ''license.verify'' (Some e) (vi_ip inp) (vi_agent inp)) (\<lambda>_. raise e))
     | Inr (l, b) \<Rightarrow>
         andThen (note_client hs (gp_id p) (gl_id l) ''license.verify'' None (vi_ip inp) (vi_agent inp)) (\<lambda>_.
         andThen (seal hs value) (\<lambda>sealed.
         license_response hs p l (b\<lparr>gb_sealed := sealed\<rparr>) (now_of hs) (vi_instance inp)))))))"

definition heartbeat_tx :: "host \<Rightarrow> g_product \<Rightarrow> check_input \<Rightarrow> string \<Rightarrow> string \<Rightarrow> string \<Rightarrow> unit site_act" where
  "heartbeat_tx hs p inp mode value hash =
     andThen (own_license p (vi_no inp)) (\<lambda>l.
     andThen (orMissing (authorized_binding hs p (gl_id l) mode value hash) ErrBindingMismatch) (\<lambda>b.
     andThen (check_installation hs p l b (vi_instance inp) True) (\<lambda>_.
     andThen (pureA (ensure_usable p l (now_of hs))) (\<lambda>_.
     andThen (enforce_security l False) (\<lambda>_.
     update_heartbeat (gl_id l) (gb_id b) (now_of hs) (vi_ip inp))))))"

text \<open>The answer is the server's time.\<close>

definition heartbeat :: "host \<Rightarrow> check_input \<Rightarrow> int site_act" where
  "heartbeat hs inp =
     andThen (product_for_app (vi_key inp)) (\<lambda>p0.
     andThen (product_for_license p0 (vi_no inp)) (\<lambda>p.
     let raw = binding_text hs (vi_value inp) (ci_bindings (vi_instance inp)) in
     andThen (admit hs p ''license.heartbeat'' (vi_mode inp) raw (vi_ip inp) (vi_agent inp)) (\<lambda>(mode, value, hash).
     andThen (attempt (with_tx (heartbeat_tx hs p inp mode value hash))) (\<lambda>r.
     case r of
       Inl e \<Rightarrow>
         andThen (note_client hs (gp_id p) [] ''license.heartbeat'' (Some e) (vi_ip inp) (vi_agent inp)) (\<lambda>_. raise e)
     | Inr _ \<Rightarrow>
         andThen (note_client hs (gp_id p) [] ''license.heartbeat'' None (vi_ip inp) (vi_agent inp)) (\<lambda>_.
         ret (now_of hs))))))"

section \<open>Renewal\<close>

text \<open>The license after a renewal with the card; an error where there is nothing to extend.\<close>

definition card_purpose :: "g_card \<Rightarrow> string" where
  "card_purpose c =
     (case gc_terms c of
        Some t \<Rightarrow> if 2 \<le> tm_version t then default_text (tm_purpose t) ''license'' else ''license''
      | None \<Rightarrow> ''license'')"

definition card_update_days :: "g_product \<Rightarrow> g_card \<Rightarrow> int" where
  "card_update_days p c =
     default_int (case gc_terms c of
        Some t \<Rightarrow> if 2 \<le> tm_version t then tm_update_days t else gp_update_days p
      | None \<Rightarrow> gp_update_days p) (gc_days c)"

definition renewed :: "g_product \<Rightarrow> g_license \<Rightarrow> g_card \<Rightarrow> int \<Rightarrow> app_err + g_license" where
  "renewed p l c now =
     (let purpose = card_purpose c in
      if gl_expired l = None \<and> gl_updates l = None then Inl ErrLicensePermanent
      else if purpose = ''renew_usage'' \<and> gl_expired l = None then Inl ErrLicensePermanent
      else
        let usage = (if purpose \<noteq> ''renew_updates'' then extend_expiry (gl_expired l) (gc_days c) (gc_permanent c) now
                     else gl_expired l);
            forever = gc_permanent c \<and> (case gc_terms c of None \<Rightarrow> True | Some t \<Rightarrow> tm_update_days t = 0);
            updates = (if purpose \<noteq> ''renew_usage'' then extend_expiry (gl_updates l) (card_update_days p c) forever now
                       else gl_updates l) in
        Inr (l\<lparr>gl_expired := usage, gl_updates := capped_by updates usage\<rparr>))"

definition renewal_tx ::
  "host \<Rightarrow> g_product \<Rightarrow> renew_input \<Rightarrow> string \<Rightarrow> string \<Rightarrow> string \<Rightarrow> (g_license \<times> g_binding) site_act" where
  "renewal_tx hs p inp mode value hash =
     andThen (orMissing (card_by_hash (code_hash hs (ri_card inp))) ErrCardInvalid) (\<lambda>c.
     if gc_product c \<noteq> gp_id p \<or> gc_status c \<noteq> ''unused'' \<and> gc_status c \<noteq> ''consumed_for_renewal''
     then raise ErrCardInvalid
     else
       andThen (orMissing (license_by_no (ri_no inp)) ErrLicenseNotFound) (\<lambda>l0.
       andThen (license_by_id (gl_id l0)) (\<lambda>l.
       if ri_user inp \<noteq> [] \<and> gl_owner l \<noteq> ri_user inp then raise ErrLicenseNotFound
       else if gl_product l \<noteq> gp_id p then raise ErrLicenseNotFound
       else if gl_status l = ''revoked'' then raise ErrLicenseRevoked
       else
         andThen (enforce_security l False) (\<lambda>_.
         andThen (orMissing (if ri_user inp \<noteq> [] then active_binding_by_hash (gl_id l) mode hash
                             else authorized_binding hs p (gl_id l) mode value hash) ErrBindingMismatch) (\<lambda>b.
         andThen (attempt (check_installation hs p l b (ri_instance inp) False)) (\<lambda>checked.
         case (ri_user inp = [], checked) of
           (True, Inl e) \<Rightarrow> raise e
         | _ \<Rightarrow>
           if gc_status c = ''consumed_for_renewal''
           then (if gc_license c \<noteq> gl_id l then raise ErrCardInvalid else ret (l, b))
           else
             andThen (pureA (renewed p l c (now_of hs))) (\<lambda>l2.
             andThen (update_license_rights l2 (now_of hs)) (\<lambda>_.
             andThen (update_card_consumed (gc_id c) (gl_id l) (now_of hs)) (\<lambda>_.
             andThen (if ri_user inp \<noteq> []
                      then transaction_audit hs ''customer'' (ri_user inp) (gp_id p) (gl_id l) ''license.renew'' NullExtra
                      else ret ()) (\<lambda>_.
             ret (l2\<lparr>gl_usage := gl_expired l2, gl_status := ''active''\<rparr>, b)))))))))))"

definition renew :: "host \<Rightarrow> renew_input \<Rightarrow> license_reply site_act" where
  "renew hs inp =
     andThen (product_for_app (ri_key inp)) (\<lambda>p0.
     andThen (product_for_license p0 (ri_no inp)) (\<lambda>p.
     let raw = binding_text hs (ri_value inp) (ci_bindings (ri_instance inp)) in
     andThen (admit hs p ''license.renew'' (ri_mode inp) raw (ri_ip inp) (ri_agent inp)) (\<lambda>(mode, value, hash).
     if \<not> validate_checksum (ho_core hs) (gp_code p) (ri_card inp) then raise ErrCardInvalid
     else
       andThen (attempt (with_tx (renewal_tx hs p inp mode value hash))) (\<lambda>r.
       case r of
         Inl e \<Rightarrow>
           andThen (note_client hs (gp_id p) [] ''license.renew'' (Some e) (ri_ip inp) (ri_agent inp)) (\<lambda>_. raise e)
       | Inr (l, b) \<Rightarrow>
           andThen (note_client hs (gp_id p) (gl_id l) ''license.renew'' None (ri_ip inp) (ri_agent inp)) (\<lambda>_.
           license_response hs p l b (now_of hs) (ri_instance inp))))))"

section \<open>Unbinding\<close>

definition unbind_tx ::
  "host \<Rightarrow> g_product \<Rightarrow> unbind_input \<Rightarrow> string \<Rightarrow> string \<Rightarrow> string \<Rightarrow> g_license site_act" where
  "unbind_tx hs p inp mode value hash =
     andThen (orMissing (license_by_no (ui_no inp)) ErrLicenseNotFound) (\<lambda>l0.
     andThen (license_by_id (gl_id l0)) (\<lambda>l.
     if gl_product l \<noteq> gp_id p then raise ErrLicenseNotFound
     else if gl_status l = ''revoked'' then raise ErrLicenseRevoked
     else
       andThen (orMissing (authorized_binding hs p (gl_id l) mode value hash) ErrBindingMismatch) (\<lambda>b.
       andThen (check_installation hs p l b (ui_instance inp) False) (\<lambda>_.
       andThen (guard_binding_change hs p l) (\<lambda>_.
       andThen (mark_binding_unbound (gb_id b) (now_of hs)) (\<lambda>_.
       andThen (fresh_id hs ''change'') (\<lambda>c.
       andThen (fresh_id hs ''req'') (\<lambda>q.
       andThen (add_binding_change c (gl_id l) (gb_id b) q (gb_hash b) ''unbind'' (now_of hs)) (\<lambda>_.
       andThen (transaction_audit hs ''client'' [] (gp_id p) (gl_id l) ''binding.unbind'' NullExtra) (\<lambda>_.
       ret l))))))))))"

text \<open>The answer is the number of the license and the server's time.\<close>

definition unbind :: "host \<Rightarrow> unbind_input \<Rightarrow> (string \<times> int) site_act" where
  "unbind hs inp =
     andThen (product_for_app (ui_key inp)) (\<lambda>p0.
     andThen (product_for_license p0 (ui_no inp)) (\<lambda>p.
     let raw = binding_text hs (ui_value inp) (ci_bindings (ui_instance inp)) in
     andThen (admit hs p ''license.unbind'' (ui_mode inp) raw (ui_ip inp) (ui_agent inp)) (\<lambda>(mode, value, hash).
     andThen (attempt (with_tx (unbind_tx hs p inp mode value hash))) (\<lambda>r.
     case r of
       Inl e \<Rightarrow>
         andThen (note_client hs (gp_id p) [] ''license.unbind'' (Some e) (ui_ip inp) (ui_agent inp)) (\<lambda>_. raise e)
     | Inr l \<Rightarrow>
         andThen (note_client hs (gp_id p) (gl_id l) ''license.unbind'' None (ui_ip inp) (ui_agent inp)) (\<lambda>_.
         ret (gl_no l, now_of hs))))))"

end
