(* ===== verification/Lease.thy ===== *)
theory Lease
  imports Classic
begin

text \<open>
  Floating seats and claims of licenses (\<open>service/installations.go\<close>): a session of an installation takes a seat
  for a time, or borrows it for days; an activated installation issues a ticket with which a customer becomes
  the owner of its license.
\<close>

section \<open>Seats\<close>

text \<open>\<open>SeatInput\<close>; its session is the seat's, not the one of the embedded \<open>ClientInstance\<close>.\<close>

record seat_input =
  se_check :: check_input
  se_session :: string
  se_borrow :: int

definition request_value :: "host \<Rightarrow> check_input \<Rightarrow> string" where
  "request_value hs inp = binding_text hs (vi_value inp) (ci_bindings (vi_instance inp))"

text \<open>The license of a request within a transaction: usable, not restricted, and bound to the caller.\<close>

definition bound_license :: "host \<Rightarrow> g_product \<Rightarrow> g_license \<Rightarrow> check_input \<Rightarrow> unit site_act" where
  "bound_license hs p l inp =
     andThen (pureA (ensure_usable p l (now_of hs))) (\<lambda>_.
     andThen (enforce_security l False) (\<lambda>_.
     andThen (pureA (normalize_bound hs p (vi_mode inp) (request_value hs inp))) (\<lambda>(mode, value, hash).
     andThen (orElse (authorized_binding hs p (gl_id l) mode value hash) ErrBindingMismatch) (\<lambda>b.
     check_installation hs p l b (vi_instance inp) False))))"

definition session_seat :: "string \<Rightarrow> string \<Rightarrow> g_seat list \<Rightarrow> g_seat option" where
  "session_seat instance_id session seats = List.find (\<lambda>s. gs_instance s = instance_id \<and> gs_session s = session) seats"

text \<open>How long the seat lasts: the lease of the terms or the borrowed days, and never beyond the license.\<close>

definition seat_end :: "g_product \<Rightarrow> g_license \<Rightarrow> int \<Rightarrow> int \<Rightarrow> int" where
  "seat_end p l borrow now =
     (let until = now + (if 0 < borrow then duration borrow (24 * hour) else duration (tm_lease (legacy_terms p)) second) in
      case usage_grace_until p l of None \<Rightarrow> until | Some g \<Rightarrow> if g < until then g else until)"

definition seat_row :: "host \<Rightarrow> g_product \<Rightarrow> g_license \<Rightarrow> seat_input \<Rightarrow> g_seat \<Rightarrow> g_seat" where
  "seat_row hs p l inp s =
     s\<lparr>gs_borrowed := gs_borrowed s \<or> 0 < se_borrow inp, gs_expires := seat_end p l (se_borrow inp) (now_of hs)\<rparr>"

definition take_seat :: "host \<Rightarrow> g_product \<Rightarrow> g_license \<Rightarrow> seat_input \<Rightarrow> g_seat site_act" where
  "take_seat hs p l inp =
     (let t = legacy_terms p; i = ci_instance (vi_instance (se_check inp)) in
      if tm_seats t < 1 \<or> i = [] then raise (bad_request ''SEATS_DISABLED'')
      else if tm_offline t < se_borrow inp then raise (denied ''OFFLINE_BORROW_DENIED'')
      else
        andThen (seats_of (gl_id l) (now_of hs)) (\<lambda>seats.
        let own = session_seat i (se_session inp) seats in
        case own of
          Some s \<Rightarrow>
            if gs_borrowed s then ret s
            else let v = seat_row hs p l inp s in
              andThen (save_seat v) (\<lambda>_.
              andThen (transaction_audit hs ''client'' i (gp_id p) (gl_id l) ''seat.acquire''
                (ClaimsExtra [(''seat_id'', CText (gs_id v)), (''borrowed'', CBool (gs_borrowed v)),
                  (''expires_at'', CTime (gs_expires v))])) (\<lambda>_. ret v))
        | None \<Rightarrow>
            if tm_seats t \<le> int (length seats) then raise (denied ''SEAT_LIMIT_EXCEEDED'')
            else
              andThen (fresh_id hs ''seat'') (\<lambda>sid.
              let v = seat_row hs p l inp \<lparr>gs_id = sid, gs_license = gl_id l, gs_instance = i, gs_session = se_session inp,
                  gs_expires = 0, gs_borrowed = False, gs_token = []\<rparr> in
              andThen (save_seat v) (\<lambda>_.
              andThen (transaction_audit hs ''client'' i (gp_id p) (gl_id l) ''seat.acquire''
                (ClaimsExtra [(''seat_id'', CText (gs_id v)), (''borrowed'', CBool (gs_borrowed v)),
                  (''expires_at'', CTime (gs_expires v))])) (\<lambda>_. ret v)))))"

definition seat_tx :: "host \<Rightarrow> g_product \<Rightarrow> seat_input \<Rightarrow> (g_seat \<times> g_license \<times> g_product) site_act" where
  "seat_tx hs p0 inp =
     andThen (orElse (own_license p0 (vi_no (se_check inp))) ErrLicenseNotFound) (\<lambda>l0.
     andThen (license_by_id (gl_id l0)) (\<lambda>l.
     let p = effective_product p0 (gl_terms l) in
     andThen (attempt (product_by_id (gp_id p))) (\<lambda>fresh.
     case fresh of
       Inl _ \<Rightarrow> raise ErrProductDisabled
     | Inr f \<Rightarrow>
         if gp_status f \<noteq> ''active'' then raise ErrProductDisabled
         else
           andThen (bound_license hs p l (se_check inp)) (\<lambda>_.
           andThen (take_seat hs p l inp) (\<lambda>s. ret (s, l, p))))))"

definition seat_claims ::
  "host \<Rightarrow> g_product \<Rightarrow> g_license \<Rightarrow> g_seat \<Rightarrow> seat_input \<Rightarrow> string \<Rightarrow> string \<Rightarrow> (string \<times> claim) list" where
  "seat_claims hs p l s inp mode value =
     [(''type'', CText ''offline_cache''), (''purpose'', CText ''seat_lease''), (''product_code'', CText (gp_code p)),
      (''license_no'', CText (vi_no (se_check inp))), (''instance_id'', CText (ci_instance (vi_instance (se_check inp)))),
      (''session_id'', CText (gs_session s)), (''seat_id'', CText (gs_id s)), (''issued_at'', CTime (now_of hs)),
      (''offline_until'', CTime (if tm_offline (legacy_terms p) = 0 then now_of hs else gs_expires s)),
      (''expires_at'', CTime (gs_expires s)), (''borrowed'', CBool (gs_borrowed s)), (''bind_mode'', CText mode),
      (''bind_digest'', CText (bind_digest (ho_core hs) mode value)), (''can_use'', CBool True),
      (''can_update'', CBool False), (''key_version'', CInt (gp_key_version p)), (''authorization_terms'', CTerms (gp_terms p)),
      (''license_mode'', CText (gp_license_mode p)), (''license_expired_at'', CWhen (usage_grace_until p l)),
      (''usage_expired_at'', CWhen (gl_expired l)), (''updates_expired_at'', CWhen (gl_updates l))]"

definition acquire_seat :: "host \<Rightarrow> seat_input \<Rightarrow> g_seat site_act" where
  "acquire_seat hs inp0 =
     (let inp = inp0\<lparr>se_check := (se_check inp0)\<lparr>vi_skip_seat := True\<rparr>\<rparr> in
      if \<not> is_instance_id (se_session inp) \<or> se_borrow inp < 0 then raise ErrInvalidRequest
      else
        andThen (verify_license hs (se_check inp)) (\<lambda>_.
        andThen (product_for_app (vi_key (se_check inp))) (\<lambda>p0.
        andThen (with_tx (seat_tx hs p0 inp)) (\<lambda>(s, l, p).
        andThen (pureA (opened hs (gp_private p))) (\<lambda>pem.
        andThen (pureA (normalize_bound hs p (vi_mode (se_check inp)) (request_value hs (se_check inp)))) (\<lambda>(mode, value, _).
        andThen (pureA (sign_json hs pem (seat_claims hs p l s inp mode value))) (\<lambda>token.
        ret (s\<lparr>gs_token := token\<rparr>))))))))"

definition release_seat :: "host \<Rightarrow> check_input \<Rightarrow> unit site_act" where
  "release_seat hs inp0 =
     (let inp = inp0\<lparr>vi_skip_seat := True\<rparr>; ci = vi_instance inp in
      andThen (verify_license hs inp) (\<lambda>_.
      with_tx (
        andThen (license_by_no (vi_no inp)) (\<lambda>l.
        andThen (release_seat_row (gl_id l) (ci_instance ci) (ci_seat ci) (ci_session ci)) (\<lambda>_.
        transaction_audit hs ''client'' (ci_instance ci) (gl_product l) (gl_id l) ''seat.release''
          (Fields [(''seat_id'', ci_seat ci)]))))))"

section \<open>Claims\<close>

definition claim_tx :: "host \<Rightarrow> check_input \<Rightarrow> string \<Rightarrow> int \<Rightarrow> unit site_act" where
  "claim_tx hs inp token until =
     andThen (license_by_no (vi_no inp)) (\<lambda>l0.
     andThen (license_by_id (gl_id l0)) (\<lambda>l.
     if gl_owner l \<noteq> [] then raise ErrOwnerRequired
     else
       andThen (product_by_id (gl_product l)) (\<lambda>p0.
       andThen (bound_license hs (effective_product p0 (gl_terms l)) l inp) (\<lambda>_.
       insert_ticket (instance_hash hs ''claim'' token) (gl_id l) until))))"

definition create_license_claim :: "host \<Rightarrow> check_input \<Rightarrow> (string \<times> int) site_act" where
  "create_license_claim hs inp0 =
     (let inp = inp0\<lparr>vi_skip_seat := True\<rparr>; until = now_of hs + 10 * minute in
      andThen (verify_license hs inp) (\<lambda>_.
      if ci_instance (vi_instance inp) = [] then raise (bad_request ''INSTANCE_REQUIRED'')
      else
        andThen (new_application_secret hs) (\<lambda>token.
        andThen (with_tx (claim_tx hs inp token until)) (\<lambda>_. ret (token, until)))))"

definition redeem_license_claim :: "host \<Rightarrow> string \<Rightarrow> string \<Rightarrow> string site_act" where
  "redeem_license_claim hs user token =
     (let hash = instance_hash hs ''claim'' token in
      if length token \<noteq> 32 then raise ErrOwnerRequired
      else with_tx (
        andThen (orElse (ticket_of hash) ErrOwnerRequired) (\<lambda>c.
        if ct_expires c \<le> now_of hs \<or> ct_claimed c \<noteq> [] \<and> ct_claimed c \<noteq> user then raise ErrOwnerRequired
        else
          andThen (license_by_id (ct_license c)) (\<lambda>l.
          if gl_owner l \<noteq> [] \<and> gl_owner l \<noteq> user then raise ErrOwnerRequired
          else
            andThen (set_owner (gl_id l) user) (\<lambda>_.
            andThen (consume_ticket hash user) (\<lambda>_.
            andThen (transaction_audit hs ''customer'' user (gl_product l) (gl_id l) ''license.claim_ticket'' NullExtra) (\<lambda>_.
            ret (gl_no l))))))))"

end
