(* ===== verification/Office.thy ===== *)
theory Office
  imports Lease Members
begin

text \<open>
  The administration of the first generation (\<open>service/service.go\<close>, \<open>card_management.go\<close>, \<open>license_listing.go\<close>,
  \<open>developers.go\<close>, \<open>entitlements.go\<close>, \<open>authorization_terms.go\<close>, \<open>integration.go\<close>): products and their keys,
  batches of cards, policies and quotas of agents, licenses and bindings.

  \<open>buildCardBatch\<close> draws codes until it has as many different ones as were asked for; \<open>fuel\<close> bounds the draws
  of the model, and \<open>out_of_draws\<close> stands for a loop that has not ended by then.
\<close>

definition ErrCardBatchNotFound :: app_err where "ErrCardBatchNotFound = missing ''CARD_BATCH_NOT_FOUND''"
definition ErrCardNotFound :: app_err where "ErrCardNotFound = missing ''CARD_NOT_FOUND''"
definition ErrCardCannotVoid :: app_err where "ErrCardCannotVoid = denied ''CARD_CANNOT_VOID''"
definition ErrLicenseNotRevoked :: app_err where "ErrLicenseNotRevoked = denied ''LICENSE_NOT_REVOKED''"
definition ErrAgentBatchNotFound :: app_err where "ErrAgentBatchNotFound = missing ''AGENT_BATCH_NOT_FOUND''"
definition ErrAgentExportDenied :: app_err where "ErrAgentExportDenied = denied ''AGENT_EXPORT_NOT_ALLOWED''"
definition ErrAgentProductDenied :: app_err where "ErrAgentProductDenied = denied ''AGENT_PRODUCT_NOT_ALLOWED''"
definition ErrAgentDurationDenied :: app_err where "ErrAgentDurationDenied = denied ''AGENT_DURATION_NOT_ALLOWED''"
definition ErrAgentPermanentDenied :: app_err where "ErrAgentPermanentDenied = denied ''AGENT_PERMANENT_NOT_ALLOWED''"
definition ErrAgentBatchExceeded :: app_err where "ErrAgentBatchExceeded = denied ''AGENT_BATCH_LIMIT_EXCEEDED''"
definition ErrPackageDenied :: app_err where "ErrPackageDenied = denied ''AGENT_PACKAGE_NOT_ALLOWED''"

definition non_empty :: "string \<Rightarrow> string \<Rightarrow> string" where
  "non_empty value fallback = (let v = trim_space value in if v = [] then fallback else v)"

section \<open>Products\<close>

text \<open>\<open>CreateProductInput\<close>.\<close>

record product_input =
  pi_license_mode :: string
  pi_update_days :: int
  pi_developer :: string
  pi_name :: string
  pi_code :: string
  pi_mode :: string
  pi_max_binds :: int
  pi_conflict :: string
  pi_offline_mode :: string
  pi_offline_days :: int
  pi_expire_days :: int
  pi_unbinds :: int
  pi_cooldown :: int

definition max_offline_grace_days :: int where "max_offline_grace_days = 365"

definition take_rsa_keys :: "host \<Rightarrow> (string \<times> string) site_act" where
  "take_rsa_keys hs = (\<lambda>s. (Inr (s_rsa_keys (ho_core hs) (st_draws s)), s\<lparr>st_draws := Suc (st_draws s)\<rparr>))"

definition application_secret_hash :: "svc \<Rightarrow> string \<Rightarrow> string" where
  "application_secret_hash sv secret = sha_hex sv (''yunnuo-app-secret-v1'' @ nul @ secret)"

definition with_identity :: "host \<Rightarrow> string \<Rightarrow> g_product \<Rightarrow> string \<Rightarrow> g_product" where
  "with_identity hs code p i =
     (let c = to_upper (ho_core hs) (trim_space code) in
      p\<lparr>gp_id := i, gp_app_key := i, gp_code := (if c = [] then to_upper (ho_core hs) (trim_prefix i ''yn'') else c)\<rparr>)"

text \<open>Up to five identifiers are tried; another one only when the first was taken by a product.\<close>

fun register_product :: "host \<Rightarrow> string \<Rightarrow> g_product \<Rightarrow> app_err \<Rightarrow> nat \<Rightarrow> g_product site_act" where
  "register_product hs code p e 0 = raise e"
| "register_product hs code p e (Suc n) =
     andThen (new_application_id hs) (\<lambda>i.
     let q = with_identity hs code p i in
     andThen (attempt (insert_product q)) (\<lambda>r.
     case r of
       Inr _ \<Rightarrow> ret q
     | Inl err \<Rightarrow>
         andThen (attempt (product_by_id i)) (\<lambda>taken.
         case taken of Inl _ \<Rightarrow> raise err | Inr _ \<Rightarrow> register_product hs code p err n)))"

definition with_defaults :: "product_input \<Rightarrow> product_input" where
  "with_defaults inp =
     inp\<lparr>pi_license_mode := default_text (pi_license_mode inp) ''subscription'', pi_mode := default_text (pi_mode inp) ''device'',
         pi_max_binds := default_int (pi_max_binds inp) 1, pi_conflict := default_text (pi_conflict inp) ''reject'',
         pi_offline_mode := default_text (pi_offline_mode inp) ''online_cache'',
         pi_offline_days := default_int (pi_offline_days inp) 15\<rparr>"

definition create_product :: "host \<Rightarrow> product_input \<Rightarrow> g_product site_act" where
  "create_product hs inp0 =
     (let inp = with_defaults inp0 in
      if \<not> valid_license_policy (pi_license_mode inp) (pi_update_days inp) (pi_expire_days inp) \<or> trim_space (pi_name inp) = []
      then raise ErrInvalidRequest
      else if pi_offline_days inp < 0 \<or> max_offline_grace_days < pi_offline_days inp
      then raise (bad_request ''OFFLINE_GRACE_TOO_LONG'')
      else
        andThen (take_rsa_keys hs) (\<lambda>(public, private).
        andThen (seal hs private) (\<lambda>sealed.
        andThen (new_application_secret hs) (\<lambda>secret.
        andThen (register_product hs (pi_code inp)
          \<lparr>gp_terms = None, gp_license_mode = pi_license_mode inp, gp_update_days = pi_update_days inp,
           gp_developer = pi_developer inp, gp_id = [], gp_name = trim_space (pi_name inp), gp_code = [], gp_app_key = [],
           gp_secret = secret, gp_secret_hash = application_secret_hash (ho_core hs) secret, gp_public = public,
           gp_private = sealed, gp_key_version = 1, gp_mode = pi_mode inp, gp_max_binds = pi_max_binds inp,
           gp_conflict = pi_conflict inp, gp_offline_mode = pi_offline_mode inp, gp_offline_days = pi_offline_days inp,
           gp_expire_days = pi_expire_days inp, gp_unbinds = pi_unbinds inp, gp_cooldown = pi_cooldown inp,
           gp_status = ''active'', gp_created = now_of hs, gp_updated = now_of hs\<rparr> DbFault 5) (\<lambda>p.
        andThen (quiet (audit hs ''admin'' [] (gp_id p) [] [] ''product.create'' ''success'' [])) (\<lambda>_.
        ret p))))))"

text \<open>\<open>ProductKeyRing\<close>.\<close>

record key_ring =
  kr_product :: string
  kr_code :: string
  kr_app_key :: string
  kr_current :: int
  kr_keys :: "g_key list"

definition product_keys :: "string \<Rightarrow> key_ring site_act" where
  "product_keys i =
     andThen (orMissing (product_by_id (trim_space i)) ErrProductNotFound) (\<lambda>p.
     andThen (keys_of_product (gp_id p)) (\<lambda>ks.
     ret \<lparr>kr_product = gp_id p, kr_code = gp_code p, kr_app_key = gp_app_key p, kr_current = gp_key_version p, kr_keys = ks\<rparr>))"

definition product_keys_by_app_key :: "string \<Rightarrow> key_ring site_act" where
  "product_keys_by_app_key key =
     andThen (orMissing (product_by_key (trim_space key)) ErrProductNotFound) (\<lambda>p.
     andThen (product_keys (gp_id p)) (\<lambda>ring.
     ret (ring\<lparr>kr_keys := map (\<lambda>k. k\<lparr>ky_by := []\<rparr>) (kr_keys ring)\<rparr>)))"

definition rotate_product_key :: "host \<Rightarrow> string \<Rightarrow> string \<Rightarrow> key_ring site_act" where
  "rotate_product_key hs i who =
     andThen (orMissing (product_by_id (trim_space i)) ErrProductNotFound) (\<lambda>p.
     andThen (take_rsa_keys hs) (\<lambda>(public, private).
     andThen (seal hs private) (\<lambda>sealed.
     andThen (rotate_key_row (gp_id p) public sealed who (now_of hs)) (\<lambda>version.
     andThen (quiet (audit hs ''admin'' who (gp_id p) [] [] ''product_key.rotate'' ''success'' [])) (\<lambda>_.
     andThen (product_keys (gp_id p)) (\<lambda>ring.
     ret (ring\<lparr>kr_current := version\<rparr>)))))))"

definition change_product_status :: "host \<Rightarrow> string \<Rightarrow> string \<Rightarrow> string \<Rightarrow> g_product site_act" where
  "change_product_status hs i0 status who =
     (let i = trim_space i0 in
      if i = [] \<or> status \<noteq> ''active'' \<and> status \<noteq> ''disabled'' then raise ErrInvalidRequest
      else
        andThen (orMissing (product_by_id i) ErrProductNotFound) (\<lambda>p.
        andThen (update_product_status_row i status (now_of hs)) (\<lambda>_.
        andThen (quiet (audit hs ''admin'' who (gp_id p) [] [] (''product.status.'' @ status) ''success'' [])) (\<lambda>_.
        ret (p\<lparr>gp_status := status, gp_updated := now_of hs\<rparr>)))))"

text \<open>\<open>UpdateProductInput\<close>: what a profile holds besides the name.\<close>

record profile_input =
  fi_name :: string
  fi_mode :: string
  fi_max_binds :: int
  fi_conflict :: string
  fi_offline_days :: int

definition same_profile :: "g_product \<Rightarrow> profile_input \<Rightarrow> bool" where
  "same_profile p inp \<longleftrightarrow>
     gp_mode p = fi_mode inp \<and> gp_max_binds p = fi_max_binds inp \<and> gp_conflict p = fi_conflict inp \<and>
     gp_offline_days p = fi_offline_days inp"

definition update_product_profile :: "host \<Rightarrow> string \<Rightarrow> profile_input \<Rightarrow> string \<Rightarrow> g_product site_act" where
  "update_product_profile hs i0 inp0 who =
     (let i = trim_space i0;
          inp = inp0\<lparr>fi_name := trim_space (fi_name inp0), fi_conflict := default_text (fi_conflict inp0) ''reject'',
                      fi_max_binds := (if fi_max_binds inp0 \<le> 0 then 1 else fi_max_binds inp0)\<rparr> in
      if i = [] \<or> fi_name inp = [] \<or> fi_mode inp \<notin> {''none'', ''device'', ''domain'', ''ip'', ''account''} \<or>
        fi_conflict inp \<notin> {''reject'', ''kick_oldest''}
      then raise ErrInvalidRequest
      else if fi_offline_days inp < 0 \<or> max_offline_grace_days < fi_offline_days inp
      then raise (bad_request ''OFFLINE_GRACE_TOO_LONG'')
      else
        andThen (orMissing (product_by_id i) ErrProductNotFound) (\<lambda>p.
        andThen (license_policy_locked i) (\<lambda>locked.
        if locked \<and> \<not> same_profile p inp then raise (AppError ''BINDING_POLICY_LOCKED'' 409)
        else
          andThen (update_product_row i (fi_name inp) (fi_mode inp) (fi_conflict inp) (fi_max_binds inp)
            (fi_offline_days inp) (now_of hs)) (\<lambda>_.
          andThen (quiet (audit hs ''admin'' who (gp_id p) [] [] ''product.update'' ''success'' [])) (\<lambda>_.
          ret (p\<lparr>gp_name := fi_name inp, gp_mode := fi_mode inp, gp_conflict := fi_conflict inp,
                gp_max_binds := fi_max_binds inp, gp_offline_days := fi_offline_days inp, gp_updated := now_of hs\<rparr>))))))"

section \<open>Policies of a product\<close>

definition license_policy :: "string \<Rightarrow> (string \<times> int \<times> int \<times> bool) site_act" where
  "license_policy i =
     andThen (orMissing (product_by_id i) ErrProductNotFound) (\<lambda>p.
     andThen (license_policy_locked i) (\<lambda>locked.
     ret (gp_license_mode p, gp_update_days p, gp_expire_days p, locked)))"

definition set_license_policy ::
  "host \<Rightarrow> string \<Rightarrow> string \<Rightarrow> int \<Rightarrow> int \<Rightarrow> string \<Rightarrow> (string \<times> int \<times> int \<times> bool) site_act" where
  "set_license_policy hs i mode update_days grace_days who =
     (if \<not> valid_license_policy mode update_days grace_days then raise ErrInvalidRequest
      else
        andThen (license_policy i) (\<lambda>_.
        andThen (attempt (set_license_policy_row i mode update_days grace_days (now_of hs))) (\<lambda>r.
        case r of
          Inl e \<Rightarrow> raise (if e = policy_locked then AppError ''LICENSE_POLICY_LOCKED'' 409 else e)
        | Inr _ \<Rightarrow>
            andThen (quiet (audit hs ''admin'' who i [] [] ''product.license_policy'' ''success'' [])) (\<lambda>_.
            license_policy i))))"

definition authorization_terms :: "string \<Rightarrow> auth_terms site_act" where
  "authorization_terms i = andThen (orElse (product_by_id i) ErrProductNotFound) (\<lambda>p. ret (legacy_terms p))"

definition set_authorization_terms :: "host \<Rightarrow> string \<Rightarrow> string \<Rightarrow> auth_terms \<Rightarrow> auth_terms site_act" where
  "set_authorization_terms hs i who inp =
     andThen (pureA (normalize_auth_terms inp)) (\<lambda>t.
     andThen (orElse (product_by_id i) ErrProductNotFound) (\<lambda>_.
     andThen (with_tx (
       andThen (save_terms ''product'' i (Some t)) (\<lambda>_.
       transaction_audit hs ''admin'' who i [] ''authorization.defaults'' (TermsExtra t)))) (\<lambda>_.
     ret t)))"

text \<open>\<open>CardRequirements\<close>: identifier and name of the product, terms, duration and permanence of the card.\<close>

definition card_requirements :: "host \<Rightarrow> string \<Rightarrow> string \<Rightarrow> (string \<times> string \<times> auth_terms \<times> int \<times> bool) site_act" where
  "card_requirements hs key code =
     andThen (product_for_app key) (\<lambda>p.
     andThen (orElse (card_by_hash (code_hash hs code)) ErrCardInvalid) (\<lambda>c.
     if gc_product c \<noteq> gp_id p \<or> gc_status c \<noteq> ''unused'' \<and> gc_status c \<noteq> ''activated'' then raise ErrCardInvalid
     else ret (gp_id p, gp_name p, legacy_terms (effective_product p (gc_terms c)), gc_days c, gc_permanent c)))"

definition binding_policy_of_product :: "string \<Rightarrow> change_policy site_act" where
  "binding_policy_of_product i = andThen (orElse (product_by_id i) ErrProductNotFound) binding_policy"

definition set_binding_policy :: "host \<Rightarrow> string \<Rightarrow> string \<Rightarrow> change_policy \<Rightarrow> change_policy site_act" where
  "set_binding_policy hs i who inp =
     andThen (orElse (product_by_id i) ErrProductNotFound) (\<lambda>p.
     if by_limit inp < -1 \<or> 10000 < by_limit inp \<or> by_cooldown inp < 0 \<or> 87600 < by_cooldown inp \<or>
       by_allowed inp \<and> (by_limit inp = 0 \<or> gp_mode p = ''none'')
     then raise ErrInvalidRequest
     else
       let y = inp\<lparr>by_product := gp_id p, by_mode := gp_mode p\<rparr> in
       andThen (with_tx (
         andThen (set_binding_policy_row y) (\<lambda>_.
         transaction_audit hs ''admin'' who (gp_id p) [] ''binding.policy'' (PolicyExtra y)))) (\<lambda>_.
       ret y))"

definition integration_product :: "string \<Rightarrow> g_product site_act" where
  "integration_product i = orMissing (product_by_id i) ErrProductNotFound"

definition require_developer_product :: "string \<Rightarrow> string \<Rightarrow> unit site_act" where
  "require_developer_product i user =
     andThen (orMissing (product_by_id i) ErrProductNotFound) (\<lambda>p.
     if user = [] \<or> gp_developer p \<noteq> user then raise ErrProductNotFound else ret ())"

text \<open>\<open>AssignDeveloper\<close>; of \<open>ProductUpdates\<close> only the check of the product matters here.\<close>

definition assign_product_developer :: "host \<Rightarrow> string \<Rightarrow> string \<Rightarrow> string \<Rightarrow> unit site_act" where
  "assign_product_developer hs i user who =
     andThen (orMissing (product_by_id i) ErrProductNotFound) (\<lambda>_.
     andThen (if user = [] then ret ()
              else andThen (attempt (admin_by_id user)) (\<lambda>r. case r of
                  Inl _ \<Rightarrow> raise ErrInvalidRequest
                | Inr u \<Rightarrow> if ad_role u \<noteq> ''developer'' \<or> ad_status u \<noteq> ''active'' then raise ErrInvalidRequest else ret ())) (\<lambda>_.
     andThen (assign_developer_row i user) (\<lambda>_.
     quiet (audit hs ''admin'' who i [] [] ''product.developer.assign'' ''success'' []))))"

section \<open>Batches of cards\<close>

definition out_of_draws :: app_err where "out_of_draws = GoError ''the loop has not ended''"

definition card_row ::
  "host \<Rightarrow> g_product \<Rightarrow> auth_terms \<Rightarrow> string \<Rightarrow> string \<Rightarrow> int \<Rightarrow> bool \<Rightarrow> string \<Rightarrow> string \<Rightarrow> string \<Rightarrow> g_card" where
  "card_row hs p t batch who days permanent i hash sealed =
     \<lparr>gc_terms = Some t, gc_id = i, gc_product = gp_id p, gc_batch = batch, gc_agent = who, gc_hash = hash,
      gc_sealed = sealed, gc_prefix = gp_code p, gc_days = days, gc_permanent = permanent, gc_status = ''unused'',
      gc_order = [], gc_license = [], gc_activated = None, gc_consumed = None, gc_voided = None, gc_reason = [],
      gc_by = who, gc_created = now_of hs, gc_updated = now_of hs\<rparr>"

text \<open>The loop: \<open>row\<close> makes a card of identifier, hash and sealed code; \<open>made\<close> holds the cards and codes so far.\<close>

fun draw_cards ::
  "host \<Rightarrow> string \<Rightarrow> (string \<Rightarrow> string \<Rightarrow> string \<Rightarrow> g_card) \<Rightarrow> nat \<Rightarrow> nat \<Rightarrow> (g_card \<times> string) list \<Rightarrow>
   (g_card \<times> string) list site_act" where
  "draw_cards hs pre row 0 quantity made = (if quantity \<le> length made then ret made else raise out_of_draws)"
| "draw_cards hs pre row (Suc fuel) quantity made =
     (if quantity \<le> length made then ret made
      else
        andThen (generate_card_code hs pre) (\<lambda>code.
        let hash = code_hash hs code in
        if list_ex (\<lambda>(c, _). gc_hash c = hash) made then draw_cards hs pre row fuel quantity made
        else
          andThen (seal hs (normalize_card_code (ho_core hs) code)) (\<lambda>sealed.
          andThen (fresh_id hs ''card'') (\<lambda>i.
          draw_cards hs pre row fuel quantity (made @ [(row i hash sealed, code)])))))"

definition build_card_batch ::
  "host \<Rightarrow> nat \<Rightarrow> g_product \<Rightarrow> string \<Rightarrow> string \<Rightarrow> int \<Rightarrow> int \<Rightarrow> bool \<Rightarrow> string \<Rightarrow>
   (g_batch \<times> g_card list \<times> string list) site_act" where
  "build_card_batch hs fuel p0 who name quantity days permanent source =
     (let t = legacy_terms p0; p = apply_terms t p0 in
      andThen (fresh_id hs ''batch'') (\<lambda>i.
      andThen (draw_cards hs (gp_code p) (card_row hs p t i who days permanent) fuel (nat quantity) []) (\<lambda>made.
      ret (\<lparr>gt_id = i, gt_product = gp_id p, gt_agent = who, gt_name = name, gt_quantity = quantity, gt_days = days,
            gt_permanent = permanent, gt_source = source, gt_status = ''active'', gt_exports = 0, gt_by = who,
            gt_created = now_of hs, gt_updated = now_of hs\<rparr>, map fst made, map snd made))))"

text \<open>Packages of cards: statements of \<open>store/commerce.go\<close>.\<close>

definition joined_package :: "goods \<Rightarrow> card_package \<Rightarrow> card_package" where
  "joined_package g k = k\<lparr>pk_terms := terms_of ''package'' (pk_id k) g\<rparr>"

definition package_of :: "string \<Rightarrow> goods \<Rightarrow> card_package option" where
  "package_of i g = map_option (joined_package g) (row_of pk_id i (x_packages g))"

definition package_by_id :: "string \<Rightarrow> card_package site_act" where
  "package_by_id i = fetch_goods (package_of i)"

text \<open>\<open>CreateCardBatchInput\<close>.\<close>

record batch_input =
  bi_package :: string
  bi_product :: string
  bi_name :: string
  bi_quantity :: int
  bi_days :: int
  bi_permanent :: bool

text \<open>The package of the request, where it names one, and the request with its terms.\<close>

definition selected_package :: "batch_input \<Rightarrow> (card_package option \<times> batch_input) site_act" where
  "selected_package inp =
     (if bi_package inp = [] then ret (None, inp)
      else
        andThen (orElse (package_by_id (bi_package inp)) ErrPackageDenied) (\<lambda>k.
        if \<not> pk_enabled k \<or> bi_product inp \<noteq> [] \<and> bi_product inp \<noteq> pk_product k then raise ErrPackageDenied
        else ret (Some k, inp\<lparr>bi_product := pk_product k, bi_days := pk_days k, bi_permanent := pk_permanent k\<rparr>)))"

definition create_card_batch :: "host \<Rightarrow> nat \<Rightarrow> batch_input \<Rightarrow> (g_batch \<times> string list) site_act" where
  "create_card_batch hs fuel inp0 =
     andThen (selected_package inp0) (\<lambda>(k, inp).
     if bi_product inp = [] \<or> bi_quantity inp \<le> 0 \<or> 1000 < bi_quantity inp \<or> \<not> bi_permanent inp \<and> bi_days inp \<le> 0
     then raise ErrInvalidRequest
     else
       andThen (orMissing (product_by_id (bi_product inp)) ErrInvalidRequest) (\<lambda>p0.
       if gp_status p0 \<noteq> ''active'' then raise ErrProductDisabled
       else
         let p = (case k of None \<Rightarrow> p0 | Some v \<Rightarrow> effective_product p0 (pk_terms v)) in
         andThen (build_card_batch hs fuel p [] (non_empty (bi_name inp) ''Manual batch'') (bi_quantity inp) (bi_days inp)
           (bi_permanent inp) ''platform_generated'') (\<lambda>(batch, cards, codes).
         andThen (create_batch_rows batch cards) (\<lambda>_.
         andThen (quiet (audit hs ''admin'' [] (gp_id p) [] [] ''card_batch.create'' ''success'' [])) (\<lambda>_.
         ret (batch, codes))))))"

fun open_codes :: "host \<Rightarrow> g_card list \<Rightarrow> app_err + string list" where
  "open_codes hs [] = Inr []"
| "open_codes hs (c # cs) =
     (case opened hs (gc_sealed c) of
        Inl e \<Rightarrow> Inl e
      | Inr code \<Rightarrow> (case open_codes hs cs of Inl e \<Rightarrow> Inl e | Inr codes \<Rightarrow> Inr (code # codes)))"

definition export_card_batch :: "host \<Rightarrow> string \<Rightarrow> string \<Rightarrow> (g_batch \<times> string list) site_act" where
  "export_card_batch hs i0 who =
     (let i = trim_space i0 in
      if i = [] then raise ErrInvalidRequest
      else
        andThen (orMissing (batch_by_id i) ErrCardBatchNotFound) (\<lambda>b.
        andThen (cards_of_batch i) (\<lambda>cards.
        andThen (pureA (open_codes hs cards)) (\<lambda>codes.
        andThen (count_export i (now_of hs)) (\<lambda>_.
        andThen (quiet (audit hs ''admin'' who (gt_product b) [] [] ''card_batch.export'' ''success'' [])) (\<lambda>_.
        ret (b\<lparr>gt_exports := gt_exports b + 1, gt_updated := now_of hs\<rparr>, codes)))))))"

definition agent_cards_of_batch :: "string \<Rightarrow> string \<Rightarrow> g_card list site_act" where
  "agent_cards_of_batch who i =
     (if trim_space who = [] \<or> trim_space i = [] then raise ErrInvalidRequest
      else andThen (orMissing (batch_for_agent i who) ErrAgentBatchNotFound) (\<lambda>_. cards_of_batch_for_agent i who))"

definition export_agent_card_batch :: "host \<Rightarrow> string \<Rightarrow> string \<Rightarrow> string \<Rightarrow> (g_batch \<times> string list) site_act" where
  "export_agent_card_batch hs who user i =
     (if trim_space who = [] \<or> trim_space i = [] then raise ErrInvalidRequest
      else
        andThen (orMissing (batch_for_agent i who) ErrAgentBatchNotFound) (\<lambda>b.
        andThen (orMissing (agent_policy_for who (gt_product b)) ErrAgentExportDenied) (\<lambda>y.
        if po_status y \<noteq> ''active'' \<or> \<not> po_export y then raise ErrAgentExportDenied
        else
          andThen (cards_of_batch_for_agent i who) (\<lambda>cards.
          andThen (pureA (open_codes hs cards)) (\<lambda>codes.
          andThen (count_export i (now_of hs)) (\<lambda>_.
          andThen (quiet (audit_agent hs user who (gt_product b) ''agent_card_batch.export'' ''success'' [])) (\<lambda>_.
          ret (b\<lparr>gt_exports := gt_exports b + 1, gt_updated := now_of hs\<rparr>, codes))))))))"

section \<open>Void cards\<close>

definition batch_void_remark :: string where
  "batch_void_remark =
     [CHR 0xE6, CHR 0x89, CHR 0xB9, CHR 0xE9, CHR 0x87, CHR 0x8F, CHR 0xE4, CHR 0xBD, CHR 0x9C, CHR 0xE5,
     CHR 0xBA, CHR 0x9F, CHR 0xE6, CHR 0x9C, CHR 0xAA, CHR 0xE4, CHR 0xBD, CHR 0xBF, CHR 0xE7, CHR 0x94, CHR
     0xA8, CHR 0xE5, CHR 0x8D, CHR 0xA1, CHR 0xE5, CHR 0xAF, CHR 0x86, CHR 0xEF, CHR 0xBC, CHR 0x8C, CHR
     0xE5, CHR 0x9B, CHR 0x9E, CHR 0xE8, CHR 0xA1, CHR 0xA5, CHR 0xE4, CHR 0xBB, CHR 0xA3, CHR 0xE7, CHR
     0x90, CHR 0x86, CHR 0xE9, CHR 0xA2, CHR 0x9D, CHR 0xE5, CHR 0xBA, CHR 0xA6]"

definition card_void_remark :: string where
  "card_void_remark =
     [CHR 0xE4, CHR 0xBD, CHR 0x9C, CHR 0xE5, CHR 0xBA, CHR 0x9F, CHR 0xE6, CHR 0x9C, CHR 0xAA, CHR 0xE4,
     CHR 0xBD, CHR 0xBF, CHR 0xE7, CHR 0x94, CHR 0xA8, CHR 0xE5, CHR 0x8D, CHR 0xA1, CHR 0xE5, CHR 0xAF, CHR
     0x86, CHR 0xEF, CHR 0xBC, CHR 0x8C, CHR 0xE5, CHR 0x9B, CHR 0x9E, CHR 0xE8, CHR 0xA1, CHR 0xA5, CHR
     0xE4, CHR 0xBB, CHR 0xA3, CHR 0xE7, CHR 0x90, CHR 0x86, CHR 0xE9, CHR 0xA2, CHR 0x9D, CHR 0xE5, CHR
     0xBA, CHR 0xA6]"

text \<open>The answer: how many cards became void, and the balance of the quota that was refunded last.\<close>

definition void_card_batch :: "host \<Rightarrow> string \<Rightarrow> string \<Rightarrow> string \<Rightarrow> (nat \<times> int) site_act" where
  "void_card_batch hs i0 reason0 who =
     (let i = trim_space i0; reason = trim_space reason0 in
      if i = [] \<or> reason = [] \<or> 200 < length reason then raise ErrInvalidRequest
      else
        andThen (orMissing (batch_by_id i) ErrCardBatchNotFound) (\<lambda>b.
        andThen (with_tx (
          andThen (unused_quota_groups i) (\<lambda>groups.
          andThen (void_unused_in_batch i reason (now_of hs)) (\<lambda>voided.
          andThen (foldEach groups 0 (\<lambda>((agent, product, days, permanent), n) _.
            refund_agent_quota hs agent product days permanent (int n) i [] batch_void_remark (now_of hs))) (\<lambda>refunded.
          andThen (transaction_audit hs ''admin'' who (gt_product b) [] ''card_batch.void_unused''
            (Fields [(''batch_id'', i), (''reason'', reason), (''voided'', itoa (int voided))])) (\<lambda>_.
          ret (voided, refunded))))))) (\<lambda>r.
        andThen (quiet (audit hs ''admin'' who (gt_product b) [] i ''card_batch.void_unused'' ''success'' reason)) (\<lambda>_.
        ret r))))"

definition void_card :: "host \<Rightarrow> string \<Rightarrow> string \<Rightarrow> string \<Rightarrow> g_card site_act" where
  "void_card hs i0 reason0 who =
     (let i = trim_space i0; reason = trim_space reason0 in
      if i = [] \<or> reason = [] \<or> 200 < length reason then raise ErrInvalidRequest
      else
        andThen (orMissing (card_by_id i) ErrCardNotFound) (\<lambda>c.
        if gc_status c = ''voided'' then ret c
        else if gc_status c \<noteq> ''unused'' then raise ErrCardCannotVoid
        else
          andThen (with_tx (
            andThen (void_unused_card i reason (now_of hs)) (\<lambda>voided.
            if \<not> voided then raise ErrCardCannotVoid
            else
              andThen (if gc_agent c \<noteq> []
                then andThen (refund_agent_quota hs (gc_agent c) (gc_product c) (gc_days c) (gc_permanent c) 1 (gc_batch c)
                  (gc_id c) card_void_remark (now_of hs)) (\<lambda>_. ret ())
                else ret ()) (\<lambda>_.
              transaction_audit hs ''admin'' who (gc_product c) [] ''card.void''
                (Fields [(''card_id'', gc_id c), (''reason'', reason)]))))) (\<lambda>_.
          andThen (quiet (audit hs ''admin'' who (gc_product c) [] (gc_id c) ''card.void'' ''success'' [])) (\<lambda>_.
          ret (c\<lparr>gc_status := ''voided'', gc_reason := reason, gc_voided := Some (now_of hs), gc_updated := now_of hs\<rparr>)))))"

section \<open>Agents' policies and quotas\<close>

definition upsert_agent_policy :: "host \<Rightarrow> agent_policy \<Rightarrow> agent_policy site_act" where
  "upsert_agent_policy hs inp =
     (if po_agent inp = [] \<or> po_product inp = [] then raise ErrInvalidRequest
      else
        andThen (orMissing (agent_by_id (po_agent inp)) ErrAgentNotFound) (\<lambda>_.
        andThen (orMissing (product_by_id (po_product inp)) ErrInvalidRequest) (\<lambda>_.
        andThen (fresh_id hs ''apol'') (\<lambda>i.
        let y = inp\<lparr>po_id := i, po_max := (if po_max inp \<le> 0 then 100 else po_max inp), po_status := ''active'',
                    po_created := now_of hs, po_updated := now_of hs\<rparr> in
        andThen (upsert_policy y) (\<lambda>_.
        andThen (quiet (audit hs ''admin'' [] (po_product inp) [] [] ''agent_policy.upsert'' ''success'' [])) (\<lambda>_.
        ret y))))))"

definition validate_agent_policy :: "agent_policy \<Rightarrow> int \<Rightarrow> int \<Rightarrow> bool \<Rightarrow> app_err + unit" where
  "validate_agent_policy y quantity days permanent =
     (if po_status y \<noteq> ''active'' \<or> \<not> po_generate y then Inl ErrAgentProductDenied
      else if 0 < po_max y \<and> po_max y < quantity then Inl ErrAgentBatchExceeded
      else if permanent then (if po_permanent y then Inr () else Inl ErrAgentPermanentDenied)
      else if po_days y = [] \<or> days \<in> set (po_days y) then Inr ()
      else Inl ErrAgentDurationDenied)"

text \<open>\<open>AgentQuotaInput\<close> is the part of the ledger row that the caller gives.\<close>

definition grant_agent_quota ::
  "host \<Rightarrow> string \<Rightarrow> string \<Rightarrow> int \<Rightarrow> bool \<Rightarrow> int \<Rightarrow> string \<Rightarrow> quota_entry site_act" where
  "grant_agent_quota hs agent product days permanent quantity remark =
     (if agent = [] \<or> product = [] \<or> quantity \<le> 0 \<or> \<not> permanent \<and> days \<le> 0 then raise ErrInvalidRequest
      else
        andThen (with_tx (
          andThen (orMissing (agent_by_id agent) ErrAgentNotFound) (\<lambda>a.
          andThen (pureA (ensure_agent_active a)) (\<lambda>_.
          andThen (quota_balance agent product days permanent) (\<lambda>balance.
          andThen (fresh_id hs ''quota'') (\<lambda>i.
          let q = \<lparr>qu_id = i, qu_agent = agent, qu_product = product, qu_days = days, qu_permanent = permanent,
                   qu_type = ''grant'', qu_change = quantity, qu_balance = balance + quantity, qu_batch = [], qu_card = [],
                   qu_by_type = ''admin'', qu_by = [], qu_remark = remark, qu_created = now_of hs\<rparr> in
          andThen (insert_quota q) (\<lambda>_.
          andThen (transaction_audit hs ''admin'' (case ho_caller hs of None \<Rightarrow> [] | Some c \<Rightarrow> cl_id c) product []
            ''agent_quota.grant'' (QuotaExtra q)) (\<lambda>_. ret q)))))))) (\<lambda>q.
        andThen (attempt (product_by_id product)) (\<lambda>r.
        andThen (notify_agent_email hs ''quota_grant'' agent
          [(''product'', case r of Inl _ \<Rightarrow> product | Inr p \<Rightarrow> gp_name p), (''quantity'', itoa (qu_change q)),
           (''balance'', itoa (qu_balance q)), (''remark'', qu_remark q)] (qu_id q)) (\<lambda>_.
        ret q))))"

definition agent_policies :: "string \<Rightarrow> agent_policy list site_act" where
  "agent_policies who = (if who = [] then raise ErrInvalidRequest else policies_of_agent who)"

definition agent_quota_ledgers :: "string \<Rightarrow> quota_entry list site_act" where
  "agent_quota_ledgers who = (if who = [] then raise ErrInvalidRequest else quota_ledgers who)"

definition agent_quota_summaries :: "string \<Rightarrow> (string \<times> int \<times> bool \<times> int) list site_act" where
  "agent_quota_summaries who = (if who = [] then raise ErrInvalidRequest else quota_summaries who)"

text \<open>\<open>AgentProductView\<close>: the product's identifier, name, code and status with the policy.\<close>

definition list_agent_products :: "string \<Rightarrow> (string \<times> string \<times> string \<times> string \<times> agent_policy) list site_act" where
  "list_agent_products who =
     (if trim_space who = [] then raise ErrInvalidRequest
      else
        andThen (policies_of_agent who) (\<lambda>ys.
        look_goods (\<lambda>g. List.map_filter (\<lambda>y. map_option (\<lambda>p. (gp_id p, gp_name p, gp_code p, gp_status p, y))
          (product_of g (po_product y))) ys)))"

definition agent_card_batches :: "string \<Rightarrow> g_batch list site_act" where
  "agent_card_batches who = (if trim_space who = [] then raise ErrInvalidRequest else batches_of_agent who)"

definition agent_licenses :: "string \<Rightarrow> g_license list site_act" where
  "agent_licenses who = (if trim_space who = [] then raise ErrInvalidRequest else licenses_of_agent who)"

section \<open>Licenses and bindings\<close>

definition list_license_bindings :: "host \<Rightarrow> string \<Rightarrow> g_binding list site_act" where
  "list_license_bindings hs no =
     andThen (orMissing (license_by_no no) ErrLicenseNotFound) (\<lambda>l.
     andThen (bindings_of (gl_id l)) (\<lambda>bs.
     andThen (product_by_id (gl_product l)) (\<lambda>p.
     ret (binding_online_states bs (gp_offline_days p) (now_of hs)))))"

definition shown_expired :: "int \<Rightarrow> g_license \<Rightarrow> g_license" where
  "shown_expired now l =
     (if gl_status l = ''active'' \<and> (case gl_expired l of None \<Rightarrow> False | Some e \<Rightarrow> e \<le> now)
      then l\<lparr>gl_status := ''expired''\<rparr> else l)"

text \<open>\<open>ListLicensesPage\<close>: the rows, how many there are in all, page and size.\<close>

definition list_licenses_page ::
  "host \<Rightarrow> string \<Rightarrow> string \<Rightarrow> string \<Rightarrow> string \<Rightarrow> int \<Rightarrow> int \<Rightarrow> (g_license list \<times> nat \<times> int \<times> int) site_act" where
  "list_licenses_page hs status0 product0 agent0 query0 page0 size0 =
     (let status = trim_space status0; query = trim_space query0;
          page = (if page0 \<le> 0 then 1 else page0);
          size = (let n = (if size0 \<le> 0 then 20 else size0) in if 100 < n then 100 else n) in
      if status \<noteq> [] \<and> status \<noteq> ''active'' \<and> status \<noteq> ''expired'' \<and> status \<noteq> ''revoked'' then raise ErrInvalidRequest
      else if 100 < length query then raise ErrInvalidRequest
      else
        andThen (licenses_page status (trim_space product0) (trim_space agent0) query (nat size) (nat ((page - 1) * size))
          (now_of hs)) (\<lambda>(rows, total).
        ret (map (shown_expired (now_of hs)) rows, total, page, size)))"

definition admin_unbind_tx :: "host \<Rightarrow> string \<Rightarrow> string \<Rightarrow> string \<Rightarrow> string \<Rightarrow> g_license site_act" where
  "admin_unbind_tx hs no i reason who =
     andThen (orMissing (license_by_no no) ErrLicenseNotFound) (\<lambda>l.
     andThen (orMissing (binding_by_id i) ErrBindingMismatch) (\<lambda>b.
     if gb_license b \<noteq> gl_id l then raise ErrBindingMismatch
     else if gb_status b \<noteq> ''active'' then ret l
     else
       andThen (mark_binding_unbound (gb_id b) (now_of hs)) (\<lambda>_.
       andThen (transaction_audit hs ''admin'' who (gl_product l) (gl_id l) ''binding.admin_override''
         (Fields [(''reason'', reason), (''binding_id'', gb_id b)])) (\<lambda>_.
       ret l))))"

text \<open>The answer is the number of the license and the identifier of the binding.\<close>

definition admin_unbind :: "host \<Rightarrow> string \<Rightarrow> string \<Rightarrow> string \<Rightarrow> string \<Rightarrow> (string \<times> string) site_act" where
  "admin_unbind hs no i reason who =
     (if trim_space no = [] \<or> trim_space i = [] \<or> trim_space reason = [] then raise ErrInvalidRequest
      else
        andThen (with_tx (admin_unbind_tx hs no i reason who)) (\<lambda>l.
        andThen (quiet (audit hs ''admin'' who (gl_product l) (gl_id l) [] ''license.admin_unbind'' ''success'' [])) (\<lambda>_.
        ret (gl_no l, i))))"

definition revoke_license :: "host \<Rightarrow> string \<Rightarrow> string \<Rightarrow> string \<Rightarrow> g_license site_act" where
  "revoke_license hs no reason0 who =
     (let reason = trim_space reason0 in
      if trim_space no = [] \<or> reason = [] \<or> 500 < rune_count reason then raise ErrInvalidRequest
      else
        andThen (with_tx (
          andThen (orMissing (license_by_no no) ErrLicenseNotFound) (\<lambda>l.
          if gl_status l = ''revoked'' then ret l
          else
            andThen (revoke_rows (gl_id l) reason (now_of hs)) (\<lambda>_.
            ret (l\<lparr>gl_status := ''revoked'', gl_updated := now_of hs\<rparr>))))) (\<lambda>l.
        andThen (quiet (audit hs ''admin'' who (gl_product l) (gl_id l) [] ''license.revoke'' ''success'' [])) (\<lambda>_.
        ret l)))"

definition restore_license :: "host \<Rightarrow> string \<Rightarrow> string \<Rightarrow> string \<Rightarrow> g_license site_act" where
  "restore_license hs no reason0 who =
     (let reason = trim_space reason0 in
      if trim_space no = [] \<or> reason = [] \<or> 500 < rune_count reason then raise ErrInvalidRequest
      else
        andThen (with_tx (
          andThen (orMissing (license_by_no no) ErrLicenseNotFound) (\<lambda>l.
          if gl_status l \<noteq> ''revoked'' then raise ErrLicenseNotRevoked
          else
            andThen (restore_license_row (gl_id l) (now_of hs)) (\<lambda>_.
            andThen (restore_binding_rows (gl_id l) (now_of hs)) (\<lambda>restored.
            andThen (transaction_audit hs ''admin'' who (gl_product l) (gl_id l) ''license.restore''
              (Fields [(''reason'', reason), (''bindings_restored'', itoa (int restored))])) (\<lambda>_.
            ret l)))))) (\<lambda>l.
        andThen (quiet (audit hs ''admin'' who (gl_product l) (gl_id l) [] ''license.restore'' ''success'' reason)) (\<lambda>_.
        ret (l\<lparr>gl_status := ''active'', gl_updated := now_of hs\<rparr>))))"

end
