(* ===== verification/Trade.thy ===== *)
theory Trade
  imports Office
begin

text \<open>
  The commerce of agents (\<open>service/commerce.go\<close>, \<open>store/commerce.go\<close>, \<open>store/agent_tiers.go\<close>): groups of products,
  packages of cards, tiers with their prices, grants, the purse of an agent with its ledger, and the issue of
  a package's cards against balance and quota. Money is an \<open>int64\<close> of cents.
\<close>

definition max_money :: int where "max_money = 1000000000000"
definition ErrTierNotFound :: app_err where "ErrTierNotFound = missing ''AGENT_TIER_NOT_FOUND''"
definition ErrAgentQuotaNotEnough :: app_err where "ErrAgentQuotaNotEnough = denied ''AGENT_QUOTA_NOT_ENOUGH''"

section \<open>Statements\<close>

definition packages_listed :: "card_package list site_act" where
  "packages_listed = look_goods (\<lambda>g. map (joined_package g) (sort_key (\<lambda>k. (pk_name k, pk_id k)) (x_packages g)))"

definition insert_package :: "card_package \<Rightarrow> unit site_act" where
  "insert_package k =
     andThen (put_goods (\<lambda>g. new_keys [pk_id] (x_packages g) k) (\<lambda>g. g\<lparr>x_packages := x_packages g @ [k\<lparr>pk_terms := None\<rparr>]\<rparr>)) (\<lambda>_.
     save_terms ''package'' (pk_id k) (pk_terms k))"

definition set_package_row :: "string \<Rightarrow> bool \<Rightarrow> int \<Rightarrow> unit site_act" where
  "set_package_row i enabled cost =
     change (\<lambda>g. g\<lparr>x_packages := alter pk_id i (\<lambda>k. k\<lparr>pk_enabled := enabled, pk_cost := cost\<rparr>) (x_packages g)\<rparr>)"

definition groups_listed :: "product_group list site_act" where
  "groups_listed =
     look_goods (\<lambda>g. map (\<lambda>v. v\<lparr>gg_products := sort (gg_products v)\<rparr>) (sort_key (\<lambda>v. (gg_name v, gg_id v)) (x_groups g)))"

definition save_group :: "product_group \<Rightarrow> unit site_act" where
  "save_group v =
     andThen (change (\<lambda>g. g\<lparr>x_groups := filter (\<lambda>u. gg_id u \<noteq> gg_id v) (x_groups g)\<rparr>)) (\<lambda>_.
     put_goods (\<lambda>g. distinct (gg_products v)) (\<lambda>g. g\<lparr>x_groups := x_groups g @ [v]\<rparr>))"

definition group_packages :: "string \<Rightarrow> card_package list site_act" where
  "group_packages i =
     andThen (fetch_goods (\<lambda>g. row_of gg_id i (x_groups g))) (\<lambda>v.
     look_goods (\<lambda>g. map (joined_package g) (sort_key (\<lambda>k. (pk_product k, pk_id k))
       (filter (\<lambda>k. pk_enabled k \<and> pk_product k \<in> set (gg_products v)) (x_packages g)))))"

text \<open>A tier with its settings (10000 and 100 where it has none) and the number of its agents.\<close>

definition tier_view :: "goods \<Rightarrow> string \<times> string \<Rightarrow> agent_tier" where
  "tier_view g t =
     (let (rate, order) = (case map_of (x_tier_settings g) (fst t) of None \<Rightarrow> (10000, 100) | Some v \<Rightarrow> v) in
      \<lparr>ti_id = fst t, ti_name = snd t, ti_rate = rate, ti_order = order,
       ti_count = int (length (filter (\<lambda>u. pu_tier u = fst t) (x_purses g)))\<rparr>)"

definition tiers_listed :: "agent_tier list site_act" where
  "tiers_listed = look_goods (\<lambda>g. sort_key (\<lambda>t. (ti_order t, ti_name t, ti_id t)) (map (tier_view g) (x_tiers g)))"

definition tier_by_id :: "string \<Rightarrow> agent_tier site_act" where
  "tier_by_id i = fetch_goods (\<lambda>g. map_option (tier_view g) (row_of fst i (x_tiers g)))"

definition save_tier_settings :: "agent_tier \<Rightarrow> unit site_act" where
  "save_tier_settings t =
     put_goods (\<lambda>_. 1 \<le> ti_rate t \<and> ti_rate t \<le> 10000)
       (\<lambda>g. g\<lparr>x_tier_settings := replace_row fst (ti_id t, ti_rate t, ti_order t) (x_tier_settings g)\<rparr>)"

definition insert_tier :: "agent_tier \<Rightarrow> unit site_act" where
  "insert_tier t =
     andThen (put_goods (\<lambda>g. new_keys [fst] (x_tiers g) (ti_id t, ti_name t)) (\<lambda>g. g\<lparr>x_tiers := x_tiers g @ [(ti_id t, ti_name t)]\<rparr>)) (\<lambda>_.
     save_tier_settings t)"

definition update_tier :: "agent_tier \<Rightarrow> unit site_act" where
  "update_tier t =
     andThen (change (\<lambda>g. g\<lparr>x_tiers := alter fst (ti_id t) (\<lambda>(i, _). (i, ti_name t)) (x_tiers g)\<rparr>)) (\<lambda>_. save_tier_settings t)"

definition delete_tier :: "string \<Rightarrow> unit site_act" where
  "delete_tier i =
     change (\<lambda>g. g\<lparr>x_tier_prices := filter (\<lambda>((t, _), _). t \<noteq> i) (x_tier_prices g),
                   x_tier_settings := filter (\<lambda>(t, _). t \<noteq> i) (x_tier_settings g),
                   x_tiers := filter (\<lambda>(t, _). t \<noteq> i) (x_tiers g)\<rparr>)"

definition tier_reference :: "string \<Rightarrow> unit site_act" where
  "tier_reference i = andThen (fetch_goods (\<lambda>g. row_of fst i (x_tiers g))) (\<lambda>_. ret ())"

definition set_tier_price_row :: "string \<Rightarrow> string \<Rightarrow> int option \<Rightarrow> unit site_act" where
  "set_tier_price_row tier pkg cost =
     andThen (tier_reference tier) (\<lambda>_.
     andThen (change (\<lambda>g. g\<lparr>x_tier_prices := filter (\<lambda>(k, _). k \<noteq> (tier, pkg)) (x_tier_prices g)\<rparr>)) (\<lambda>_.
     case cost of
       None \<Rightarrow> ret ()
     | Some c \<Rightarrow> change (\<lambda>g. g\<lparr>x_tier_prices := x_tier_prices g @ [((tier, pkg), c)]\<rparr>)))"

definition purse_of :: "string \<Rightarrow> goods \<Rightarrow> agent_purse" where
  "purse_of who g =
     (case row_of pu_agent who (x_purses g) of Some u \<Rightarrow> u | None \<Rightarrow> \<lparr>pu_agent = who, pu_tier = [], pu_balance = 0\<rparr>)"

definition read_purse :: "string \<Rightarrow> agent_purse site_act" where
  "read_purse who = look_goods (purse_of who)"

definition save_purse :: "agent_purse \<Rightarrow> unit site_act" where
  "save_purse u =
     andThen (if pu_tier u \<noteq> [] then tier_reference (pu_tier u) else ret ()) (\<lambda>_.
     change (\<lambda>g. g\<lparr>x_purses := replace_row pu_agent u (x_purses g)\<rparr>))"

definition save_grant :: "package_grant \<Rightarrow> unit site_act" where
  "save_grant v = change (\<lambda>g. g\<lparr>x_grants := replace_row (\<lambda>u. (pg_agent u, pg_package u)) v (x_grants g)\<rparr>)"

text \<open>\<open>EnsurePackagePolicy\<close>; its clock is the process's own (\<open>time.Now\<close>).\<close>

definition granted_days :: "agent_policy option \<Rightarrow> card_package \<Rightarrow> int list" where
  "granted_days y k =
     (let days = (case y of None \<Rightarrow> [] | Some v \<Rightarrow> po_days v) in
      if \<not> pk_permanent k \<and> pk_days k \<notin> set days then days @ [pk_days k] else days)"

definition ensure_package_policy :: "host \<Rightarrow> string \<Rightarrow> card_package \<Rightarrow> int \<Rightarrow> bool \<Rightarrow> unit site_act" where
  "ensure_package_policy hs who k limit export =
     andThen (look_goods (policy_of who (pk_product k))) (\<lambda>r.
     case r of
       Some old \<Rightarrow>
         change (\<lambda>g. g\<lparr>x_policies := alter (\<lambda>v. (po_agent v, po_product v)) (who, pk_product k)
           (\<lambda>v. v\<lparr>po_generate := True, po_days := granted_days (Some old) k, po_permanent := pk_permanent k \<or> po_permanent old,
                po_max := limit, po_export := export, po_status := ''active''\<rparr>) (x_policies g)\<rparr>)
     | None \<Rightarrow>
         andThen (fresh_id hs ''apol'') (\<lambda>i.
         let y = \<lparr>po_id = i, po_agent = who, po_product = pk_product k, po_generate = True, po_export = export,
                  po_days = granted_days None k, po_permanent = pk_permanent k, po_max = limit, po_status = ''active'',
                  po_created = now_of hs, po_updated = now_of hs\<rparr> in
         put_goods (\<lambda>g. new_keys [po_id] (x_policies g) y) (\<lambda>g. g\<lparr>x_policies := x_policies g @ [y]\<rparr>)))"

text \<open>\<open>quotePackage\<close>: the agent's own price, the price of the tier, the rate of the tier, the price of the
  package. A missing or disabled grant is no row.\<close>

definition quote_of :: "string \<Rightarrow> card_package \<Rightarrow> goods \<Rightarrow> package_quote option" where
  "quote_of who k g =
     (case row_of (\<lambda>v. (pg_agent v, pg_package v)) (who, pk_id k) (x_grants g) of
        None \<Rightarrow> None
      | Some v \<Rightarrow>
          if \<not> pg_enabled v \<or> \<not> pk_enabled k then None
          else Some (case pg_override v of
              Some c \<Rightarrow> \<lparr>pq_package = k, pq_cost = c, pq_source = ''agent''\<rparr>
            | None \<Rightarrow>
                (case row_of pu_agent who (x_purses g) of
                   None \<Rightarrow> \<lparr>pq_package = k, pq_cost = pk_cost k, pq_source = ''package''\<rparr>
                 | Some u \<Rightarrow>
                     (case map_of (x_tier_prices g) (pu_tier u, pk_id k) of
                        Some c \<Rightarrow> \<lparr>pq_package = k, pq_cost = c, pq_source = ''tier''\<rparr>
                      | None \<Rightarrow>
                          (case row_of fst (pu_tier u) (x_tiers g) of
                             None \<Rightarrow> \<lparr>pq_package = k, pq_cost = pk_cost k, pq_source = ''package''\<rparr>
                           | Some t \<Rightarrow>
                               \<lparr>pq_package = k, pq_cost = go_div (i64 (i64 (pk_cost k * ti_rate (tier_view g t)) + 9999)) 10000,
                                pq_source = ''tier_ratio''\<rparr>)))))"

definition quote :: "string \<Rightarrow> card_package \<Rightarrow> package_quote site_act" where
  "quote who k = fetch_goods (quote_of who k)"

definition money_by_request :: "string \<Rightarrow> string \<Rightarrow> money_row site_act" where
  "money_by_request who request = fetch_goods (\<lambda>g. row_of (\<lambda>m. (mo_agent m, mo_request m)) (who, request) (x_money g))"

definition insert_money :: "money_row \<Rightarrow> unit site_act" where
  "insert_money m =
     put_goods (\<lambda>g. new_keys [mo_id] (x_money g) m \<and> new_keys [\<lambda>v. (mo_agent v, mo_request v)] (x_money g) m)
       (\<lambda>g. g\<lparr>x_money := x_money g @ [m]\<rparr>)"

definition money_ledgers :: "string \<Rightarrow> money_row list site_act" where
  "money_ledgers who =
     look_goods (\<lambda>g. take 500 (rev (sort_key (\<lambda>m. (text_key (mo_created m), mo_id m)) (filter (\<lambda>m. mo_agent m = who) (x_money g)))))"

definition package_order :: "string \<Rightarrow> string \<Rightarrow> (string \<times> string) site_act" where
  "package_order who request = fetch_goods (\<lambda>g. map_of (x_orders g) (who, request))"

definition insert_package_order :: "string \<Rightarrow> string \<Rightarrow> string \<Rightarrow> string \<Rightarrow> unit site_act" where
  "insert_package_order who request fingerprint batch =
     put_goods (\<lambda>g. map_of (x_orders g) (who, request) = None)
       (\<lambda>g. g\<lparr>x_orders := x_orders g @ [((who, request), fingerprint, batch)]\<rparr>)"

section \<open>Groups, packages, tiers\<close>

definition save_product_group :: "host \<Rightarrow> product_group \<Rightarrow> string \<Rightarrow> product_group site_act" where
  "save_product_group hs v0 who =
     (let name = trim_space (gg_name v0) in
      if name = [] \<or> 160 < length name \<or> 500 < length (gg_products v0) then raise ErrInvalidRequest
      else
        andThen (if gg_id v0 = [] then fresh_id hs ''grp'' else ret (gg_id v0)) (\<lambda>i.
        andThen (foldEach (gg_products v0) [] (\<lambda>p seen.
          if p \<in> set seen then raise ErrInvalidRequest
          else andThen (orElse (product_by_id p) ErrProductNotFound) (\<lambda>_. ret (p # seen)))) (\<lambda>_.
        let v = v0\<lparr>gg_id := i, gg_name := name, gg_products := sort (gg_products v0)\<rparr> in
        andThen (with_tx (
          andThen (save_group v) (\<lambda>_. transaction_audit hs ''admin'' who [] [] ''group.save'' (GroupExtra v)))) (\<lambda>_.
        ret v))))"

definition create_package :: "host \<Rightarrow> card_package \<Rightarrow> string \<Rightarrow> card_package site_act" where
  "create_package hs k0 who =
     (let name = trim_space (pk_name k0) in
      if name = [] \<or> 160 < length name \<or> pk_cost k0 < 0 \<or> max_money < pk_cost k0 \<or>
        \<not> pk_permanent k0 \<and> (pk_days k0 < 1 \<or> 36500 < pk_days k0)
      then raise ErrInvalidRequest
      else
        andThen (fresh_id hs ''pkg'') (\<lambda>i.
        andThen (orElse (product_by_id (pk_product k0)) ErrProductNotFound) (\<lambda>p.
        andThen (case pk_terms k0 of None \<Rightarrow> ret (legacy_terms p) | Some t \<Rightarrow> pureA (normalize_auth_terms t)) (\<lambda>t.
        let k = k0\<lparr>pk_id := i, pk_name := name, pk_days := (if pk_permanent k0 then 0 else pk_days k0), pk_enabled := True,
                    pk_terms := Some t\<rparr> in
        andThen (with_tx (
          andThen (insert_package k) (\<lambda>_.
          transaction_audit hs ''admin'' who (pk_product k) [] ''package.create'' (PackageExtra k)))) (\<lambda>_.
        ret k)))))"

definition set_package :: "host \<Rightarrow> string \<Rightarrow> string \<Rightarrow> bool \<Rightarrow> int \<Rightarrow> unit site_act" where
  "set_package hs i who enabled cost =
     (if cost < 0 \<or> max_money < cost then raise ErrInvalidRequest
      else
        andThen (orElse (package_by_id i) ErrPackageDenied) (\<lambda>k.
        with_tx (
          andThen (set_package_row i enabled cost) (\<lambda>_.
          transaction_audit hs ''admin'' who (pk_product k) [] ''package.update''
            (ClaimsExtra [(''package_id'', CText i), (''enabled'', CBool enabled), (''base_cost'', CInt cost)])))))"

text \<open>\<open>ProductPackages\<close>: the packages of a product that are on sale.\<close>

definition product_packages :: "string \<Rightarrow> card_package list site_act" where
  "product_packages i = andThen packages_listed (\<lambda>ks. ret (filter (\<lambda>k. pk_product k = i \<and> pk_enabled k) ks))"

definition save_agent_tier :: "host \<Rightarrow> agent_tier \<Rightarrow> string \<Rightarrow> agent_tier site_act" where
  "save_agent_tier hs t0 who =
     (let t1 = t0\<lparr>ti_name := trim_space (ti_name t0)\<rparr> in
      if ti_name t1 = [] \<or> 160 < length (ti_name t1) \<or> ti_rate t1 < 1 \<or> 10000 < ti_rate t1 \<or> ti_order t1 < 0 \<or>
        10000 < ti_order t1
      then raise ErrInvalidRequest
      else if ti_id t1 = [] then
        andThen (fresh_id hs ''tier'') (\<lambda>i.
        let t = t1\<lparr>ti_id := i\<rparr> in
        with_tx (
          andThen (insert_tier t) (\<lambda>_.
          andThen (transaction_audit hs ''admin'' who [] [] ''agent_tier.create'' (TierExtra t)) (\<lambda>_. ret t))))
      else
        with_tx (
          andThen (orMissing (tier_by_id (ti_id t1)) ErrTierNotFound) (\<lambda>before.
          let t = t1\<lparr>ti_count := ti_count before\<rparr> in
          andThen (update_tier t) (\<lambda>_.
          andThen (transaction_audit hs ''admin'' who [] [] ''agent_tier.update'' (TierChange before t)) (\<lambda>_. ret t)))))"

definition create_tier :: "host \<Rightarrow> string \<Rightarrow> string \<Rightarrow> agent_tier site_act" where
  "create_tier hs name who =
     save_agent_tier hs \<lparr>ti_id = [], ti_name = name, ti_rate = 10000, ti_order = 100, ti_count = 0\<rparr> who"

definition delete_agent_tier :: "host \<Rightarrow> string \<Rightarrow> string \<Rightarrow> unit site_act" where
  "delete_agent_tier hs i who =
     with_tx (
       andThen (orMissing (tier_by_id i) ErrTierNotFound) (\<lambda>t.
       if 0 < ti_count t then raise (AppError ''AGENT_TIER_IN_USE'' 409)
       else
         andThen (delete_tier i) (\<lambda>_. transaction_audit hs ''admin'' who [] [] ''agent_tier.delete'' (TierExtra t))))"

definition set_tier_price :: "host \<Rightarrow> string \<Rightarrow> string \<Rightarrow> string \<Rightarrow> int option \<Rightarrow> unit site_act" where
  "set_tier_price hs tier pkg who cost =
     (if (case cost of None \<Rightarrow> False | Some c \<Rightarrow> c < 0 \<or> max_money < c) then raise ErrInvalidRequest
      else
        andThen (orElse (package_by_id pkg) ErrPackageDenied) (\<lambda>k.
        with_tx (
          andThen (orMissing (set_tier_price_row tier pkg cost) ErrTierNotFound) (\<lambda>_.
          transaction_audit hs ''admin'' who (pk_product k) [] ''agent_tier.price'' (PriceExtra tier pkg cost)))))"

definition set_agent_tier :: "host \<Rightarrow> string \<Rightarrow> string \<Rightarrow> string \<Rightarrow> unit site_act" where
  "set_agent_tier hs agent tier who =
     with_tx (
       andThen (orElse (agent_by_id agent) ErrAgentNotFound) (\<lambda>_.
       andThen (read_purse agent) (\<lambda>u0.
       let u = u0\<lparr>pu_tier := tier\<rparr> in
       andThen (orMissing (save_purse u) ErrTierNotFound) (\<lambda>_.
       transaction_audit hs ''admin'' who [] [] ''agent_tier.assign'' (PurseExtra u)))))"

section \<open>Grants\<close>

text \<open>\<open>GrantPackagesInput\<close>.\<close>

record grant_input =
  ga_agent :: string
  ga_package :: string
  ga_group :: string
  ga_enabled :: bool
  ga_override :: "int option"
  ga_max :: int
  ga_export :: bool

definition grant_one :: "host \<Rightarrow> grant_input \<Rightarrow> card_package \<Rightarrow> unit site_act" where
  "grant_one hs inp k =
     andThen (save_grant \<lparr>pg_agent = ga_agent inp, pg_package = pk_id k, pg_enabled = ga_enabled inp,
       pg_override = ga_override inp\<rparr>) (\<lambda>_.
     if ga_enabled inp then ensure_package_policy hs (ga_agent inp) k (ga_max inp) (ga_export inp) else ret ())"

definition grant_packages :: "host \<Rightarrow> grant_input \<Rightarrow> string \<Rightarrow> unit site_act" where
  "grant_packages hs inp who =
     (if (ga_group inp = []) = (ga_package inp = []) \<or> ga_max inp < 1 \<or> 1000 < ga_max inp \<or>
        (case ga_override inp of None \<Rightarrow> False | Some c \<Rightarrow> c < 0 \<or> max_money < c)
      then raise ErrInvalidRequest
      else
        with_tx (
          andThen (orElse (agent_by_id (ga_agent inp)) ErrAgentNotFound) (\<lambda>_.
          andThen (if ga_group inp \<noteq> []
                   then andThen (group_packages (ga_group inp)) (\<lambda>ks. if ks = [] then raise ErrPackageDenied else ret ks)
                   else andThen (orElse (package_by_id (ga_package inp)) ErrPackageDenied) (\<lambda>k. ret [k])) (\<lambda>ks.
          andThen (forEach ks (grant_one hs inp)) (\<lambda>_.
          transaction_audit hs ''admin'' who [] [] ''agent_packages.grant''
            (GrantExtra (ga_agent inp) (ga_group inp) ks (ga_enabled inp) (ga_override inp)))))))"

section \<open>The purse\<close>

definition adjust_tx :: "host \<Rightarrow> string \<Rightarrow> string \<Rightarrow> int \<Rightarrow> string \<Rightarrow> string \<Rightarrow> (money_row \<times> bool) site_act" where
  "adjust_tx hs agent who amount request reason =
     andThen (orElse (agent_by_id agent) ErrAgentNotFound) (\<lambda>_.
     andThen (optional (money_by_request agent request)) (\<lambda>r.
     case r of
       Some old \<Rightarrow>
         if mo_kind old \<noteq> ''adjust'' \<or> mo_amount old \<noteq> amount \<or> mo_remark old \<noteq> reason
         then raise (bad_request ''IDEMPOTENCY_CONFLICT'')
         else ret (old, False)
     | None \<Rightarrow>
         andThen (read_purse agent) (\<lambda>u0.
         let u = u0\<lparr>pu_balance := i64 (pu_balance u0 + amount)\<rparr> in
         if pu_balance u < 0 \<or> max_money < pu_balance u then raise (denied ''BALANCE_LIMIT'')
         else
           andThen (save_purse u) (\<lambda>_.
           andThen (fresh_id hs ''money'') (\<lambda>i.
           let m = \<lparr>mo_id = i, mo_agent = agent, mo_request = request, mo_kind = ''adjust'', mo_amount = amount,
                    mo_balance = pu_balance u, mo_batch = [], mo_package = [], mo_unit = 0, mo_quantity = 0,
                    mo_remark = reason, mo_actor = who, mo_created = now_of hs\<rparr> in
           andThen (insert_money m) (\<lambda>_.
           andThen (transaction_audit hs ''admin'' who [] [] ''agent_balance.adjust'' (MoneyExtra m)) (\<lambda>_.
           ret (m, True))))))))"

definition adjust_agent_balance :: "host \<Rightarrow> string \<Rightarrow> string \<Rightarrow> int \<Rightarrow> string \<Rightarrow> string \<Rightarrow> money_row site_act" where
  "adjust_agent_balance hs agent who amount request reason =
     (if amount = 0 \<or> max_money < amount \<or> amount < - max_money \<or> length request < 8 \<or> 64 < length request \<or>
        trim_space reason = [] \<or> 500 < length reason
      then raise ErrInvalidRequest
      else
        andThen (with_tx (adjust_tx hs agent who amount request reason)) (\<lambda>(m, created).
        andThen (if created
          then notify_agent_email hs ''balance_adjust'' agent [(''amount'', itoa (mo_amount m)), (''balance'', itoa (mo_balance m)),
            (''remark'', mo_remark m)] (mo_id m)
          else ret ()) (\<lambda>_.
        ret m)))"

section \<open>Packages on sale to an agent\<close>

definition offered :: "string \<Rightarrow> goods \<Rightarrow> card_package \<Rightarrow> package_quote option" where
  "offered who g k =
     (case (quote_of who k g, policy_of who (pk_product k) g, product_of g (pk_product k)) of
        (Some q, Some y, Some p) \<Rightarrow>
          if gp_status p = ''active'' \<and> validate_agent_policy y 1 (pk_days k) (pk_permanent k) = Inr () then Some q else None
      | _ \<Rightarrow> None)"

text \<open>\<open>AgentPackages\<close>: the product of a package exists (a foreign key).\<close>

definition agent_packages :: "string \<Rightarrow> package_quote list site_act" where
  "agent_packages who = andThen packages_listed (\<lambda>ks. look_goods (\<lambda>g. List.map_filter (offered who g) ks))"

definition commerce_catalog :: "(product_group list \<times> card_package list \<times> agent_tier list) site_act" where
  "commerce_catalog =
     andThen groups_listed (\<lambda>gs. andThen packages_listed (\<lambda>ks. andThen tiers_listed (\<lambda>ts. ret (gs, ks, ts))))"

section \<open>Issue of a package\<close>

text \<open>\<open>AgentCreateCardBatchInput\<close>.\<close>

record issue_input =
  iu_package :: string
  iu_request :: string
  iu_cost :: "int option"
  iu_agent :: string
  iu_product :: string
  iu_name :: string
  iu_quantity :: int
  iu_days :: int
  iu_permanent :: bool

text \<open>The checks of the request against price, policy, balance and quota: purse, quota balance and cost.\<close>

definition issue_checks ::
  "issue_input \<Rightarrow> int \<Rightarrow> card_package \<Rightarrow> (package_quote \<times> agent_purse \<times> int \<times> int) site_act" where
  "issue_checks inp expected k =
     andThen (orMissing (quote (iu_agent inp) k) ErrPackageDenied) (\<lambda>q.
     if expected \<noteq> pq_cost q then raise (bad_request ''PACKAGE_PRICE_CHANGED'')
     else
       andThen (orMissing (agent_policy_for (iu_agent inp) (pk_product k)) ErrAgentProductDenied) (\<lambda>y.
       andThen (pureA (validate_agent_policy y (iu_quantity inp) (pk_days k) (pk_permanent k))) (\<lambda>_.
       andThen (read_purse (iu_agent inp)) (\<lambda>u.
       let cost = i64 (pq_cost q * iu_quantity inp) in
       if cost < 0 \<or> max_money < cost \<or> pu_balance u < cost then raise (denied ''AGENT_BALANCE_NOT_ENOUGH'')
       else
         andThen (if pk_quota k
                  then andThen (quota_balance (iu_agent inp) (pk_product k) (pk_days k) (pk_permanent k)) (\<lambda>b.
                    if b < iu_quantity inp then raise ErrAgentQuotaNotEnough else ret b)
                  else ret 0) (\<lambda>b.
         ret (q, u, b, cost))))))"

definition spend_quota :: "host \<Rightarrow> issue_input \<Rightarrow> card_package \<Rightarrow> string \<Rightarrow> int \<Rightarrow> unit site_act" where
  "spend_quota hs inp k batch balance =
     (if \<not> pk_quota k then ret ()
      else
        andThen (fresh_id hs ''quota'') (\<lambda>i.
        insert_quota \<lparr>qu_id = i, qu_agent = iu_agent inp, qu_product = pk_product k, qu_days = pk_days k,
          qu_permanent = pk_permanent k, qu_type = ''generate_cards'', qu_change = - iu_quantity inp,
          qu_balance = balance - iu_quantity inp, qu_batch = batch, qu_card = [], qu_by_type = ''agent'',
          qu_by = iu_agent inp, qu_remark = [], qu_created = now_of hs\<rparr>))"

definition caller_or :: "host \<Rightarrow> string \<Rightarrow> string" where
  "caller_or hs who = (case ho_caller hs of None \<Rightarrow> who | Some a \<Rightarrow> if cl_id a \<noteq> [] then cl_id a else who)"

definition issue_new ::
  "host \<Rightarrow> nat \<Rightarrow> issue_input \<Rightarrow> int \<Rightarrow> string \<Rightarrow> string \<Rightarrow> (g_batch \<times> string list) site_act" where
  "issue_new hs fuel inp expected fingerprint product =
     andThen (product_by_id product) (\<lambda>p0.
     if gp_status p0 \<noteq> ''active'' then raise ErrProductDisabled
     else
       andThen (orElse (package_by_id (iu_package inp)) ErrPackageDenied) (\<lambda>k.
       andThen (issue_checks inp expected k) (\<lambda>(q, u, balance, cost).
       andThen (build_card_batch hs fuel (effective_product p0 (pk_terms k)) (iu_agent inp) (non_empty (iu_name inp) (pk_name k))
         (iu_quantity inp) (pk_days k) (pk_permanent k) ''agent_package'') (\<lambda>(batch, cards, codes).
       andThen (insert_batch batch) (\<lambda>_.
       andThen (forEach cards insert_card) (\<lambda>_.
       let u2 = u\<lparr>pu_balance := i64 (pu_balance u - cost)\<rparr> in
       andThen (save_purse u2) (\<lambda>_.
       andThen (spend_quota hs inp k (gt_id batch) balance) (\<lambda>_.
       andThen (fresh_id hs ''money'') (\<lambda>i.
       let m = \<lparr>mo_id = i, mo_agent = iu_agent inp, mo_request = iu_request inp, mo_kind = ''issue'', mo_amount = - cost,
                mo_balance = pu_balance u2, mo_batch = gt_id batch, mo_package = pk_id k, mo_unit = pq_cost q,
                mo_quantity = iu_quantity inp, mo_remark = pk_name k, mo_actor = caller_or hs (iu_agent inp),
                mo_created = now_of hs\<rparr> in
       andThen (insert_money m) (\<lambda>_.
       andThen (insert_package_order (iu_agent inp) (iu_request inp) fingerprint (gt_id batch)) (\<lambda>_.
       andThen (transaction_audit hs ''agent'' (caller_or hs (iu_agent inp)) (pk_product k) [] ''agent_package.issue'' (MoneyExtra m)) (\<lambda>_.
       ret (batch, codes)))))))))))))"

text \<open>The transaction: the batch of an earlier request with the same content, or a new batch with its codes.\<close>

definition issue_tx ::
  "host \<Rightarrow> nat \<Rightarrow> issue_input \<Rightarrow> int \<Rightarrow> string \<Rightarrow> string \<Rightarrow> (string + g_batch \<times> string list) site_act" where
  "issue_tx hs fuel inp expected fingerprint product =
     andThen (orElse (agent_by_id (iu_agent inp)) ErrAgentNotFound) (\<lambda>a.
     andThen (pureA (ensure_agent_active a)) (\<lambda>_.
     andThen (optional (package_order (iu_agent inp) (iu_request inp))) (\<lambda>r.
     case r of
       Some (old, batch) \<Rightarrow>
         if old \<noteq> fingerprint then raise (bad_request ''IDEMPOTENCY_CONFLICT'') else ret (Inl batch)
     | None \<Rightarrow> andThen (issue_new hs fuel inp expected fingerprint product) (\<lambda>v. ret (Inr v)))))"

definition replayed :: "host \<Rightarrow> string \<Rightarrow> string \<Rightarrow> (g_batch \<times> string list) site_act" where
  "replayed hs who batch =
     andThen (batch_for_agent batch who) (\<lambda>b.
     andThen (cards_of_batch_for_agent batch who) (\<lambda>cards.
     andThen (pureA (open_codes hs cards)) (\<lambda>codes.
     ret (b, map2 (\<lambda>c code. format_card_code (ho_core hs) (gc_prefix c) (trim_prefix code (to_upper (ho_core hs) (gc_prefix c))))
       cards codes))))"

definition generate_package_cards :: "host \<Rightarrow> nat \<Rightarrow> issue_input \<Rightarrow> (g_batch \<times> string list) site_act" where
  "generate_package_cards hs fuel inp =
     (if iu_agent inp = [] \<or> iu_quantity inp < 1 \<or> 1000 < iu_quantity inp \<or> 160 < length (iu_name inp)
      then raise ErrInvalidRequest
      else if iu_package inp = [] then raise ErrPackageDenied
      else case iu_cost inp of
          None \<Rightarrow> raise (bad_request ''PACKAGE_QUOTE_REQUIRED'')
        | Some expected \<Rightarrow>
            if length (iu_request inp) < 8 \<or> 64 < length (iu_request inp) then raise (bad_request ''PACKAGE_QUOTE_REQUIRED'')
            else
              andThen (orElse (package_by_id (iu_package inp)) ErrPackageDenied) (\<lambda>k.
              andThen (orElse (product_by_id (pk_product k)) ErrProductNotFound) (\<lambda>_.
              if iu_product inp \<noteq> [] \<and> iu_product inp \<noteq> pk_product k \<or> iu_days inp \<noteq> 0 \<and> iu_days inp \<noteq> pk_days k \<or>
                iu_permanent inp \<and> \<not> pk_permanent k
              then raise (bad_request ''PACKAGE_TERMS_MISMATCH'')
              else
                andThen (with_tx (issue_tx hs fuel inp expected
                  (ho_order_json hs (iu_package inp) (iu_name inp) (iu_quantity inp) expected) (pk_product k))) (\<lambda>r.
                case r of Inr v \<Rightarrow> ret v | Inl batch \<Rightarrow> replayed hs (iu_agent inp) batch))))"

end
