(* ===== verification/Holder.thy ===== *)
theory Holder
  imports Trade
begin

text \<open>
  What a customer does with licenses of the first generation (\<open>service/customers.go\<close>): activation, the view of a
  license with its bindings, renewal, change of a binding, and the assignment of owners by an administrator.
\<close>

section \<open>Activation\<close>

text \<open>\<open>strings.EqualFold\<close>, on text in lower case.\<close>

definition equal_fold :: "svc \<Rightarrow> string \<Rightarrow> string \<Rightarrow> bool" where
  "equal_fold sv a b \<longleftrightarrow> to_lower sv a = to_lower sv b"

definition customer_activate :: "host \<Rightarrow> string \<Rightarrow> string \<Rightarrow> activation_input \<Rightarrow> license_reply site_act" where
  "customer_activate hs user code0 inp =
     andThen (orMissing (card_by_hash (code_hash hs (av_card inp))) ErrCardInvalid) (\<lambda>c.
     andThen (product_by_id (gc_product c)) (\<lambda>p.
     let code = trim_space code0 in
     if code \<noteq> [] \<and> code \<noteq> gp_id p \<and> \<not> equal_fold (ho_core hs) code (gp_code p) then raise ErrCardInvalid
     else activate_card hs (inp\<lparr>av_key := gp_app_key p, av_user := user\<rparr>)))"

section \<open>The view\<close>

text \<open>\<open>domain.CustomerBinding\<close> and \<open>domain.CustomerLicense\<close>.\<close>

record binding_view =
  bw_id :: string
  bw_mode :: string
  bw_value :: string
  bw_status :: string
  bw_seen :: "int option"
  bw_online :: string
  bw_days :: int

record license_view =
  lv_use :: bool
  lv_update :: bool
  lv_license :: g_license
  lv_product :: g_product
  lv_bindings :: "binding_view list"
  lv_policy :: change_policy
  lv_used :: nat
  lv_last :: "int option"

fun binding_views :: "host \<Rightarrow> g_binding list \<Rightarrow> app_err + binding_view list" where
  "binding_views hs [] = Inr []"
| "binding_views hs (b # bs) =
     (case opened hs (gb_sealed b) of
        Inl e \<Rightarrow> Inl e
      | Inr value \<Rightarrow>
          (case binding_views hs bs of
             Inl e \<Rightarrow> Inl e
           | Inr vs \<Rightarrow> Inr (\<lparr>bw_id = gb_id b, bw_mode = gb_mode b, bw_value = value, bw_status = gb_status b, bw_seen = gb_seen b,
               bw_online = gb_online b, bw_days = gb_offline_days b\<rparr> # vs)))"

definition customer_license :: "host \<Rightarrow> string \<Rightarrow> string \<Rightarrow> license_view site_act" where
  "customer_license hs user no =
     andThen (orElse (license_by_no no) ErrLicenseNotFound) (\<lambda>l0.
     if gl_owner l0 \<noteq> user \<or> user = [] then raise ErrLicenseNotFound
     else
       andThen (product_by_id (gl_product l0)) (\<lambda>p0.
       let p = (effective_product p0 (gl_terms l0))\<lparr>gp_private := [], gp_developer := []\<rparr> in
       andThen (bindings_of (gl_id l0)) (\<lambda>bs.
       andThen (pureA (binding_views hs (binding_online_states bs (gp_offline_days p) (now_of hs)))) (\<lambda>views.
       let l = shown_expired (now_of hs) l0 in
       andThen (look_goods (\<lambda>g. fst (security_action l g))) (\<lambda>action.
       andThen (if has_v2_terms l then ret (terms_policy p) else binding_policy p) (\<lambda>policy.
       andThen (binding_change_stats (gl_id l)) (\<lambda>(used, recent).
       ret \<lparr>lv_use = gp_status p = ''active'' \<and> ensure_usable p l0 (now_of hs) = Inr () \<and> action \<noteq> ''deny_use'' \<and>
              action \<noteq> ''block_page'',
            lv_update = gp_status p = ''active'' \<and> license_can_update l0 (now_of hs) \<and> action = ''observe'',
            lv_license = l, lv_product = p, lv_bindings = views, lv_policy = policy, lv_used = used, lv_last = recent\<rparr>)))))))"

definition owned_licenses :: "host \<Rightarrow> string \<Rightarrow> license_view list site_act" where
  "owned_licenses hs user =
     andThen (licenses_of_customer user) (\<lambda>ls.
     foldEach ls [] (\<lambda>l views. andThen (customer_license hs user (gl_no l)) (\<lambda>v. ret (views @ [v]))))"

section \<open>Renewal and change of a binding\<close>

definition no_instance :: client_instance where
  "no_instance = \<lparr>ci_session = [], ci_instance = [], ci_secret = [], ci_device = [], ci_seat = [], ci_bindings = []\<rparr>"

definition renew_owned :: "host \<Rightarrow> string \<Rightarrow> string \<Rightarrow> string \<Rightarrow> string \<Rightarrow> license_reply site_act" where
  "renew_owned hs user no binding crd =
     andThen (customer_license hs user no) (\<lambda>v.
     case List.find (\<lambda>b. bw_id b = binding \<and> bw_status b = ''active'') (lv_bindings v) of
       None \<Rightarrow> raise ErrBindingMismatch
     | Some b \<Rightarrow> renew hs \<lparr>ri_instance = no_instance, ri_user = user, ri_key = gp_app_key (lv_product v), ri_no = no,
         ri_card = crd, ri_mode = bw_mode b, ri_value = bw_value b, ri_ip = [], ri_agent = []\<rparr>)"

text \<open>\<open>RebindInput\<close>.\<close>

record rebind_input =
  ro_binding :: string
  ro_value :: string
  ro_request :: string
  ro_reason :: string

definition replace_value ::
  "host \<Rightarrow> g_product \<Rightarrow> g_license \<Rightarrow> string \<Rightarrow> rebind_input \<Rightarrow> string \<Rightarrow> string \<Rightarrow> string \<Rightarrow> unit site_act" where
  "replace_value hs p l user inp value hash sealed =
     andThen (attempt (binding_by_id (ro_binding inp))) (\<lambda>r.
     case r of
       Inl _ \<Rightarrow> raise ErrBindingMismatch
     | Inr b \<Rightarrow>
         if gb_license b \<noteq> gl_id l \<or> gb_status b \<noteq> ''active'' then raise ErrBindingMismatch
         else if gb_hash b = hash then ret ()
         else
           andThen (guard_binding_change hs p l) (\<lambda>_.
           andThen (optional (active_binding_by_hash (gl_id l) (gp_mode p) hash)) (\<lambda>there.
           if there \<noteq> None then raise (bad_request ''BINDING_EXISTS'')
           else
             andThen (replace_binding (gb_id b) hash sealed (now_of hs)) (\<lambda>_.
             andThen (index_binding hs b value) (\<lambda>_.
             andThen (fresh_id hs ''change'') (\<lambda>i.
             andThen (add_binding_change i (gl_id l) (gb_id b) (ro_request inp) hash ''replace'' (now_of hs)) (\<lambda>_.
             transaction_audit hs ''customer'' user (gp_id p) (gl_id l) ''binding.replace''
               (Fields [(''binding_id'', gb_id b), (''reason'', ro_reason inp)])))))))) "

definition rebind_tx ::
  "host \<Rightarrow> g_product \<Rightarrow> string \<Rightarrow> string \<Rightarrow> rebind_input \<Rightarrow> string \<Rightarrow> string \<Rightarrow> string \<Rightarrow> unit site_act" where
  "rebind_tx hs p lic user inp value hash sealed =
     andThen (owner_of lic) (\<lambda>owner.
     if owner \<noteq> user then raise ErrLicenseNotFound
     else
       andThen (license_by_id lic) (\<lambda>l.
       andThen (optional (binding_change_hash (gl_id l) (ro_request inp))) (\<lambda>previous.
       case previous of
         Some h \<Rightarrow> if h \<noteq> hash then raise (bad_request ''IDEMPOTENCY_CONFLICT'') else ret ()
       | None \<Rightarrow> replace_value hs p l user inp value hash sealed)))"

definition customer_rebind :: "host \<Rightarrow> string \<Rightarrow> string \<Rightarrow> rebind_input \<Rightarrow> license_view site_act" where
  "customer_rebind hs user no inp =
     andThen (customer_license hs user no) (\<lambda>v.
     let p = lv_product v in
     if gp_status p \<noteq> ''active'' then raise ErrProductDisabled
     else if ro_request inp = [] \<or> 64 < length (ro_request inp) \<or> trim_space (ro_reason inp) = [] \<or> 500 < length (ro_reason inp)
     then raise ErrInvalidRequest
     else
       andThen (pureA (normalize_bound hs p (gp_mode p) (ro_value inp))) (\<lambda>(_, value, hash).
       andThen (seal hs value) (\<lambda>sealed.
       andThen (with_tx (rebind_tx hs p (gl_id (lv_license v)) user inp value hash sealed)) (\<lambda>_.
       customer_license hs user no))))"

section \<open>Owners\<close>

definition assign_owner_tx :: "host \<Rightarrow> g_product \<Rightarrow> string \<Rightarrow> string \<Rightarrow> string \<Rightarrow> string \<Rightarrow> string \<Rightarrow> unit site_act" where
  "assign_owner_tx hs p lic who user expected reason =
     andThen (owner_of lic) (\<lambda>owner.
     if owner \<noteq> expected then raise (AppError ''OWNER_CHANGED'' 409)
     else if owner = user then ret ()
     else
       andThen (binding_policy p) (\<lambda>y.
       if owner \<noteq> [] \<and> \<not> by_transfer y then raise (denied ''OWNER_TRANSFER_DISABLED'')
       else
         andThen (set_owner lic user) (\<lambda>_.
         transaction_audit hs ''admin'' who (gp_id p) lic ''license.owner''
           (Fields [(''from'', owner), (''to'', user), (''reason'', reason)]))))"

definition assign_owner :: "host \<Rightarrow> string \<Rightarrow> string \<Rightarrow> string \<Rightarrow> string \<Rightarrow> string \<Rightarrow> unit site_act" where
  "assign_owner hs no who user expected reason =
     (if trim_space reason = [] \<or> 500 < length reason then raise ErrInvalidRequest
      else
        andThen (attempt (customer_by_id user)) (\<lambda>r.
        case r of
          Inl _ \<Rightarrow> raise (missing ''USER_NOT_FOUND'')
        | Inr c \<Rightarrow>
            if cu_status c \<noteq> ''active'' then raise (missing ''USER_NOT_FOUND'')
            else
              andThen (orElse (license_by_no no) ErrLicenseNotFound) (\<lambda>l.
              andThen (product_by_id (gl_product l)) (\<lambda>p.
              with_tx (assign_owner_tx hs p (gl_id l) who user expected reason)))))"

end
