(* ===== verification/Query.thy ===== *)
theory Query
  imports Trade
begin

text \<open>
  The public query of the first generation (\<open>service/service.go\<close>, \<open>binding_subjects.go\<close>): by the number of a license,
  a card code, or a bound domain, address or account. Numbers are masked. Bindings of patterns are found by
  hashes of all patterns that could cover the value.
\<close>

definition ErrAuthorizationNotFound :: app_err where "ErrAuthorizationNotFound = missing ''AUTHORIZATION_NOT_FOUND''"

text \<open>\<open>PublicLicenseQueryInput\<close>, \<open>PublicLicenseQueryMatch\<close>, \<open>PublicLicenseQueryResult\<close>.\<close>

record query_input =
  qi_no :: string
  qi_card :: string
  qi_query :: string
  qi_type :: string

record query_match =
  qm_mode :: string
  qm_updates :: "int option"
  qm_name :: string
  qm_product :: string
  qm_code :: string
  qm_no :: string
  qm_status :: string
  qm_permanent :: bool
  qm_activated :: "int option"
  qm_expired :: "int option"
  qm_verified :: "int option"

record query_result =
  qr_match :: query_match
  qr_type :: string
  qr_masked :: string
  qr_results :: "query_match list"
  qr_card_status :: string
  qr_days :: int
  qr_time :: int

definition no_match :: query_match where
  "no_match = \<lparr>qm_mode = [], qm_updates = None, qm_name = [], qm_product = [], qm_code = [], qm_no = [], qm_status = [],
     qm_permanent = False, qm_activated = None, qm_expired = None, qm_verified = None\<rparr>"

definition public_license_match :: "host \<Rightarrow> g_license \<Rightarrow> query_match site_act" where
  "public_license_match hs l =
     andThen (product_by_id (gl_product l)) (\<lambda>p.
     ret \<lparr>qm_mode = gl_mode l, qm_updates = gl_updates l, qm_name = gp_name p, qm_product = gp_id p, qm_code = gp_code p,
          qm_no = mask_license_no (gl_no l), qm_status = gl_status (shown_expired (now_of hs) l),
          qm_permanent = (gl_expired l = None), qm_activated = Some (gl_activated l), qm_expired = gl_expired l,
          qm_verified = gl_verified l\<rparr>)"

definition public_license_result :: "host \<Rightarrow> string \<Rightarrow> g_card option \<Rightarrow> g_license \<Rightarrow> query_result site_act" where
  "public_license_result hs kind c l =
     andThen (public_license_match hs l) (\<lambda>m.
     ret \<lparr>qr_match = m, qr_type = kind, qr_masked = [], qr_results = [],
          qr_card_status = (case c of Some v \<Rightarrow> gc_status v | None \<Rightarrow> []),
          qr_days = (case c of Some v \<Rightarrow> gc_days v | None \<Rightarrow> 0), qr_time = now_of hs\<rparr>)"

section \<open>Patterns\<close>

fun suffixes_of :: "string list \<Rightarrow> string list list" where
  "suffixes_of [] = []"
| "suffixes_of (l # ls) = (l # ls) # suffixes_of ls"

text \<open>The patterns that could cover a value, by the kind under which they are indexed.\<close>

definition covering :: "string \<Rightarrow> string \<Rightarrow> app_err + (string \<times> string list) list" where
  "covering kind value =
     (if kind = ''domain'' then
        Inr [(kind, [value]), (''domain_wildcard'',
          value # map (\<lambda>ls. ''*.'' @ join_with ''.'' ls) (filter (\<lambda>ls. 1 < length ls) (suffixes_of (split_on (CHR ''.'') value))))]
      else if kind = ''ip'' then
        (case parse_addr value of
           None \<Rightarrow> Inl (GoError ''netip'')
         | Some a0 \<Rightarrow>
             let a = unmap a0 in
             Inr [(kind, [value]), (''ip_cidr'', show_addr a # map (\<lambda>bits. show_prefix (masked (a, bits))) [1..<Suc (bit_len a)])])
      else Inr [(kind, [value])])"

definition covers :: "host \<Rightarrow> string \<Rightarrow> string \<Rightarrow> auth_terms \<Rightarrow> g_binding \<Rightarrow> app_err + bool" where
  "covers hs kind value t b =
     (case opened hs (gb_sealed b) of
        Inl e \<Rightarrow> Inl e
      | Inr registered \<Rightarrow>
          if gb_mode b \<noteq> ''composite'' then Inr (match_binding hs (gb_mode b) registered value t)
          else (case ho_map_parse hs registered of
              None \<Rightarrow> Inl ErrBindingRequired
            | Some m \<Rightarrow> Inr (match_binding hs kind (option_text (map_of m kind)) value t)))"

definition no_terms :: auth_terms where
  "no_terms = \<lparr>tm_purpose = [], tm_version = 0, tm_forms = [], tm_mode = [], tm_kinds = [], tm_apex = False, tm_depth = [],
     tm_bindings = 0, tm_instance = False, tm_deployments = 0, tm_devices = 0, tm_seats = 0, tm_lease = 0, tm_offline = 0,
     tm_license_mode = [], tm_update_days = 0, tm_expire_days = 0, tm_unbinds = 0, tm_cooldown = 0, tm_features = []\<rparr>"

definition add_covering ::
  "host \<Rightarrow> string \<Rightarrow> string \<Rightarrow> g_binding \<Rightarrow> g_binding list \<Rightarrow> g_binding list site_act" where
  "add_covering hs kind value b found =
     (if gb_id b \<in> set (map gb_id found) then ret found
      else
        andThen (pureA (opened hs (gb_sealed b))) (\<lambda>_.
        andThen (license_by_id (gb_license b)) (\<lambda>l.
        andThen (pureA (covers hs kind value (case gl_terms l of None \<Rightarrow> no_terms | Some t \<Rightarrow> t) b)) (\<lambda>ok.
        ret (if ok then found @ [b] else found)))))"

definition public_pattern_bindings :: "host \<Rightarrow> string \<Rightarrow> string \<Rightarrow> g_binding list site_act" where
  "public_pattern_bindings hs kind value =
     andThen (pureA (covering kind value)) (\<lambda>candidates.
     foldEach (s_range (ho_core hs) (map fst candidates)) [] (\<lambda>k found.
       andThen (lookup_subjects k (map (bind_hash hs k) (concat (map snd (filter (\<lambda>c. fst c = k) candidates))))) (\<lambda>bs.
       foldEach bs found (add_covering hs k value))))"

section \<open>Queries\<close>

fun collect_matches :: "host \<Rightarrow> g_binding list \<Rightarrow> string list \<Rightarrow> query_match list \<Rightarrow> query_match list site_act" where
  "collect_matches hs [] seen ms = ret ms"
| "collect_matches hs (b # bs) seen ms =
     (if gb_license b \<in> set seen then collect_matches hs bs seen ms
      else if 10 \<le> length ms then ret ms
      else
        andThen (optional (license_by_id (gb_license b))) (\<lambda>r.
        case r of
          None \<Rightarrow> collect_matches hs bs (gb_license b # seen) ms
        | Some l \<Rightarrow>
            andThen (public_license_match hs l) (\<lambda>m. collect_matches hs bs (gb_license b # seen) (ms @ [m]))))"

definition query_public_bindings :: "host \<Rightarrow> string \<Rightarrow> string \<Rightarrow> query_result site_act" where
  "query_public_bindings hs kind query =
     (case normalize_binding_value hs kind query of
        Inl _ \<Rightarrow> raise ErrInvalidRequest
      | Inr value \<Rightarrow>
          andThen (active_bindings_by_hash kind (bind_hash hs kind value) 10) (\<lambda>exact.
          andThen (public_pattern_bindings hs kind value) (\<lambda>patterns.
          let bs = exact @ filter (\<lambda>b. gb_id b \<notin> set (map gb_id exact)) patterns in
          if bs = [] then raise ErrAuthorizationNotFound
          else
            andThen (collect_matches hs bs [] []) (\<lambda>ms.
            if ms = [] then raise ErrAuthorizationNotFound
            else ret \<lparr>qr_match = no_match, qr_type = kind, qr_masked = mask_public_query kind value, qr_results = ms,
              qr_card_status = [], qr_days = 0, qr_time = now_of hs\<rparr>))))"

definition query_by_no :: "host \<Rightarrow> string \<Rightarrow> query_result site_act" where
  "query_by_no hs no =
     andThen (orMissing (license_by_no no) ErrAuthorizationNotFound) (public_license_result hs ''license'' None)"

text \<open>A card that has no license shows its product only.\<close>

definition query_by_card :: "host \<Rightarrow> string \<Rightarrow> query_result site_act" where
  "query_by_card hs code =
     andThen (orMissing (card_by_hash (code_hash hs code)) ErrAuthorizationNotFound) (\<lambda>c.
     if gc_license c = [] then
       andThen (product_by_id (gc_product c)) (\<lambda>p.
       ret \<lparr>qr_match = no_match\<lparr>qm_name := gp_name p, qm_product := gp_id p, qm_code := gp_code p, qm_permanent := gc_permanent c\<rparr>,
            qr_type = ''card'', qr_masked = [], qr_results = [], qr_card_status = gc_status c, qr_days = gc_days c,
            qr_time = now_of hs\<rparr>)
     else
       andThen (orMissing (license_by_id (gc_license c)) ErrAuthorizationNotFound) (public_license_result hs ''card'' (Some c)))"

definition query_public_license :: "host \<Rightarrow> query_input \<Rightarrow> query_result site_act" where
  "query_public_license hs inp =
     (let no = trim_space (qi_no inp); code = trim_space (qi_card inp); query = trim_space (qi_query inp);
          kind0 = to_lower (ho_core hs) (trim_space (qi_type inp)) in
      if length (filter (\<lambda>v. v \<noteq> []) [no, code, query]) \<noteq> 1 then raise ErrInvalidRequest
      else if no \<noteq> [] then query_by_no hs no
      else if code \<noteq> [] then query_by_card hs code
      else
        let kind = (if kind0 = [] \<or> kind0 = ''auto'' then detect_public_query_type (ho_core hs) query else kind0) in
        if kind = ''license'' then query_by_no hs query
        else if kind = ''card'' then query_by_card hs query
        else if kind \<in> {''domain'', ''ip'', ''account''} then query_public_bindings hs kind query
        else raise ErrInvalidRequest)"

end
