(* ===== verification/AppAccess.thy ===== *)
theory AppAccess
  imports Trade
begin

text \<open>
  Credentials of applications of the first generation (\<open>service/application_credentials.go\<close>): the secret of an
  application, of which the table keeps a hash and a version, and the access token that the secret buys for two
  hours. (That the caller of the request becomes the application is not part of the state.)
\<close>

definition ErrApplicationCredentials :: app_err where "ErrApplicationCredentials = unauthorized ''INVALID_APP_CREDENTIALS''"
definition ErrApplicationToken :: app_err where "ErrApplicationToken = unauthorized ''INVALID_APP_ACCESS_TOKEN''"

text \<open>\<open>ApplicationCredentialStatus\<close>: version and instant of the credential, if there is one.\<close>

definition application_credential_status :: "string \<Rightarrow> (string \<times> (int \<times> int) option) site_act" where
  "application_credential_status i =
     andThen (integration_product i) (\<lambda>p.
     andThen (optional (credential_of (gp_id p))) (\<lambda>c.
     ret (gp_id p, map_option (\<lambda>v. (cr_version v, cr_updated v)) c)))"

definition reset_secret_tx :: "host \<Rightarrow> string \<Rightarrow> string \<Rightarrow> string \<Rightarrow> int \<Rightarrow> string \<Rightarrow> int site_act" where
  "reset_secret_tx hs i who secret expected reason =
     andThen (set_application_secret i (application_secret_hash (ho_core hs) secret) expected (now_of hs)) (\<lambda>(version, ok).
     if \<not> ok then raise (AppError ''APP_SECRET_CHANGED'' 409)
     else
       andThen (transaction_audit hs
         (case ho_caller hs of Some a \<Rightarrow> if cl_type a = ''developer'' then ''developer'' else ''admin'' | None \<Rightarrow> ''admin'')
         who i [] ''application.secret.reset''
         (ClaimsExtra [(''version'', CInt version), (''reason'', CText (trim_space reason))])) (\<lambda>_.
       ret version))"

text \<open>The answer is the new secret, which is shown once, and its version.\<close>

definition reset_application_secret :: "host \<Rightarrow> string \<Rightarrow> string \<Rightarrow> int \<Rightarrow> string \<Rightarrow> (string \<times> int) site_act" where
  "reset_application_secret hs i who expected reason =
     (if expected < 0 \<or> trim_space reason = [] \<or> 500 < length reason then raise ErrInvalidRequest
      else
        andThen (integration_product i) (\<lambda>_.
        andThen (new_application_secret hs) (\<lambda>secret.
        andThen (with_tx (reset_secret_tx hs i who secret expected reason)) (\<lambda>version.
        ret (secret, version)))))"

definition access_mac :: "host \<Rightarrow> string \<Rightarrow> string" where
  "access_mac hs payload = s_hmac_with (ho_core hs) (ho_data_key hs) (''application-access-v1.'' @ payload)"

definition access_token :: "host \<Rightarrow> app_claims \<Rightarrow> string" where
  "access_token hs claims =
     (let payload = b64_encode (ho_app_json hs claims) in ''app1.'' @ payload @ ''.'' @ b64_encode (access_mac hs payload))"

definition application_token :: "host \<Rightarrow> string \<Rightarrow> string \<Rightarrow> string \<Rightarrow> string site_act" where
  "application_token hs grant_type app secret =
     (if grant_type \<noteq> ''client_credential'' then raise ErrInvalidRequest
      else if length secret \<noteq> 32 \<or> 64 < length app then raise ErrApplicationCredentials
      else
        andThen (orElse (product_by_id (trim_space app)) ErrApplicationCredentials) (\<lambda>p.
        if gp_status p \<noteq> ''active'' then raise ErrApplicationCredentials
        else
          andThen (orElse (credential_of (gp_id p)) ErrApplicationCredentials) (\<lambda>c.
          if cr_hash c \<noteq> application_secret_hash (ho_core hs) secret then raise ErrApplicationCredentials
          else ret (access_token hs \<lparr>apc_app = gp_id p, apc_version = cr_version c, apc_exp = unix (now_of hs + 2 * hour)\<rparr>))))"

text \<open>The claims of a token with a valid signature.\<close>

definition open_access_token :: "host \<Rightarrow> string \<Rightarrow> app_claims option" where
  "open_access_token hs token =
     (if 2048 < length token then None
      else case split_on (CHR ''.'') token of
          [kind, payload, sig] \<Rightarrow>
            if kind \<noteq> ''app1'' \<or> b64_decode False sig \<noteq> Some (access_mac hs payload) then None
            else (case b64_decode False payload of None \<Rightarrow> None | Some raw \<Rightarrow> ho_app_parse hs raw)
        | _ \<Rightarrow> None)"

definition authenticate_application_token :: "host \<Rightarrow> string \<Rightarrow> g_product site_act" where
  "authenticate_application_token hs token =
     (case open_access_token hs token of
        None \<Rightarrow> raise ErrApplicationToken
      | Some claims \<Rightarrow>
          if apc_app claims = [] \<or> apc_exp claims \<le> unix (now_of hs) then raise ErrApplicationToken
          else
            andThen (orElse (product_by_id (apc_app claims)) ErrApplicationToken) (\<lambda>p.
            if gp_status p \<noteq> ''active'' then raise ErrApplicationToken
            else
              andThen (orElse (credential_of (gp_id p)) ErrApplicationToken) (\<lambda>c.
              if cr_version c \<noteq> apc_version claims then raise ErrApplicationToken else ret p)))"

end
