(* ===== verification/AccountSample.thy ===== *)
theory AccountSample
  imports Recovery Members Execution
begin

text \<open>
  A small concrete platform: one administrator, a notice and a CAPTCHA,
  and a host with simple functions in place of cryptography and encoders. The witnesses about accounts run
  the operations on it; no theorem depends on it.
\<close>

definition sample_claims :: session_claims where
  "sample_claims = \<lparr>sn_type = ''admin_session'', sn_user = ''admin_1'', sn_version = 1, sn_iat = 1700000000,
     sn_exp = 1700043200, sn_mfa = [], sn_ip = []\<rparr>"

definition sample_challenge :: session_claims where
  "sample_challenge = sample_claims\<lparr>sn_type := ''admin_mfa_challenge'', sn_exp := 1700000300, sn_mfa := ''6b30'',
     sn_ip := ''10.0.0.1''\<rparr>"

definition sample_mail :: mail_payload where
  "sample_mail = \<lparr>mp_to = [''a@example.com''], mp_subject = ''Hello'', mp_agent = [], mp_html = ''<p>''\<rparr>"

definition sample_host :: host where
  "sample_host =
     \<lparr>ho_core = sample_svc, ho_pepper = ''pepper'', ho_pbkdf2 = (\<lambda>p s n k. Some (take k (p @ s @ replicate k (CHR ''x'')))),
      ho_sha1_mac = (\<lambda>k m. replicate 20 (CHR 0x00)), ho_base32 = Some,
      ho_claims_json = (\<lambda>c. sn_type c), ho_claims_parse = (\<lambda>t. if t = ''admin_session'' then Some sample_claims
        else if t = ''admin_mfa_challenge'' then Some sample_challenge else None),
      ho_member_json = (\<lambda>c. mc_user c), ho_member_parse = (\<lambda>_. None),
      ho_mfa_json = (\<lambda>s n rs. s @ itoa n @ concat rs), ho_seal = (\<lambda>_ t. t), ho_open = Some, ho_mail = Some,
      ho_below = (\<lambda>_ _. 0), ho_mail_json = (\<lambda>m. mp_subject m), ho_mail_parse = (\<lambda>_. Some sample_mail),
      ho_letter = (\<lambda>_ _. Some (''Subject'', ''<p>'')), ho_smtp = (\<lambda>_ _ _ _ _. None), ho_caller = None,
      ho_data_key = ''data'', ho_map_json = (\<lambda>m. concat (map (\<lambda>(k, v). k @ v) m)), ho_map_parse = (\<lambda>_. None),
      ho_payload_json = (\<lambda>c. concat (map fst c)), ho_app_json = apc_app, ho_app_parse = (\<lambda>_. None),
      ho_order_json = (\<lambda>p n q c. p @ n), ho_offline_json = op_license, ho_offline_parse = (\<lambda>_. None),
      ho_key_file = (\<lambda>f v t. t), ho_key_file_parse = (\<lambda>t. Some (''yn-license-key'', 1, t)),
      ho_limits = \<lparr>li_total = 1000, li_developer = 1000, li_product = 1000, li_versions = 10, li_downloads = 2,
        li_uploads = 2, li_min_free = 0\<rparr>, ho_free = []\<rparr>"

definition sample_admin_user :: admin_user where
  "sample_admin_user =
     \<lparr>ad_id = ''admin_1'', ad_username = ''root'', ad_email = [],
      ad_hash = ''pbkdf2_sha256_v1$1$c2FsdA$c2VjcmV0'', ad_name = ''Root'', ad_role = ''super_admin'',
      ad_status = ''active'', ad_version = 1, ad_last_login = None, ad_created = 0, ad_updated = 0\<rparr>"

definition sample_mfa :: admin_mfa where
  "sample_mfa = \<lparr>mf_user = ''admin_1'', mf_secret = ''k'', mf_pending = 0, mf_recovery = [], mf_enabled = True, mf_last_step = 0\<rparr>"

definition sample_captcha :: captcha_row where
  "sample_captcha = \<lparr>cp_id = ''cap_1'', cp_hash = ''41424344'', cp_expires = 1700000300 * second, cp_consumed = None\<rparr>"

definition sample_notice :: notice where
  "sample_notice =
     \<lparr>no_id = ''notice_1'', no_dedup = ''notice_1'', no_payload = ''Hello'', no_kind = ''status_change'',
      no_status = ''pending'', no_attempts = 0, no_available = 0, no_lease = None, no_error = [], no_created = 0,
      no_completed = None\<rparr>"

definition sample_directory :: directory where
  "sample_directory =
     \<lparr>y_admins = [sample_admin_user], y_mfa = [], y_customers = [], y_agents = [], y_codes = [], y_members = [],
      y_identities = [], y_versions = [], y_resets = [], y_captcha_on = False, y_captcha_at = 0, y_captchas = [sample_captcha],
      y_log = [],
      y_mail = \<lparr>es_enabled = False, es_host = [], es_port = 465, es_username = [], es_password = [], es_from = [],
        es_name = [], es_encryption = ''ssl'', es_site_url = [], es_updated = 0\<rparr>,
      y_mail_log = [], y_outbox = [sample_notice],
      y_site = \<lparr>ss_name = ''Site'', ss_title = ''Site'', ss_logo = [], ss_favicon = [], ss_updated = 0\<rparr>,
      y_goods = empty_goods\<rparr>"

definition sample_site :: site where "sample_site = \<lparr>st_db = sample_directory, st_draws = 0, st_files = [], st_uploads = 0, st_downloads = 0\<rparr>"

definition sample_product :: g_product where
  "sample_product =
     \<lparr>gp_terms = None, gp_license_mode = ''subscription'', gp_update_days = 0, gp_developer = [], gp_id = ''yn1'', gp_name = ''App'',
      gp_code = ''APP'', gp_app_key = ''yn1'', gp_secret = [], gp_secret_hash = [], gp_public = [], gp_private = ''pem'',
      gp_key_version = 1, gp_mode = ''device'', gp_max_binds = 1, gp_conflict = ''reject'', gp_offline_mode = ''online_cache'',
      gp_offline_days = 15, gp_expire_days = 0, gp_unbinds = 0, gp_cooldown = 0, gp_status = ''active'', gp_created = 0,
      gp_updated = 0\<rparr>"

definition sample_mfa_site :: site where
  "sample_mfa_site = sample_site\<lparr>st_db := sample_directory\<lparr>y_mfa := [sample_mfa]\<rparr>\<rparr>"

section \<open>Equations that run an operation\<close>

lemmas exec_accounts [exec] =
  fetch_def look_def modify_def put_def with_tx_def quiet_def orMissing_def optional_def is_not_found_def
  take_random_def take_below_def fresh_id_def seal_def row_of_def alter_def

lemmas exec_directory [exec] =
  admin_by_username_def admin_by_id_def mfa_of_def update_admin_last_login_def update_admin_password_def alter_admin_def
  lock_account_def account_table_def audit_def transaction_audit_def insert_log_def plain_entry_def save_mfa_def

lemmas exec_sample_accounts =
  sample_host_def sample_admin_user_def sample_notice_def sample_directory_def sample_site_def sample_claims_def
  sample_challenge_def sample_mfa_def sample_captcha_def sample_mfa_site_def

lemma sample_words [exec]:
  "trim_space ''root'' = ''root''" "trim_space ''secret'' = ''secret''" "trim_space ''000000'' = ''000000''"
  "trim_space ''cap_1'' = ''cap_1''" "trim_space ''abcd'' = ''abcd''" "trim_space ''wrong'' = ''wrong''"
  by (rule trim_space_token; simp add: base64_alphabet_def)+

lemma sample_hash_parts:
  "split_on (CHR ''$'') ''pbkdf2_sha256_v1$1$c2FsdA$c2VjcmV0'' = [''pbkdf2_sha256_v1'', ''1'', ''c2FsdA'', ''c2VjcmV0'']"
  "atoi ''1'' = Some 1" "b64_decode False ''c2FsdA'' = Some ''salt''" "b64_decode False ''c2VjcmV0'' = Some ''secret''"
  by code_simp+

lemma sample_password [exec]: "password_ok sample_host ''secret'' ''pbkdf2_sha256_v1$1$c2FsdA$c2VjcmV0''"
  by (simp add: password_ok_def verify_password_def sample_hash_parts password_version_def sample_host_def del: split_on.simps)

lemma sample_host_pbkdf2: "ho_pbkdf2 sample_host p v n k = Some (take k (p @ v @ replicate k (CHR ''x'')))"
  by (simp add: sample_host_def)

lemma sample_host_fields [exec]:
  "ho_core sample_host = sample_svc" "ho_caller sample_host = None" "ho_open sample_host v = Some v"
  "ho_claims_json sample_host c = sn_type c" "ho_claims_parse sample_host ''admin_session'' = Some sample_claims"
  "ho_claims_parse sample_host ''admin_mfa_challenge'' = Some sample_challenge" "ho_mfa_json sample_host k n rs = k @ itoa n @ concat rs"
  by (simp_all add: sample_host_def)

lemma sample_totp [exec]: "totp sample_host k n = ''000000''"
proof -
  have "pad_zeros 6 (itoa 0) = ''000000''" "be_value (take 4 (replicate 20 (CHR 0x00))) = 0" by code_simp+
  then show ?thesis by (simp add: totp_def sample_host_def)
qed

end
