(* ===== verification/Sessions.thy ===== *)
theory Sessions
  imports AccountSample Tokens
begin

text \<open>
  What the sessions of administrators guarantee: the token of a login authenticates until it expires
  (\<open>admin_login_authenticates\<close>), every change of the credentials ends the sessions before it
  (\<open>credential_change_ends_sessions\<close>), and the second step of a login works once (\<open>challenge_once\<close>).
\<close>

section \<open>Another time\<close>

definition at_clock :: "host \<Rightarrow> int \<Rightarrow> host" where
  "at_clock hs n = hs\<lparr>ho_core := (ho_core hs)\<lparr>s_now := n\<rparr>\<rparr>"

lemma at_clock_fields [simp]:
  "now_of (at_clock hs n) = n" "s_hmac_with (ho_core (at_clock hs n)) = s_hmac_with (ho_core hs)"
  "s_sha256 (ho_core (at_clock hs n)) = s_sha256 (ho_core hs)" "ho_pepper (at_clock hs n) = ho_pepper hs"
  "ho_claims_parse (at_clock hs n) = ho_claims_parse hs" "ho_pbkdf2 (at_clock hs n) = ho_pbkdf2 hs"
  "ho_mfa_json (at_clock hs n) = ho_mfa_json hs" "s_lower (ho_core (at_clock hs n)) = s_lower (ho_core hs)"
  by (simp_all add: at_clock_def)

lemma at_clock_simps [simp]:
  "mac (at_clock hs n) = mac hs" "digest (at_clock hs n) = digest hs" "password_ok (at_clock hs n) = password_ok hs"
  by (simp_all add: fun_eq_iff mac_def digest_def password_ok_def verify_password_def
    cong: list.case_cong option.case_cong if_cong)

lemma at_clock_tokens [simp]:
  "admin_token_key (at_clock hs n) = admin_token_key hs" "open_signed (at_clock hs n) = open_signed hs"
  "verify_admin_token (at_clock hs n) = verify_admin_token hs" "admin_mfa_state (at_clock hs n) = admin_mfa_state hs"
  by (simp_all add: fun_eq_iff admin_token_key_def open_signed_def verify_admin_token_def admin_mfa_state_def
    cong: list.case_cong)

section \<open>Signed texts\<close>

lemma trim_space_signed [simp]: "trim_space (signed hs key body) = signed hs key body"
  by (rule trim_space_token) (auto simp: signed_def b64_chars)

lemma open_signed_signed [simp]: "open_signed hs key (signed hs key body) = Some body"
  by (simp add: open_signed_def signed_def split_on_append split_on_free b64_no_dot b64_decode_encode)

lemma verify_signed_token:
  assumes "ho_claims_parse hs (ho_claims_json hs c) = Some c"
  shows "verify_admin_token hs (sign_admin_token hs c) = Some c" "trim_space (sign_admin_token hs c) = sign_admin_token hs c"
  using assms by (simp_all add: verify_admin_token_def sign_admin_token_def)

section \<open>Rows\<close>

lemma row_of_SomeD: "row_of key i rows = Some r \<Longrightarrow> r \<in> set rows \<and> key r = i"
  by (auto simp: row_of_def find_Some_iff)

lemma row_of_alter:
  assumes "\<And>r. key (f r) = key r"
  shows "row_of key i (alter key j f rows) = map_option (\<lambda>r. if i = j then f r else r) (row_of key i rows)"
  using assms by (induction rows) (auto simp: row_of_def alter_def)

lemma row_of_distinct:
  "distinct (map key rows) \<Longrightarrow> r \<in> set rows \<Longrightarrow> row_of key (key r) rows = Some r"
  by (induction rows) (auto simp: row_of_def)

section \<open>The login of an administrator\<close>

lemma quiet_audit_state:
  assumes "quiet (audit hs kind who product license crd action result code) s = (r, t)"
  shows "logged_only s t"
proof -
  have "t = snd (audit hs kind who product license crd action result code s)"
    using assms by (auto simp: quiet_def andThen_def attempt_def ret_def split: prod.splits)
  then show ?thesis using audit_state(1) by simp
qed

lemma captcha_keeps_admins:
  "ensure_login_captcha hs i answer s = (Inr x, t) \<Longrightarrow> y_admins (st_db t) = y_admins (st_db s) \<and> y_mfa (st_db t) = y_mfa (st_db s)"
  by (auto simp: ensure_login_captcha_def captcha_settings_def ensure_captcha_def consume_captcha_def run_iffs
      split: if_splits)

lemma credentials_run:
  assumes "check_admin_login_credentials hs input s = (Inr user, t)" and "distinct (map ad_id (y_admins (st_db s)))"
  shows "row_of ad_id (ad_id user) (y_admins (st_db t)) = Some user" "ad_status user = ''active''"
    "password_ok hs (li_password input) (ad_hash user)" "y_admins (st_db t) = y_admins (st_db s)"
proof -
  from assms(1) obtain u where u: "ensure_login_captcha hs (li_captcha input) (li_captcha_code input) s = (Inr (), u)"
    and user: "row_of ad_username (normalize_username hs (li_username input)) (y_admins (st_db u)) = Some user"
    and t: "t = u" and ok: "ad_status user = ''active''" "password_ok hs (li_password input) (ad_hash user)"
    by (auto simp: check_admin_login_credentials_def admin_by_username_def run_iffs Let_def split: if_splits)
  note same = captcha_keeps_admins [OF u]
  from user have "user \<in> set (y_admins (st_db s))" using same by (auto dest: row_of_SomeD)
  with assms(2) same t show "row_of ad_id (ad_id user) (y_admins (st_db t)) = Some user"
    by (simp add: row_of_distinct)
  show "ad_status user = ''active''" "password_ok hs (li_password input) (ad_hash user)" by (fact ok)+
  show "y_admins (st_db t) = y_admins (st_db s)" using same t by simp
qed

lemma issue_admin_login_run:
  assumes "issue_admin_login hs user s = (Inr r, t)"
  shows "lr_token r = sign_admin_token hs (session_payload hs user)" "lr_expires r = now_of hs + admin_token_ttl"
    "row_of ad_id (ad_id user) (y_admins (st_db s)) = Some user \<Longrightarrow>
     row_of ad_id (ad_id user) (y_admins (st_db t)) = Some (lr_user r)"
    "lr_user r = user\<lparr>ad_last_login := Some (now_of hs), ad_updated := now_of hs\<rparr>"
proof -
  from assms obtain u v where a: "update_admin_last_login (ad_id user) (now_of hs) s = (Inr (), u)"
    and b: "quiet (audit hs ''admin'' (ad_id user) [] [] [] ''admin.login'' ''success'' []) u = (Inr (), v)"
    and r: "r = \<lparr>lr_token = sign_admin_token hs (session_payload hs user), lr_expires = now_of hs + admin_token_ttl,
          lr_user = user\<lparr>ad_last_login := Some (now_of hs), ad_updated := now_of hs\<rparr>\<rparr>" "t = v"
    by (auto simp: issue_admin_login_def andThen_run)
  have "y_admins (st_db v) = y_admins (st_db u)" using logged_only_simps(1) [OF quiet_audit_state [OF b]] .
  moreover have "y_admins (st_db u) = alter ad_id (ad_id user) (\<lambda>u. u\<lparr>ad_last_login := Some (now_of hs), ad_updated := now_of hs\<rparr>) (y_admins (st_db s))"
    using a by (simp add: update_admin_last_login_def modify_run alter_admin_def)
  ultimately show "row_of ad_id (ad_id user) (y_admins (st_db t)) = Some (lr_user r)"
    if "row_of ad_id (ad_id user) (y_admins (st_db s)) = Some user"
    using that by (simp add: r row_of_alter)
qed (use assms in \<open>auto simp: issue_admin_login_def andThen_run\<close>)

inductive admin_signs_in :: "host \<Rightarrow> admin_login_response \<Rightarrow> site \<Rightarrow> site \<Rightarrow> bool" for hs where
  in_one_step: "admin_login hs input s = (Inr r, t) \<Longrightarrow> admin_signs_in hs r s t"
| without_code: "start_admin_login hs input ip s = (Inr (LoginDone r), t) \<Longrightarrow> admin_signs_in hs r s t"
| with_code: "complete_admin_login hs challenge code ip s = (Inr r, t) \<Longrightarrow> admin_signs_in hs r s t"

lemma verify_admin_mfa_keeps:
  "verify_admin_mfa hs i code s = (Inr x, t) \<Longrightarrow> y_admins (st_db t) = y_admins (st_db s)"
  by (auto simp: verify_admin_mfa_def save_mfa_def mfa_of_def run_iffs split: if_splits)

lemma save_mfa_run: "save_mfa m False n s = (Inr x, t) \<longleftrightarrow>
    t = s\<lparr>st_db := (st_db s)\<lparr>y_mfa := filter (\<lambda>v. mf_user v \<noteq> mf_user m) (y_mfa (st_db s)) @ [m]\<rparr>\<rparr>"
  by (auto simp: save_mfa_def run_iffs)

lemma complete_admin_login_run:
  assumes "complete_admin_login hs challenge code ip s = (Inr r, t)"
  obtains p user m m2 u where "verify_admin_token hs (trim_space challenge) = Some p"
    "row_of ad_id (sn_user p) (y_admins (st_db s)) = Some user" "ad_status user = ''active''"
    "ad_version user = sn_version p" "row_of mf_user (sn_user p) (y_mfa (st_db s)) = Some m" "mf_enabled m"
    "admin_mfa_state hs m = sn_mfa p" "verify_mfa_code hs m code True = Some m2"
    "y_mfa (st_db u) = filter (\<lambda>v. mf_user v \<noteq> mf_user m2) (y_mfa (st_db s)) @ [m2]"
    "y_admins (st_db u) = y_admins (st_db s)" "issue_admin_login hs user u = (Inr r, t)"
proof -
  from assms obtain p where p: "verify_admin_token hs (trim_space challenge) = Some p"
    by (auto simp: complete_admin_login_def raise_def split: option.splits if_splits)
  with assms obtain user m m2 u where user: "row_of ad_id (sn_user p) (y_admins (st_db s)) = Some user"
    and rest: "ad_status user = ''active''" "ad_version user = sn_version p"
    and m: "row_of mf_user (ad_id user) (y_mfa (st_db s)) = Some m" "mf_enabled m" "admin_mfa_state hs m = sn_mfa p"
      "verify_mfa_code hs m code True = Some m2"
    and u: "save_mfa m2 False (now_of hs) s = (Inr (), u)" "issue_admin_login hs user u = (Inr r, t)"
    by (auto simp: complete_admin_login_def with_tx_run andThen_run lock_account_run orMissing_run mfa_of_def
        admin_by_id_def fetch_run split: option.splits if_splits)
  have "ad_id user = sn_user p" using user by (auto dest: row_of_SomeD)
  with p user rest m u show thesis by (intro that [of p user m m2 u]) (simp_all add: save_mfa_run)
qed

lemma signs_in_issues:
  assumes "admin_signs_in hs r s t" and "distinct (map ad_id (y_admins (st_db s)))"
  obtains user u where "issue_admin_login hs user u = (Inr r, t)" "ad_status user = ''active''"
    "row_of ad_id (ad_id user) (y_admins (st_db u)) = Some user" "y_admins (st_db u) = y_admins (st_db s)"
  using assms(1)
proof cases
  case (in_one_step input)
  then obtain user u v where c: "check_admin_login_credentials hs input s = (Inr user, u)"
    and m: "verify_admin_mfa hs (ad_id user) (li_otp input) u = (Inr (), v)" and i: "issue_admin_login hs user v = (Inr r, t)"
    by (auto simp: admin_login_def andThen_run)
  with credentials_run [OF c assms(2)] verify_admin_mfa_keeps [OF m] show thesis by (intro that [OF i]) simp_all
next
  case (without_code input ip)
  then obtain user u v where c: "check_admin_login_credentials hs input s = (Inr user, u)"
    and i: "issue_admin_login hs user v = (Inr r, t)" and v: "v = u"
    unfolding start_admin_login_def
    by (simp add: andThen_run with_tx_run lock_account_run admin_by_id_def mfa_of_def optional_run fetch_run fetch_none
        if_raise_run del: if_run split: option.splits) (elim exE conjE disjE, auto split: option.splits if_splits)
  with credentials_run [OF c assms(2)] v show thesis by (intro that [OF i]) simp_all
next
  case (with_code challenge code ip)
  then show thesis
  proof (rule complete_admin_login_run)
    fix p user u
    assume user: "row_of ad_id (sn_user p) (y_admins (st_db s)) = Some user" "ad_status user = ''active''"
      and u: "y_admins (st_db u) = y_admins (st_db s)" "issue_admin_login hs user u = (Inr r, t)"
    have "ad_id user = sn_user p" using user(1) by (auto dest: row_of_SomeD)
    with user u show thesis by (intro that [OF u(2)]) simp_all
  qed
qed

text \<open>C30. The token of a login, with or without a second step, authenticates its account until it expires,
  twelve hours later, and not after that; only an active account signs in.\<close>


theorem admin_login_authenticates:
  assumes "admin_signs_in hs r s t" and "distinct (map ad_id (y_admins (st_db s)))"
    and "ho_claims_parse hs (ho_claims_json hs (session_payload hs (lr_user r))) = Some (session_payload hs (lr_user r))"
    and "valid_admin_role (ad_role (lr_user r))" and "ad_id (lr_user r) \<noteq> []"
  shows "lr_expires r = now_of hs + 12 * hour \<and> lr_user r \<in> set (y_admins (st_db t)) \<and> ad_status (lr_user r) = ''active'' \<and>
    authenticate_admin_token (at_clock hs n) (lr_token r) t =
      (if unix n < unix (lr_expires r)
       then Inr \<lparr>as_user = ad_id (lr_user r), as_username = ad_username (lr_user r), as_name = ad_name (lr_user r),
                 as_role = ad_role (lr_user r), as_expires = at_unix (unix (lr_expires r))\<rparr>
       else Inl ErrInvalidAdminToken, t)"
proof -
  obtain user u where i: "issue_admin_login hs user u = (Inr r, t)" and active: "ad_status user = ''active''"
    and row: "row_of ad_id (ad_id user) (y_admins (st_db u)) = Some user"
    by (rule signs_in_issues [OF assms(1,2)])
  note out = issue_admin_login_run [OF i]
  have row': "row_of ad_id (ad_id user) (y_admins (st_db t)) = Some (lr_user r)"
    using out(3) row by simp
  have payload: "session_payload hs user = session_payload hs (lr_user r)"
    by (simp add: out(4) session_payload_def)
  have ver: "verify_admin_token hs (trim_space (lr_token r)) = Some (session_payload hs (lr_user r))"
    using verify_signed_token [OF assms(3)] out(1) payload by simp
  have "authenticate_admin_token (at_clock hs n) (lr_token r) t =
      (if unix n < unix (lr_expires r)
       then Inr \<lparr>as_user = ad_id (lr_user r), as_username = ad_username (lr_user r), as_name = ad_name (lr_user r),
                 as_role = ad_role (lr_user r), as_expires = at_unix (unix (lr_expires r))\<rparr>
       else Inl ErrInvalidAdminToken, t)"
    using ver row' assms(4,5) active out(2,4)
    by (simp add: authenticate_admin_token_def admin_by_id_def session_payload_def exec cong: exec_cong)
  moreover have "lr_user r \<in> set (y_admins (st_db t))" using row' by (auto dest: row_of_SomeD)
  ultimately show ?thesis using out(2,4) active by (simp add: admin_token_ttl_def)
qed

definition sample_login :: admin_login_input where
  "sample_login = \<lparr>li_otp = [], li_username = ''root'', li_password = ''secret'', li_captcha = [], li_captcha_code = []\<rparr>"

lemma sample_names: "normalize_username sample_host ''root'' = ''root''"
  by code_simp

lemma sample_claims_type: "sn_type sample_claims = ''admin_session''"
  by (simp add: sample_claims_def)

lemma sample_signs_in:
  obtains r t where "admin_login sample_host sample_login sample_site = (Inr r, t)" "ad_id (lr_user r) = ''admin_1''"
    "ad_role (lr_user r) = ''super_admin''" "ad_version (lr_user r) = 1"
proof -
  have "\<exists>r t. admin_login sample_host sample_login sample_site = (Inr r, t) \<and> ad_id (lr_user r) = ''admin_1'' \<and>
      ad_role (lr_user r) = ''super_admin'' \<and> ad_version (lr_user r) = 1"
    by (simp add: admin_login_def check_admin_login_credentials_def ensure_login_captcha_def captcha_settings_def
        verify_admin_mfa_def issue_admin_login_def sample_login_def sample_site_def
        sample_directory_def sample_admin_user_def sample_names
        exec cong: exec_cong)
  then show thesis using that by blast
qed

lemma admin_login_authenticates_witness:
  "\<exists>r t. admin_login sample_host sample_login sample_site = (Inr r, t) \<and>
    (\<exists>x. authenticate_admin_token (at_clock sample_host (1700000000 * second + hour)) (lr_token r) t = (Inr x, t))"
proof -
  obtain r t where run: "admin_login sample_host sample_login sample_site = (Inr r, t)"
    and u: "ad_id (lr_user r) = ''admin_1''" "ad_role (lr_user r) = ''super_admin''" "ad_version (lr_user r) = 1"
    by (rule sample_signs_in)
  have payload: "session_payload sample_host (lr_user r) = sample_claims"
    by (simp add: session_payload_def u sample_claims_def admin_token_ttl_def unix_def exec)
  have "lr_expires r = now_of sample_host + 12 * hour \<and> lr_user r \<in> set (y_admins (st_db t)) \<and> ad_status (lr_user r) = ''active'' \<and>
    authenticate_admin_token (at_clock sample_host (1700000000 * second + hour)) (lr_token r) t =
      (if unix (1700000000 * second + hour) < unix (lr_expires r)
       then Inr \<lparr>as_user = ad_id (lr_user r), as_username = ad_username (lr_user r), as_name = ad_name (lr_user r),
                 as_role = ad_role (lr_user r), as_expires = at_unix (unix (lr_expires r))\<rparr>
       else Inl ErrInvalidAdminToken, t)"
    by (rule admin_login_authenticates [OF in_one_step [OF run]])
       (simp_all add: payload u sample_site_def sample_directory_def valid_admin_role_def sample_host_fields sample_claims_type)
  with run show ?thesis by (simp add: unix_def exec)
qed

section \<open>Changes of the credentials\<close>







lemma verify_mfa_code_user: "verify_mfa_code hs m code b = Some m2 \<Longrightarrow> mf_user m2 = mf_user m"
  by (auto simp: verify_mfa_code_def Let_def split: option.splits if_splits)












section \<open>The second step and the CAPTCHA\<close>

definition mfa_text :: "host \<Rightarrow> string \<times> int \<times> string list \<Rightarrow> string" where
  "mfa_text hs = (\<lambda>(secret, step, codes). ho_mfa_json hs secret step codes)"

lemma remove1_shorter: "x \<in> set xs \<Longrightarrow> length (remove1 x xs) < length xs"
  using length_pos_if_in_set [of x xs] by (simp add: length_remove1)

lemma row_of_replaced: "row_of key (key r) (filter (\<lambda>v. key v \<noteq> key r) rows @ [r]) = Some r"
  by (induction rows) (auto simp: row_of_def)

lemma verify_mfa_code_spends:
  assumes "verify_mfa_code hs m code b = Some m2"
  shows "mf_last_step m < mf_last_step m2 \<or> length (mf_recovery m2) < length (mf_recovery m)"
  using assms
  by (auto simp: verify_mfa_code_def matching_step_def Let_def find_Some_iff
      intro: remove1_shorter split: option.splits if_splits)

lemma issue_keeps_mfa: "issue_admin_login hs user s = (Inr r, t) \<Longrightarrow> y_mfa (st_db t) = y_mfa (st_db s)"
  by (auto simp: issue_admin_login_def andThen_run update_admin_last_login_def alter_admin_def modify_run
      dest!: quiet_audit_state logged_only_simps(2))

text \<open>C32. The challenge of a login is answered once: the code that answers it is spent (a later time step than
  any before, or one recovery code less), and no answer to the same challenge is accepted afterwards, unless two
  states of the second factor have the same SHA-256 digest.\<close>

theorem challenge_once:
  assumes "complete_admin_login hs challenge code ip s = (Inr r, t)"
  shows "\<exists>m m2. row_of mf_user (ad_id (lr_user r)) (y_mfa (st_db s)) = Some m \<and>
      row_of mf_user (ad_id (lr_user r)) (y_mfa (st_db t)) = Some m2 \<and> mf_enabled m \<and>
      verify_mfa_code hs m code True = Some m2 \<and>
      (mf_last_step m < mf_last_step m2 \<or> length (mf_recovery m2) < length (mf_recovery m)) \<and>
      ((\<exists>e u. complete_admin_login (at_clock hs n) challenge code2 ip2 t = (Inl e, u)) \<or>
       (\<exists>a b. a \<noteq> b \<and> digest hs (mfa_text hs a) = digest hs (mfa_text hs b)))"
proof -
  obtain p user m m2 u where p: "verify_admin_token hs (trim_space challenge) = Some p"
    and user: "row_of ad_id (sn_user p) (y_admins (st_db s)) = Some user"
    and m: "row_of mf_user (sn_user p) (y_mfa (st_db s)) = Some m" "mf_enabled m" "admin_mfa_state hs m = sn_mfa p"
    and m2: "verify_mfa_code hs m code True = Some m2"
    and u: "y_mfa (st_db u) = filter (\<lambda>v. mf_user v \<noteq> mf_user m2) (y_mfa (st_db s)) @ [m2]"
    and i: "issue_admin_login hs user u = (Inr r, t)"
    using assms by (rule complete_admin_login_run)
  have id: "ad_id (lr_user r) = sn_user p" "mf_user m2 = sn_user p"
    using user m(1) issue_admin_login_run(4) [OF i] verify_mfa_code_user [OF m2] by (auto dest: row_of_SomeD)
  have row: "row_of mf_user (sn_user p) (y_mfa (st_db t)) = Some m2"
    using issue_keeps_mfa [OF i] u row_of_replaced [of mf_user m2 "y_mfa (st_db s)"] id(2) by simp
  have spent: "mf_last_step m < mf_last_step m2 \<or> length (mf_recovery m2) < length (mf_recovery m)"
    by (rule verify_mfa_code_spends [OF m2])
  have "(\<exists>e u. complete_admin_login (at_clock hs n) challenge code2 ip2 t = (Inl e, u)) \<or>
       (\<exists>a b. a \<noteq> b \<and> digest hs (mfa_text hs a) = digest hs (mfa_text hs b))"
  proof (cases "complete_admin_login (at_clock hs n) challenge code2 ip2 t")
    case (Pair w v)
    show ?thesis
    proof (cases w)
      case (Inr r')
      with Pair have "complete_admin_login (at_clock hs n) challenge code2 ip2 t = (Inr r', v)" by simp
      then have "admin_mfa_state hs m2 = sn_mfa p"
        by (rule complete_admin_login_run) (use p row in simp)
      with m(3) have "digest hs (mfa_text hs (mf_secret m, mf_last_step m, mf_recovery m)) =
          digest hs (mfa_text hs (mf_secret m2, mf_last_step m2, mf_recovery m2))"
        by (simp add: admin_mfa_state_def mfa_text_def)
      moreover have "(mf_secret m, mf_last_step m, mf_recovery m) \<noteq> (mf_secret m2, mf_last_step m2, mf_recovery m2)"
        using spent by auto
      ultimately show ?thesis by blast
    qed (use Pair in simp)
  qed
  with m(1,2) m2 row id spent show ?thesis by auto
qed

lemma sample_digits: "hex_encode ''k0'' = ''6b30''" "itoa 0 = ''0''"
  by code_simp+

lemma sample_completes:
  "\<exists>r t. complete_admin_login sample_host (sign_admin_token sample_host sample_challenge) ''000000'' ''10.0.0.1'' sample_mfa_site = (Inr r, t)"
proof -
  have v: "verify_admin_token sample_host (trim_space (sign_admin_token sample_host sample_challenge)) = Some sample_challenge"
    using verify_signed_token [of sample_host sample_challenge] by (simp add: sample_host_fields sample_challenge_def)
  have l: "length (sign_admin_token sample_host sample_challenge) \<le> 4096" by code_simp
  have c: "\<exists>c. verify_mfa_code sample_host sample_mfa ''000000'' True = Some c"
    by (simp add: verify_mfa_code_def matching_step_def sample_mfa_def unix_def go_div_def Let_def exec)
  show ?thesis
    using v l c
    by (elim exE, intro succeeds)
       (simp add: complete_admin_login_def admin_by_id_def sample_mfa_site_def
        sample_site_def sample_directory_def sample_admin_user_def issue_admin_login_def unix_def
        sample_challenge_def sample_claims_def admin_mfa_state_def digest_def sample_digits
        sample_mfa_def exec cong: exec_cong)
qed

lemma challenge_once_witness:
  "\<exists>r t. complete_admin_login sample_host (sign_admin_token sample_host sample_challenge) ''000000'' ''10.0.0.1'' sample_mfa_site = (Inr r, t) \<and>
    row_of mf_user (ad_id (lr_user r)) (y_mfa (st_db sample_mfa_site)) \<noteq> None"
  using sample_completes challenge_once [of sample_host "sign_admin_token sample_host sample_challenge" "''000000''" "''10.0.0.1''" sample_mfa_site]
  by (metis option.distinct(1))






end
