(* ===== verification/CodeWords.thy ===== *)
theory CodeWords
  imports Cards AccountSample
begin

text \<open>
  Card codes as they are generated and as they are typed: whatever the random source yields, a code of a product
  whose own code consists of capital letters and digits is accepted (\<open>generated_code_accepted\<close>).
\<close>

definition code_at :: "host \<Rightarrow> string \<Rightarrow> nat \<Rightarrow> string" where
  "code_at hs pre d =
     (let body = map card_letter (s_random (ho_core hs) d 12) in
      format_card_code (ho_core hs) pre (body @ checksum (ho_core hs) (pre @ body)))"

lemma generate_at: "generate_card_code hs pre s = (Inr (code_at hs pre (st_draws s)), s\<lparr>st_draws := Suc (st_draws s)\<rparr>)"
  by (simp add: generate_card_code_def random_alphabet_def take_random_def code_at_def andThen_def ret_def Let_def)

definition unhyphenated :: "string \<Rightarrow> string" where
  "unhyphenated s = filter (\<lambda>c. c \<noteq> CHR ''-'' \<and> c \<noteq> CHR '' '') s"

lemma unhyphenated_plain [simp]: "list_all plain_char s \<Longrightarrow> unhyphenated s = s"
  by (auto simp: unhyphenated_def list_all_iff plain_char_facts intro!: filter_True)

definition typed_alphabet :: string where
  "typed_alphabet = ''ABCDEFGHIJKLMNOPQRSTUVWXYZabcdefghijklmnopqrstuvwxyz0123456789-''"

lemma plain_codes:
  "map of_char ''ABCDEFGHIJKLMNOPQRSTUVWXYZ'' = [65..<91::nat]" "map of_char ''0123456789'' = [48..<58::nat]"
  by (simp_all add: upt_conv_Cons)

text \<open>What people type: capital or small letters, with or without the hyphens.\<close>

definition typed_char :: "char \<Rightarrow> bool" where
  "typed_char c \<longleftrightarrow> c \<in> set typed_alphabet"

lemma plain_range:
  assumes "plain_char c"
  shows "c \<in> set ''ABCDEFGHIJKLMNOPQRSTUVWXYZ0123456789''"
proof -
  have "(of_char c :: nat) \<in> set ([65..<91] @ [48..<58])"
    using assms unfolding set_append set_upt plain_char_def char_in_def by (simp only: Un_iff atLeastLessThan_iff) linarith
  then have "(of_char c :: nat) \<in> of_char ` set (''ABCDEFGHIJKLMNOPQRSTUVWXYZ'' @ ''0123456789'')"
    unfolding plain_codes [symmetric] set_append set_map image_Un .
  then have "c \<in> set (''ABCDEFGHIJKLMNOPQRSTUVWXYZ'' @ ''0123456789'')" unfolding image_iff of_char_eq_iff by blast
  then show ?thesis by simp
qed

lemma typed_low: "list_all (\<lambda>c. (of_char c :: nat) < 128) typed_alphabet"
  by (simp add: typed_alphabet_def)

lemma typed_cases: "list_all (\<lambda>c. typed_char (lower_char c) \<and> upper_char (lower_char c) = upper_char c) typed_alphabet"
  by (simp add: typed_alphabet_def typed_char_def lower_char_def upper_char_def char_of_def bit_Suc_0_iff)

lemma typed_char_facts:
  assumes "typed_char c"
  shows "(of_char c :: nat) < 128" "c \<in> set base64_alphabet" "typed_char (lower_char c)" "upper_char (lower_char c) = upper_char c"
proof -
  show "(of_char c :: nat) < 128" "typed_char (lower_char c)" "upper_char (lower_char c) = upper_char c"
    using typed_low typed_cases assms unfolding list_all_iff typed_char_def by blast+
  show "c \<in> set base64_alphabet" using assms by (auto simp: typed_char_def typed_alphabet_def base64_alphabet_def)
qed

lemma normalize_typed:
  assumes "list_all typed_char s"
  shows "normalize_card_code sv s = unhyphenated (map upper_char s)"
proof -
  have "trim_space s = s" by (rule trim_space_token) (use assms in \<open>auto simp: list_all_iff dest: typed_char_facts(2)\<close>)
  moreover have "is_ascii s" using assms by (auto simp: is_ascii_def list_all_iff typed_char_facts(1))
  ultimately show ?thesis by (simp add: normalize_card_code_def unhyphenated_def to_upper_def)
qed

lemma plain_typed: "plain_char c \<Longrightarrow> typed_char c"
  using plain_range [of c] by (auto simp: typed_char_def typed_alphabet_def)

lemma hyphen_typed: "typed_char (CHR ''-'')"
  by (simp add: typed_char_def typed_alphabet_def)

lemma joined_typed: "list_all (list_all plain_char) ws \<Longrightarrow> list_all typed_char (join_with ''-'' ws)"
  by (induction "''-''" ws rule: join_with.induct) (auto simp: list_all_iff plain_typed hyphen_typed)

lemma fours_plain: "list_all plain_char s \<Longrightarrow> list_all (list_all plain_char) (fours s)"
  by (induction s rule: fours.induct) auto

lemma formatted:
  assumes "list_all plain_char pre" and "list_all plain_char s"
  shows "list_all typed_char (format_card_code sv pre s)" and "unhyphenated (format_card_code sv pre s) = pre @ s"
proof -
  show "list_all typed_char (format_card_code sv pre s)"
    using assms by (simp add: format_card_code_def plain_upper joined_typed fours_plain)
  have "unhyphenated (format_card_code sv pre s) = unhyphenated (pre @ s)"
    by (simp add: format_card_code_def unhyphenated_def filter_join concat_fours plain_upper [OF assms(1)])
  then show "unhyphenated (format_card_code sv pre s) = pre @ s" using assms by simp
qed

lemma checksum_plain: "list_all plain_char (checksum sv s)" "length (checksum sv s) = 2"
  by (simp_all add: checksum_def Let_def)

lemma letters_plain [simp]: "list_all plain_char (map card_letter b)"
  by (simp add: list_all_iff)

lemma upper_fixed: "list_all plain_char s \<Longrightarrow> map upper_char s = s"
  by (auto simp: list_all_iff plain_char_facts intro: map_idI)

lemma joined_upper: "list_all (list_all plain_char) ws \<Longrightarrow> map upper_char (join_with ''-'' ws) = join_with ''-'' ws"
proof (induction "''-''" ws rule: join_with.induct)
  case (3 w v ws)
  moreover have "upper_char (CHR ''-'') = CHR ''-''" by code_simp
  ultimately show ?case by (simp add: upper_fixed)
qed (simp_all add: upper_fixed)

text \<open>The ways to type a code: as it was issued, in small letters, and both without the hyphens.\<close>

definition typings :: "string \<Rightarrow> string list" where
  "typings code = [code, map lower_char code, unhyphenated code, map lower_char (unhyphenated code)]"

lemma normalize_typings:
  assumes "list_all plain_char pre" and "list_all plain_char s" and "v \<in> set (typings (format_card_code sv pre s))"
  shows "normalize_card_code sv v = pre @ s"
proof -
  let ?f = "format_card_code sv pre s"
  have plain: "list_all plain_char (pre @ s)" using assms(1,2) by simp
  have typed: "list_all typed_char ?f" "list_all typed_char (pre @ s)"
    using formatted [OF assms(1,2)] plain by (auto simp: list_all_iff plain_typed)
  have up: "map upper_char ?f = ?f"
    using assms(1,2) by (simp add: format_card_code_def plain_upper joined_upper fours_plain del: map_append)
  have low: "list_all typed_char (map lower_char w) \<and> map upper_char (map lower_char w) = map upper_char w" if "list_all typed_char w" for w
    using that by (simp add: list_all_iff typed_char_facts)
  from assms(3) show ?thesis
    by (auto simp: typings_def normalize_typed [OF typed(1)] normalize_typed [OF typed(2)] low [OF typed(1)] low [OF typed(2)]
      normalize_typed [OF low [OF typed(1), THEN conjunct1]] normalize_typed [OF low [OF typed(2), THEN conjunct1]] up
      upper_fixed [OF plain] formatted(2) [OF assms(1,2)] unhyphenated_plain [OF plain] simp del: map_map map_append list_all_append)
qed

text \<open>C40. Every card code that \<open>GenerateCardCode\<close> issues for a product whose code consists of capital letters and digits
  passes \<open>ValidateChecksum\<close>, in whichever way it is typed: as issued, in small letters, and without the hyphens; and all
  these ways have the same hash, by which the card is found.\<close>

theorem generated_code_accepted:
  assumes "generate_card_code hs product s = (Inr code, t)" and "list_all plain_char product" and "v \<in> set (typings code)"
    and "length (s_random (ho_core hs) (st_draws s) 12) = 12"
  shows "validate_checksum (ho_core hs) product v \<and> code_hash hs v = code_hash hs code"
proof -
  let ?body = "map card_letter (s_random (ho_core hs) (st_draws s) 12)"
  let ?s = "?body @ checksum (ho_core hs) (product @ ?body)"
  have code: "code = format_card_code (ho_core hs) product ?s"
    using assms(1) by (simp add: generate_at code_at_def Let_def)
  have plain: "list_all plain_char ?s" by (simp add: checksum_plain)
  have norm: "normalize_card_code (ho_core hs) w = product @ ?s" if "w \<in> set (typings code)" for w
    using normalize_typings [OF assms(2) plain, of w "ho_core hs"] that unfolding code by blast
  have "validate_checksum (ho_core hs) product v"
    using assms(4) by (simp add: validate_checksum_def norm [OF assms(3)] plain_upper [OF assms(2)] trim_prefix_def checksum_plain Let_def)
  moreover have "code_hash hs v = code_hash hs code"
    using norm [OF assms(3)] norm [of code] by (simp add: code_hash_def typings_def)
  ultimately show ?thesis ..
qed

lemma generated_code_accepted_witness:
  "validate_checksum sample_svc ''APP'' (map lower_char (unhyphenated (code_at sample_host ''APP'' 0)))"
proof -
  have "list_all plain_char ''APP''" by code_simp
  from generated_code_accepted [OF generate_at [of sample_host "''APP''" sample_site] this, of "map lower_char (unhyphenated (code_at sample_host ''APP'' 0))"]
  show ?thesis by (simp add: typings_def sample_host_def sample_site_def sample_svc_def)
qed

lemma normalized_code_at:
  assumes "list_all plain_char pre"
  shows "normalize_card_code (ho_core hs) (code_at hs pre d) =
    (let body = map card_letter (s_random (ho_core hs) d 12) in pre @ body @ checksum (ho_core hs) (pre @ body))"
  using normalize_typings [OF assms, of "map card_letter (s_random (ho_core hs) d 12) @ checksum (ho_core hs) (pre @ map card_letter (s_random (ho_core hs) d 12))"
    "code_at hs pre d" "ho_core hs"]
  by (simp add: code_at_def typings_def checksum_plain Let_def)

end
