(* ===== verification/Books.thy ===== *)
theory Books
  imports Trade CodeWords
begin

text \<open>
  Properties of batches of cards and of the money of agents: the loop that draws card codes ends with as many
  different cards as were ordered, and an agent's balance is the sum of its ledger.
\<close>

section \<open>Drawing card codes\<close>





section \<open>The account of an agent\<close>

text \<open>
  What the tables say of an agent: the balance, and the amounts of its ledger. The specification is an account
  book per agent, to which an entry is appended together with its effect on the balance, and only when the
  balance stays between zero and \<open>max_money\<close>.
\<close>

type_synonym account_books = "string \<Rightarrow> int \<times> int list"

definition account_books_of :: "site \<Rightarrow> account_books" where
  "account_books_of s =
     (\<lambda>who. let g = y_goods (st_db s) in
        (pu_balance (purse_of who g), map mo_amount (filter (\<lambda>m. mo_agent m = who) (x_money g))))"

definition books_in_range :: "account_books \<Rightarrow> bool" where
  "books_in_range b \<longleftrightarrow> (\<forall>who. 0 \<le> fst (b who) \<and> fst (b who) \<le> max_money)"

inductive account_entry :: "account_books \<Rightarrow> account_books \<Rightarrow> bool" where
  entry: "0 \<le> fst (b who) + a \<Longrightarrow> fst (b who) + a \<le> max_money \<Longrightarrow>
    account_entry b (b(who := (fst (b who) + a, snd (b who) @ [a])))"

text \<open>The operations on packages, prices, tiers, grants, balances and card orders.\<close>

inductive commerce :: "host \<Rightarrow> site \<Rightarrow> site \<Rightarrow> bool" for hs where
  adjust: "adjust_agent_balance hs agent who amount request reason s = (r, t) \<Longrightarrow> commerce hs s t"
| issue: "generate_package_cards hs fuel inp s = (r', t) \<Longrightarrow> commerce hs s t"
| agent_tier: "set_agent_tier hs agent tier who s = (q, t) \<Longrightarrow> commerce hs s t"
| grant: "grant_packages hs ga who s = (q, t) \<Longrightarrow> commerce hs s t"
| price: "set_tier_price hs tier pkg who cost s = (q, t) \<Longrightarrow> commerce hs s t"
| tier: "save_agent_tier hs v who s = (tr, t) \<Longrightarrow> commerce hs s t"
| drop_tier: "delete_agent_tier hs i who s = (q, t) \<Longrightarrow> commerce hs s t"
| group: "save_product_group hs gr who s = (gr', t) \<Longrightarrow> commerce hs s t"
| package: "create_package hs k who s = (k', t) \<Longrightarrow> commerce hs s t"
| enable: "set_package hs i who b c s = (q, t) \<Longrightarrow> commerce hs s t"

subsection \<open>What leaves the accounts alone\<close>

definition books_kept :: "site \<Rightarrow> site \<Rightarrow> bool" where
  "books_kept s t \<longleftrightarrow> account_books_of t = account_books_of s"

lemma books_kept_via [via_intros]:
  "via books_kept (fetch q)" "via books_kept (look p)" "via books_kept (take_random hs k)" "via books_kept (seal hs x)"
  "(\<And>d. y_goods (f d) = y_goods d) \<Longrightarrow> via books_kept (modify f)"
  "(\<And>g. x_purses (h g) = x_purses g \<and> x_money (h g) = x_money g) \<Longrightarrow> via books_kept (modify (edit_goods h))"
  by (rule via_one, force simp: books_kept_def account_books_of_def purse_of_def fetch_def look_def reads_def take_random_def
    seal_def modify_def writes_def edit_goods_def split: option.splits)+

lemma books_kept_change [via_intros]:
  "(\<And>g. x_purses (h g) = x_purses g \<and> x_money (h g) = x_money g) \<Longrightarrow> via books_kept (change h)"
  "(\<And>g. x_purses (h g) = x_purses g \<and> x_money (h g) = x_money g) \<Longrightarrow> via books_kept (put_goods ok h)"
  "(\<And>d. y_goods (f d) = y_goods d) \<Longrightarrow> via books_kept (put p f)"
  unfolding change_def put_goods_def put_def by (intro via_intros; simp)+

lemma books_kept_outcome [via_intros]:
  assumes "via books_kept m"
  shows "via books_kept (quiet m)" "via books_kept (orMissing m e)" "via books_kept (optional m)"
  unfolding quiet_def orMissing_def optional_def by (intro via_intros assms)+

lemma books_kept_reads [via_intros]: "via books_kept (fetch_goods q)" "via books_kept (look_goods p)" "via books_kept (fresh_id hs x)"
  unfolding fetch_goods_def look_goods_def fresh_id_def by (intro via_intros)+

lemma books_kept_rtrancl: "books_kept\<^sup>*\<^sup>* s t \<Longrightarrow> books_kept s t"
  by (induction rule: rtranclp_induct) (auto simp: books_kept_def)

lemma books_keptD: "via books_kept m \<Longrightarrow> m s = (r, t) \<Longrightarrow> account_books_of t = account_books_of s"
  using books_kept_rtrancl [OF viaD] by (auto simp: books_kept_def)

lemma books_kept_tx [via_intros]:
  assumes "via books_kept m"
  shows "via books_kept (with_tx m)"
proof (rule via_one)
  fix s r t assume "with_tx m s = (r, t)"
  then show "books_kept s t \<or> t = s"
    using books_keptD [OF assms, of s]
    by (auto simp: with_tx_def books_kept_def account_books_of_def split: prod.splits sum.splits)
qed

lemma audit_books [via_intros]: "via books_kept (transaction_audit hs k w p l a x)"
  unfolding transaction_audit_def insert_log_def by (intro via_intros; simp)

lemma draw_cards_books [via_intros]: "via books_kept (draw_cards hs pre row fuel n made)"
  by (induction fuel arbitrary: made) (auto simp: generate_card_code_def random_alphabet_def intro!: via_intros)

lemma build_books [via_intros]: "via books_kept (build_card_batch hs fuel p who name n d pm src)"
  unfolding build_card_batch_def by (intro via_intros)

lemma rows_books [via_intros]:
  "via books_kept (save_terms sc i tm)" "via books_kept (insert_batch b)" "via books_kept (insert_card c)"
  "via books_kept (insert_quota q)" "via books_kept (insert_package_order a r f i)" "via books_kept (tier_reference i)"
  "via books_kept (save_tier_settings v)" "via books_kept (insert_tier v)" "via books_kept (update_tier v)"
  "via books_kept (delete_tier i)" "via books_kept (set_tier_price_row i pkg cost)" "via books_kept (save_grant pg)"
  "via books_kept (save_group gr)" "via books_kept (insert_package k)" "via books_kept (set_package_row i en n)"
  unfolding save_terms_def insert_batch_def insert_card_def insert_quota_def insert_package_order_def tier_reference_def
    save_tier_settings_def insert_tier_def update_tier_def delete_tier_def set_tier_price_row_def save_grant_def save_group_def
    insert_package_def set_package_row_def
  by (intro via_intros; simp)+

lemma operations_books:
  "via books_kept (grant_packages hs ga who)" "via books_kept (set_tier_price hs tier pkg who cost)"
  "via books_kept (save_agent_tier hs v who)" "via books_kept (delete_agent_tier hs i who)"
  "via books_kept (save_product_group hs gr who)" "via books_kept (create_package hs k who)"
  "via books_kept (set_package hs i who en n)"
  unfolding grant_packages_def set_tier_price_def save_agent_tier_def delete_agent_tier_def save_product_group_def
    create_package_def set_package_def grant_one_def ensure_package_policy_def agent_by_id_def package_by_id_def
    group_packages_def tier_by_id_def product_by_id_def
  by (intro via_intros; simp)+

subsection \<open>What an entry does\<close>

lemma change_run [run_iffs]: "change f s = (Inr x, t) \<longleftrightarrow> t = s\<lparr>st_db := edit_goods f (st_db s)\<rparr>"
  by (simp add: change_def run_iffs)

lemma put_goods_run [run_iffs]:
  "put_goods ok f s = (Inr x, t) \<longleftrightarrow> ok (y_goods (st_db s)) \<and> t = s\<lparr>st_db := edit_goods f (st_db s)\<rparr>"
  by (simp add: put_goods_def run_iffs)

lemma purse_of_replaced: "purse_of who (g\<lparr>x_purses := replace_row pu_agent u (x_purses g)\<rparr>) = (if who = pu_agent u then u else purse_of who g)"
proof -
  have "row_of pu_agent who (filter (\<lambda>v. pu_agent v \<noteq> pu_agent u) rows @ [u]) =
    (if who = pu_agent u then Some u else row_of pu_agent who rows)" for rows
    by (induction rows) (auto simp: row_of_def)
  then show ?thesis by (simp add: purse_of_def replace_row_def)
qed

lemma save_purse_books:
  assumes "save_purse u s = (Inr x, t)"
  shows "account_books_of t = (account_books_of s)(pu_agent u := (pu_balance u, snd (account_books_of s (pu_agent u))))"
proof -
  from assms obtain w where "t = w\<lparr>st_db := edit_goods (\<lambda>g. g\<lparr>x_purses := replace_row pu_agent u (x_purses g)\<rparr>) (st_db w)\<rparr>" "w = s"
    by (auto simp: save_purse_def tier_reference_def fetch_goods_def run_iffs split: if_splits)
  then show ?thesis
    by (auto simp: account_books_of_def edit_goods_def purse_of_replaced Let_def fun_eq_iff)
qed

lemma insert_money_books:
  assumes "insert_money m s = (Inr x, t)"
  shows "account_books_of t = (account_books_of s)
    (mo_agent m := (fst (account_books_of s (mo_agent m)), snd (account_books_of s (mo_agent m)) @ [mo_amount m]))"
  using assms
  by (auto simp: insert_money_def run_iffs account_books_of_def edit_goods_def purse_of_def Let_def fun_eq_iff)

lemma with_tx_books:
  assumes "with_tx m s = (r, t)"
  shows "account_books_of t = account_books_of s \<or> (\<exists>x. r = Inr x \<and> m s = (Inr x, t))"
  using assms by (auto simp: with_tx_def account_books_of_def split: prod.splits sum.splits)

lemma balance_of_books: "pu_balance (purse_of who (y_goods (st_db s))) = fst (account_books_of s who)"
  by (simp add: account_books_of_def Let_def)

lemma pu_agent_purse [simp]: "pu_agent (purse_of who g) = who"
  by (auto simp: purse_of_def row_of_def find_Some_iff split: option.splits)

lemma agent_by_id_keeps: "agent_by_id i s = (Inr a, t) \<Longrightarrow> t = s"
  by (auto simp: agent_by_id_def run_iffs)

lemma posted_entry:
  assumes "account_books_of t = b(who := (c, snd (b who) @ [a]))" and "c = fst (b who) + a" and "0 \<le> c" and "c \<le> max_money"
  shows "account_entry b (account_books_of t)"
  using account_entry.entry [of b who a] assms by simp

lemma adjust_tx_entry:
  assumes run: "adjust_tx hs agent who amount request reason s = (Inr (m, created), t)"
    and amount: "\<bar>amount\<bar> \<le> max_money" and range: "books_in_range (account_books_of s)"
  shows "account_entry\<^sup>=\<^sup>= (account_books_of s) (account_books_of t)"
proof -
  let ?b = "account_books_of s"
  have i64: "i64 (fst (?b agent) + amount) = fst (?b agent) + amount"
    using range [unfolded books_in_range_def, rule_format, of agent] amount by (intro i64_small) (auto simp: max_money_def)
  have balance: "pu_balance (purse_of agent (y_goods (st_db s))) = fst (?b agent)" by (rule balance_of_books)
  let ?u = "(purse_of agent (y_goods (st_db s)))\<lparr>pu_balance := fst (?b agent) + amount\<rparr>"
  from run consider "t = s"
    | u1 i u2 e u3 x where "0 \<le> fst (?b agent) + amount" "fst (?b agent) + amount \<le> max_money"
        "save_purse ?u s = (Inr (), u1)" "fresh_id hs ''money'' u1 = (Inr i, u2)" "insert_money e u2 = (Inr (), u3)"
        "transaction_audit hs ''admin'' who [] [] ''agent_balance.adjust'' x u3 = (Inr (), t)" "mo_agent e = agent" "mo_amount e = amount"
    unfolding adjust_tx_def
    apply (clarsimp simp: andThen_run orElse_run dest!: agent_by_id_keeps)
    apply (clarsimp simp: optional_run money_by_request_def fetch_goods_def fetch_run split: option.splits if_splits)
    apply (clarsimp simp: andThen_run read_purse_def look_goods_def look_run balance i64 Let_def if_raise_run not_less)
    done
  then show ?thesis
  proof cases
    case 2
    have eq: "account_books_of t = ?b(agent := (fst (?b agent) + amount, snd (?b agent) @ [amount]))"
      using books_keptD [OF audit_books 2(6)] insert_money_books [OF 2(5)] books_keptD [OF books_kept_reads(3) 2(4)]
        save_purse_books [OF 2(3)] 2(7,8) by simp
    show ?thesis using posted_entry [OF eq refl 2(1,2)] by simp
  qed simp
qed

lemma issue_checks_run:
  assumes "issue_checks inp expected k s = (Inr (q, u, n, cost), t)"
  shows "t = s \<and> u = purse_of (iu_agent inp) (y_goods (st_db s)) \<and> 0 \<le> cost \<and> cost \<le> pu_balance u"
  using assms
  by (auto simp: issue_checks_def quote_def fetch_goods_def agent_policy_for_def read_purse_def quota_balance_def look_goods_def
    run_iffs Let_def split: if_splits)

lemma issue_new_entry:
  assumes run: "issue_new hs fuel inp expected fingerprint product s = (Inr v, t)" and range: "books_in_range (account_books_of s)"
  shows "account_entry (account_books_of s) (account_books_of t)"
proof -
  let ?b = "account_books_of s" and ?who = "iu_agent inp"
  from run obtain k cost made u1 u2 u3 u4 u5 u6 i u7 e u8 u9 x p nm n where
    r: "0 \<le> cost" "cost \<le> pu_balance (purse_of ?who (y_goods (st_db s)))"
      "build_card_batch hs fuel p ?who nm (iu_quantity inp) (pk_days k) (pk_permanent k) ''agent_package'' s = (Inr made, u1)"
      "insert_batch (fst made) u1 = (Inr (), u2)" "forEach (fst (snd made)) insert_card u2 = (Inr (), u3)"
      "save_purse ((purse_of ?who (y_goods (st_db s)))\<lparr>pu_balance := i64 (pu_balance (purse_of ?who (y_goods (st_db s))) - cost)\<rparr>) u3 = (Inr (), u4)"
      "spend_quota hs inp k (gt_id (fst made)) n u4 = (Inr (), u5)" "fresh_id hs ''money'' u5 = (Inr i, u6)"
      "insert_money e u6 = (Inr (), u7)" "insert_package_order ?who (iu_request inp) fingerprint (gt_id (fst made)) u7 = (Inr (), u8)"
      "transaction_audit hs ''agent'' (caller_or hs ?who) (pk_product k) [] ''agent_package.issue'' x u8 = (Inr (), t)"
      "mo_agent e = ?who" "mo_amount e = - cost"
    unfolding issue_new_def
    apply (clarsimp simp: andThen_run orMissing_run orElse_run product_by_id_def package_by_id_def fetch_goods_def fetch_run
      if_raise_run Let_def)
    apply (drule issue_checks_run)
    apply clarsimp
    done
  have "fst (?b ?who) \<le> max_money" using range by (simp add: books_in_range_def)
  with r(1,2) have i64: "i64 (fst (?b ?who) - cost) = fst (?b ?who) - cost"
    by (intro i64_small) (auto simp: max_money_def balance_of_books)
  have spend: "via books_kept (spend_quota hs inp k (gt_id (fst made)) n)"
    unfolding spend_quota_def by (intro via_intros)
  have before: "account_books_of u3 = ?b"
    using books_keptD [OF build_books r(3)] books_keptD [OF rows_books(2) r(4)] books_keptD [OF via_forEach [OF rows_books(3)] r(5)]
    by simp
  have eq: "account_books_of t = ?b(?who := (fst (?b ?who) - cost, snd (?b ?who) @ [- cost]))"
    using books_keptD [OF audit_books r(11)] books_keptD [OF rows_books(5) r(10)] insert_money_books [OF r(9)]
      books_keptD [OF books_kept_reads(3) r(8)] books_keptD [OF spend r(7)] save_purse_books [OF r(6)] r(12,13)
    by (simp add: before balance_of_books i64)
  show ?thesis
    by (rule posted_entry [OF eq]) (use r(1,2) range [unfolded books_in_range_def, rule_format, of ?who] in \<open>simp_all add: balance_of_books\<close>)
qed

subsection \<open>Requests\<close>

definition one_entry :: "'a site_act \<Rightarrow> bool" where
  "one_entry m \<longleftrightarrow> (\<forall>s. books_in_range (account_books_of s) \<longrightarrow>
     account_entry\<^sup>=\<^sup>= (account_books_of s) (account_books_of (snd (m s))))"

lemma one_entry_tx:
  assumes "\<And>s x t. m s = (Inr x, t) \<Longrightarrow> books_in_range (account_books_of s) \<Longrightarrow>
    account_entry\<^sup>=\<^sup>= (account_books_of s) (account_books_of t)"
  shows "one_entry (with_tx m)"
proof (unfold one_entry_def, intro allI impI)
  fix s assume range: "books_in_range (account_books_of s)"
  obtain r t where run: "with_tx m s = (r, t)" by fastforce
  from with_tx_books [OF run] assms range
  show "account_entry\<^sup>=\<^sup>= (account_books_of s) (account_books_of (snd (with_tx m s)))" by (auto simp: run)
qed

lemma one_entry_kept: "via books_kept m \<Longrightarrow> one_entry m"
  unfolding one_entry_def using books_keptD [of m, OF _ prod.collapse [symmetric]] by simp

lemma one_entry_before:
  assumes "via books_kept m" and "\<And>x. one_entry (f x)"
  shows "one_entry (andThen m f)"
proof (unfold one_entry_def, intro allI impI)
  fix s assume range: "books_in_range (account_books_of s)"
  obtain r u where m: "m s = (r, u)" by fastforce
  have same: "account_books_of u = account_books_of s" by (rule books_keptD [OF assms(1) m])
  have "account_entry\<^sup>=\<^sup>= (account_books_of s) (account_books_of (snd (f x u)))" for x
    using assms(2) [of x, unfolded one_entry_def, rule_format, of u] range same by simp
  with same show "account_entry\<^sup>=\<^sup>= (account_books_of s) (account_books_of (snd (andThen m f s)))"
    by (cases r) (simp_all add: andThen_def m)
qed

lemma one_entry_after:
  assumes "one_entry m" and "\<And>x. via books_kept (f x)"
  shows "one_entry (andThen m f)"
proof (unfold one_entry_def, intro allI impI)
  fix s assume range: "books_in_range (account_books_of s)"
  obtain r u where m: "m s = (r, u)" by fastforce
  have entry: "account_entry\<^sup>=\<^sup>= (account_books_of s) (account_books_of u)"
    using assms(1) range m by (metis one_entry_def snd_conv)
  have "account_books_of (snd (f x u)) = account_books_of u" for x by (rule books_keptD [OF assms(2)]) (rule prod.collapse [symmetric])
  with entry show "account_entry\<^sup>=\<^sup>= (account_books_of s) (account_books_of (snd (andThen m f s)))"
    by (cases r) (simp_all add: andThen_def m)
qed

lemma one_entry_if: "one_entry m \<Longrightarrow> one_entry n \<Longrightarrow> one_entry (if c then m else n)"
  by simp

lemma mail_books [via_intros]: "via books_kept (notify_agent_email hs kind agent details d)"
  unfolding notify_agent_email_def email_runtime_of_def agent_email_recipients_def queue_email_def enqueue_notice_def
  by (intro via_intros; simp)

lemma adjust_entry: "one_entry (adjust_agent_balance hs agent who amount request reason)"
proof -
  have "one_entry (with_tx (adjust_tx hs agent who amount request reason))" if "\<bar>amount\<bar> \<le> max_money"
    by (rule one_entry_tx) (metis adjust_tx_entry that prod.collapse)
  then show ?thesis
    unfolding adjust_agent_balance_def
    by (auto intro!: one_entry_if one_entry_kept [OF via_same(2)] one_entry_after via_intros)
qed

lemma issue_tx_entry:
  assumes run: "issue_tx hs fuel inp expected fp product s = (Inr x, t)" and range: "books_in_range (account_books_of s)"
  shows "account_entry\<^sup>=\<^sup>= (account_books_of s) (account_books_of t)"
proof -
  from run consider "t = s" | v where "issue_new hs fuel inp expected fp product s = (Inr v, t)"
    unfolding issue_tx_def
    by (auto simp: andThen_run orElse_run pureA_run optional_run package_order_def fetch_goods_def fetch_run
      dest!: agent_by_id_keeps split: option.splits if_splits)
  then show ?thesis by cases (use issue_new_entry range in auto)
qed

lemma issue_entry: "one_entry (generate_package_cards hs fuel inp)"
proof -
  have tx: "one_entry (with_tx (issue_tx hs fuel inp expected fp product))" for expected fp product
    by (rule one_entry_tx) (rule issue_tx_entry)
  have rep: "via books_kept (replayed hs who b)" for who b
    unfolding replayed_def batch_for_agent_def cards_of_batch_for_agent_def by (intro via_intros)
  show ?thesis
    unfolding generate_package_cards_def package_by_id_def product_by_id_def
    by (auto intro!: one_entry_if one_entry_kept [OF via_same(2)] one_entry_before one_entry_after [OF tx] via_intros rep
      split: option.splits sum.splits)
qed

lemma set_agent_tier_entry: "one_entry (set_agent_tier hs agent tier who)"
  unfolding set_agent_tier_def
proof (rule one_entry_tx, goal_cases)
  case (1 s x t)
  then obtain u1 y where "save_purse ((purse_of agent (y_goods (st_db s)))\<lparr>pu_tier := tier\<rparr>) s = (Inr (), u1)"
    and log: "transaction_audit hs ''admin'' who [] [] ''agent_tier.assign'' y u1 = (Inr x, t)"
    by (auto simp: andThen_run orElse_run orMissing_run read_purse_def look_goods_def look_run Let_def dest!: agent_by_id_keeps)
  then have "account_books_of t = account_books_of s"
    using save_purse_books [of _ s "()" u1] books_keptD [OF audit_books log] by (simp add: balance_of_books fun_eq_iff)
  then show ?case by simp
qed

lemma commerce_entry:
  assumes "commerce hs s t" and "books_in_range (account_books_of s)"
  shows "account_entry\<^sup>=\<^sup>= (account_books_of s) (account_books_of t)"
proof -
  have *: "account_entry\<^sup>=\<^sup>= (account_books_of s) (account_books_of t)" if "m s = (r, t)" "one_entry m" for m :: "'a site_act" and r
    using that assms(2) unfolding one_entry_def by (metis snd_conv)
  from assms(1) show ?thesis
    by cases (use adjust_entry issue_entry set_agent_tier_entry operations_books [THEN one_entry_kept] in \<open>metis assms(2) one_entry_def snd_conv\<close>)+
qed

section \<open>The properties\<close>



text \<open>C37. The accounts of agents refine a book of entries: whatever operation on packages, prices, tiers, grants, balances
  and card orders is called, with whatever arguments and outcome, either no account changes, or exactly one agent's balance
  changes by exactly the amount of the one entry its ledger gains; and balances stay between zero and the limit.\<close>

theorem agent_accounts_refine:
  assumes "commerce hs s t" and "books_in_range (account_books_of s)"
  shows "account_entry\<^sup>=\<^sup>= (account_books_of s) (account_books_of t) \<and> books_in_range (account_books_of t)"
proof -
  have entry: "account_entry\<^sup>=\<^sup>= (account_books_of s) (account_books_of t)" by (rule commerce_entry [OF assms])
  have keeps: "books_in_range c" if "account_entry b c" "books_in_range b" for b c
    using that by cases (simp add: books_in_range_def)
  show ?thesis using entry assms(2) keeps [of "account_books_of s" "account_books_of t"] by simp metis
qed

definition sample_agent :: agent where
  "sample_agent = \<lparr>an_id = ''agt_1'', an_no = ''1'', an_code = ''1'', an_name = ''Agent'', an_contact = [], an_phone = [], an_email = [],
     an_status = ''active'', an_remark = [], an_created_by = [], an_created = 0, an_updated = 0, an_disabled = None\<rparr>"

definition sample_agency :: site where
  "sample_agency = sample_site\<lparr>st_db := sample_directory\<lparr>y_agents := [sample_agent]\<rparr>\<rparr>"

lemma agent_accounts_refine_witness:
  "let t = snd (adjust_agent_balance sample_host ''agt_1'' ''root'' 500 ''request1'' ''secret'' sample_agency) in
   account_books_of t ''agt_1'' = (500, [500]) \<and> books_in_range (account_books_of t)"
proof -
  let ?run = "adjust_agent_balance sample_host ''agt_1'' ''root'' 500 ''request1'' ''secret'' sample_agency"
  have empty: "books_in_range (account_books_of sample_agency)"
    by (simp add: books_in_range_def account_books_of_def sample_agency_def sample_site_def sample_directory_def empty_goods_def
      purse_of_def row_of_def max_money_def)
  have "account_books_of (snd ?run) ''agt_1'' = (500, [500])"
    by (simp add: adjust_agent_balance_def adjust_tx_def sample_agency_def sample_agent_def exec_sample_accounts agent_by_id_def
      money_by_request_def fetch_goods_def read_purse_def look_goods_def purse_of_def empty_goods_def save_purse_def change_def
      edit_goods_def replace_row_def insert_money_def put_goods_def new_keys_def max_money_def notify_agent_email_def
      email_runtime_of_def usable_def account_books_of_def exec cong: exec_cong)
  then show ?thesis
    using agent_accounts_refine [OF commerce.adjust [of _ _ _ _ _ _ _ "fst ?run" "snd ?run", OF prod.collapse [symmetric]] empty]
    by (simp add: Let_def)
qed

end
