(* ===== verification/OfflineFiles.thy ===== *)
theory OfflineFiles
  imports Classic
begin

text \<open>
  Offline licenses (\<open>service/offline_licenses.go\<close>, the statements of \<open>sqlite.go\<close> on their table,
  \<open>crypto/signing.go\<close>): a signed file for one machine, issued by an administrator, downloaded again while it is
  valid, and revoked.
\<close>

definition ErrOfflineLicenseNotFound :: app_err where "ErrOfflineLicenseNotFound = missing ''OFFLINE_LICENSE_NOT_FOUND''"
definition ErrOfflineLicenseRevoked :: app_err where "ErrOfflineLicenseRevoked = denied ''OFFLINE_LICENSE_REVOKED''"
definition ErrOfflineLicenseExpired :: app_err where "ErrOfflineLicenseExpired = denied ''OFFLINE_LICENSE_EXPIRED''"

section \<open>Signed texts\<close>

text \<open>\<open>crypto.SignJSON\<close> and \<open>VerifySignedJSON\<close> on a payload whose JSON is \<open>body\<close>.\<close>

definition sign_text :: "host \<Rightarrow> string \<Rightarrow> string \<Rightarrow> app_err + string" where
  "sign_text hs pem body =
     (case s_rsa_sign (ho_core hs) pem (s_sha256 (ho_core hs) body) of
        None \<Rightarrow> Inl (GoError ''rsa'')
      | Some sig \<Rightarrow> Inr (b64_encode body @ ''.'' @ b64_encode sig))"

definition verify_text :: "host \<Rightarrow> (string \<Rightarrow> 'a option) \<Rightarrow> string \<Rightarrow> string \<Rightarrow> app_err + 'a" where
  "verify_text hs parse pem token =
     (case s_rsa_verify (ho_core hs) pem of
        None \<Rightarrow> Inl (GoError ''pem'')
      | Some check \<Rightarrow>
          let parts = split_on (CHR ''.'') token in
          if length parts \<noteq> 2 then Inl (GoError ''invalid signed token'')
          else (case b64_decode False (parts ! 0) of
              None \<Rightarrow> Inl (GoError ''base64'')
            | Some body \<Rightarrow>
                (case b64_decode False (parts ! 1) of
                   None \<Rightarrow> Inl (GoError ''base64'')
                 | Some sig \<Rightarrow>
                     if \<not> check (s_sha256 (ho_core hs) body) sig then Inl (GoError ''rsa'')
                     else (case parse body of None \<Rightarrow> Inl (GoError ''json'') | Some v \<Rightarrow> Inr v))))"

section \<open>Statements\<close>

definition insert_offline_license :: "offline_license \<Rightarrow> unit site_act" where
  "insert_offline_license l =
     put_goods (\<lambda>g. new_keys [ol_id] (x_offline g) l \<and> new_keys [ol_no] (x_offline g) l)
       (\<lambda>g. g\<lparr>x_offline := x_offline g @ [l]\<rparr>)"

definition offline_license_by_id :: "string \<Rightarrow> offline_license site_act" where
  "offline_license_by_id i = fetch_goods (\<lambda>g. row_of ol_id i (x_offline g))"

definition offline_license_rows :: "offline_license list site_act" where
  "offline_license_rows = look_goods (\<lambda>g. newest_first ol_created (x_offline g))"

definition revoke_offline_row :: "string \<Rightarrow> string \<Rightarrow> int \<Rightarrow> unit site_act" where
  "revoke_offline_row i reason now =
     change_found (\<lambda>g. list_ex (\<lambda>l. ol_id l = i \<and> ol_status l = ''active'') (x_offline g))
       (\<lambda>g. g\<lparr>x_offline := map (\<lambda>l. if ol_id l = i \<and> ol_status l = ''active''
          then l\<lparr>ol_status := ''revoked'', ol_revoked := Some now, ol_reason := reason, ol_updated := now\<rparr> else l) (x_offline g)\<rparr>)"

section \<open>Operations\<close>

definition offline_format :: string where "offline_format = ''yn-license-key''"

definition max_offline_license_days :: int where "max_offline_license_days = 365"

record offline_input =
  oi_product :: string
  oi_machine :: string
  oi_label :: string
  oi_days :: int
  oi_permanent :: bool

definition mask_machine_code :: "string \<Rightarrow> string" where
  "mask_machine_code value =
     (let cs = utf8_chars value; n = length cs in
      if n \<le> 8 then stars n else concat (take 4 cs) @ stars (n - 8) @ concat (last_of 4 cs))"

definition trimmed_offline_input :: "offline_input \<Rightarrow> offline_input" where
  "trimmed_offline_input inp =
     inp\<lparr>oi_product := trim_space (oi_product inp), oi_machine := trim_space (oi_machine inp),
         oi_label := trim_space (oi_label inp)\<rparr>"

definition offline_expiry :: "offline_input \<Rightarrow> int \<Rightarrow> int option" where
  "offline_expiry inp now = (if oi_permanent inp then None else Some (add_days now (oi_days inp)))"

definition offline_payload_of :: "g_product \<Rightarrow> offline_input \<Rightarrow> string \<Rightarrow> int \<Rightarrow> offline_payload" where
  "offline_payload_of p inp no now =
     \<lparr>op_version = 1, op_key_version = gp_key_version p, op_license = no, op_product_id = gp_id p, op_product = gp_code p,
      op_name = gp_name p, op_app_key = gp_app_key p, op_mode = ''device'', op_machine = oi_machine inp, op_issued = now,
      op_expired = offline_expiry inp now, op_permanent = oi_permanent inp\<rparr>"

definition create_offline_license :: "host \<Rightarrow> offline_input \<Rightarrow> string \<Rightarrow> offline_license site_act" where
  "create_offline_license hs inp0 who =
     (let inp = trimmed_offline_input inp0 in
      if oi_product inp = [] \<or> oi_machine inp = [] \<or> 256 < length (oi_machine inp) \<or> 100 < length (oi_label inp)
      then raise ErrInvalidRequest
      else if \<not> oi_permanent inp \<and> (oi_days inp \<le> 0 \<or> max_offline_license_days < oi_days inp)
      then raise (bad_request ''OFFLINE_DURATION_TOO_LONG'')
      else
        andThen (orMissing (product_by_id (oi_product inp)) ErrProductNotFound) (\<lambda>p.
        if gp_status p \<noteq> ''active'' then raise ErrProductDisabled
        else
          andThen (pureA (opened hs (gp_private p))) (\<lambda>pem.
          andThen (fresh_id hs ''offlic'') (\<lambda>i.
          andThen (fresh_id hs ''off'') (\<lambda>no.
          andThen (seal hs (oi_machine inp)) (\<lambda>machine.
          andThen (pureA (sign_text hs pem (ho_offline_json hs (offline_payload_of p inp no (now_of hs))))) (\<lambda>token.
          andThen (seal hs token) (\<lambda>sealed.
          let l = \<lparr>ol_id = i, ol_no = no, ol_product = gp_id p, ol_label = oi_label inp,
                   ol_machine_hash = bind_hash hs ''offline_machine'' (oi_machine inp), ol_machine_sealed = machine,
                   ol_machine_masked = mask_machine_code (oi_machine inp), ol_token_sealed = sealed,
                   ol_token_version = gp_key_version p, ol_status = ''active'', ol_issued = now_of hs,
                   ol_expired = offline_expiry inp (now_of hs), ol_revoked = None, ol_reason = [], ol_by = who,
                   ol_created = now_of hs, ol_updated = now_of hs\<rparr> in
          andThen (insert_offline_license l) (\<lambda>_.
          andThen (quiet (audit hs ''admin'' who (gp_id p) i [] ''offline_license.create'' ''success'' [])) (\<lambda>_.
          ret l))))))))))"

definition offline_expired :: "offline_license \<Rightarrow> int \<Rightarrow> bool" where
  "offline_expired l now \<longleftrightarrow> (case ol_expired l of None \<Rightarrow> False | Some e \<Rightarrow> \<not> now < e)"

definition list_offline_licenses :: "host \<Rightarrow> offline_license list site_act" where
  "list_offline_licenses hs =
     andThen offline_license_rows (\<lambda>ls.
     ret (map (\<lambda>l. if ol_status l = ''active'' \<and> offline_expired l (now_of hs) then l\<lparr>ol_status := ''expired''\<rparr> else l) ls))"

text \<open>The name of the file and its content.\<close>

definition download_offline_license :: "host \<Rightarrow> string \<Rightarrow> string \<Rightarrow> (string \<times> string) site_act" where
  "download_offline_license hs i who =
     andThen (orMissing (offline_license_by_id (trim_space i)) ErrOfflineLicenseNotFound) (\<lambda>l.
     if ol_status l = ''revoked'' then raise ErrOfflineLicenseRevoked
     else if offline_expired l (now_of hs) then raise ErrOfflineLicenseExpired
     else
       andThen (product_by_id (ol_product l)) (\<lambda>p.
       if gp_status p \<noteq> ''active'' then raise ErrProductDisabled
       else
         andThen (pureA (opened hs (ol_token_sealed l))) (\<lambda>token.
         andThen (quiet (audit hs ''admin'' who (ol_product l) (ol_id l) [] ''offline_license.download'' ''success'' [])) (\<lambda>_.
         ret (ol_no l @ ''.key'', ho_key_file hs offline_format 1 token @ [CHR 0x0A])))))"

definition revoke_offline_license :: "host \<Rightarrow> string \<Rightarrow> string \<Rightarrow> string \<Rightarrow> offline_license site_act" where
  "revoke_offline_license hs i0 reason0 who =
     (let i = trim_space i0; reason = trim_space reason0 in
      if i = [] \<or> reason = [] \<or> 200 < length reason then raise ErrInvalidRequest
      else
        andThen (orMissing (offline_license_by_id i) ErrOfflineLicenseNotFound) (\<lambda>l.
        if ol_status l = ''revoked'' then raise ErrOfflineLicenseRevoked
        else
          andThen (revoke_offline_row i reason (now_of hs)) (\<lambda>_.
          andThen (quiet (audit hs ''admin'' who (ol_product l) (ol_id l) [] ''offline_license.revoke'' ''success'' [])) (\<lambda>_.
          ret (l\<lparr>ol_status := ''revoked'', ol_revoked := Some (now_of hs), ol_reason := reason, ol_updated := now_of hs\<rparr>)))))"

definition verify_offline_license_file :: "host \<Rightarrow> string \<Rightarrow> string \<Rightarrow> app_err + offline_payload" where
  "verify_offline_license_file hs pem content =
     (case ho_key_file_parse hs content of
        None \<Rightarrow> Inl (GoError ''json'')
      | Some (format, version, token) \<Rightarrow>
          if format \<noteq> offline_format \<or> version \<noteq> 1 \<or> token = [] then Inl (GoError ''invalid offline license file'')
          else (case verify_text hs (ho_offline_parse hs) pem token of
              Inl e \<Rightarrow> Inl e
            | Inr payload \<Rightarrow>
                if op_version payload \<noteq> version then Inl (GoError ''offline license version mismatch'') else Inr payload))"

section \<open>Files that clients accept\<close>

text \<open>What an offline license that was created is.\<close>

lemma create_offline_run:
  assumes "create_offline_license hs inp who s = (Inr l, t)"
  shows "\<exists>p pem token draw. product_of (y_goods (st_db s)) (trim_space (oi_product inp)) = Some p \<and>
    gp_status p = ''active'' \<and> opened hs (gp_private p) = Inr pem \<and>
    sign_text hs pem (ho_offline_json hs (offline_payload_of p (trimmed_offline_input inp) (ol_no l) (now_of hs))) = Inr token \<and>
    ol_token_sealed l = ho_seal hs draw token \<and> ol_product l = gp_id p \<and> ol_status l = ''active'' \<and>
    ol_expired l = offline_expiry inp (now_of hs) \<and> ol_no l \<noteq> []"
  using assms
  by (clarsimp simp: create_offline_license_def trimmed_offline_input_def Let_def run_iffs product_by_id_def fetch_goods_def
      split: if_splits) (auto simp: offline_expiry_def)

lemma download_offline_run:
  assumes "download_offline_license hs i who s = (Inr (name, content), t)"
  shows "\<exists>l token. row_of ol_id (trim_space i) (x_offline (y_goods (st_db s))) = Some l \<and> ol_status l \<noteq> ''revoked'' \<and>
    \<not> offline_expired l (now_of hs) \<and> opened hs (ol_token_sealed l) = Inr token \<and> name = ol_no l @ ''.key'' \<and>
    content = ho_key_file hs offline_format 1 token @ [CHR 0x0A]"
  using assms
  by (auto simp: download_offline_license_def run_iffs offline_license_by_id_def fetch_goods_def split: if_splits)

end
