(* ===== verification/Sdk.thy ===== *)
theory Sdk
  imports Binding
begin

text \<open>
  The client SDK in Go (\<open>src/sdk/go\<close>): checking signed files and tokens without the server (\<open>offline.go\<close>),
  the guard against a clock that is set back (\<open>highwater.go\<close>), checking signed releases (\<open>updates.go\<close>),
  requests to the server and its answers (\<open>client.go\<close>, \<open>updates.go\<close>) and the identity of an installation
  (\<open>installation.go\<close>).

  \<^item> \<open>sdk\<close> holds what the SDK calls and does not define: the decoder of PEM blocks, the two decoders of
    public keys, RSA, the JSON codecs of its types, and simple case folding; SHA-256, \<open>ToLower\<close> and the
    URL parser are those of \<open>k_core\<close>. A key is the text of its components, whatever they are.
  \<^item> Errors: the text of an error that was made with \<open>errors.New\<close>, the code of a \<open>VerificationError\<close> or of an
    \<open>APIError\<close>; the messages of the last two, and the texts of library errors, are left out. \<open>SdkPanic\<close> is an index
    out of range.
\<close>

datatype sdk_err = SdkError string | VerificationError string | APIError string int string | SdkPanic

datatype pkix_key = RsaKey string | OtherKey

text \<open>\<open>OfflineCacheClaims\<close> (what is only handed on is one text), \<open>OfflineLicenseFile\<close>,
  \<open>OfflineLicenseClaims\<close>, \<open>releaseClaims\<close>, \<open>ProductRelease\<close>.\<close>

record cache_claims =
  cc_type :: string
  cc_use :: bool
  cc_instance :: string
  cc_seat :: string
  cc_session :: string
  cc_license :: string
  cc_product :: string
  cc_mode :: string
  cc_digest :: string
  cc_expired :: "int option"
  cc_until :: int
  cc_issued :: int
  cc_key_version :: int
  cc_rest :: string

record license_file =
  lf_format :: string
  lf_version :: int
  lf_token :: string

record file_claims =
  fc_version :: int
  fc_key_version :: int
  fc_license :: string
  fc_product_id :: string
  fc_product :: string
  fc_name :: string
  fc_app_key :: string
  fc_mode :: string
  fc_machine :: string
  fc_issued :: int
  fc_expired :: "int option"
  fc_permanent :: bool

record release_claims =
  lc_type :: string
  lc_release :: string
  lc_product :: string
  lc_version :: string
  lc_size :: int
  lc_sha :: string
  lc_key_version :: int
  lc_target :: "release_target option"

record sdk_release =
  sr_id :: string
  sr_product :: string
  sr_version :: string
  sr_notes :: string
  sr_filename :: string
  sr_size :: int
  sr_sha :: string
  sr_key_version :: int
  sr_token :: string
  sr_target :: "release_target option"

text \<open>\<open>ClientInstance\<close>.\<close>

record sdk_instance =
  si_session :: string
  si_instance :: string
  si_secret :: string
  si_device :: string
  si_seat :: string
  si_bindings :: "(string \<times> string) list"
  si_target :: "release_target option"
  si_current :: string

text \<open>
  A JSON object of strings is the list of its members, with distinct keys; \<open>k_map_parse\<close> gives \<open>Some None\<close> for
  the JSON value \<open>null\<close>, Go's nil map.
\<close>

record sdk =
  k_core :: svc
  k_pem :: "string \<Rightarrow> string option"
  k_pkix :: "string \<Rightarrow> pkix_key option"
  k_pkcs1 :: "string \<Rightarrow> string option"
  k_rsa :: "string \<Rightarrow> string \<Rightarrow> string \<Rightarrow> bool"
  k_fold :: "string \<Rightarrow> string"
  k_cache_parse :: "string \<Rightarrow> cache_claims option"
  k_file_parse :: "string \<Rightarrow> license_file option"
  k_claims_parse :: "string \<Rightarrow> file_claims option"
  k_release_parse :: "string \<Rightarrow> release_claims option"
  k_map_parse :: "string \<Rightarrow> (string \<times> string) list option option"
  k_map_json :: "(string \<times> string) list option \<Rightarrow> string"
  k_identity_json :: "sdk_instance \<Rightarrow> string"
  k_identity_parse :: "string \<Rightarrow> sdk_instance option"

text \<open>The zero \<open>time.Time\<close>, the first of January of the year 1.\<close>

definition zero_instant :: int where "zero_instant = - 62135596800 * second"

section \<open>Signed texts\<close>

text \<open>\<open>strings.EqualFold\<close> of the trimmed texts.\<close>

definition equal_fold_trim :: "sdk \<Rightarrow> string \<Rightarrow> string \<Rightarrow> bool" where
  "equal_fold_trim k a b \<longleftrightarrow> k_fold k (trim_space a) = k_fold k (trim_space b)"

definition sdk_public_key :: "sdk \<Rightarrow> string \<Rightarrow> sdk_err + string" where
  "sdk_public_key k value =
     (case k_pem k value of
        None \<Rightarrow> Inl (SdkError ''invalid public key PEM'')
      | Some bytes \<Rightarrow>
          (case k_pkix k bytes of
             Some (RsaKey key) \<Rightarrow> Inr key
           | _ \<Rightarrow>
             (case k_pkcs1 k bytes of
                Some key \<Rightarrow> Inr key
              | None \<Rightarrow> Inl (SdkError ''PEM does not contain an RSA public key''))))"

text \<open>\<open>verifySignedJSON\<close>; the type parameter is the decoder of its JSON.\<close>

definition verify_signed_json :: "sdk \<Rightarrow> (string \<Rightarrow> 'a option) \<Rightarrow> string \<Rightarrow> string \<Rightarrow> sdk_err + 'a" where
  "verify_signed_json k parse key token =
     (let parts = split_on (CHR ''.'') token in
      if length parts \<noteq> 2 then Inl (SdkError ''invalid signed token'')
      else (case b64_decode False (parts ! 0) of
          None \<Rightarrow> Inl (SdkError ''base64'')
        | Some body \<Rightarrow>
            (case b64_decode False (parts ! 1) of
               None \<Rightarrow> Inl (SdkError ''base64'')
             | Some signature \<Rightarrow>
                 if \<not> k_rsa k key (s_sha256 (k_core k) body) signature then Inl (SdkError ''rsa'')
                 else (case parse body of None \<Rightarrow> Inl (SdkError ''json'') | Some v \<Rightarrow> Inr v))))"

section \<open>The digest of a bound value\<close>

definition canonical_digest_component :: "sdk \<Rightarrow> string \<Rightarrow> string \<Rightarrow> string" where
  "canonical_digest_component k mode value0 =
     (let value = trim_space value0 in
      if mode = ''ip'' \<or> mode = ''ip_cidr'' then
        (case parse_addr value of
           Some a \<Rightarrow> show_addr (unmap a)
         | None \<Rightarrow> (case parse_prefix value of Some p \<Rightarrow> show_prefix (masked p) | None \<Rightarrow> value))
      else if mode = ''domain'' \<or> mode = ''domain_wildcard'' then
        (let wild = prefix ''*.'' value;
             bare = trim_prefix value ''*.'';
             address = (if contains_sub bare ''://'' then bare else ''http://'' @ bare) in
         case s_parse_url (k_core k) address of
           None \<Rightarrow> address
         | Some u \<Rightarrow>
             let host = trim_suffix (to_lower (k_core k) (url_hostname u)) ''.'' in
             if wild then ''*.'' @ host else host)
      else if mode = ''account'' then to_lower (k_core k) value
      else value)"

definition digest_value :: "sdk \<Rightarrow> string \<Rightarrow> string \<Rightarrow> string" where
  "digest_value k mode value =
     (if mode \<in> {''tenant'', ''instance'', ''cluster''} then value
      else if mode \<in> {''ip'', ''ip_cidr'', ''domain'', ''domain_wildcard''} then canonical_digest_component k mode value
      else if mode = ''composite'' then
        (case k_map_parse k value of
           None \<Rightarrow> value
         | Some members \<Rightarrow>
             k_map_json k (map_option (map (\<lambda>(kind, v). (kind, canonical_digest_component k kind v))) members))
      else to_lower (k_core k) value)"

definition binding_digest :: "sdk \<Rightarrow> string \<Rightarrow> string \<Rightarrow> string" where
  "binding_digest k bind_mode bind_value =
     (let mode = to_lower (k_core k) (trim_space bind_mode) in
      sha_hex (k_core k) (mode @ nul @ digest_value k mode (trim_space bind_value)))"

section \<open>Verifying without the server\<close>

text \<open>\<open>OfflineVerifier\<close>: one key, or a ring of keys by version; the clock is the instant it reads.\<close>

record offline_verifier =
  ov_key :: "string option"
  ov_ring :: "(int \<times> string) list"
  ov_product :: string
  ov_clock :: int
  ov_skew :: int

datatype verifier_option = WithClock "int option" | WithSkew int

fun apply_verifier_option :: "verifier_option \<Rightarrow> offline_verifier \<Rightarrow> offline_verifier" where
  "apply_verifier_option (WithClock c) v = (case c of None \<Rightarrow> v | Some t \<Rightarrow> v\<lparr>ov_clock := t\<rparr>)"
| "apply_verifier_option (WithSkew d) v = (if 0 \<le> d then v\<lparr>ov_skew := d\<rparr> else v)"

definition make_verifier ::
  "sdk \<Rightarrow> string option \<Rightarrow> (int \<times> string) list \<Rightarrow> string \<Rightarrow> verifier_option list \<Rightarrow> sdk_err + offline_verifier" where
  "make_verifier k key ring product options =
     (if trim_space product = [] then Inl (SdkError ''product code is required'')
      else Inr (fold apply_verifier_option options
        \<lparr>ov_key = key, ov_ring = ring, ov_product = trim_space product, ov_clock = s_now (k_core k), ov_skew = 5 * minute\<rparr>))"

definition new_offline_verifier ::
  "sdk \<Rightarrow> string \<Rightarrow> string \<Rightarrow> verifier_option list \<Rightarrow> sdk_err + offline_verifier" where
  "new_offline_verifier k pem product options =
     (case sdk_public_key k pem of Inl e \<Rightarrow> Inl e | Inr key \<Rightarrow> make_verifier k (Some key) [] product options)"

text \<open>The keys come in the order in which \<open>range\<close> visits the map.\<close>

fun read_ring :: "sdk \<Rightarrow> (int \<times> string) list \<Rightarrow> sdk_err + (int \<times> string) list" where
  "read_ring k [] = Inr []"
| "read_ring k ((version, pem) # rest) =
     (if version < 1 then Inl (SdkError ''invalid key version'')
      else case sdk_public_key k pem of
          Inl _ \<Rightarrow> Inl (SdkError ''invalid public key for version'')
        | Inr key \<Rightarrow> (case read_ring k rest of Inl e \<Rightarrow> Inl e | Inr ring \<Rightarrow> Inr ((version, key) # ring)))"

definition new_key_ring_verifier ::
  "sdk \<Rightarrow> (int \<times> string) list \<Rightarrow> string \<Rightarrow> verifier_option list \<Rightarrow> sdk_err + offline_verifier" where
  "new_key_ring_verifier k keys product options =
     (if keys = [] then Inl (SdkError ''key ring must contain at least one key'')
      else case read_ring k keys of Inl e \<Rightarrow> Inl e | Inr ring \<Rightarrow> make_verifier k None ring product options)"

definition select_key :: "sdk \<Rightarrow> offline_verifier \<Rightarrow> string \<Rightarrow> sdk_err + string" where
  "select_key k v token =
     (case ov_key v of
        Some key \<Rightarrow> Inr key
      | None \<Rightarrow>
          let parts = split_on (CHR ''.'') token in
          if length parts \<noteq> 2 then Inl (VerificationError ''INVALID_SIGNATURE'')
          else (case b64_decode False (parts ! 0) of
              None \<Rightarrow> Inl (VerificationError ''INVALID_SIGNATURE'')
            | Some body \<Rightarrow>
                (case k_cache_parse k body of
                   None \<Rightarrow> Inl (VerificationError ''INVALID_FILE'')
                 | Some probe \<Rightarrow>
                     (case map_of (ov_ring v) (cc_key_version probe) of
                        None \<Rightarrow> Inl (VerificationError ''KEY_VERSION_UNKNOWN'')
                      | Some key \<Rightarrow> Inr key))))"

record offline_expectation =
  oe_session :: string
  oe_instance :: string
  oe_seat :: string
  oe_license :: string
  oe_mode :: string
  oe_value :: string

definition cache_claims_ok :: "sdk \<Rightarrow> offline_verifier \<Rightarrow> offline_expectation \<Rightarrow> cache_claims \<Rightarrow> sdk_err + cache_claims" where
  "cache_claims_ok k v ex c =
     (if cc_type c \<noteq> ''offline_cache'' \<or> cc_license c = [] \<or> cc_until c = zero_instant
      then Inl (VerificationError ''INVALID_FILE'')
      else if \<not> equal_fold_trim k (cc_product c) (ov_product v) then Inl (VerificationError ''WRONG_PRODUCT'')
      else if oe_license ex \<noteq> [] \<and> trim_space (cc_license c) \<noteq> trim_space (oe_license ex)
      then Inl (VerificationError ''WRONG_LICENSE'')
      else if oe_instance ex \<noteq> [] \<and> cc_instance c \<noteq> oe_instance ex \<or> oe_seat ex \<noteq> [] \<and> cc_seat c \<noteq> oe_seat ex \<or>
        oe_session ex \<noteq> [] \<and> cc_session c \<noteq> oe_session ex
      then Inl (VerificationError ''BINDING_MISMATCH'')
      else if \<not> equal_fold_trim k (cc_mode c) (oe_mode ex) \<or> cc_digest c = []
      then Inl (VerificationError ''BINDING_MISMATCH'')
      else if to_lower (k_core k) (cc_digest c) \<noteq> binding_digest k (oe_mode ex) (oe_value ex)
      then Inl (VerificationError ''BINDING_MISMATCH'')
      else
        let now = ov_clock v in
        if now + ov_skew v < cc_issued c then Inl (VerificationError ''ISSUED_IN_FUTURE'')
        else if (case cc_expired c of None \<Rightarrow> False | Some t \<Rightarrow> \<not> now < t) then Inl (VerificationError ''LICENSE_EXPIRED'')
        else if \<not> now < cc_until c then Inl (VerificationError ''OFFLINE_WINDOW_EXPIRED'')
        else Inr c)"

definition verify_offline_token ::
  "sdk \<Rightarrow> offline_verifier \<Rightarrow> string \<Rightarrow> offline_expectation \<Rightarrow> sdk_err + cache_claims" where
  "verify_offline_token k v token ex =
     (case select_key k v token of
        Inl e \<Rightarrow> Inl e
      | Inr key \<Rightarrow>
          (case verify_signed_json k (k_cache_parse k) key token of
             Inl _ \<Rightarrow> Inl (VerificationError ''INVALID_SIGNATURE'')
           | Inr c \<Rightarrow> cache_claims_ok k v ex c))"

definition file_claims_ok ::
  "sdk \<Rightarrow> offline_verifier \<Rightarrow> license_file \<Rightarrow> string \<Rightarrow> file_claims \<Rightarrow> sdk_err + file_claims" where
  "file_claims_ok k v file machine c =
     (if fc_version c \<noteq> lf_version file \<or> fc_license c = [] \<or> fc_mode c \<noteq> ''device''
      then Inl (VerificationError ''INVALID_FILE'')
      else if \<not> equal_fold_trim k (fc_product c) (ov_product v) then Inl (VerificationError ''WRONG_PRODUCT'')
      else if \<not> equal_fold_trim k (fc_machine c) machine then Inl (VerificationError ''BINDING_MISMATCH'')
      else
        let now = ov_clock v in
        if now + ov_skew v < fc_issued c then Inl (VerificationError ''ISSUED_IN_FUTURE'')
        else if \<not> fc_permanent c \<and> (case fc_expired c of None \<Rightarrow> True | Some t \<Rightarrow> \<not> now < t)
        then Inl (VerificationError ''LICENSE_EXPIRED'')
        else Inr c)"

definition verify_license_file :: "sdk \<Rightarrow> offline_verifier \<Rightarrow> string \<Rightarrow> string \<Rightarrow> sdk_err + file_claims" where
  "verify_license_file k v content machine =
     (case k_file_parse k content of
        None \<Rightarrow> Inl (VerificationError ''INVALID_FILE'')
      | Some file \<Rightarrow>
          if lf_format file \<noteq> ''yn-license-key'' \<or> lf_version file \<noteq> 1 \<or> lf_token file = []
          then Inl (VerificationError ''INVALID_FILE'')
          else (case select_key k v (lf_token file) of
              Inl e \<Rightarrow> Inl e
            | Inr key \<Rightarrow>
                (case verify_signed_json k (k_claims_parse k) key (lf_token file) of
                   Inl _ \<Rightarrow> Inl (VerificationError ''INVALID_SIGNATURE'')
                 | Inr c \<Rightarrow> file_claims_ok k v file machine c)))"

section \<open>A clock that is set back\<close>

text \<open>\<open>HighWaterStore\<close> is the pair of operations \<open>load\<close> and \<open>save\<close> on whatever state the store keeps.\<close>

definition check_and_update ::
  "('s, sdk_err, int) act \<Rightarrow> (int \<Rightarrow> ('s, sdk_err, unit) act) \<Rightarrow> int \<Rightarrow> int \<Rightarrow> ('s, sdk_err, unit) act" where
  "check_and_update load save allowed current =
     (if current = zero_instant then raise (SdkError ''current time is required'')
      else
        andThen load (\<lambda>last.
        if last \<noteq> zero_instant \<and> current + allowed < last then raise (VerificationError ''CLOCK_ROLLBACK'')
        else if last \<noteq> zero_instant \<and> \<not> last < current then ret ()
        else save current))"

definition new_high_water_guard :: "bool \<Rightarrow> int \<Rightarrow> sdk_err + int" where
  "new_high_water_guard has_store allowed =
     (if \<not> has_store then Inl (SdkError ''high-water store is required'')
      else if allowed < 0 then Inl (SdkError ''allowed rollback cannot be negative'')
      else Inr allowed)"

section \<open>Signed releases\<close>

record release_expectation =
  re_pem :: string
  re_product :: string
  re_target :: "release_target option"
  re_current :: string

text \<open>\<open>strconv.Atoi\<close>: the value, and whether there was no error.\<close>

definition go_atoi :: "string \<Rightarrow> int \<times> bool" where
  "go_atoi s =
     (let body = (if s \<noteq> [] \<and> hd s \<in> {CHR ''+'', CHR ''-''} then tl s else s) in
      if body = [] \<or> \<not> list_all is_digit body then (0, False)
      else
        let n = (if hd s = CHR ''-'' then - digits_value body else digits_value body) in
        if n < - (2 ^ 63) then (- (2 ^ 63), False)
        else if 2 ^ 63 \<le> n then (2 ^ 63 - 1, False)
        else (n, True))"

definition valid_source_version :: "string \<Rightarrow> bool" where
  "valid_source_version v \<longleftrightarrow>
     length (split_on (CHR ''.'') v) = 3 \<and>
     list_all (\<lambda>part. case go_atoi part of (n, ok) \<Rightarrow> ok \<and> 0 \<le> n \<and> itoa n = part) (split_on (CHR ''.'') v)"

text \<open>The loop over the first three parts; a missing part is an index out of range.\<close>

fun compare_parts :: "nat \<Rightarrow> string list \<Rightarrow> string list \<Rightarrow> sdk_err + int" where
  "compare_parts 0 as bs = Inr 0"
| "compare_parts (Suc n) (a # as) (b # bs) =
     (let x = fst (go_atoi a); y = fst (go_atoi b) in
      if x < y then Inr (- 1) else if y < x then Inr 1 else compare_parts n as bs)"
| "compare_parts (Suc n) as bs = Inl SdkPanic"

definition compare_source_version :: "string \<Rightarrow> string \<Rightarrow> sdk_err + int" where
  "compare_source_version a b = compare_parts 3 (split_on (CHR ''.'') a) (split_on (CHR ''.'') b)"

definition source_version_refused :: "release_target \<Rightarrow> string \<Rightarrow> sdk_err + bool" where
  "source_version_refused a current =
     (if \<not> valid_source_version current then Inr True
      else
        case (if tg_min a = [] then Inr 0 else compare_source_version current (tg_min a)) of
          Inl e \<Rightarrow> Inl e
        | Inr c \<Rightarrow>
            if tg_min a \<noteq> [] \<and> c < 0 then Inr True
            else if tg_max a = [] then Inr False
            else (case compare_source_version current (tg_max a) of Inl e \<Rightarrow> Inl e | Inr d \<Rightarrow> Inr (0 < d)))"

definition target_fits :: "release_target \<Rightarrow> release_target \<Rightarrow> string \<Rightarrow> sdk_err + unit" where
  "target_fits a b current =
     (if list_ex (\<lambda>(x, y). x \<noteq> ''any'' \<and> x \<noteq> y) [(tg_os a, tg_os b), (tg_arch a, tg_arch b), (tg_runtime a, tg_runtime b)]
      then Inl (SdkError ''wrong client platform'')
      else
        let channel = (if tg_channel b = [] then ''stable'' else tg_channel b) in
        if tg_channel a \<noteq> channel \<or> tg_kind b \<noteq> [] \<and> tg_kind a \<noteq> tg_kind b
        then Inl (SdkError ''wrong update channel or kind'')
        else if tg_min a = [] \<and> tg_max a = [] then Inr ()
        else case source_version_refused a current of
            Inl e \<Rightarrow> Inl e
          | Inr refused \<Rightarrow> if refused then Inl (SdkError ''source version outside signed upgrade path'') else Inr ())"

definition verify_release_manifest :: "sdk \<Rightarrow> sdk_release \<Rightarrow> release_expectation \<Rightarrow> sdk_err + unit" where
  "verify_release_manifest k r ex =
     (case sdk_public_key k (re_pem ex) of
        Inl e \<Rightarrow> Inl e
      | Inr key \<Rightarrow>
          (case verify_signed_json k (k_release_parse k) key (sr_token r) of
             Inl e \<Rightarrow> Inl e
           | Inr c \<Rightarrow>
               if re_product ex = [] \<or> lc_type c \<noteq> ''product_release'' \<or> lc_product c \<noteq> re_product ex \<or>
                 lc_product c \<noteq> sr_product r \<or> lc_release c \<noteq> sr_id r \<or> lc_version c \<noteq> sr_version r \<or>
                 lc_size c \<noteq> sr_size r \<or> lc_sha c \<noteq> sr_sha r \<or> lc_key_version c \<noteq> sr_key_version r \<or>
                 lc_target c \<noteq> sr_target r \<or> lc_size c \<le> 0 \<or> 268435456 < lc_size c
               then Inl (SdkError ''signed release identity, target or package does not match'')
               else (case lc_target c of
                   None \<Rightarrow> Inr ()
                 | Some a \<Rightarrow>
                     (case re_target ex of
                        None \<Rightarrow> Inl (SdkError ''explicit client target required'')
                      | Some b \<Rightarrow> target_fits a b (re_current ex)))))"

definition verify_release_package :: "sdk \<Rightarrow> sdk_release \<Rightarrow> string \<Rightarrow> release_expectation \<Rightarrow> sdk_err + unit" where
  "verify_release_package k r content ex =
     (case verify_release_manifest k r ex of
        Inl e \<Rightarrow> Inl e
      | Inr _ \<Rightarrow>
          if int (length content) \<noteq> sr_size r \<or> sha_hex (k_core k) content \<noteq> sr_sha r
          then Inl (SdkError ''release package checksum mismatch'') else Inr ())"

end
