(* ===== verification/SdkClient.thy ===== *)
theory SdkClient
  imports Sdk
begin

text \<open>
  The requests of the client SDK (\<open>client.go\<close>, the second half of \<open>updates.go\<close>) and the identity of an
  installation (\<open>installation.go\<close>).

  \<^item> \<open>machine\<close> is the state around a client: the files of its private data directory by name, the network with
    whatever answers there, and the random source. \<open>'n network\<close> is \<open>http.Client.Do\<close>: a reply, or none when the
    request fails.
  \<^item> \<open>codec\<close> holds Go's JSON codecs for the bodies and answers and the two escapes of \<open>net/url\<close>. An answer whose
    data are missing leaves the zero value.
  \<^item> Failures of the file system other than a missing file are not modelled; a temporary file that is written,
    synced, linked or renamed is the content it brings.
\<close>

section \<open>Requests and answers\<close>

record sdk_verify =
  sv_instance :: sdk_instance
  sv_license :: string
  sv_mode :: string
  sv_value :: string
  sv_token :: string

record sdk_activate =
  sa_instance :: sdk_instance
  sa_card :: string
  sa_mode :: string
  sa_value :: string
  sa_device :: string
  sa_version :: string

record sdk_heartbeat =
  sh_instance :: sdk_instance
  sh_license :: string
  sh_mode :: string
  sh_value :: string

record sdk_renew =
  sw_instance :: sdk_instance
  sw_license :: string
  sw_card :: string
  sw_mode :: string
  sw_value :: string

record sdk_unbind =
  su_instance :: sdk_instance
  su_license :: string
  su_mode :: string
  su_value :: string
  su_reason :: string

record sdk_seat =
  ss_verify :: sdk_verify
  ss_session :: string
  ss_days :: int

text \<open>The bodies of the requests, each with the application key.\<close>

datatype sdk_body =
    ActivateBody string sdk_activate
  | VerifyBody string sdk_verify
  | HeartbeatBody string sdk_heartbeat
  | RenewBody string sdk_renew
  | UnbindBody string sdk_unbind
  | CheckBody string sdk_verify string
  | SeatBody string sdk_seat
  | CardBody string string

text \<open>\<open>LicenseResponse\<close> (the terms are a text), \<open>HeartbeatResponse\<close>, \<open>UnbindResponse\<close>, \<open>SeatLease\<close>, \<open>ClaimTicket\<close>,
  \<open>ProductKeyRing\<close>, \<open>CheckUpdateResponse\<close>.\<close>

record sdk_license =
  sl_mode :: string
  sl_value :: string
  sl_terms :: string
  sl_license_mode :: string
  sl_use :: bool
  sl_update :: bool
  sl_usage :: "int option"
  sl_updates :: "int option"
  sl_no :: string
  sl_status :: string
  sl_expired :: "int option"
  sl_grace :: "int option"
  sl_token :: string
  sl_offline :: string
  sl_time :: int

definition no_license_answer :: sdk_license where
  "no_license_answer =
     \<lparr>sl_mode = [], sl_value = [], sl_terms = [], sl_license_mode = [], sl_use = False, sl_update = False, sl_usage = None,
      sl_updates = None, sl_no = [], sl_status = [], sl_expired = None, sl_grace = None, sl_token = [], sl_offline = [],
      sl_time = zero_instant\<rparr>"

record sdk_lease =
  se_id :: string
  se_instance :: string
  se_session :: string
  se_expires :: int
  se_borrowed :: bool
  se_token :: string

definition no_lease :: sdk_lease where
  "no_lease = \<lparr>se_id = [], se_instance = [], se_session = [], se_expires = zero_instant, se_borrowed = False, se_token = []\<rparr>"

record sdk_ring =
  sg_product :: string
  sg_code :: string
  sg_key :: string
  sg_current :: int
  sg_keys :: "(int \<times> string) list"

definition no_ring :: sdk_ring where
  "no_ring = \<lparr>sg_product = [], sg_code = [], sg_key = [], sg_current = 0, sg_keys = []\<rparr>"

record sdk_update =
  sd_enabled :: bool
  sd_available :: bool
  sd_release :: "sdk_release option"

definition no_update :: sdk_update where
  "no_update = \<lparr>sd_enabled = False, sd_available = False, sd_release = None\<rparr>"

text \<open>The envelope of every answer: success, request number, raw data, code of the error.\<close>

record envelope =
  ev_success :: bool
  ev_request :: string
  ev_data :: string
  ev_error :: "string option"

text \<open>
  \<open>j_requirements\<close> reads what a card requires: \<open>Some (Some mode)\<close> when the answer has terms, with their mode
  of binding, empty if there is none.
\<close>

record codec =
  j_body :: "sdk_body \<Rightarrow> string option"
  j_envelope :: "string \<Rightarrow> envelope option"
  j_license :: "string \<Rightarrow> sdk_license option"
  j_heartbeat :: "string \<Rightarrow> (bool \<times> int) option"
  j_unbind :: "string \<Rightarrow> (bool \<times> string \<times> int) option"
  j_ring :: "string \<Rightarrow> sdk_ring option"
  j_update :: "string \<Rightarrow> sdk_update option"
  j_authorized :: "string \<Rightarrow> (bool \<times> string) option"
  j_lease :: "string \<Rightarrow> sdk_lease option"
  j_ticket :: "string \<Rightarrow> (string \<times> int) option"
  j_requirements :: "string \<Rightarrow> string option option"
  j_query :: "string \<Rightarrow> string"
  j_path :: "string \<Rightarrow> string"

record web_request =
  wq_method :: string
  wq_url :: string
  wq_headers :: "(string \<times> string) list"
  wq_body :: string

type_synonym 'n network = "'n \<Rightarrow> web_request \<Rightarrow> (int \<times> string) option \<times> 'n"

record 'n machine =
  hm_files :: "string \<Rightarrow> string option"
  hm_net :: 'n
  hm_draws :: nat

type_synonym ('n, 'a) machine_act = "('n machine, sdk_err, 'a) act"

section \<open>The client\<close>

record client =
  ct_base :: string
  ct_key :: string
  ct_agent :: string

text \<open>\<open>WithUserAgent\<close>; \<open>WithHTTPClient\<close> chooses the network.\<close>

definition with_user_agent :: "string \<Rightarrow> client \<Rightarrow> client" where
  "with_user_agent agent c = (if trim_space agent = [] then c else c\<lparr>ct_agent := trim_space agent\<rparr>)"

definition trim_slashes :: "string \<Rightarrow> string" where
  "trim_slashes s = rev (dropWhile (\<lambda>c. c = CHR ''/'') (rev s))"

definition new_client :: "sdk \<Rightarrow> string \<Rightarrow> string \<Rightarrow> (client \<Rightarrow> client) list \<Rightarrow> sdk_err + client" where
  "new_client k base0 key options =
     (let base = trim_slashes (trim_space base0) in
      case s_parse_url (k_core k) base of
        None \<Rightarrow> Inl (SdkError ''base URL and app key are required'')
      | Some u \<Rightarrow>
          if url_scheme u \<noteq> ''http'' \<and> url_scheme u \<noteq> ''https'' \<or> url_host u = [] \<or> trim_space key = []
          then Inl (SdkError ''base URL and app key are required'')
          else Inr (fold (\<lambda>f. f) options \<lparr>ct_base = base, ct_key = trim_space key, ct_agent = ''yn-license-go/1.0''\<rparr>))"

definition max_response :: nat where "max_response = 2097152"

definition send_request :: "sdk \<Rightarrow> 'n network \<Rightarrow> web_request \<Rightarrow> ('n, int \<times> string) machine_act" where
  "send_request k net q =
     (if s_parse_url (k_core k) (wq_url q) = None then raise (SdkError ''create request'')
      else (\<lambda>s. case net (hm_net s) q of
              (None, n) \<Rightarrow> (Inl (SdkError ''request failed''), s\<lparr>hm_net := n\<rparr>)
            | (Some reply, n) \<Rightarrow> (Inr reply, s\<lparr>hm_net := n\<rparr>)))"

definition decode_envelope :: "codec \<Rightarrow> string \<Rightarrow> int \<Rightarrow> sdk_err + string" where
  "decode_envelope j raw status =
     (case j_envelope j raw of
        None \<Rightarrow> Inl (SdkError ''decode response'')
      | Some ev \<Rightarrow>
          if status < 200 \<or> 300 \<le> status \<or> \<not> ev_success ev
          then Inl (APIError (case ev_error ev of None \<Rightarrow> ''HTTP_ERROR'' | Some code \<Rightarrow> code) status (ev_request ev))
          else Inr (ev_data ev))"

text \<open>What \<open>get\<close> and \<open>post\<close> do with the answer: at most two megabytes, the envelope, the data (the texts around a
  library error differ a little).\<close>

definition read_answer :: "codec \<Rightarrow> (string \<Rightarrow> 'a option) \<Rightarrow> 'a \<Rightarrow> int \<times> string \<Rightarrow> sdk_err + 'a" where
  "read_answer j parse zero reply =
     (let raw = take (Suc max_response) (snd reply) in
      if max_response < length raw then Inl (SdkError ''response exceeds 2 MiB limit'')
      else case decode_envelope j raw (fst reply) of
          Inl e \<Rightarrow> Inl e
        | Inr data \<Rightarrow>
            if data = [] then Inr zero
            else (case parse data of None \<Rightarrow> Inl (SdkError ''decode response data'') | Some v \<Rightarrow> Inr v))"

definition get_request :: "client \<Rightarrow> string \<Rightarrow> web_request" where
  "get_request c path =
     \<lparr>wq_method = ''GET'', wq_url = ct_base c @ path,
      wq_headers = [(''Accept'', ''application/json''), (''User-Agent'', ct_agent c)], wq_body = []\<rparr>"

definition post_request :: "client \<Rightarrow> string \<Rightarrow> string \<Rightarrow> web_request" where
  "post_request c path body =
     \<lparr>wq_method = ''POST'', wq_url = ct_base c @ path,
      wq_headers = [(''Content-Type'', ''application/json''), (''Accept'', ''application/json''), (''User-Agent'', ct_agent c)],
      wq_body = body\<rparr>"

definition client_get ::
  "sdk \<Rightarrow> codec \<Rightarrow> 'n network \<Rightarrow> client \<Rightarrow> string \<Rightarrow> (string \<Rightarrow> 'a option) \<Rightarrow> 'a \<Rightarrow> ('n, 'a) machine_act" where
  "client_get k j net c path parse zero =
     andThen (send_request k net (get_request c path)) (\<lambda>reply. pureA (read_answer j parse zero reply))"

definition client_post ::
  "sdk \<Rightarrow> codec \<Rightarrow> 'n network \<Rightarrow> client \<Rightarrow> string \<Rightarrow> sdk_body \<Rightarrow> (string \<Rightarrow> 'a option) \<Rightarrow> 'a \<Rightarrow> ('n, 'a) machine_act" where
  "client_post k j net c path body parse zero =
     (case j_body j body of
        None \<Rightarrow> raise (SdkError ''encode request'')
      | Some text \<Rightarrow>
          andThen (send_request k net (post_request c path text)) (\<lambda>reply. pureA (read_answer j parse zero reply)))"

definition sdk_activate_license :: "sdk \<Rightarrow> codec \<Rightarrow> 'n network \<Rightarrow> client \<Rightarrow> sdk_activate \<Rightarrow> ('n, sdk_license) machine_act" where
  "sdk_activate_license k j net c inp =
     client_post k j net c ''/v1/licenses/activate'' (ActivateBody (ct_key c) inp) (j_license j) no_license_answer"

definition sdk_verify_license :: "sdk \<Rightarrow> codec \<Rightarrow> 'n network \<Rightarrow> client \<Rightarrow> sdk_verify \<Rightarrow> ('n, sdk_license) machine_act" where
  "sdk_verify_license k j net c inp =
     client_post k j net c ''/v1/licenses/verify'' (VerifyBody (ct_key c) inp) (j_license j) no_license_answer"

definition sdk_send_heartbeat :: "sdk \<Rightarrow> codec \<Rightarrow> 'n network \<Rightarrow> client \<Rightarrow> sdk_heartbeat \<Rightarrow> ('n, bool \<times> int) machine_act" where
  "sdk_send_heartbeat k j net c inp =
     client_post k j net c ''/v1/licenses/heartbeat'' (HeartbeatBody (ct_key c) inp) (j_heartbeat j) (False, zero_instant)"

definition sdk_renew_license :: "sdk \<Rightarrow> codec \<Rightarrow> 'n network \<Rightarrow> client \<Rightarrow> sdk_renew \<Rightarrow> ('n, sdk_license) machine_act" where
  "sdk_renew_license k j net c inp =
     client_post k j net c ''/v1/licenses/renew'' (RenewBody (ct_key c) inp) (j_license j) no_license_answer"

definition sdk_unbind_license :: "sdk \<Rightarrow> codec \<Rightarrow> 'n network \<Rightarrow> client \<Rightarrow> sdk_unbind \<Rightarrow> ('n, bool \<times> string \<times> int) machine_act" where
  "sdk_unbind_license k j net c inp =
     client_post k j net c ''/v1/licenses/unbind'' (UnbindBody (ct_key c) inp) (j_unbind j) (False, [], zero_instant)"

definition sdk_product_keys :: "sdk \<Rightarrow> codec \<Rightarrow> 'n network \<Rightarrow> client \<Rightarrow> string \<Rightarrow> ('n, sdk_ring) machine_act" where
  "sdk_product_keys k j net c app_key =
     client_get k j net c
       (''/v1/products/keys?app_key='' @ j_query j (if trim_space app_key = [] then ct_key c else trim_space app_key))
       (j_ring j) no_ring"

text \<open>A later entry of the same version replaces the earlier one, as in the map.\<close>

definition ring_keys :: "sdk_ring \<Rightarrow> (int \<times> string) list" where
  "ring_keys ring =
     foldl (\<lambda>m (v, pem). if pem = [] then m else filter (\<lambda>e. fst e \<noteq> v) m @ [(v, pem)]) [] (sg_keys ring)"

definition offline_verifier_from_ring ::
  "sdk \<Rightarrow> codec \<Rightarrow> 'n network \<Rightarrow> client \<Rightarrow> string \<Rightarrow> string \<Rightarrow> verifier_option list \<Rightarrow> ('n, offline_verifier) machine_act" where
  "offline_verifier_from_ring k j net c app_key product options =
     andThen (sdk_product_keys k j net c app_key) (\<lambda>ring.
     pureA (new_key_ring_verifier k (ring_keys ring) (if trim_space product = [] then sg_code ring else product) options))"

definition sdk_check_update ::
  "sdk \<Rightarrow> codec \<Rightarrow> 'n network \<Rightarrow> client \<Rightarrow> sdk_verify \<Rightarrow> string \<Rightarrow> ('n, sdk_update) machine_act" where
  "sdk_check_update k j net c inp current =
     client_post k j net c ''/v1/updates/check'' (CheckBody (ct_key c) inp current) (j_update j) no_update"

definition sdk_authorize_update :: "sdk \<Rightarrow> codec \<Rightarrow> 'n network \<Rightarrow> client \<Rightarrow> string \<Rightarrow> sdk_verify \<Rightarrow> ('n, unit) machine_act" where
  "sdk_authorize_update k j net c i inp =
     andThen (client_post k j net c (''/v1/updates/'' @ j_path j i @ ''/authorize'') (VerifyBody (ct_key c) inp)
       (j_authorized j) (False, [])) (\<lambda>(authorized, release).
     if \<not> authorized \<or> release \<noteq> i then raise (SdkError ''exact release authorization was not granted'') else ret ())"

definition download_expectation :: "sdk_verify \<Rightarrow> release_expectation \<Rightarrow> release_expectation" where
  "download_expectation inp ex =
     ex\<lparr>re_target := (case re_target ex of None \<Rightarrow> si_target (sv_instance inp) | Some t \<Rightarrow> Some t),
        re_current := (if re_current ex = [] then si_current (sv_instance inp) else re_current ex)\<rparr>"

definition download_request :: "client \<Rightarrow> string \<Rightarrow> string \<Rightarrow> web_request" where
  "download_request c path body =
     \<lparr>wq_method = ''POST'', wq_url = ct_base c @ path,
      wq_headers = [(''Content-Type'', ''application/json''), (''User-Agent'', ct_agent c)], wq_body = body\<rparr>"

text \<open>A status other than success ends the download, even if the envelope claims none: \<open>decodeEnvelope\<close> fails then.\<close>

definition sdk_download_update ::
  "sdk \<Rightarrow> codec \<Rightarrow> 'n network \<Rightarrow> client \<Rightarrow> sdk_release \<Rightarrow> sdk_verify \<Rightarrow> release_expectation \<Rightarrow> ('n, string) machine_act" where
  "sdk_download_update k j net c r inp ex0 =
     (let ex = download_expectation inp ex0 in
      andThen (pureA (verify_release_manifest k r ex)) (\<lambda>_.
      case j_body j (VerifyBody (ct_key c) inp) of
        None \<Rightarrow> raise (SdkError ''encode request'')
      | Some text \<Rightarrow>
          andThen (send_request k net (download_request c (''/v1/updates/'' @ j_path j (sr_id r) @ ''/download'') text)) (\<lambda>(status, body).
          if status < 200 \<or> 300 \<le> status
          then andThen (pureA (decode_envelope j (take (Suc max_response) body) status)) (\<lambda>_. ret [])
          else
            let data = take (nat (sr_size r + 1)) body in
            andThen (pureA (verify_release_package k r data ex)) (\<lambda>_.
            andThen (sdk_authorize_update k j net c (sr_id r) inp) (\<lambda>_.
            ret data)))))"

definition sdk_card_requirements :: "sdk \<Rightarrow> codec \<Rightarrow> 'n network \<Rightarrow> client \<Rightarrow> string \<Rightarrow> ('n, string option) machine_act" where
  "sdk_card_requirements k j net c crd =
     client_post k j net c ''/v1/cards/requirements'' (CardBody (ct_key c) crd) (j_requirements j) None"

definition sdk_acquire_seat :: "sdk \<Rightarrow> codec \<Rightarrow> 'n network \<Rightarrow> client \<Rightarrow> sdk_seat \<Rightarrow> ('n, sdk_lease) machine_act" where
  "sdk_acquire_seat k j net c inp =
     client_post k j net c ''/v1/licenses/seats/acquire'' (SeatBody (ct_key c) inp) (j_lease j) no_lease"

text \<open>No output: the data are not decoded.\<close>

definition sdk_release_seat :: "sdk \<Rightarrow> codec \<Rightarrow> 'n network \<Rightarrow> client \<Rightarrow> sdk_verify \<Rightarrow> ('n, unit) machine_act" where
  "sdk_release_seat k j net c inp =
     client_post k j net c ''/v1/licenses/seats/release'' (VerifyBody (ct_key c) inp) (\<lambda>_. Some ()) ()"

definition sdk_claim_ticket :: "sdk \<Rightarrow> codec \<Rightarrow> 'n network \<Rightarrow> client \<Rightarrow> sdk_verify \<Rightarrow> ('n, string \<times> int) machine_act" where
  "sdk_claim_ticket k j net c inp =
     client_post k j net c ''/v1/licenses/claim-ticket'' (VerifyBody (ct_key c) inp) (j_ticket j) ([], zero_instant)"

section \<open>The identity of an installation\<close>

text \<open>\<open>hex.DecodeString\<close>.\<close>

fun hex_secret :: "string \<Rightarrow> string option" where
  "hex_secret [] = Some []"
| "hex_secret [c] = None"
| "hex_secret (a # b # s) =
     (case (hex_digit a, hex_digit b, hex_secret s) of
        (Some x, Some y, Some t) \<Rightarrow> Some (char_of (16 * x + y) # t)
      | _ \<Rightarrow> None)"

definition identity_file :: string where "identity_file = ''instance.json''"

text \<open>
  The function \<open>read\<close> of \<open>OpenInstallation\<close> on a regular file: \<open>None\<close> if there is no file.
\<close>

definition read_identity :: "sdk \<Rightarrow> string \<Rightarrow> string option \<Rightarrow> (sdk_err + sdk_instance) option" where
  "read_identity k device file =
     (case file of
        None \<Rightarrow> None
      | Some raw \<Rightarrow> Some (
          if 8192 < length raw then Inl (SdkError ''invalid installation file'')
          else case k_identity_parse k raw of
              None \<Rightarrow> Inl (SdkError ''json'')
            | Some v \<Rightarrow>
                if length (si_instance v) < 16 \<or> 64 < length (si_instance v) \<or>
                  (case hex_secret (si_secret v) of None \<Rightarrow> True | Some secret \<Rightarrow> length secret \<noteq> 32)
                then Inl (SdkError ''invalid installation identity'')
                else if device \<noteq> [] \<and> si_device v \<noteq> device
                then Inl (SdkError ''the configured device changed; use the controlled rebind flow'')
                else Inr v))"

definition new_identity :: "string \<Rightarrow> string \<Rightarrow> sdk_instance" where
  "new_identity device random =
     \<lparr>si_session = [], si_instance = hex_encode (take 16 random), si_secret = hex_encode (take 32 (drop 16 random)),
      si_device = (if device = [] then hex_encode (drop 48 random) else device), si_seat = [], si_bindings = [],
      si_target = None, si_current = []\<rparr>"

text \<open>\<open>os.Link\<close>: the first file under the name stays.\<close>

definition link_identity :: "string \<Rightarrow> ('n, unit) machine_act" where
  "link_identity raw =
     writes (\<lambda>s. case hm_files s identity_file of
       None \<Rightarrow> s\<lparr>hm_files := (hm_files s)(identity_file \<mapsto> raw)\<rparr> | Some _ \<Rightarrow> s)"

definition prepare_identity :: "sdk \<Rightarrow> string \<Rightarrow> ('n, string) machine_act" where
  "prepare_identity k device =
     (\<lambda>s. (Inr (k_identity_json k (new_identity device (s_random (k_core k) (hm_draws s) 64))),
           s\<lparr>hm_draws := Suc (hm_draws s)\<rparr>))"

definition look_identity :: "sdk \<Rightarrow> string \<Rightarrow> ('n, (sdk_err + sdk_instance) option) machine_act" where
  "look_identity k device = reads (\<lambda>s. read_identity k device (hm_files s identity_file))"

text \<open>Without a configured device the device is drawn, and the second reading asks for that one.\<close>

definition chosen_device :: "sdk \<Rightarrow> string \<Rightarrow> ('n, string) machine_act" where
  "chosen_device k device =
     reads (\<lambda>s. if device = [] then hex_encode (drop 48 (s_random (k_core k) (hm_draws s) 64)) else device)"

definition open_installation :: "sdk \<Rightarrow> string \<Rightarrow> ('n, sdk_instance) machine_act" where
  "open_installation k device0 =
     andThen (look_identity k device0) (\<lambda>r.
     case r of
       Some v \<Rightarrow> pureA v
     | None \<Rightarrow>
         andThen (chosen_device k device0) (\<lambda>device.
         andThen (prepare_identity k device) (\<lambda>raw.
         andThen (link_identity raw) (\<lambda>_.
         andThen (look_identity k device) (\<lambda>again.
         case again of None \<Rightarrow> raise (SdkError ''not exist'') | Some v \<Rightarrow> pureA v)))))"

section \<open>The host of an HTTP request\<close>

record http_request =
  hq_host :: string
  hq_remote :: string
  hq_forwarded :: string

record full_url = url_parts +
  url_path :: string

definition request_host :: "http_request \<Rightarrow> (addr \<times> nat) list \<Rightarrow> string" where
  "request_host r trusted =
     (case parse_addr (case split_host_port (hq_remote r) of None \<Rightarrow> [] | Some h \<Rightarrow> h) of
        None \<Rightarrow> hq_host r
      | Some a \<Rightarrow>
          if list_ex (\<lambda>p. prefix_contains p (unmap a) \<and> hq_forwarded r \<noteq> []) trusted then hq_forwarded r else hq_host r)"

definition binding_for_http_request ::
  "sdk \<Rightarrow> (string \<Rightarrow> full_url option) \<Rightarrow> sdk_verify \<Rightarrow> http_request option \<Rightarrow> (addr \<times> nat) list \<Rightarrow> sdk_err + sdk_verify" where
  "binding_for_http_request k parse inp r trusted =
     (if sv_mode inp \<notin> {''domain'', ''domain_wildcard'', ''composite''} then Inr inp
      else case r of
          None \<Rightarrow> Inl (SdkError ''actual HTTP request required'')
        | Some q \<Rightarrow>
            let host = request_host q trusted in
            if host = [] \<or> contains_any host ('' ,/@?#'' @ [CHR 0x09, CHR 0x0D, CHR 0x0A, CHR 0x5C])
            then Inl (SdkError ''invalid request host'')
            else (case parse (''http://'' @ host) of
                None \<Rightarrow> Inl (SdkError ''invalid request host'')
              | Some u \<Rightarrow>
                  if url_has_user u \<or> url_hostname u = [] \<or> url_path u \<noteq> [] then Inl (SdkError ''invalid request host'')
                  else
                    let value = trim_suffix (to_lower (k_core k) (url_hostname u)) ''.'' in
                    if sv_mode inp \<noteq> ''composite'' then Inr (inp\<lparr>sv_value := value\<rparr>)
                    else
                      (case (if si_bindings (sv_instance inp) \<noteq> [] then Some (Some (si_bindings (sv_instance inp)))
                             else k_map_parse k (sv_value inp)) of
                         None \<Rightarrow> Inl (SdkError ''json'')
                       | Some members \<Rightarrow>
                           let copied = map (\<lambda>(kind, v). (kind, if kind = ''domain'' \<or> kind = ''domain_wildcard'' then value else v))
                             (case members of None \<Rightarrow> [] | Some m \<Rightarrow> m) in
                           Inr (inp\<lparr>sv_value := k_map_json k (Some copied),
                                    sv_instance := (sv_instance inp)\<lparr>si_bindings := []\<rparr>\<rparr>))))"

end
