(* ===== verification/KeyFiles.thy ===== *)
theory KeyFiles
  imports OfflineFiles SdkClient AccountSample Tokens
begin

text \<open>
  Server and client together: a file that the server issued for a machine is accepted by the client SDK on that machine
  until it expires, and nowhere else (\<open>offline_file_accepted\<close>); an update that the client hands over was signed with the
  key it was told to trust (\<open>downloaded_update_authentic\<close>).
\<close>

definition claims_of_payload :: "offline_payload \<Rightarrow> file_claims" where
  "claims_of_payload x =
     \<lparr>fc_version = op_version x, fc_key_version = op_key_version x, fc_license = op_license x,
      fc_product_id = op_product_id x, fc_product = op_product x, fc_name = op_name x, fc_app_key = op_app_key x,
      fc_mode = op_mode x, fc_machine = op_machine x, fc_issued = op_issued x, fc_expired = op_expired x,
      fc_permanent = op_permanent x\<rparr>"

definition issued_payload :: "host \<Rightarrow> g_product \<Rightarrow> offline_input \<Rightarrow> offline_license \<Rightarrow> offline_payload" where
  "issued_payload hs p inp l = offline_payload_of p (trimmed_offline_input inp) (ol_no l) (now_of hs)"

lemma signed_text_verifies:
  assumes "sign_text hs pem body = Inr token"
    and "\<And>m sig. s_rsa_sign (ho_core hs) pem m = Some sig \<Longrightarrow> k_rsa k key m sig"
    and "s_sha256 (k_core k) = s_sha256 (ho_core hs)"
  shows "verify_signed_json k parse key token = (case parse body of None \<Rightarrow> Inl (SdkError ''json'') | Some v \<Rightarrow> Inr v)"
    and "token \<noteq> []"
  using assms
  by (auto simp: sign_text_def verify_signed_json_def Let_def split_on_append split_on_free b64_no_dot b64_decode_encode
      split: option.splits)

lemma equal_fold_trimmed [simp]: "equal_fold_trim k (trim_space a) b = equal_fold_trim k a b"
  by (simp add: equal_fold_trim_def)

text \<open>C12. A license file that the server issues and hands out is read back by the client SDK. With the public half of the
  product's key, the SDK accepts the file exactly on the machine it was issued for (up to letter case and blanks at the
  ends), not before it was issued (but for the tolerated skew) and, unless it is permanent, before its days are over;
  and what it reads is what was issued.\<close>

theorem offline_file_accepted:
  assumes create: "create_offline_license hs inp who s = (Inr l, t)"
    and product: "product_of (y_goods (st_db s)) (trim_space (oi_product inp)) = Some p"
    and row: "row_of ol_id (trim_space i) (x_offline (y_goods (st_db s'))) = Some l"
    and download: "download_offline_license hs' i who' s' = (Inr (name, content), t')"
    and sealing: "\<And>n x. ho_open hs' (ho_seal hs n x) = Some x"
    and key: "\<And>pem m sig. ho_open hs (gp_private p) = Some pem \<Longrightarrow> s_rsa_sign (ho_core hs) pem m = Some sig \<Longrightarrow>
       k_rsa k key m sig"
    and sha: "s_sha256 (k_core k) = s_sha256 (ho_core hs)"
    and parsed: "\<And>token. k_file_parse k (ho_key_file hs' offline_format 1 token @ [CHR 0x0A]) =
       Some \<lparr>lf_format = offline_format, lf_version = 1, lf_token = token\<rparr>"
    and codec: "k_claims_parse k (ho_offline_json hs (issued_payload hs p inp l)) = Some (claims_of_payload (issued_payload hs p inp l))"
    and verifier: "ov_key v = Some key" "ov_product v = gp_code p"
  shows "verify_license_file k v content machine = Inr c \<longleftrightarrow>
    c = claims_of_payload (issued_payload hs p inp l) \<and> equal_fold_trim k (oi_machine inp) machine \<and>
    now_of hs \<le> ov_clock v + ov_skew v \<and>
    (oi_permanent inp \<or> ov_clock v < add_days (now_of hs) (oi_days inp))"
proof -
  obtain pem token draw where pem: "ho_open hs (gp_private p) = Some pem"
    and token: "sign_text hs pem (ho_offline_json hs (issued_payload hs p inp l)) = Inr token"
    and sealed: "ol_token_sealed l = ho_seal hs draw token" and no: "ol_no l \<noteq> []"
    using create_offline_run [OF create] product
    by (auto simp: issued_payload_def opened_def split: option.splits)
  have content: "content = ho_key_file hs' offline_format 1 token @ [CHR 0x0A]"
    using download_offline_run [OF download] row sealing by (auto simp: sealed opened_def)
  note signed = signed_text_verifies [OF token key [OF pem] sha]
  show ?thesis
    using no
    by (simp add: verify_license_file_def content parsed offline_format_def [symmetric] signed select_key_def verifier codec
        file_claims_ok_def)
       (auto simp: claims_of_payload_def issued_payload_def offline_payload_of_def trimmed_offline_input_def offline_expiry_def
        equal_fold_trim_def Let_def)
qed

definition sample_sdk :: sdk where
  "sample_sdk =
     \<lparr>k_core = sample_svc, k_pem = Some, k_pkix = (\<lambda>b. Some (RsaKey b)), k_pkcs1 = (\<lambda>_. None), k_rsa = (\<lambda>_ m sig. sig = m),
      k_fold = map lower_char, k_cache_parse = (\<lambda>_. None),
      k_file_parse = (\<lambda>t. Some \<lparr>lf_format = ''yn-license-key'', lf_version = 1, lf_token = butlast t\<rparr>),
      k_claims_parse = (\<lambda>no. Some \<lparr>fc_version = 1, fc_key_version = 1, fc_license = no, fc_product_id = ''yn1'', fc_product = ''APP'',
        fc_name = ''App'', fc_app_key = ''yn1'', fc_mode = ''device'', fc_machine = ''M1'', fc_issued = s_now sample_svc,
        fc_expired = Some (add_days (s_now sample_svc) 30), fc_permanent = False\<rparr>),
      k_release_parse = (\<lambda>_. None), k_map_parse = (\<lambda>_. None), k_map_json = (\<lambda>_. []), k_identity_json = si_instance,
      k_identity_parse = (\<lambda>_. None)\<rparr>"

definition sample_verifier :: offline_verifier where
  "sample_verifier =
     \<lparr>ov_key = Some ''key'', ov_ring = [], ov_product = ''APP'', ov_clock = s_now sample_svc, ov_skew = 0\<rparr>"

definition sample_offline_input :: offline_input where
  "sample_offline_input =
     \<lparr>oi_product = ''yn1'', oi_machine = ''M1'', oi_label = [], oi_days = 30, oi_permanent = False\<rparr>"

definition sample_shelf :: site where
  "sample_shelf = sample_site\<lparr>st_db := sample_directory\<lparr>y_goods := empty_goods\<lparr>x_products := [sample_product]\<rparr>\<rparr>\<rparr>"

lemma sample_offline_trims: "trim_space ''M1'' = ''M1''" "trim_space ''yn1'' = ''yn1''"
  by code_simp+

definition sample_offline_no :: string where
  "sample_offline_no = ''offlic_'' @ base32_lower (s_random sample_svc 0 16)"

lemma sample_offline_no_trim: "trim_space sample_offline_no = sample_offline_no"
  by code_simp

lemma sample_issued:
  "\<exists>l t. create_offline_license sample_host sample_offline_input ''root'' sample_shelf = (Inr l, t) \<and> ol_id l = sample_offline_no \<and>
     x_offline (y_goods (st_db t)) = [l] \<and> x_products (y_goods (st_db t)) = [sample_product]"
proof -
  let ?run = "create_offline_license sample_host sample_offline_input ''root'' sample_shelf"
  have "\<exists>l. fst ?run = Inr l \<and> ol_id l = sample_offline_no \<and> x_offline (y_goods (st_db (snd ?run))) = [l] \<and>
    x_products (y_goods (st_db (snd ?run))) = [sample_product]"
    by (simp add: create_offline_license_def trimmed_offline_input_def sample_offline_input_def sample_shelf_def product_by_id_def
      fetch_goods_def product_of_def joined_product_def plain_product_def sample_product_def empty_goods_def newest_key_def
      insert_offline_license_def put_goods_def new_keys_def edit_goods_def sign_text_def opened_def sample_offline_trims
      sample_site_def sample_directory_def terms_of_def max_offline_license_days_def look_def modify_def
      sample_host_def sample_svc_def sample_offline_no_def exec cong: exec_cong)
  then show ?thesis by (metis prod.collapse)
qed

lemma sample_downloaded:
  assumes "x_offline (y_goods (st_db t)) = [l]" "x_products (y_goods (st_db t)) = [sample_product]" "ol_id l = sample_offline_no"
    "ol_status l = ''active''" "ol_expired l = Some (add_days (s_now sample_svc) 30)" "ol_product l = ''yn1''"
  shows "\<exists>name content u. download_offline_license sample_host sample_offline_no ''root'' t = (Inr (name, content), u)"
proof -
  have "s_now sample_svc < add_days (s_now sample_svc) 30" by (simp add: add_days_def hour_def minute_def second_def)
  with assms have "\<not> isl (fst (download_offline_license sample_host sample_offline_no ''root'' t))"
    by (simp add: download_offline_license_def offline_license_by_id_def product_by_id_def fetch_goods_def product_of_def
      joined_product_def row_of_def sample_offline_no_trim orMissing_def fetch_def opened_def sample_product_def offline_expired_def
      sample_host_def quiet_def Let_def exec cong: exec_cong)
  from succeeds [OF this] show ?thesis by auto
qed

lemma offline_file_accepted_witness:
  "\<exists>l t name content u. create_offline_license sample_host sample_offline_input ''root'' sample_shelf = (Inr l, t) \<and>
     download_offline_license sample_host (ol_id l) ''root'' t = (Inr (name, content), u) \<and>
     (\<exists>c. verify_license_file sample_sdk sample_verifier content ''m1'' = Inr c) \<and>
     (\<forall>c. verify_license_file sample_sdk sample_verifier content ''m2'' \<noteq> Inr c)"
proof -
  obtain l t where l: "create_offline_license sample_host sample_offline_input ''root'' sample_shelf = (Inr l, t)"
    "ol_id l = sample_offline_no" "x_offline (y_goods (st_db t)) = [l]" "x_products (y_goods (st_db t)) = [sample_product]"
    using sample_issued by blast
  have p: "product_of (y_goods (st_db sample_shelf)) (trim_space (oi_product sample_offline_input)) = Some sample_product"
    by (simp add: sample_shelf_def sample_site_def sample_offline_input_def sample_offline_trims product_of_def row_of_def
      sample_product_def joined_product_def empty_goods_def newest_key_def option_text_def terms_of_def)
  note run = create_offline_run [OF l(1)]
  have kept: "ol_status l = ''active''" "ol_expired l = Some (add_days (s_now sample_svc) 30)" "ol_product l = ''yn1''"
    using run p by (auto simp: offline_expiry_def sample_offline_input_def sample_product_def sample_host_def)
  obtain name content u where d: "download_offline_license sample_host (ol_id l) ''root'' t = (Inr (name, content), u)"
    using sample_downloaded [OF l(3,4,2) kept] l(2) by auto
  have "verify_license_file sample_sdk sample_verifier content machine = Inr c \<longleftrightarrow>
    c = claims_of_payload (issued_payload sample_host sample_product sample_offline_input l) \<and>
    equal_fold_trim sample_sdk (oi_machine sample_offline_input) machine \<and>
    now_of sample_host \<le> ov_clock sample_verifier + ov_skew sample_verifier \<and>
    (oi_permanent sample_offline_input \<or> ov_clock sample_verifier < add_days (now_of sample_host) (oi_days sample_offline_input))"
    for machine c
    by (rule offline_file_accepted [OF l(1) p _ d])
       (simp_all add: l(2,3) row_of_def sample_offline_no_trim sample_host_def sample_sdk_def sample_verifier_def offline_format_def
         issued_payload_def claims_of_payload_def offline_payload_of_def trimmed_offline_input_def sample_product_def
         offline_expiry_def sample_offline_input_def sample_offline_trims sample_svc_def)
  moreover have "equal_fold_trim sample_sdk (oi_machine sample_offline_input) ''m1''"
    "\<not> equal_fold_trim sample_sdk (oi_machine sample_offline_input) ''m2''"
    by code_simp+
  moreover have "now_of sample_host \<le> ov_clock sample_verifier + ov_skew sample_verifier"
    "ov_clock sample_verifier < add_days (now_of sample_host) (oi_days sample_offline_input)"
    by (simp_all add: sample_verifier_def sample_host_def sample_offline_input_def add_days_def hour_def minute_def second_def)
  ultimately show ?thesis using l(1) d by blast
qed

section \<open>Updates\<close>

lemma verified_json:
  assumes "verify_signed_json k parse key token = Inr v"
  shows "\<exists>h g body sig. token = h @ ''.'' @ g \<and> b64_decode False h = Some body \<and> b64_decode False g = Some sig \<and>
    k_rsa k key (s_sha256 (k_core k) body) sig \<and> parse body = Some v"
proof -
  from assms have "length (split_on (CHR ''.'') token) = 2"
    by (auto simp: verify_signed_json_def Let_def split: if_splits)
  then obtain h g where parts: "split_on (CHR ''.'') token = [h, g]"
    by (auto simp: numeral_2_eq_2 length_Suc_conv)
  then have "token = h @ ''.'' @ g" using join_split [of "CHR ''.''" token] by simp
  with assms parts show ?thesis
    by (auto simp: verify_signed_json_def Let_def split: option.splits if_splits)
qed

text \<open>C14. What a successful download of an update has checked: the manifest of the release carries a signature of the
  trusted key, it is for the product, release and version that were asked for, the bytes that are handed over have the
  size and hash in that signed manifest, a target in it fits the client, and after the bytes had come the server granted
  this very release once more.\<close>

theorem downloaded_update_authentic:
  assumes "sdk_download_update k j net c r inp ex s = (Inr data, t)"
  shows "\<exists>key claims h g body sig u. sdk_public_key k (re_pem ex) = Inr key \<and>
    sr_token r = h @ ''.'' @ g \<and> b64_decode False h = Some body \<and> b64_decode False g = Some sig \<and>
    k_rsa k key (s_sha256 (k_core k) body) sig \<and> k_release_parse k body = Some claims \<and>
    lc_type claims = ''product_release'' \<and> lc_product claims = re_product ex \<and> lc_release claims = sr_id r \<and>
    lc_version claims = sr_version r \<and> int (length data) = lc_size claims \<and> sha_hex (k_core k) data = lc_sha claims \<and>
    (\<forall>a. lc_target claims = Some a \<longrightarrow> (\<exists>b. re_target (download_expectation inp ex) = Some b \<and>
       target_fits a b (re_current (download_expectation inp ex)) = Inr ())) \<and>
    sdk_authorize_update k j net c (sr_id r) inp u = (Inr (), t)"
proof -
  let ?ex = "download_expectation inp ex"
  have pem: "re_pem ?ex = re_pem ex" "re_product ?ex = re_product ex" by (simp_all add: download_expectation_def)
  from assms obtain u where manifest: "verify_release_manifest k r ?ex = Inr ()"
    and package: "verify_release_package k r data ?ex = Inr ()"
    and granted: "sdk_authorize_update k j net c (sr_id r) inp u = (Inr (), t)"
    by (auto simp: sdk_download_update_def Let_def run_iffs decode_envelope_def split: option.splits if_splits prod.splits)
  from manifest obtain key claims where key: "sdk_public_key k (re_pem ex) = Inr key"
    and claims: "verify_signed_json k (k_release_parse k) key (sr_token r) = Inr claims"
    by (auto simp: verify_release_manifest_def pem split: sum.splits)
  from verified_json [OF claims] key claims manifest package granted show ?thesis
    by (fastforce simp: verify_release_manifest_def verify_release_package_def pem split: if_splits option.splits)
qed

definition sample_update_claims :: release_claims where
  "sample_update_claims =
     \<lparr>lc_type = ''product_release'', lc_release = ''rel1'', lc_product = ''yn1'', lc_version = ''1.0.0'', lc_size = 3,
      lc_sha = ''706b67'', lc_key_version = 1, lc_target = None\<rparr>"

definition sample_update :: sdk_release where
  "sample_update =
     \<lparr>sr_id = ''rel1'', sr_product = ''yn1'', sr_version = ''1.0.0'', sr_notes = [], sr_filename = ''a.zip'', sr_size = 3,
      sr_sha = ''706b67'', sr_key_version = 1, sr_token = ''YQ.YQ'', sr_target = None\<rparr>"

definition sample_update_sdk :: sdk where
  "sample_update_sdk = sample_sdk\<lparr>k_release_parse := (\<lambda>_. Some sample_update_claims),
     k_core := sample_svc\<lparr>s_parse_url := (\<lambda>_. Some \<lparr>url_scheme = ''http'', url_host = ''h'', url_hostname = ''h'', url_has_user = False\<rparr>)\<rparr>\<rparr>"

definition sample_codec :: codec where
  "sample_codec =
     \<lparr>j_body = (\<lambda>_. Some []), j_envelope = (\<lambda>_. Some \<lparr>ev_success = True, ev_request = [], ev_data = ''x'', ev_error = None\<rparr>),
      j_license = (\<lambda>_. None), j_heartbeat = (\<lambda>_. None), j_unbind = (\<lambda>_. None), j_ring = (\<lambda>_. None), j_update = (\<lambda>_. None),
      j_authorized = (\<lambda>_. Some (True, ''rel1'')), j_lease = (\<lambda>_. None), j_ticket = (\<lambda>_. None), j_requirements = (\<lambda>_. None),
      j_query = (\<lambda>t. t), j_path = (\<lambda>t. t)\<rparr>"

definition sample_network :: "nat network" where
  "sample_network n q = (Some (200, ''pkg''), Suc n)"

definition sample_sdk_client :: client where
  "sample_sdk_client = \<lparr>ct_base = ''http://h'', ct_key = ''yn1'', ct_agent = ''a''\<rparr>"

definition sample_machine :: "nat machine" where
  "sample_machine = \<lparr>hm_files = (\<lambda>_. None), hm_net = 0, hm_draws = 0\<rparr>"

definition sample_sdk_request :: sdk_verify where
  "sample_sdk_request =
     \<lparr>sv_instance = \<lparr>si_session = [], si_instance = [], si_secret = [], si_device = [], si_seat = [], si_bindings = [],
        si_target = None, si_current = []\<rparr>, sv_license = ''LIC-1'', sv_mode = ''device'', sv_value = ''pc'', sv_token = []\<rparr>"

definition sample_wish :: release_expectation where
  "sample_wish = \<lparr>re_pem = ''key'', re_product = ''yn1'', re_target = None, re_current = []\<rparr>"

lemma sample_update_signed:
  "verify_signed_json sample_update_sdk (k_release_parse sample_update_sdk) ''key'' ''YQ.YQ'' = Inr sample_update_claims"
  by code_simp

lemma sample_update_hash: "sha_hex (k_core sample_update_sdk) ''pkg'' = ''706b67''"
  by code_simp

lemma sample_manifest: "verify_release_manifest sample_update_sdk sample_update (download_expectation sample_sdk_request sample_wish) = Inr ()"
  using sample_update_signed
  by (simp add: verify_release_manifest_def sdk_public_key_def download_expectation_def sample_wish_def sample_update_def)
     (simp add: sample_update_sdk_def sample_sdk_def sample_update_claims_def)

lemma sample_package: "verify_release_package sample_update_sdk sample_update ''pkg'' (download_expectation sample_sdk_request sample_wish) = Inr ()"
  using sample_update_hash by (simp add: verify_release_package_def sample_manifest) (simp add: sample_update_def)

lemma sample_exchange:
  "send_request sample_update_sdk sample_network q m = (Inr (200, ''pkg''), m\<lparr>hm_net := Suc (hm_net m)\<rparr>)"
  by (simp add: send_request_def sample_update_sdk_def sample_network_def)

lemma sample_codec_fields: "j_body sample_codec body = Some []" "j_path sample_codec x = x"
  by (simp_all add: sample_codec_def)

lemma sample_granted:
  "sdk_authorize_update sample_update_sdk sample_codec sample_network c ''rel1'' sample_sdk_request m = (Inr (), m\<lparr>hm_net := Suc (hm_net m)\<rparr>)"
  by (simp add: sdk_authorize_update_def client_post_def andThen_def sample_exchange read_answer_def Let_def max_response_def
    decode_envelope_def pureA_def ret_def sample_codec_def)

lemma downloaded_update_authentic_witness:
  "\<exists>t u. sdk_download_update sample_update_sdk sample_codec sample_network sample_sdk_client sample_update sample_sdk_request sample_wish
      sample_machine = (Inr ''pkg'', t) \<and> hm_net t = 2 \<and>
     sdk_authorize_update sample_update_sdk sample_codec sample_network sample_sdk_client ''rel1'' sample_sdk_request u = (Inr (), t)"
proof -
  have run: "sdk_download_update sample_update_sdk sample_codec sample_network sample_sdk_client sample_update sample_sdk_request
    sample_wish sample_machine = (Inr ''pkg'', sample_machine\<lparr>hm_net := 2\<rparr>)"
    by (simp add: sdk_download_update_def Let_def andThen_def pureA_def sample_manifest sample_codec_fields)
       (simp add: sample_exchange sample_update_def numeral_3_eq_3 sample_package [unfolded sample_update_def]
         sample_granted andThen_def pureA_def ret_def sample_machine_def)
  from downloaded_update_authentic [OF run] run show ?thesis
    by (auto simp: sample_update_def sample_machine_def)
qed
end
