(* ===== verification/ProductClient.thy ===== *)
theory ProductClient
  imports SdkClient
begin

text \<open>
  The standard product client (\<open>src/examples/universal-client/main.go\<close>): a program that keeps its identity, its
  license and the last seen time in a private directory and does one command per run, with or without the
  server, or serves pages that are shown only under a license.

  \<^item> \<open>running\<close> is the state of a run: what the program holds in memory and the machine around it. The
    private directory is the one of the machine; \<open>data_dir\<close> says which one it is.
  \<^item> \<open>program\<close> holds the JSON codecs of the program's own files, the environment, the files elsewhere whose paths
    are arguments, and the flags that are fixed when the program is built.
\<close>

record client_config =
  cg_base :: string
  cg_key :: string
  cg_product_id :: string
  cg_product :: string
  cg_mode :: string
  cg_value :: string
  cg_keys :: "(int \<times> string) list"
  cg_current :: string
  cg_target :: "release_target option"
  cg_device :: string

record client_state =
  cs_attach :: bool
  cs_license :: sdk_license
  cs_mode :: string
  cs_registration :: string
  cs_seat :: "sdk_lease option"

definition no_client_state :: client_state where
  "no_client_state =
     \<lparr>cs_attach = False, cs_license = no_license_answer, cs_mode = [], cs_registration = [], cs_seat = None\<rparr>"

record client_app =
  pa_config :: client_config
  pa_client :: client
  pa_identity :: sdk_instance
  pa_state :: client_state
  pa_host :: string
  pa_ip :: string
  pa_session :: string

record 'n running =
  rn_app :: client_app
  rn_machine :: "'n machine"

type_synonym ('n, 'a) run_act = "('n running, sdk_err, 'a) act"

record program =
  pg_sdk :: sdk
  pg_codec :: codec
  pg_url :: "string \<Rightarrow> full_url option"
  pg_config_parse :: "string \<Rightarrow> client_config option"
  pg_state_json :: "client_state \<Rightarrow> string"
  pg_state_parse :: "string \<Rightarrow> client_state option"
  pg_clock_json :: "int \<Rightarrow> string"
  pg_clock_parse :: "string \<Rightarrow> int option"
  pg_release_parse :: "string \<Rightarrow> sdk_release option"
  pg_scan :: "string \<Rightarrow> int option"
  pg_read :: "string \<Rightarrow> string option"
  pg_env :: "string \<Rightarrow> string option"
  pg_bundled :: string
  pg_failing :: bool

definition failed :: "string \<Rightarrow> sdk_err" where "failed code = APIError code 403 []"

definition on_machine :: "('n, 'a) machine_act \<Rightarrow> ('n, 'a) run_act" where
  "on_machine m = (\<lambda>s. case m (rn_machine s) of (r, t) \<Rightarrow> (r, s\<lparr>rn_machine := t\<rparr>))"

definition the_app :: "('n, client_app) run_act" where "the_app = reads rn_app"

definition set_state :: "(client_state \<Rightarrow> client_state) \<Rightarrow> ('n, unit) run_act" where
  "set_state f = writes (\<lambda>s. s\<lparr>rn_app := (rn_app s)\<lparr>pa_state := f (pa_state (rn_app s))\<rparr>\<rparr>)"

definition write_file :: "string \<Rightarrow> string \<Rightarrow> ('n, unit) run_act" where
  "write_file name text = on_machine (writes (\<lambda>s. s\<lparr>hm_files := (hm_files s)(name \<mapsto> text)\<rparr>))"

definition file_of :: "string \<Rightarrow> ('n, string option) run_act" where
  "file_of name = on_machine (reads (\<lambda>s. hm_files s name))"

definition read_file :: "string \<Rightarrow> ('n, string) run_act" where
  "read_file name = andThen (file_of name) (\<lambda>f. case f of None \<Rightarrow> raise (SdkError ''not exist'') | Some v \<Rightarrow> ret v)"

definition read_path :: "program \<Rightarrow> string \<Rightarrow> ('n, string) run_act" where
  "read_path p path = (case pg_read p path of None \<Rightarrow> raise (SdkError ''not exist'') | Some v \<Rightarrow> ret v)"

definition save_state :: "program \<Rightarrow> ('n, unit) run_act" where
  "save_state p = andThen the_app (\<lambda>a. write_file ''license.json'' (pg_state_json p (pa_state a)))"

text \<open>\<open>a.input(r)\<close>: the request of the license that the program holds.\<close>

definition app_instance :: "client_app \<Rightarrow> sdk_instance" where
  "app_instance a =
     (let none = \<lparr>si_session = [], si_instance = [], si_secret = [], si_device = [], si_seat = [], si_bindings = [],
                  si_target = None, si_current = []\<rparr>;
          base = (if cs_attach (pa_state a) then none else pa_identity a)\<lparr>si_session := pa_session a,
                  si_target := cg_target (pa_config a), si_current := cg_current (pa_config a)\<rparr> in
      case cs_seat (pa_state a) of None \<Rightarrow> base | Some seat \<Rightarrow> base\<lparr>si_seat := se_id seat\<rparr>)"

definition app_input :: "program \<Rightarrow> client_app \<Rightarrow> http_request option \<Rightarrow> sdk_err + sdk_verify" where
  "app_input p a r =
     (if sl_no (cs_license (pa_state a)) = [] then Inl (failed ''LICENSE_REQUIRED'')
      else
        let instance = app_instance a;
            mode = cs_mode (pa_state a);
            v0 = (if mode = ''instance'' then si_instance instance else cs_registration (pa_state a));
            v1 = (if r = None \<and> pa_host a \<noteq> [] \<and> (mode = ''domain'' \<or> mode = ''domain_wildcard'') then pa_host a else v0);
            value = (if r = None \<and> pa_ip a \<noteq> [] \<and> mode = ''ip_cidr'' then pa_ip a else v1);
            inp = \<lparr>sv_instance = instance, sv_license = sl_no (cs_license (pa_state a)), sv_mode = mode, sv_value = value,
                   sv_token = []\<rparr> in
        case r of
          Some q \<Rightarrow> binding_for_http_request (pg_sdk p) (pg_url p) inp (Some q) []
        | None \<Rightarrow>
            if pa_host a \<noteq> [] \<and> mode = ''composite''
            then binding_for_http_request (pg_sdk p) (pg_url p) inp
              (Some \<lparr>hq_host = pa_host a, hq_remote = [], hq_forwarded = []\<rparr>) []
            else Inr inp)"

definition current_input :: "program \<Rightarrow> http_request option \<Rightarrow> ('n, sdk_verify) run_act" where
  "current_input p r = andThen the_app (\<lambda>a. pureA (app_input p a r))"

fun api_code :: "sdk_err \<Rightarrow> string option" where
  "api_code (APIError code _ _) = Some code"
| "api_code _ = None"

text \<open>\<open>a.verify(ctx, r)\<close>: a seat is asked for when one is needed, and the answer is kept.\<close>

definition app_verify :: "program \<Rightarrow> 'n network \<Rightarrow> http_request option \<Rightarrow> ('n, sdk_license) run_act" where
  "app_verify p net r =
     andThen the_app (\<lambda>a.
     andThen (pureA (app_input p a r)) (\<lambda>inp.
     andThen (attempt (on_machine (sdk_verify_license (pg_sdk p) (pg_codec p) net (pa_client a) inp))) (\<lambda>first.
     andThen
       (case first of
          Inl e \<Rightarrow>
            if api_code e \<noteq> Some ''SEAT_REQUIRED'' then raise e
            else
              andThen (on_machine (sdk_acquire_seat (pg_sdk p) (pg_codec p) net (pa_client a)
                \<lparr>ss_verify = inp, ss_session = pa_session a, ss_days = 0\<rparr>)) (\<lambda>seat.
              andThen (set_state (\<lambda>c. c\<lparr>cs_seat := Some seat\<rparr>)) (\<lambda>_.
              on_machine (sdk_verify_license (pg_sdk p) (pg_codec p) net (pa_client a)
                (inp\<lparr>sv_instance := (sv_instance inp)\<lparr>si_seat := se_id seat\<rparr>\<rparr>))))
        | Inr out \<Rightarrow> ret out) (\<lambda>out.
     if \<not> sl_use out then raise (failed ''USAGE_DENIED'')
     else
       andThen (set_state (\<lambda>c. c\<lparr>cs_license := out\<rparr>)) (\<lambda>_.
       andThen (save_state p) (\<lambda>_.
       ret out))))))"

section \<open>The last seen time\<close>

text \<open>\<open>fileClock\<close>, the \<open>HighWaterStore\<close> of the program.\<close>

definition clock_load :: "program \<Rightarrow> ('n, int) run_act" where
  "clock_load p =
     andThen (file_of ''clock.json'') (\<lambda>f.
     case f of
       None \<Rightarrow> ret zero_instant
     | Some raw \<Rightarrow> (case pg_clock_parse p raw of None \<Rightarrow> raise (SdkError ''json'') | Some t \<Rightarrow> ret t))"

definition clock_save :: "program \<Rightarrow> int \<Rightarrow> ('n, unit) run_act" where
  "clock_save p t = write_file ''clock.json'' (pg_clock_json p t)"

text \<open>What both offline commands do first.\<close>

definition offline_guard :: "program \<Rightarrow> ('n, offline_verifier) run_act" where
  "offline_guard p =
     andThen the_app (\<lambda>a.
     andThen (pureA (new_key_ring_verifier (pg_sdk p) (cg_keys (pa_config a)) (cg_product (pa_config a)) [])) (\<lambda>v.
     andThen (pureA (new_high_water_guard True second)) (\<lambda>allowed.
     andThen (check_and_update (clock_load p) (clock_save p) allowed (s_now (k_core (pg_sdk p)))) (\<lambda>_.
     ret v))))"

section \<open>Pages under a license\<close>

datatype web_page =
    Healthy
  | Unhealthy
  | NoPage
  | Refused int sdk_err
  | Protected bool bool string string string
  | Site string bool

text \<open>The handler of \<open>serve\<close> for a request with a path.\<close>

definition serve_page :: "program \<Rightarrow> 'n network \<Rightarrow> string \<Rightarrow> http_request \<Rightarrow> ('n, web_page) run_act" where
  "serve_page p net path r =
     (if path = ''/healthz'' then ret (if pg_failing p then Unhealthy else Healthy)
      else if path \<noteq> ''/protected'' \<and> path \<noteq> ''/'' then ret NoPage
      else
        andThen (attempt (app_verify p net (Some r))) (\<lambda>v.
        case v of
          Inl e \<Rightarrow> ret (Refused (case e of APIError _ status _ \<Rightarrow> if status < 500 then 403 else 503 | _ \<Rightarrow> 503) e)
        | Inr rights \<Rightarrow>
            andThen the_app (\<lambda>a.
            if path = ''/protected''
            then andThen (file_of ''customer-note.txt'') (\<lambda>note.
              ret (Protected (sl_use rights) (sl_update rights) (cg_current (pa_config a)) (si_instance (pa_identity a))
                (case note of None \<Rightarrow> [] | Some text \<Rightarrow> text)))
            else ret (Site (cg_current (pa_config a)) (sl_update rights)))))"

text \<open>
  \<open>serve\<close>: the requests that come until the program is interrupted, one after the other (a mutex orders them); then
  the seat is released. That the port cannot be opened is not modelled.
\<close>

fun serve_all :: "program \<Rightarrow> 'n network \<Rightarrow> (string \<times> http_request) list \<Rightarrow> ('n, web_page list) run_act" where
  "serve_all p net [] = ret []"
| "serve_all p net ((path, r) # visits) =
     andThen (serve_page p net path r) (\<lambda>page.
     andThen (serve_all p net visits) (\<lambda>pages.
     ret (page # pages)))"

definition leave_seat :: "program \<Rightarrow> 'n network \<Rightarrow> ('n, unit) run_act" where
  "leave_seat p net =
     andThen (attempt (andThen (current_input p None) (\<lambda>inp.
       andThen the_app (\<lambda>a.
       on_machine (sdk_release_seat (pg_sdk p) (pg_codec p) net (pa_client a) inp))))) (\<lambda>_.
     ret ())"

section \<open>Commands\<close>

datatype product_output =
    Summary sdk_license string string
  | Saved
  | Note string
  | MachineCode string
  | VerifiedRelease sdk_release
  | HeartbeatAnswer bool int
  | TicketAnswer string int
  | BorrowAnswer bool int
  | SeatReleased
  | OfflineRights string
  | OfflineLicense string "int option" string
  | UpdateAnswer sdk_update
  | Downloaded string sdk_release
  | UpdateAuthorized
  | Served "web_page list"

definition summary :: "sdk_license \<Rightarrow> ('n, product_output) run_act" where
  "summary l = andThen the_app (\<lambda>a. ret (Summary l (cg_current (pa_config a)) (si_instance (pa_identity a))))"

definition note_command :: "program \<Rightarrow> 'n network \<Rightarrow> bool \<Rightarrow> string \<Rightarrow> ('n, product_output) run_act" where
  "note_command p net writing value =
     andThen (app_verify p net None) (\<lambda>_.
     if writing then andThen (write_file ''customer-note.txt'' value) (\<lambda>_. ret Saved)
     else andThen (read_file ''customer-note.txt'') (\<lambda>text. ret (Note text)))"

text \<open>A missing entry of the map of keys is the empty text.\<close>

definition key_text :: "client_config \<Rightarrow> int \<Rightarrow> string" where
  "key_text c version = (case map_of (cg_keys c) version of None \<Rightarrow> [] | Some pem \<Rightarrow> pem)"

definition release_expected :: "client_config \<Rightarrow> sdk_release \<Rightarrow> release_expectation" where
  "release_expected c r =
     \<lparr>re_pem = key_text c (sr_key_version r), re_product = cg_product_id c, re_target = cg_target c, re_current = cg_current c\<rparr>"

definition verify_package_command :: "program \<Rightarrow> string list \<Rightarrow> ('n, product_output) run_act" where
  "verify_package_command p args =
     (if length args < 3 then raise (SdkError ''release JSON and package path required'')
      else
        andThen (read_path p (args ! 1)) (\<lambda>raw.
        case pg_release_parse p raw of None \<Rightarrow> raise (SdkError ''json'') | Some r \<Rightarrow>
        andThen (read_path p (args ! 2)) (\<lambda>data.
        andThen the_app (\<lambda>a.
        andThen (pureA (verify_release_package (pg_sdk p) r data (release_expected (pa_config a) r))) (\<lambda>_.
        ret (VerifiedRelease r))))))"

definition registration_for :: "program \<Rightarrow> client_app \<Rightarrow> string list \<Rightarrow> string \<Rightarrow> string" where
  "registration_for p a args mode =
     (let r0 = cg_value (pa_config a);
          r1 = (case pg_env p ''LICENSE_BIND_VALUE'' of None \<Rightarrow> r0 | Some v \<Rightarrow> v);
          r2 = (if 2 < length args then args ! 2 else r1);
          r3 = (if mode = ''device'' \<and> r2 = [] then si_device (pa_identity a) else r2);
          r4 = (if mode = ''instance'' then si_instance (pa_identity a) else r3) in
      if mode = ''none'' then ''none'' else r4)"

definition activate_command :: "program \<Rightarrow> 'n network \<Rightarrow> string list \<Rightarrow> string \<Rightarrow> ('n, product_output) run_act" where
  "activate_command p net args value =
     (if value = [] then raise (SdkError ''card required'')
      else
        andThen the_app (\<lambda>a.
        andThen (on_machine (sdk_card_requirements (pg_sdk p) (pg_codec p) net (pa_client a) value)) (\<lambda>req.
        case req of None \<Rightarrow> raise (SdkError ''invalid card requirements'') | Some mode \<Rightarrow>
        andThen (on_machine (sdk_activate_license (pg_sdk p) (pg_codec p) net (pa_client a)
          \<lparr>sa_instance = pa_identity a, sa_card = value, sa_mode = mode, sa_value = registration_for p a args mode,
           sa_device = ''standard-product-client'', sa_version = cg_current (pa_config a)\<rparr>)) (\<lambda>issued.
        if \<not> sl_use issued then raise (failed ''USAGE_DENIED'')
        else
          andThen (set_state (\<lambda>_. no_client_state\<lparr>cs_license := issued, cs_mode := mode, cs_registration := sl_value issued\<rparr>)) (\<lambda>_.
          andThen (save_state p) (\<lambda>_.
          summary issued))))))"

definition attach_command :: "program \<Rightarrow> 'n network \<Rightarrow> string \<Rightarrow> ('n, product_output) run_act" where
  "attach_command p net value =
     (if value = [] then raise (SdkError ''license number required'')
      else
        andThen the_app (\<lambda>a.
        andThen (set_state (\<lambda>_. \<lparr>cs_attach = True, cs_license = no_license_answer\<lparr>sl_no := value\<rparr>,
          cs_mode = cg_mode (pa_config a), cs_registration = cg_value (pa_config a), cs_seat = None\<rparr>)) (\<lambda>_.
        andThen (app_verify p net None) summary)))"

definition verify_command :: "program \<Rightarrow> 'n network \<Rightarrow> ('n, product_output) run_act" where
  "verify_command p net =
     (if pg_failing p then raise (SdkError ''new product health check failed'')
      else andThen (app_verify p net None) summary)"

definition heartbeat_command :: "program \<Rightarrow> 'n network \<Rightarrow> ('n, product_output) run_act" where
  "heartbeat_command p net =
     andThen (app_verify p net None) (\<lambda>_.
     andThen (current_input p None) (\<lambda>inp.
     andThen the_app (\<lambda>a.
     andThen (on_machine (sdk_send_heartbeat (pg_sdk p) (pg_codec p) net (pa_client a)
       \<lparr>sh_instance = sv_instance inp, sh_license = sv_license inp, sh_mode = sv_mode inp, sh_value = sv_value inp\<rparr>)) (\<lambda>(ok, t).
     ret (HeartbeatAnswer ok t)))))"

definition renew_command :: "program \<Rightarrow> 'n network \<Rightarrow> string \<Rightarrow> ('n, product_output) run_act" where
  "renew_command p net value =
     andThen (current_input p None) (\<lambda>inp.
     andThen the_app (\<lambda>a.
     andThen (on_machine (sdk_renew_license (pg_sdk p) (pg_codec p) net (pa_client a)
       \<lparr>sw_instance = sv_instance inp, sw_license = sv_license inp, sw_card = value, sw_mode = sv_mode inp,
        sw_value = sv_value inp\<rparr>)) (\<lambda>out.
     andThen (set_state (\<lambda>c. c\<lparr>cs_license := out\<rparr>)) (\<lambda>_.
     andThen (save_state p) (\<lambda>_.
     summary out)))))"

definition claim_command :: "program \<Rightarrow> 'n network \<Rightarrow> ('n, product_output) run_act" where
  "claim_command p net =
     andThen (current_input p None) (\<lambda>inp.
     andThen the_app (\<lambda>a.
     andThen (on_machine (sdk_claim_ticket (pg_sdk p) (pg_codec p) net (pa_client a) inp)) (\<lambda>(token, t).
     ret (TicketAnswer token t))))"

definition borrow_command :: "program \<Rightarrow> 'n network \<Rightarrow> string \<Rightarrow> ('n, product_output) run_act" where
  "borrow_command p net value =
     (case (if value = [] then Some 1 else pg_scan p value) of
        None \<Rightarrow> raise (SdkError ''scan'')
      | Some days \<Rightarrow>
          andThen (current_input p None) (\<lambda>inp.
          andThen the_app (\<lambda>a.
          andThen (on_machine (sdk_acquire_seat (pg_sdk p) (pg_codec p) net (pa_client a)
            \<lparr>ss_verify = inp, ss_session = pa_session a, ss_days = days\<rparr>)) (\<lambda>seat.
          andThen (set_state (\<lambda>c. c\<lparr>cs_seat := Some seat\<rparr>)) (\<lambda>_.
          andThen (save_state p) (\<lambda>_.
          ret (BorrowAnswer (se_borrowed seat) (se_expires seat))))))))"

definition drop_seat :: "client_state \<Rightarrow> client_state" where
  "drop_seat c = (case cs_seat c of None \<Rightarrow> c | Some seat \<Rightarrow> if se_borrowed seat then c else c\<lparr>cs_seat := None\<rparr>)"

definition release_command :: "program \<Rightarrow> 'n network \<Rightarrow> ('n, product_output) run_act" where
  "release_command p net =
     andThen (current_input p None) (\<lambda>inp.
     andThen the_app (\<lambda>a.
     andThen (on_machine (sdk_release_seat (pg_sdk p) (pg_codec p) net (pa_client a) inp)) (\<lambda>_.
     andThen (set_state drop_seat) (\<lambda>_.
     andThen (save_state p) (\<lambda>_.
     ret SeatReleased)))))"

definition borrowed_seat :: "client_app \<Rightarrow> sdk_lease option" where
  "borrowed_seat a =
     (case cs_seat (pa_state a) of None \<Rightarrow> None | Some seat \<Rightarrow> if se_borrowed seat then Some seat else None)"

definition expected_offline :: "client_app \<Rightarrow> sdk_verify \<Rightarrow> offline_expectation" where
  "expected_offline a inp =
     (let ex = \<lparr>oe_session = [], oe_instance = si_instance (pa_identity a), oe_seat = [], oe_license = sv_license inp,
                oe_mode = sv_mode inp, oe_value = sv_value inp\<rparr> in
      case borrowed_seat a of None \<Rightarrow> ex | Some seat \<Rightarrow> ex\<lparr>oe_seat := se_id seat, oe_session := se_session seat\<rparr>)"

definition verify_offline_command :: "program \<Rightarrow> ('n, product_output) run_act" where
  "verify_offline_command p =
     andThen (current_input p None) (\<lambda>inp.
     andThen (offline_guard p) (\<lambda>v.
     andThen the_app (\<lambda>a.
     let token = (case borrowed_seat a of None \<Rightarrow> sl_offline (cs_license (pa_state a)) | Some seat \<Rightarrow> se_token seat) in
     andThen (pureA (verify_offline_token (pg_sdk p) v token (expected_offline a inp))) (\<lambda>c.
     if \<not> cc_use c then raise (failed ''USAGE_DENIED'') else ret (OfflineRights (cc_rest c))))))"

definition offline_file_command :: "program \<Rightarrow> string \<Rightarrow> string \<Rightarrow> ('n, product_output) run_act" where
  "offline_file_command p command value =
     andThen (if command = ''verify-file'' then read_file ''offline.key'' else read_path p value) (\<lambda>raw.
     andThen (offline_guard p) (\<lambda>v.
     andThen the_app (\<lambda>a.
     andThen (pureA (verify_license_file (pg_sdk p) v raw (si_device (pa_identity a)))) (\<lambda>c.
     andThen (if command = ''import-offline'' then write_file ''offline.key'' raw else ret ()) (\<lambda>_.
     ret (OfflineLicense (fc_license c) (fc_expired c) (cg_current (pa_config a))))))))"

definition use_version :: "string \<Rightarrow> ('n, unit) run_act" where
  "use_version value =
     (if value = [] then ret ()
      else writes (\<lambda>s. s\<lparr>rn_app := (rn_app s)\<lparr>pa_config := (pa_config (rn_app s))\<lparr>cg_current := value\<rparr>\<rparr>\<rparr>))"

definition updates_command :: "program \<Rightarrow> 'n network \<Rightarrow> string \<Rightarrow> string \<Rightarrow> ('n, product_output) run_act" where
  "updates_command p net command value =
     andThen (use_version value) (\<lambda>_.
     andThen (current_input p None) (\<lambda>inp.
     andThen the_app (\<lambda>a.
     andThen (on_machine (sdk_check_update (pg_sdk p) (pg_codec p) net (pa_client a) inp (cg_current (pa_config a)))) (\<lambda>out.
     case (if command = ''download'' \<and> sd_available out then sd_release out else None) of
       None \<Rightarrow> ret (UpdateAnswer out)
     | Some r \<Rightarrow>
         if key_text (pa_config a) (sr_key_version r) = [] then raise (SdkError ''unknown signing key version'')
         else
           andThen (on_machine (sdk_download_update (pg_sdk p) (pg_codec p) net (pa_client a) r inp
             (release_expected (pa_config a) r))) (\<lambda>bytes.
           andThen (write_file ''update.package'' bytes) (\<lambda>_.
           ret (Downloaded (sha_hex (k_core (pg_sdk p)) bytes) r)))))))"

definition authorize_command :: "program \<Rightarrow> 'n network \<Rightarrow> string \<Rightarrow> ('n, product_output) run_act" where
  "authorize_command p net value =
     andThen (current_input p None) (\<lambda>inp.
     andThen the_app (\<lambda>a.
     andThen (on_machine (sdk_authorize_update (pg_sdk p) (pg_codec p) net (pa_client a) value inp)) (\<lambda>_.
     ret UpdateAuthorized)))"

definition serve_command :: "program \<Rightarrow> 'n network \<Rightarrow> (string \<times> http_request) list \<Rightarrow> ('n, product_output) run_act" where
  "serve_command p net visits =
     andThen (serve_all p net visits) (\<lambda>pages.
     andThen (leave_seat p net) (\<lambda>_.
     ret (Served pages)))"

text \<open>\<open>visits\<close> are the requests that reach the program while it serves.\<close>

definition product_command ::
  "program \<Rightarrow> 'n network \<Rightarrow> (string \<times> http_request) list \<Rightarrow> string list \<Rightarrow> string \<Rightarrow> string \<Rightarrow>
   ('n, product_output) run_act" where
  "product_command p net visits args command value =
     (if command = ''note'' \<or> command = ''read-note'' then note_command p net (command = ''note'') value
      else if command = ''machine-code'' then andThen the_app (\<lambda>a. ret (MachineCode (si_device (pa_identity a))))
      else if command = ''verify-package'' then verify_package_command p args
      else if command = ''activate'' then activate_command p net args value
      else if command = ''attach'' then attach_command p net value
      else if command = ''verify'' then verify_command p net
      else if command = ''heartbeat'' then heartbeat_command p net
      else if command = ''renew'' then renew_command p net value
      else if command = ''claim'' then claim_command p net
      else if command = ''borrow'' then borrow_command p net value
      else if command = ''release'' then release_command p net
      else if command = ''verify-offline'' then verify_offline_command p
      else if command = ''offline-file'' \<or> command = ''import-offline'' \<or> command = ''verify-file''
      then offline_file_command p command value
      else if command = ''updates'' \<or> command = ''download'' then updates_command p net command value
      else if command = ''authorize'' then authorize_command p net value
      else if command = ''serve'' then serve_command p net visits
      else raise (SdkError ''unknown command''))"

section \<open>A run of the program\<close>

definition with_config_defaults :: "program \<Rightarrow> client_config \<Rightarrow> client_config" where
  "with_config_defaults p c0 =
     (let c1 = (if pg_bundled p \<noteq> [] then c0\<lparr>cg_current := pg_bundled p\<rparr> else c0);
          c2 = (if cg_current c1 = [] then c1\<lparr>cg_current := ''1.0.0''\<rparr> else c1) in
      if cg_product_id c2 = [] then c2\<lparr>cg_product_id := cg_key c2\<rparr> else c2)"

definition data_dir :: "svc \<Rightarrow> string \<Rightarrow> client_config \<Rightarrow> string" where
  "data_dir sv dir c =
     (if dir = ''.license-data'' then dir @ ''/'' @ hex_encode (take 8 (s_sha256 sv (cg_key c))) else dir)"

text \<open>Everything \<open>run\<close> does before the command: configuration, identity, client, state, session.\<close>

definition drawn_session :: "program \<Rightarrow> ('n, string) machine_act" where
  "drawn_session p =
     (\<lambda>s. (Inr (hex_encode (s_random (k_core (pg_sdk p)) (hm_draws s) 16)), s\<lparr>hm_draws := Suc (hm_draws s)\<rparr>))"

definition load_state :: "program \<Rightarrow> ('n, client_state) machine_act" where
  "load_state p =
     andThen (reads (\<lambda>s. hm_files s ''license.json'')) (\<lambda>f.
     case f of
       None \<Rightarrow> ret no_client_state
     | Some raw \<Rightarrow> (case pg_state_parse p raw of None \<Rightarrow> raise (SdkError ''json'') | Some c \<Rightarrow> ret c))"

definition start_app ::
  "program \<Rightarrow> string \<Rightarrow> string \<Rightarrow> string \<Rightarrow> string \<Rightarrow> string \<Rightarrow> string \<Rightarrow> ('n, client_app) machine_act" where
  "start_app p config_text host ip session command value =
     (case pg_config_parse p config_text of None \<Rightarrow> raise (SdkError ''json'') | Some c0 \<Rightarrow>
      let c = with_config_defaults p c0 in
      andThen (open_installation (pg_sdk p) (cg_device c)) (\<lambda>identity.
      andThen (pureA (new_client (pg_sdk p) (cg_base c) (cg_key c) [])) (\<lambda>cl.
      andThen (load_state p) (\<lambda>st.
      andThen (if session = [] then drawn_session p else ret session) (\<lambda>ses0.
      let ses = (case cs_seat st of None \<Rightarrow> ses0 | Some seat \<Rightarrow> if se_borrowed seat then se_session seat else ses0);
          given = value \<noteq> [] \<and> (command = ''verify'' \<or> command = ''heartbeat'' \<or> command = ''claim'');
          as_ip = given \<and> cs_mode st = ''ip_cidr'';
          as_host = given \<and> cs_mode st \<noteq> ''ip_cidr'' in
      ret \<lparr>pa_config = c, pa_client = cl, pa_identity = identity, pa_state = st,
           pa_host = (if as_host then value else host), pa_ip = (if as_ip then value else ip), pa_session = ses\<rparr>)))))"

text \<open>The deferred call: a seat that was not borrowed is given back, unless the session was given.\<close>

definition give_back :: "program \<Rightarrow> 'n network \<Rightarrow> string \<Rightarrow> string \<Rightarrow> ('n, unit) run_act" where
  "give_back p net session command =
     andThen the_app (\<lambda>a.
     if session \<noteq> [] \<or> command = ''serve'' \<or>
       (case cs_seat (pa_state a) of None \<Rightarrow> True | Some seat \<Rightarrow> se_borrowed seat) then ret ()
     else leave_seat p net)"

definition run_product ::
  "program \<Rightarrow> 'n network \<Rightarrow> (string \<times> http_request) list \<Rightarrow> string \<Rightarrow> string \<Rightarrow> string \<Rightarrow> string \<Rightarrow> string list \<Rightarrow> ('n, product_output) machine_act" where
  "run_product p net visits config_text host ip session args =
     (let command = (case args of [] \<Rightarrow> ''verify'' | c # _ \<Rightarrow> c);
          value = (if 1 < length args then args ! 1 else []) in
      andThen (start_app p config_text host ip session command value) (\<lambda>a.
      (\<lambda>m. case andThen (attempt (product_command p net visits args command value)) (\<lambda>r.
                andThen (give_back p net session command) (\<lambda>_. pureA r)) \<lparr>rn_app = a, rn_machine = m\<rparr> of
             (r, s) \<Rightarrow> (r, rn_machine s))))"

end
