(* ===== verification/Packages.thy ===== *)
theory Packages
  imports OfflineFiles Sdk Updates
begin

text \<open>
  Releases of the first generation (\<open>service/releases.go\<close>, \<open>release_targets.go\<close>, \<open>release_delete.go\<close>, \<open>resources.go\<close>,
  \<open>store/releases.go\<close>, \<open>release_capacity.go\<close>): packages that are uploaded, published, offered to installations with a
  license, downloaded and deleted.

  A package is a file of the release directory under the identifier of its release; its bytes are what the reader
  yields. A transaction that fails leaves the files as they are, as in the code. The upload file, the lock file, and
  failures of the file system other than a missing file are not modelled. The fields \<open>Target\<close> and \<open>CurrentVersion\<close> of a
  \<open>ClientInstance\<close>, which nothing else reads, are arguments here.
\<close>

definition ErrUpdatesDisabled :: app_err where "ErrUpdatesDisabled = denied ''UPDATES_DISABLED''"
definition ErrReleaseNotFound :: app_err where "ErrReleaseNotFound = missing ''RELEASE_NOT_FOUND''"
definition ErrReleaseExists :: app_err where "ErrReleaseExists = bad_request ''RELEASE_EXISTS''"
definition ErrReleaseTooLarge :: app_err where "ErrReleaseTooLarge = AppError ''RELEASE_TOO_LARGE'' 413"
definition ErrReleaseIntegrity :: app_err where "ErrReleaseIntegrity = bad_request ''RELEASE_INTEGRITY_FAILED''"

section \<open>Limits\<close>

definition default_resource_limits :: resource_limits where
  "default_resource_limits =
     \<lparr>li_total = 16 * 2 ^ 30, li_developer = 8 * 2 ^ 30, li_product = 2 * 2 ^ 30, li_versions = 100, li_downloads = 8,
      li_uploads = 2, li_min_free = 256 * 2 ^ 20\<rparr>"

text \<open>\<open>strconv.ParseUint(raw, 10, 64)\<close>.\<close>

definition parse_uint :: "string \<Rightarrow> int option" where
  "parse_uint s =
     (if s = [] \<or> \<not> list_all is_digit s then None
      else if 2 ^ 64 \<le> digits_value s then None else Some (digits_value s))"

text \<open>A value of the environment within its bounds; an empty one leaves the default.\<close>

definition bounded_number :: "int \<Rightarrow> int \<Rightarrow> string \<Rightarrow> int option" where
  "bounded_number preset limit raw =
     (if raw = [] then Some preset
      else case go_atoi raw of (n, ok) \<Rightarrow> if \<not> ok \<or> n < 1 \<or> limit < n then None else Some n)"

definition limits_from_environment :: "(string \<Rightarrow> string) \<Rightarrow> resource_limits option" where
  "limits_from_environment env =
     (let d = default_resource_limits in
      case (bounded_number (li_total d) (2 ^ 50) (env ''YN_RELEASE_TOTAL_BYTES''),
            bounded_number (li_developer d) (2 ^ 50) (env ''YN_RELEASE_DEVELOPER_BYTES''),
            bounded_number (li_product d) (2 ^ 50) (env ''YN_RELEASE_PRODUCT_BYTES''),
            bounded_number (li_versions d) 100000 (env ''YN_RELEASE_PRODUCT_VERSIONS''),
            bounded_number (li_uploads d) 16 (env ''YN_RELEASE_CONCURRENT_UPLOADS''),
            bounded_number (li_downloads d) 64 (env ''YN_RELEASE_CONCURRENT_DOWNLOADS''),
            (if env ''YN_RELEASE_MIN_FREE_BYTES'' = [] then Some (li_min_free d)
             else parse_uint (env ''YN_RELEASE_MIN_FREE_BYTES''))) of
        (Some all_bytes, Some developer, Some product, Some versions, Some uploads, Some downloads, Some free) \<Rightarrow>
          Some \<lparr>li_total = all_bytes, li_developer = developer, li_product = product, li_versions = versions,
                li_downloads = downloads, li_uploads = uploads, li_min_free = free\<rparr>
      | _ \<Rightarrow> None)"

definition with_resource_limits :: "resource_limits \<Rightarrow> host \<Rightarrow> host" where
  "with_resource_limits l hs =
     hs\<lparr>ho_limits := (if li_downloads l < 1 then l\<lparr>li_downloads := li_downloads default_resource_limits\<rparr> else l)\<rparr>"

definition u64 :: "int \<Rightarrow> int" where "u64 n = n mod 2 ^ 64"

definition check_release_disk :: "host \<Rightarrow> int \<Rightarrow> app_err + unit" where
  "check_release_disk hs reserved =
     (if \<not> s_release_dir (ho_core hs) then Inl ErrInvalidRequest
      else if list_ex (\<lambda>free. free < u64 (li_min_free (ho_limits hs) + reserved)) (ho_free hs)
      then Inl (AppError ''STORAGE_SPACE_LOW'' 507) else Inr ())"

text \<open>A place among the uploads, while there is one and space for all of them; the function that gives it back.\<close>

definition end_release_upload :: "unit site_act" where
  "end_release_upload = writes (\<lambda>s. s\<lparr>st_uploads := st_uploads s - 1\<rparr>)"

definition begin_release_upload :: "host \<Rightarrow> unit site_act" where
  "begin_release_upload hs =
     andThen (reads st_uploads) (\<lambda>n.
     if li_uploads (ho_limits hs) \<le> int n then raise (AppError ''UPLOAD_BUSY'' 429)
     else
       andThen (writes (\<lambda>s. s\<lparr>st_uploads := Suc n\<rparr>)) (\<lambda>_.
       case check_release_disk hs (u64 (2 * int max_package * int (Suc n))) of
         Inl e \<Rightarrow> andThen end_release_upload (\<lambda>_. raise e)
       | Inr _ \<Rightarrow> ret ()))"

definition end_release_download :: "unit site_act" where
  "end_release_download = writes (\<lambda>s. s\<lparr>st_downloads := st_downloads s - 1\<rparr>)"

definition begin_release_download :: "host \<Rightarrow> unit site_act" where
  "begin_release_download hs =
     andThen (reads st_downloads) (\<lambda>n.
     if li_downloads (ho_limits hs) \<le> int n then raise (AppError ''DOWNLOAD_BUSY'' 429)
     else writes (\<lambda>s. s\<lparr>st_downloads := Suc n\<rparr>))"

section \<open>Files\<close>

definition file_named :: "string \<Rightarrow> release_file option site_act" where
  "file_named name = reads (\<lambda>s. map_of (st_files s) name)"

definition put_release_file :: "string \<Rightarrow> release_file \<Rightarrow> unit site_act" where
  "put_release_file name f = writes (\<lambda>s. s\<lparr>st_files := (name, f) # filter (\<lambda>e. fst e \<noteq> name) (st_files s)\<rparr>)"

definition remove_release_file :: "string \<Rightarrow> unit site_act" where
  "remove_release_file name = writes (\<lambda>s. s\<lparr>st_files := filter (\<lambda>e. fst e \<noteq> name) (st_files s)\<rparr>)"

text \<open>\<open>os.Rename\<close>: whether there was a file to rename.\<close>

definition rename_release_file :: "string \<Rightarrow> string \<Rightarrow> bool site_act" where
  "rename_release_file from to =
     andThen (file_named from) (\<lambda>f.
     case f of
       None \<Rightarrow> ret False
     | Some v \<Rightarrow> andThen (remove_release_file from) (\<lambda>_. andThen (put_release_file to v) (\<lambda>_. ret True)))"

section \<open>Versions and targets\<close>

text \<open>\<open>newerVersion\<close> on texts that match \<open>versionPattern\<close>, as every caller has checked.\<close>

definition newer_version :: "string \<Rightarrow> string \<Rightarrow> bool" where
  "newer_version a b \<longleftrightarrow> 0 < compare_version a b"

text \<open>\<open>imageName\<close>.\<close>

definition release_image_ok :: "string \<Rightarrow> bool" where
  "release_image_ok s \<longleftrightarrow>
     (case split_on (CHR '':'') s of
        [name, tag] \<Rightarrow>
          (case name of [] \<Rightarrow> False | c # cs \<Rightarrow>
             lower_alnum c \<and> length cs \<le> 120 \<and> list_all (\<lambda>c. lower_alnum c \<or> c \<in> set ''./_-'') cs) \<and>
          image_version_ok tag
      | _ \<Rightarrow> False)"

definition normalize_release_target :: "release_target option \<Rightarrow> app_err + release_target option" where
  "normalize_release_target given =
     (case given of
        None \<Rightarrow> Inr None
      | Some t0 \<Rightarrow>
          let t = default_target t0 in
          if \<not> target_ok (tg_os t) \<or> \<not> target_ok (tg_arch t) \<or> \<not> target_ok (tg_runtime t) \<or> \<not> target_ok (tg_channel t)
          then Inl ErrInvalidRequest
          else if tg_kind t \<notin> set [''archive'', ''installer'', ''container_archive''] then Inl ErrInvalidRequest
          else if tg_min t \<noteq> [] \<and> \<not> version_ok (tg_min t) \<or> tg_max t \<noteq> [] \<and> \<not> version_ok (tg_max t) \<or>
            tg_min t \<noteq> [] \<and> tg_max t \<noteq> [] \<and> newer_version (tg_min t) (tg_max t)
          then Inl ErrInvalidRequest
          else if tg_kind t = ''container_archive'' \<and> (\<not> release_image_ok (tg_image_tag t) \<or> \<not> image_digest_ok (tg_image_digest t))
          then Inl (bad_request ''IMAGE_IDENTITY_REQUIRED'')
          else if tg_kind t \<noteq> ''container_archive'' \<and> (tg_image_tag t \<noteq> [] \<or> tg_image_digest t \<noteq> [])
          then Inl ErrInvalidRequest
          else Inr (Some t))"

definition parse_release_target ::
  "(string \<Rightarrow> release_target option) \<Rightarrow> string \<Rightarrow> app_err + release_target option" where
  "parse_release_target parse raw =
     (if raw = [] then Inr None
      else case parse raw of None \<Rightarrow> Inl ErrInvalidRequest | Some t \<Rightarrow> normalize_release_target (Some t))"

fun same_release_target :: "release_target option \<Rightarrow> release_target option \<Rightarrow> bool" where
  "same_release_target (Some a) (Some b) \<longleftrightarrow>
     tg_os a = tg_os b \<and> tg_arch a = tg_arch b \<and> tg_runtime a = tg_runtime b \<and> tg_channel a = tg_channel b \<and>
     tg_kind a = tg_kind b"
| "same_release_target a b \<longleftrightarrow> a = None \<and> b = None"

definition build_matches :: "g_release \<Rightarrow> release_target option \<Rightarrow> string \<Rightarrow> bool" where
  "build_matches r given current \<longleftrightarrow>
     (case gr_target r of
        None \<Rightarrow> True
      | Some a \<Rightarrow>
          (case given of
             None \<Rightarrow> False
           | Some b \<Rightarrow>
               list_all (\<lambda>(x, y). x = ''any'' \<or> x = y) [(tg_os a, tg_os b), (tg_arch a, tg_arch b), (tg_runtime a, tg_runtime b)] \<and>
               (if tg_channel b = [] then ''stable'' else tg_channel b) = tg_channel a \<and>
               (tg_kind b = [] \<or> tg_kind b = tg_kind a) \<and>
               (if tg_min a \<noteq> [] \<or> tg_max a \<noteq> [] then
                  version_ok current \<and> \<not> (tg_min a \<noteq> [] \<and> newer_version (tg_min a) current \<or>
                    tg_max a \<noteq> [] \<and> newer_version current (tg_max a))
                else True)))"

text \<open>\<open>domain.ReleaseStorageVersion\<close>.\<close>

definition release_storage_version :: "svc \<Rightarrow> string \<Rightarrow> release_target option \<Rightarrow> string" where
  "release_storage_version sv version target =
     (case target of
        None \<Rightarrow> version
      | Some t \<Rightarrow>
          ''@'' @ hex_encode (take 15 (s_sha256 sv
            (join_with nul [version, tg_os t, tg_arch t, tg_runtime t, tg_channel t, tg_kind t]))))"

section \<open>Statements\<close>

definition updates_enabled :: "string \<Rightarrow> bool site_act" where
  "updates_enabled i = look_goods (\<lambda>g. case map_of (x_updates g) i of None \<Rightarrow> False | Some b \<Rightarrow> b)"

definition save_updates :: "string \<Rightarrow> bool \<Rightarrow> unit site_act" where
  "save_updates i b = change (\<lambda>g. g\<lparr>x_updates := replace_row fst (i, b) (x_updates g)\<rparr>)"

definition kept_releases :: "goods \<Rightarrow> g_release list" where
  "kept_releases g = filter (\<lambda>r. gr_status r \<noteq> ''deleted'') (map rr_release (x_releases g))"

definition release_rows :: "string \<Rightarrow> g_release list site_act" where
  "release_rows i =
     look_goods (\<lambda>g. rev (sort_key (\<lambda>r. (text_key (gr_created r), gr_id r)) (filter (\<lambda>r. gr_product r = i) (kept_releases g))))"

definition release_by_id :: "string \<Rightarrow> g_release site_act" where
  "release_by_id i = fetch_goods (\<lambda>g. row_of gr_id i (map rr_release (x_releases g)))"

definition set_release_row_status :: "string \<Rightarrow> string \<Rightarrow> unit site_act" where
  "set_release_row_status i status =
     change (\<lambda>g. g\<lparr>x_releases := map (\<lambda>w. if gr_id (rr_release w) = i
       then w\<lparr>rr_release := (rr_release w)\<lparr>gr_status := status\<rparr>\<rparr> else w) (x_releases g)\<rparr>)"

definition sum_sizes :: "g_release list \<Rightarrow> int" where
  "sum_sizes rs = sum_list (map gr_size rs)"

text \<open>\<open>ReleaseStorageUsage\<close> and \<open>ReleaseCapacity\<close>: bytes of all, of the developer's and of the product's releases, and the
  number of the latter.\<close>

definition release_storage_usage :: "(int \<times> int) site_act" where
  "release_storage_usage = look_goods (\<lambda>g. (sum_sizes (kept_releases g), int (length (kept_releases g))))"

definition product_capacity :: "g_product \<Rightarrow> (int \<times> int \<times> int \<times> int) site_act" where
  "product_capacity p =
     look_goods (\<lambda>g.
       let mine = filter (\<lambda>r. gr_product r = gp_id p) (kept_releases g);
           owned = filter (\<lambda>r. map_of (x_developers g) (gr_product r) = Some (gp_developer p)) (kept_releases g) in
       (sum_sizes (kept_releases g), (if gp_developer p = [] then 0 else sum_sizes owned), sum_sizes mine, int (length mine)))"

definition stored_version_exists :: "string \<Rightarrow> string \<Rightarrow> bool site_act" where
  "stored_version_exists i version =
     look_goods (\<lambda>g. list_ex (\<lambda>w. gr_product (rr_release w) = i \<and> rr_stored_version w = version) (x_releases g))"

definition insert_release :: "svc \<Rightarrow> g_release \<Rightarrow> unit site_act" where
  "insert_release sv r =
     (let w = \<lparr>rr_release = r, rr_stored_version = release_storage_version sv (gr_version r) (gr_target r)\<rparr> in
      put_goods (\<lambda>g. new_keys [\<lambda>v. gr_id (rr_release v)] (x_releases g) w \<and>
          new_keys [\<lambda>v. (gr_product (rr_release v), rr_stored_version v)] (x_releases g) w)
        (\<lambda>g. g\<lparr>x_releases := x_releases g @ [w]\<rparr>))"

section \<open>Administration\<close>

definition product_updates :: "string \<Rightarrow> bool site_act" where
  "product_updates i = andThen (orMissing (product_by_id i) ErrProductNotFound) (\<lambda>_. updates_enabled i)"

definition set_product_updates :: "host \<Rightarrow> string \<Rightarrow> bool \<Rightarrow> string \<Rightarrow> bool site_act" where
  "set_product_updates hs i enabled who =
     andThen (product_updates i) (\<lambda>_.
     andThen (save_updates i enabled) (\<lambda>_.
     andThen (quiet (audit hs ''admin'' who i [] [] ''product.updates.configure'' ''success'' [])) (\<lambda>_.
     ret enabled)))"

definition product_releases :: "string \<Rightarrow> g_release list site_act" where
  "product_releases i = andThen (product_updates i) (\<lambda>_. release_rows i)"

record release_input =
  rx_target :: "release_target option"
  rx_product :: string
  rx_version :: string
  rx_notes :: string
  rx_filename :: string

definition signed_manifest :: "g_release \<Rightarrow> (string \<times> claim) list" where
  "signed_manifest r =
     [(''type'', CText ''product_release''), (''release_id'', CText (gr_id r)), (''product_id'', CText (gr_product r)),
      (''version'', CText (gr_version r)), (''sha256'', CText (gr_sha r)), (''size'', CInt (gr_size r)),
      (''key_version'', CInt (gr_key_version r)), (''target'', CTarget (gr_target r))]"

definition quota_left :: "resource_limits \<Rightarrow> g_product \<Rightarrow> int \<times> int \<times> int \<times> int \<Rightarrow> int \<Rightarrow> bool" where
  "quota_left li p cap sz \<longleftrightarrow>
     (case cap of (all_bytes, developer, used, count) \<Rightarrow>
        \<not> (li_total li - all_bytes < sz \<or> li_product li - used < sz \<or> li_versions li \<le> count \<or>
           gp_developer p \<noteq> [] \<and> li_developer li - developer < sz))"

definition upload_release_tx :: "host \<Rightarrow> g_release \<Rightarrow> string \<Rightarrow> string \<Rightarrow> unit site_act" where
  "upload_release_tx hs r data who =
     andThen (product_by_id (gr_product r)) (\<lambda>p.
     andThen (product_capacity p) (\<lambda>cap.
     if \<not> quota_left (ho_limits hs) p cap (gr_size r) then raise (AppError ''STORAGE_QUOTA_EXCEEDED'' 409)
     else
       andThen (stored_version_exists (gr_product r) (release_storage_version (ho_core hs) (gr_version r) (gr_target r))) (\<lambda>taken.
       if taken then raise ErrReleaseExists
       else
         andThen (put_release_file (gr_id r) \<lparr>rf_data = data, rf_time = now_of hs\<rparr>) (\<lambda>_.
         andThen (insert_release (ho_core hs) r) (\<lambda>_.
         transaction_audit hs ''admin'' who (gr_product r) [] ''product.release.upload''
           (ClaimsExtra [(''release_id'', CText (gr_id r)), (''size'', CInt (gr_size r)), (''sha256'', CText (gr_sha r))]))))))"

definition upload_product_release :: "host \<Rightarrow> release_input \<Rightarrow> string \<Rightarrow> string \<Rightarrow> g_release site_act" where
  "upload_product_release hs inp content who =
     andThen (pureA (normalize_release_target (rx_target inp))) (\<lambda>target.
     let filename = base_name (rx_filename inp) in
     if \<not> version_ok (rx_version inp) \<or> 16000 < length (rx_notes inp) \<or> \<not> s_release_dir (ho_core hs) \<or>
       \<not> package_name_ok (ho_core hs) filename
     then raise ErrInvalidRequest
     else
       andThen (orMissing (product_by_id (rx_product inp)) ErrProductNotFound) (\<lambda>p.
       andThen (release_rows (gp_id p)) (\<lambda>existing.
       if list_ex (\<lambda>r. gr_version r = rx_version inp \<and> same_release_target (gr_target r) target) existing
       then raise ErrReleaseExists
       else
         andThen (pureA (check_release_disk hs (int max_package))) (\<lambda>_.
         let data = take (Suc max_package) content in
         if max_package < length data then raise ErrReleaseTooLarge
         else if data = [] then raise ErrInvalidRequest
         else
           andThen (fresh_id hs ''rel'') (\<lambda>i.
           andThen (pureA (opened hs (gp_private p))) (\<lambda>pem.
           let r = \<lparr>gr_target = target, gr_id = i, gr_product = gp_id p, gr_version = rx_version inp, gr_notes = rx_notes inp,
                    gr_status = ''draft'', gr_filename = filename, gr_size = int (length data),
                    gr_sha = sha_hex (ho_core hs) data, gr_key_version = gp_key_version p, gr_token = [],
                    gr_created = now_of hs\<rparr> in
           andThen (pureA (sign_json hs pem (signed_manifest r))) (\<lambda>token.
           let signed = r\<lparr>gr_token := token\<rparr> in
           andThen (attempt (with_tx (upload_release_tx hs signed data who))) (\<lambda>outcome.
           case outcome of
             Inr _ \<Rightarrow> ret signed
           | Inl e \<Rightarrow>
               andThen (attempt (release_by_id i)) (\<lambda>there.
               andThen (case there of Inl x \<Rightarrow> if is_not_found x then remove_release_file i else ret () | Inr _ \<Rightarrow> ret ()) (\<lambda>_.
               raise e))))))))))"

definition open_release :: "host \<Rightarrow> g_release \<Rightarrow> string site_act" where
  "open_release hs r =
     (if \<not> s_release_dir (ho_core hs) then raise ErrReleaseIntegrity
      else
        andThen (file_named (gr_id r)) (\<lambda>f.
        case f of None \<Rightarrow> raise ErrReleaseIntegrity | Some v \<Rightarrow>
        let data = take (nat (gr_size r + 1)) (rf_data v) in
        if int (length data) \<noteq> gr_size r \<or> sha_hex (ho_core hs) data \<noteq> gr_sha r then raise ErrReleaseIntegrity
        else ret (rf_data v)))"

definition release_status_tx :: "host \<Rightarrow> string \<Rightarrow> string \<Rightarrow> string \<Rightarrow> string \<Rightarrow> g_release site_act" where
  "release_status_tx hs product i status who =
     andThen (orMissing (release_by_id i) ErrReleaseNotFound) (\<lambda>r.
     if gr_status r = ''deleted'' \<or> gr_product r \<noteq> product then raise ErrReleaseNotFound
     else
       andThen (if status = ''published'' then andThen (open_release hs r) (\<lambda>_. ret ()) else ret ()) (\<lambda>_.
       andThen (set_release_row_status (gr_id r) status) (\<lambda>_.
       andThen (transaction_audit hs ''admin'' who product [] (''product.release.'' @ status)
         (Fields [(''release_id'', gr_id r)])) (\<lambda>_.
       ret r))))"

definition change_release_status :: "host \<Rightarrow> string \<Rightarrow> string \<Rightarrow> string \<Rightarrow> string \<Rightarrow> g_release site_act" where
  "change_release_status hs product i status who =
     (if status \<noteq> ''published'' \<and> status \<noteq> ''withdrawn'' then raise ErrInvalidRequest
      else andThen (with_tx (release_status_tx hs product i status who)) (\<lambda>r. ret (r\<lparr>gr_status := status\<rparr>)))"

definition trash_name :: "string \<Rightarrow> string" where "trash_name i = ''.trash-'' @ i"

text \<open>Whether the file was moved is part of the outcome, since it counts when the transaction fails.\<close>

definition delete_release_tx :: "host \<Rightarrow> string \<Rightarrow> string \<Rightarrow> string \<Rightarrow> unit site_act" where
  "delete_release_tx hs product i who =
     andThen (orElse (release_by_id i) ErrReleaseNotFound) (\<lambda>r.
     if gr_product r \<noteq> product \<or> gr_status r = ''deleted'' then raise ErrReleaseNotFound
     else if gr_status r = ''published'' then raise (AppError ''RELEASE_PUBLISHED'' 409)
     else
       andThen (rename_release_file i (trash_name i)) (\<lambda>_.
       andThen (set_release_row_status i ''deleted'') (\<lambda>_.
       transaction_audit hs ''admin'' who product [] ''product.release.delete''
         (ClaimsExtra [(''release_id'', CText i), (''sha256'', CText (gr_sha r)), (''size'', CInt (gr_size r))]))))"

definition delete_product_release :: "host \<Rightarrow> string \<Rightarrow> string \<Rightarrow> string \<Rightarrow> unit site_act" where
  "delete_product_release hs product i who =
     (if \<not> s_release_dir (ho_core hs) then raise ErrInvalidRequest
      else
        andThen (file_named i) (\<lambda>before.
        andThen (attempt (with_tx (delete_release_tx hs product i who))) (\<lambda>outcome.
        andThen (file_named i) (\<lambda>after.
        let moved = (before \<noteq> None \<and> after = None) in
        andThen
          (if \<not> moved then ret ()
           else
             andThen (attempt (release_by_id i)) (\<lambda>r.
             case r of
               Inl _ \<Rightarrow> ret ()
             | Inr v \<Rightarrow>
                 if gr_status v = ''deleted'' then remove_release_file (trash_name i)
                 else andThen (rename_release_file (trash_name i) i) (\<lambda>_. ret ()))) (\<lambda>_.
        pureA outcome)))))"

text \<open>
  \<open>CleanupReleaseTemps\<close>: files of uploads and deletions that are a day old. A file that a deletion moved away and
  whose release is still there goes back to its place, or stays if the place is taken.
\<close>

definition temp_prefixes :: "string list" where "temp_prefixes = [''.upload-'', ''.trash-'', ''.ready-'']"

definition cleanup_one :: "int \<Rightarrow> string \<Rightarrow> release_file \<Rightarrow> nat \<Rightarrow> nat site_act" where
  "cleanup_one now name f removed =
     (if \<not> list_ex (\<lambda>p. prefix p name) temp_prefixes \<or> now - rf_time f < 24 * hour then ret removed
      else
        andThen (if prefix ''.trash-'' name then optional (release_by_id (trim_prefix name ''.trash-'')) else ret None) (\<lambda>r.
        case r of
          Some v \<Rightarrow>
            if gr_status v \<noteq> ''deleted'' then
              andThen (file_named (gr_id v)) (\<lambda>original.
              andThen (if original = None then andThen (rename_release_file name (gr_id v)) (\<lambda>_. ret ()) else ret ()) (\<lambda>_.
              ret removed))
            else andThen (remove_release_file name) (\<lambda>_. ret (Suc removed))
        | None \<Rightarrow> andThen (remove_release_file name) (\<lambda>_. ret (Suc removed))))"

definition cleanup_release_temps :: "host \<Rightarrow> int \<Rightarrow> nat site_act" where
  "cleanup_release_temps hs now =
     (if \<not> s_release_dir (ho_core hs) then ret 0
      else
        andThen (reads st_files) (\<lambda>files.
        foldEach (sort_key fst files) 0 (\<lambda>(name, f) removed. cleanup_one now name f removed)))"

section \<open>Installations\<close>

text \<open>\<open>authorizeUpdate\<close>: the grace after the end of use does not count.\<close>

definition authorize_product_update :: "host \<Rightarrow> check_input \<Rightarrow> string site_act" where
  "authorize_product_update hs inp =
     andThen (verify_license hs (inp\<lparr>vi_skip_seat := True\<rparr>)) (\<lambda>v.
     if (case ly_expired v of None \<Rightarrow> False | Some e \<Rightarrow> \<not> now_of hs < e) then raise ErrLicenseExpired
     else if \<not> before_expiry (now_of hs) (ly_updates v) then raise (denied ''UPDATES_EXPIRED'')
     else
       andThen (product_for_app (check_input.vi_key inp)) (\<lambda>p.
       andThen (license_by_no (check_input.vi_no inp)) (\<lambda>l.
       andThen (enforce_security l True) (\<lambda>_.
       ret (gp_id p)))))"

text \<open>The newest of the published releases that fit and are newer than the current version.\<close>

definition best_release :: "g_release list \<Rightarrow> release_target option \<Rightarrow> string \<Rightarrow> g_release option" where
  "best_release rs target current =
     foldl (\<lambda>best r.
       if gr_status r = ''published'' \<and> build_matches r target current \<and> newer_version (gr_version r) current \<and>
         (case best of None \<Rightarrow> True | Some b \<Rightarrow> newer_version (gr_version r) (gr_version b))
       then Some r else best) None rs"

definition check_product_update ::
  "host \<Rightarrow> check_input \<Rightarrow> release_target option \<Rightarrow> string \<Rightarrow> (bool \<times> g_release option) site_act" where
  "check_product_update hs inp target current =
     (if \<not> version_ok current then raise ErrInvalidRequest
      else
        andThen (authorize_product_update hs inp) (\<lambda>i.
        andThen (product_updates i) (\<lambda>enabled.
        if \<not> enabled then ret (False, None)
        else andThen (release_rows i) (\<lambda>rs. ret (True, best_release rs target current)))))"

definition authorize_product_release ::
  "host \<Rightarrow> string \<Rightarrow> check_input \<Rightarrow> release_target option \<Rightarrow> string \<Rightarrow> g_release site_act" where
  "authorize_product_release hs i inp target current =
     andThen (authorize_product_update hs inp) (\<lambda>product.
     andThen (product_updates product) (\<lambda>enabled.
     if \<not> enabled then raise ErrUpdatesDisabled
     else
       andThen (orMissing (release_by_id i) ErrReleaseNotFound) (\<lambda>r.
       if gr_product r \<noteq> product \<or> gr_status r \<noteq> ''published'' \<or> \<not> build_matches r target current
       then raise ErrReleaseNotFound
       else andThen (authorize_product_update hs inp) (\<lambda>_. ret r))))"

definition download_product_release ::
  "host \<Rightarrow> string \<Rightarrow> check_input \<Rightarrow> release_target option \<Rightarrow> string \<Rightarrow> (g_release \<times> string) site_act" where
  "download_product_release hs i inp target current =
     andThen (authorize_product_release hs i inp target current) (\<lambda>r.
     andThen (open_release hs r) (\<lambda>data.
     andThen (authorize_product_update hs inp) (\<lambda>_.
     andThen (attempt (release_by_id (gr_id r))) (\<lambda>again.
     if (case again of Inl _ \<Rightarrow> True | Inr v \<Rightarrow> gr_status v \<noteq> ''published'') then raise ErrReleaseNotFound
     else
       andThen (product_updates (gr_product r)) (\<lambda>enabled.
       if \<not> enabled then raise ErrUpdatesDisabled
       else andThen (authorize_product_update hs inp) (\<lambda>_. ret (r, data)))))))"

section \<open>What is handed out\<close>

lemma open_release_run:
  assumes "open_release hs r s = (Inr data, t)"
  shows "t = s \<and> (\<exists>f. map_of (st_files s) (gr_id r) = Some f \<and> rf_data f = data) \<and>
    int (length data) = gr_size r \<and> sha_hex (ho_core hs) data = gr_sha r"
  using assms by (auto simp: open_release_def file_named_def run_iffs Let_def split: if_splits)

text \<open>A package that is handed out is the package of a published release of the product of the license, byte for byte the
  one whose size and hash the release records, and the license gave the right to it at that moment.\<close>

lemma download_release_run:
  assumes "download_product_release hs i inp target current s = (Inr (r, data), t)"
  shows "int (length data) = gr_size r \<and> sha_hex (ho_core hs) data = gr_sha r \<and> gr_status r = ''published'' \<and>
    build_matches r target current \<and> (\<exists>u p. authorize_product_update hs inp u = (Inr p, t))"
  using assms
  by (auto simp: download_product_release_def authorize_product_release_def run_iffs dest!: open_release_run split: if_splits)

lemma handled_run:
  "(case r of Inl e \<Rightarrow> f e | Inr y \<Rightarrow> g y) s = (Inr z, t) \<longleftrightarrow>
   (\<exists>e. r = Inl e \<and> f e s = (Inr z, t)) \<or> (\<exists>y. r = Inr y \<and> g y s = (Inr z, t))"
  by (cases r) auto

lemma audit_files: "transaction_audit hs kind who product license action x s = (Inr y, t) \<Longrightarrow> st_files t = st_files s"
  by (auto simp: transaction_audit_def insert_log_def run_iffs)

lemma upload_tx_files:
  "upload_release_tx hs r data who s = (Inr (), t) \<Longrightarrow> map_of (st_files t) (gr_id r) = Some \<lparr>rf_data = data, rf_time = now_of hs\<rparr>"
  by (auto simp: upload_release_tx_def run_iffs insert_release_def Let_def put_goods_def put_release_file_def product_by_id_def
      fetch_goods_def product_capacity_def look_goods_def stored_version_exists_def dest!: audit_files split: if_splits)

text \<open>A release that was uploaded is a draft whose package is in its file and whose manifest is signed with the key of the
  product.\<close>

lemma upload_release_run:
  assumes "upload_product_release hs inp content who s = (Inr r, t)"
  shows "\<exists>p pem. product_of (y_goods (st_db s)) (rx_product inp) = Some p \<and> opened hs (gp_private p) = Inr pem \<and>
    sign_json hs pem (signed_manifest r) = Inr (gr_token r) \<and> gr_product r = gp_id p \<and>
    gr_key_version r = gp_key_version p \<and> gr_status r = ''draft'' \<and> gr_sha r = sha_hex (ho_core hs) content \<and>
    gr_size r = int (length content) \<and> 0 < gr_size r \<and> gr_size r \<le> int max_package \<and> gr_version r = rx_version inp \<and>
    normalize_release_target (rx_target inp) = Inr (gr_target r) \<and>
    map_of (st_files t) (gr_id r) = Some \<lparr>rf_data = content, rf_time = now_of hs\<rparr>"
  using assms
  apply (clarsimp simp: upload_product_release_def run_iffs handled_run Let_def product_by_id_def fetch_goods_def release_rows_def look_goods_def
    split: if_splits)
  apply (drule upload_tx_files)
  apply (simp add: signed_manifest_def)
  done
end
