(* ===== verification/Spec2Isabelle.thy ===== *)
theory Spec2Isabelle
  imports Requests Execution LicenseEffects MeteredUse Validation TokenFacts RuntimeEffects
    Seats Credentials Ledger Orders Recovery Members Holder Query AppAccess Sessions Outbox
    Conduct KeyFiles ProductClient Packages
begin

text \<open>
  Verification of the application-scoped licensing core of the backend
  (\<open>src/backend/internal/licensing\<close>, with its store \<open>src/backend/internal/store/application_store.go\<close>
  and the identifiers of \<open>src/backend/internal/crypto/ids.go\<close>), of the accounts of the platform
  (\<open>src/backend/internal/service\<close> and \<open>store\<close>: administrators, customers, agents, recovery, mail), and of
  the first generation of licensing (products, cards, licenses, bindings, risk control, security cases, offline license
  files and releases in the same packages), and of the client side (\<open>src/sdk/go\<close> and the standard client of
  \<open>src/examples/universal-client\<close>).

  \<^bold>\<open>The program.\<close> A vendor registers applications. Each has signing keys, plans, licenses, card keys,
  binding rules and anchors, activations (installations), orders, sales channels, agent grants, releases
  and an audit log. Handlers (the methods of \<open>Service\<close>) authenticate the caller, bind the request to one
  application, and run one transaction on the rows of that application; a transaction that changes
  anything must append an audit event, and the events of an application form a hash chain. Installations
  prove possession of an Ed25519 key with every request and receive RS256 tokens.

  \<^bold>\<open>Theories, in the order of the code's layers.\<close>
  \<^item> \<open>Prelude\<close>: computations over a state that may fail (\<open>andThen\<close>, \<open>raise\<close>, \<open>attempt\<close>, ...), the rules
    \<open>run_iffs\<close> for their successful runs, and \<open>via\<close> (a computation is a sequence of steps); 64-bit
    arithmetic (\<open>i64\<close>, \<open>go_div\<close>).
  \<^item> \<open>Golib\<close>, \<open>Netaddr\<close>: what the code uses of Go's library: strings, Base64/Base32/hex, decimal
    numbers, calendar months, instants in nanoseconds; IP addresses.
  \<^item> \<open>Model\<close>: the records of \<open>model.go\<close> and the errors of \<open>access.go\<close>.
  \<^item> \<open>Store\<close>, \<open>Tables\<close>, \<open>Transaction\<close>: the scoped repository of \<open>application_store.go\<close>: scopes and
    handles, \<open>coreSpecs\<close> as tables, the generic operations (\<open>coreReader\<close>, \<open>coreWriter\<close>) with the interface
    \<open>keyed_table\<close>/\<open>stored_table\<close> that every table implements, transactions, the audit chain, agent accounts.
  \<^item> \<open>Steps\<close>: a transaction as a sequence of elementary steps, and what every step keeps.
  \<^item> \<open>Platform\<close>, \<open>Effects\<close>: the service object (\<open>svc\<close>), identifiers, audit events, roles, the contexts
    that tie a request to an application; \<open>world_step\<close>, one transaction seen from outside; the tables as
    maps from identifiers to rows.
  \<^item> \<open>Policy\<close> (policy.go), \<open>Binding\<close> (binding.go), \<open>Access\<close> (access.go, developers.go), \<open>Tokens\<close> (jwt.go,
    keys.go), \<open>Renewal\<close> (redeemRenewal, startLicense, renewal_ledger.go), \<open>Runtime\<close> (runtime.go),
    \<open>Lifecycle\<close> (lifecycle.go), \<open>Installations\<close> (installations.go, customers.go), \<open>Catalog\<close> (catalog.go),
    \<open>Sales\<close> (sales.go), \<open>Agents\<close> (agents.go), \<open>Updates\<close> (updates.go), \<open>Public\<close> (public.go, security.go):
    one group of definitions per source file, one definition per handler, with its guards in the order
    of the code.
  \<^item> \<open>Sample\<close>, \<open>Execution\<close>: a small concrete service and database, and the equations that run a handler
    on it by rewriting; the witnesses use them.
  \<^item> \<open>Outcomes\<close>: what a successful run of the shared operations means (the collection \<open>outcome\<close>).
  \<^item> Theories of properties: \<open>AuditTrail\<close> (the audit chain and its check), \<open>LicenseEffects\<close> (status
    changes, rebinding), \<open>MeteredUse\<close> (quota, idempotence), \<open>Validation\<close> (terms, applications, hosts,
    usability), \<open>TokenFacts\<close> (JWT, key rotation), \<open>RuntimeEffects\<close> (nonces, token times, verification),
    \<open>Seats\<close> (limits of a license), \<open>Credentials\<close> (application secrets), \<open>Ledger\<close> (renewals and refunds), \<open>Orders\<close> (what an order issues).
  \<^item> The accounts: \<open>Accounts\<close> (domain/*.go, errors.go: records, errors, the state \<open>site\<close>, the environment
    \<open>host\<close>, reading and writing), \<open>Directory\<close> (one definition per statement of sqlite.go, customers.go,
    agent_identity.go, recovery.go, captcha.go, admin_mfa.go, email.go; the log), \<open>SignIn\<close> (admin_auth.go,
    admin_login.go, admin_mfa.go, captcha.go), \<open>Mail\<close> (email.go, outbox.go, site_settings.go), \<open>Recovery\<close>
    (recovery.go), \<open>Members\<close> (customers.go, agent_identity.go, agent_auth.go, operations.go). Their
    properties: \<open>Sessions\<close> (logins, ends of sessions, second step, CAPTCHA), \<open>Outbox\<close> (the mail queue), with
    the witnesses on \<open>AccountSample\<close>.
  \<^item> The first generation: \<open>Goods\<close> (domain/*.go: products, cards, licenses and what hangs on them, as tables of
    the same \<open>site\<close>), \<open>Cards\<close> (crypto/cards.go, ids.go: card codes with their checksum, keyed hashes), \<open>Stock\<close>
    and \<open>Rights\<close> (one definition per statement of sqlite.go, authorization.go, entitlements.go, customers.go,
    developers.go, application_credentials.go), \<open>Conditions\<close> (authorization_terms.go, entitlements.go,
    binding_subjects.go: terms, expiry, values and patterns of bindings), \<open>Masks\<close> (what is shown of a secret
    value), \<open>Guard\<close> (security.go), \<open>Risk\<close> (risk_control.go), \<open>Installs\<close> (installations.go,
    installation_management.go, online_state.go, the guard of customers.go), \<open>Classic\<close> (service.go: activation,
    verification, heartbeat, renewal, unbinding, the signed answer), \<open>Lease\<close> (installations.go: seats, claims),
    \<open>Office\<close> (service.go, card_management.go, license_listing.go and others: products, batches, agents' policies and
    quotas, administration of licenses), \<open>Trade\<close> (commerce.go, agent_tiers.go: packages, prices, balances, card
    orders), \<open>Holder\<close> (customers.go: what the owner of a license does), \<open>Query\<close> (the public query), \<open>AppAccess\<close>
    (application_credentials.go). Their properties: \<open>CodeWords\<close> (card codes that are issued are accepted), \<open>Books\<close>
    (the loop that draws codes ends; the accounts of agents refine books of entries), \<open>Conduct\<close> (unbound values,
    well-formed terms). \<open>OfflineFiles\<close> (offline_licenses.go, signing.go: files signed for one machine) and \<open>Packages\<close>
    (releases.go, release_targets.go, release_delete.go, resources.go, store/releases.go, release_capacity.go: packages
    with their files, quotas and places for uploads and downloads).
  \<^item> The client side: \<open>Sdk\<close> (sdk/go/offline.go, highwater.go, updates.go: what a client checks without the server),
    \<open>SdkClient\<close> (client.go, updates.go, types.go, installation.go: requests and answers, the identity of an installation,
    over a network and a directory that are parameters and state), \<open>ProductClient\<close> (universal-client/main.go: one
    definition per command, a run of the program, pages shown under a license). \<open>KeyFiles\<close> puts server and client
    together: files the server issued are accepted where and while they should be, updates are authentic.
  \<^item> \<open>Requests\<close>: every handler as one step of the system; here: the properties of the whole.

  \<^bold>\<open>How state and operations correspond.\<close> A table of the database is a list of rows (\<open>db\<close>); a row carries
  its application (\<open>r_app\<close>) and its identifier (\<open>r_id\<close>). SQL constraints (primary key, unique columns,
  foreign keys, checks on balances) are conditions of the writes. \<open>Update\<close> is \<open>update cx sc body\<close>: scope
  check, application lock, body, commit if an audit event was written or nothing changed, roll back
  otherwise. A Go error is a value of \<open>err\<close>; Go's \<open>if e != nil\<close> is \<open>andThen\<close>, and the places where the
  code replaces or inspects an error are \<open>orElse\<close> and \<open>attempt\<close>.

  \<^bold>\<open>What comes from outside.\<close> \<open>svc\<close> holds the functions that the code calls and does not define:
  cryptographic primitives, JSON encoders, Unicode tables, IDNA, the public suffix list, the clock, and
  the bytes of the random source; \<open>host\<close> adds what the accounts use, \<open>sdk\<close>, \<open>codec\<close> and \<open>program\<close> what the client side uses. Nothing is assumed of them unless a theorem says so.

  \<^bold>\<open>Bounds and fuel.\<close> Integers that the code keeps in 64 bits are wrapped with \<open>i64\<close> where an operation may
  leave the range; instants are nanoseconds in \<open>int\<close> (Go's \<open>time.Time\<close> has a range of its own far beyond the
  values reachable here). \<open>check_pages\<close> and \<open>card_pages\<close> take the number of rows, plus one, as fuel: every
  round but the last reads at least one row. \<open>compare_numbers\<close> takes the number of version parts.
  \<open>draw_cards\<close>, the loop that draws card codes until they are as many different ones as were ordered, takes the
  number of draws as fuel, which the handlers pass on: with random codes no number of draws is enough in all cases,
  and \<open>out_of_draws\<close> is the value of a loop that has not ended; \<open>card_batch_ends\<close> says when it ends.

  \<^bold>\<open>Not modelled.\<close> The HTTP transport (\<open>httpapi\<close>); reminders, statistics, archives of the log and first-run setup
  of the first generation (the rest of \<open>service\<close> and \<open>store\<close>); configuration, the texts of mails, the drawing of CAPTCHA
  pictures, backups, the integration kit generator and the front end; failures of the file system other than a missing
  file; failures of the database driver and of the random source; that the accounts of agents are one table for
  both generations (the licensing core and the first generation keep their own copy here); concurrency beyond the row
  locks, since every transaction of the store takes the application lock first and is serializable.
\<close>

section \<open>The system as a whole\<close>

text \<open>C1. Whatever requests are served, in whatever order, for whatever callers, and whether they
  succeed or fail: identifiers stay unique in every table, agent balances stay between zero and their
  limit, every application keeps its audit head, and the audit log of every application stays a chain
  of authenticated events that ends in that head.\<close>

theorem service_invariant:
  assumes "(request sv)\<^sup>*\<^sup>* s t" and "service_ok sv (w_db s)"
  shows "db_ids_ok (w_db t) \<and> balances_ok (w_db t) \<and> heads_ok (w_db t) \<and>
    (\<forall>app. chain_ok (audit_sign sv) app (w_db t))"
  using service_ok_reach [OF assms] by (simp add: service_ok_def)

definition sample_call :: world where
  "sample_call =
     snd (set_license_status sample_svc sample_admin ''yn1'' ''lic_1'' ''suspended'' ''reason'' (sample_world sample_db))"

lemma sample_call_request: "app_request sample_svc ''yn1'' (sample_world sample_db) sample_call"
  unfolding sample_call_def by (rule app_request.set_status, rule prod.collapse [symmetric])

lemma sample_call_reached: "(request sample_svc)\<^sup>*\<^sup>* (sample_world sample_db) sample_call"
  by (rule r_into_rtranclp, rule request.one, rule sample_call_request)

lemma sample_world_ok: "service_ok sample_svc (w_db (sample_world sample_db))"
  using sample_service_ok by (simp add: sample_world_def)

lemma service_invariant_witness:
  "db_ids_ok (w_db sample_call) \<and> (\<forall>app. chain_ok (audit_sign sample_svc) app (w_db sample_call))"
  using service_invariant [OF sample_call_reached sample_world_ok] by blast

text \<open>C2. In every state the service reaches, \<open>AuditIntegrity\<close> reports a valid log to everyone who may
  read the application.\<close>

theorem audit_integrity_reachable:
  assumes "(request sv)\<^sup>*\<^sup>* s t" and "service_ok sv (w_db s)" and "may_enter cx i False app t"
    and "int (length (in_app i (d_audit (w_db t)))) < 2 ^ 63"
  shows "\<exists>r. audit_integrity sv cx i t = (Inr r, t) \<and> ig_valid r"
proof -
  have ok: "service_ok sv (w_db t)" by (rule service_ok_reach [OF assms(1,2)])
  from assms(3) have "app \<in> set (d_apps (w_db t))" "r_app app = i"
    by (auto simp: may_enter_def dest: find_app_SomeD)
  with ok obtain head where head: "find_head (w_db t) i = Some head"
    by (auto simp: service_ok_def heads_ok_def list_all_iff)
  with ok have c: "chain (audit_sign sv) \<lparr>hd_sequence = 0, hd_hash = []\<rparr> (in_app i (d_audit (w_db t))) = Some head"
    by (simp add: service_ok_def chain_ok_def split: option.splits)
  then have l: "audit_log (w_db t) i = in_app i (d_audit (w_db t))"
    using assms(4) by (intro audit_log_chain) auto
  with c assms(4) audit_integrity_run [OF assms(3) head, of sv] show ?thesis by auto
qed

lemma sample_call_facts:
  "may_enter sample_admin ''yn1'' False sample_app sample_call"
  "length (in_app ''yn1'' (d_audit (w_db sample_call))) = 1"
  by (simp_all add: sample_call_def set_license_status_def license_statuses_def may_enter_def exec cong: exec_cong)

lemma audit_integrity_reachable_witness:
  "\<exists>r. audit_integrity sample_svc sample_admin ''yn1'' sample_call = (Inr r, sample_call) \<and> ig_valid r"
  by (rule audit_integrity_reachable [OF sample_call_reached sample_world_ok sample_call_facts(1)])
     (simp add: sample_call_facts)

text \<open>C3. A request on one application changes nothing that belongs to another one.\<close>

theorem request_isolation:
  assumes "app_request sv app s t" and "other \<noteq> app"
  shows "only_app other (w_db t) = only_app other (w_db s)"
  using app_request_steps [OF assms(1)] assms(2)
  by (induction rule: rtranclp_induct) (auto simp: world_foreign)

lemma request_isolation_witness:
  "only_app ''yn2'' (w_db sample_call) = only_app ''yn2'' (w_db (sample_world sample_db))"
  by (rule request_isolation [OF sample_call_request]) simp

text \<open>C4. The audit log only grows, and no request changes anything without leaving an event in it.\<close>

theorem request_audited:
  assumes "request sv s t"
  shows "prefix (d_audit (w_db s)) (d_audit (w_db t)) \<and>
    (w_db t = w_db s \<or> length (d_audit (w_db s)) < length (d_audit (w_db t)))"
proof -
  have "audited (w_db s) (w_db t)"
    by (rule request_keeps [OF assms, where I = "\<lambda>u. audited (w_db s) (w_db u)"])
       (auto simp: audited_def [of "w_db s" "w_db s"] intro: audited_trans world_audited)
  then show ?thesis by (simp add: audited_def)
qed

lemma request_audited_witness:
  "prefix (d_audit sample_db) (d_audit (w_db sample_call))"
  using request_audited [OF request.one [OF sample_call_request]] by (simp add: sample_world_def)

end
